(* ===== verification/Vault_Prelude.thy ===== *)
theory Vault_Prelude
  imports Main "HOL-Library.Word" "HOL-Library.Signed_Division"
begin

text \<open>
  Prelude of the development: Rust's fixed-width integer operations written over \<open>int\<close> and
  \<open>nat\<close>, the result type of the contract's functions, the state-passing actions in which the
  stateful operations are written, and the interfaces (locales) the components share.

  A Rust function that returns a \<open>Result\<close> and may touch storage is an action
  \<open>'s \<Rightarrow> ('e, 'a) outcome \<times> 's\<close>. An \<open>Err\<close> keeps the writes made before it (the caller may
  catch it); the transaction boundary \<open>tx\<close> is where the host rolls them back.
\<close>

named_theorems act_run \<open>equations that run an action on a concrete state\<close>
named_theorems act_ok \<open>what it means that an action returned \<open>Ok\<close>\<close>
named_theorems pres_intro \<open>an action preserves an invariant, whatever it returns\<close>
named_theorems keeps_intro \<open>an action leaves a component of the state unchanged\<close>

section \<open>Fixed-width integers\<close>

text \<open>\<open>i128\<close> values are \<open>int\<close>; unsigned values are \<open>nat\<close>. The bounds are written out.\<close>

definition i128_max :: int where "i128_max = 2 ^ 127 - 1"
definition i128_min :: int where "i128_min = - (2 ^ 127)"
definition u64_max :: nat where "u64_max = 2 ^ 64 - 1"
definition u32_max :: nat where "u32_max = 2 ^ 32 - 1"
definition u128_max :: nat where "u128_max = 2 ^ 128 - 1"

definition fits_i128 :: "int \<Rightarrow> bool" where
  "fits_i128 x \<longleftrightarrow> i128_min \<le> x \<and> x \<le> i128_max"

text \<open>Unchecked operators in the release profile (no \<open>overflow-checks\<close>) wrap around.\<close>

definition wrap_i128 :: "int \<Rightarrow> int" where
  "wrap_i128 x = signed_take_bit 127 x"

text \<open>Rust's \<open>/\<close> and \<open>%\<close> on signed integers truncate towards zero.\<close>

definition tdiv :: "int \<Rightarrow> int \<Rightarrow> int" where
  "tdiv a b = a sdiv b"

definition tmod :: "int \<Rightarrow> int \<Rightarrow> int" where
  "tmod a b = a smod b"

definition sat_i128 :: "int \<Rightarrow> int" where
  "sat_i128 x = max i128_min (min i128_max x)"

definition sat_add_u64 :: "nat \<Rightarrow> nat \<Rightarrow> nat" where
  "sat_add_u64 a b = min u64_max (a + b)"

definition sat_mul_u64 :: "nat \<Rightarrow> nat \<Rightarrow> nat" where
  "sat_mul_u64 a b = min u64_max (a * b)"

definition sat_add_u32 :: "nat \<Rightarrow> nat \<Rightarrow> nat" where
  "sat_add_u32 a b = min u32_max (a + b)"

definition checked_add_u64 :: "nat \<Rightarrow> nat \<Rightarrow> nat option" where
  "checked_add_u64 a b = (if a + b \<le> u64_max then Some (a + b) else None)"

definition checked_mul_u64 :: "nat \<Rightarrow> nat \<Rightarrow> nat option" where
  "checked_mul_u64 a b = (if a * b \<le> u64_max then Some (a * b) else None)"

definition checked_add_u32 :: "nat \<Rightarrow> nat \<Rightarrow> nat option" where
  "checked_add_u32 a b = (if a + b \<le> u32_max then Some (a + b) else None)"

definition checked_add_i128 :: "int \<Rightarrow> int \<Rightarrow> int option" where
  "checked_add_i128 a b = (if fits_i128 (a + b) then Some (a + b) else None)"

definition checked_sub_i128 :: "int \<Rightarrow> int \<Rightarrow> int option" where
  "checked_sub_i128 a b = (if fits_i128 (a - b) then Some (a - b) else None)"

definition checked_mul_i128 :: "int \<Rightarrow> int \<Rightarrow> int option" where
  "checked_mul_i128 a b = (if fits_i128 (a * b) then Some (a * b) else None)"

lemmas int_bounds = i128_max_def i128_min_def u64_max_def u32_max_def u128_max_def fits_i128_def

lemma wrap_i128_id [simp]: "fits_i128 x \<Longrightarrow> wrap_i128 x = x"
  by (simp add: wrap_i128_def fits_i128_def i128_min_def i128_max_def
      signed_take_bit_int_eq_self)

lemma fits_wrap_i128 [simp]: "fits_i128 (wrap_i128 x)"
  using signed_take_bit_int_greater_eq_minus_exp [of 127 x] signed_take_bit_int_less_exp [of 127 x]
  by (simp add: wrap_i128_def fits_i128_def i128_min_def i128_max_def)

lemma sat_i128_id [simp]: "fits_i128 x \<Longrightarrow> sat_i128 x = x"
  by (simp add: sat_i128_def fits_i128_def)

lemma fits_sat_i128 [simp]: "fits_i128 (sat_i128 x)"
  by (auto simp: sat_i128_def fits_i128_def i128_min_def i128_max_def)

lemma fits_i128_0 [simp]: "fits_i128 0"
  by (simp add: fits_i128_def i128_min_def i128_max_def)

lemma fits_i128_between: "fits_i128 b \<Longrightarrow> 0 \<le> a \<Longrightarrow> a \<le> b \<Longrightarrow> fits_i128 a"
  by (simp add: fits_i128_def i128_min_def)

lemma fits_i128_diff: "fits_i128 a \<Longrightarrow> 0 \<le> b \<Longrightarrow> b \<le> a \<Longrightarrow> fits_i128 (a - b)"
  by (simp add: fits_i128_def i128_min_def)

lemma tdiv_nonneg: "0 \<le> a \<Longrightarrow> 0 < b \<Longrightarrow> tdiv a b = a div b"
  by (auto simp: tdiv_def signed_divide_int_def sgn_if)

lemma tmod_nonneg: "0 \<le> a \<Longrightarrow> 0 < b \<Longrightarrow> tmod a b = a mod b"
  by (auto simp: tmod_def signed_modulo_int_def signed_divide_int_def sgn_if minus_mult_div_eq_mod mult.commute)

section \<open>Outcomes and actions\<close>

datatype ('e, 'a) outcome = Ok 'a | Err 'e | Panic

type_synonym ('s, 'e, 'a) act = "'s \<Rightarrow> ('e, 'a) outcome \<times> 's"

definition ret :: "'a \<Rightarrow> ('s, 'e, 'a) act" where
  "ret a = (\<lambda>s. (Ok a, s))"

definition fail :: "'e \<Rightarrow> ('s, 'e, 'a) act" where
  "fail e = (\<lambda>s. (Err e, s))"

definition panic :: "('s, 'e, 'a) act" where
  "panic = (\<lambda>s. (Panic, s))"

definition bnd :: "('s, 'e, 'a) act \<Rightarrow> ('a \<Rightarrow> ('s, 'e, 'b) act) \<Rightarrow> ('s, 'e, 'b) act" where
  "bnd m f = (\<lambda>s. case m s of
       (Ok a, t) \<Rightarrow> f a t
     | (Err e, t) \<Rightarrow> (Err e, t)
     | (Panic, t) \<Rightarrow> (Panic, t))"

definition thn :: "('s, 'e, 'a) act \<Rightarrow> ('s, 'e, 'b) act \<Rightarrow> ('s, 'e, 'b) act" where
  "thn m n = bnd m (\<lambda>_. n)"

definition gets :: "('s \<Rightarrow> 'a) \<Rightarrow> ('s, 'e, 'a) act" where
  "gets f = (\<lambda>s. (Ok (f s), s))"

definition modify :: "('s \<Rightarrow> 's) \<Rightarrow> ('s, 'e, unit) act" where
  "modify f = (\<lambda>s. (Ok (), f s))"

definition lift :: "('e, 'a) outcome \<Rightarrow> ('s, 'e, 'a) act" where
  "lift r = (\<lambda>s. (r, s))"

text \<open>\<open>check c e\<close> is \<open>if !c { return Err(e) }\<close>; \<open>ok_or\<close> is Rust's \<open>Option::ok_or\<close> with \<open>?\<close>.\<close>

definition check :: "bool \<Rightarrow> 'e \<Rightarrow> ('s, 'e, unit) act" where
  "check c e = (if c then ret () else fail e)"

definition ok_or :: "'a option \<Rightarrow> 'e \<Rightarrow> ('s, 'e, 'a) act" where
  "ok_or x e = (case x of None \<Rightarrow> fail e | Some a \<Rightarrow> ret a)"

text \<open>\<open>attempt\<close> matches on the \<open>Result\<close> instead of propagating it with \<open>?\<close>.\<close>

definition attempt :: "('s, 'e, 'a) act \<Rightarrow> ('s, 'e, 'e + 'a) act" where
  "attempt m = (\<lambda>s. case m s of
       (Ok a, t) \<Rightarrow> (Ok (Inr a), t)
     | (Err e, t) \<Rightarrow> (Ok (Inl e), t)
     | (Panic, t) \<Rightarrow> (Panic, t))"

text \<open>The transaction boundary: a failed or panicking invocation leaves no trace.\<close>

definition tx :: "('s, 'e, 'a) act \<Rightarrow> ('s, 'e, 'a) act" where
  "tx m = (\<lambda>s. case m s of
       (Ok a, t) \<Rightarrow> (Ok a, t)
     | (Err e, _) \<Rightarrow> (Err e, s)
     | (Panic, _) \<Rightarrow> (Panic, s))"

primrec each :: "('x \<Rightarrow> ('s, 'e, unit) act) \<Rightarrow> 'x list \<Rightarrow> ('s, 'e, unit) act" where
  "each f [] = ret ()"
| "each f (x # xs) = thn (f x) (each f xs)"

text \<open>Running an action of a component's store inside the whole state.\<close>

definition zoom :: "('s \<Rightarrow> 't) \<Rightarrow> (('t \<Rightarrow> 't) \<Rightarrow> 's \<Rightarrow> 's) \<Rightarrow> ('t, 'e, 'a) act \<Rightarrow> ('s, 'e, 'a) act" where
  "zoom g u m = (\<lambda>s. case m (g s) of (r, t) \<Rightarrow> (r, u (\<lambda>_. t) s))"

lemma run_simps [act_run]:
  "ret a s = (Ok a, s)" "fail e s = (Err e, s)" "panic s = (Panic, s)"
  "gets f s = (Ok (f s), s)" "modify h s = (Ok (), h s)" "lift r s = (r, s)"
  by (simp_all add: ret_def fail_def panic_def gets_def modify_def lift_def)

lemma bnd_run [act_run]:
  "bnd m f s = (case m s of (Ok a, t) \<Rightarrow> f a t | (Err e, t) \<Rightarrow> (Err e, t) | (Panic, t) \<Rightarrow> (Panic, t))"
  by (simp add: bnd_def)

lemmas more_run [act_run] = thn_def check_def ok_or_def attempt_def zoom_def tx_def

lemma bnd_ret [simp]: "bnd (ret a) f = f a"
  by (simp add: bnd_def ret_def)

lemma bnd_fail [simp]: "bnd (fail e) f = fail e"
  by (simp add: bnd_def fail_def)

lemma bnd_panic [simp]: "bnd panic f = panic"
  by (simp add: bnd_def panic_def)

lemma bnd_assoc: "bnd (bnd m f) g = bnd m (\<lambda>x. bnd (f x) g)"
  by (auto simp: bnd_def fun_eq_iff split: prod.splits outcome.splits)

lemma thn_ret [simp]: "thn (ret a) n = n"
  by (simp add: thn_def)

lemma check_simps [simp]: "check True e = ret ()" "check False e = fail e"
  by (simp_all add: check_def)

lemma ok_or_simps [simp]: "ok_or (Some a) e = ret a" "ok_or None e = fail e"
  by (simp_all add: ok_or_def)

text \<open>Inversion of a successful run.\<close>

lemma bnd_ok [act_ok]:
  "bnd m f s = (Ok b, t) \<longleftrightarrow> (\<exists>a u. m s = (Ok a, u) \<and> f a u = (Ok b, t))"
  by (auto simp: bnd_def split: prod.splits outcome.splits)

lemma thn_ok [act_ok]:
  "thn m n s = (Ok b, t) \<longleftrightarrow> (\<exists>a u. m s = (Ok a, u) \<and> n u = (Ok b, t))"
  by (simp add: thn_def bnd_ok)

lemma bnd_okE:
  "bnd m f s = (Ok b, t) \<Longrightarrow> (\<And>a u. m s = (Ok a, u) \<Longrightarrow> f a u = (Ok b, t) \<Longrightarrow> P) \<Longrightarrow> P"
  by (auto simp: bnd_ok)

lemma thn_okE:
  "thn m n s = (Ok b, t) \<Longrightarrow> (\<And>a u. m s = (Ok a, u) \<Longrightarrow> n u = (Ok b, t) \<Longrightarrow> P) \<Longrightarrow> P"
  by (auto simp: thn_ok)

lemma basic_ok [act_ok]:
  "ret a s = (Ok b, t) \<longleftrightarrow> b = a \<and> t = s"
  "fail e s = (Ok b, t) \<longleftrightarrow> False"
  "panic s = (Ok b, t) \<longleftrightarrow> False"
  "gets g s = (Ok b, t) \<longleftrightarrow> b = g s \<and> t = s"
  "modify h s = (Ok b', t) \<longleftrightarrow> t = h s"
  "lift r s = (Ok b, t) \<longleftrightarrow> r = Ok b \<and> t = s"
  "check c e s = (Ok b', t) \<longleftrightarrow> c \<and> t = s"
  "ok_or x e s = (Ok b, t) \<longleftrightarrow> x = Some b \<and> t = s"
  by (auto simp: run_simps check_def ok_or_def split: option.splits)

lemma attempt_ok [act_ok]:
  "attempt m s = (Ok r, t) \<longleftrightarrow>
     (case r of Inl e \<Rightarrow> m s = (Err e, t) | Inr a \<Rightarrow> m s = (Ok a, t))"
  by (cases "m s"; cases "fst (m s)"; cases r) (auto simp: attempt_def)

lemma tx_ok [act_ok]: "tx m s = (Ok a, t) \<longleftrightarrow> m s = (Ok a, t)"
  by (auto simp: tx_def split: prod.splits outcome.splits)

lemma zoom_ok [act_ok]:
  "zoom g u m s = (Ok a, t) \<longleftrightarrow> (\<exists>t'. m (g s) = (Ok a, t') \<and> t = u (\<lambda>_. t') s)"
  by (auto simp: zoom_def split: prod.splits)

lemma tx_cases:
  obtains "snd (tx m s) = s" | a where "m s = (Ok a, snd (tx m s))"
proof (cases "m s")
  case (Pair r t)
  with that show ?thesis by (cases r) (simp_all add: tx_def)
qed

lemma tx_invariant:
  assumes "\<And>a t. m s = (Ok a, t) \<Longrightarrow> P t" and "P s"
  shows "P (snd (tx m s))"
  by (cases rule: tx_cases [of m s]) (use assms in auto)

lemma tx_atomic: "(\<exists>a. fst (tx m s) = Ok a) \<or> snd (tx m s) = s"
  by (auto simp: tx_def split: prod.splits outcome.splits)

section \<open>Frames\<close>

definition keeps :: "('s \<Rightarrow> 'g) \<Rightarrow> ('s, 'e, 'a) act \<Rightarrow> bool" where
  "keeps g m \<longleftrightarrow> (\<forall>s. g (snd (m s)) = g s)"

lemma keepsD: "keeps g m \<Longrightarrow> m s = (r, t) \<Longrightarrow> g t = g s"
  by (metis keeps_def snd_conv)

lemma keeps_basic [keeps_intro]:
  "keeps g (ret a)" "keeps g (fail e)" "keeps g panic" "keeps g (gets h)" "keeps g (lift r)"
  "keeps g (check c e)" "keeps g (ok_or x e)"
  by (auto simp: keeps_def run_simps check_def ok_or_def split: option.splits)

lemma keeps_bnd [keeps_intro]:
  "keeps g m \<Longrightarrow> (\<And>a. keeps g (f a)) \<Longrightarrow> keeps g (bnd m f)"
  by (auto simp: keeps_def bnd_def split: prod.splits outcome.splits) (metis snd_conv)+

lemma keeps_thn [keeps_intro]: "keeps g m \<Longrightarrow> keeps g n \<Longrightarrow> keeps g (thn m n)"
  by (simp add: thn_def keeps_bnd)

lemma keeps_modify [keeps_intro]: "(\<And>s. g (h s) = g s) \<Longrightarrow> keeps g (modify h)"
  by (simp add: keeps_def run_simps)

lemma keeps_if [keeps_intro]: "keeps g m \<Longrightarrow> keeps g n \<Longrightarrow> keeps g (if c then m else n)"
  by simp

lemma keeps_option [keeps_intro]:
  "keeps g m \<Longrightarrow> (\<And>a. keeps g (f a)) \<Longrightarrow> keeps g (case x of None \<Rightarrow> m | Some a \<Rightarrow> f a)"
  by (cases x) simp_all

lemma keeps_sum [keeps_intro]:
  "(\<And>a. keeps g (f a)) \<Longrightarrow> (\<And>b. keeps g (h b)) \<Longrightarrow> keeps g (case x of Inl a \<Rightarrow> f a | Inr b \<Rightarrow> h b)"
  by (cases x) simp_all

lemma keeps_prod [keeps_intro]:
  "(\<And>a b. keeps g (f a b)) \<Longrightarrow> keeps g (case x of (a, b) \<Rightarrow> f a b)"
  by (cases x) simp

lemma keeps_attempt [keeps_intro]: "keeps g m \<Longrightarrow> keeps g (attempt m)"
  by (auto simp: keeps_def attempt_def split: prod.splits outcome.splits) (metis snd_conv)+

lemma keeps_tx [keeps_intro]: "keeps g m \<Longrightarrow> keeps g (tx m)"
  by (auto simp: keeps_def tx_def split: prod.splits outcome.splits) (metis snd_conv)+

lemma keeps_each [keeps_intro]: "(\<And>x. keeps g (f x)) \<Longrightarrow> keeps g (each f xs)"
  by (induction xs) (auto intro: keeps_intro)

lemma keeps_zoom [keeps_intro]:
  "(\<And>s v. h (u (\<lambda>_. v) s) = h s) \<Longrightarrow> keeps h (zoom g u m)"
  by (auto simp: keeps_def zoom_def split: prod.splits)

section \<open>Invariants\<close>

definition pres :: "('s \<Rightarrow> bool) \<Rightarrow> ('s, 'e, 'a) act \<Rightarrow> bool" where
  "pres P m \<longleftrightarrow> (\<forall>s. P s \<longrightarrow> P (snd (m s)))"

lemma presD: "pres P m \<Longrightarrow> m s = (r, t) \<Longrightarrow> P s \<Longrightarrow> P t"
  by (metis pres_def snd_conv)

lemma pres_keeps: "keeps g m \<Longrightarrow> (\<And>s t. g t = g s \<Longrightarrow> P s \<Longrightarrow> P t) \<Longrightarrow> pres P m"
  by (auto simp: keeps_def pres_def)

text \<open>What follows an action may rely on the action having returned \<open>Ok\<close>.\<close>

lemma pres_bnd:
  assumes "pres P m" and "\<And>a s t. P s \<Longrightarrow> m s = (Ok a, t) \<Longrightarrow> pres P (f a)"
  shows "pres P (bnd m f)"
  unfolding pres_def
proof (intro allI impI)
  fix s
  assume P: "P s"
  obtain r t where run: "m s = (r, t)" by (cases "m s")
  from presD [OF assms(1) run P] have "P t" .
  with run assms(2) [OF P] show "P (snd (bnd m f s))"
    by (cases r) (auto simp: bnd_def pres_def)
qed

lemma pres_thn: "pres P m \<Longrightarrow> pres P n \<Longrightarrow> pres P (thn m n)"
  unfolding thn_def by (rule pres_bnd)

lemma pres_basic [pres_intro]:
  "pres P (ret a)" "pres P (fail e)" "pres P panic" "pres P (gets h)" "pres P (lift r)"
  "pres P (check c e)" "pres P (ok_or x e)"
  by (auto simp: pres_def run_simps check_def ok_or_def split: option.splits)

lemma pres_modify: "(\<And>s. P s \<Longrightarrow> P (h s)) \<Longrightarrow> pres P (modify h)"
  by (simp add: pres_def run_simps)

lemma pres_if: "(c \<Longrightarrow> pres P m) \<Longrightarrow> (\<not> c \<Longrightarrow> pres P n) \<Longrightarrow> pres P (if c then m else n)"
  by simp

lemma pres_attempt: "pres P m \<Longrightarrow> pres P (attempt m)"
  by (auto simp: pres_def attempt_def split: prod.splits outcome.splits)

lemma pres_tx: "pres P m \<Longrightarrow> pres P (tx m)"
  by (auto simp: pres_def tx_def split: prod.splits outcome.splits)

end
