(* ===== verification/Vault_Types.thy ===== *)
theory Vault_Types
  imports Vault_Prelude
begin

text \<open>
  The contract's data types (\<^verbatim>\<open>src/types.rs\<close>): addresses, symbols, the error codes, the
  subscription record and its status, the billing records and the merchant records. Field names
  carry a short prefix of their struct; constructors of \<open>Error\<close> carry the prefix \<open>E_\<close>.
\<close>

section \<open>Addresses, symbols, bytes\<close>

datatype address = Addr nat

primrec addr_id :: "address \<Rightarrow> nat" where
  "addr_id (Addr n) = n"

instantiation address :: linorder
begin

definition less_eq_address :: "address \<Rightarrow> address \<Rightarrow> bool" where
  "less_eq_address a b \<longleftrightarrow> addr_id a \<le> addr_id b"

definition less_address :: "address \<Rightarrow> address \<Rightarrow> bool" where
  "less_address a b \<longleftrightarrow> addr_id a < addr_id b"

instance
proof
  fix a b c :: address
  show "(a < b) = (a \<le> b \<and> \<not> b \<le> a)"
    by (auto simp: less_eq_address_def less_address_def)
  show "a \<le> a"
    by (simp add: less_eq_address_def)
  show "a \<le> b \<Longrightarrow> b \<le> c \<Longrightarrow> a \<le> c"
    by (simp add: less_eq_address_def)
  show "a \<le> b \<Longrightarrow> b \<le> a \<Longrightarrow> a = b"
    by (cases a; cases b) (simp add: less_eq_address_def)
  show "a \<le> b \<or> b \<le> a"
    by (auto simp: less_eq_address_def)
qed

end

type_synonym symbol = string
type_synonym bytes = "8 word list"

section \<open>Error codes\<close>

datatype auth_code =
    K_Unauthorized
  | K_Forbidden
  | K_SubscriberBlocklisted
  | K_SelfRotation
  | K_NonceAlreadyUsed
  | K_BatchTooLarge

datatype missing_code =
    K_NotFound
  | K_NotInitialized

datatype args_code =
    K_InvalidAmount
  | K_InvalidInput
  | K_InvalidRecoveryAmount
  | K_InvalidNewAdmin
  | K_MetadataKeyTooLong
  | K_MetadataValueTooLong
  | K_OraclePriceInvalid
  | K_InvalidExpiration
  | K_OracleDeviationTooHigh
  | K_ProtocolFeeTooHigh
  | K_SelfReferralNotAllowed

datatype transition_code =
    K_InvalidStatusTransition
  | K_NotActive
  | K_SubscriptionExpired
  | K_IntervalNotElapsed
  | K_Replay
  | K_RecoveryNotAllowed
  | K_EmergencyStopActive
  | K_AlreadyInitialized
  | K_MerchantPaused
  | K_Reentrancy
  | K_TimelockNotElapsed
  | K_NotInGracePeriod
  | K_EmergencyWithdrawInvalidState
  | K_VacationActive
  | K_UsageLimitsRequired

datatype accounting_code =
    K_InsufficientBalance
  | K_InsufficientPrepaidBalance
  | K_BelowMinimumTopup
  | K_Underflow
  | K_Overflow
  | K_OracleNotConfigured
  | K_OraclePriceUnavailable
  | K_OraclePriceStale

datatype limits_code =
    K_SubscriptionLimitReached
  | K_LifetimeCapReached
  | K_UsageNotEnabled
  | K_InvalidExportLimit
  | K_MetadataKeyLimitReached
  | K_MaxConcurrentSubscriptionsReached
  | K_CreditLimitExceeded
  | K_RateLimitExceeded
  | K_UsageCapExceeded
  | K_BurstLimitExceeded
  | K_CouponNotFound
  | K_CouponExpired
  | K_CouponRedemptionLimitReached
  | K_CouponRevoked
  | K_CouponAlreadyExists
  | K_CouponAlreadyApplied
  | K_CouponTokenMismatch
  | K_SubscriberRateLimited
  | K_IdemBufferFull

datatype merchantcfg_code =
    K_InvalidFeeBips
  | K_InvalidOperations
  | K_MustAllowChargeOperation
  | K_MerchantNotApproved
  | K_UnknownMerchantTag
  | K_DuplicateMerchantTag
  | K_MerchantTagLimitExceeded

datatype tokenerr_code =
    K_InvalidTokenDecimals
  | K_InvalidToken

datatype subupdate_code =
    K_CannotChangeUsageMode

datatype schema_code =
    K_SchemaMigrationDowngrade
  | K_SchemaVersionMismatch
  | K_SchemaMigrationVerificationFailed

datatype disputeerr_code =
    K_DisputeNotFound
  | K_DisputeAlreadyResolved
  | K_DisputeNotResponded
  | K_DisputeWindowElapsed
  | K_DisputeAlreadyOpen
  | K_DisputeAlreadyResponded
  | K_DisputeOverpay
  | K_SubscriberHasOpenDisputes
  | K_DisputeAmountExceedsMerchantBalance

datatype transfer_code =
    K_TransferIntentNotFound
  | K_TransferIntentExpired
  | K_InvalidTransferTarget

datatype cooldown_code =
    K_CooldownActive
  | K_EmergencyWithdrawCooldownActive
  | K_EmergencyWithdrawNotRequested
  | K_EmergencyWithdrawStateChanged

datatype autorenewal_code =
    K_RenewalWindowClosed

datatype delegatedpayer_code =
    K_DelegatedPayerGrantNotFound
  | K_DelegatedPayerGrantExpired
  | K_DelegatedPayerAmountExceeded

datatype proposalerr_code =
    K_ProposalNotFound
  | K_ProposalExpired
  | K_InvalidClaimant
  | K_ProposalAlreadyExists
  | K_NoActiveProposal
  | K_ProposalCooldownActive
  | K_ProposalInvalidated
  | K_GovernanceRequired

datatype escrow_code =
    K_EscrowNotFound
  | K_EscrowNotReleased

datatype multisig_code =
    K_MultiSigApprovalRequired
  | K_MultiSigProposalNotFound
  | K_MultiSigQuorumNotReached
  | K_MultiSigProposalExpired

datatype error =
    Auth auth_code
  | Missing missing_code
  | Args args_code
  | Transition transition_code
  | Accounting accounting_code
  | Limits limits_code
  | MerchantCfg merchantcfg_code
  | TokenErr tokenerr_code
  | SubUpdate subupdate_code
  | Schema schema_code
  | DisputeErr disputeerr_code
  | Transfer transfer_code
  | Cooldown cooldown_code
  | AutoRenewal autorenewal_code
  | DelegatedPayer delegatedpayer_code
  | ProposalErr proposalerr_code
  | Escrow escrow_code
  | MultiSig multisig_code

text \<open>The source's variant names.\<close>

abbreviation "E_Unauthorized \<equiv> Auth K_Unauthorized"
abbreviation "E_Forbidden \<equiv> Auth K_Forbidden"
abbreviation "E_SubscriberBlocklisted \<equiv> Auth K_SubscriberBlocklisted"
abbreviation "E_SelfRotation \<equiv> Auth K_SelfRotation"
abbreviation "E_NonceAlreadyUsed \<equiv> Auth K_NonceAlreadyUsed"
abbreviation "E_BatchTooLarge \<equiv> Auth K_BatchTooLarge"
abbreviation "E_NotFound \<equiv> Missing K_NotFound"
abbreviation "E_NotInitialized \<equiv> Missing K_NotInitialized"
abbreviation "E_InvalidAmount \<equiv> Args K_InvalidAmount"
abbreviation "E_InvalidInput \<equiv> Args K_InvalidInput"
abbreviation "E_InvalidRecoveryAmount \<equiv> Args K_InvalidRecoveryAmount"
abbreviation "E_InvalidNewAdmin \<equiv> Args K_InvalidNewAdmin"
abbreviation "E_MetadataKeyTooLong \<equiv> Args K_MetadataKeyTooLong"
abbreviation "E_MetadataValueTooLong \<equiv> Args K_MetadataValueTooLong"
abbreviation "E_OraclePriceInvalid \<equiv> Args K_OraclePriceInvalid"
abbreviation "E_InvalidExpiration \<equiv> Args K_InvalidExpiration"
abbreviation "E_OracleDeviationTooHigh \<equiv> Args K_OracleDeviationTooHigh"
abbreviation "E_ProtocolFeeTooHigh \<equiv> Args K_ProtocolFeeTooHigh"
abbreviation "E_SelfReferralNotAllowed \<equiv> Args K_SelfReferralNotAllowed"
abbreviation "E_InvalidStatusTransition \<equiv> Transition K_InvalidStatusTransition"
abbreviation "E_NotActive \<equiv> Transition K_NotActive"
abbreviation "E_SubscriptionExpired \<equiv> Transition K_SubscriptionExpired"
abbreviation "E_IntervalNotElapsed \<equiv> Transition K_IntervalNotElapsed"
abbreviation "E_Replay \<equiv> Transition K_Replay"
abbreviation "E_RecoveryNotAllowed \<equiv> Transition K_RecoveryNotAllowed"
abbreviation "E_EmergencyStopActive \<equiv> Transition K_EmergencyStopActive"
abbreviation "E_AlreadyInitialized \<equiv> Transition K_AlreadyInitialized"
abbreviation "E_MerchantPaused \<equiv> Transition K_MerchantPaused"
abbreviation "E_Reentrancy \<equiv> Transition K_Reentrancy"
abbreviation "E_TimelockNotElapsed \<equiv> Transition K_TimelockNotElapsed"
abbreviation "E_NotInGracePeriod \<equiv> Transition K_NotInGracePeriod"
abbreviation "E_EmergencyWithdrawInvalidState \<equiv> Transition K_EmergencyWithdrawInvalidState"
abbreviation "E_VacationActive \<equiv> Transition K_VacationActive"
abbreviation "E_UsageLimitsRequired \<equiv> Transition K_UsageLimitsRequired"
abbreviation "E_InsufficientBalance \<equiv> Accounting K_InsufficientBalance"
abbreviation "E_InsufficientPrepaidBalance \<equiv> Accounting K_InsufficientPrepaidBalance"
abbreviation "E_BelowMinimumTopup \<equiv> Accounting K_BelowMinimumTopup"
abbreviation "E_Underflow \<equiv> Accounting K_Underflow"
abbreviation "E_Overflow \<equiv> Accounting K_Overflow"
abbreviation "E_OracleNotConfigured \<equiv> Accounting K_OracleNotConfigured"
abbreviation "E_OraclePriceUnavailable \<equiv> Accounting K_OraclePriceUnavailable"
abbreviation "E_OraclePriceStale \<equiv> Accounting K_OraclePriceStale"
abbreviation "E_SubscriptionLimitReached \<equiv> Limits K_SubscriptionLimitReached"
abbreviation "E_LifetimeCapReached \<equiv> Limits K_LifetimeCapReached"
abbreviation "E_UsageNotEnabled \<equiv> Limits K_UsageNotEnabled"
abbreviation "E_InvalidExportLimit \<equiv> Limits K_InvalidExportLimit"
abbreviation "E_MetadataKeyLimitReached \<equiv> Limits K_MetadataKeyLimitReached"
abbreviation "E_MaxConcurrentSubscriptionsReached \<equiv> Limits K_MaxConcurrentSubscriptionsReached"
abbreviation "E_CreditLimitExceeded \<equiv> Limits K_CreditLimitExceeded"
abbreviation "E_RateLimitExceeded \<equiv> Limits K_RateLimitExceeded"
abbreviation "E_UsageCapExceeded \<equiv> Limits K_UsageCapExceeded"
abbreviation "E_BurstLimitExceeded \<equiv> Limits K_BurstLimitExceeded"
abbreviation "E_CouponNotFound \<equiv> Limits K_CouponNotFound"
abbreviation "E_CouponExpired \<equiv> Limits K_CouponExpired"
abbreviation "E_CouponRedemptionLimitReached \<equiv> Limits K_CouponRedemptionLimitReached"
abbreviation "E_CouponRevoked \<equiv> Limits K_CouponRevoked"
abbreviation "E_CouponAlreadyExists \<equiv> Limits K_CouponAlreadyExists"
abbreviation "E_CouponAlreadyApplied \<equiv> Limits K_CouponAlreadyApplied"
abbreviation "E_CouponTokenMismatch \<equiv> Limits K_CouponTokenMismatch"
abbreviation "E_SubscriberRateLimited \<equiv> Limits K_SubscriberRateLimited"
abbreviation "E_IdemBufferFull \<equiv> Limits K_IdemBufferFull"
abbreviation "E_InvalidFeeBips \<equiv> MerchantCfg K_InvalidFeeBips"
abbreviation "E_InvalidOperations \<equiv> MerchantCfg K_InvalidOperations"
abbreviation "E_MustAllowChargeOperation \<equiv> MerchantCfg K_MustAllowChargeOperation"
abbreviation "E_MerchantNotApproved \<equiv> MerchantCfg K_MerchantNotApproved"
abbreviation "E_UnknownMerchantTag \<equiv> MerchantCfg K_UnknownMerchantTag"
abbreviation "E_DuplicateMerchantTag \<equiv> MerchantCfg K_DuplicateMerchantTag"
abbreviation "E_MerchantTagLimitExceeded \<equiv> MerchantCfg K_MerchantTagLimitExceeded"
abbreviation "E_InvalidTokenDecimals \<equiv> TokenErr K_InvalidTokenDecimals"
abbreviation "E_InvalidToken \<equiv> TokenErr K_InvalidToken"
abbreviation "E_CannotChangeUsageMode \<equiv> SubUpdate K_CannotChangeUsageMode"
abbreviation "E_SchemaMigrationDowngrade \<equiv> Schema K_SchemaMigrationDowngrade"
abbreviation "E_SchemaVersionMismatch \<equiv> Schema K_SchemaVersionMismatch"
abbreviation "E_SchemaMigrationVerificationFailed \<equiv> Schema K_SchemaMigrationVerificationFailed"
abbreviation "E_DisputeNotFound \<equiv> DisputeErr K_DisputeNotFound"
abbreviation "E_DisputeAlreadyResolved \<equiv> DisputeErr K_DisputeAlreadyResolved"
abbreviation "E_DisputeNotResponded \<equiv> DisputeErr K_DisputeNotResponded"
abbreviation "E_DisputeWindowElapsed \<equiv> DisputeErr K_DisputeWindowElapsed"
abbreviation "E_DisputeAlreadyOpen \<equiv> DisputeErr K_DisputeAlreadyOpen"
abbreviation "E_DisputeAlreadyResponded \<equiv> DisputeErr K_DisputeAlreadyResponded"
abbreviation "E_DisputeOverpay \<equiv> DisputeErr K_DisputeOverpay"
abbreviation "E_SubscriberHasOpenDisputes \<equiv> DisputeErr K_SubscriberHasOpenDisputes"
abbreviation "E_DisputeAmountExceedsMerchantBalance \<equiv> DisputeErr K_DisputeAmountExceedsMerchantBalance"
abbreviation "E_TransferIntentNotFound \<equiv> Transfer K_TransferIntentNotFound"
abbreviation "E_TransferIntentExpired \<equiv> Transfer K_TransferIntentExpired"
abbreviation "E_InvalidTransferTarget \<equiv> Transfer K_InvalidTransferTarget"
abbreviation "E_CooldownActive \<equiv> Cooldown K_CooldownActive"
abbreviation "E_EmergencyWithdrawCooldownActive \<equiv> Cooldown K_EmergencyWithdrawCooldownActive"
abbreviation "E_EmergencyWithdrawNotRequested \<equiv> Cooldown K_EmergencyWithdrawNotRequested"
abbreviation "E_EmergencyWithdrawStateChanged \<equiv> Cooldown K_EmergencyWithdrawStateChanged"
abbreviation "E_RenewalWindowClosed \<equiv> AutoRenewal K_RenewalWindowClosed"
abbreviation "E_DelegatedPayerGrantNotFound \<equiv> DelegatedPayer K_DelegatedPayerGrantNotFound"
abbreviation "E_DelegatedPayerGrantExpired \<equiv> DelegatedPayer K_DelegatedPayerGrantExpired"
abbreviation "E_DelegatedPayerAmountExceeded \<equiv> DelegatedPayer K_DelegatedPayerAmountExceeded"
abbreviation "E_ProposalNotFound \<equiv> ProposalErr K_ProposalNotFound"
abbreviation "E_ProposalExpired \<equiv> ProposalErr K_ProposalExpired"
abbreviation "E_InvalidClaimant \<equiv> ProposalErr K_InvalidClaimant"
abbreviation "E_ProposalAlreadyExists \<equiv> ProposalErr K_ProposalAlreadyExists"
abbreviation "E_NoActiveProposal \<equiv> ProposalErr K_NoActiveProposal"
abbreviation "E_ProposalCooldownActive \<equiv> ProposalErr K_ProposalCooldownActive"
abbreviation "E_ProposalInvalidated \<equiv> ProposalErr K_ProposalInvalidated"
abbreviation "E_GovernanceRequired \<equiv> ProposalErr K_GovernanceRequired"
abbreviation "E_EscrowNotFound \<equiv> Escrow K_EscrowNotFound"
abbreviation "E_EscrowNotReleased \<equiv> Escrow K_EscrowNotReleased"
abbreviation "E_MultiSigApprovalRequired \<equiv> MultiSig K_MultiSigApprovalRequired"
abbreviation "E_MultiSigProposalNotFound \<equiv> MultiSig K_MultiSigProposalNotFound"
abbreviation "E_MultiSigQuorumNotReached \<equiv> MultiSig K_MultiSigQuorumNotReached"
abbreviation "E_MultiSigProposalExpired \<equiv> MultiSig K_MultiSigProposalExpired"

text \<open>\<open>Error::to_code\<close>: the stable wire code of every error.\<close>

primrec auth_to_code :: "auth_code \<Rightarrow> nat" where
  "auth_to_code K_Unauthorized = 1001"
| "auth_to_code K_Forbidden = 1002"
| "auth_to_code K_SubscriberBlocklisted = 1003"
| "auth_to_code K_SelfRotation = 1004"
| "auth_to_code K_NonceAlreadyUsed = 1005"
| "auth_to_code K_BatchTooLarge = 1006"

primrec missing_to_code :: "missing_code \<Rightarrow> nat" where
  "missing_to_code K_NotFound = 2001"
| "missing_to_code K_NotInitialized = 2002"

primrec args_to_code :: "args_code \<Rightarrow> nat" where
  "args_to_code K_InvalidAmount = 3001"
| "args_to_code K_InvalidInput = 3002"
| "args_to_code K_InvalidRecoveryAmount = 3003"
| "args_to_code K_InvalidNewAdmin = 3004"
| "args_to_code K_MetadataKeyTooLong = 3005"
| "args_to_code K_MetadataValueTooLong = 3006"
| "args_to_code K_OraclePriceInvalid = 3007"
| "args_to_code K_InvalidExpiration = 3008"
| "args_to_code K_OracleDeviationTooHigh = 3009"
| "args_to_code K_ProtocolFeeTooHigh = 3010"
| "args_to_code K_SelfReferralNotAllowed = 3011"

primrec transition_to_code :: "transition_code \<Rightarrow> nat" where
  "transition_to_code K_InvalidStatusTransition = 4001"
| "transition_to_code K_NotActive = 4002"
| "transition_to_code K_SubscriptionExpired = 4003"
| "transition_to_code K_IntervalNotElapsed = 4004"
| "transition_to_code K_Replay = 4005"
| "transition_to_code K_RecoveryNotAllowed = 4006"
| "transition_to_code K_EmergencyStopActive = 4007"
| "transition_to_code K_AlreadyInitialized = 4008"
| "transition_to_code K_MerchantPaused = 4009"
| "transition_to_code K_Reentrancy = 4010"
| "transition_to_code K_TimelockNotElapsed = 4011"
| "transition_to_code K_NotInGracePeriod = 4013"
| "transition_to_code K_EmergencyWithdrawInvalidState = 4015"
| "transition_to_code K_VacationActive = 4014"
| "transition_to_code K_UsageLimitsRequired = 4016"

primrec accounting_to_code :: "accounting_code \<Rightarrow> nat" where
  "accounting_to_code K_InsufficientBalance = 5001"
| "accounting_to_code K_InsufficientPrepaidBalance = 5002"
| "accounting_to_code K_BelowMinimumTopup = 5003"
| "accounting_to_code K_Underflow = 5004"
| "accounting_to_code K_Overflow = 5005"
| "accounting_to_code K_OracleNotConfigured = 5006"
| "accounting_to_code K_OraclePriceUnavailable = 5007"
| "accounting_to_code K_OraclePriceStale = 5008"

primrec limits_to_code :: "limits_code \<Rightarrow> nat" where
  "limits_to_code K_SubscriptionLimitReached = 6001"
| "limits_to_code K_LifetimeCapReached = 6002"
| "limits_to_code K_UsageNotEnabled = 6003"
| "limits_to_code K_InvalidExportLimit = 6004"
| "limits_to_code K_MetadataKeyLimitReached = 6005"
| "limits_to_code K_MaxConcurrentSubscriptionsReached = 6006"
| "limits_to_code K_CreditLimitExceeded = 6007"
| "limits_to_code K_RateLimitExceeded = 6008"
| "limits_to_code K_UsageCapExceeded = 6009"
| "limits_to_code K_BurstLimitExceeded = 6010"
| "limits_to_code K_CouponNotFound = 6011"
| "limits_to_code K_CouponExpired = 6012"
| "limits_to_code K_CouponRedemptionLimitReached = 6013"
| "limits_to_code K_CouponRevoked = 6014"
| "limits_to_code K_CouponAlreadyExists = 6015"
| "limits_to_code K_CouponAlreadyApplied = 6016"
| "limits_to_code K_CouponTokenMismatch = 6017"
| "limits_to_code K_SubscriberRateLimited = 6018"
| "limits_to_code K_IdemBufferFull = 6019"

primrec merchantcfg_to_code :: "merchantcfg_code \<Rightarrow> nat" where
  "merchantcfg_to_code K_InvalidFeeBips = 7001"
| "merchantcfg_to_code K_InvalidOperations = 7002"
| "merchantcfg_to_code K_MustAllowChargeOperation = 7003"
| "merchantcfg_to_code K_MerchantNotApproved = 7004"
| "merchantcfg_to_code K_UnknownMerchantTag = 7005"
| "merchantcfg_to_code K_DuplicateMerchantTag = 7006"
| "merchantcfg_to_code K_MerchantTagLimitExceeded = 7007"

primrec tokenerr_to_code :: "tokenerr_code \<Rightarrow> nat" where
  "tokenerr_to_code K_InvalidTokenDecimals = 8001"
| "tokenerr_to_code K_InvalidToken = 8002"

primrec subupdate_to_code :: "subupdate_code \<Rightarrow> nat" where
  "subupdate_to_code K_CannotChangeUsageMode = 9001"

primrec schema_to_code :: "schema_code \<Rightarrow> nat" where
  "schema_to_code K_SchemaMigrationDowngrade = 9101"
| "schema_to_code K_SchemaVersionMismatch = 9102"
| "schema_to_code K_SchemaMigrationVerificationFailed = 9103"

primrec disputeerr_to_code :: "disputeerr_code \<Rightarrow> nat" where
  "disputeerr_to_code K_DisputeNotFound = 10001"
| "disputeerr_to_code K_DisputeAlreadyResolved = 10002"
| "disputeerr_to_code K_DisputeNotResponded = 10003"
| "disputeerr_to_code K_DisputeWindowElapsed = 10004"
| "disputeerr_to_code K_DisputeAlreadyOpen = 10005"
| "disputeerr_to_code K_DisputeAlreadyResponded = 10006"
| "disputeerr_to_code K_DisputeOverpay = 10007"
| "disputeerr_to_code K_SubscriberHasOpenDisputes = 10008"
| "disputeerr_to_code K_DisputeAmountExceedsMerchantBalance = 10009"

primrec transfer_to_code :: "transfer_code \<Rightarrow> nat" where
  "transfer_to_code K_TransferIntentNotFound = 11001"
| "transfer_to_code K_TransferIntentExpired = 11002"
| "transfer_to_code K_InvalidTransferTarget = 11003"

primrec cooldown_to_code :: "cooldown_code \<Rightarrow> nat" where
  "cooldown_to_code K_CooldownActive = 12001"
| "cooldown_to_code K_EmergencyWithdrawCooldownActive = 12003"
| "cooldown_to_code K_EmergencyWithdrawNotRequested = 12004"
| "cooldown_to_code K_EmergencyWithdrawStateChanged = 12005"

primrec autorenewal_to_code :: "autorenewal_code \<Rightarrow> nat" where
  "autorenewal_to_code K_RenewalWindowClosed = 12002"

primrec delegatedpayer_to_code :: "delegatedpayer_code \<Rightarrow> nat" where
  "delegatedpayer_to_code K_DelegatedPayerGrantNotFound = 13001"
| "delegatedpayer_to_code K_DelegatedPayerGrantExpired = 13002"
| "delegatedpayer_to_code K_DelegatedPayerAmountExceeded = 13003"

primrec proposalerr_to_code :: "proposalerr_code \<Rightarrow> nat" where
  "proposalerr_to_code K_ProposalNotFound = 14001"
| "proposalerr_to_code K_ProposalExpired = 14002"
| "proposalerr_to_code K_InvalidClaimant = 14003"
| "proposalerr_to_code K_ProposalAlreadyExists = 14004"
| "proposalerr_to_code K_NoActiveProposal = 14005"
| "proposalerr_to_code K_ProposalCooldownActive = 14006"
| "proposalerr_to_code K_ProposalInvalidated = 14007"
| "proposalerr_to_code K_GovernanceRequired = 14008"

primrec escrow_to_code :: "escrow_code \<Rightarrow> nat" where
  "escrow_to_code K_EscrowNotFound = 13004"
| "escrow_to_code K_EscrowNotReleased = 13005"

primrec multisig_to_code :: "multisig_code \<Rightarrow> nat" where
  "multisig_to_code K_MultiSigApprovalRequired = 15001"
| "multisig_to_code K_MultiSigProposalNotFound = 15002"
| "multisig_to_code K_MultiSigQuorumNotReached = 15003"
| "multisig_to_code K_MultiSigProposalExpired = 15004"

primrec to_code :: "error \<Rightarrow> nat" where
  "to_code (Auth k) = auth_to_code k"
| "to_code (Missing k) = missing_to_code k"
| "to_code (Args k) = args_to_code k"
| "to_code (Transition k) = transition_to_code k"
| "to_code (Accounting k) = accounting_to_code k"
| "to_code (Limits k) = limits_to_code k"
| "to_code (MerchantCfg k) = merchantcfg_to_code k"
| "to_code (TokenErr k) = tokenerr_to_code k"
| "to_code (SubUpdate k) = subupdate_to_code k"
| "to_code (Schema k) = schema_to_code k"
| "to_code (DisputeErr k) = disputeerr_to_code k"
| "to_code (Transfer k) = transfer_to_code k"
| "to_code (Cooldown k) = cooldown_to_code k"
| "to_code (AutoRenewal k) = autorenewal_to_code k"
| "to_code (DelegatedPayer k) = delegatedpayer_to_code k"
| "to_code (ProposalErr k) = proposalerr_to_code k"
| "to_code (Escrow k) = escrow_to_code k"
| "to_code (MultiSig k) = multisig_to_code k"

definition all_errors :: "error list" where
  "all_errors = [
     E_Unauthorized, E_Forbidden, E_SubscriberBlocklisted, E_SelfRotation,
     E_NonceAlreadyUsed, E_BatchTooLarge, E_NotFound, E_NotInitialized,
     E_InvalidAmount, E_InvalidInput, E_InvalidRecoveryAmount, E_InvalidNewAdmin,
     E_MetadataKeyTooLong, E_MetadataValueTooLong, E_OraclePriceInvalid, E_InvalidExpiration,
     E_OracleDeviationTooHigh, E_ProtocolFeeTooHigh, E_SelfReferralNotAllowed, E_InvalidStatusTransition,
     E_NotActive, E_SubscriptionExpired, E_IntervalNotElapsed, E_Replay,
     E_RecoveryNotAllowed, E_EmergencyStopActive, E_AlreadyInitialized, E_MerchantPaused,
     E_Reentrancy, E_TimelockNotElapsed, E_NotInGracePeriod, E_EmergencyWithdrawInvalidState,
     E_VacationActive, E_UsageLimitsRequired, E_InsufficientBalance, E_InsufficientPrepaidBalance,
     E_BelowMinimumTopup, E_Underflow, E_Overflow, E_OracleNotConfigured,
     E_OraclePriceUnavailable, E_OraclePriceStale, E_SubscriptionLimitReached, E_LifetimeCapReached,
     E_UsageNotEnabled, E_InvalidExportLimit, E_MetadataKeyLimitReached, E_MaxConcurrentSubscriptionsReached,
     E_CreditLimitExceeded, E_RateLimitExceeded, E_UsageCapExceeded, E_BurstLimitExceeded,
     E_CouponNotFound, E_CouponExpired, E_CouponRedemptionLimitReached, E_CouponRevoked,
     E_CouponAlreadyExists, E_CouponAlreadyApplied, E_CouponTokenMismatch, E_SubscriberRateLimited,
     E_IdemBufferFull, E_InvalidFeeBips, E_InvalidOperations, E_MustAllowChargeOperation,
     E_MerchantNotApproved, E_UnknownMerchantTag, E_DuplicateMerchantTag, E_MerchantTagLimitExceeded,
     E_InvalidTokenDecimals, E_InvalidToken, E_CannotChangeUsageMode, E_SchemaMigrationDowngrade,
     E_SchemaVersionMismatch, E_SchemaMigrationVerificationFailed, E_DisputeNotFound, E_DisputeAlreadyResolved,
     E_DisputeNotResponded, E_DisputeWindowElapsed, E_DisputeAlreadyOpen, E_DisputeAlreadyResponded,
     E_DisputeOverpay, E_SubscriberHasOpenDisputes, E_DisputeAmountExceedsMerchantBalance, E_TransferIntentNotFound,
     E_TransferIntentExpired, E_InvalidTransferTarget, E_CooldownActive, E_EmergencyWithdrawCooldownActive,
     E_EmergencyWithdrawNotRequested, E_EmergencyWithdrawStateChanged, E_RenewalWindowClosed, E_DelegatedPayerGrantNotFound,
     E_DelegatedPayerGrantExpired, E_DelegatedPayerAmountExceeded, E_ProposalNotFound, E_ProposalExpired,
     E_InvalidClaimant, E_ProposalAlreadyExists, E_NoActiveProposal, E_ProposalCooldownActive,
     E_ProposalInvalidated, E_GovernanceRequired, E_EscrowNotFound, E_EscrowNotReleased,
     E_MultiSigApprovalRequired, E_MultiSigProposalNotFound, E_MultiSigQuorumNotReached, E_MultiSigProposalExpired]"

lemma all_errors_complete: "e \<in> set all_errors"
proof (cases e)
  case (Auth k)
  then show ?thesis by (cases k) (simp_all add: all_errors_def)
next
  case (Missing k)
  then show ?thesis by (cases k) (simp_all add: all_errors_def)
next
  case (Args k)
  then show ?thesis by (cases k) (simp_all add: all_errors_def)
next
  case (Transition k)
  then show ?thesis by (cases k) (simp_all add: all_errors_def)
next
  case (Accounting k)
  then show ?thesis by (cases k) (simp_all add: all_errors_def)
next
  case (Limits k)
  then show ?thesis by (cases k) (simp_all add: all_errors_def)
next
  case (MerchantCfg k)
  then show ?thesis by (cases k) (simp_all add: all_errors_def)
next
  case (TokenErr k)
  then show ?thesis by (cases k) (simp_all add: all_errors_def)
next
  case (SubUpdate k)
  then show ?thesis by (cases k) (simp_all add: all_errors_def)
next
  case (Schema k)
  then show ?thesis by (cases k) (simp_all add: all_errors_def)
next
  case (DisputeErr k)
  then show ?thesis by (cases k) (simp_all add: all_errors_def)
next
  case (Transfer k)
  then show ?thesis by (cases k) (simp_all add: all_errors_def)
next
  case (Cooldown k)
  then show ?thesis by (cases k) (simp_all add: all_errors_def)
next
  case (AutoRenewal k)
  then show ?thesis by (cases k) (simp_all add: all_errors_def)
next
  case (DelegatedPayer k)
  then show ?thesis by (cases k) (simp_all add: all_errors_def)
next
  case (ProposalErr k)
  then show ?thesis by (cases k) (simp_all add: all_errors_def)
next
  case (Escrow k)
  then show ?thesis by (cases k) (simp_all add: all_errors_def)
next
  case (MultiSig k)
  then show ?thesis by (cases k) (simp_all add: all_errors_def)
qed

lemma to_code_distinct: "distinct (map to_code all_errors)"
  by (simp add: all_errors_def)

section \<open>Subscriptions\<close>

datatype subscription_status =
    Active | Paused | Cancelled | InsufficientBalance | GracePeriod | Expired | Archived

record subscription =
  s_subscriber :: address
  s_merchant :: address
  s_token :: address
  s_amount :: int
  s_interval_seconds :: nat
  s_last_payment_timestamp :: nat
  s_status :: subscription_status
  s_prepaid_balance :: int
  s_usage_enabled :: bool
  s_lifetime_cap :: "int option"
  s_lifetime_charged :: int
  s_start_time :: nat
  s_expires_at :: "nat option"
  s_grace_start_timestamp :: "nat option"
  s_cancel_at :: "nat option"
  s_auto_renew :: bool
  s_auto_renew_disabled_at :: "nat option"
  s_expires_at_ledger :: "nat option"
  s_sub_account_label :: "symbol option"
  s_proration_enabled :: bool
  s_auto_pause_threshold :: nat

definition is_expired :: "subscription \<Rightarrow> nat \<Rightarrow> nat \<Rightarrow> bool" where
  "is_expired sub current_time current_ledger =
     ((case s_expires_at sub of Some e \<Rightarrow> current_time \<ge> e | None \<Rightarrow> False) \<or>
      (case s_expires_at_ledger sub of Some l \<Rightarrow> current_ledger \<ge> l | None \<Rightarrow> False))"

definition is_in_renewal_window :: "subscription \<Rightarrow> nat \<Rightarrow> bool" where
  "is_in_renewal_window sub current_time =
     (case s_auto_renew_disabled_at sub of
        Some d \<Rightarrow> current_time < sat_add_u64 d (s_interval_seconds sub)
      | None \<Rightarrow> False)"

text \<open>Results of the charge entry points.\<close>

datatype charge_execution_result =
    CER_Charged | CER_InsufficientBalance | CER_LifetimeCapReached
  | CER_ScheduledCancellation | CER_Skipped

datatype usage_charge_result =
    UCR_Charged | UCR_InsufficientBalance | UCR_LifetimeCapReached | UCR_Replay
  | UCR_BurstLimitExceeded | UCR_RateLimitExceeded | UCR_UsageCapExceeded

record usage_limits =
  ul_merchant :: address
  ul_rate_limit_max_calls :: "nat option"
  ul_rate_window_secs :: nat
  ul_burst_min_interval_secs :: nat
  ul_usage_cap_units :: "int option"

record usage_state =
  us_last_usage_timestamp :: nat
  us_window_start_timestamp :: nat
  us_window_call_count :: nat
  us_current_period_usage_units :: int
  us_period_index :: nat

section \<open>Billing records\<close>

datatype billing_charge_kind = Interval | Usage | OneOff

record billing_statement =
  bs_subscription_id :: nat
  bs_sequence :: nat
  bs_charged_at :: nat
  bs_period_start :: nat
  bs_period_end :: nat
  bs_amount :: int
  bs_merchant :: address
  bs_token :: address
  bs_kind :: billing_charge_kind

record billing_statements_page =
  bp_statements :: "billing_statement list"
  bp_next_cursor :: "nat option"
  bp_total :: nat

record accrued_totals =
  at_interval :: int
  at_usage :: int
  at_one_off :: int

record billing_statement_aggregate =
  ag_pruned_count :: nat
  ag_total_amount :: int
  ag_totals :: accrued_totals
  ag_oldest_period_start :: "nat option"
  ag_newest_period_end :: "nat option"

record billing_compaction_summary =
  cs_subscription_id :: nat
  cs_pruned_count :: nat
  cs_kept_count :: nat
  cs_total_pruned_amount :: int

record billing_period_snapshot =
  ps_subscription_id :: nat
  ps_period_index :: nat
  ps_period_start :: nat
  ps_period_end :: nat
  ps_total_charged :: int
  ps_total_usage_units :: int
  ps_status_flags :: "32 word"
  ps_finalized_at :: nat

section \<open>Merchants and coupons\<close>

record token_earnings =
  te_accruals :: accrued_totals
  te_withdrawals :: int
  te_refunds :: int

record merchant_config =
  mc_version :: int
  mc_payout_address :: address
  mc_fee_bips :: int
  mc_allowed_operations :: int
  mc_is_active :: bool
  mc_fee_address :: "address option"
  mc_redirect_url :: string
  mc_is_paused :: bool
  mc_last_updated :: nat

record merchant_multisig_config =
  mm_signers :: "address list"
  mm_threshold :: nat

record merchant_vacation =
  mv_start_ts :: nat
  mv_end_ts :: nat

record payout_schedule =
  py_cadence_seconds :: nat
  py_min_payout :: int
  py_last_payout_at :: nat

record coupon =
  cp_code :: symbol
  cp_merchant :: address
  cp_token :: address
  cp_percent_off_bps :: nat
  cp_fixed_off :: int
  cp_max_redemptions :: nat
  cp_expires_at :: nat
  cp_revoked :: bool

end
