(* ===== verification/Safe_Math.thy ===== *)
theory Safe_Math
  imports Vault_Types
begin

text \<open>
  The checked arithmetic of \<^verbatim>\<open>src/safe_math.rs\<close>. Every helper returns the exact mathematical
  result or an error value; nothing wraps.
\<close>

type_synonym 'a res = "(error, 'a) outcome"

definition safe_add :: "int \<Rightarrow> int \<Rightarrow> int res" where
  "safe_add a b = (case checked_add_i128 a b of Some c \<Rightarrow> Ok c | None \<Rightarrow> Err E_Overflow)"

definition safe_sub :: "int \<Rightarrow> int \<Rightarrow> int res" where
  "safe_sub a b = (case checked_sub_i128 a b of Some c \<Rightarrow> Ok c | None \<Rightarrow> Err E_Underflow)"

definition safe_mul :: "int \<Rightarrow> int \<Rightarrow> int res" where
  "safe_mul a b = (case checked_mul_i128 a b of Some c \<Rightarrow> Ok c | None \<Rightarrow> Err E_Overflow)"

definition safe_add_balance :: "int \<Rightarrow> int \<Rightarrow> int res" where
  "safe_add_balance balance amount =
     (if amount < 0 then Err E_Underflow else safe_add balance amount)"

definition safe_sub_balance :: "int \<Rightarrow> int \<Rightarrow> int res" where
  "safe_sub_balance balance amount =
     (if amount < 0 then Err E_Underflow
      else if balance < amount then Err E_Underflow
      else safe_sub balance amount)"

definition safe_i128_to_u32 :: "int \<Rightarrow> nat res" where
  "safe_i128_to_u32 v =
     (if v < 0 then Err E_Underflow
      else if v \<le> int u32_max then Ok (nat v) else Err E_Overflow)"

definition safe_i128_to_u64 :: "int \<Rightarrow> nat res" where
  "safe_i128_to_u64 v =
     (if v < 0 then Err E_Underflow
      else if v \<le> int u64_max then Ok (nat v) else Err E_Overflow)"

lemma safe_add_Ok [simp]: "safe_add a b = Ok c \<longleftrightarrow> c = a + b \<and> fits_i128 (a + b)"
  by (auto simp: safe_add_def checked_add_i128_def)

lemma safe_sub_Ok [simp]: "safe_sub a b = Ok c \<longleftrightarrow> c = a - b \<and> fits_i128 (a - b)"
  by (auto simp: safe_sub_def checked_sub_i128_def)

lemma safe_mul_Ok [simp]: "safe_mul a b = Ok c \<longleftrightarrow> c = a * b \<and> fits_i128 (a * b)"
  by (auto simp: safe_mul_def checked_mul_i128_def)

lemma safe_not_Panic [simp]:
  "safe_add a b \<noteq> Panic" "safe_sub a b \<noteq> Panic" "safe_mul a b \<noteq> Panic"
  by (auto simp: safe_add_def safe_sub_def safe_mul_def split: option.splits)

lemma safe_sub_balance_Ok [simp]:
  "fits_i128 balance \<Longrightarrow>
   safe_sub_balance balance amount = Ok c \<longleftrightarrow> 0 \<le> amount \<and> amount \<le> balance \<and> c = balance - amount"
  by (auto simp: safe_sub_balance_def fits_i128_diff)

lemma safe_add_balance_Ok [simp]:
  "safe_add_balance balance amount = Ok c \<longleftrightarrow>
     0 \<le> amount \<and> c = balance + amount \<and> fits_i128 (balance + amount)"
  by (auto simp: safe_add_balance_def)

lemma safe_sub_balance_Err:
  "fits_i128 balance \<Longrightarrow> safe_sub_balance balance amount = Err e \<longleftrightarrow>
     e = E_Underflow \<and> (amount < 0 \<or> balance < amount)"
  by (auto simp: safe_sub_balance_def safe_sub_def checked_sub_i128_def fits_i128_diff)

lemma safe_sub_balance_not_Panic [simp]: "safe_sub_balance balance amount \<noteq> Panic"
  by (simp add: safe_sub_balance_def)

text \<open>
  The balance helpers are inverse to each other: whenever a balance accepts a debit, crediting
  the same amount restores it, and the debited balance is never negative.
\<close>

theorem balance_debit_credit_roundtrip:
  assumes "fits_i128 balance" and "safe_sub_balance balance amount = Ok b"
  shows "0 \<le> b \<and> safe_add_balance b amount = Ok balance"
  using assms by auto

theorem balance_debit_credit_roundtrip_witness:
  "0 \<le> (6 :: int) \<and> safe_add_balance 6 4 = Ok 10"
  by (rule balance_debit_credit_roundtrip)
    (auto simp: fits_i128_def i128_min_def i128_max_def)

end
