(* ===== verification/Validation.thy ===== *)
theory Validation
  imports Safe_Math
begin

text \<open>
  The argument validators of \<^verbatim>\<open>src/validation.rs\<close>. A Soroban \<open>String\<close> is its byte list;
  \<open>String::copy_into_slice\<close> panics when the slice does not have exactly the string's length.
\<close>

definition MAX_FEE_BIPS :: int where "MAX_FEE_BIPS = 10000"

definition MAX_SUBSCRIPTION_AMOUNT :: int where
  "MAX_SUBSCRIPTION_AMOUNT = tdiv i128_max MAX_FEE_BIPS"

definition validate_subscription_amount :: "int \<Rightarrow> unit res" where
  "validate_subscription_amount amount =
     (if amount \<le> 0 \<or> amount > MAX_SUBSCRIPTION_AMOUNT then Err E_InvalidAmount else Ok ())"

definition validate_subscription_amount_for_create :: "int \<Rightarrow> bool \<Rightarrow> unit res" where
  "validate_subscription_amount_for_create amount usage_enabled =
     (if amount < 0 then Err E_InvalidAmount
      else if amount = 0 \<and> \<not> usage_enabled then Err E_InvalidAmount
      else if amount > MAX_SUBSCRIPTION_AMOUNT then Err E_InvalidAmount
      else Ok ())"

definition ascii_whitespace :: "8 word \<Rightarrow> bool" where
  "ascii_whitespace b \<longleftrightarrow> b \<in> {0x20, 0x09, 0x0A, 0x0D, 0x0B, 0x0C}"

definition copy_into_slice :: "bytes \<Rightarrow> nat \<Rightarrow> bytes res" where
  "copy_into_slice s n = (if n = length s then Ok s else Panic)"

definition reject_empty_string :: "bytes \<Rightarrow> unit res" where
  "reject_empty_string s =
     (if length s < 1 then Err E_InvalidInput
      else if length s \<le> 256 then
        (case copy_into_slice s (length s) of
           Ok sl \<Rightarrow> if list_all ascii_whitespace sl then Err E_InvalidInput else Ok ()
         | Err e \<Rightarrow> Err e
         | Panic \<Rightarrow> Panic)
      else Ok ())"

function null_byte_loop :: "bytes \<Rightarrow> nat \<Rightarrow> unit res" where
  "null_byte_loop s offset =
     (if offset < length s then
        let remaining = length s - offset;
            chunk_len = (if remaining > 256 then 256 else remaining)
        in (case copy_into_slice s chunk_len of
              Ok sl \<Rightarrow> if list_ex (\<lambda>b. b = 0) sl then Err E_InvalidInput
                          else null_byte_loop s (offset + chunk_len)
            | Err e \<Rightarrow> Err e
            | Panic \<Rightarrow> Panic)
      else Ok ())"
  by pat_completeness auto
termination
  by (relation "measure (\<lambda>(s, offset). length s - offset)") auto

declare null_byte_loop.simps [simp del]

definition reject_null_bytes :: "bytes \<Rightarrow> unit res" where
  "reject_null_bytes s = (if length s = 0 then Ok () else null_byte_loop s 0)"

definition reject_zero_interval :: "nat \<Rightarrow> unit res" where
  "reject_zero_interval n = (if n = 0 then Err E_InvalidInput else Ok ())"

definition reject_contract_self :: "address \<Rightarrow> address \<Rightarrow> unit res" where
  "reject_contract_self contract a = (if a = contract then Err E_InvalidInput else Ok ())"

lemma max_subscription_amount_mul:
  assumes "0 \<le> amount" and "amount \<le> MAX_SUBSCRIPTION_AMOUNT" and "0 \<le> bps" and "bps \<le> 10000"
  shows "fits_i128 (amount * bps)"
proof -
  have "amount * 10000 \<le> i128_max"
    using assms(2) by (simp add: MAX_SUBSCRIPTION_AMOUNT_def MAX_FEE_BIPS_def tdiv_nonneg i128_max_def)
  moreover have "amount * bps \<le> amount * 10000"
    using assms by (intro mult_left_mono) auto
  moreover have "0 \<le> amount * bps"
    using assms by simp
  ultimately show ?thesis
    by (simp add: fits_i128_def i128_min_def)
qed

text \<open>
  What the amount validator of \<open>create_subscription\<close> accepts is exactly the range for which the
  fee product of any rate up to 100 percent stays inside \<open>i128\<close>: an accepted amount never
  overflows the unchecked \<open>charge_amount * fee_bps\<close>, and a rejected positive amount does at the
  maximum rate.
\<close>

theorem validated_amount_fee_product_exact:
  assumes "0 < amount"
  shows "validate_subscription_amount_for_create amount usage = Ok () \<longleftrightarrow>
    (\<forall>bps \<in> {0..10000}. wrap_i128 (amount * bps) = amount * bps)"
proof
  assume "validate_subscription_amount_for_create amount usage = Ok ()"
  then have "amount \<le> MAX_SUBSCRIPTION_AMOUNT"
    by (auto simp: validate_subscription_amount_for_create_def split: if_splits)
  with assms show "\<forall>bps \<in> {0..10000}. wrap_i128 (amount * bps) = amount * bps"
    by (auto intro!: wrap_i128_id max_subscription_amount_mul)
next
  assume "\<forall>bps \<in> {0..10000}. wrap_i128 (amount * bps) = amount * bps"
  then have "wrap_i128 (amount * 10000) = amount * 10000" by force
  then have "fits_i128 (amount * 10000)" by (metis fits_wrap_i128)
  then have "amount * 10000 \<le> i128_max" by (simp add: fits_i128_def)
  then have "amount \<le> MAX_SUBSCRIPTION_AMOUNT"
    by (simp add: MAX_SUBSCRIPTION_AMOUNT_def MAX_FEE_BIPS_def tdiv_nonneg i128_max_def)
  with assms show "validate_subscription_amount_for_create amount usage = Ok ()"
    by (simp add: validate_subscription_amount_for_create_def)
qed

theorem validated_amount_fee_product_exact_witness:
  "validate_subscription_amount_for_create 1000 False = Ok () \<longleftrightarrow>
    (\<forall>bps \<in> {0..10000}. wrap_i128 (1000 * bps) = 1000 * bps)"
  by (rule validated_amount_fee_product_exact) simp

text \<open>
  The null-byte check decides its property only for strings of at most 256 bytes: there it
  rejects exactly the strings that contain a zero byte. A longer string is never accepted or
  rejected: the first 256-byte slice does not have the string's length, so the copy panics,
  although the comment announces a check in 256-byte chunks.
\<close>

theorem reject_null_bytes_spec:
  "reject_null_bytes s =
     (if length s > 256 then Panic
      else if 0 \<in> set s then Err E_InvalidInput else Ok ())"
proof (cases "length s = 0")
  case True
  then show ?thesis by (simp add: reject_null_bytes_def)
next
  case False
  then have "null_byte_loop s 0 =
     (if length s > 256 then Panic
      else if 0 \<in> set s then Err E_InvalidInput else Ok ())"
    by (subst null_byte_loop.simps)
      (auto simp: copy_into_slice_def Let_def list_ex_iff null_byte_loop.simps [of s "length s"])
  with False show ?thesis by (simp add: reject_null_bytes_def)
qed

lemma reject_empty_string_Ok:
  "length s \<le> 256 \<Longrightarrow>
   reject_empty_string s = Ok () \<longleftrightarrow> (\<exists>b \<in> set s. \<not> ascii_whitespace b)"
  by (auto simp: reject_empty_string_def copy_into_slice_def list_all_iff Suc_le_eq)

end
