(* ===== verification/Status_Machine.thy ===== *)
theory Status_Machine
  imports Safe_Math
begin

text \<open>
  The subscription state machine of \<^verbatim>\<open>src/state_machine.rs\<close>: the transition matrix, the
  validating setter, and the states a subscription can reach through it.
\<close>

definition can_transition :: "subscription_status \<Rightarrow> subscription_status \<Rightarrow> bool" where
  "can_transition from to \<longleftrightarrow> from = to \<or>
     (from, to) \<in> {
       (Active, Paused), (Active, Cancelled), (Active, InsufficientBalance),
       (Active, GracePeriod), (Active, Expired),
       (Paused, Active), (Paused, Cancelled), (Paused, Expired),
       (InsufficientBalance, Active), (InsufficientBalance, Cancelled),
       (InsufficientBalance, Expired), (InsufficientBalance, Paused),
       (GracePeriod, Active), (GracePeriod, Cancelled),
       (GracePeriod, InsufficientBalance), (GracePeriod, Expired),
       (Cancelled, Archived), (Expired, Archived)}"

definition validate_status_transition :: "subscription_status \<Rightarrow> subscription_status \<Rightarrow> unit res" where
  "validate_status_transition from to =
     (if can_transition from to then Ok () else Err E_InvalidStatusTransition)"

text \<open>\<open>transition_to\<close> returns the new status; on an error the caller's status is unchanged.\<close>

definition transition_to :: "subscription_status \<Rightarrow> subscription_status \<Rightarrow> subscription_status res" where
  "transition_to current next =
     (case validate_status_transition current next of
        Ok _ \<Rightarrow> Ok next | Err e \<Rightarrow> Err e | Panic \<Rightarrow> Panic)"

primrec get_allowed_transitions :: "subscription_status \<Rightarrow> subscription_status list" where
  "get_allowed_transitions Active = [Paused, Cancelled, InsufficientBalance, GracePeriod, Expired]"
| "get_allowed_transitions Paused = [Active, Cancelled, Expired]"
| "get_allowed_transitions Cancelled = [Archived]"
| "get_allowed_transitions InsufficientBalance = [Active, Paused, Cancelled, Expired]"
| "get_allowed_transitions GracePeriod = [Active, Cancelled, InsufficientBalance, Expired]"
| "get_allowed_transitions Expired = [Archived]"
| "get_allowed_transitions Archived = []"

lemma transition_to_Ok [simp]:
  "transition_to c n = Ok r \<longleftrightarrow> r = n \<and> can_transition c n"
  by (auto simp: transition_to_def validate_status_transition_def)

lemma transition_to_Err [simp]:
  "transition_to c n = Err e \<longleftrightarrow> e = E_InvalidStatusTransition \<and> \<not> can_transition c n"
  by (auto simp: transition_to_def validate_status_transition_def)

lemma transition_to_not_Panic [simp]: "transition_to c n \<noteq> Panic"
  by (simp add: transition_to_def validate_status_transition_def)

text \<open>
  The table that tooling enumerates and the matrix the contract enforces are the same relation:
  the setter accepts a target from a status exactly when it is the status itself or listed for it.
\<close>

theorem allowed_transitions_agree:
  "transition_to s t = Ok t \<longleftrightarrow> t = s \<or> t \<in> set (get_allowed_transitions s)"
  by (cases s; cases t) (simp_all add: can_transition_def)

section \<open>Reachable statuses\<close>

inductive status_step :: "subscription_status \<Rightarrow> subscription_status \<Rightarrow> bool" where
  step: "transition_to s t = Ok t \<Longrightarrow> status_step s t"

inductive_cases status_stepE: "status_step s t"
inductive_simps status_step_simp [simp]: "status_step s t"

primrec closing_rank :: "subscription_status \<Rightarrow> nat" where
  "closing_rank Active = 0" | "closing_rank Paused = 0" | "closing_rank InsufficientBalance = 0"
| "closing_rank GracePeriod = 0" | "closing_rank Cancelled = 1" | "closing_rank Expired = 1"
| "closing_rank Archived = 2"

lemma can_transition_rank:
  "can_transition s t \<Longrightarrow> closing_rank s \<le> closing_rank t \<and> (closing_rank s = closing_rank t \<and> 0 < closing_rank s \<longrightarrow> s = t)"
  by (cases s; cases t) (simp_all add: can_transition_def)

lemma status_rank:
  "status_step\<^sup>*\<^sup>* s t \<Longrightarrow>
   closing_rank s \<le> closing_rank t \<and> (closing_rank s = closing_rank t \<and> 0 < closing_rank s \<longrightarrow> s = t)"
proof (induction rule: rtranclp_induct)
  case base
  then show ?case by simp
next
  case (step u v)
  then have "can_transition u v" by simp
  from can_transition_rank [OF this] step.IH show ?case
    by (cases "closing_rank s = closing_rank v") auto
qed

text \<open>
  A closed subscription stays closed: along any sequence of accepted transitions a cancelled (or
  expired) subscription is only ever that same status or archived, an archived one never changes,
  and a subscription never moves between cancelled and expired.
\<close>

theorem closed_statuses_absorbing:
  assumes "status_step\<^sup>*\<^sup>* s t"
  shows "(s = Cancelled \<longrightarrow> t = Cancelled \<or> t = Archived) \<and>
         (s = Expired \<longrightarrow> t = Expired \<or> t = Archived) \<and>
         (s = Archived \<longrightarrow> t = Archived)"
  using status_rank [OF assms] by (cases t) (auto dest: sym)

theorem closed_statuses_absorbing_witness:
  "status_step\<^sup>*\<^sup>* Cancelled Archived \<and> Archived \<in> {Cancelled, Archived} \<and>
   \<not> status_step\<^sup>*\<^sup>* Archived Active"
proof (intro conjI)
  show run: "status_step\<^sup>*\<^sup>* Cancelled Archived"
    by (simp add: r_into_rtranclp can_transition_def)
  from closed_statuses_absorbing [OF run] show "Archived \<in> {Cancelled, Archived}" by simp
  show "\<not> status_step\<^sup>*\<^sup>* Archived Active"
    using closed_statuses_absorbing [of Archived Active] by auto
qed

lemma every_status_archivable: "status_step\<^sup>*\<^sup>* s Archived"
proof -
  have "status_step\<^sup>*\<^sup>* s Cancelled \<or> s = Expired \<or> s = Archived"
    by (cases s) (auto simp: can_transition_def)
  moreover have "status_step Cancelled Archived" "status_step Expired Archived"
    by (simp_all add: can_transition_def)
  ultimately show ?thesis
    by (meson r_into_rtranclp rtranclp.rtrancl_refl rtranclp_trans)
qed

end
