(* ===== verification/Vault_State.thy ===== *)
theory Vault_State
  imports Safe_Math
begin

text \<open>
  The state of the contract: one store per component, each field a storage key of
  \<^verbatim>\<open>src/types.rs\<close> (\<open>DataKey\<close>), together with the ledger of the token contracts the vault calls
  and the log of published events. \<open>env\<close> holds what the host supplies to an invocation.

  Time-to-live extension of storage entries and the constant fields of events
  (\<open>schema_version\<close>, \<open>contract_id\<close>, \<open>batch_nonce\<close>) are not represented.
\<close>

section \<open>Oracle, dispute and governance records\<close>

datatype oracle_kind = Spot | Twap | FixedRate

record oracle_config =
  oc_enabled :: bool
  oc_oracle :: "address option"
  oc_max_age_seconds :: nat
  oc_kind :: oracle_kind
  oc_window_secs :: nat
  oc_fixed_numerator :: nat
  oc_fixed_denominator :: nat

record oracle_price =
  op_price :: int
  op_timestamp :: nat

datatype dispute_status = Open | Responded | ResolvedToMerchant | ResolvedToSubscriber

datatype resolution_target = ToSubscriber | ToMerchant

record dispute =
  d_id :: nat
  d_subscription_id :: nat
  d_subscriber :: address
  d_merchant :: address
  d_amount :: int
  d_opened_at :: nat
  d_status :: dispute_status
  d_evidence_hash :: "bytes option"
  d_responded_at :: "nat option"
  d_admin_evidence_hash :: "bytes option"

datatype proposal_kind =
    RotateAdmin | SetProtocolFee | UpgradeContract | EmergencyStop | RecoverStrandedFunds
  | AddAcceptedToken | RemoveAcceptedToken | SetDisputeWindow | SetOracleConfig

record proposal =
  pr_id :: nat
  pr_kind :: proposal_kind
  pr_target :: address
  pr_target2 :: "address option"
  pr_target3 :: nat
  pr_quorum_bps :: nat
  pr_votes :: "(address \<times> bool) list"
  pr_eta :: nat
  pr_submitted_at :: nat
  pr_executed :: bool

section \<open>Records of the subscription lifecycle\<close>

record dispute_escrow_ledger =
  de_original_amount :: int
  de_total_disbursed :: int

record credential_badge =
  cb_subscription_id :: nat
  cb_tier :: nat
  cb_issued_at :: nat
  cb_revoked :: bool

record subscriber_create_window =
  cw_start_ts :: nat
  cw_count :: nat

record plan_template =
  pl_merchant :: address
  pl_token :: address
  pl_amount :: int
  pl_interval_seconds :: nat
  pl_trial_seconds :: nat
  pl_trial_period_seconds :: "nat option"
  pl_usage_enabled :: bool
  pl_lifetime_cap :: "int option"
  pl_template_key :: nat
  pl_version :: nat
  pl_is_disabled :: bool

record transfer_intent =
  ti_subscription_id :: nat
  ti_from :: address
  ti_to :: address
  ti_expires_at :: nat

record emergency_withdraw_intent =
  ei_subscription_id :: nat
  ei_requested_at :: nat
  ei_requested_status :: subscription_status

record cancellation_escrow =
  ce_subscription_id :: nat
  ce_amount :: int
  ce_token :: address
  ce_subscriber :: address
  ce_merchant :: address
  ce_released_at :: nat

record delegated_payer_grant =
  dg_subscriber :: address
  dg_payer :: address
  dg_expires_at :: nat
  dg_max_amount :: int

datatype pause_initiator_role = BySubscriber | ByMerchant | ByAdmin

section \<open>The host\<close>

type_synonym ledger = "address \<Rightarrow> address \<Rightarrow> int"

text \<open>
  \<open>e_auth\<close> says which addresses authorised the invocation; \<open>e_transfer token from to amount\<close> is
  the token contract's transfer (\<open>None\<close>: it traps); \<open>e_latest_price\<close> and \<open>e_observations\<close> are
  the oracle contract's entry points. Their behaviour is not fixed here.
\<close>

record env =
  e_timestamp :: nat
  e_sequence :: nat
  e_self :: address
  e_auth :: "address \<Rightarrow> bool"
  e_sha256 :: "bytes \<Rightarrow> bytes"
  e_transfer :: "address \<Rightarrow> address \<Rightarrow> address \<Rightarrow> int \<Rightarrow> ledger \<Rightarrow> ledger option"
  e_latest_price :: "address \<Rightarrow> oracle_price option"
  e_observations :: "address \<Rightarrow> nat \<Rightarrow> (oracle_price list) option"

section \<open>Stores\<close>

text \<open>Configuration keys, kept in two tiers (see \<^verbatim>\<open>admin.rs::read_config\<close>).\<close>

record config_tier =
  cf_admin :: "address option"
  cf_token :: "address option"
  cf_min_topup :: "int option"
  cf_grace_period :: "nat option"
  cf_emergency_stop :: "bool option"
  cf_fee_bps :: "nat option"
  cf_treasury :: "address option"
  cf_fee_token :: "address option"
  cf_operator :: "address option"
  cf_oracle :: "oracle_config option"
  cf_dispute_window_secs :: "nat option"
  cf_subscriber_create_cap :: "nat option"
  cf_next_id :: "nat option"

record pending_treasury_change =
  pt_new_treasury :: address
  pt_new_fee_bps :: nat
  pt_effective_at :: nat

record admin_proposal =
  ap_new_admin :: address
  ap_proposed_at :: nat
  ap_expires_at :: nat

record admin_store =
  ad_persistent :: config_tier
  ad_instance :: config_tier
  ad_schema_persistent :: "nat option"
  ad_schema_instance :: "nat option"
  ad_config_changed_at :: "bytes \<Rightarrow> nat option"
  ad_auto_pause_threshold :: "nat option"
  ad_accepted_decimals :: "address \<Rightarrow> nat option"
  ad_pending_treasury :: "pending_treasury_change option"
  ad_admin_proposal :: "admin_proposal option"
  ad_recoveries :: "bytes \<Rightarrow> bool"
  ad_batch_nonce :: "nat option"
  ad_accepted_tokens :: "(address list) option"
  ad_buyout_premium_bps :: "nat option"

record merchant_store =
  m_balance :: "address \<Rightarrow> address \<Rightarrow> int option"
  m_earnings :: "address \<Rightarrow> address \<Rightarrow> token_earnings option"
  m_tokens :: "address \<Rightarrow> address list"
  m_config :: "address \<Rightarrow> merchant_config option"
  m_paused :: "address \<Rightarrow> bool option"
  m_vacation :: "address \<Rightarrow> merchant_vacation option"
  m_fee_bps :: "address \<Rightarrow> nat option"
  m_multisig :: "address \<Rightarrow> merchant_multisig_config option"
  m_sub_account :: "address \<Rightarrow> symbol \<Rightarrow> int option"
  m_sub_account_list :: "address \<Rightarrow> symbol list"
  m_payout_schedule :: "address \<Rightarrow> payout_schedule option"
  m_whitelist_mode :: "bool option"
  m_approved :: "address \<Rightarrow> bool option"
  m_usage_cap_override :: "address \<Rightarrow> bool option"
  m_tag_allowlist :: "(symbol list) option"
  m_tags :: "address \<Rightarrow> (symbol list) option"

record coupon_store =
  k_coupon :: "symbol \<Rightarrow> coupon option"
  k_redemptions :: "symbol \<Rightarrow> nat option"
  k_sub_coupon :: "nat \<Rightarrow> symbol option"
  k_redeemed :: "nat \<Rightarrow> symbol \<Rightarrow> bool"

record subscription_store =
  su_sub :: "nat \<Rightarrow> subscription option"
  su_split_payees :: "nat \<Rightarrow> ((address \<times> nat) list) option"
  su_subscriber_subs :: "address \<Rightarrow> (nat list) option"
  su_merchant_subs :: "address \<Rightarrow> (nat list) option"
  su_active_count :: "address \<Rightarrow> nat option"

text \<open>
  What else is stored about subscriptions, subscribers and plans. A plan template has two keys:
  \<open>DataKey::Plan\<close> (\<open>lf_plan\<close>) and the pair of the symbol \<open>plan\<close> and the id (\<open>lf_plan_pair\<close>).
\<close>

record lifecycle_store =
  lf_token_subs :: "address \<Rightarrow> (nat list) option"
  lf_credential :: "nat \<Rightarrow> credential_badge option"
  lf_create_window :: "address \<Rightarrow> subscriber_create_window option"
  lf_active_cap :: "address \<Rightarrow> nat option"
  lf_cap_default :: "int option"
  lf_merchant_cap :: "address \<Rightarrow> int option"
  lf_credit_limit :: "address \<Rightarrow> address \<Rightarrow> int option"
  lf_plan :: "nat \<Rightarrow> plan_template option"
  lf_plan_pair :: "nat \<Rightarrow> plan_template option"
  lf_next_plan_id :: "nat option"
  lf_sub_plan :: "nat \<Rightarrow> nat option"
  lf_plan_max_active :: "nat \<Rightarrow> nat option"
  lf_merchant_max_subs :: "address \<Rightarrow> nat option"
  lf_transfer_intent :: "nat \<Rightarrow> transfer_intent option"
  lf_emergency :: "nat \<Rightarrow> emergency_withdraw_intent option"
  lf_escrow :: "nat \<Rightarrow> cancellation_escrow option"
  lf_delegated :: "address \<Rightarrow> address \<Rightarrow> delegated_payer_grant option"

record metadata_store =
  md_keys :: "nat \<Rightarrow> (bytes list) option"
  md_value :: "nat \<Rightarrow> bytes \<Rightarrow> bytes option"

record charge_store =
  ch_charged_period :: "nat \<Rightarrow> nat option"
  ch_salt :: "nat \<Rightarrow> bytes option"
  ch_failure_counter :: "nat \<Rightarrow> nat option"
  ch_usage_limits :: "nat \<Rightarrow> usage_limits option"
  ch_usage_state :: "nat \<Rightarrow> usage_state option"
  ch_usage_ref :: "nat \<Rightarrow> bytes \<Rightarrow> bool"

record idem_ring_buffer =
  ib_entries :: "(bytes \<times> nat) list"
  ib_cursor :: nat

record idem_store =
  i_ttl_secs :: "nat option"
  i_buffer :: "nat \<Rightarrow> idem_ring_buffer option"

record statement_store =
  st_sequence :: "nat \<Rightarrow> nat option"
  st_statement :: "nat \<Rightarrow> nat \<Rightarrow> billing_statement option"
  st_index :: "nat \<Rightarrow> (nat list) option"
  st_aggregate :: "nat \<Rightarrow> billing_statement_aggregate option"
  st_keep_recent :: "nat option"

record snapshot_store =
  sn_snapshot :: "nat \<Rightarrow> nat \<Rightarrow> billing_period_snapshot option"
  sn_index :: "nat \<Rightarrow> (nat list) option"

record dispute_store =
  dp_dispute :: "nat \<Rightarrow> dispute option"
  dp_by_subscription :: "nat \<Rightarrow> nat option"
  dp_next_id :: "nat option"
  dp_escrow :: "nat \<Rightarrow> dispute_escrow_ledger option"

record governance_store =
  g_guardians :: "(address \<times> nat) list"
  g_proposal :: "nat \<Rightarrow> proposal option"
  g_next_id :: "nat option"
  g_invalidation_cutoff :: "nat option"

section \<open>Events\<close>

text \<open>Published events, grouped by the component that emits them.\<close>

datatype (plugins only: code) charge_event =
    Ev_charge_failed_v2 nat nat int nat
  | Ev_subscription_expired nat nat
  | Ev_lifetime_cap_reached nat int int nat
  | Ev_subscription_cancelled nat address int nat
  | Ev_protocol_fee_charged nat int address nat
  | Ev_fee_converted nat address int int nat nat
  | Ev_charged nat int int nat nat nat bytes int
  | Ev_grace_period_entered nat subscription_status nat nat
  | Ev_charge_failed nat int int int subscription_status nat
  | Ev_auto_paused nat nat nat nat
  | Ev_usage_charge_rejected nat int bytes usage_charge_result nat
  | Ev_usage_cap_reset nat nat nat int int nat
  | Ev_usage_charged nat int bytes nat
  | Ev_split_charge nat "(address \<times> int) list" nat

datatype (plugins only: code) merchant_event =
    Ev_merchant_paused address nat
  | Ev_merchant_unpaused address nat
  | Ev_vacation_started address nat nat nat
  | Ev_vacation_ended address nat
  | Ev_fee_override_set address address "nat option" nat
  | Ev_withdrawn address address int int nat
  | Ev_balance_snapshot address address int nat
  | Ev_merchant_refund address address address int nat
  | Ev_sub_account_created address symbol nat
  | Ev_sub_account_withdrawn address symbol address int int nat
  | Ev_payout_schedule_set address nat int nat
  | Ev_scheduled_payout address address nat nat
  | Ev_whitelist_mode bool address nat
  | Ev_merchant_approved address address nat
  | Ev_merchant_revoked address address nat
  | Ev_tag_allowlist_updated address "symbol list" nat
  | Ev_merchant_tags_updated address address "symbol list" nat
  | Ev_merchant_config_initialized address address int int nat
  | Ev_merchant_config_set address address int int nat
  | Ev_merchant_config_updated address address int int nat
  | Ev_merchant_addr_rotated address address address nat nat
  | Ev_merchant_balance_snapshot address address int int int int nat nat

datatype (plugins only: code) coupon_event =
    Ev_discount_applied nat int int int symbol nat
  | Ev_coupon_created address symbol nat
  | Ev_coupon_revoked address symbol nat
  | Ev_coupon_applied nat address symbol nat

datatype (plugins only: code) admin_event =
    Ev_nonce_consumed address nat nat nat
  | Ev_admin_config_changed string nat nat
  | Ev_min_topup_updated address int int nat
  | Ev_grace_period_updated nat
  | Ev_dispute_window_updated nat nat nat
  | Ev_treasury_change_queued address address nat nat nat
  | Ev_treasury_change_executed address address nat nat nat
  | Ev_fee_token_configured address "address option" nat
  | Ev_admin_proposal_created address address nat nat
  | Ev_admin_proposal_claimed address address nat
  | Ev_admin_proposal_cancelled address nat
  | Ev_admin_rotated address address nat
  | Ev_recovery address address address int nat
  | Ev_create_cap_updated nat
  | Ev_blocklist_added address bytes
  | Ev_blocklist_removed address
  | Ev_initialized address address int nat
  | Ev_operator_set address address nat
  | Ev_operator_removed address nat
  | Ev_emergency_stop address bool nat
  | Ev_schema_migrated address nat nat nat
  | Ev_contract_snapshot address nat
  | Ev_migration_export address nat nat nat nat
  | Ev_snapshot_exported address nat nat nat
  | Ev_snapshot_restored address nat nat nat
  | Ev_billing_compacted address nat nat nat int nat nat int "nat option" "nat option"

datatype (plugins only: code) governance_event =
    Ev_proposal_submitted nat proposal_kind address nat nat nat
  | Ev_vote_locked nat address nat nat
  | Ev_proposal_voted nat address bool nat nat
  | Ev_proposal_executed nat proposal_kind nat nat nat nat
  | Ev_proposal_cancelled nat nat
  | Ev_oracle_config_updated oracle_config nat
  | Ev_oracle_liveness nat nat bool nat

datatype (plugins only: code) life_event =
    Ev_rate_limit_tripped address nat
  | Ev_subscriber_cap_reached address nat nat nat
  | Ev_subscription_created nat address address address int nat "int option" "nat option" "nat option" nat
  | Ev_credential_issued nat nat nat
  | Ev_credential_revoked nat nat
  | Ev_cancelled nat address address address address int nat
  | Ev_cancel_scheduled nat nat address nat
  | Ev_cancel_unscheduled nat address nat
  | Ev_expiration_ledger_set nat "nat option" "nat option" address nat
  | Ev_auto_renew_toggled nat bool address nat
  | Ev_sub_paused nat address pause_initiator_role nat
  | Ev_sub_resumed nat address subscription_status nat
  | Ev_subscription_archived nat nat

datatype (plugins only: code) fund_event =
    Ev_funds_deposited nat address address int int nat
  | Ev_recovery_ready nat address int int nat
  | Ev_grace_buyout nat int int int nat
  | Ev_bulk_paused address nat nat nat nat nat nat
  | Ev_bulk_cancelled address nat nat nat nat nat nat
  | Ev_bulk_deposited address nat nat nat int nat nat
  | Ev_one_off_charged nat int int nat
  | Ev_emergency_withdraw nat address int nat
  | Ev_sub_withdrawn nat address address int nat
  | Ev_escrow_released nat address int nat
  | Ev_delegated_payer_granted address address nat int nat
  | Ev_delegated_payer_revoked address address nat
  | Ev_delegated_deposited nat address address address int int nat
  | Ev_partial_refund nat address address int nat

datatype (plugins only: code) plan_event =
    Ev_global_cap_set address int nat
  | Ev_merchant_cap_set address int nat
  | Ev_cap_updated nat address int nat
  | Ev_plan_created nat address address int nat bool nat
  | Ev_plan_template_updated nat nat nat nat address nat
  | Ev_plan_disabled nat address nat
  | Ev_subscription_migrated nat nat nat nat address address nat
  | Ev_plan_max_active_set nat address nat nat
  | Ev_merchant_max_subs_updated address nat nat
  | Ev_usage_limits_configured nat usage_limits nat
  | Ev_transfer_intent_created nat address address nat nat
  | Ev_subscription_transferred nat address address nat
  | Ev_transfer_vetoed nat address nat
  | Ev_plan_registered nat address address int nat nat bool "int option" nat
  | Ev_plan_deprecated nat address nat
  | Ev_split_payees_updated nat nat

datatype (plugins only: code) dispute_event =
    Ev_dispute_opened nat nat address address int "bytes option" nat address
  | Ev_dispute_responded nat nat "bytes option" nat address
  | Ev_dispute_resolved nat nat dispute_status resolution_target nat address
  | Ev_cancellation_escrow_released nat address int nat
  | Ev_cancellation_escrow_disputed nat address nat int nat

datatype (plugins only: code) metadata_event =
    Ev_metadata_set nat bytes address
  | Ev_metadata_deleted nat bytes address
  | Ev_metadata_set_signed nat bytes address nat nat

datatype (plugins only: code) event =
    ChargeEv charge_event | MerchantEv merchant_event | CouponEv coupon_event | AdminEv admin_event
  | GovEv governance_event | LifeEv life_event | FundEv fund_event | PlanEv plan_event
  | DisputeEv dispute_event | MetaEv metadata_event

record vault =
  v_admin :: admin_store
  v_merchant :: merchant_store
  v_coupon :: coupon_store
  v_subs :: subscription_store
  v_life :: lifecycle_store
  v_meta :: metadata_store
  v_charge :: charge_store
  v_idem :: idem_store
  v_stmt :: statement_store
  v_snap :: snapshot_store
  v_dispute :: dispute_store
  v_gov :: governance_store
  v_nonce :: "address \<Rightarrow> nat \<Rightarrow> nat option"
  v_blocklist :: "address \<Rightarrow> bytes option"
  v_locks :: "symbol \<Rightarrow> bool"
  v_ledger :: ledger
  v_events :: "event list"

type_synonym 'a vm = "(vault, error, 'a) act"

section \<open>Host calls\<close>

definition publish :: "event \<Rightarrow> unit vm" where
  "publish e = modify (\<lambda>v. v\<lparr>v_events := v_events v @ [e]\<rparr>)"

text \<open>\<open>require_auth\<close> traps when the address did not authorise the call.\<close>

definition require_auth :: "env \<Rightarrow> address \<Rightarrow> unit vm" where
  "require_auth E a = (if e_auth E a then ret () else panic)"

definition token_transfer :: "env \<Rightarrow> address \<Rightarrow> address \<Rightarrow> address \<Rightarrow> int \<Rightarrow> unit vm" where
  "token_transfer E token from to amount =
     bnd (gets v_ledger) (\<lambda>l.
     case e_transfer E token from to amount l of
       None \<Rightarrow> panic
     | Some l' \<Rightarrow> modify (\<lambda>v. v\<lparr>v_ledger := l'\<rparr>))"

definition token_balance :: "address \<Rightarrow> address \<Rightarrow> int vm" where
  "token_balance token holder = gets (\<lambda>v. v_ledger v token holder)"

text \<open>The documented behaviour of a SEP-41 token: a transfer moves the amount or traps.\<close>

definition sep41 :: "env \<Rightarrow> bool" where
  "sep41 E \<longleftrightarrow> (\<forall>token from to amount l l'.
     e_transfer E token from to amount l = Some l' \<longrightarrow>
       0 \<le> amount \<and> amount \<le> l token from \<and>
       l' = l(token := ((l token)(from := l token from - amount))
              (to := ((l token)(from := l token from - amount)) to + amount)))"

definition sep41_transfer ::
  "address \<Rightarrow> address \<Rightarrow> address \<Rightarrow> int \<Rightarrow> ledger \<Rightarrow> ledger option" where
  "sep41_transfer token from to amount l =
     (if 0 \<le> amount \<and> amount \<le> l token from
      then Some (l(token := ((l token)(from := l token from - amount))
              (to := ((l token)(from := l token from - amount)) to + amount)))
      else None)"

lemma publish_ok [act_ok]:
  "publish e s = (Ok u, t) \<longleftrightarrow> t = s\<lparr>v_events := v_events s @ [e]\<rparr>"
  by (simp add: publish_def act_ok)

lemma publish_run [act_run]: "publish e s = (Ok (), s\<lparr>v_events := v_events s @ [e]\<rparr>)"
  by (simp add: publish_def act_run)

lemma require_auth_ok [act_ok]: "require_auth E a s = (Ok u, t) \<longleftrightarrow> e_auth E a \<and> t = s"
  by (auto simp: require_auth_def act_ok)

lemma token_transfer_ok [act_ok]:
  "token_transfer E token from to amount s = (Ok u, t) \<longleftrightarrow>
     (\<exists>l. e_transfer E token from to amount (v_ledger s) = Some l \<and> t = s\<lparr>v_ledger := l\<rparr>)"
  by (auto simp: token_transfer_def act_ok split: option.splits)

lemma token_balance_ok [act_ok]:
  "token_balance token h s = (Ok b, t) \<longleftrightarrow> b = v_ledger s token h \<and> t = s"
  by (simp add: token_balance_def act_ok)

lemmas host_run [act_run] = require_auth_def token_transfer_def token_balance_def

lemma keeps_host [keeps_intro]:
  "keeps g (require_auth E a)" "keeps g (token_balance token h)"
  by (auto simp: require_auth_def token_balance_def intro: keeps_intro)

lemma keeps_publish [keeps_intro]: "(\<And>s l. g (s\<lparr>v_events := l\<rparr>) = g s) \<Longrightarrow> keeps g (publish e)"
  by (simp add: publish_def keeps_modify)

lemma keeps_transfer [keeps_intro]:
  "(\<And>s l. g (s\<lparr>v_ledger := l\<rparr>) = g s) \<Longrightarrow> keeps g (token_transfer E token from to amount)"
  by (auto simp: token_transfer_def intro!: keeps_intro)

section \<open>Subscription storage\<close>

definition write_subscription :: "nat \<Rightarrow> subscription \<Rightarrow> unit vm" where
  "write_subscription i sub =
     modify (\<lambda>v. v\<lparr>v_subs := (v_subs v)\<lparr>su_sub := (su_sub (v_subs v))(i \<mapsto> sub)\<rparr>\<rparr>)"

definition get_split_payees :: "nat \<Rightarrow> (((address \<times> nat) list) option) vm" where
  "get_split_payees i = gets (\<lambda>v. su_split_payees (v_subs v) i)"

definition next_charge_time :: "nat \<Rightarrow> nat \<Rightarrow> nat res" where
  "next_charge_time last_payment interval =
     (case checked_add_u64 last_payment interval of Some n \<Rightarrow> Ok n | None \<Rightarrow> Err E_Overflow)"

definition lifetime_cap_reached :: "int \<Rightarrow> int \<Rightarrow> bool" where
  "lifetime_cap_reached cap lifetime_charged \<longleftrightarrow> lifetime_charged \<ge> cap"

lemma write_subscription_run [act_run]:
  "write_subscription i sub s =
     (Ok (), s\<lparr>v_subs := (v_subs s)\<lparr>su_sub := (su_sub (v_subs s))(i \<mapsto> sub)\<rparr>\<rparr>)"
  by (simp add: write_subscription_def act_run)

lemma write_subscription_ok [act_ok]:
  "write_subscription i sub s = (Ok u, t) \<longleftrightarrow>
     t = s\<lparr>v_subs := (v_subs s)\<lparr>su_sub := (su_sub (v_subs s))(i \<mapsto> sub)\<rparr>\<rparr>"
  by (simp add: write_subscription_def act_ok)

lemma get_split_payees_ok [act_ok]:
  "get_split_payees i s = (Ok p, t) \<longleftrightarrow> p = su_split_payees (v_subs s) i \<and> t = s"
  by (simp add: get_split_payees_def act_ok)

lemma keeps_subs [keeps_intro]:
  "keeps g (get_split_payees i)"
  by (auto simp: get_split_payees_def intro: keeps_intro)

lemma keeps_write_subscription [keeps_intro]:
  "(\<And>s x. g (s\<lparr>v_subs := x\<rparr>) = g s) \<Longrightarrow> keeps g (write_subscription i sub)"
  by (simp add: write_subscription_def keeps_modify)

section \<open>An empty contract and a host for it\<close>

definition empty_config :: config_tier where
  "empty_config = \<lparr>cf_admin = None, cf_token = None, cf_min_topup = None, cf_grace_period = None,
     cf_emergency_stop = None, cf_fee_bps = None, cf_treasury = None, cf_fee_token = None,
     cf_operator = None, cf_oracle = None, cf_dispute_window_secs = None,
     cf_subscriber_create_cap = None, cf_next_id = None\<rparr>"

text \<open>The storage of a freshly deployed contract.\<close>

definition empty_vault :: vault where
  "empty_vault = \<lparr>
     v_admin = \<lparr>ad_persistent = empty_config, ad_instance = empty_config,
       ad_schema_persistent = None, ad_schema_instance = None, ad_config_changed_at = Map.empty,
       ad_auto_pause_threshold = None, ad_accepted_decimals = Map.empty,
       ad_pending_treasury = None, ad_admin_proposal = None, ad_recoveries = (\<lambda>_. False),
       ad_batch_nonce = None, ad_accepted_tokens = None, ad_buyout_premium_bps = None\<rparr>,
     v_merchant = \<lparr>m_balance = (\<lambda>_. Map.empty), m_earnings = (\<lambda>_. Map.empty), m_tokens = (\<lambda>_. []),
       m_config = Map.empty, m_paused = Map.empty, m_vacation = Map.empty, m_fee_bps = Map.empty,
       m_multisig = Map.empty, m_sub_account = (\<lambda>_. Map.empty), m_sub_account_list = (\<lambda>_. []),
       m_payout_schedule = Map.empty, m_whitelist_mode = None, m_approved = Map.empty,
       m_usage_cap_override = Map.empty, m_tag_allowlist = None, m_tags = Map.empty\<rparr>,
     v_coupon = \<lparr>k_coupon = Map.empty, k_redemptions = Map.empty, k_sub_coupon = Map.empty,
       k_redeemed = (\<lambda>_ _. False)\<rparr>,
     v_subs = \<lparr>su_sub = Map.empty, su_split_payees = Map.empty, su_subscriber_subs = Map.empty,
       su_merchant_subs = Map.empty, su_active_count = Map.empty\<rparr>,
     v_life = \<lparr>lf_token_subs = Map.empty, lf_credential = Map.empty, lf_create_window = Map.empty,
       lf_active_cap = Map.empty, lf_cap_default = None, lf_merchant_cap = Map.empty,
       lf_credit_limit = (\<lambda>_. Map.empty), lf_plan = Map.empty, lf_plan_pair = Map.empty,
       lf_next_plan_id = None, lf_sub_plan = Map.empty, lf_plan_max_active = Map.empty,
       lf_merchant_max_subs = Map.empty, lf_transfer_intent = Map.empty, lf_emergency = Map.empty,
       lf_escrow = Map.empty, lf_delegated = (\<lambda>_. Map.empty)\<rparr>,
     v_meta = \<lparr>md_keys = Map.empty, md_value = (\<lambda>_. Map.empty)\<rparr>,
     v_charge = \<lparr>ch_charged_period = Map.empty, ch_salt = Map.empty, ch_failure_counter = Map.empty,
       ch_usage_limits = Map.empty, ch_usage_state = Map.empty, ch_usage_ref = (\<lambda>_ _. False)\<rparr>,
     v_idem = \<lparr>i_ttl_secs = None, i_buffer = Map.empty\<rparr>,
     v_stmt = \<lparr>st_sequence = Map.empty, st_statement = (\<lambda>_. Map.empty), st_index = Map.empty,
       st_aggregate = Map.empty, st_keep_recent = None\<rparr>,
     v_snap = \<lparr>sn_snapshot = (\<lambda>_. Map.empty), sn_index = Map.empty\<rparr>,
     v_dispute = \<lparr>dp_dispute = Map.empty, dp_by_subscription = Map.empty, dp_next_id = None,
       dp_escrow = Map.empty\<rparr>,
     v_gov = \<lparr>g_guardians = [], g_proposal = Map.empty, g_next_id = None,
       g_invalidation_cutoff = None\<rparr>,
     v_nonce = (\<lambda>_. Map.empty), v_blocklist = Map.empty, v_locks = (\<lambda>_. False),
     v_ledger = (\<lambda>_ _. 0), v_events = []\<rparr>"

definition test_env :: env where
  "test_env = \<lparr>e_timestamp = 1000000, e_sequence = 100, e_self = Addr 0, e_auth = (\<lambda>_. True),
     e_sha256 = id, e_transfer = sep41_transfer, e_latest_price = (\<lambda>_. None),
     e_observations = (\<lambda>_ _. None)\<rparr>"

lemma test_env_simps [simp]:
  "e_timestamp test_env = 1000000" "e_sequence test_env = 100" "e_self test_env = Addr 0"
  "e_auth test_env a" "e_sha256 test_env b = b"
  "e_transfer test_env = sep41_transfer" "e_latest_price test_env o1 = None"
  "e_observations test_env o1 w = None"
  by (simp_all add: test_env_def)

end
