(* ===== verification/Vault_Interfaces.thy ===== *)
theory Vault_Interfaces
  imports Safe_Math
begin

text \<open>
  The interfaces between components: a counter that makes requests single-use (nonces), and a
  book of balances that can only be credited (merchant balances, sub-accounts). Each is stated as
  a locale over the operations a client calls; the components interpret it on their own
  definitions.
\<close>

section \<open>Serving a sequence of requests\<close>

primrec serve :: "('x \<Rightarrow> ('s, 'e, 'a) act) \<Rightarrow> 'x list \<Rightarrow> 's \<Rightarrow> ('e, 'a) outcome list \<times> 's" where
  "serve f [] s = ([], s)"
| "serve f (x # xs) s =
     (case f x s of (r, t) \<Rightarrow> (case serve f xs t of (rs, u) \<Rightarrow> (r # rs, u)))"

lemma serve_length: "serve f xs s = (rs, t) \<Longrightarrow> length rs = length xs"
  by (induction xs arbitrary: s rs) (auto split: prod.splits)

lemma serve_append:
  "serve f (xs @ ys) s =
     (case serve f xs s of (rs, t) \<Rightarrow> (case serve f ys t of (qs, u) \<Rightarrow> (rs @ qs, u)))"
  by (induction xs arbitrary: s) (auto split: prod.splits)

lemma serve_invariant:
  assumes "\<And>x s r t. f x s = (r, t) \<Longrightarrow> I s \<Longrightarrow> I t"
  shows "serve f xs s = (rs, t) \<Longrightarrow> I s \<Longrightarrow> I t"
  by (induction xs arbitrary: s rs) (auto split: prod.splits dest: assms)

section \<open>Single-use counters\<close>

locale replay_counter =
  fixes current :: "'s \<Rightarrow> 'k \<Rightarrow> nat"
    and consume :: "'k \<times> nat \<Rightarrow> ('s, error, unit) act"
  assumes consume_Ok: "consume (k, n) s = (Ok u, t) \<Longrightarrow> n = current s k \<and> current t k = Suc n"
    and consume_other: "consume (k, n) s = (r, t) \<Longrightarrow> k' \<noteq> k \<Longrightarrow> current t k' = current s k'"
    and consume_refused: "consume (k, n) s = (r, t) \<Longrightarrow> r \<noteq> Ok () \<Longrightarrow> current t k = current s k"
begin

lemma consume_mono:
  assumes "consume (k, n) s = (r, t)"
  shows "current s k' \<le> current t k'"
proof (cases "k' = k")
  case True
  show ?thesis
  proof (cases "r = Ok ()")
    case True
    with assms \<open>k' = k\<close> show ?thesis by (auto dest: consume_Ok)
  next
    case False
    with assms \<open>k' = k\<close> show ?thesis by (simp add: consume_refused)
  qed
next
  case False
  with assms show ?thesis by (simp add: consume_other)
qed

lemma serve_mono: "serve consume xs s = (rs, t) \<Longrightarrow> current s k \<le> current t k"
proof (induction xs arbitrary: s rs)
  case Nil
  then show ?case by simp
next
  case (Cons x xs)
  obtain k' n where x: "x = (k', n)" by (cases x)
  from Cons.prems x obtain r u rs' where
    "consume (k', n) s = (r, u)" "serve consume xs u = (rs', t)"
    by (auto split: prod.splits)
  with Cons.IH consume_mono show ?case by (meson le_trans)
qed

text \<open>A request below the current value is never served again, however long one waits.\<close>

lemma stale_refused:
  "serve consume xs s = (rs, t) \<Longrightarrow> n < current s k \<Longrightarrow> i < length xs \<Longrightarrow>
   xs ! i = (k, n) \<Longrightarrow> rs ! i \<noteq> Ok ()"
proof (induction xs arbitrary: s rs i)
  case Nil
  then show ?case by simp
next
  case (Cons x xs)
  obtain k' m where x: "x = (k', m)" by (cases x)
  from Cons.prems(1) x obtain r u rs' where
    one: "consume (k', m) s = (r, u)" and rest: "serve consume xs u = (rs', t)" and rs: "rs = r # rs'"
    by (auto split: prod.splits)
  show ?case
  proof (cases i)
    case 0
    with Cons.prems x one rs show ?thesis by (auto dest: consume_Ok)
  next
    case (Suc j)
    from consume_mono [OF one] Cons.prems(2) have "n < current u k" by (meson less_le_trans)
    with Cons.IH [OF rest] Cons.prems Suc rs show ?thesis by simp
  qed
qed

lemma served_once:
  assumes run: "serve consume xs s = (rs, t)" and ij: "i < j" "j < length xs"
    and same: "xs ! i = (k, n)" "xs ! j = (k, n)" and served: "rs ! i = Ok ()"
  shows "rs ! j \<noteq> Ok ()"
proof -
  define ys where "ys = drop (Suc i) xs"
  have "xs = take i xs @ xs ! i # drop (Suc i) xs"
    using ij by (intro id_take_nth_drop) simp
  then have xs: "xs = take i xs @ (k, n) # ys"
    unfolding ys_def same(1) .
  obtain qs u where pre: "serve consume (take i xs) s = (qs, u)" by fastforce
  obtain r w where one: "consume (k, n) u = (r, w)" by fastforce
  obtain ps z where post: "serve consume ys w = (ps, z)" by fastforce
  have "serve consume (take i xs @ (k, n) # ys) s = (qs @ r # ps, z)"
    by (simp add: serve_append pre one post)
  with run xs have rs: "rs = qs @ r # ps" by simp
  have len: "length qs = i" using serve_length [OF pre] ij by simp
  with served rs have "r = Ok ()" by (simp add: nth_append)
  with one have "n < current w k" by (auto dest: consume_Ok)
  moreover have "ys ! (j - Suc i) = (k, n)" "j - Suc i < length ys"
    using ij same by (simp_all add: ys_def)
  ultimately have "ps ! (j - Suc i) \<noteq> Ok ()"
    using stale_refused [OF post] by blast
  moreover have "rs ! j = ps ! (j - Suc i)"
    using rs len ij by (simp add: nth_append nth_Cons' less_diff_conv2)
  ultimately show ?thesis by simp
qed

end

section \<open>Books of balances\<close>

locale balance_book =
  fixes bal :: "'s \<Rightarrow> 'k \<Rightarrow> int"
    and credit :: "'k \<times> int \<Rightarrow> ('s, error, unit) act"
  assumes credit_ok: "credit (k, a) s = (Ok u, t) \<Longrightarrow> 0 \<le> a \<and> bal t k = bal s k + a"
    and credit_other: "credit (k, a) s = (Ok u, t) \<Longrightarrow> k' \<noteq> k \<Longrightarrow> bal t k' = bal s k'"
begin

lemma each_credit:
  "each credit xs s = (Ok u, t) \<Longrightarrow>
   bal t k = bal s k + (\<Sum>x \<leftarrow> filter (\<lambda>x. fst x = k) xs. snd x) \<and> (\<forall>x \<in> set xs. 0 \<le> snd x)"
proof (induction xs arbitrary: s)
  case Nil
  then show ?case by (simp add: act_ok)
next
  case (Cons x xs)
  obtain k' a where x: "x = (k', a)" by (cases x)
  from Cons.prems x obtain v where
    one: "credit (k', a) s = (Ok (), v)" and rest: "each credit xs v = (Ok u, t)"
    by (auto simp: act_ok)
  from Cons.IH [OF rest] credit_ok [OF one] credit_other [OF one, of k] x
  show ?case by auto
qed

lemma each_credit_total:
  assumes run: "each credit xs s = (Ok u, t)" and fin: "finite K" and dom: "fst ` set xs \<subseteq> K"
  shows "(\<Sum>k \<in> K. bal t k) = (\<Sum>k \<in> K. bal s k) + (\<Sum>x \<leftarrow> xs. snd x)"
proof -
  have "(\<Sum>k \<in> K. \<Sum>x \<leftarrow> filter (\<lambda>x. fst x = k) xs. snd x) = (\<Sum>x \<leftarrow> xs. snd x)"
    using dom
  proof (induction xs)
    case Nil
    then show ?case by simp
  next
    case (Cons x xs)
    have "(\<Sum>k \<in> K. \<Sum>y \<leftarrow> filter (\<lambda>y. fst y = k) (x # xs). snd y) =
          (\<Sum>k \<in> K. (if fst x = k then snd x else 0) + (\<Sum>y \<leftarrow> filter (\<lambda>y. fst y = k) xs. snd y))"
      by (rule sum.cong) auto
    also have "\<dots> = snd x + (\<Sum>y \<leftarrow> xs. snd y)"
      using Cons fin by (simp add: sum.distrib)
    finally show ?case by simp
  qed
  moreover have "\<And>k. bal t k = bal s k + (\<Sum>x \<leftarrow> filter (\<lambda>x. fst x = k) xs. snd x)"
    using each_credit [OF run] by simp
  ultimately show ?thesis by (simp add: sum.distrib)
qed

end

end
