(* ===== verification/Nonces.thy ===== *)
theory Nonces
  imports Vault_Interfaces Vault_State
begin

text \<open>
  Replay-protection counters (\<^verbatim>\<open>src/nonce.rs\<close>): one \<open>u64\<close> per signer and operation domain.
\<close>

datatype nonce_domain =
    BatchCharge | AdminRotation | OperatorBatchCharge | MetadataSigned | MerchantRotation
  | ChargeInterval | DepositFunds | ChargeOneoff | SubscriberWithdrawal | ChargebackDispute
  | GovernanceVote

primrec as_u32 :: "nonce_domain \<Rightarrow> nat" where
  "as_u32 BatchCharge = 0" | "as_u32 AdminRotation = 1" | "as_u32 OperatorBatchCharge = 2"
| "as_u32 MetadataSigned = 3" | "as_u32 MerchantRotation = 4" | "as_u32 ChargeInterval = 5"
| "as_u32 DepositFunds = 6" | "as_u32 ChargeOneoff = 7" | "as_u32 SubscriberWithdrawal = 8"
| "as_u32 ChargebackDispute = 9" | "as_u32 GovernanceVote = 10"

definition domain_try_from :: "nat \<Rightarrow> nonce_domain option" where
  "domain_try_from v =
     map_of [(0, BatchCharge), (1, AdminRotation), (2, OperatorBatchCharge), (3, MetadataSigned),
       (4, MerchantRotation), (5, ChargeInterval), (6, DepositFunds), (7, ChargeOneoff),
       (8, SubscriberWithdrawal), (9, ChargebackDispute), (10, GovernanceVote)] v"

lemma domain_roundtrip: "domain_try_from (as_u32 d) = Some d"
  by (cases d) (simp_all add: domain_try_from_def)

lemma as_u32_inject [simp]: "as_u32 d = as_u32 d' \<longleftrightarrow> d = d'"
  by (metis domain_roundtrip option.inject)

definition stored_nonce :: "vault \<Rightarrow> address \<Rightarrow> nat \<Rightarrow> nat" where
  "stored_nonce v signer k = (case v_nonce v signer k of Some n \<Rightarrow> n | None \<Rightarrow> 0)"

definition get_nonce :: "address \<Rightarrow> nonce_domain \<Rightarrow> nat vm" where
  "get_nonce signer d = gets (\<lambda>v. stored_nonce v signer (as_u32 d))"

definition compute_next_nonce :: "nat \<Rightarrow> nat \<Rightarrow> nat res" where
  "compute_next_nonce stored expected =
     (if expected \<noteq> stored then Err E_NonceAlreadyUsed
      else case checked_add_u64 stored 1 of Some n \<Rightarrow> Ok n | None \<Rightarrow> Err E_Overflow)"

definition validate_nonce :: "address \<Rightarrow> nonce_domain \<Rightarrow> nat \<Rightarrow> unit vm" where
  "validate_nonce signer d expected =
     bnd (gets (\<lambda>v. stored_nonce v signer (as_u32 d))) (\<lambda>stored.
     bnd (lift (compute_next_nonce stored expected)) (\<lambda>_. ret ()))"

definition check_and_advance :: "env \<Rightarrow> address \<Rightarrow> nonce_domain \<Rightarrow> nat \<Rightarrow> unit vm" where
  "check_and_advance E signer d expected =
     (let domain = as_u32 d in
     bnd (gets (\<lambda>v. stored_nonce v signer domain)) (\<lambda>stored.
     bnd (lift (compute_next_nonce stored expected)) (\<lambda>next.
     thn (modify (\<lambda>v. v\<lparr>v_nonce := (v_nonce v)(signer := (v_nonce v signer)(domain \<mapsto> next))\<rparr>))
     (publish (AdminEv (Ev_nonce_consumed signer domain stored (e_timestamp E)))))))"

lemma compute_next_nonce_Ok [simp]:
  "compute_next_nonce stored expected = Ok n \<longleftrightarrow>
     expected = stored \<and> n = Suc stored \<and> stored < u64_max"
  by (auto simp: compute_next_nonce_def checked_add_u64_def)

lemma check_and_advance_ok [act_ok]:
  "check_and_advance E a d n s = (Ok u, t) \<longleftrightarrow>
     n = stored_nonce s a (as_u32 d) \<and> n < u64_max \<and>
     t = s\<lparr>v_nonce := (v_nonce s)(a := (v_nonce s a)(as_u32 d \<mapsto> Suc n)),
           v_events := v_events s @ [AdminEv (Ev_nonce_consumed a (as_u32 d) n (e_timestamp E))]\<rparr>"
  by (auto simp: check_and_advance_def Let_def act_ok)

lemma check_and_advance_refused:
  "check_and_advance E a d n s = (r, t) \<Longrightarrow> r \<noteq> Ok () \<Longrightarrow> t = s"
  by (auto simp: check_and_advance_def Let_def act_run split: outcome.splits prod.splits)

lemma validate_nonce_ok [act_ok]:
  "validate_nonce a d n s = (Ok u, t) \<longleftrightarrow>
     n = stored_nonce s a (as_u32 d) \<and> n < u64_max \<and> t = s"
  by (auto simp: validate_nonce_def act_ok)

lemma keeps_nonce [keeps_intro]:
  "keeps g (get_nonce a d)" "keeps g (validate_nonce a d n)"
  "(\<And>s x. g (s\<lparr>v_nonce := x\<rparr>) = g s) \<Longrightarrow> (\<And>s l. g (s\<lparr>v_events := l\<rparr>) = g s) \<Longrightarrow>
   keeps g (check_and_advance E a d n)"
  by (auto simp: get_nonce_def validate_nonce_def check_and_advance_def Let_def intro!: keeps_intro)

definition nonce_request :: "env \<Rightarrow> (address \<times> nonce_domain) \<times> nat \<Rightarrow> unit vm" where
  "nonce_request E = (\<lambda>((signer, d), n). check_and_advance E signer d n)"

interpretation nonces: replay_counter
  "\<lambda>v (signer, d). stored_nonce v signer (as_u32 d)" "nonce_request E" for E
proof (unfold_locales, goal_cases)
  case (1 k n s u t)
  then show ?case by (cases k) (auto simp: nonce_request_def act_ok stored_nonce_def)
next
  case (2 k n s r t k')
  then show ?case
    by (cases k; cases k'; cases "r = Ok ()")
      (auto simp: nonce_request_def act_ok stored_nonce_def dest: check_and_advance_refused)
next
  case (3 k n s r t)
  then show ?case
    by (cases k) (auto simp: nonce_request_def dest: check_and_advance_refused)
qed

text \<open>
  A nonce is accepted at most once: in any sequence of requests by any signers in any domains,
  if a request with a given signer, domain and value was accepted, every later request with the
  same signer, domain and value is refused.
\<close>

theorem nonce_never_replayed:
  assumes "serve (nonce_request E) reqs v = (results, v')"
    and "i < j" and "j < length reqs"
    and "reqs ! i = ((signer, d), n)" and "reqs ! j = ((signer, d), n)"
    and "results ! i = Ok ()"
  shows "results ! j \<noteq> Ok ()"
  using assms by (rule nonces.served_once)

theorem nonce_never_replayed_witness:
  "fst (serve (nonce_request test_env)
     [((Addr 1, BatchCharge), 0), ((Addr 2, BatchCharge), 0), ((Addr 1, BatchCharge), 0)] empty_vault) ! 2
   \<noteq> Ok ()"
proof -
  let ?reqs = "[((Addr 1, BatchCharge), 0), ((Addr 2, BatchCharge), 0), ((Addr 1, BatchCharge), 0)]"
  obtain rs t where run: "serve (nonce_request test_env) ?reqs empty_vault = (rs, t)" by fastforce
  have "fst (serve (nonce_request test_env) ?reqs empty_vault) ! 0 = Ok ()"
    by (simp add: nonce_request_def check_and_advance_def Let_def act_run stored_nonce_def
        compute_next_nonce_def checked_add_u64_def u64_max_def empty_vault_def publish_def
        split: prod.splits)
  with run have "rs ! 0 = Ok ()" by simp
  with run have "rs ! 2 \<noteq> Ok ()"
    by (intro nonce_never_replayed [of test_env ?reqs empty_vault rs t 0 2 "Addr 1" BatchCharge 0])
      simp_all
  with run show ?thesis by simp
qed

end
