(* ===== verification/Admin_Config.thy ===== *)
theory Admin_Config
  imports Vault_State
begin

text \<open>
  Administrative configuration (\<^verbatim>\<open>src/admin.rs\<close>): the two-tier storage of configuration keys, the
  authorisation checks, the per-key change cooldown and the getters and setters built on them.
\<close>

section \<open>Two-tier configuration storage\<close>

definition mod_admin :: "(admin_store \<Rightarrow> admin_store) \<Rightarrow> unit vm" where
  "mod_admin f = modify (\<lambda>v. v\<lparr>v_admin := f (v_admin v)\<rparr>)"

definition schema_version :: "admin_store \<Rightarrow> nat" where
  "schema_version a =
     (case ad_schema_persistent a of
        Some v \<Rightarrow> v
      | None \<Rightarrow> (case ad_schema_instance a of Some v \<Rightarrow> v | None \<Rightarrow> 0))"

definition get_schema_version :: "nat vm" where
  "get_schema_version = gets (\<lambda>v. schema_version (v_admin v))"

definition config_value :: "(config_tier \<Rightarrow> 'a option) \<Rightarrow> admin_store \<Rightarrow> 'a option" where
  "config_value k a =
     (case k (ad_persistent a) of
        Some x \<Rightarrow> Some x
      | None \<Rightarrow> if schema_version a < 3 then k (ad_instance a) else None)"

definition read_config :: "(config_tier \<Rightarrow> 'a option) \<Rightarrow> ('a option) vm" where
  "read_config k = gets (\<lambda>v. config_value k (v_admin v))"

definition config_put ::
  "(('a option \<Rightarrow> 'a option) \<Rightarrow> config_tier \<Rightarrow> config_tier) \<Rightarrow> 'a \<Rightarrow> admin_store \<Rightarrow> admin_store" where
  "config_put u x a =
     (if schema_version a \<ge> 3
      then a\<lparr>ad_persistent := u (\<lambda>_. Some x) (ad_persistent a),
             ad_instance := u (\<lambda>_. None) (ad_instance a)\<rparr>
      else a\<lparr>ad_instance := u (\<lambda>_. Some x) (ad_instance a)\<rparr>)"

definition write_config ::
  "(('a option \<Rightarrow> 'a option) \<Rightarrow> config_tier \<Rightarrow> config_tier) \<Rightarrow> 'a \<Rightarrow> unit vm" where
  "write_config u x = mod_admin (config_put u x)"

definition has_config :: "(config_tier \<Rightarrow> 'a option) \<Rightarrow> bool vm" where
  "has_config k = gets (\<lambda>v.
     k (ad_persistent (v_admin v)) \<noteq> None \<or>
     (schema_version (v_admin v) < 3 \<and> k (ad_instance (v_admin v)) \<noteq> None))"

definition remove_config ::
  "(('a option \<Rightarrow> 'a option) \<Rightarrow> config_tier \<Rightarrow> config_tier) \<Rightarrow> unit vm" where
  "remove_config u = mod_admin (\<lambda>a.
     a\<lparr>ad_persistent := u (\<lambda>_. None) (ad_persistent a),
       ad_instance := u (\<lambda>_. None) (ad_instance a)\<rparr>)"

lemma mod_admin_ok [act_ok]:
  "mod_admin f s = (Ok u, t) \<longleftrightarrow> t = s\<lparr>v_admin := f (v_admin s)\<rparr>"
  by (simp add: mod_admin_def act_ok)

lemma mod_admin_run [act_run]: "mod_admin f s = (Ok (), s\<lparr>v_admin := f (v_admin s)\<rparr>)"
  by (simp add: mod_admin_def act_run)

lemma keeps_mod_admin [keeps_intro]:
  "(\<And>s x. g (s\<lparr>v_admin := x\<rparr>) = g s) \<Longrightarrow> keeps g (mod_admin f)"
  by (simp add: mod_admin_def keeps_modify)

lemma read_config_ok [act_ok]:
  "read_config k s = (Ok x, t) \<longleftrightarrow> x = config_value k (v_admin s) \<and> t = s"
  by (simp add: read_config_def act_ok)

lemma read_config_run [act_run]: "read_config k s = (Ok (config_value k (v_admin s)), s)"
  by (simp add: read_config_def act_run)

lemma get_schema_version_ok [act_ok]:
  "get_schema_version s = (Ok n, t) \<longleftrightarrow> n = schema_version (v_admin s) \<and> t = s"
  by (simp add: get_schema_version_def act_ok)

lemma get_schema_version_run [act_run]:
  "get_schema_version s = (Ok (schema_version (v_admin s)), s)"
  by (simp add: get_schema_version_def act_run)

lemma write_config_ok [act_ok]:
  "write_config k x s = (Ok u, t) \<longleftrightarrow> t = s\<lparr>v_admin := config_put k x (v_admin s)\<rparr>"
  by (simp add: write_config_def act_ok)

lemma write_config_run [act_run]:
  "write_config k x s = (Ok (), s\<lparr>v_admin := config_put k x (v_admin s)\<rparr>)"
  by (simp add: write_config_def act_run)

lemma keeps_config_reads [keeps_intro]:
  "keeps g (read_config k)" "keeps g get_schema_version" "keeps g (has_config k)"
  by (auto simp: read_config_def get_schema_version_def has_config_def intro: keeps_intro)

lemma keeps_config_writes [keeps_intro]:
  "(\<And>s x. g (s\<lparr>v_admin := x\<rparr>) = g s) \<Longrightarrow> keeps g (write_config u y)"
  "(\<And>s x. g (s\<lparr>v_admin := x\<rparr>) = g s) \<Longrightarrow> keeps g (remove_config u)"
  by (auto simp: write_config_def remove_config_def intro: keeps_intro)

lemma schema_version_update [simp]:
  "schema_version (a\<lparr>ad_persistent := p\<rparr>) = schema_version a"
  "schema_version (a\<lparr>ad_instance := p\<rparr>) = schema_version a"
  "schema_version (a\<lparr>ad_config_changed_at := c\<rparr>) = schema_version a"
  "schema_version (a\<lparr>ad_pending_treasury := pt\<rparr>) = schema_version a"
  "schema_version (a\<lparr>ad_batch_nonce := bn\<rparr>) = schema_version a"
  "schema_version (a\<lparr>ad_admin_proposal := ap\<rparr>) = schema_version a"
  by (simp_all add: schema_version_def split: option.splits)

lemma config_value_update [simp]:
  "config_value k (a\<lparr>ad_config_changed_at := c\<rparr>) = config_value k a"
  "config_value k (a\<lparr>ad_pending_treasury := pt\<rparr>) = config_value k a"
  "config_value k (a\<lparr>ad_batch_nonce := bn\<rparr>) = config_value k a"
  "config_value k (a\<lparr>ad_admin_proposal := ap\<rparr>) = config_value k a"
  by (simp_all add: config_value_def split: option.splits)

lemma schema_version_config_put [simp]:
  "schema_version (config_put u x a) = schema_version a"
  by (simp add: config_put_def)

lemma config_put_frame [simp]:
  "ad_config_changed_at (config_put u x a) = ad_config_changed_at a"
  "ad_pending_treasury (config_put u x a) = ad_pending_treasury a"
  "ad_admin_proposal (config_put u x a) = ad_admin_proposal a"
  by (simp_all add: config_put_def)

text \<open>
  The contract between a configuration key and its clients: the selector reads what the updater
  writes. \<open>other_key\<close> adds that updating one key leaves another untouched.
\<close>

locale config_key =
  fixes key :: "config_tier \<Rightarrow> 'a option"
    and put :: "('a option \<Rightarrow> 'a option) \<Rightarrow> config_tier \<Rightarrow> config_tier"
  assumes key_put: "key (put f t) = f (key t)"
begin

lemma value_after_put:
  "config_value key (config_put put x a) =
     (if schema_version a < 3 \<and> key (ad_persistent a) \<noteq> None
      then key (ad_persistent a) else Some x)"
  by (auto simp: config_value_def config_put_def key_put split: option.splits)

end

locale other_key = config_key key put
  for key :: "config_tier \<Rightarrow> 'a option" and put +
  fixes other :: "config_tier \<Rightarrow> 'b option"
  assumes other_put: "other (put f t) = other t"
begin

lemma other_after_put: "config_value other (config_put put x a) = config_value other a"
  by (auto simp: config_value_def config_put_def other_put split: option.splits)

end

interpretation fee_treasury: other_key cf_fee_bps cf_fee_bps_update cf_treasury
  by unfold_locales simp_all

interpretation treasury_fee: other_key cf_treasury cf_treasury_update cf_fee_bps
  by unfold_locales simp_all

interpretation admin_token: other_key cf_admin cf_admin_update cf_token
  by unfold_locales simp_all

interpretation stop_admin: other_key cf_emergency_stop cf_emergency_stop_update cf_admin
  by unfold_locales simp_all

interpretation treasury_admin: other_key cf_treasury cf_treasury_update cf_admin
  by unfold_locales simp_all

interpretation fee_admin: other_key cf_fee_bps cf_fee_bps_update cf_admin
  by unfold_locales simp_all

section \<open>Authorisation\<close>

definition require_admin :: "address vm" where
  "require_admin = bnd (read_config cf_admin) (\<lambda>a. ok_or a E_NotInitialized)"

definition require_admin_auth :: "env \<Rightarrow> address \<Rightarrow> unit vm" where
  "require_admin_auth E admin =
     thn (require_auth E admin)
     (bnd require_admin (\<lambda>stored_admin.
     check (admin = stored_admin) E_Forbidden))"

definition require_stored_admin_auth :: "env \<Rightarrow> address vm" where
  "require_stored_admin_auth E =
     bnd require_admin (\<lambda>stored_admin.
     thn (require_auth E stored_admin)
     (ret stored_admin))"

definition get_operator :: "(address option) vm" where
  "get_operator = read_config cf_operator"

definition require_admin_or_operator_auth :: "env \<Rightarrow> address \<Rightarrow> unit vm" where
  "require_admin_or_operator_auth E caller =
     thn (require_auth E caller)
     (bnd require_admin (\<lambda>stored_admin.
     if caller = stored_admin then ret ()
     else bnd get_operator (\<lambda>op.
       if op = Some caller then ret () else fail E_Unauthorized)))"

lemma require_admin_ok [act_ok]:
  "require_admin s = (Ok a, t) \<longleftrightarrow> config_value cf_admin (v_admin s) = Some a \<and> t = s"
  by (auto simp: require_admin_def act_ok)

lemma require_admin_auth_ok [act_ok]:
  "require_admin_auth E a s = (Ok u, t) \<longleftrightarrow>
     e_auth E a \<and> config_value cf_admin (v_admin s) = Some a \<and> t = s"
  by (auto simp: require_admin_auth_def act_ok)

lemma require_stored_admin_auth_ok [act_ok]:
  "require_stored_admin_auth E s = (Ok a, t) \<longleftrightarrow>
     config_value cf_admin (v_admin s) = Some a \<and> e_auth E a \<and> t = s"
  by (auto simp: require_stored_admin_auth_def act_ok)

lemma keeps_auth [keeps_intro]:
  "keeps g require_admin" "keeps g (require_admin_auth E a)" "keeps g (require_stored_admin_auth E)"
  "keeps g get_operator" "keeps g (require_admin_or_operator_auth E a)"
  by (auto simp: require_admin_def require_admin_auth_def require_stored_admin_auth_def
      get_operator_def require_admin_or_operator_auth_def intro!: keeps_intro)

lemmas auth_run [act_run] = require_admin_def require_admin_auth_def require_stored_admin_auth_def
  get_operator_def require_admin_or_operator_auth_def

section \<open>Change cooldown\<close>

definition CONFIG_COOLDOWN_SECS :: nat where "CONFIG_COOLDOWN_SECS = 6 * 60 * 60"

definition label_bytes :: "string \<Rightarrow> bytes" where
  "label_bytes l = map (\<lambda>c. word_of_nat (of_char c)) l"

definition hash_key_label :: "env \<Rightarrow> string \<Rightarrow> bytes" where
  "hash_key_label E key_label = e_sha256 E (label_bytes key_label)"

definition enforce_config_cooldown :: "env \<Rightarrow> string \<Rightarrow> nat vm" where
  "enforce_config_cooldown E key_label =
     (let storage_key = hash_key_label E key_label; now = e_timestamp E in
     bnd (gets (\<lambda>v. case ad_config_changed_at (v_admin v) storage_key of Some t \<Rightarrow> t | None \<Rightarrow> 0))
     (\<lambda>prev_ts.
     if prev_ts > 0 \<and> now - prev_ts < CONFIG_COOLDOWN_SECS then fail E_CooldownActive
     else
       thn (mod_admin (\<lambda>a. a\<lparr>ad_config_changed_at := (ad_config_changed_at a)(storage_key \<mapsto> now)\<rparr>))
       (thn (publish (AdminEv (Ev_admin_config_changed key_label prev_ts now)))
       (ret prev_ts))))"

lemma enforce_config_cooldown_ok:
  "enforce_config_cooldown E l s = (Ok p, t) \<longleftrightarrow>
     p = (case ad_config_changed_at (v_admin s) (hash_key_label E l) of Some x \<Rightarrow> x | None \<Rightarrow> 0) \<and>
     (p = 0 \<or> CONFIG_COOLDOWN_SECS \<le> e_timestamp E - p) \<and>
     t = s\<lparr>v_admin := (v_admin s)\<lparr>ad_config_changed_at :=
             (ad_config_changed_at (v_admin s))(hash_key_label E l \<mapsto> e_timestamp E)\<rparr>,
           v_events := v_events s @ [AdminEv (Ev_admin_config_changed l p (e_timestamp E))]\<rparr>"
  by (auto simp: enforce_config_cooldown_def Let_def act_ok not_less)

lemma keeps_cooldown [keeps_intro]:
  "(\<And>s x. g (s\<lparr>v_admin := x\<rparr>) = g s) \<Longrightarrow> (\<And>s l. g (s\<lparr>v_events := l\<rparr>) = g s) \<Longrightarrow>
   keeps g (enforce_config_cooldown E l)"
  by (auto simp: enforce_config_cooldown_def Let_def intro!: keeps_intro)

end
