(* ===== verification/Idempotency.thy ===== *)
theory Idempotency
  imports Vault_Interfaces Vault_State
begin

text \<open>
  The per-subscription buffer of recently seen idempotency keys (\<^verbatim>\<open>src/idempotency.rs\<close>): at most
  \<open>IDEM_HISTORY\<close> hashes with their insertion time, expired entries pruned on insertion, a live
  entry never evicted.
\<close>

definition IDEM_HISTORY :: nat where "IDEM_HISTORY = 64"
definition IDEM_TTL_SECS :: nat where "IDEM_TTL_SECS = 7 * 24 * 60 * 60"

definition get_ttl_secs :: "idem_store \<Rightarrow> nat" where
  "get_ttl_secs st = (case i_ttl_secs st of Some n \<Rightarrow> n | None \<Rightarrow> IDEM_TTL_SECS)"

definition set_ttl_secs :: "nat \<Rightarrow> (idem_store, error, unit) act" where
  "set_ttl_secs ttl_secs =
     (if ttl_secs = 0 then fail E_InvalidInput
      else modify (\<lambda>st. st\<lparr>i_ttl_secs := Some ttl_secs\<rparr>))"

text \<open>The 40 bytes hashed: two big-endian \<open>u32\<close> values and the 32-byte key.\<close>

definition be_bytes4 :: "nat \<Rightarrow> bytes" where
  "be_bytes4 n = map (\<lambda>k. word_of_nat (n div 256 ^ k)) [3, 2, 1, 0]"

definition be_bytes8 :: "nat \<Rightarrow> bytes" where
  "be_bytes8 n = map (\<lambda>k. word_of_nat (n div 256 ^ k)) [7, 6, 5, 4, 3, 2, 1, 0]"

definition hash_idem_key :: "env \<Rightarrow> nat \<Rightarrow> nat \<Rightarrow> bytes \<Rightarrow> bytes" where
  "hash_idem_key E domain subscription_id raw_key =
     e_sha256 E (be_bytes4 domain @ be_bytes4 subscription_id @ raw_key)"

definition load_buffer :: "idem_store \<Rightarrow> nat \<Rightarrow> idem_ring_buffer" where
  "load_buffer st i =
     (case i_buffer st i of Some b \<Rightarrow> b | None \<Rightarrow> \<lparr>ib_entries = [], ib_cursor = 0\<rparr>)"

definition save_buffer :: "nat \<Rightarrow> idem_ring_buffer \<Rightarrow> (idem_store, error, unit) act" where
  "save_buffer i b = modify (\<lambda>st. st\<lparr>i_buffer := (i_buffer st)(i \<mapsto> b)\<rparr>)"

definition check_key_at :: "idem_store \<Rightarrow> nat \<Rightarrow> bytes \<Rightarrow> nat \<Rightarrow> bool" where
  "check_key_at st i hashed now =
     list_ex (\<lambda>(stored_hash, inserted_at).
        \<not> (now - inserted_at \<ge> get_ttl_secs st) \<and> stored_hash = hashed)
       (ib_entries (load_buffer st i))"

definition prune_expired :: "nat \<Rightarrow> nat \<Rightarrow> idem_ring_buffer \<Rightarrow> (bytes \<times> nat) list" where
  "prune_expired ttl_secs now buf =
     (let entries = ib_entries buf; len = length entries in
      if len > 0 then
        let start = (if len = IDEM_HISTORY then ib_cursor buf mod len else 0)
        in filter (\<lambda>entry. now - snd entry < ttl_secs)
             (map (\<lambda>offset. entries ! ((start + offset) mod len)) [0..<len])
      else entries)"

definition push_key :: "nat \<Rightarrow> bytes \<Rightarrow> nat \<Rightarrow> (idem_store, error, unit) act" where
  "push_key i hashed now =
     bnd (gets (\<lambda>st. load_buffer st i)) (\<lambda>buf.
     bnd (gets get_ttl_secs) (\<lambda>ttl_secs.
     let retained = prune_expired ttl_secs now buf in
     if length retained \<ge> IDEM_HISTORY then fail E_IdemBufferFull
     else save_buffer i \<lparr>ib_entries = retained @ [(hashed, now)], ib_cursor = 0\<rparr>))"

lemma rotate_by_index:
  "0 < length xs \<Longrightarrow> map (\<lambda>off. xs ! ((start + off) mod length xs)) [0..<length xs] = rotate start xs"
  by (rule nth_equalityI) (simp_all add: nth_rotate add.commute)

lemma prune_expired_rotate:
  "\<exists>k. prune_expired ttl now buf = filter (\<lambda>e. now - snd e < ttl) (rotate k (ib_entries buf))"
proof (cases "ib_entries buf = []")
  case True
  then show ?thesis by (simp add: prune_expired_def)
next
  case False
  then have "0 < length (ib_entries buf)" by simp
  note rot = rotate_by_index [OF this]
  show ?thesis
    using False rot
    by (intro exI [of _ "if length (ib_entries buf) = IDEM_HISTORY
          then ib_cursor buf mod length (ib_entries buf) else 0"])
      (simp add: prune_expired_def Let_def rot [of 0, simplified])
qed

lemma set_prune_expired:
  "set (prune_expired ttl now buf) = {e \<in> set (ib_entries buf). now - snd e < ttl}"
  using prune_expired_rotate [of ttl now buf] by auto

lemma length_filter_rotate: "length (filter P (rotate k xs)) = length (filter P xs)"
proof (induction k)
  case 0
  then show ?case by simp
next
  case (Suc k)
  have "length (filter P (rotate1 ys)) = length (filter P ys)" for ys :: "'a list"
    by (cases ys) simp_all
  with Suc show ?case by simp
qed

lemma length_prune_expired:
  "length (prune_expired ttl now buf) = length (filter (\<lambda>e. now - snd e < ttl) (ib_entries buf))"
  using prune_expired_rotate [of ttl now buf] length_filter_rotate by metis

lemma push_key_ok [act_ok]:
  "push_key i h now s = (Ok u, t) \<longleftrightarrow>
     length (prune_expired (get_ttl_secs s) now (load_buffer s i)) < IDEM_HISTORY \<and>
     t = s\<lparr>i_buffer := (i_buffer s)(i \<mapsto>
       \<lparr>ib_entries = prune_expired (get_ttl_secs s) now (load_buffer s i) @ [(h, now)], ib_cursor = 0\<rparr>)\<rparr>"
  by (auto simp: push_key_def save_buffer_def Let_def act_ok not_le)

definition idem_request :: "nat \<Rightarrow> bytes \<times> nat \<Rightarrow> (idem_store, error, unit) act" where
  "idem_request i = (\<lambda>(h, now). push_key i h now)"

text \<open>What clients of the buffer rely on: a key stays visible for the time to live.\<close>

locale dedup_window =
  fixes seen :: "'s \<Rightarrow> 'k \<Rightarrow> nat \<Rightarrow> bool"
    and remember :: "'k \<times> nat \<Rightarrow> ('s, error, unit) act"
    and ttl :: "'s \<Rightarrow> nat"
  assumes seen_after: "remember (k, n) s = (Ok u, t) \<Longrightarrow> n \<le> m \<Longrightarrow>
      seen t k' m \<longleftrightarrow> seen s k' m \<or> (k' = k \<and> m - n < ttl s)"
    and ttl_after: "remember (k, n) s = (Ok u, t) \<Longrightarrow> ttl t = ttl s"
begin

lemma history:
  "each remember xs s = (Ok u, t) \<Longrightarrow> \<forall>x \<in> set xs. snd x \<le> m \<Longrightarrow>
   (seen t k m \<longleftrightarrow> seen s k m \<or> (\<exists>n. (k, n) \<in> set xs \<and> m - n < ttl s)) \<and> ttl t = ttl s"
proof (induction xs arbitrary: s)
  case Nil
  then show ?case by (simp add: act_ok)
next
  case (Cons x xs)
  obtain k' n where x: "x = (k', n)" by (cases x)
  from Cons.prems x obtain v where
    one: "remember (k', n) s = (Ok (), v)" and rest: "each remember xs v = (Ok u, t)"
    by (auto simp: act_ok)
  from Cons.prems x have "n \<le> m" by simp
  from seen_after [OF one this, of k] ttl_after [OF one] Cons.IH [OF rest] Cons.prems x
  show ?case by auto
qed

end

interpretation idem: dedup_window "\<lambda>st h now. check_key_at st i h now" "idem_request i" get_ttl_secs for i
proof (unfold_locales, goal_cases)
  case (1 k n s u t m k')
  from 1(1) have t: "t = s\<lparr>i_buffer := (i_buffer s)(i \<mapsto>
       \<lparr>ib_entries = prune_expired (get_ttl_secs s) n (load_buffer s i) @ [(k, n)], ib_cursor = 0\<rparr>)\<rparr>"
    by (simp add: idem_request_def act_ok)
  have ttl: "get_ttl_secs t = get_ttl_secs s" by (simp add: t get_ttl_secs_def)
  have buf: "ib_entries (load_buffer t i) = prune_expired (get_ttl_secs s) n (load_buffer s i) @ [(k, n)]"
    by (simp add: t load_buffer_def)
  from 1(2) show ?case
    unfolding check_key_at_def list_ex_iff ttl buf
    by (fastforce simp: set_prune_expired)
next
  case (2 k n s u t)
  then show ?case by (auto simp: idem_request_def act_ok get_ttl_secs_def)
qed



definition idem_bounded :: "idem_store \<Rightarrow> bool" where
  "idem_bounded st \<longleftrightarrow> (\<forall>i b. i_buffer st i = Some b \<longrightarrow> length (ib_entries b) \<le> IDEM_HISTORY)"

text \<open>
  Inserting a key either succeeds or reports a full buffer and changes nothing; it reports a full
  buffer exactly when \<open>IDEM_HISTORY\<close> unexpired keys are stored, and it never lets a buffer grow
  beyond \<open>IDEM_HISTORY\<close> entries.
\<close>

theorem push_key_capacity:
  assumes "idem_bounded st"
  shows "idem_bounded (snd (push_key i h now st)) \<and>
    (push_key i h now st = (Err E_IdemBufferFull, st) \<longleftrightarrow>
       length (filter (\<lambda>e. now - snd e < get_ttl_secs st) (ib_entries (load_buffer st i))) = IDEM_HISTORY) \<and>
    (fst (push_key i h now st) = Ok () \<or> push_key i h now st = (Err E_IdemBufferFull, st))"
proof -
  have le: "length (ib_entries (load_buffer st i)) \<le> IDEM_HISTORY"
    using assms by (auto simp: idem_bounded_def load_buffer_def split: option.splits)
  have eq: "length (filter (\<lambda>e. now - snd e < get_ttl_secs st) (ib_entries (load_buffer st i))) \<le> IDEM_HISTORY"
    using le length_filter_le order_trans by blast
  show ?thesis
    using assms eq
    by (auto simp: push_key_def save_buffer_def Let_def act_run idem_bounded_def
        length_prune_expired)
qed

theorem push_key_capacity_witness:
  "idem_bounded (v_idem empty_vault) \<and>
   idem_bounded (snd (push_key 3 [7] 5 (v_idem empty_vault)))"
proof -
  have "idem_bounded (v_idem empty_vault)" by (simp add: idem_bounded_def empty_vault_def)
  with push_key_capacity [OF this, of 3 "[7]" 5] show ?thesis by blast
qed

end
