(* ===== verification/Statements.thy ===== *)
theory Statements
  imports Vault_Interfaces Vault_State
begin

text \<open>
  The append-only billing statements of a subscription (\<^verbatim>\<open>src/lib.rs\<close>, module \<open>statements\<close>):
  appending, compaction into a persistent aggregate, and paged listing.
\<close>

type_synonym 'a stm = "(statement_store, error, 'a) act"

definition statement_ids :: "statement_store \<Rightarrow> nat \<Rightarrow> nat list" where
  "statement_ids st i = (case st_index st i of Some ids \<Rightarrow> ids | None \<Rightarrow> [])"

definition append_statement ::
  "nat \<Rightarrow> int \<Rightarrow> address \<Rightarrow> address \<Rightarrow> billing_charge_kind \<Rightarrow> nat \<Rightarrow> nat \<Rightarrow> unit stm" where
  "append_statement i amount merchant token kind period_start timestamp =
     bnd (gets (\<lambda>st. case st_sequence st i of Some n \<Rightarrow> n | None \<Rightarrow> 0)) (\<lambda>seq.
     bnd (ok_or (checked_add_u32 seq 1) E_Overflow) (\<lambda>next_seq.
     thn (modify (\<lambda>st. st\<lparr>st_sequence := (st_sequence st)(i \<mapsto> next_seq)\<rparr>))
     (thn (modify (\<lambda>st. st\<lparr>st_statement := (st_statement st)(i := (st_statement st i)(next_seq \<mapsto>
         \<lparr>bs_subscription_id = i, bs_sequence = next_seq, bs_charged_at = timestamp,
          bs_period_start = period_start, bs_period_end = timestamp, bs_amount = amount,
          bs_merchant = merchant, bs_token = token, bs_kind = kind\<rparr>))\<rparr>))
     (modify (\<lambda>st. st\<lparr>st_index := (st_index st)(i \<mapsto> statement_ids st i @ [next_seq])\<rparr>)))))"

definition set_retention_config :: "nat \<Rightarrow> unit stm" where
  "set_retention_config keep_recent = modify (\<lambda>st. st\<lparr>st_keep_recent := Some keep_recent\<rparr>)"

definition get_retention_config :: "statement_store \<Rightarrow> nat" where
  "get_retention_config st = (case st_keep_recent st of Some n \<Rightarrow> n | None \<Rightarrow> 0)"

definition get_compacted_aggregate :: "statement_store \<Rightarrow> nat \<Rightarrow> billing_statement_aggregate" where
  "get_compacted_aggregate st i =
     (case st_aggregate st i of Some a \<Rightarrow> a
      | None \<Rightarrow> \<lparr>ag_pruned_count = 0, ag_total_amount = 0,
          ag_totals = \<lparr>at_interval = 0, at_usage = 0, at_one_off = 0\<rparr>,
          ag_oldest_period_start = None, ag_newest_period_end = None\<rparr>)"

text \<open>The running totals of the pruning loop.\<close>

record prune_totals =
  pt_amount :: int
  pt_interval :: int
  pt_usage :: int
  pt_one_off :: int
  pt_oldest :: "nat option"
  pt_newest :: "nat option"

definition add_checked :: "int \<Rightarrow> int \<Rightarrow> int stm" where
  "add_checked a b = ok_or (checked_add_i128 a b) E_Overflow"

definition add_accrued :: "billing_charge_kind \<Rightarrow> int \<Rightarrow> prune_totals \<Rightarrow> prune_totals stm" where
  "add_accrued kind amount acc =
     (case kind of
        Interval \<Rightarrow> bnd (add_checked (pt_interval acc) amount) (\<lambda>x. ret (acc\<lparr>pt_interval := x\<rparr>))
      | Usage \<Rightarrow> bnd (add_checked (pt_usage acc) amount) (\<lambda>x. ret (acc\<lparr>pt_usage := x\<rparr>))
      | OneOff \<Rightarrow> bnd (add_checked (pt_one_off acc) amount) (\<lambda>x. ret (acc\<lparr>pt_one_off := x\<rparr>)))"

definition fold_statement :: "billing_statement \<Rightarrow> prune_totals \<Rightarrow> prune_totals stm" where
  "fold_statement stmt acc =
     bnd (add_checked (pt_amount acc) (bs_amount stmt)) (\<lambda>amt.
     bnd (add_accrued (bs_kind stmt) (bs_amount stmt) (acc\<lparr>pt_amount := amt\<rparr>)) (\<lambda>acc'.
     ret (acc'\<lparr>
       pt_oldest := Some (case pt_oldest acc' of None \<Rightarrow> bs_period_start stmt
                          | Some z \<Rightarrow> min z (bs_period_start stmt)),
       pt_newest := Some (case pt_newest acc' of None \<Rightarrow> bs_period_end stmt
                          | Some z \<Rightarrow> max z (bs_period_end stmt))\<rparr>)))"

primrec prune_loop :: "nat \<Rightarrow> nat list \<Rightarrow> prune_totals \<Rightarrow> prune_totals stm" where
  "prune_loop i [] acc = ret acc"
| "prune_loop i (seq # rest) acc =
     bnd (gets (\<lambda>st. st_statement st i seq)) (\<lambda>entry.
     bnd (case entry of None \<Rightarrow> ret acc | Some stmt \<Rightarrow> fold_statement stmt acc) (\<lambda>acc'.
     thn (modify (\<lambda>st. st\<lparr>st_statement := (st_statement st)(i := (st_statement st i)(seq := None))\<rparr>))
     (prune_loop i rest acc')))"

definition opt_combine :: "(nat \<Rightarrow> nat \<Rightarrow> nat) \<Rightarrow> nat option \<Rightarrow> nat option \<Rightarrow> nat option" where
  "opt_combine f x y = (case x of None \<Rightarrow> y | Some a \<Rightarrow> (case y of None \<Rightarrow> x | Some b \<Rightarrow> Some (f a b)))"

definition compact_subscription_statements ::
  "nat \<Rightarrow> nat option \<Rightarrow> billing_compaction_summary stm" where
  "compact_subscription_statements i keep_recent_override =
     bnd (gets (\<lambda>st. case keep_recent_override of Some k \<Rightarrow> k | None \<Rightarrow> get_retention_config st))
     (\<lambda>keep_recent.
     bnd (gets (\<lambda>st. statement_ids st i)) (\<lambda>ids.
     let total = length ids in
     if total \<le> keep_recent then
       ret \<lparr>cs_subscription_id = i, cs_pruned_count = 0, cs_kept_count = total, cs_total_pruned_amount = 0\<rparr>
     else
       let prune_count = total - keep_recent; kept_ids = drop prune_count ids in
       bnd (prune_loop i (take prune_count ids)
              \<lparr>pt_amount = 0, pt_interval = 0, pt_usage = 0, pt_one_off = 0,
               pt_oldest = None, pt_newest = None\<rparr>) (\<lambda>acc.
       thn (modify (\<lambda>st. st\<lparr>st_index := (st_index st)(i \<mapsto> kept_ids)\<rparr>))
       (bnd (gets (\<lambda>st. get_compacted_aggregate st i)) (\<lambda>agg.
       bnd (ok_or (checked_add_u32 (ag_pruned_count agg) prune_count) E_Overflow) (\<lambda>pc.
       bnd (add_checked (ag_total_amount agg) (pt_amount acc)) (\<lambda>ta.
       bnd (add_checked (at_interval (ag_totals agg)) (pt_interval acc)) (\<lambda>ti.
       bnd (add_checked (at_usage (ag_totals agg)) (pt_usage acc)) (\<lambda>tu.
       bnd (add_checked (at_one_off (ag_totals agg)) (pt_one_off acc)) (\<lambda>to.
       thn (modify (\<lambda>st. st\<lparr>st_aggregate := (st_aggregate st)(i \<mapsto>
              \<lparr>ag_pruned_count = pc, ag_total_amount = ta,
               ag_totals = \<lparr>at_interval = ti, at_usage = tu, at_one_off = to\<rparr>,
               ag_oldest_period_start = opt_combine min (ag_oldest_period_start agg) (pt_oldest acc),
               ag_newest_period_end = opt_combine max (ag_newest_period_end agg) (pt_newest acc)\<rparr>)\<rparr>))
       (ret \<lparr>cs_subscription_id = i, cs_pruned_count = prune_count,
             cs_kept_count = length kept_ids, cs_total_pruned_amount = pt_amount acc\<rparr>)))))))))))"

definition get_statements_by_subscription_offset ::
  "statement_store \<Rightarrow> nat \<Rightarrow> nat \<Rightarrow> nat \<Rightarrow> bool \<Rightarrow> billing_statements_page res" where
  "get_statements_by_subscription_offset st i offset limit newest_first =
     (if limit = 0 then Err E_InvalidInput
      else
        let ids = statement_ids st i; total = length ids;
            end_i = min (sat_add_u32 offset limit) total;
            seqs = map (\<lambda>k. if newest_first then ids ! (total - 1 - k) else ids ! k) [offset..<end_i]
        in Ok \<lparr>bp_statements = List.map_filter (st_statement st i) seqs,
               bp_next_cursor = (if end_i < total then Some end_i else None),
               bp_total = total\<rparr>)"

definition get_statements_by_subscription_cursor ::
  "statement_store \<Rightarrow> nat \<Rightarrow> nat option \<Rightarrow> nat \<Rightarrow> bool \<Rightarrow> billing_statements_page res" where
  "get_statements_by_subscription_cursor st i cursor limit newest_first =
     get_statements_by_subscription_offset st i (case cursor of Some c \<Rightarrow> c | None \<Rightarrow> 0) limit newest_first"

section \<open>Well-formed histories\<close>

text \<open>
  The index of a subscription lists its retained statements once each, in increasing sequence
  order, none above the sequence counter; every listed statement is stored under its own number.
\<close>

definition history_wf :: "statement_store \<Rightarrow> nat \<Rightarrow> bool" where
  "history_wf st i \<longleftrightarrow>
     sorted_wrt (<) (statement_ids st i) \<and>
     (\<forall>n \<in> set (statement_ids st i).
        (\<exists>b. st_statement st i n = Some b \<and> bs_sequence b = n) \<and>
        n \<le> (case st_sequence st i of Some m \<Rightarrow> m | None \<Rightarrow> 0))"

definition retained :: "statement_store \<Rightarrow> nat \<Rightarrow> billing_statement list" where
  "retained st i = List.map_filter (st_statement st i) (statement_ids st i)"

definition kind_total :: "billing_charge_kind \<Rightarrow> billing_statement list \<Rightarrow> int" where
  "kind_total k bs = (\<Sum>b \<leftarrow> filter (\<lambda>b. bs_kind b = k) bs. bs_amount b)"

definition amount_total :: "billing_statement list \<Rightarrow> int" where
  "amount_total bs = (\<Sum>b \<leftarrow> bs. bs_amount b)"

text \<open>Everything ever billed: the aggregate of what was pruned plus what is still listed.\<close>

definition lifetime_billed :: "statement_store \<Rightarrow> nat \<Rightarrow> int" where
  "lifetime_billed st i = ag_total_amount (get_compacted_aggregate st i) + amount_total (retained st i)"

definition lifetime_billed_kind :: "billing_charge_kind \<Rightarrow> statement_store \<Rightarrow> nat \<Rightarrow> int" where
  "lifetime_billed_kind k st i =
     (let t = ag_totals (get_compacted_aggregate st i) in
      case k of Interval \<Rightarrow> at_interval t | Usage \<Rightarrow> at_usage t | OneOff \<Rightarrow> at_one_off t)
     + kind_total k (retained st i)"

lemma map_filter_all_Some:
  "\<forall>x \<in> set xs. f x \<noteq> None \<Longrightarrow> List.map_filter f xs = map (the \<circ> f) xs"
  by (induction xs) (auto simp: List.map_filter_simps)

lemma map_filter_cong:
  "\<forall>x \<in> set xs. f x = g x \<Longrightarrow> List.map_filter f xs = List.map_filter g xs"
  by (induction xs) (auto simp: List.map_filter_simps split: option.splits)

lemma map_filter_append: "List.map_filter f (xs @ ys) = List.map_filter f xs @ List.map_filter f ys"
  by (induction xs) (auto simp: List.map_filter_simps split: option.splits)

lemma append_statement_ok:
  "append_statement i amt m tk k ps ts st = (Ok u, st') \<longleftrightarrow>
     (let n = Suc (case st_sequence st i of Some n \<Rightarrow> n | None \<Rightarrow> 0) in
      n \<le> u32_max \<and>
      st' = st\<lparr>st_sequence := (st_sequence st)(i \<mapsto> n),
               st_statement := (st_statement st)(i := (st_statement st i)(n \<mapsto>
                 \<lparr>bs_subscription_id = i, bs_sequence = n, bs_charged_at = ts, bs_period_start = ps,
                  bs_period_end = ts, bs_amount = amt, bs_merchant = m, bs_token = tk, bs_kind = k\<rparr>)),
               st_index := (st_index st)(i \<mapsto> statement_ids st i @ [n])\<rparr>)"
  by (auto simp: append_statement_def act_ok checked_add_u32_def Let_def statement_ids_def)

lemma append_statement_retained:
  assumes wf: "history_wf st i" and run: "append_statement i amt m tk k ps ts st = (Ok u, st')"
  shows "history_wf st' i \<and> (\<exists>b. retained st' i = retained st i @ [b] \<and> bs_amount b = amt \<and> bs_kind b = k)
     \<and> get_compacted_aggregate st' i = get_compacted_aggregate st i"
proof -
  define n where "n = Suc (case st_sequence st i of Some n \<Rightarrow> n | None \<Rightarrow> 0)"
  define b where "b = \<lparr>bs_subscription_id = i, bs_sequence = n, bs_charged_at = ts, bs_period_start = ps,
      bs_period_end = ts, bs_amount = amt, bs_merchant = m, bs_token = tk, bs_kind = k\<rparr>"
  from run have st': "st' = st\<lparr>st_sequence := (st_sequence st)(i \<mapsto> n),
      st_statement := (st_statement st)(i := (st_statement st i)(n \<mapsto> b)),
      st_index := (st_index st)(i \<mapsto> statement_ids st i @ [n])\<rparr>"
    by (simp add: append_statement_ok Let_def n_def b_def)
  from wf have below: "\<forall>j \<in> set (statement_ids st i). j < n"
    by (auto simp: history_wf_def n_def less_Suc_eq_le)
  have ids: "statement_ids st' i = statement_ids st i @ [n]" by (simp add: st' statement_ids_def)
  have stmts: "st_statement st' i = (st_statement st i)(n \<mapsto> b)" by (simp add: st')
  have "List.map_filter (st_statement st' i) (statement_ids st i) = retained st i"
    unfolding retained_def stmts using below by (intro map_filter_cong) auto
  then have "retained st' i = retained st i @ [b]"
    by (simp add: retained_def [of st'] ids map_filter_append stmts List.map_filter_simps)
  moreover have "history_wf st' i"
    using wf below ids stmts
    by (fastforce simp: history_wf_def sorted_wrt_append st' b_def n_def)
  ultimately show ?thesis by (auto simp: b_def st' get_compacted_aggregate_def)
qed

section \<open>Compaction\<close>

lemma add_checked_ok [act_ok]:
  "add_checked a b s = (Ok c, t) \<longleftrightarrow> c = a + b \<and> fits_i128 (a + b) \<and> t = s"
  by (auto simp: add_checked_def act_ok checked_add_i128_def)

lemma fold_statement_ok:
  assumes "fold_statement b acc st = (Ok acc', st')"
  shows "st' = st \<and> pt_amount acc' = pt_amount acc + bs_amount b \<and>
    pt_interval acc' = pt_interval acc + kind_total Interval [b] \<and>
    pt_usage acc' = pt_usage acc + kind_total Usage [b] \<and>
    pt_one_off acc' = pt_one_off acc + kind_total OneOff [b]"
  using assms
  by (cases "bs_kind b")
    (auto simp: fold_statement_def add_accrued_def act_ok kind_total_def)

lemma prune_loop_ok:
  "prune_loop i ids acc st = (Ok acc', st') \<Longrightarrow> distinct ids \<Longrightarrow>
   (let bs = List.map_filter (st_statement st i) ids in
      st' = st\<lparr>st_statement := (st_statement st)(i := (\<lambda>n. if n \<in> set ids then None else st_statement st i n))\<rparr> \<and>
      pt_amount acc' = pt_amount acc + amount_total bs \<and>
      pt_interval acc' = pt_interval acc + kind_total Interval bs \<and>
      pt_usage acc' = pt_usage acc + kind_total Usage bs \<and>
      pt_one_off acc' = pt_one_off acc + kind_total OneOff bs)"
proof (induction ids arbitrary: acc st)
  case Nil
  then show ?case by (simp add: act_ok List.map_filter_simps amount_total_def kind_total_def)
next
  case (Cons n ids)
  define st1 where "st1 = st\<lparr>st_statement := (st_statement st)(i := (st_statement st i)(n := None))\<rparr>"
  from Cons.prems(1) obtain acc1 where
    one: "(case st_statement st i n of None \<Rightarrow> ret acc | Some stmt \<Rightarrow> fold_statement stmt acc) st = (Ok acc1, st)"
    and rest: "prune_loop i ids acc1 st1 = (Ok acc', st')"
    by (auto simp: act_ok st1_def split: option.splits dest: fold_statement_ok)
  from Cons.prems(2) have n: "n \<notin> set ids" and d: "distinct ids" by auto
  have same: "List.map_filter (st_statement st1 i) ids = List.map_filter (st_statement st i) ids"
    using n by (intro map_filter_cong) (auto simp: st1_def)
  note IH = Cons.IH [OF rest d, unfolded same Let_def]
  have upd: "st1\<lparr>st_statement := (st_statement st1)(i := (\<lambda>m. if m \<in> set ids then None else st_statement st1 i m))\<rparr>
      = st\<lparr>st_statement := (st_statement st)(i := (\<lambda>m. if m \<in> set (n # ids) then None else st_statement st i m))\<rparr>"
    by (simp add: st1_def fun_eq_iff)
  show ?case
  proof (cases "st_statement st i n")
    case None
    with one have "acc1 = acc" by (simp add: act_ok)
    with IH upd None show ?thesis by (simp add: Let_def List.map_filter_simps fun_upd_def)
  next
    case (Some b)
    with one have "fold_statement b acc st = (Ok acc1, st)" by simp
    from fold_statement_ok [OF this] IH upd Some show ?thesis
      by (auto simp: Let_def List.map_filter_simps amount_total_def kind_total_def fun_upd_def)
  qed
qed

lemma compact_cases:
  assumes "compact_subscription_statements i ko st = (Ok r, st')"
  shows "st' = st \<or> (\<exists>keep acc st1. keep < length (statement_ids st i) \<and>
     prune_loop i (take (length (statement_ids st i) - keep) (statement_ids st i))
       \<lparr>pt_amount = 0, pt_interval = 0, pt_usage = 0, pt_one_off = 0, pt_oldest = None, pt_newest = None\<rparr> st
       = (Ok acc, st1) \<and>
     statement_ids st' i = drop (length (statement_ids st i) - keep) (statement_ids st i) \<and>
     st_statement st' = st_statement st1 \<and> st_sequence st' = st_sequence st1 \<and>
     ag_total_amount (get_compacted_aggregate st' i) = ag_total_amount (get_compacted_aggregate st1 i) + pt_amount acc \<and>
     at_interval (ag_totals (get_compacted_aggregate st' i)) = at_interval (ag_totals (get_compacted_aggregate st1 i)) + pt_interval acc \<and>
     at_usage (ag_totals (get_compacted_aggregate st' i)) = at_usage (ag_totals (get_compacted_aggregate st1 i)) + pt_usage acc \<and>
     at_one_off (ag_totals (get_compacted_aggregate st' i)) = at_one_off (ag_totals (get_compacted_aggregate st1 i)) + pt_one_off acc)"
proof (cases "length (statement_ids st i) \<le> (case ko of Some k \<Rightarrow> k | None \<Rightarrow> get_retention_config st)")
  case True
  with assms show ?thesis by (simp add: compact_subscription_statements_def Let_def act_ok)
next
  case False
  let ?keep = "case ko of Some k \<Rightarrow> k | None \<Rightarrow> get_retention_config st"
  from False assms show ?thesis
    by (intro disjI2 exI [of _ ?keep])
      (auto simp: compact_subscription_statements_def Let_def act_ok statement_ids_def
        get_compacted_aggregate_def not_le)
qed

text \<open>
  C9. Compaction loses no money: on a well-formed history it leaves the amount ever billed to the
  subscription unchanged, in total and for each kind of charge, keeps the history well formed, and
  the statements it keeps are exactly the most recent ones, unchanged and in order.
\<close>

theorem compaction_conserves_billing:
  assumes "history_wf st i" and "compact_subscription_statements i keep st = (Ok summary, st')"
  shows "lifetime_billed st' i = lifetime_billed st i \<and>
    (\<forall>k. lifetime_billed_kind k st' i = lifetime_billed_kind k st i) \<and>
    history_wf st' i \<and> (\<exists>pruned. retained st i = pruned @ retained st' i)"
  using compact_cases [OF assms(2)]
proof (elim disjE exE conjE)
  assume "st' = st"
  with assms(1) show ?thesis by auto
next
  fix keep' acc st1
  let ?ids = "statement_ids st i" and ?m = "length (statement_ids st i) - keep'"
  assume run: "prune_loop i (take ?m ?ids)
       \<lparr>pt_amount = 0, pt_interval = 0, pt_usage = 0, pt_one_off = 0, pt_oldest = None, pt_newest = None\<rparr> st
       = (Ok acc, st1)"
    and ids: "statement_ids st' i = drop ?m ?ids"
    and stmt: "st_statement st' = st_statement st1" and sq: "st_sequence st' = st_sequence st1"
    and agg: "ag_total_amount (get_compacted_aggregate st' i) = ag_total_amount (get_compacted_aggregate st1 i) + pt_amount acc"
      "at_interval (ag_totals (get_compacted_aggregate st' i)) = at_interval (ag_totals (get_compacted_aggregate st1 i)) + pt_interval acc"
      "at_usage (ag_totals (get_compacted_aggregate st' i)) = at_usage (ag_totals (get_compacted_aggregate st1 i)) + pt_usage acc"
      "at_one_off (ag_totals (get_compacted_aggregate st' i)) = at_one_off (ag_totals (get_compacted_aggregate st1 i)) + pt_one_off acc"
  define bs where "bs = List.map_filter (st_statement st i) (take ?m ?ids)"
  have d: "distinct ?ids" using assms(1) by (simp add: history_wf_def strict_sorted_iff)
  then have dt: "distinct (take ?m ?ids)" by simp
  note loop = prune_loop_ok [OF run dt, folded bs_def, unfolded Let_def]
  have disj: "set (take ?m ?ids) \<inter> set (drop ?m ?ids) = {}"
    using d by (metis append_take_drop_id distinct_append)
  have "List.map_filter (st_statement st' i) (drop ?m ?ids) = List.map_filter (st_statement st i) (drop ?m ?ids)"
    using disj loop by (intro map_filter_cong) (auto simp: stmt)
  then have split: "retained st i = bs @ retained st' i"
    unfolding retained_def ids bs_def by (metis append_take_drop_id map_filter_append)
  have agg1: "get_compacted_aggregate st1 i = get_compacted_aggregate st i"
    using loop by (simp add: get_compacted_aggregate_def)
  have wf: "history_wf st' i"
    using assms(1) loop disj unfolding history_wf_def ids stmt sq
    by (auto simp: sorted_wrt_drop dest: in_set_dropD)
  show ?thesis
    using split wf agg agg1 loop
    by (auto simp: lifetime_billed_def lifetime_billed_kind_def amount_total_def kind_total_def Let_def
        split: billing_charge_kind.splits)
qed

definition two_statements :: statement_store where
  "two_statements =
     snd (thn (append_statement 1 30 (Addr 5) (Addr 9) Interval 0 100)
              (append_statement 1 12 (Addr 5) (Addr 9) Usage 100 150) (v_stmt empty_vault))"

lemma two_statements_wf: "history_wf two_statements 1"
  by (simp add: two_statements_def append_statement_def act_run checked_add_u32_def u32_max_def
      empty_vault_def statement_ids_def history_wf_def)

theorem compaction_conserves_billing_witness:
  "lifetime_billed (snd (compact_subscription_statements 1 (Some 1) two_statements)) 1 = 42"
proof -
  have run: "\<exists>r. compact_subscription_statements 1 (Some 1) two_statements =
      (Ok r, snd (compact_subscription_statements 1 (Some 1) two_statements))"
    by (simp add: two_statements_def append_statement_def act_run checked_add_u32_def u32_max_def
        empty_vault_def statement_ids_def compact_subscription_statements_def Let_def
        fold_statement_def add_accrued_def add_checked_def checked_add_i128_def int_bounds
        get_compacted_aggregate_def)
  have start: "lifetime_billed two_statements 1 = 42"
    by (simp add: two_statements_def append_statement_def act_run checked_add_u32_def u32_max_def
        empty_vault_def statement_ids_def lifetime_billed_def get_compacted_aggregate_def
        amount_total_def retained_def List.map_filter_simps)
  from run start compaction_conserves_billing [OF two_statements_wf] show ?thesis by metis
qed

section \<open>Paging\<close>

lemma page_seqs:
  assumes "e \<le> length xs"
  shows "map (\<lambda>k. if nf then xs ! (length xs - 1 - k) else xs ! k) [s..<e] =
    take (e - s) (drop s (if nf then rev xs else xs))"
  using assms by (intro nth_equalityI) (auto simp: rev_nth)

text \<open>
  Paging covers the history exactly: a page is the requested slice of the retained statements in
  the requested order, and following the returned cursor continues directly after it, so chained
  pages list every retained statement once; the cursor is absent exactly on the last page.
\<close>

theorem page_is_slice:
  assumes "history_wf st i" and "0 < limit" and "offset \<le> length (statement_ids st i)"
    and "length (statement_ids st i) \<le> u32_max"
  shows "\<exists>page. get_statements_by_subscription_offset st i offset limit newest = Ok page \<and>
    bp_statements page = take limit (drop offset (if newest then rev (retained st i) else retained st i)) \<and>
    bp_next_cursor page =
      (if offset + limit < length (retained st i) then Some (offset + limit) else None)"
proof -
  let ?ids = "statement_ids st i" and ?f = "the \<circ> st_statement st i"
  have some: "\<forall>n \<in> set ?ids. st_statement st i n \<noteq> None" using assms(1) by (auto simp: history_wf_def)
  then have ret: "retained st i = map ?f ?ids" by (simp add: retained_def map_filter_all_Some)
  define e where "e = min (sat_add_u32 offset limit) (length ?ids)"
  have e: "e = min (offset + limit) (length ?ids)"
    using assms(4) by (auto simp: e_def sat_add_u32_def)
  define sl where "sl = take (e - offset) (drop offset (if newest then rev ?ids else ?ids))"
  have "set sl \<subseteq> set ?ids" by (auto simp: sl_def dest!: in_set_takeD in_set_dropD split: if_splits)
  then have mf: "List.map_filter (st_statement st i) sl = map ?f sl"
    using some by (intro map_filter_all_Some) auto
  have sl: "sl = take limit (drop offset (if newest then rev ?ids else ?ids))"
    by (simp add: sl_def e min_def)
  have "map (\<lambda>k. if newest then ?ids ! (length ?ids - 1 - k) else ?ids ! k) [offset..<e] = sl"
    unfolding sl_def by (rule page_seqs) (simp add: e)
  then show ?thesis
    using assms(2) mf sl ret
    by (auto simp: get_statements_by_subscription_offset_def Let_def simp flip: e_def)
      (auto simp: e drop_map take_map rev_map)
qed

theorem page_is_slice_witness:
  "\<exists>page. get_statements_by_subscription_offset two_statements 1 1 5 True = Ok page \<and>
    bp_next_cursor page = None"
proof -
  have len: "length (statement_ids two_statements 1) = 2"
    by (simp add: two_statements_def append_statement_def act_run checked_add_u32_def u32_max_def
        empty_vault_def statement_ids_def)
  have "length (retained two_statements 1) \<le> 2"
    using len by (simp add: retained_def List.map_filter_def)
      (metis length_filter_le)
  with page_is_slice [OF two_statements_wf, of 5 1 True] len show ?thesis
    by (auto simp: u32_max_def)
qed

end
