(* ===== verification/Period_Snapshots.thy ===== *)
theory Period_Snapshots
  imports Vault_Interfaces Vault_State
begin

text \<open>
  Billing-period snapshots (\<^verbatim>\<open>src/period_snapshots.rs\<close>): one record per subscription and period,
  merged while open, immutable once closed, with a bounded index that evicts the oldest entry.
\<close>

unbundle bit_operations_syntax

type_synonym 'a snm = "(snapshot_store, error, 'a) act"

definition SNAPSHOT_FLAG_CLOSED :: "32 word" where "SNAPSHOT_FLAG_CLOSED = push_bit 0 1"
definition SNAPSHOT_FLAG_INTERVAL_CHARGED :: "32 word" where "SNAPSHOT_FLAG_INTERVAL_CHARGED = push_bit 1 1"
definition SNAPSHOT_FLAG_USAGE_CHARGED :: "32 word" where "SNAPSHOT_FLAG_USAGE_CHARGED = push_bit 2 1"
definition SNAPSHOT_FLAG_EMPTY :: "32 word" where "SNAPSHOT_FLAG_EMPTY = push_bit 3 1"

definition MAX_BILLING_PERIOD_SNAPSHOTS_PER_SUBSCRIPTION :: nat where
  "MAX_BILLING_PERIOD_SNAPSHOTS_PER_SUBSCRIPTION = 365"

lemmas snapshot_flags = SNAPSHOT_FLAG_CLOSED_def SNAPSHOT_FLAG_INTERVAL_CHARGED_def
  SNAPSHOT_FLAG_USAGE_CHARGED_def SNAPSHOT_FLAG_EMPTY_def

definition has_flag :: "32 word \<Rightarrow> 32 word \<Rightarrow> bool" where
  "has_flag flags f \<longleftrightarrow> flags AND f \<noteq> 0"

definition snapshot_index :: "snapshot_store \<Rightarrow> nat \<Rightarrow> nat list" where
  "snapshot_index st i = (case sn_index st i of Some ids \<Rightarrow> ids | None \<Rightarrow> [])"

text \<open>Merging a new contribution into an open snapshot of the same period.\<close>

definition merge_snapshot ::
  "billing_period_snapshot \<Rightarrow> billing_period_snapshot \<Rightarrow> billing_period_snapshot snm" where
  "merge_snapshot existing snapshot =
     bnd (ok_or (checked_add_i128 (ps_total_charged existing) (ps_total_charged snapshot)) E_Overflow)
     (\<lambda>charged.
     bnd (ok_or (checked_add_i128 (ps_total_usage_units existing) (ps_total_usage_units snapshot)) E_Overflow)
     (\<lambda>units.
     ret (snapshot\<lparr>
       ps_total_charged := charged,
       ps_total_usage_units := units,
       ps_status_flags := ps_status_flags snapshot OR ps_status_flags existing,
       ps_period_start := ps_period_start existing,
       ps_period_end := max (ps_period_end snapshot) (ps_period_end existing),
       ps_finalized_at := max (ps_finalized_at snapshot) (ps_finalized_at existing)\<rparr>)))"

definition mark_empty :: "billing_period_snapshot \<Rightarrow> billing_period_snapshot" where
  "mark_empty s =
     (if has_flag (ps_status_flags s) SNAPSHOT_FLAG_CLOSED \<and>
         \<not> has_flag (ps_status_flags s) (SNAPSHOT_FLAG_INTERVAL_CHARGED OR SNAPSHOT_FLAG_USAGE_CHARGED)
      then s\<lparr>ps_status_flags := ps_status_flags s OR SNAPSHOT_FLAG_EMPTY\<rparr> else s)"

text \<open>The \<open>while\<close> loop that removes the oldest entries of an over-full index.\<close>

fun evict_loop :: "nat \<Rightarrow> nat list \<Rightarrow> (nat list) snm" where
  "evict_loop i idx =
     (if length idx > MAX_BILLING_PERIOD_SNAPSHOTS_PER_SUBSCRIPTION then
        (case idx of
           oldest # rest \<Rightarrow>
             thn (modify (\<lambda>st. st\<lparr>sn_snapshot := (sn_snapshot st)(i := (sn_snapshot st i)(oldest := None))\<rparr>))
             (evict_loop i rest)
         | [] \<Rightarrow> panic)
      else ret idx)"

declare evict_loop.simps [simp del]

definition write_period_snapshot :: "billing_period_snapshot \<Rightarrow> unit snm" where
  "write_period_snapshot snapshot0 =
     (let i = ps_subscription_id snapshot0; p = ps_period_index snapshot0 in
     if ps_period_start snapshot0 > ps_period_end snapshot0 then fail E_InvalidInput
     else if has_flag (ps_status_flags snapshot0) SNAPSHOT_FLAG_INTERVAL_CHARGED \<and>
             ps_period_start snapshot0 \<ge> ps_period_end snapshot0 then fail E_InvalidInput
     else
       bnd (gets (\<lambda>st. sn_snapshot st i p)) (\<lambda>stored.
       bnd (case stored of
              None \<Rightarrow> ret snapshot0
            | Some existing \<Rightarrow>
                if has_flag (ps_status_flags existing) SNAPSHOT_FLAG_CLOSED
                then fail E_InvalidStatusTransition
                else merge_snapshot existing snapshot0) (\<lambda>merged.
       let snapshot = mark_empty merged in
       if \<not> has_flag (ps_status_flags snapshot) SNAPSHOT_FLAG_EMPTY \<and> ps_total_charged snapshot \<le> 0
       then fail E_InvalidInput
       else
         thn (modify (\<lambda>st. st\<lparr>sn_snapshot := (sn_snapshot st)(i := (sn_snapshot st i)(p \<mapsto> snapshot))\<rparr>))
         (if stored = None then
            bnd (gets (\<lambda>st. snapshot_index st i)) (\<lambda>idx.
            bnd (evict_loop i (idx @ [p])) (\<lambda>idx'.
            modify (\<lambda>st. st\<lparr>sn_index := (sn_index st)(i \<mapsto> idx')\<rparr>)))
          else ret ()))))"

definition get_period_snapshot :: "snapshot_store \<Rightarrow> nat \<Rightarrow> nat \<Rightarrow> billing_period_snapshot option" where
  "get_period_snapshot st i p = sn_snapshot st i p"

definition list_period_snapshots :: "snapshot_store \<Rightarrow> nat \<Rightarrow> nat \<Rightarrow> billing_period_snapshot list" where
  "list_period_snapshots st i limit =
     (let idx = snapshot_index st i; len = length idx; count = min limit len in
      List.map_filter (get_period_snapshot st i) (map (\<lambda>k. idx ! (len - 1 - k)) [0..<count]))"

section \<open>What a write does\<close>

lemma snapshot_index_updates [simp]:
  "snapshot_index (st\<lparr>sn_snapshot := f\<rparr>) i = snapshot_index st i"
  "snapshot_index (st\<lparr>sn_index := g\<rparr>) i = (case g i of None \<Rightarrow> [] | Some idx \<Rightarrow> idx)"
  by (simp_all add: snapshot_index_def)

lemma mark_empty_sel [simp]:
  "ps_subscription_id (mark_empty s) = ps_subscription_id s"
  "ps_period_index (mark_empty s) = ps_period_index s"
  "ps_total_charged (mark_empty s) = ps_total_charged s"
  "ps_total_usage_units (mark_empty s) = ps_total_usage_units s"
  by (simp_all add: mark_empty_def)

lemma restrict_UNIV [simp]: "m |` UNIV = m"
  by (simp add: restrict_map_def)

lemma evict_loop_eq:
  "evict_loop i idx st =
     (let n = length idx - MAX_BILLING_PERIOD_SNAPSHOTS_PER_SUBSCRIPTION in
      (Ok (drop n idx),
       st\<lparr>sn_snapshot := (sn_snapshot st)(i := sn_snapshot st i |` (- set (take n idx)))\<rparr>))"
proof (induction i idx arbitrary: st rule: evict_loop.induct)
  case (1 i idx)
  show ?case
  proof (cases "length idx > MAX_BILLING_PERIOD_SNAPSHOTS_PER_SUBSCRIPTION")
    case True
    then obtain x xs where idx: "idx = x # xs" by (cases idx) auto
    define n where "n = length xs - MAX_BILLING_PERIOD_SNAPSHOTS_PER_SUBSCRIPTION"
    have Suc_n: "Suc (length xs) - MAX_BILLING_PERIOD_SNAPSHOTS_PER_SUBSCRIPTION = Suc n"
      and full: "MAX_BILLING_PERIOD_SNAPSHOTS_PER_SUBSCRIPTION < Suc (length xs)"
      using True idx by (auto simp: n_def)
    let ?st = "st\<lparr>sn_snapshot := (sn_snapshot st)(i := (sn_snapshot st i)(x := None))\<rparr>"
    have "evict_loop i (x # xs) st = evict_loop i xs ?st"
      using full by (subst evict_loop.simps) (simp add: act_run)
    also have "\<dots> = (Ok (drop n xs), ?st\<lparr>sn_snapshot := (sn_snapshot ?st)(i :=
        sn_snapshot ?st i |` (- set (take n xs)))\<rparr>)"
      using "1.IH" [OF True idx, of ?st] unfolding n_def Let_def .
    also have "sn_snapshot ?st i |` (- set (take n xs)) = sn_snapshot st i |` (- set (take (Suc n) (x # xs)))"
      by (auto simp: restrict_map_def)
    finally show ?thesis
      by (simp add: idx Suc_n Let_def del: take_Suc_Cons cong: if_cong)
  next
    case False
    then show ?thesis
      by (subst evict_loop.simps) (simp add: act_run Let_def fun_upd_idem)
  qed
qed

lemma write_snapshot_ok:
  assumes "write_period_snapshot s st = (Ok u, st')"
  defines "i \<equiv> ps_subscription_id s" and "p \<equiv> ps_period_index s"
  shows "\<exists>s'. ps_subscription_id s' = i \<and> ps_period_index s' = p \<and>
    (case sn_snapshot st i p of
       None \<Rightarrow> ps_total_charged s' = ps_total_charged s \<and>
         ps_total_usage_units s' = ps_total_usage_units s \<and>
         (let n = length (snapshot_index st i @ [p]) - MAX_BILLING_PERIOD_SNAPSHOTS_PER_SUBSCRIPTION;
              idx = snapshot_index st i @ [p]
          in st' = st\<lparr>sn_snapshot := (sn_snapshot st)(i := (sn_snapshot st i)(p \<mapsto> s') |` (- set (take n idx))),
                   sn_index := (sn_index st)(i \<mapsto> drop n idx)\<rparr>)
     | Some old \<Rightarrow> \<not> has_flag (ps_status_flags old) SNAPSHOT_FLAG_CLOSED \<and>
         ps_total_charged s' = ps_total_charged old + ps_total_charged s \<and>
         ps_total_usage_units s' = ps_total_usage_units old + ps_total_usage_units s \<and>
         st' = st\<lparr>sn_snapshot := (sn_snapshot st)(i := (sn_snapshot st i)(p \<mapsto> s'))\<rparr>)"
proof (cases "sn_snapshot st i p")
  case None
  with assms(1) show ?thesis
    by (intro exI [of _ "mark_empty s"])
      (auto simp: write_period_snapshot_def Let_def act_ok evict_loop_eq i_def p_def
        simp del: restrict_fun_upd take_append drop_append split: if_split_asm)
next
  case (Some old)
  with assms(1) obtain m where m: "merge_snapshot old s st = (Ok m, st)"
    and "\<not> has_flag (ps_status_flags old) SNAPSHOT_FLAG_CLOSED"
    and "st' = st\<lparr>sn_snapshot := (sn_snapshot st)(i := (sn_snapshot st i)(p \<mapsto> mark_empty m))\<rparr>"
    by (auto simp: write_period_snapshot_def Let_def act_ok merge_snapshot_def i_def p_def
        split: if_splits)
  with Some show ?thesis
    by (intro exI [of _ "mark_empty m"])
      (auto simp: merge_snapshot_def act_ok checked_add_i128_def i_def p_def split: if_splits)
qed

lemma write_snapshot_err:
  "write_period_snapshot s st = (Err e, st') \<Longrightarrow> st' = st"
  by (auto simp: write_period_snapshot_def Let_def act_run merge_snapshot_def checked_add_i128_def
      evict_loop_eq split: if_splits option.splits prod.splits outcome.splits)

text \<open>The index lists exactly the stored periods, once each.\<close>

definition snapshots_wf :: "snapshot_store \<Rightarrow> nat \<Rightarrow> bool" where
  "snapshots_wf st i \<longleftrightarrow> distinct (snapshot_index st i) \<and>
     set (snapshot_index st i) = {p. sn_snapshot st i p \<noteq> None} \<and>
     length (snapshot_index st i) \<le> MAX_BILLING_PERIOD_SNAPSHOTS_PER_SUBSCRIPTION"

lemma snapshots_wf_write:
  assumes wf: "snapshots_wf st i" and run: "write_period_snapshot s st = (r, st')"
    and i: "i = ps_subscription_id s"
  shows "snapshots_wf st' i"
proof (cases r)
  case (Ok u)
  define p where "p = ps_period_index s"
  from write_snapshot_ok [OF run [unfolded Ok], folded i p_def] obtain s' where
    w: "case sn_snapshot st i p of
       None \<Rightarrow> ps_total_charged s' = ps_total_charged s \<and>
         ps_total_usage_units s' = ps_total_usage_units s \<and>
         (let n = length (snapshot_index st i @ [p]) - MAX_BILLING_PERIOD_SNAPSHOTS_PER_SUBSCRIPTION;
              idx = snapshot_index st i @ [p]
          in st' = st\<lparr>sn_snapshot := (sn_snapshot st)(i := (sn_snapshot st i)(p \<mapsto> s') |` (- set (take n idx))),
                   sn_index := (sn_index st)(i \<mapsto> drop n idx)\<rparr>)
     | Some old \<Rightarrow> \<not> has_flag (ps_status_flags old) SNAPSHOT_FLAG_CLOSED \<and>
         ps_total_charged s' = ps_total_charged old + ps_total_charged s \<and>
         ps_total_usage_units s' = ps_total_usage_units old + ps_total_usage_units s \<and>
         st' = st\<lparr>sn_snapshot := (sn_snapshot st)(i := (sn_snapshot st i)(p \<mapsto> s'))\<rparr>"
    by blast
  show ?thesis
  proof (cases "sn_snapshot st i p")
    case None
    define idx where "idx = snapshot_index st i @ [p]"
    define n where "n = length idx - MAX_BILLING_PERIOD_SNAPSHOTS_PER_SUBSCRIPTION"
    from w None have st': "st' = st\<lparr>sn_snapshot := (sn_snapshot st)(i := (sn_snapshot st i)(p \<mapsto> s') |` (- set (take n idx))),
                   sn_index := (sn_index st)(i \<mapsto> drop n idx)\<rparr>"
      by (simp add: Let_def n_def idx_def)
    have dist: "distinct idx" and set: "set idx = insert p {p. sn_snapshot st i p \<noteq> None}"
      using wf None by (auto simp: snapshots_wf_def idx_def)
    from dist have "set (drop n idx) = set idx - set (take n idx)"
      by (metis Diff_cancel Diff_triv Un_Diff append_take_drop_id distinct_append inf_commute set_append sup_bot_left)
    with dist set show ?thesis
      by (auto simp: snapshots_wf_def st' snapshot_index_def n_def restrict_map_def split: if_splits)
  next
    case (Some old)
    with w wf show ?thesis
      by (auto simp: snapshots_wf_def snapshot_index_def)
  qed
next
  case (Err e)
  with wf run show ?thesis by (auto dest: write_snapshot_err)
next
  case Panic
  with run have False
    by (auto simp: write_period_snapshot_def Let_def act_run merge_snapshot_def checked_add_i128_def
        evict_loop_eq split: if_splits option.splits prod.splits outcome.splits)
  then show ?thesis ..
qed

text \<open>
  C40. A closed snapshot is immutable: a write of any snapshot either leaves it exactly as it was or
  evicts it, and it is evicted only as the oldest entry of an index that was full. In particular a
  second write for a closed period is refused and changes nothing.
\<close>

theorem closed_snapshot_immutable:
  assumes "snapshots_wf st i" and "sn_snapshot st i p = Some c"
    and "has_flag (ps_status_flags c) SNAPSHOT_FLAG_CLOSED"
    and "write_period_snapshot s st = (r, st')"
  shows "(sn_snapshot st' i p = Some c \<or>
      (sn_snapshot st' i p = None \<and> hd (snapshot_index st i) = p \<and>
       length (snapshot_index st i) = MAX_BILLING_PERIOD_SNAPSHOTS_PER_SUBSCRIPTION)) \<and>
    (ps_subscription_id s = i \<and> ps_period_index s = p \<longrightarrow> r \<noteq> Ok () \<and> st' = st)"
proof (cases r)
  case (Ok u)
  define j q where "j = ps_subscription_id s" and "q = ps_period_index s"
  from write_snapshot_ok [OF assms(4) [unfolded Ok], folded j_def q_def] obtain s' where
    w: "case sn_snapshot st j q of
       None \<Rightarrow> ps_total_charged s' = ps_total_charged s \<and>
         ps_total_usage_units s' = ps_total_usage_units s \<and>
         (let n = length (snapshot_index st j @ [q]) - MAX_BILLING_PERIOD_SNAPSHOTS_PER_SUBSCRIPTION;
              idx = snapshot_index st j @ [q]
          in st' = st\<lparr>sn_snapshot := (sn_snapshot st)(j := (sn_snapshot st j)(q \<mapsto> s') |` (- set (take n idx))),
                   sn_index := (sn_index st)(j \<mapsto> drop n idx)\<rparr>)
     | Some old \<Rightarrow> \<not> has_flag (ps_status_flags old) SNAPSHOT_FLAG_CLOSED \<and>
         ps_total_charged s' = ps_total_charged old + ps_total_charged s \<and>
         ps_total_usage_units s' = ps_total_usage_units old + ps_total_usage_units s \<and>
         st' = st\<lparr>sn_snapshot := (sn_snapshot st)(j := (sn_snapshot st j)(q \<mapsto> s'))\<rparr>"
    by blast
  have other: "j \<noteq> i \<or> q \<noteq> p"
  proof (rule ccontr)
    assume "\<not> ?thesis"
    with w assms(2) have "\<not> has_flag (ps_status_flags c) SNAPSHOT_FLAG_CLOSED" by simp
    with assms(3) show False by contradiction
  qed
  show ?thesis
  proof (cases "sn_snapshot st j q")
    case None
    define n where "n = length (snapshot_index st j @ [q]) - MAX_BILLING_PERIOD_SNAPSHOTS_PER_SUBSCRIPTION"
    from w None have st': "st' = st\<lparr>sn_snapshot := (sn_snapshot st)(j := (sn_snapshot st j)(q \<mapsto> s') |` (- set (take n (snapshot_index st j @ [q])))),
                   sn_index := (sn_index st)(j \<mapsto> drop n (snapshot_index st j @ [q]))\<rparr>"
      by (simp add: Let_def n_def)
    show ?thesis
    proof (cases "j = i \<and> p \<in> set (take n (snapshot_index st j @ [q]))")
      case True
      then have "n > 0" by (cases n) auto
      moreover have "length (snapshot_index st i) \<le> MAX_BILLING_PERIOD_SNAPSHOTS_PER_SUBSCRIPTION"
        using assms(1) by (simp add: snapshots_wf_def)
      ultimately have "length (snapshot_index st i) = MAX_BILLING_PERIOD_SNAPSHOTS_PER_SUBSCRIPTION" "n = 1"
        using True by (simp_all add: n_def)
      moreover from this True have "hd (snapshot_index st i) = p"
        by (cases "snapshot_index st i") (auto simp: MAX_BILLING_PERIOD_SNAPSHOTS_PER_SUBSCRIPTION_def)
      moreover have "sn_snapshot st' i p = None"
        using True by (auto simp: st' restrict_map_def)
      ultimately show ?thesis
        using other by (auto simp: j_def q_def)
    next
      case False
      with assms(2) other have "sn_snapshot st' i p = Some c"
        by (auto simp: st' restrict_map_def)
      with other show ?thesis by (auto simp: j_def q_def)
    qed
  next
    case (Some old)
    with w other assms(2) have "sn_snapshot st' i p = Some c" by auto
    with other show ?thesis by (auto simp: j_def q_def)
  qed
next
  case (Err e)
  with assms show ?thesis by (auto dest: write_snapshot_err)
next
  case Panic
  with assms(4) have False
    by (auto simp: write_period_snapshot_def Let_def act_run merge_snapshot_def checked_add_i128_def
        evict_loop_eq split: if_splits option.splits prod.splits outcome.splits)
  then show ?thesis ..
qed

definition example_snapshot :: billing_period_snapshot where
  "example_snapshot = \<lparr>ps_subscription_id = 4, ps_period_index = 2, ps_period_start = 10, ps_period_end = 20,
     ps_total_charged = 50, ps_total_usage_units = 0,
     ps_status_flags = SNAPSHOT_FLAG_CLOSED OR SNAPSHOT_FLAG_INTERVAL_CHARGED, ps_finalized_at = 20\<rparr>"

definition one_snapshot :: snapshot_store where
  "one_snapshot = \<lparr>sn_snapshot = (\<lambda>i. if i = 4 then [2 \<mapsto> example_snapshot] else Map.empty),
     sn_index = [4 \<mapsto> [2]]\<rparr>"

theorem closed_snapshot_immutable_witness:
  "fst (write_period_snapshot (example_snapshot\<lparr>ps_total_charged := 7\<rparr>) one_snapshot) \<noteq> Ok ()"
proof -
  have "snapshots_wf one_snapshot 4"
    by (auto simp: snapshots_wf_def one_snapshot_def snapshot_index_def
        MAX_BILLING_PERIOD_SNAPSHOTS_PER_SUBSCRIPTION_def)
  moreover have "sn_snapshot one_snapshot 4 2 = Some example_snapshot" by (simp add: one_snapshot_def)
  moreover have "has_flag (ps_status_flags example_snapshot) SNAPSHOT_FLAG_CLOSED"
    by (simp add: example_snapshot_def has_flag_def snapshot_flags)
  ultimately show ?thesis
    using closed_snapshot_immutable [of one_snapshot 4 2 example_snapshot
        "example_snapshot\<lparr>ps_total_charged := 7\<rparr>"
        "fst (write_period_snapshot (example_snapshot\<lparr>ps_total_charged := 7\<rparr>) one_snapshot)"
        "snd (write_period_snapshot (example_snapshot\<lparr>ps_total_charged := 7\<rparr>) one_snapshot)"]
    by (simp add: example_snapshot_def)
qed

text \<open>
  The snapshot index is a faithful bounded index: from a well-formed store every write, accepted
  or refused, leaves an index without duplicates that lists exactly the stored periods and never
  holds more than the configured maximum.
\<close>

theorem snapshot_index_invariant:
  assumes "snapshots_wf st i" and "\<forall>s \<in> set ws. ps_subscription_id s = i"
  shows "snapshots_wf (snd (serve write_period_snapshot ws st)) i"
  using assms
proof (induction ws arbitrary: st)
  case Nil
  then show ?case by simp
next
  case (Cons s ws)
  obtain r st1 where run: "write_period_snapshot s st = (r, st1)" by fastforce
  with Cons.prems have "snapshots_wf st1 i" by (intro snapshots_wf_write [OF _ run]) simp_all
  with Cons run show ?case by (auto split: prod.splits) (metis snd_conv)
qed

theorem snapshot_index_invariant_witness:
  "snapshots_wf (snd (serve write_period_snapshot [example_snapshot, example_snapshot] (v_snap empty_vault))) 4"
  by (rule snapshot_index_invariant)
    (simp_all add: snapshots_wf_def empty_vault_def snapshot_index_def example_snapshot_def)

end
