(* ===== verification/Admin_Settings.thy ===== *)
theory Admin_Settings
  imports Admin_Config
begin

text \<open>
  The settings administrators change (\<^verbatim>\<open>src/admin.rs\<close>): getters, setters with their cooldown, the
  configuration a batch of charges caches, and the block list (\<^verbatim>\<open>src/blocklist.rs\<close>).
\<close>

section \<open>Getters\<close>

definition get_min_topup :: "int vm" where
  "get_min_topup = bnd (read_config cf_min_topup) (\<lambda>x. ok_or x E_NotInitialized)"

definition get_grace_period :: "nat vm" where
  "get_grace_period = bnd (read_config cf_grace_period) (\<lambda>x. ok_or x E_NotInitialized)"

definition DISPUTE_WINDOW_SECS :: nat where "DISPUTE_WINDOW_SECS = 14 * 24 * 60 * 60"

definition get_dispute_window_secs :: "nat vm" where
  "get_dispute_window_secs =
     bnd (read_config cf_dispute_window_secs) (\<lambda>x. ret (case x of Some w \<Rightarrow> w | None \<Rightarrow> DISPUTE_WINDOW_SECS))"

definition get_subscriber_create_cap :: "nat vm" where
  "get_subscriber_create_cap =
     bnd (read_config cf_subscriber_create_cap) (\<lambda>x. ret (case x of Some c \<Rightarrow> c | None \<Rightarrow> 50))"

definition get_token :: "address vm" where
  "get_token = bnd (read_config cf_token) (\<lambda>x. ok_or x E_NotFound)"

definition get_token_decimals :: "address \<Rightarrow> nat vm" where
  "get_token_decimals token =
     bnd (gets (\<lambda>v. ad_accepted_decimals (v_admin v) token)) (\<lambda>x. ok_or x E_NotFound)"

definition is_token_accepted :: "address \<Rightarrow> bool vm" where
  "is_token_accepted token = gets (\<lambda>v. ad_accepted_decimals (v_admin v) token \<noteq> None)"

definition get_protocol_fee_bps :: "nat vm" where
  "get_protocol_fee_bps = bnd (read_config cf_fee_bps) (\<lambda>x. ret (case x of Some b \<Rightarrow> b | None \<Rightarrow> 0))"

definition get_treasury :: "(address option) vm" where
  "get_treasury = read_config cf_treasury"

definition get_fee_token :: "(address option) vm" where
  "get_fee_token = read_config cf_fee_token"

definition get_auto_pause_threshold :: "nat vm" where
  "get_auto_pause_threshold =
     gets (\<lambda>v. case ad_auto_pause_threshold (v_admin v) of Some n \<Rightarrow> n | None \<Rightarrow> 0)"

definition do_get_admin :: "address vm" where
  "do_get_admin = bnd (read_config cf_admin) (\<lambda>x. ok_or x E_NotInitialized)"

definition current_batch_nonce :: "(nat option) vm" where
  "current_batch_nonce = gets (\<lambda>v. ad_batch_nonce (v_admin v))"

record cached_admin_config =
  ca_fee_bps :: nat
  ca_treasury :: "address option"
  ca_grace_duration :: nat
  ca_auto_pause_threshold :: nat

definition read_cached_admin_config :: "cached_admin_config vm" where
  "read_cached_admin_config =
     bnd get_protocol_fee_bps (\<lambda>fee_bps.
     bnd get_treasury (\<lambda>treasury.
     bnd get_grace_period (\<lambda>grace.
     bnd get_auto_pause_threshold (\<lambda>threshold.
     ret \<lparr>ca_fee_bps = fee_bps, ca_treasury = treasury, ca_grace_duration = grace,
          ca_auto_pause_threshold = threshold\<rparr>))))"

section \<open>Setters\<close>

definition do_set_min_topup :: "env \<Rightarrow> address \<Rightarrow> int \<Rightarrow> unit vm" where
  "do_set_min_topup E admin min_topup =
     thn (require_admin_auth E admin)
     (if min_topup \<le> 0 then fail E_InvalidAmount
      else
        bnd (attempt get_min_topup) (\<lambda>old.
        let old_min_topup = (case old of Inr x \<Rightarrow> x | Inl e \<Rightarrow> 0) in
        thn (enforce_config_cooldown E ''MinTopup'')
        (thn (write_config cf_min_topup_update min_topup)
        (publish (AdminEv (Ev_min_topup_updated admin old_min_topup min_topup (e_timestamp E)))))))"

definition do_set_grace_period :: "env \<Rightarrow> address \<Rightarrow> nat \<Rightarrow> unit vm" where
  "do_set_grace_period E admin grace_period =
     thn (require_admin_auth E admin)
     (thn (enforce_config_cooldown E ''GracePeriod'')
     (thn (write_config cf_grace_period_update grace_period)
     (publish (AdminEv (Ev_grace_period_updated grace_period)))))"

definition apply_dispute_window_secs :: "env \<Rightarrow> nat \<Rightarrow> unit vm" where
  "apply_dispute_window_secs E window_secs =
     (if window_secs = 0 \<or> window_secs > u32_max then fail E_InvalidInput
      else
        bnd get_dispute_window_secs (\<lambda>old_window_secs.
        thn (write_config cf_dispute_window_secs_update window_secs)
        (publish (AdminEv (Ev_dispute_window_updated old_window_secs window_secs (e_timestamp E))))))"

definition do_set_dispute_window_secs :: "env \<Rightarrow> address \<Rightarrow> nat \<Rightarrow> unit vm" where
  "do_set_dispute_window_secs E admin window_secs =
     thn (require_admin_auth E admin)
     (thn (enforce_config_cooldown E ''DisputeWindowSecs'')
     (apply_dispute_window_secs E window_secs))"

definition do_set_subscriber_create_cap :: "env \<Rightarrow> address \<Rightarrow> nat \<Rightarrow> unit vm" where
  "do_set_subscriber_create_cap E admin cap =
     thn (require_admin_auth E admin)
     (thn (write_config cf_subscriber_create_cap_update cap)
     (publish (AdminEv (Ev_create_cap_updated cap))))"

definition set_fee_token :: "env \<Rightarrow> address \<Rightarrow> address option \<Rightarrow> unit vm" where
  "set_fee_token E admin fee_token =
     thn (require_auth E admin)
     (bnd require_admin (\<lambda>stored.
     if admin \<noteq> stored then fail E_Unauthorized
     else
       thn (enforce_config_cooldown E ''FeeToken'')
       (thn (case fee_token of
               Some token \<Rightarrow> write_config cf_fee_token_update token
             | None \<Rightarrow> remove_config cf_fee_token_update)
       (publish (AdminEv (Ev_fee_token_configured admin fee_token (e_timestamp E)))))))"

definition do_set_auto_pause_threshold :: "env \<Rightarrow> address \<Rightarrow> nat \<Rightarrow> unit vm" where
  "do_set_auto_pause_threshold E admin threshold =
     thn (require_admin_auth E admin)
     (mod_admin (\<lambda>a. a\<lparr>ad_auto_pause_threshold := Some threshold\<rparr>))"

section \<open>Block list\<close>

definition is_blocklisted :: "vault \<Rightarrow> address \<Rightarrow> bool" where
  "is_blocklisted v addr \<longleftrightarrow> v_blocklist v addr \<noteq> None"

definition require_not_blocklisted :: "address \<Rightarrow> unit vm" where
  "require_not_blocklisted addr =
     bnd (gets (\<lambda>v. is_blocklisted v addr)) (\<lambda>b.
     if b then fail E_SubscriberBlocklisted else ret ())"

definition get_blocklist_entry :: "address \<Rightarrow> bytes vm" where
  "get_blocklist_entry addr = bnd (gets (\<lambda>v. v_blocklist v addr)) (\<lambda>x. ok_or x E_NotFound)"

definition do_add_to_blocklist :: "env \<Rightarrow> address \<Rightarrow> address \<Rightarrow> bytes option \<Rightarrow> unit vm" where
  "do_add_to_blocklist E authorizer subscriber reason =
     thn (require_admin_auth E authorizer)
     (bnd (gets (\<lambda>v. is_blocklisted v subscriber)) (\<lambda>b.
     if b then fail E_SubscriberBlocklisted
     else
       let reason_str = (case reason of Some r \<Rightarrow> r | None \<Rightarrow> []) in
       thn (modify (\<lambda>v. v\<lparr>v_blocklist := (v_blocklist v)(subscriber \<mapsto> reason_str)\<rparr>))
       (publish (AdminEv (Ev_blocklist_added subscriber reason_str)))))"

section \<open>Inversion and frames\<close>

lemma getters_ok [act_ok]:
  "get_min_topup s = (Ok x, t) \<longleftrightarrow> config_value cf_min_topup (v_admin s) = Some x \<and> t = s"
  "get_grace_period s = (Ok g, t) \<longleftrightarrow> config_value cf_grace_period (v_admin s) = Some g \<and> t = s"
  "get_token s = (Ok a, t) \<longleftrightarrow> config_value cf_token (v_admin s) = Some a \<and> t = s"
  "is_token_accepted tk s = (Ok b, t) \<longleftrightarrow> b = (ad_accepted_decimals (v_admin s) tk \<noteq> None) \<and> t = s"
  "get_protocol_fee_bps s = (Ok n, t) \<longleftrightarrow>
     n = (case config_value cf_fee_bps (v_admin s) of Some b \<Rightarrow> b | None \<Rightarrow> 0) \<and> t = s"
  "get_treasury s = (Ok ta, t) \<longleftrightarrow> ta = config_value cf_treasury (v_admin s) \<and> t = s"
  "get_fee_token s = (Ok ta, t) \<longleftrightarrow> ta = config_value cf_fee_token (v_admin s) \<and> t = s"
  by (auto simp: get_min_topup_def get_grace_period_def get_token_def is_token_accepted_def
      get_protocol_fee_bps_def get_treasury_def get_fee_token_def act_ok)

lemma get_grace_period_run [act_run]:
  "get_grace_period s =
     (case config_value cf_grace_period (v_admin s) of Some g \<Rightarrow> (Ok g, s) | None \<Rightarrow> (Err E_NotInitialized, s))"
  by (simp add: get_grace_period_def act_run split: option.splits)

lemma require_not_blocklisted_run [act_run]:
  "require_not_blocklisted a s = (if is_blocklisted s a then (Err E_SubscriberBlocklisted, s) else (Ok (), s))"
  by (simp add: require_not_blocklisted_def act_run)

lemma require_not_blocklisted_ok [act_ok]:
  "require_not_blocklisted a s = (Ok u, t) \<longleftrightarrow> \<not> is_blocklisted s a \<and> t = s"
  by (auto simp: require_not_blocklisted_run)

lemma keeps_getters [keeps_intro]:
  "keeps g get_min_topup" "keeps g get_grace_period" "keeps g get_token" "keeps g (is_token_accepted tk)"
  "keeps g get_protocol_fee_bps" "keeps g get_treasury" "keeps g get_fee_token"
  "keeps g get_auto_pause_threshold" "keeps g (require_not_blocklisted a)" "keeps g (get_token_decimals tk)"
  "keeps g get_dispute_window_secs"
  by (auto simp: get_min_topup_def get_grace_period_def get_token_def is_token_accepted_def
      get_protocol_fee_bps_def get_treasury_def get_fee_token_def get_auto_pause_threshold_def
      require_not_blocklisted_def get_token_decimals_def get_dispute_window_secs_def intro!: keeps_intro)

section \<open>Properties\<close>

interpretation grace_admin: other_key cf_grace_period cf_grace_period_update cf_admin
  by unfold_locales simp_all

text \<open>
  The change cooldown works: after the grace period was set, a second change before six hours
  have passed is refused with \<open>CooldownActive\<close> and leaves the stored value alone, whatever the new
  value is; the first value is what the getter returns (from schema version 3 on).
\<close>

theorem grace_period_cooldown:
  assumes "do_set_grace_period E admin g1 s = (Ok u, t)"
    and "3 \<le> schema_version (v_admin s)" and "0 < e_timestamp E"
    and "e_auth E' admin" and "e_sha256 E' = e_sha256 E"
    and "e_timestamp E \<le> e_timestamp E'" and "e_timestamp E' < e_timestamp E + CONFIG_COOLDOWN_SECS"
  shows "do_set_grace_period E' admin g2 t = (Err E_CooldownActive, t) \<and> get_grace_period t = (Ok g1, t)"
proof -
  from assms(1) have adm: "config_value cf_admin (v_admin s) = Some admin"
    by (simp add: do_set_grace_period_def act_ok)
  from assms(1) have va: "v_admin t = config_put cf_grace_period_update g1
      ((v_admin s)\<lparr>ad_config_changed_at :=
         (ad_config_changed_at (v_admin s))(hash_key_label E ''GracePeriod'' \<mapsto> e_timestamp E)\<rparr>)"
    by (auto simp: do_set_grace_period_def act_ok enforce_config_cooldown_ok)
  have "hash_key_label E' l = hash_key_label E l" for l
    using assms(5) by (simp add: hash_key_label_def)
  then have "do_set_grace_period E' admin g2 t = (Err E_CooldownActive, t)"
    using adm assms(3,4,6,7)
    by (simp add: do_set_grace_period_def enforce_config_cooldown_def Let_def act_run va
        grace_admin.other_after_put)
  moreover have "get_grace_period t = (Ok g1, t)"
    using assms(2) by (simp add: get_grace_period_run va grace_admin.value_after_put)
  ultimately show ?thesis by simp
qed

definition settings_vault :: vault where
  "settings_vault = empty_vault\<lparr>v_admin := (v_admin empty_vault)\<lparr>ad_schema_persistent := Some 3,
     ad_persistent := empty_config\<lparr>cf_admin := Some (Addr 1)\<rparr>\<rparr>\<rparr>"

theorem grace_period_cooldown_witness:
  "fst (do_set_grace_period (test_env\<lparr>e_timestamp := 1000060\<rparr>) (Addr 1) 7
     (snd (do_set_grace_period test_env (Addr 1) 3600 settings_vault))) = Err E_CooldownActive"
proof -
  have adm: "config_value cf_admin (v_admin settings_vault) = Some (Addr 1)"
    and sch: "3 \<le> schema_version (v_admin settings_vault)"
    and ch: "ad_config_changed_at (v_admin settings_vault) = Map.empty"
    by (simp_all add: settings_vault_def empty_vault_def config_value_def schema_version_def)
  have "do_set_grace_period test_env (Addr 1) 3600 settings_vault =
      (Ok (), snd (do_set_grace_period test_env (Addr 1) 3600 settings_vault))"
    using adm ch by (simp add: do_set_grace_period_def enforce_config_cooldown_def Let_def act_run)
  from grace_period_cooldown [OF this sch, of "test_env\<lparr>e_timestamp := 1000060\<rparr>" 7]
  show ?thesis by (simp add: CONFIG_COOLDOWN_SECS_def test_env_def)
qed

end
