(* ===== verification/Subscription_Reads.thy ===== *)
theory Subscription_Reads
  imports Admin_Settings
begin

text \<open>
  Reading a subscription (\<^verbatim>\<open>src/queries.rs::get_subscription\<close>): the stored record with the status it
  effectively has once its grace window has elapsed.
\<close>

definition get_subscription :: "env \<Rightarrow> nat \<Rightarrow> subscription vm" where
  "get_subscription E i =
     bnd (gets (\<lambda>v. su_sub (v_subs v) i)) (\<lambda>x.
     bnd (ok_or x E_NotFound) (\<lambda>sub.
     if s_status sub = GracePeriod then
       (case s_grace_start_timestamp sub of
          Some grace_start \<Rightarrow>
            bnd (attempt get_grace_period) (\<lambda>r.
            let grace_duration = (case r of Inr g \<Rightarrow> g | Inl e \<Rightarrow> 0);
                grace_expires = sat_add_u64 grace_start grace_duration in
            if grace_duration = 0 \<or> e_timestamp E \<ge> grace_expires
            then ret (sub\<lparr>s_status := InsufficientBalance\<rparr>)
            else ret sub)
        | None \<Rightarrow> ret sub)
     else ret sub))"

text \<open>The same as a function of the state.\<close>

definition grace_duration :: "vault \<Rightarrow> nat" where
  "grace_duration v = (case config_value cf_grace_period (v_admin v) of Some g \<Rightarrow> g | None \<Rightarrow> 0)"

definition grace_over :: "env \<Rightarrow> vault \<Rightarrow> subscription \<Rightarrow> bool" where
  "grace_over E v sub \<longleftrightarrow> s_status sub = GracePeriod \<and>
     (case s_grace_start_timestamp sub of
        Some g \<Rightarrow> grace_duration v = 0 \<or> sat_add_u64 g (grace_duration v) \<le> e_timestamp E
      | None \<Rightarrow> False)"

definition effective :: "env \<Rightarrow> vault \<Rightarrow> subscription \<Rightarrow> subscription" where
  "effective E v sub = (if grace_over E v sub then sub\<lparr>s_status := InsufficientBalance\<rparr> else sub)"

lemma get_subscription_run [act_run]:
  "get_subscription E i s =
     (case su_sub (v_subs s) i of None \<Rightarrow> (Err E_NotFound, s) | Some sub \<Rightarrow> (Ok (effective E s sub), s))"
  by (auto simp: get_subscription_def act_run effective_def grace_over_def grace_duration_def Let_def
      split: option.splits)

lemma get_subscription_ok [act_ok]:
  "get_subscription E i s = (Ok sub, t) \<longleftrightarrow>
     (\<exists>x. su_sub (v_subs s) i = Some x \<and> sub = effective E s x) \<and> t = s"
  by (auto simp: get_subscription_run split: option.splits)

lemma effective_sel [simp]:
  "s_subscriber (effective E v sub) = s_subscriber sub" "s_merchant (effective E v sub) = s_merchant sub"
  "s_token (effective E v sub) = s_token sub" "s_amount (effective E v sub) = s_amount sub"
  "s_prepaid_balance (effective E v sub) = s_prepaid_balance sub"
  "s_interval_seconds (effective E v sub) = s_interval_seconds sub"
  "s_last_payment_timestamp (effective E v sub) = s_last_payment_timestamp sub"
  "s_start_time (effective E v sub) = s_start_time sub"
  "s_lifetime_cap (effective E v sub) = s_lifetime_cap sub"
  "s_lifetime_charged (effective E v sub) = s_lifetime_charged sub"
  "s_proration_enabled (effective E v sub) = s_proration_enabled sub"
  "s_sub_account_label (effective E v sub) = s_sub_account_label sub"
  "s_auto_renew (effective E v sub) = s_auto_renew sub"
  "s_usage_enabled (effective E v sub) = s_usage_enabled sub"
  "s_cancel_at (effective E v sub) = s_cancel_at sub"
  by (simp_all add: effective_def)

lemma effective_status: "s_status sub \<noteq> GracePeriod \<Longrightarrow> effective E v sub = sub"
  by (simp add: effective_def grace_over_def)

lemma keeps_get_subscription [keeps_intro]: "keeps g (get_subscription E i)"
  by (auto simp: keeps_def get_subscription_run split: option.splits)

end
