(* ===== verification/Merchant_Profile.thy ===== *)
theory Merchant_Profile
  imports Admin_Settings
begin

text \<open>
  What the vault stores about a merchant apart from its money (\<^verbatim>\<open>src/merchant.rs\<close>): pause flag,
  vacation window, protocol-fee override, allow-list membership, configuration and multi-signature
  settings.
\<close>

definition mod_merchant :: "(merchant_store \<Rightarrow> merchant_store) \<Rightarrow> unit vm" where
  "mod_merchant f = modify (\<lambda>v. v\<lparr>v_merchant := f (v_merchant v)\<rparr>)"

lemma mod_merchant_ok [act_ok]:
  "mod_merchant f s = (Ok u, t) \<longleftrightarrow> t = s\<lparr>v_merchant := f (v_merchant s)\<rparr>"
  by (simp add: mod_merchant_def act_ok)

lemma mod_merchant_run [act_run]: "mod_merchant f s = (Ok (), s\<lparr>v_merchant := f (v_merchant s)\<rparr>)"
  by (simp add: mod_merchant_def act_run)

lemma keeps_mod_merchant [keeps_intro]:
  "(\<And>s x. g (s\<lparr>v_merchant := x\<rparr>) = g s) \<Longrightarrow> keeps g (mod_merchant f)"
  by (simp add: mod_merchant_def keeps_modify)

section \<open>Configuration and multi-signature settings\<close>

definition get_merchant_config :: "address \<Rightarrow> (merchant_config option) vm" where
  "get_merchant_config merchant = gets (\<lambda>v. m_config (v_merchant v) merchant)"

definition get_merchant_multisig_config :: "address \<Rightarrow> (merchant_multisig_config option) vm" where
  "get_merchant_multisig_config merchant = gets (\<lambda>v. m_multisig (v_merchant v) merchant)"

text \<open>The loop that refuses a signer list with duplicates.\<close>

primrec signers_unique :: "address list \<Rightarrow> address list \<Rightarrow> bool" where
  "signers_unique seen [] = True"
| "signers_unique seen (s # rest) = (if s \<in> set seen then False else signers_unique (seen @ [s]) rest)"

definition set_merchant_multisig ::
  "env \<Rightarrow> address \<Rightarrow> address \<Rightarrow> address list \<Rightarrow> nat \<Rightarrow> unit vm" where
  "set_merchant_multisig E admin merchant signers threshold =
     thn (require_admin_auth E admin)
     (thn (require_auth E merchant)
     (if threshold = 0 then fail E_InvalidInput
      else if threshold > length signers then fail E_InvalidInput
      else if \<not> signers_unique [] signers then fail E_InvalidInput
      else mod_merchant (\<lambda>m. m\<lparr>m_multisig := (m_multisig m)(merchant \<mapsto>
             \<lparr>mm_signers = signers, mm_threshold = threshold\<rparr>)\<rparr>)))"

lemma signers_unique_iff: "signers_unique seen ss \<longleftrightarrow> distinct ss \<and> set ss \<inter> set seen = {}"
  by (induction ss arbitrary: seen) auto

section \<open>Pause flag\<close>

definition get_merchant_paused :: "address \<Rightarrow> bool vm" where
  "get_merchant_paused merchant =
     bnd (get_merchant_config merchant) (\<lambda>config.
     if (case config of Some c \<Rightarrow> mc_is_paused c | None \<Rightarrow> False) then ret True
     else
       bnd get_schema_version (\<lambda>version.
       if version < 3 then
         gets (\<lambda>v. case m_paused (v_merchant v) merchant of Some b \<Rightarrow> b | None \<Rightarrow> False)
       else ret False))"

definition set_merchant_paused :: "address \<Rightarrow> bool \<Rightarrow> unit vm" where
  "set_merchant_paused merchant paused =
     mod_merchant (\<lambda>m. m\<lparr>m_paused := (m_paused m)(merchant \<mapsto> paused)\<rparr>)"

definition pause_merchant :: "env \<Rightarrow> address \<Rightarrow> unit vm" where
  "pause_merchant E merchant =
     thn (require_auth E merchant)
     (bnd (get_merchant_paused merchant) (\<lambda>paused.
     if paused then ret ()
     else
       thn (set_merchant_paused merchant True)
       (publish (MerchantEv (Ev_merchant_paused merchant (e_timestamp E))))))"

definition unpause_merchant :: "env \<Rightarrow> address \<Rightarrow> unit vm" where
  "unpause_merchant E merchant =
     thn (require_auth E merchant)
     (bnd (get_merchant_paused merchant) (\<lambda>paused.
     if \<not> paused then ret ()
     else
       thn (set_merchant_paused merchant False)
       (publish (MerchantEv (Ev_merchant_unpaused merchant (e_timestamp E))))))"

text \<open>The value \<open>get_merchant_paused\<close> reads, as a function of the state.\<close>

definition paused_view :: "vault \<Rightarrow> address \<Rightarrow> bool" where
  "paused_view v merchant \<longleftrightarrow>
     (case m_config (v_merchant v) merchant of Some c \<Rightarrow> mc_is_paused c | None \<Rightarrow> False) \<or>
     (schema_version (v_admin v) < 3 \<and> m_paused (v_merchant v) merchant = Some True)"

lemma get_merchant_config_ok [act_ok]:
  "get_merchant_config m s = (Ok c, t) \<longleftrightarrow> c = m_config (v_merchant s) m \<and> t = s"
  by (simp add: get_merchant_config_def act_ok)

lemma get_merchant_multisig_config_ok [act_ok]:
  "get_merchant_multisig_config m s = (Ok c, t) \<longleftrightarrow> c = m_multisig (v_merchant s) m \<and> t = s"
  by (simp add: get_merchant_multisig_config_def act_ok)

lemma get_merchant_paused_run [act_run]: "get_merchant_paused m s = (Ok (paused_view s m), s)"
  by (auto simp: get_merchant_paused_def get_merchant_config_def paused_view_def act_run
      split: option.splits)

lemma get_merchant_paused_ok [act_ok]:
  "get_merchant_paused m s = (Ok b, t) \<longleftrightarrow> b = paused_view s m \<and> t = s"
  by (auto simp: get_merchant_paused_run)

section \<open>Vacation window\<close>

definition get_merchant_vacation :: "address \<Rightarrow> (merchant_vacation option) vm" where
  "get_merchant_vacation merchant = gets (\<lambda>v. m_vacation (v_merchant v) merchant)"

definition is_merchant_in_vacation :: "address \<Rightarrow> nat \<Rightarrow> bool vm" where
  "is_merchant_in_vacation merchant now =
     bnd (get_merchant_vacation merchant) (\<lambda>vac.
     case vac of
       Some w \<Rightarrow> ret (now \<ge> mv_start_ts w \<and> now < mv_end_ts w)
     | None \<Rightarrow> ret False)"

definition set_merchant_vacation :: "env \<Rightarrow> address \<Rightarrow> nat \<Rightarrow> nat \<Rightarrow> unit vm" where
  "set_merchant_vacation E merchant start_ts end_ts =
     thn (require_auth E merchant)
     (if end_ts \<le> start_ts then fail E_InvalidInput
      else if start_ts < e_timestamp E then fail E_InvalidExpiration
      else
        thn (mod_merchant (\<lambda>m. m\<lparr>m_vacation := (m_vacation m)(merchant \<mapsto>
               \<lparr>mv_start_ts = start_ts, mv_end_ts = end_ts\<rparr>)\<rparr>))
        (publish (MerchantEv (Ev_vacation_started merchant start_ts end_ts (e_timestamp E)))))"

definition clear_merchant_vacation :: "env \<Rightarrow> address \<Rightarrow> unit vm" where
  "clear_merchant_vacation E merchant =
     thn (require_auth E merchant)
     (bnd (get_merchant_vacation merchant) (\<lambda>existed.
     thn (mod_merchant (\<lambda>m. m\<lparr>m_vacation := (m_vacation m)(merchant := None)\<rparr>))
     (if existed \<noteq> None
      then publish (MerchantEv (Ev_vacation_ended merchant (e_timestamp E)))
      else ret ())))"

definition vacation_view :: "vault \<Rightarrow> address \<Rightarrow> nat \<Rightarrow> bool" where
  "vacation_view v merchant now \<longleftrightarrow>
     (case m_vacation (v_merchant v) merchant of
        Some w \<Rightarrow> mv_start_ts w \<le> now \<and> now < mv_end_ts w
      | None \<Rightarrow> False)"

lemma is_merchant_in_vacation_run [act_run]:
  "is_merchant_in_vacation m now s = (Ok (vacation_view s m now), s)"
  by (auto simp: is_merchant_in_vacation_def get_merchant_vacation_def vacation_view_def act_run
      split: option.splits)

lemma is_merchant_in_vacation_ok [act_ok]:
  "is_merchant_in_vacation m now s = (Ok b, t) \<longleftrightarrow> b = vacation_view s m now \<and> t = s"
  by (auto simp: is_merchant_in_vacation_run)

section \<open>Protocol-fee override\<close>

definition get_merchant_fee_override_bps :: "address \<Rightarrow> (nat option) vm" where
  "get_merchant_fee_override_bps merchant = gets (\<lambda>v. m_fee_bps (v_merchant v) merchant)"

definition set_merchant_fee_override :: "env \<Rightarrow> address \<Rightarrow> address \<Rightarrow> nat \<Rightarrow> unit vm" where
  "set_merchant_fee_override E admin merchant fee_bps =
     thn (require_admin_auth E admin)
     (if fee_bps > 10000 then fail E_InvalidFeeBips
      else
        bnd get_protocol_fee_bps (\<lambda>global_fee_bps.
        if fee_bps > global_fee_bps then fail E_InvalidFeeBips
        else
          thn (mod_merchant (\<lambda>m. m\<lparr>m_fee_bps := (m_fee_bps m)(merchant \<mapsto> fee_bps)\<rparr>))
          (publish (MerchantEv (Ev_fee_override_set merchant admin (Some fee_bps) (e_timestamp E))))))"

definition clear_merchant_fee_override :: "env \<Rightarrow> address \<Rightarrow> address \<Rightarrow> unit vm" where
  "clear_merchant_fee_override E admin merchant =
     thn (require_admin_auth E admin)
     (thn (mod_merchant (\<lambda>m. m\<lparr>m_fee_bps := (m_fee_bps m)(merchant := None)\<rparr>))
     (publish (MerchantEv (Ev_fee_override_set merchant admin None (e_timestamp E)))))"

section \<open>Allow list\<close>

definition get_whitelist_mode :: "bool vm" where
  "get_whitelist_mode = gets (\<lambda>v. case m_whitelist_mode (v_merchant v) of Some b \<Rightarrow> b | None \<Rightarrow> False)"

definition set_whitelist_mode :: "env \<Rightarrow> address \<Rightarrow> bool \<Rightarrow> unit vm" where
  "set_whitelist_mode E admin enabled =
     thn (require_admin_auth E admin)
     (thn (mod_merchant (\<lambda>m. m\<lparr>m_whitelist_mode := Some enabled\<rparr>))
     (publish (MerchantEv (Ev_whitelist_mode enabled admin (e_timestamp E)))))"

definition is_merchant_approved :: "address \<Rightarrow> bool vm" where
  "is_merchant_approved merchant =
     gets (\<lambda>v. case m_approved (v_merchant v) merchant of Some b \<Rightarrow> b | None \<Rightarrow> False)"

definition require_merchant_approved :: "address \<Rightarrow> unit vm" where
  "require_merchant_approved merchant =
     bnd get_whitelist_mode (\<lambda>mode.
     if \<not> mode then ret ()
     else
       bnd (is_merchant_approved merchant) (\<lambda>approved.
       if \<not> approved then fail E_MerchantNotApproved else ret ()))"

definition approve_merchant :: "env \<Rightarrow> address \<Rightarrow> address \<Rightarrow> unit vm" where
  "approve_merchant E admin merchant =
     thn (require_admin_auth E admin)
     (thn (mod_merchant (\<lambda>m. m\<lparr>m_approved := (m_approved m)(merchant \<mapsto> True)\<rparr>))
     (publish (MerchantEv (Ev_merchant_approved merchant admin (e_timestamp E)))))"

definition revoke_merchant :: "env \<Rightarrow> address \<Rightarrow> address \<Rightarrow> unit vm" where
  "revoke_merchant E admin merchant =
     thn (require_admin_auth E admin)
     (thn (mod_merchant (\<lambda>m. m\<lparr>m_approved := (m_approved m)(merchant \<mapsto> False)\<rparr>))
     (publish (MerchantEv (Ev_merchant_revoked merchant admin (e_timestamp E)))))"

definition approval_view :: "vault \<Rightarrow> address \<Rightarrow> bool" where
  "approval_view v merchant \<longleftrightarrow>
     m_whitelist_mode (v_merchant v) \<noteq> Some True \<or> m_approved (v_merchant v) merchant = Some True"

lemma require_merchant_approved_run [act_run]:
  "require_merchant_approved m s =
     (if approval_view s m then (Ok (), s) else (Err E_MerchantNotApproved, s))"
  by (auto simp: require_merchant_approved_def get_whitelist_mode_def is_merchant_approved_def
      approval_view_def act_run split: option.splits)

lemma require_merchant_approved_ok [act_ok]:
  "require_merchant_approved m s = (Ok u, t) \<longleftrightarrow> approval_view s m \<and> t = s"
  by (auto simp: require_merchant_approved_run)

lemma keeps_profile_reads [keeps_intro]:
  "keeps g (get_merchant_config m)" "keeps g (get_merchant_multisig_config m)"
  "keeps g (get_merchant_paused m)" "keeps g (is_merchant_in_vacation m now)"
  "keeps g (get_merchant_fee_override_bps m)"
  "keeps g (require_merchant_approved m)"
  by (auto simp: keeps_def get_merchant_config_def get_merchant_multisig_config_def
      get_merchant_fee_override_bps_def act_run)

section \<open>Properties\<close>

text \<open>
  From schema version 3 on, pausing a merchant has no effect on billing: a successful
  \<open>pause_merchant\<close> publishes its event but every later pause check still answers as before, because
  the flag it writes is read only under an older schema.
\<close>

theorem pause_has_no_effect_from_schema_3:
  assumes "3 \<le> schema_version (v_admin s)" and "pause_merchant E merchant s = (Ok u, t)"
  shows "get_merchant_paused m t = (Ok (paused_view s m), t) \<and>
    (paused_view s merchant \<or>
     MerchantEv (Ev_merchant_paused merchant (e_timestamp E)) \<in> set (v_events t))"
  using assms
  by (auto simp: pause_merchant_def set_merchant_paused_def act_ok get_merchant_paused_run
      paused_view_def split: if_splits)

definition schema_3_vault :: vault where
  "schema_3_vault = empty_vault\<lparr>v_admin := (v_admin empty_vault)\<lparr>ad_schema_persistent := Some 3\<rparr>\<rparr>"

theorem pause_has_no_effect_from_schema_3_witness:
  "fst (get_merchant_paused (Addr 5) (snd (pause_merchant test_env (Addr 5) schema_3_vault))) = Ok False"
proof -
  let ?s = schema_3_vault
  have v: "\<not> paused_view ?s (Addr 5)" and sch: "3 \<le> schema_version (v_admin ?s)"
    by (simp_all add: schema_3_vault_def empty_vault_def paused_view_def schema_version_def)
  have "pause_merchant test_env (Addr 5) ?s = (Ok (), snd (pause_merchant test_env (Addr 5) ?s))"
    using v by (simp add: pause_merchant_def set_merchant_paused_def act_run)
  from pause_has_no_effect_from_schema_3 [OF sch this, of "Addr 5"] v show ?thesis by simp
qed

text \<open>
  A vacation is exactly the half-open window that was set: it is never in the past when set,
  never empty, inside it the merchant is on vacation and outside it is not, and other merchants are
  not affected; clearing it ends it at once.
\<close>

theorem vacation_window_exact:
  assumes "set_merchant_vacation E merchant start_ts end_ts s = (Ok u, t)"
  shows "e_auth E merchant \<and> e_timestamp E \<le> start_ts \<and> start_ts < end_ts \<and>
    vacation_view t m now = (if m = merchant then start_ts \<le> now \<and> now < end_ts else vacation_view s m now) \<and>
    \<not> vacation_view (snd (clear_merchant_vacation E merchant t)) merchant now"
proof -
  from assms have g: "e_auth E merchant" "e_timestamp E \<le> start_ts" "start_ts < end_ts"
    and t: "t = s\<lparr>v_merchant := (v_merchant s)\<lparr>m_vacation := (m_vacation (v_merchant s))(merchant \<mapsto>
               \<lparr>mv_start_ts = start_ts, mv_end_ts = end_ts\<rparr>)\<rparr>,
             v_events := v_events s @ [MerchantEv (Ev_vacation_started merchant start_ts end_ts (e_timestamp E))]\<rparr>"
    by (auto simp: set_merchant_vacation_def act_ok split: if_splits)
  show ?thesis
    using g by (auto simp: t vacation_view_def clear_merchant_vacation_def get_merchant_vacation_def act_run)
qed

theorem vacation_window_exact_witness:
  "vacation_view (snd (set_merchant_vacation test_env (Addr 5) 2000000 3000000 empty_vault)) (Addr 5) 2500000"
proof -
  have "set_merchant_vacation test_env (Addr 5) 2000000 3000000 empty_vault =
     (Ok (), snd (set_merchant_vacation test_env (Addr 5) 2000000 3000000 empty_vault))"
    by (simp add: set_merchant_vacation_def act_run)
  from vacation_window_exact [OF this, of "Addr 5" 2500000] show ?thesis by simp
qed

end
