(* ===== verification/Merchant_Ledger.thy ===== *)
theory Merchant_Ledger
  imports Merchant_Profile Vault_Interfaces
begin

text \<open>
  The merchants' money (\<^verbatim>\<open>src/merchant.rs\<close>): balances and earnings per token, crediting, withdrawing,
  refunding, scheduled payouts, sub-accounts and the reconciliation view.
\<close>

section \<open>Balances and earnings\<close>

definition merchant_balance :: "vault \<Rightarrow> address \<Rightarrow> address \<Rightarrow> int" where
  "merchant_balance v merchant token =
     (case m_balance (v_merchant v) merchant token of Some b \<Rightarrow> b | None \<Rightarrow> 0)"

definition get_merchant_balance_by_token :: "address \<Rightarrow> address \<Rightarrow> int vm" where
  "get_merchant_balance_by_token merchant token = gets (\<lambda>v. merchant_balance v merchant token)"

definition set_merchant_balance :: "address \<Rightarrow> address \<Rightarrow> int \<Rightarrow> unit vm" where
  "set_merchant_balance merchant token balance =
     mod_merchant (\<lambda>m. m\<lparr>m_balance := (m_balance m)(merchant := (m_balance m merchant)(token \<mapsto> balance))\<rparr>)"

definition no_earnings :: token_earnings where
  "no_earnings = \<lparr>te_accruals = \<lparr>at_interval = 0, at_usage = 0, at_one_off = 0\<rparr>,
     te_withdrawals = 0, te_refunds = 0\<rparr>"

definition token_earnings_of :: "vault \<Rightarrow> address \<Rightarrow> address \<Rightarrow> token_earnings" where
  "token_earnings_of v merchant token =
     (case m_earnings (v_merchant v) merchant token of Some e \<Rightarrow> e | None \<Rightarrow> no_earnings)"

definition get_merchant_token_earnings :: "address \<Rightarrow> address \<Rightarrow> token_earnings vm" where
  "get_merchant_token_earnings merchant token = gets (\<lambda>v. token_earnings_of v merchant token)"

definition set_merchant_token_earnings :: "address \<Rightarrow> address \<Rightarrow> token_earnings \<Rightarrow> unit vm" where
  "set_merchant_token_earnings merchant token earnings =
     mod_merchant (\<lambda>m. m\<lparr>m_earnings := (m_earnings m)(merchant := (m_earnings m merchant)(token \<mapsto> earnings))\<rparr>)"

definition add_merchant_token :: "address \<Rightarrow> address \<Rightarrow> unit vm" where
  "add_merchant_token merchant token =
     mod_merchant (\<lambda>m. if token \<in> set (m_tokens m merchant) then m
       else m\<lparr>m_tokens := (m_tokens m)(merchant := m_tokens m merchant @ [token])\<rparr>)"

text \<open>The inline module \<open>accounting\<close> of \<^verbatim>\<open>src/lib.rs\<close>: three stubs.\<close>

definition add_total_accounted :: "address \<Rightarrow> int \<Rightarrow> unit vm" where
  "add_total_accounted token amount = ret ()"

definition sub_total_accounted :: "address \<Rightarrow> int \<Rightarrow> unit vm" where
  "sub_total_accounted token amount = ret ()"

definition get_total_accounted :: "address \<Rightarrow> int" where
  "get_total_accounted token = 0"

definition accrue :: "billing_charge_kind \<Rightarrow> int \<Rightarrow> token_earnings \<Rightarrow> token_earnings vm" where
  "accrue kind amount earnings =
     (let acc = te_accruals earnings in
      case kind of
        Interval \<Rightarrow> bnd (ok_or (checked_add_i128 (at_interval acc) amount) E_Overflow)
          (\<lambda>x. ret (earnings\<lparr>te_accruals := acc\<lparr>at_interval := x\<rparr>\<rparr>))
      | Usage \<Rightarrow> bnd (ok_or (checked_add_i128 (at_usage acc) amount) E_Overflow)
          (\<lambda>x. ret (earnings\<lparr>te_accruals := acc\<lparr>at_usage := x\<rparr>\<rparr>))
      | OneOff \<Rightarrow> bnd (ok_or (checked_add_i128 (at_one_off acc) amount) E_Overflow)
          (\<lambda>x. ret (earnings\<lparr>te_accruals := acc\<lparr>at_one_off := x\<rparr>\<rparr>)))"

definition credit_merchant_balance_for_token ::
  "address \<Rightarrow> address \<Rightarrow> int \<Rightarrow> billing_charge_kind \<Rightarrow> unit vm" where
  "credit_merchant_balance_for_token merchant token_addr amount kind =
     (if amount < 0 then fail E_InvalidAmount
      else
        bnd (get_merchant_balance_by_token merchant token_addr) (\<lambda>current.
        bnd (lift (safe_add current amount)) (\<lambda>new_balance.
        thn (set_merchant_balance merchant token_addr new_balance)
        (bnd (get_merchant_token_earnings merchant token_addr) (\<lambda>earnings0.
        bnd (accrue kind amount earnings0) (\<lambda>earnings.
        thn (set_merchant_token_earnings merchant token_addr earnings)
        (thn (add_merchant_token merchant token_addr)
        (add_total_accounted token_addr amount))))))))"

definition credit_merchant_balance :: "address \<Rightarrow> int \<Rightarrow> billing_charge_kind \<Rightarrow> unit vm" where
  "credit_merchant_balance merchant amount kind =
     bnd get_token (\<lambda>token_addr. credit_merchant_balance_for_token merchant token_addr amount kind)"

definition get_merchant_balance :: "address \<Rightarrow> int vm" where
  "get_merchant_balance merchant =
     bnd (attempt get_token) (\<lambda>r.
     case r of
       Inr token_addr \<Rightarrow> get_merchant_balance_by_token merchant token_addr
     | Inl e \<Rightarrow> ret 0)"

definition get_merchant_total_earnings :: "vault \<Rightarrow> address \<Rightarrow> (address \<times> token_earnings) list" where
  "get_merchant_total_earnings v merchant =
     map (\<lambda>token. (token, token_earnings_of v merchant token)) (m_tokens (v_merchant v) merchant)"

lemma balance_ok [act_ok]:
  "get_merchant_balance_by_token m tk s = (Ok b, t) \<longleftrightarrow> b = merchant_balance s m tk \<and> t = s"
  by (simp add: get_merchant_balance_by_token_def act_ok)

lemma earnings_ok [act_ok]:
  "get_merchant_token_earnings m tk s = (Ok e, t) \<longleftrightarrow> e = token_earnings_of s m tk \<and> t = s"
  by (simp add: get_merchant_token_earnings_def act_ok)

definition accrued :: "billing_charge_kind \<Rightarrow> int \<Rightarrow> token_earnings \<Rightarrow> token_earnings" where
  "accrued kind amount e =
     (case kind of
        Interval \<Rightarrow> e\<lparr>te_accruals := (te_accruals e)\<lparr>at_interval := at_interval (te_accruals e) + amount\<rparr>\<rparr>
      | Usage \<Rightarrow> e\<lparr>te_accruals := (te_accruals e)\<lparr>at_usage := at_usage (te_accruals e) + amount\<rparr>\<rparr>
      | OneOff \<Rightarrow> e\<lparr>te_accruals := (te_accruals e)\<lparr>at_one_off := at_one_off (te_accruals e) + amount\<rparr>\<rparr>)"

definition accrual :: "billing_charge_kind \<Rightarrow> token_earnings \<Rightarrow> int" where
  "accrual kind e = (case kind of Interval \<Rightarrow> at_interval (te_accruals e)
     | Usage \<Rightarrow> at_usage (te_accruals e) | OneOff \<Rightarrow> at_one_off (te_accruals e))"

lemma accrue_ok [act_ok]:
  "accrue kind amount e s = (Ok e', t) \<longleftrightarrow>
     t = s \<and> fits_i128 (accrual kind e + amount) \<and> e' = accrued kind amount e"
  by (cases kind) (auto simp: accrue_def accrued_def accrual_def Let_def act_ok checked_add_i128_def
      split: if_splits)

section \<open>Withdrawing and refunding\<close>

definition add_withdrawal :: "address \<Rightarrow> address \<Rightarrow> int \<Rightarrow> unit vm" where
  "add_withdrawal merchant token amount =
     bnd (get_merchant_token_earnings merchant token) (\<lambda>earnings.
     bnd (ok_or (checked_add_i128 (te_withdrawals earnings) amount) E_Overflow) (\<lambda>x.
     set_merchant_token_earnings merchant token (earnings\<lparr>te_withdrawals := x\<rparr>)))"

definition add_refund :: "address \<Rightarrow> address \<Rightarrow> int \<Rightarrow> unit vm" where
  "add_refund merchant token amount =
     bnd (get_merchant_token_earnings merchant token) (\<lambda>earnings.
     bnd (ok_or (checked_add_i128 (te_refunds earnings) amount) E_Overflow) (\<lambda>x.
     set_merchant_token_earnings merchant token (earnings\<lparr>te_refunds := x\<rparr>)))"

text \<open>The \<open>while\<close> loop over the first \<open>threshold\<close> signers.\<close>

definition require_signers :: "env \<Rightarrow> merchant_multisig_config option \<Rightarrow> unit vm" where
  "require_signers E config =
     (case config of
        None \<Rightarrow> ret ()
      | Some c \<Rightarrow> each (require_auth E) (take (min (mm_threshold c) (length (mm_signers c))) (mm_signers c)))"

definition withdraw_merchant_funds_for_token :: "env \<Rightarrow> address \<Rightarrow> address \<Rightarrow> int \<Rightarrow> unit vm" where
  "withdraw_merchant_funds_for_token E merchant token_addr amount =
     thn (require_auth E merchant)
     (thn (require_merchant_approved merchant)
     (bnd (get_merchant_multisig_config merchant) (\<lambda>multisig.
     thn (require_signers E multisig)
     (thn (require_not_blocklisted merchant)
     (if amount \<le> 0 then fail E_InvalidAmount
      else
        bnd (is_token_accepted token_addr) (\<lambda>accepted.
        if \<not> accepted then fail E_InvalidInput
        else
          bnd (get_merchant_config merchant) (\<lambda>config.
          thn (ok_or config E_NotFound)
          (bnd (get_merchant_balance_by_token merchant token_addr) (\<lambda>current.
          if current = 0 then fail E_NotFound
          else if amount > current then fail E_InsufficientBalance
          else
            bnd (token_balance token_addr (e_self E)) (\<lambda>held.
            if held < amount then fail E_InsufficientBalance
            else
              bnd (lift (safe_sub current amount)) (\<lambda>new_balance.
              thn (set_merchant_balance merchant token_addr new_balance)
              (thn (add_refund merchant token_addr amount)
              (thn (sub_total_accounted token_addr amount)
              (thn (add_withdrawal merchant token_addr amount)
              (thn (publish (MerchantEv (Ev_withdrawn merchant token_addr amount new_balance (e_timestamp E))))
              (thn (publish (MerchantEv (Ev_balance_snapshot merchant token_addr new_balance (e_timestamp E))))
              (token_transfer E token_addr (e_self E) merchant amount)))))))))))))))))"

definition withdraw_merchant_funds :: "env \<Rightarrow> address \<Rightarrow> int \<Rightarrow> unit vm" where
  "withdraw_merchant_funds E merchant amount =
     bnd get_token (\<lambda>token_addr. withdraw_merchant_funds_for_token E merchant token_addr amount)"

definition merchant_refund :: "env \<Rightarrow> address \<Rightarrow> address \<Rightarrow> address \<Rightarrow> int \<Rightarrow> unit vm" where
  "merchant_refund E merchant subscriber token_addr amount =
     thn (require_auth E merchant)
     (thn (require_merchant_approved merchant)
     (if amount \<le> 0 then fail E_InvalidAmount
      else
        bnd (get_merchant_config merchant) (\<lambda>config.
        thn (ok_or config E_NotFound)
        (bnd (get_merchant_balance_by_token merchant token_addr) (\<lambda>current.
        if current = 0 then fail E_NotFound
        else if amount > current then fail E_InsufficientBalance
        else
          bnd (ok_or (checked_sub_i128 current amount) E_Underflow) (\<lambda>new_balance.
          thn (set_merchant_balance merchant token_addr new_balance)
          (thn (sub_total_accounted token_addr amount)
          (thn (add_refund merchant token_addr amount)
          (thn (publish (MerchantEv (Ev_merchant_refund merchant subscriber token_addr amount (e_timestamp E))))
          (token_transfer E token_addr (e_self E) subscriber amount))))))))))"

section \<open>Scheduled payouts\<close>

definition get_payout_schedule :: "address \<Rightarrow> payout_schedule vm" where
  "get_payout_schedule merchant = gets (\<lambda>v. case m_payout_schedule (v_merchant v) merchant of
       Some p \<Rightarrow> p
     | None \<Rightarrow> \<lparr>py_cadence_seconds = 0, py_min_payout = 0, py_last_payout_at = 0\<rparr>)"

definition set_payout_schedule :: "address \<Rightarrow> payout_schedule \<Rightarrow> unit vm" where
  "set_payout_schedule merchant schedule =
     mod_merchant (\<lambda>m. m\<lparr>m_payout_schedule := (m_payout_schedule m)(merchant \<mapsto> schedule)\<rparr>)"

definition do_set_payout_schedule :: "env \<Rightarrow> address \<Rightarrow> nat \<Rightarrow> int \<Rightarrow> payout_schedule vm" where
  "do_set_payout_schedule E merchant cadence_seconds min_payout =
     thn (require_auth E merchant)
     (if min_payout < 0 then fail E_InvalidAmount
      else
        bnd (get_payout_schedule merchant) (\<lambda>previous.
        thn (set_payout_schedule merchant
               \<lparr>py_cadence_seconds = cadence_seconds, py_min_payout = min_payout,
                py_last_payout_at = (if py_last_payout_at previous = 0 then 0 else py_last_payout_at previous)\<rparr>)
        (thn (publish (MerchantEv (Ev_payout_schedule_set merchant cadence_seconds min_payout (e_timestamp E))))
        (ret previous))))"

definition flush_merchant_token :: "env \<Rightarrow> address \<Rightarrow> address \<Rightarrow> int \<Rightarrow> int vm" where
  "flush_merchant_token E merchant token min_payout =
     bnd (get_merchant_balance_by_token merchant token) (\<lambda>balance.
     if balance < min_payout \<or> balance \<le> 0 then ret 0
     else
       bnd (get_merchant_config merchant) (\<lambda>c.
       bnd (ok_or c E_NotFound) (\<lambda>config.
       thn (set_merchant_balance merchant token 0)
       (thn (add_withdrawal merchant token balance)
       (thn (sub_total_accounted token balance)
       (thn (publish (MerchantEv (Ev_withdrawn merchant token balance 0 (e_timestamp E))))
       (thn (token_transfer E token (e_self E) (mc_payout_address config) balance)
       (ret balance))))))))"

primrec flush_tokens :: "env \<Rightarrow> address \<Rightarrow> int \<Rightarrow> address list \<Rightarrow> nat \<Rightarrow> nat vm" where
  "flush_tokens E merchant min_payout [] tokens_paid = ret tokens_paid"
| "flush_tokens E merchant min_payout (token # rest) tokens_paid =
     bnd (flush_merchant_token E merchant token min_payout) (\<lambda>amount.
     flush_tokens E merchant min_payout rest
       (if amount > 0 then sat_add_u32 tokens_paid 1 else tokens_paid))"

definition do_flush_payouts :: "env \<Rightarrow> address \<Rightarrow> address \<Rightarrow> nat vm" where
  "do_flush_payouts E merchant caller =
     thn (require_merchant_approved merchant)
     (bnd (get_payout_schedule merchant) (\<lambda>schedule.
     if py_cadence_seconds schedule = 0 \<and> py_min_payout schedule = 0 then ret 0
     else
       let now = e_timestamp E in
       if py_last_payout_at schedule > 0 \<and> now - py_last_payout_at schedule < py_cadence_seconds schedule
       then fail E_IntervalNotElapsed
       else
         bnd (gets (\<lambda>v. m_tokens (v_merchant v) merchant)) (\<lambda>tokens.
         bnd (flush_tokens E merchant (py_min_payout schedule) tokens 0) (\<lambda>tokens_paid.
         thn (set_payout_schedule merchant (schedule\<lparr>py_last_payout_at := now\<rparr>))
         (thn (publish (MerchantEv (Ev_scheduled_payout merchant caller tokens_paid now)))
         (ret tokens_paid))))))"

section \<open>Sub-accounts\<close>

definition sub_account_balance :: "vault \<Rightarrow> address \<Rightarrow> symbol \<Rightarrow> int" where
  "sub_account_balance v merchant label =
     (case m_sub_account (v_merchant v) merchant label of Some b \<Rightarrow> b | None \<Rightarrow> 0)"

definition require_sub_account_exists :: "address \<Rightarrow> symbol \<Rightarrow> unit vm" where
  "require_sub_account_exists merchant label =
     bnd (gets (\<lambda>v. m_sub_account (v_merchant v) merchant label)) (\<lambda>x.
     if x = None then fail E_NotFound else ret ())"

definition set_sub_account :: "address \<Rightarrow> symbol \<Rightarrow> int \<Rightarrow> unit vm" where
  "set_sub_account merchant label b =
     mod_merchant (\<lambda>m. m\<lparr>m_sub_account := (m_sub_account m)(merchant := (m_sub_account m merchant)(label \<mapsto> b))\<rparr>)"

definition register_sub_account :: "env \<Rightarrow> address \<Rightarrow> symbol \<Rightarrow> unit vm" where
  "register_sub_account E merchant label =
     thn (require_auth E merchant)
     (bnd (get_merchant_config merchant) (\<lambda>config.
     thn (ok_or config E_NotFound)
     (bnd (gets (\<lambda>v. m_sub_account_list (v_merchant v) merchant)) (\<lambda>labels.
     if label \<in> set labels then fail E_InvalidInput
     else
       thn (set_sub_account merchant label 0)
       (thn (mod_merchant (\<lambda>m. m\<lparr>m_sub_account_list :=
               (m_sub_account_list m)(merchant := labels @ [label])\<rparr>))
       (publish (MerchantEv (Ev_sub_account_created merchant label (e_timestamp E)))))))))"

definition credit_sub_account :: "address \<Rightarrow> symbol \<Rightarrow> address \<Rightarrow> int \<Rightarrow> unit vm" where
  "credit_sub_account merchant label token amount =
     (if amount \<le> 0 then fail E_InvalidAmount
      else
        thn (require_sub_account_exists merchant label)
        (bnd (gets (\<lambda>v. sub_account_balance v merchant label)) (\<lambda>current.
        bnd (ok_or (checked_add_i128 current amount) E_Overflow) (\<lambda>new_balance.
        set_sub_account merchant label new_balance))))"

definition withdraw_sub_account_funds ::
  "env \<Rightarrow> address \<Rightarrow> symbol \<Rightarrow> address \<Rightarrow> int \<Rightarrow> unit vm" where
  "withdraw_sub_account_funds E merchant label token_addr amount =
     thn (require_auth E merchant)
     (thn (require_merchant_approved merchant)
     (if amount \<le> 0 then fail E_InvalidAmount
      else
        thn (require_sub_account_exists merchant label)
        (bnd (gets (\<lambda>v. sub_account_balance v merchant label)) (\<lambda>current.
        if current = 0 then fail E_NotFound
        else if amount > current then fail E_InsufficientBalance
        else
          bnd (token_balance token_addr (e_self E)) (\<lambda>held.
          if held < amount then fail E_InsufficientBalance
          else
            bnd (ok_or (checked_sub_i128 current amount) E_Underflow) (\<lambda>new_balance.
            thn (set_sub_account merchant label new_balance)
            (thn (add_withdrawal merchant token_addr amount)
            (thn (sub_total_accounted token_addr amount)
            (thn (publish (MerchantEv (Ev_sub_account_withdrawn merchant label token_addr amount new_balance (e_timestamp E))))
            (token_transfer E token_addr (e_self E) merchant amount))))))))))"

section \<open>Reconciliation\<close>

record token_reconciliation_snapshot =
  tr_token :: address
  tr_total_accruals :: int
  tr_total_withdrawals :: int
  tr_total_refunds :: int
  tr_computed_balance :: int
  tr_stored_balance :: int
  tr_matches :: bool

definition unwrap_or_0 :: "int option \<Rightarrow> int" where
  "unwrap_or_0 x = (case x of Some n \<Rightarrow> n | None \<Rightarrow> 0)"

definition reconcile_token :: "vault \<Rightarrow> address \<Rightarrow> address \<Rightarrow> token_reconciliation_snapshot" where
  "reconcile_token v merchant token =
     (let earnings = token_earnings_of v merchant token; acc = te_accruals earnings;
          total_accruals = unwrap_or_0 (checked_add_i128
            (unwrap_or_0 (checked_add_i128 (at_interval acc) (at_usage acc))) (at_one_off acc));
          computed_balance = unwrap_or_0 (checked_sub_i128
            (unwrap_or_0 (checked_sub_i128 total_accruals (te_withdrawals earnings))) (te_refunds earnings));
          stored_balance = merchant_balance v merchant token
      in \<lparr>tr_token = token, tr_total_accruals = total_accruals,
          tr_total_withdrawals = te_withdrawals earnings, tr_total_refunds = te_refunds earnings,
          tr_computed_balance = computed_balance, tr_stored_balance = stored_balance,
          tr_matches = (computed_balance = stored_balance)\<rparr>)"

definition get_reconciliation_snapshot :: "vault \<Rightarrow> address \<Rightarrow> token_reconciliation_snapshot list" where
  "get_reconciliation_snapshot v merchant =
     map (reconcile_token v merchant) (m_tokens (v_merchant v) merchant)"

section \<open>Inversion\<close>

lemma set_balance_ok [act_ok]:
  "set_merchant_balance m tk b s = (Ok u, t) \<longleftrightarrow>
     t = s\<lparr>v_merchant := (v_merchant s)\<lparr>m_balance := (m_balance (v_merchant s))(m :=
           (m_balance (v_merchant s) m)(tk \<mapsto> b))\<rparr>\<rparr>"
  by (simp add: set_merchant_balance_def act_ok)

lemma set_earnings_ok [act_ok]:
  "set_merchant_token_earnings m tk e s = (Ok u, t) \<longleftrightarrow>
     t = s\<lparr>v_merchant := (v_merchant s)\<lparr>m_earnings := (m_earnings (v_merchant s))(m :=
           (m_earnings (v_merchant s) m)(tk \<mapsto> e))\<rparr>\<rparr>"
  by (simp add: set_merchant_token_earnings_def act_ok)

lemma accounted_ok [act_ok]:
  "add_total_accounted tk a s = (Ok u, t) \<longleftrightarrow> t = s"
  "sub_total_accounted tk a s = (Ok u, t) \<longleftrightarrow> t = s"
  by (simp_all add: add_total_accounted_def sub_total_accounted_def act_ok)

lemma add_token_ok [act_ok]:
  "add_merchant_token m tk s = (Ok u, t) \<longleftrightarrow>
     t = s\<lparr>v_merchant := (if tk \<in> set (m_tokens (v_merchant s) m) then v_merchant s
       else (v_merchant s)\<lparr>m_tokens := (m_tokens (v_merchant s))(m := m_tokens (v_merchant s) m @ [tk])\<rparr>)\<rparr>"
  by (simp add: add_merchant_token_def act_ok)

lemma add_withdrawal_ok [act_ok]:
  "add_withdrawal m tk a s = (Ok u, t) \<longleftrightarrow>
     fits_i128 (te_withdrawals (token_earnings_of s m tk) + a) \<and>
     set_merchant_token_earnings m tk ((token_earnings_of s m tk)\<lparr>te_withdrawals :=
       te_withdrawals (token_earnings_of s m tk) + a\<rparr>) s = (Ok u, t)"
  by (auto simp: add_withdrawal_def act_ok checked_add_i128_def split: if_splits)

lemma add_refund_ok [act_ok]:
  "add_refund m tk a s = (Ok u, t) \<longleftrightarrow>
     fits_i128 (te_refunds (token_earnings_of s m tk) + a) \<and>
     set_merchant_token_earnings m tk ((token_earnings_of s m tk)\<lparr>te_refunds :=
       te_refunds (token_earnings_of s m tk) + a\<rparr>) s = (Ok u, t)"
  by (auto simp: add_refund_def act_ok checked_add_i128_def split: if_splits)

lemma require_signers_ok [act_ok]:
  "require_signers E c s = (Ok u, t) \<longleftrightarrow> t = s \<and>
     (case c of None \<Rightarrow> True
      | Some c \<Rightarrow> \<forall>a \<in> set (take (min (mm_threshold c) (length (mm_signers c))) (mm_signers c)). e_auth E a)"
proof -
  have "each (require_auth E) xs s = (Ok u, t) \<longleftrightarrow> (\<forall>a \<in> set xs. e_auth E a) \<and> t = s" for xs
    by (induction xs) (auto simp: act_ok)
  then show ?thesis by (auto simp: require_signers_def act_ok split: option.splits)
qed

text \<open>What a merchant's money is after one store update.\<close>

lemma merchant_money_simps [simp]:
  "merchant_balance (s\<lparr>v_events := ev\<rparr>) = merchant_balance s"
  "merchant_balance (s\<lparr>v_ledger := l\<rparr>) = merchant_balance s"
  "merchant_balance (s\<lparr>v_admin := a\<rparr>) = merchant_balance s"
  "merchant_balance (s\<lparr>v_subs := su\<rparr>) = merchant_balance s"
  "token_earnings_of (s\<lparr>v_events := ev\<rparr>) = token_earnings_of s"
  "token_earnings_of (s\<lparr>v_ledger := l\<rparr>) = token_earnings_of s"
  "token_earnings_of (s\<lparr>v_admin := a\<rparr>) = token_earnings_of s"
  "token_earnings_of (s\<lparr>v_subs := su\<rparr>) = token_earnings_of s"
  by (simp_all add: fun_eq_iff merchant_balance_def token_earnings_of_def)

lemma merchant_money_updates [simp]:
  "merchant_balance (s\<lparr>v_merchant := x\<lparr>m_earnings := me\<rparr>\<rparr>) = merchant_balance (s\<lparr>v_merchant := x\<rparr>)"
  "merchant_balance (s\<lparr>v_merchant := x\<lparr>m_tokens := tks\<rparr>\<rparr>) = merchant_balance (s\<lparr>v_merchant := x\<rparr>)"
  "merchant_balance (s\<lparr>v_merchant := x\<lparr>m_sub_account := sa\<rparr>\<rparr>) = merchant_balance (s\<lparr>v_merchant := x\<rparr>)"
  "merchant_balance (s\<lparr>v_merchant := x\<lparr>m_payout_schedule := py\<rparr>\<rparr>) = merchant_balance (s\<lparr>v_merchant := x\<rparr>)"
  "merchant_balance (s\<lparr>v_merchant := x\<lparr>m_balance :=
       (m_balance (v_merchant s))(m := (m_balance (v_merchant s) m)(tk \<mapsto> b))\<rparr>\<rparr>) m' tk' =
     (if m' = m \<and> tk' = tk then b else merchant_balance s m' tk')"
  "token_earnings_of (s\<lparr>v_merchant := x\<lparr>m_balance := bb\<rparr>\<rparr>) = token_earnings_of (s\<lparr>v_merchant := x\<rparr>)"
  "token_earnings_of (s\<lparr>v_merchant := x\<lparr>m_tokens := tks\<rparr>\<rparr>) = token_earnings_of (s\<lparr>v_merchant := x\<rparr>)"
  "token_earnings_of (s\<lparr>v_merchant := x\<lparr>m_sub_account := sa\<rparr>\<rparr>) = token_earnings_of (s\<lparr>v_merchant := x\<rparr>)"
  "token_earnings_of (s\<lparr>v_merchant := x\<lparr>m_payout_schedule := py\<rparr>\<rparr>) = token_earnings_of (s\<lparr>v_merchant := x\<rparr>)"
  "token_earnings_of (s\<lparr>v_merchant := x\<lparr>m_earnings :=
       (m_earnings (v_merchant s))(m := (m_earnings (v_merchant s) m)(tk \<mapsto> e))\<rparr>\<rparr>) m' tk' =
     (if m' = m \<and> tk' = tk then e else token_earnings_of s m' tk')"
  by (simp_all add: fun_eq_iff merchant_balance_def token_earnings_of_def)

lemma merchant_store_same [simp]: "s\<lparr>v_merchant := v_merchant s\<rparr> = s"
  by simp

section \<open>Crediting\<close>

text \<open>What was earned minus what was paid out and refunded.\<close>

definition total_accrued :: "token_earnings \<Rightarrow> int" where
  "total_accrued e = at_interval (te_accruals e) + at_usage (te_accruals e) + at_one_off (te_accruals e)"

lemma total_accrued_update [simp]:
  "total_accrued (e\<lparr>te_withdrawals := x\<rparr>) = total_accrued e"
  "total_accrued (e\<lparr>te_refunds := x\<rparr>) = total_accrued e"
  by (simp_all add: total_accrued_def)

definition books_balance :: "vault \<Rightarrow> address \<Rightarrow> address \<Rightarrow> bool" where
  "books_balance v m tk \<longleftrightarrow>
     merchant_balance v m tk = total_accrued (token_earnings_of v m tk)
       - te_withdrawals (token_earnings_of v m tk) - te_refunds (token_earnings_of v m tk)"

lemma accrued_sel [simp]:
  "te_withdrawals (accrued k a e) = te_withdrawals e" "te_refunds (accrued k a e) = te_refunds e"
  "total_accrued (accrued k a e) = total_accrued e + a"
  by (cases k; simp add: accrued_def total_accrued_def)+

lemma credit_run:
  assumes "credit_merchant_balance_for_token m tk a kind s = (Ok u, t)"
  obtains ms where "0 \<le> a" "fits_i128 (merchant_balance s m tk + a)"
    "t = s\<lparr>v_merchant := ms\<rparr>"
    "ms = (v_merchant s)\<lparr>
        m_balance := (m_balance (v_merchant s))(m := (m_balance (v_merchant s) m)(tk \<mapsto> merchant_balance s m tk + a)),
        m_earnings := (m_earnings (v_merchant s))(m := (m_earnings (v_merchant s) m)(tk \<mapsto>
            accrued kind a (token_earnings_of s m tk))),
        m_tokens := (if tk \<in> set (m_tokens (v_merchant s) m) then m_tokens (v_merchant s)
            else (m_tokens (v_merchant s))(m := m_tokens (v_merchant s) m @ [tk]))\<rparr>"
proof -
  let ?b = "merchant_balance s m tk"
  let ?s1 = "s\<lparr>v_merchant := (v_merchant s)\<lparr>m_balance := (m_balance (v_merchant s))(m :=
           (m_balance (v_merchant s) m)(tk \<mapsto> ?b + a))\<rparr>\<rparr>"
  from assms have a: "0 \<le> a" by (auto simp: credit_merchant_balance_for_token_def act_ok split: if_splits)
  from assms a have fits: "fits_i128 (?b + a)"
    and t: "add_merchant_token m tk (?s1\<lparr>v_merchant := (v_merchant ?s1)\<lparr>m_earnings :=
       (m_earnings (v_merchant s))(m := (m_earnings (v_merchant s) m)(tk \<mapsto>
          accrued kind a (token_earnings_of s m tk)))\<rparr>\<rparr>) = (Ok (), t)"
    by (auto simp: credit_merchant_balance_for_token_def act_ok simp del: add_token_ok)
  show thesis
    by (rule that [OF a fits _ refl]) (use t in \<open>simp add: add_token_ok\<close>)
qed

lemma credit_ok:
  assumes "credit_merchant_balance_for_token m tk a kind s = (Ok u, t)"
  shows "0 \<le> a \<and> fits_i128 (merchant_balance s m tk + a) \<and>
    merchant_balance t m' tk' = (if m' = m \<and> tk' = tk then merchant_balance s m tk + a else merchant_balance s m' tk') \<and>
    token_earnings_of t m' tk' =
      (if m' = m \<and> tk' = tk then accrued kind a (token_earnings_of s m tk) else token_earnings_of s m' tk')"
  by (rule credit_run [OF assms])
    (simp add: merchant_balance_def token_earnings_of_def)

lemma credit_books:
  assumes "credit_merchant_balance_for_token m tk a kind s = (Ok u, t)"
  shows "books_balance t m' tk' \<longleftrightarrow> books_balance s m' tk'"
  using credit_ok [OF assms, of m' tk'] by (auto simp: books_balance_def)

lemma credit_self:
  "credit_merchant_balance_for_token m tk a kind s = (Ok u, t) \<Longrightarrow>
   0 \<le> a \<and> merchant_balance t m tk = merchant_balance s m tk + a"
  by (drule credit_ok [of _ _ _ _ _ _ _ m tk]) simp

lemma credit_other:
  "credit_merchant_balance_for_token m tk a kind s = (Ok u, t) \<Longrightarrow> k \<noteq> (m, tk) \<Longrightarrow>
   merchant_balance t (fst k) (snd k) = merchant_balance s (fst k) (snd k)"
  by (drule credit_ok [of _ _ _ _ _ _ _ "fst k" "snd k"]) auto

interpretation credits: balance_book "\<lambda>v k. merchant_balance v (fst k) (snd k)"
  "\<lambda>(k, a). credit_merchant_balance_for_token (fst k) (snd k) a kind" for kind
  by unfold_locales (simp_all add: credit_self credit_other)

section \<open>What the paying operations do\<close>

lemma withdraw_ok:
  assumes "withdraw_merchant_funds_for_token E m tk a s = (Ok u, t)"
  shows "e_auth E m \<and> \<not> is_blocklisted s m \<and> approval_view s m \<and> 0 < a \<and> a \<le> merchant_balance s m tk \<and>
    (\<exists>l. e_transfer E tk (e_self E) m a (v_ledger s) = Some l \<and> v_ledger t = l) \<and>
    merchant_balance t m' tk' = (if m' = m \<and> tk' = tk then merchant_balance s m tk - a else merchant_balance s m' tk') \<and>
    token_earnings_of t m' tk' = (if m' = m \<and> tk' = tk then (token_earnings_of s m tk)\<lparr>
       te_withdrawals := te_withdrawals (token_earnings_of s m tk) + a,
       te_refunds := te_refunds (token_earnings_of s m tk) + a\<rparr> else token_earnings_of s m' tk') \<and>
    fits_i128 (te_withdrawals (token_earnings_of s m tk) + a) \<and> fits_i128 (te_refunds (token_earnings_of s m tk) + a) \<and>
    m_tokens (v_merchant t) = m_tokens (v_merchant s)"
  using assms
  by (auto simp: withdraw_merchant_funds_for_token_def act_ok split: if_split_asm)

lemma refund_ok:
  assumes "merchant_refund E m sub tk a s = (Ok u, t)"
  shows "e_auth E m \<and> 0 < a \<and> a \<le> merchant_balance s m tk \<and>
    (\<exists>l. e_transfer E tk (e_self E) sub a (v_ledger s) = Some l \<and> v_ledger t = l) \<and>
    merchant_balance t m' tk' = (if m' = m \<and> tk' = tk then merchant_balance s m tk - a else merchant_balance s m' tk') \<and>
    token_earnings_of t m' tk' = (if m' = m \<and> tk' = tk then (token_earnings_of s m tk)\<lparr>
       te_refunds := te_refunds (token_earnings_of s m tk) + a\<rparr> else token_earnings_of s m' tk')"
  using assms
  by (auto simp: merchant_refund_def act_ok checked_sub_i128_def split: if_split_asm)

lemma flush_token_ok:
  assumes "flush_merchant_token E m tk minp s = (Ok a, t)"
  shows "(a = 0 \<and> t = s \<and> (merchant_balance s m tk < minp \<or> merchant_balance s m tk \<le> 0)) \<or>
    (0 < a \<and> a = merchant_balance s m tk \<and> minp \<le> a \<and>
     (\<exists>c l. m_config (v_merchant s) m = Some c \<and>
        e_transfer E tk (e_self E) (mc_payout_address c) a (v_ledger s) = Some l \<and> v_ledger t = l) \<and>
     merchant_balance t m' tk' = (if m' = m \<and> tk' = tk then 0 else merchant_balance s m' tk') \<and>
     token_earnings_of t m' tk' = (if m' = m \<and> tk' = tk then (token_earnings_of s m tk)\<lparr>
       te_withdrawals := te_withdrawals (token_earnings_of s m tk) + a\<rparr> else token_earnings_of s m' tk') \<and>
     m_config (v_merchant t) = m_config (v_merchant s))"
  using assms
  by (auto simp: flush_merchant_token_def act_ok split: if_split_asm)

lemma refund_books:
  "merchant_refund E m sub tk a s = (Ok u, t) \<Longrightarrow> books_balance t m' tk' \<longleftrightarrow> books_balance s m' tk'"
  by (drule refund_ok [of _ _ _ _ _ _ _ _ m' tk']) (auto simp: books_balance_def split: if_split_asm)

lemma flush_token_books:
  assumes "flush_merchant_token E m tk minp s = (Ok a, t)"
  shows "books_balance t m' tk' \<longleftrightarrow> books_balance s m' tk'"
proof (cases "m' = m \<and> tk' = tk")
  case True
  with flush_token_ok [OF assms, of m' tk'] show ?thesis
    by (auto simp: books_balance_def)
next
  case False
  with flush_token_ok [OF assms, of m' tk'] show ?thesis
    by (auto simp: books_balance_def split: if_split_asm)
qed

lemma flush_tokens_books:
  "flush_tokens E m minp tks n s = (Ok k, t) \<Longrightarrow> books_balance t m' tk' \<longleftrightarrow> books_balance s m' tk'"
proof (induction tks arbitrary: n s)
  case Nil
  then show ?case by (simp add: act_ok)
next
  case (Cons tk tks)
  then obtain a v where one: "flush_merchant_token E m tk minp s = (Ok a, v)"
    and "flush_tokens E m minp tks (if a > 0 then sat_add_u32 n 1 else n) v = (Ok k, t)"
    by (auto simp: act_ok)
  with Cons.IH flush_token_books [OF one] show ?case by blast
qed

lemma books_balance_frame [simp]:
  "books_balance (s\<lparr>v_events := ev\<rparr>) = books_balance s"
  "books_balance (s\<lparr>v_merchant := (v_merchant s)\<lparr>m_payout_schedule := py\<rparr>\<rparr>) = books_balance s"
  by (simp_all add: fun_eq_iff books_balance_def)

lemma payout_schedule_ok [act_ok]:
  "set_payout_schedule m p s = (Ok u, t) \<longleftrightarrow>
     t = s\<lparr>v_merchant := (v_merchant s)\<lparr>m_payout_schedule := (m_payout_schedule (v_merchant s))(m \<mapsto> p)\<rparr>\<rparr>"
  by (simp add: set_payout_schedule_def act_ok)

lemma flush_payouts_books:
  assumes "do_flush_payouts E m c s = (Ok k, t)"
  shows "books_balance t m' tk' \<longleftrightarrow> books_balance s m' tk'"
  using assms
  by (auto simp: do_flush_payouts_def get_payout_schedule_def Let_def act_ok flush_tokens_books split: if_split_asm)

text \<open>The requests that move a merchant's money, withdrawals apart.\<close>

datatype money_request =
    CreditRequest address address int billing_charge_kind
  | RefundRequest address address address int
  | FlushRequest address address

primrec money_step :: "env \<Rightarrow> money_request \<Rightarrow> unit vm" where
  "money_step E (CreditRequest m tk a kind) = tx (credit_merchant_balance_for_token m tk a kind)"
| "money_step E (RefundRequest m sub tk a) = tx (merchant_refund E m sub tk a)"
| "money_step E (FlushRequest m caller) = tx (thn (do_flush_payouts E m caller) (ret ()))"

lemma money_step_books:
  assumes "money_step E r s = (res, t)"
  shows "books_balance t m tk \<longleftrightarrow> books_balance s m tk"
proof (cases res)
  case (Ok u)
  with assms show ?thesis
    by (cases r) (auto simp: act_ok credit_books refund_books flush_payouts_books)
next
  case (Err e)
  with assms have "t = s" by (cases r) (auto simp: tx_def split: prod.splits outcome.splits)
  then show ?thesis by simp
next
  case Panic
  with assms have "t = s" by (cases r) (auto simp: tx_def split: prod.splits outcome.splits)
  then show ?thesis by simp
qed

text \<open>
  C10. The merchant books stay balanced: through any sequence of charge credits, refunds and scheduled
  payouts, accepted or refused, the stored balance of every merchant in every token equals what was
  earned minus what was withdrawn minus what was refunded.
\<close>

theorem books_stay_balanced:
  assumes "\<forall>m tk. books_balance s m tk"
  shows "books_balance (snd (serve (money_step E) rs s)) m tk"
  using assms
proof (induction rs arbitrary: s)
  case Nil
  then show ?case by simp
next
  case (Cons r rs)
  obtain res s1 where run: "money_step E r s = (res, s1)" by fastforce
  with Cons.prems have "\<forall>m tk. books_balance s1 m tk" by (simp add: money_step_books [OF run])
  with Cons.IH run show ?case by (auto split: prod.splits) (metis snd_conv)
qed

theorem books_stay_balanced_witness:
  "books_balance (snd (serve (money_step test_env)
     [CreditRequest (Addr 5) (Addr 9) 700 Interval, CreditRequest (Addr 5) (Addr 9) 50 Usage,
      RefundRequest (Addr 5) (Addr 6) (Addr 9) 100] empty_vault)) (Addr 5) (Addr 9)"
  by (rule books_stay_balanced)
    (simp add: books_balance_def merchant_balance_def token_earnings_of_def no_earnings_def
      total_accrued_def empty_vault_def)

text \<open>
  A withdrawal breaks the reconciliation: it books the amount both as a withdrawal and as a
  refund, so on books that were balanced the reconciliation view of the token computes a balance that
  is too low by the amount withdrawn and no longer matches.
\<close>

theorem withdrawal_breaks_reconciliation:
  assumes "withdraw_merchant_funds_for_token E m tk a s = (Ok u, t)" and "books_balance s m tk"
    and "0 \<le> te_withdrawals (token_earnings_of s m tk)" and "0 \<le> te_refunds (token_earnings_of s m tk)"
    and "0 \<le> at_interval (te_accruals (token_earnings_of s m tk))"
    and "0 \<le> at_usage (te_accruals (token_earnings_of s m tk))"
    and "0 \<le> at_one_off (te_accruals (token_earnings_of s m tk))"
    and "fits_i128 (total_accrued (token_earnings_of s m tk))"
  shows "merchant_balance t m tk = merchant_balance s m tk - a \<and>
    tr_computed_balance (reconcile_token t m tk) = merchant_balance t m tk - a \<and>
    \<not> tr_matches (reconcile_token t m tk)"
proof -
  define e where "e = token_earnings_of s m tk"
  define b where "b = merchant_balance s m tk"
  from withdraw_ok [OF assms(1), of m tk] have a: "0 < a" "a \<le> b"
    and bt: "merchant_balance t m tk = b - a"
    and et: "token_earnings_of t m tk = e\<lparr>te_withdrawals := te_withdrawals e + a, te_refunds := te_refunds e + a\<rparr>"
    by (simp_all add: e_def b_def)
  have bal: "b = total_accrued e - te_withdrawals e - te_refunds e"
    using assms(2) by (simp add: books_balance_def e_def b_def)
  have pos: "0 \<le> te_withdrawals e" "0 \<le> te_refunds e" "0 \<le> at_interval (te_accruals e)"
    "0 \<le> at_usage (te_accruals e)" "0 \<le> at_one_off (te_accruals e)"
    and tot: "fits_i128 (total_accrued e)"
    using assms(3-8) by (simp_all add: e_def)
  have f1: "fits_i128 (at_interval (te_accruals e) + at_usage (te_accruals e))"
    using tot pos by (auto simp: fits_i128_def i128_min_def total_accrued_def)
  have f2: "fits_i128 (total_accrued e - (te_withdrawals e + a))"
    using tot pos a bal by (auto simp: fits_i128_def i128_min_def)
  have f3: "fits_i128 (total_accrued e - (te_withdrawals e + a) - (te_refunds e + a))"
  proof -
    have "- a \<le> total_accrued e - (te_withdrawals e + a) - (te_refunds e + a)"
      using bal a by linarith
    moreover have "a \<le> total_accrued e" using bal a pos by linarith
    ultimately show ?thesis
      using tot pos a by (auto simp: fits_i128_def i128_min_def i128_max_def)
  qed
  have "tr_computed_balance (reconcile_token t m tk) = b - a - a"
    using f1 f2 f3 tot bal
    by (simp add: reconcile_token_def Let_def et unwrap_or_0_def checked_add_i128_def
        checked_sub_i128_def total_accrued_def)
  with bt a show ?thesis by (simp add: reconcile_token_def Let_def flip: b_def)
qed

text \<open>A merchant with 700 units earned in one token, and a vault that holds the tokens.\<close>

definition shop_config :: merchant_config where
  "shop_config = \<lparr>mc_version = 1, mc_payout_address = Addr 7, mc_fee_bips = 0, mc_allowed_operations = 1,
     mc_is_active = True, mc_fee_address = None, mc_redirect_url = [], mc_is_paused = False,
     mc_last_updated = 0\<rparr>"

definition shop_vault :: vault where
  "shop_vault = empty_vault\<lparr>
     v_admin := (v_admin empty_vault)\<lparr>ad_accepted_decimals := [Addr 9 \<mapsto> 7]\<rparr>,
     v_merchant := (v_merchant empty_vault)\<lparr>
       m_config := [Addr 5 \<mapsto> shop_config],
       m_balance := (\<lambda>m. if m = Addr 5 then [Addr 9 \<mapsto> 700] else Map.empty),
       m_earnings := (\<lambda>m. if m = Addr 5 then [Addr 9 \<mapsto> \<lparr>te_accruals = \<lparr>at_interval = 700, at_usage = 0,
          at_one_off = 0\<rparr>, te_withdrawals = 0, te_refunds = 0\<rparr>] else Map.empty),
       m_tokens := (\<lambda>m. if m = Addr 5 then [Addr 9] else []),
       m_sub_account := (\<lambda>m. if m = Addr 5 then [''eu'' \<mapsto> 0] else Map.empty)\<rparr>,
     v_ledger := (\<lambda>tk a. if a = Addr 0 then 1000 else 0)\<rparr>"

lemma shop_vault_simps [simp]:
  "merchant_balance shop_vault (Addr 5) (Addr 9) = 700"
  "token_earnings_of shop_vault (Addr 5) (Addr 9) = \<lparr>te_accruals = \<lparr>at_interval = 700, at_usage = 0,
      at_one_off = 0\<rparr>, te_withdrawals = 0, te_refunds = 0\<rparr>"
  "approval_view shop_vault m" "\<not> is_blocklisted shop_vault m"
  "m_multisig (v_merchant shop_vault) = Map.empty"
  "m_config (v_merchant shop_vault) = [Addr 5 \<mapsto> shop_config]"
  "ad_accepted_decimals (v_admin shop_vault) = [Addr 9 \<mapsto> 7]"
  "v_ledger shop_vault tk (Addr 0) = 1000"
  "m_sub_account (v_merchant shop_vault) (Addr 5) = [''eu'' \<mapsto> 0]"
  by (simp_all add: shop_vault_def empty_vault_def merchant_balance_def token_earnings_of_def
      approval_view_def is_blocklisted_def)

lemma shop_withdraw:
  "\<exists>t. withdraw_merchant_funds_for_token test_env (Addr 5) (Addr 9) 300 shop_vault = (Ok (), t)"
  by (simp add: withdraw_merchant_funds_for_token_def act_ok sep41_transfer_def
      fits_i128_def i128_min_def i128_max_def)

theorem withdrawal_breaks_reconciliation_witness:
  "\<exists>t. withdraw_merchant_funds_for_token test_env (Addr 5) (Addr 9) 300 shop_vault = (Ok (), t) \<and>
     merchant_balance t (Addr 5) (Addr 9) = 400 \<and>
     tr_computed_balance (reconcile_token t (Addr 5) (Addr 9)) = 100"
proof -
  from shop_withdraw obtain t where
    run: "withdraw_merchant_funds_for_token test_env (Addr 5) (Addr 9) 300 shop_vault = (Ok (), t)" by blast
  have "books_balance shop_vault (Addr 5) (Addr 9)"
    by (simp add: books_balance_def total_accrued_def)
  from withdrawal_breaks_reconciliation [OF run this] run show ?thesis
    by (auto simp: total_accrued_def fits_i128_def i128_min_def i128_max_def)
qed

section \<open>Settlement of payouts\<close>

text \<open>
  C13. A withdrawal settles exactly: it needs the authorisation of the merchant and of the first
  \<open>threshold\<close> configured signers, the amount is positive and covered by the stored balance, the token
  contract moves exactly that amount from the vault to the merchant, and the stored balance of that
  merchant and token, and of no other, drops by it.
\<close>

theorem withdrawal_settles:
  assumes "sep41 E" and "m \<noteq> e_self E"
    and "withdraw_merchant_funds_for_token E m tk a s = (Ok u, t)"
  shows "e_auth E m \<and>
    (\<forall>c. m_multisig (v_merchant s) m = Some c \<longrightarrow>
       (\<forall>x \<in> set (take (mm_threshold c) (mm_signers c)). e_auth E x)) \<and>
    0 < a \<and> a \<le> merchant_balance s m tk \<and>
    v_ledger t tk (e_self E) = v_ledger s tk (e_self E) - a \<and>
    v_ledger t tk m = v_ledger s tk m + a \<and>
    (\<forall>m' tk'. merchant_balance t m' tk' = merchant_balance s m' tk' - (if m' = m \<and> tk' = tk then a else 0))"
proof -
  from assms(3) have "\<exists>u. require_signers E (m_multisig (v_merchant s) m) s = (Ok u, s)"
    by (auto simp: withdraw_merchant_funds_for_token_def act_ok)
  then have signers: "c = m_multisig (v_merchant s) m \<Longrightarrow> case c of None \<Rightarrow> True
      | Some c \<Rightarrow> \<forall>a \<in> set (take (mm_threshold c) (mm_signers c)). e_auth E a" for c
    by (auto simp: require_signers_ok min_def split: option.splits if_split_asm)
  have w: "e_auth E m" "0 < a" "a \<le> merchant_balance s m tk"
    and tr: "e_transfer E tk (e_self E) m a (v_ledger s) = Some (v_ledger t)"
    using withdraw_ok [OF assms(3)] by auto
  from tr assms(1) have l: "v_ledger t = (v_ledger s)(tk := ((v_ledger s tk)(e_self E := v_ledger s tk (e_self E) - a))
              (m := ((v_ledger s tk)(e_self E := v_ledger s tk (e_self E) - a)) m + a))"
    by (auto simp: sep41_def)
  have "\<forall>m' tk'. merchant_balance t m' tk' = merchant_balance s m' tk' - (if m' = m \<and> tk' = tk then a else 0)"
    using withdraw_ok [OF assms(3)] by simp
  then show ?thesis
    using w signers [OF refl] assms(2) by (auto simp: l)
qed

lemma sep41_test_env: "sep41 test_env"
  by (auto simp: sep41_def sep41_transfer_def split: if_splits)

theorem withdrawal_settles_witness:
  "\<exists>t. withdraw_merchant_funds_for_token test_env (Addr 5) (Addr 9) 300 shop_vault = (Ok (), t) \<and>
     v_ledger t (Addr 9) (Addr 0) = 700"
proof -
  from shop_withdraw obtain t where
    run: "withdraw_merchant_funds_for_token test_env (Addr 5) (Addr 9) 300 shop_vault = (Ok (), t)" by blast
  from withdrawal_settles [OF sep41_test_env _ run] run show ?thesis by simp
qed

text \<open>
  Sub-account balances are not tied to a token: what a charge in one token credited to a
  sub-account can be withdrawn in any other token the vault holds enough of.
\<close>

theorem sub_account_pays_any_token:
  assumes "credit_sub_account m label tkA a s = (Ok u, s1)"
    and "e_auth E m" and "approval_view s m" and "0 \<le> sub_account_balance s m label"
    and "a \<le> v_ledger s tkB (e_self E)"
    and "fits_i128 (te_withdrawals (token_earnings_of s m tkB) + a)"
    and "e_transfer E tkB (e_self E) m a (v_ledger s) = Some l"
  shows "\<exists>t. withdraw_sub_account_funds E m label tkB a s1 = (Ok (), t) \<and> v_ledger t = l \<and>
    sub_account_balance t m label = sub_account_balance s m label"
proof -
  define b where "b = sub_account_balance s m label"
  from assms(1) have a: "0 < a" and fits: "fits_i128 (b + a)"
    and s1: "s1 = s\<lparr>v_merchant := (v_merchant s)\<lparr>m_sub_account := (m_sub_account (v_merchant s))(m :=
        (m_sub_account (v_merchant s) m)(label \<mapsto> b + a))\<rparr>\<rparr>"
    by (auto simp: credit_sub_account_def require_sub_account_exists_def set_sub_account_def act_ok
        checked_add_i128_def b_def split: if_split_asm)
  have "fits_i128 b"
    using fits a assms(4) by (auto simp: fits_i128_def i128_min_def b_def)
  moreover have "approval_view s1 m" using assms(3) by (simp add: approval_view_def s1)
  ultimately show ?thesis
    using assms(2,4-7) a
    by (simp add: withdraw_sub_account_funds_def require_sub_account_exists_def set_sub_account_def
        act_ok s1 sub_account_balance_def checked_sub_i128_def flip: b_def)
      (simp add: b_def sub_account_balance_def)
qed

theorem sub_account_pays_any_token_witness:
  "\<exists>s1 t. credit_sub_account (Addr 5) ''eu'' (Addr 9) 40 shop_vault = (Ok (), s1) \<and>
     withdraw_sub_account_funds test_env (Addr 5) ''eu'' (Addr 8) 40 s1 = (Ok (), t)"
proof -
  have "\<exists>s1. credit_sub_account (Addr 5) ''eu'' (Addr 9) 40 shop_vault = (Ok (), s1)"
    by (simp add: credit_sub_account_def require_sub_account_exists_def set_sub_account_def act_ok
        sub_account_balance_def checked_add_i128_def fits_i128_def i128_min_def i128_max_def)
  then obtain s1 where run: "credit_sub_account (Addr 5) ''eu'' (Addr 9) 40 shop_vault = (Ok (), s1)" by blast
  have "token_earnings_of shop_vault (Addr 5) (Addr 8) = no_earnings"
    by (simp add: token_earnings_of_def shop_vault_def)
  with sub_account_pays_any_token [OF run, of test_env "Addr 8"] run show ?thesis
    by (auto simp: sub_account_balance_def no_earnings_def sep41_transfer_def fits_i128_def i128_min_def i128_max_def)
qed

end
