(* ===== verification/Coupons.thy ===== *)
theory Coupons
  imports Subscription_Reads Validation Vault_Interfaces
begin

text \<open>
  Merchant coupons (\<^verbatim>\<open>src/coupon.rs\<close>): creating, revoking and binding a coupon, and the discount applied
  to a charge.
\<close>

definition mod_coupon :: "(coupon_store \<Rightarrow> coupon_store) \<Rightarrow> unit vm" where
  "mod_coupon f = modify (\<lambda>v. v\<lparr>v_coupon := f (v_coupon v)\<rparr>)"

lemma mod_coupon_ok [act_ok]:
  "mod_coupon f s = (Ok u, t) \<longleftrightarrow> t = s\<lparr>v_coupon := f (v_coupon s)\<rparr>"
  by (simp add: mod_coupon_def act_ok)

lemma mod_coupon_run [act_run]: "mod_coupon f s = (Ok (), s\<lparr>v_coupon := f (v_coupon s)\<rparr>)"
  by (simp add: mod_coupon_def act_run)

section \<open>Storage\<close>

definition write_coupon :: "coupon \<Rightarrow> unit vm" where
  "write_coupon c = mod_coupon (\<lambda>k. k\<lparr>k_coupon := (k_coupon k)(cp_code c \<mapsto> c)\<rparr>)"

definition read_coupon :: "symbol \<Rightarrow> (coupon option) vm" where
  "read_coupon code = gets (\<lambda>v. k_coupon (v_coupon v) code)"

definition redemptions :: "coupon_store \<Rightarrow> symbol \<Rightarrow> nat" where
  "redemptions k code = (case k_redemptions k code of Some n \<Rightarrow> n | None \<Rightarrow> 0)"

definition read_redemptions :: "symbol \<Rightarrow> nat vm" where
  "read_redemptions code = gets (\<lambda>v. redemptions (v_coupon v) code)"

definition write_redemptions :: "symbol \<Rightarrow> nat \<Rightarrow> unit vm" where
  "write_redemptions code count = mod_coupon (\<lambda>k. k\<lparr>k_redemptions := (k_redemptions k)(code \<mapsto> count)\<rparr>)"

definition is_coupon_redeemed :: "nat \<Rightarrow> symbol \<Rightarrow> bool vm" where
  "is_coupon_redeemed i code = gets (\<lambda>v. k_redeemed (v_coupon v) i code)"

definition mark_coupon_redeemed :: "nat \<Rightarrow> symbol \<Rightarrow> unit vm" where
  "mark_coupon_redeemed i code =
     mod_coupon (\<lambda>k. k\<lparr>k_redeemed := (k_redeemed k)(i := (k_redeemed k i)(code := True))\<rparr>)"

section \<open>Managing coupons\<close>

definition create_coupon ::
  "env \<Rightarrow> address \<Rightarrow> symbol \<Rightarrow> address \<Rightarrow> nat \<Rightarrow> int \<Rightarrow> nat \<Rightarrow> nat \<Rightarrow> unit vm" where
  "create_coupon E merchant code token percent_off_bps fixed_off max_redemptions expires_at =
     thn (require_auth E merchant)
     (if percent_off_bps > 10000 then fail E_InvalidInput
      else if fixed_off \<le> 0 then fail E_InvalidAmount
      else
        let now = e_timestamp E in
        if expires_at > 0 \<and> expires_at \<le> now then fail E_InvalidInput
        else
          bnd (read_coupon code) (\<lambda>existing.
          if existing \<noteq> None then fail E_CouponAlreadyExists
          else
            thn (write_coupon \<lparr>cp_code = code, cp_merchant = merchant, cp_token = token,
                   cp_percent_off_bps = percent_off_bps, cp_fixed_off = fixed_off,
                   cp_max_redemptions = max_redemptions, cp_expires_at = expires_at, cp_revoked = False\<rparr>)
            (publish (CouponEv (Ev_coupon_created merchant code now)))))"

definition revoke_coupon :: "env \<Rightarrow> address \<Rightarrow> symbol \<Rightarrow> unit vm" where
  "revoke_coupon E merchant code =
     thn (require_auth E merchant)
     (bnd (read_coupon code) (\<lambda>x.
     bnd (ok_or x E_CouponNotFound) (\<lambda>coupon.
     if cp_merchant coupon \<noteq> merchant then fail E_Unauthorized
     else
       thn (write_coupon (coupon\<lparr>cp_revoked := True\<rparr>))
       (publish (CouponEv (Ev_coupon_revoked merchant code (e_timestamp E)))))))"

definition increment_redemptions :: "symbol \<Rightarrow> unit vm" where
  "increment_redemptions code =
     bnd (read_redemptions code) (\<lambda>count. write_redemptions code (sat_add_u32 count 1))"

definition cas_increment_redemptions :: "symbol \<Rightarrow> nat \<Rightarrow> nat \<Rightarrow> unit vm" where
  "cas_increment_redemptions code expected max_redemptions =
     bnd (read_redemptions code) (\<lambda>current.
     if current \<noteq> expected then fail E_CouponRedemptionLimitReached
     else if max_redemptions > 0 \<and> current \<ge> max_redemptions then fail E_CouponRedemptionLimitReached
     else write_redemptions code (sat_add_u32 current 1))"

definition apply_coupon :: "env \<Rightarrow> address \<Rightarrow> nat \<Rightarrow> symbol \<Rightarrow> unit vm" where
  "apply_coupon E subscriber i code =
     thn (require_auth E subscriber)
     (bnd (get_subscription E i) (\<lambda>sub.
     if s_subscriber sub \<noteq> subscriber then fail E_Unauthorized
     else
       bnd (is_coupon_redeemed i code) (\<lambda>redeemed.
       if redeemed then fail E_Replay
       else
         bnd (gets (\<lambda>v. k_sub_coupon (v_coupon v) i)) (\<lambda>bound.
         if bound \<noteq> None then fail E_CouponAlreadyApplied
         else
           bnd (read_coupon code) (\<lambda>x.
           bnd (ok_or x E_CouponNotFound) (\<lambda>coupon.
           if cp_revoked coupon then fail E_CouponRevoked
           else
             let now = e_timestamp E in
             if cp_expires_at coupon > 0 \<and> now \<ge> cp_expires_at coupon then fail E_CouponExpired
             else
               bnd (read_redemptions code) (\<lambda>observed.
               if cp_max_redemptions coupon > 0 \<and> observed \<ge> cp_max_redemptions coupon
               then fail E_CouponRedemptionLimitReached
               else if cp_token coupon \<noteq> s_token sub then fail E_CouponTokenMismatch
               else
                 thn (cas_increment_redemptions code observed (cp_max_redemptions coupon))
                 (thn (mod_coupon (\<lambda>k. k\<lparr>k_sub_coupon := (k_sub_coupon k)(i \<mapsto> code)\<rparr>))
                 (thn (mark_coupon_redeemed i code)
                 (publish (CouponEv (Ev_coupon_applied i subscriber code now))))))))))))"

section \<open>Discounting a charge\<close>

definition resolve_coupon_for_charge :: "nat \<Rightarrow> (coupon option) vm" where
  "resolve_coupon_for_charge i =
     gets (\<lambda>v. case k_sub_coupon (v_coupon v) i of
       None \<Rightarrow> None | Some code \<Rightarrow> k_coupon (v_coupon v) code)"

definition validate_coupon_for_charge :: "nat \<Rightarrow> address \<Rightarrow> coupon \<Rightarrow> unit res" where
  "validate_coupon_for_charge now sub_token coupon =
     (if cp_revoked coupon then Err E_CouponRevoked
      else if cp_expires_at coupon > 0 \<and> now \<ge> cp_expires_at coupon then Err E_CouponExpired
      else if cp_token coupon \<noteq> sub_token then Err E_CouponTokenMismatch
      else Ok ())"

definition compute_discount :: "int \<Rightarrow> coupon \<Rightarrow> int" where
  "compute_discount gross coupon =
     (let after_pct = (if cp_percent_off_bps coupon > 0
            then let remaining_bps = 10000 - int (cp_percent_off_bps coupon)
                 in tdiv (wrap_i128 (gross * remaining_bps)) 10000
            else gross);
          after_fixed = max (sat_i128 (after_pct - cp_fixed_off coupon)) 0
      in sat_i128 (gross - after_fixed))"

definition apply_discount_at_charge :: "nat \<Rightarrow> nat \<Rightarrow> address \<Rightarrow> int \<Rightarrow> (int \<times> int) vm" where
  "apply_discount_at_charge i now sub_token gross =
     bnd (resolve_coupon_for_charge i) (\<lambda>c.
     case c of
       None \<Rightarrow> ret (gross, 0)
     | Some coupon \<Rightarrow>
         (case validate_coupon_for_charge now sub_token coupon of
            Ok _ \<Rightarrow>
              let discount = compute_discount gross coupon; payable = wrap_i128 (gross - discount) in
              thn (publish (CouponEv (Ev_discount_applied i gross discount payable (cp_code coupon) now)))
              (ret (payable, discount))
          | _ \<Rightarrow> ret (gross, 0)))"

lemma keeps_coupon_reads [keeps_intro]:
  "keeps g (read_coupon code)" "keeps g (read_redemptions code)" "keeps g (is_coupon_redeemed i code)"
  "keeps g (resolve_coupon_for_charge i)"
  by (auto simp: read_coupon_def read_redemptions_def is_coupon_redeemed_def resolve_coupon_for_charge_def
      intro: keeps_intro)

lemma keeps_apply_discount [keeps_intro]:
  "(\<And>s l. g (s\<lparr>v_events := l\<rparr>) = g s) \<Longrightarrow> keeps g (apply_discount_at_charge i now tk gross)"
  by (auto simp: apply_discount_at_charge_def Let_def intro!: keeps_intro split: outcome.splits)

section \<open>The discount\<close>

text \<open>
  The discount is the documented one and never exceeds the charge: for every amount a subscription
  can have and every coupon that can exist, the payable amount is the floor of the percentage discount
  minus the fixed discount, cut off at zero; no intermediate product wraps and the discount lies
  between zero and the gross amount.
\<close>

theorem discount_formula:
  assumes "0 \<le> gross" and "gross \<le> MAX_SUBSCRIPTION_AMOUNT"
    and "cp_percent_off_bps c \<le> 10000" and "0 \<le> cp_fixed_off c" and "fits_i128 (cp_fixed_off c)"
  shows "gross - compute_discount gross c =
      max (gross * (10000 - int (cp_percent_off_bps c)) div 10000 - cp_fixed_off c) 0 \<and>
    0 \<le> compute_discount gross c \<and> compute_discount gross c \<le> gross"
proof -
  define p where "p = 10000 - int (cp_percent_off_bps c)"
  have p: "0 \<le> p" "p \<le> 10000" using assms(3) by (simp_all add: p_def)
  have "fits_i128 (gross * p)"
    using assms(1,2) p by (intro max_subscription_amount_mul)
  then have pct: "(if cp_percent_off_bps c > 0 then tdiv (wrap_i128 (gross * p)) 10000 else gross) = gross * p div 10000"
    using assms(1) p by (auto simp: tdiv_nonneg p_def)
  have le: "gross * p div 10000 \<le> gross"
  proof -
    have "gross * p \<le> gross * 10000" using assms(1) p by (intro mult_left_mono)
    then have "gross * p div 10000 \<le> gross * 10000 div 10000" by (intro zdiv_mono1) auto
    then show ?thesis by simp
  qed
  have ge: "0 \<le> gross * p div 10000" using assms(1) p by (simp add: pos_imp_zdiv_nonneg_iff)
  have gmax: "gross \<le> i128_max"
    using assms(1,2) by (simp add: MAX_SUBSCRIPTION_AMOUNT_def MAX_FEE_BIPS_def tdiv_nonneg i128_max_def)
  define x where "x = gross * p div 10000 - cp_fixed_off c"
  have x: "fits_i128 x" "x \<le> gross"
    using le ge gmax assms(4,5) by (auto simp: x_def fits_i128_def i128_min_def i128_max_def)
  have "compute_discount gross c = sat_i128 (gross - max (sat_i128 x) 0)"
    by (simp only: compute_discount_def Let_def p_def [symmetric] pct x_def)
  moreover have "fits_i128 (gross - max x 0)"
    using x gmax assms(1) by (auto simp: fits_i128_def i128_min_def)
  ultimately have "compute_discount gross c = gross - max x 0"
    using x by simp
  with x assms(1) show ?thesis by (auto simp: x_def p_def)
qed

definition example_coupon :: coupon where
  "example_coupon = \<lparr>cp_code = ''ten'', cp_merchant = Addr 5, cp_token = Addr 9, cp_percent_off_bps = 1000,
     cp_fixed_off = 7, cp_max_redemptions = 2, cp_expires_at = 0, cp_revoked = False\<rparr>"

theorem discount_formula_witness: "999 - compute_discount 999 example_coupon = 892"
  using discount_formula [of 999 example_coupon]
  by (simp add: example_coupon_def MAX_SUBSCRIPTION_AMOUNT_def MAX_FEE_BIPS_def tdiv_nonneg int_bounds)

section \<open>Redemption limits\<close>

definition bound_to :: "vault \<Rightarrow> symbol \<Rightarrow> nat set" where
  "bound_to v code = {i. k_sub_coupon (v_coupon v) i = Some code}"

definition code_ok :: "vault \<Rightarrow> symbol \<Rightarrow> bool" where
  "code_ok v code \<longleftrightarrow> finite (bound_to v code) \<and>
     redemptions (v_coupon v) code = min u32_max (card (bound_to v code)) \<and>
     (case k_coupon (v_coupon v) code of
        None \<Rightarrow> bound_to v code = {}
      | Some c \<Rightarrow> cp_code c = code \<and> cp_max_redemptions c \<le> u32_max \<and> cp_percent_off_bps c \<le> 10000 \<and>
          0 < cp_fixed_off c \<and>
          (cp_max_redemptions c = 0 \<or> card (bound_to v code) \<le> cp_max_redemptions c))"

definition coupons_ok :: "vault \<Rightarrow> bool" where
  "coupons_ok v \<longleftrightarrow>
     (\<forall>i code. k_redeemed (v_coupon v) i code \<longleftrightarrow> k_sub_coupon (v_coupon v) i = Some code) \<and>
     (\<forall>code. code_ok v code)"

lemma code_ok_same:
  "code_ok v code \<Longrightarrow> bound_to w code = bound_to v code \<Longrightarrow>
   redemptions (v_coupon w) code = redemptions (v_coupon v) code \<Longrightarrow>
   k_coupon (v_coupon w) code = k_coupon (v_coupon v) code \<Longrightarrow> code_ok w code"
  by (simp add: code_ok_def split: option.splits)

lemma apply_coupon_ok:
  assumes "apply_coupon E subscriber i code s = (Ok u, t)"
  obtains c where "k_coupon (v_coupon s) code = Some c" "\<not> cp_revoked c"
    "k_sub_coupon (v_coupon s) i = None" "\<not> k_redeemed (v_coupon s) i code"
    "cp_max_redemptions c = 0 \<or> redemptions (v_coupon s) code < cp_max_redemptions c"
    "v_coupon t = (v_coupon s)\<lparr>
       k_redemptions := (k_redemptions (v_coupon s))(code \<mapsto> sat_add_u32 (redemptions (v_coupon s) code) 1),
       k_sub_coupon := (k_sub_coupon (v_coupon s))(i \<mapsto> code),
       k_redeemed := (k_redeemed (v_coupon s))(i := (k_redeemed (v_coupon s) i)(code := True))\<rparr>"
  using assms
  by (auto simp: apply_coupon_def act_ok is_coupon_redeemed_def read_coupon_def read_redemptions_def Let_def
      cas_increment_redemptions_def write_redemptions_def mark_coupon_redeemed_def split: if_split_asm)

lemma apply_coupon_inv:
  assumes inv: "coupons_ok s" and run: "apply_coupon E subscriber i code s = (Ok u, t)"
  shows "coupons_ok t"
proof -
  from run obtain c where c: "k_coupon (v_coupon s) code = Some c"
    and free: "k_sub_coupon (v_coupon s) i = None" "\<not> k_redeemed (v_coupon s) i code"
    and lim: "cp_max_redemptions c = 0 \<or> redemptions (v_coupon s) code < cp_max_redemptions c"
    and t: "v_coupon t = (v_coupon s)\<lparr>
       k_redemptions := (k_redemptions (v_coupon s))(code \<mapsto> sat_add_u32 (redemptions (v_coupon s) code) 1),
       k_sub_coupon := (k_sub_coupon (v_coupon s))(i \<mapsto> code),
       k_redeemed := (k_redeemed (v_coupon s))(i := (k_redeemed (v_coupon s) i)(code := True))\<rparr>"
    by (rule apply_coupon_ok)
  have b: "bound_to t x = (if x = code then insert i (bound_to s code) else bound_to s x)" for x
    using free(1) by (auto simp: bound_to_def t)
  have new: "i \<notin> bound_to s code" using free(1) by (simp add: bound_to_def)
  have red: "redemptions (v_coupon t) x =
      (if x = code then sat_add_u32 (redemptions (v_coupon s) code) 1 else redemptions (v_coupon s) x)" for x
    by (simp add: t redemptions_def)
  have k: "k_redeemed (v_coupon t) j x \<longleftrightarrow> k_sub_coupon (v_coupon t) j = Some x" for j x
    using inv free by (cases "j = i") (auto simp: coupons_ok_def t)
  have "code_ok t x" for x
  proof (cases "x = code")
    case True
    from inv have "code_ok s code" by (simp add: coupons_ok_def)
    moreover have "k_coupon (v_coupon t) = k_coupon (v_coupon s)" by (simp add: t)
    ultimately show ?thesis using True c lim new
      by (auto simp: code_ok_def b red sat_add_u32_def)
  next
    case False
    from inv have "code_ok s x" by (simp add: coupons_ok_def)
    then show ?thesis by (rule code_ok_same) (use False in \<open>simp_all add: b t redemptions_def\<close>)
  qed
  with k show ?thesis by (simp add: coupons_ok_def)
qed

datatype coupon_request =
    CreateCoupon address symbol address nat int nat nat
  | RevokeCoupon address symbol
  | ApplyCoupon address nat symbol

primrec coupon_step :: "env \<times> coupon_request \<Rightarrow> unit vm" where
  "coupon_step (E, r) = tx (case r of
     CreateCoupon m code tk pct fixed mx ex \<Rightarrow> create_coupon E m code tk pct fixed mx ex
   | RevokeCoupon m code \<Rightarrow> revoke_coupon E m code
   | ApplyCoupon sub i code \<Rightarrow> apply_coupon E sub i code)"

definition u32_request :: "coupon_request \<Rightarrow> bool" where
  "u32_request r = (case r of CreateCoupon m code tk pct fixed mx ex \<Rightarrow> mx \<le> u32_max | _ \<Rightarrow> True)"

lemma create_coupon_inv:
  assumes inv: "coupons_ok s" and run: "create_coupon E m code tk pct fixed mx ex s = (Ok u, t)" and "mx \<le> u32_max"
  shows "coupons_ok t"
proof -
  from run have p: "pct \<le> 10000" "0 < fixed" and none: "k_coupon (v_coupon s) code = None"
    and t: "v_coupon t = (v_coupon s)\<lparr>k_coupon := (k_coupon (v_coupon s))(code \<mapsto>
       \<lparr>cp_code = code, cp_merchant = m, cp_token = tk, cp_percent_off_bps = pct, cp_fixed_off = fixed,
        cp_max_redemptions = mx, cp_expires_at = ex, cp_revoked = False\<rparr>)\<rparr>"
    by (auto simp: create_coupon_def act_ok read_coupon_def write_coupon_def Let_def split: if_split_asm)
  have b: "bound_to t = bound_to s" by (simp add: bound_to_def t fun_eq_iff)
  have "code_ok t x" for x
  proof (cases "x = code")
    case True
    from inv have "code_ok s code" by (simp add: coupons_ok_def)
    with True none p assms(3) show ?thesis by (simp add: code_ok_def b t redemptions_def)
  next
    case False
    from inv have "code_ok s x" by (simp add: coupons_ok_def)
    then show ?thesis by (rule code_ok_same) (use False in \<open>simp_all add: b t redemptions_def\<close>)
  qed
  with inv show ?thesis by (simp add: coupons_ok_def t)
qed

lemma revoke_coupon_inv:
  assumes inv: "coupons_ok s" and run: "revoke_coupon E m code s = (Ok u, t)"
  shows "coupons_ok t"
proof -
  from run obtain c where c: "k_coupon (v_coupon s) code = Some c"
    and t: "v_coupon t = (v_coupon s)\<lparr>k_coupon := (k_coupon (v_coupon s))(cp_code c \<mapsto> c\<lparr>cp_revoked := True\<rparr>)\<rparr>"
    by (auto simp: revoke_coupon_def act_ok read_coupon_def write_coupon_def split: if_split_asm)
  have b: "bound_to t = bound_to s" by (simp add: bound_to_def t fun_eq_iff)
  from inv c have code: "cp_code c = code" by (auto simp: coupons_ok_def code_ok_def dest: spec [of _ code])
  have "code_ok t x" for x
  proof (cases "x = code")
    case True
    from inv have "code_ok s code" by (simp add: coupons_ok_def)
    with True c code show ?thesis by (simp add: code_ok_def b t redemptions_def)
  next
    case False
    from inv have "code_ok s x" by (simp add: coupons_ok_def)
    then show ?thesis by (rule code_ok_same) (use False code in \<open>simp_all add: b t redemptions_def\<close>)
  qed
  with inv show ?thesis by (simp add: coupons_ok_def t)
qed

text \<open>
  C12. Coupon limits hold over any sequence of creating, revoking and applying coupons, accepted or
  refused: a subscription is bound to at most one coupon and redeems a code only once, the redemption
  counter of a code is the number of subscriptions bound to it, and a code with a limit is never bound
  to more subscriptions than its limit. Every coupon that exists takes off a positive fixed amount,
  so a percentage-only coupon cannot be created, although the documentation allows it.
\<close>

theorem coupon_limits_hold:
  assumes "coupons_ok v" and "\<forall>(E, r) \<in> set rs. u32_request r"
  shows "coupons_ok (snd (serve coupon_step rs v))"
  using assms
proof (induction rs arbitrary: v)
  case Nil
  then show ?case by simp
next
  case (Cons x rs)
  obtain E r where x: "x = (E, r)" by (cases x)
  obtain o1 v1 where run: "coupon_step (E, r) v = (o1, v1)" by fastforce
  have "coupons_ok v1"
  proof (cases "v1 = v")
    case True
    with Cons.prems show ?thesis by simp
  next
    case False
    with run obtain u where ok: "coupon_step (E, r) v = (Ok u, v1)"
      by (auto simp: tx_def split: prod.splits outcome.splits)
    with Cons.prems show ?thesis
      by (cases r) (auto simp: x act_ok u32_request_def intro: create_coupon_inv revoke_coupon_inv apply_coupon_inv)
  qed
  with Cons run x show ?case by (auto split: prod.splits) (metis snd_conv)
qed

theorem coupon_limits_hold_witness:
  "coupons_ok (snd (serve coupon_step
     [(test_env, CreateCoupon (Addr 5) ''ten'' (Addr 9) 1000 7 1 0),
      (test_env, RevokeCoupon (Addr 5) ''ten'')] empty_vault))"
  by (rule coupon_limits_hold)
    (simp_all add: coupons_ok_def code_ok_def bound_to_def empty_vault_def redemptions_def u32_request_def u32_max_def)

end
