(* ===== verification/Oracle.thy ===== *)
theory Oracle
  imports Admin_Settings "HOL-Library.Multiset"
begin

text \<open>
  Oracle pricing: the inline module \<open>oracle\<close> of \<^verbatim>\<open>src/lib.rs\<close> (configuration, charge amount, liveness)
  and the price adapters of \<^verbatim>\<open>src/oracle_adapter.rs\<close>. The oracle contract's two entry points are
  parameters of the host (\<open>e_latest_price\<close>, \<open>e_observations\<close>); a trap there is a panic here. Prices
  are \<open>u128\<close> values, kept as \<open>nat\<close>.
\<close>

section \<open>Configuration\<close>

definition get_oracle_config :: "oracle_config vm" where
  "get_oracle_config = bnd (read_config cf_oracle) (\<lambda>x. ret (case x of Some c \<Rightarrow> c
     | None \<Rightarrow> \<lparr>oc_enabled = False, oc_oracle = None, oc_max_age_seconds = 0, oc_kind = Spot,
         oc_window_secs = 0, oc_fixed_numerator = 0, oc_fixed_denominator = 1\<rparr>))"

definition resolve_charge_amount :: "nat \<Rightarrow> subscription \<Rightarrow> int vm" where
  "resolve_charge_amount i sub =
     bnd get_oracle_config (\<lambda>config.
     if \<not> oc_enabled config then ret (s_amount sub) else ret (s_amount sub))"

definition set_oracle_config_except_address ::
  "env \<Rightarrow> bool \<Rightarrow> address option \<Rightarrow> nat \<Rightarrow> oracle_kind \<Rightarrow> nat \<Rightarrow> nat \<Rightarrow> nat \<Rightarrow> unit vm" where
  "set_oracle_config_except_address E enabled oracle max_age kind window_secs fixed_numerator fixed_denominator =
     (if kind = FixedRate \<and> fixed_denominator = 0 then fail E_InvalidInput
      else
        thn (enforce_config_cooldown E ''Oracle'')
        (bnd get_oracle_config (\<lambda>current.
        let cfg = \<lparr>oc_enabled = enabled,
              oc_oracle = (case oracle of Some a \<Rightarrow> Some a | None \<Rightarrow> oc_oracle current),
              oc_max_age_seconds = max_age, oc_kind = kind, oc_window_secs = window_secs,
              oc_fixed_numerator = fixed_numerator, oc_fixed_denominator = fixed_denominator\<rparr> in
        thn (write_config cf_oracle_update cfg)
        (publish (GovEv (Ev_oracle_config_updated cfg (e_timestamp E)))))))"

definition set_oracle_address :: "env \<Rightarrow> address \<Rightarrow> unit vm" where
  "set_oracle_address E oracle =
     bnd get_oracle_config (\<lambda>current0.
     let current = current0\<lparr>oc_oracle := Some oracle\<rparr> in
     thn (write_config cf_oracle_update current)
     (publish (GovEv (Ev_oracle_config_updated current (e_timestamp E)))))"

record oracle_liveness =
  ol_last_sample_ts :: nat
  ol_age :: nat
  ol_healthy :: bool
  ol_timestamp :: nat

definition emit_oracle_liveness :: "env \<Rightarrow> oracle_liveness vm" where
  "emit_oracle_liveness E =
     bnd get_oracle_config (\<lambda>config.
     if \<not> oc_enabled config \<or> oc_oracle config = None \<or> oc_max_age_seconds config = 0
     then fail E_OracleNotConfigured
     else
       let now = e_timestamp E; last_sample_ts = now - 60; age = now - last_sample_ts;
           threshold = oc_max_age_seconds config div 2; healthy = (age \<le> threshold) in
       thn (publish (GovEv (Ev_oracle_liveness last_sample_ts age healthy now)))
       (ret \<lparr>ol_last_sample_ts = last_sample_ts, ol_age = age, ol_healthy = healthy, ol_timestamp = now\<rparr>))"

section \<open>Price adapters\<close>

definition PRICE_SCALE :: nat where "PRICE_SCALE = 10000000"
definition MIN_TWAP_WINDOW_SECS :: nat where "MIN_TWAP_WINDOW_SECS = 60"

definition validate_sanity_band :: "nat \<Rightarrow> unit res" where
  "validate_sanity_band price = (if price = 0 then Err E_OraclePriceInvalid else Ok ())"

definition validate_price :: "env \<Rightarrow> oracle_price \<Rightarrow> oracle_config \<Rightarrow> nat vm" where
  "validate_price E price config =
     (if op_price price \<le> 0 then fail E_OraclePriceInvalid
      else
        let age = e_timestamp E - op_timestamp price in
        if age > oc_max_age_seconds config then fail E_OraclePriceStale
        else
          let price_u128 = nat (op_price price) in
          thn (lift (validate_sanity_band price_u128))
          (ret price_u128))"

definition spot_quote :: "env \<Rightarrow> oracle_config \<Rightarrow> nat vm" where
  "spot_quote E config =
     bnd (ok_or (oc_oracle config) E_OracleNotConfigured) (\<lambda>oracle_addr.
     case e_latest_price E oracle_addr of
       None \<Rightarrow> panic
     | Some price \<Rightarrow> validate_price E price config)"

definition median :: "nat list \<Rightarrow> nat" where
  "median values0 =
     (let values = sort values0; mid = length values div 2 in
      if length values mod 2 = 0 then
        (let lo = values ! (mid - 1); hi = values ! mid
         in lo div 2 + hi div 2 + (lo mod 2 + hi mod 2) div 2)
      else values ! mid)"

definition validate_twap_config :: "oracle_config \<Rightarrow> unit res" where
  "validate_twap_config config =
     (if oc_window_secs config < MIN_TWAP_WINDOW_SECS then Err E_InvalidInput else Ok ())"

text \<open>The loop that keeps the fresh, positive observations.\<close>

definition usable_prices :: "env \<Rightarrow> oracle_config \<Rightarrow> oracle_price list \<Rightarrow> nat list" where
  "usable_prices E config observations =
     map (\<lambda>p. nat (op_price p))
       (filter (\<lambda>p. \<not> (e_timestamp E - op_timestamp p > oc_max_age_seconds config) \<and> \<not> op_price p \<le> 0)
         observations)"

definition twap_quote :: "env \<Rightarrow> oracle_config \<Rightarrow> nat vm" where
  "twap_quote E config =
     thn (lift (validate_twap_config config))
     (bnd (ok_or (oc_oracle config) E_OracleNotConfigured) (\<lambda>oracle_addr.
     let window_start = e_timestamp E - oc_window_secs config in
     case e_observations E oracle_addr window_start of
       None \<Rightarrow> panic
     | Some observations \<Rightarrow>
         if observations = [] then fail E_OraclePriceUnavailable
         else
           let prices = usable_prices E config observations in
           if prices = [] then fail E_OraclePriceStale
           else
             let median_price = median prices in
             thn (lift (validate_sanity_band median_price))
             (ret median_price)))"

definition fixed_quote :: "oracle_config \<Rightarrow> nat vm" where
  "fixed_quote config =
     (if oc_fixed_denominator config = 0 then fail E_InvalidInput
      else
        let price = (oc_fixed_numerator config * PRICE_SCALE) mod 2 ^ 128 div oc_fixed_denominator config in
        thn (lift (validate_sanity_band price))
        (ret price))"

definition dispatch_price :: "env \<Rightarrow> oracle_config \<Rightarrow> address \<Rightarrow> address \<Rightarrow> nat vm" where
  "dispatch_price E config base quote =
     (case oc_kind config of
        Spot \<Rightarrow> spot_quote E config
      | Twap \<Rightarrow> twap_quote E config
      | FixedRate \<Rightarrow> fixed_quote config)"

lemma get_oracle_config_ok [act_ok]:
  "get_oracle_config s = (Ok c, t) \<longleftrightarrow> t = s \<and>
     c = (case config_value cf_oracle (v_admin s) of Some c \<Rightarrow> c
       | None \<Rightarrow> \<lparr>oc_enabled = False, oc_oracle = None, oc_max_age_seconds = 0, oc_kind = Spot,
         oc_window_secs = 0, oc_fixed_numerator = 0, oc_fixed_denominator = 1\<rparr>)"
  by (auto simp: get_oracle_config_def act_ok)

lemma resolve_charge_amount_run [act_run]: "resolve_charge_amount i sub s = (Ok (s_amount sub), s)"
  by (simp add: resolve_charge_amount_def get_oracle_config_def act_run)

lemma resolve_charge_amount_ok [act_ok]:
  "resolve_charge_amount i sub s = (Ok a, t) \<longleftrightarrow> a = s_amount sub \<and> t = s"
  by (auto simp: resolve_charge_amount_run)

lemma keeps_oracle [keeps_intro]:
  "keeps g get_oracle_config" "keeps g (resolve_charge_amount i sub)" "keeps g (validate_price E p c)"
  "keeps g (dispatch_price E c b q)"
  by (auto simp: get_oracle_config_def resolve_charge_amount_def validate_price_def dispatch_price_def
      spot_quote_def twap_quote_def fixed_quote_def Let_def intro!: keeps_intro split: oracle_kind.splits)

section \<open>Properties\<close>

lemma length_filter_sort: "length (filter P (sort xs)) = length (filter P xs)"
  by (metis mset_filter mset_sort size_mset)

lemma sorted_low_half:
  assumes "sorted ys" and "i < length ys" and "ys ! i \<le> m"
  shows "Suc i \<le> length (filter (\<lambda>x. x \<le> m) ys)"
proof -
  have "\<forall>x \<in> set (take (Suc i) ys). x \<le> m"
    using assms by (auto simp: set_conv_nth) (metis less_Suc_eq_le order_trans sorted_nth_mono)
  then have "filter (\<lambda>x. x \<le> m) (take (Suc i) ys) = take (Suc i) ys" by simp
  then have "Suc i \<le> length (filter (\<lambda>x. x \<le> m) (take (Suc i) ys))" using assms(2) by simp
  also have "\<dots> \<le> length (filter (\<lambda>x. x \<le> m) ys)"
    by (metis append_take_drop_id filter_append le_add1 length_append)
  finally show ?thesis .
qed

lemma sorted_high_half:
  assumes "sorted ys" and "i < length ys" and "m \<le> ys ! i"
  shows "length ys - i \<le> length (filter (\<lambda>x. m \<le> x) ys)"
proof -
  have "\<forall>x \<in> set (drop i ys). m \<le> x"
    using assms by (auto simp: set_conv_nth) (metis add.commute le_add1 less_diff_conv order_trans sorted_nth_mono)
  then have "filter (\<lambda>x. m \<le> x) (drop i ys) = drop i ys" by simp
  then have "length ys - i \<le> length (filter (\<lambda>x. m \<le> x) (drop i ys))" by simp
  also have "\<dots> \<le> length (filter (\<lambda>x. m \<le> x) ys)"
    by (metis append_take_drop_id filter_append le_add2 length_append)
  finally show ?thesis .
qed

lemma half_sum: "(lo :: nat) div 2 + hi div 2 + (lo mod 2 + hi mod 2) div 2 = (lo + hi) div 2"
  by (rule div_add1_eq [symmetric])

text \<open>
  The time-weighted quote is a median of the usable observations: when the adapter returns a price,
  at least one observation is fresh and positive, at least half of those lie at or below the price and
  at least half at or above it, and the price is positive; the overflow-free average of the two middle
  values is their exact floor average.
\<close>

theorem twap_quote_is_median:
  assumes "twap_quote E config s = (Ok price, t)"
  shows "\<exists>oracle obs. oc_oracle config = Some oracle \<and>
    e_observations E oracle (e_timestamp E - oc_window_secs config) = Some obs \<and>
    (let ps = usable_prices E config obs in ps \<noteq> [] \<and> 0 < price \<and>
       length ps \<le> 2 * length (filter (\<lambda>p. p \<le> price) ps) \<and>
       length ps \<le> 2 * length (filter (\<lambda>p. price \<le> p) ps))"
proof -
  from assms obtain oa obs where orc: "oc_oracle config = Some oa"
    "e_observations E oa (e_timestamp E - oc_window_secs config) = Some obs"
    and ne: "usable_prices E config obs \<noteq> []" and pos: "0 < price"
    and price: "price = median (usable_prices E config obs)"
    by (auto simp: twap_quote_def act_ok Let_def validate_sanity_band_def split: if_split_asm option.splits)
  define ys where "ys = sort (usable_prices E config obs)"
  define mid where "mid = length ys div 2"
  have ys: "sorted ys" "ys \<noteq> []" using ne by (auto simp: ys_def) (metis length_0_conv length_sort)
  then have len: "mid < length ys" by (simp add: mid_def)
  have "length ys \<le> 2 * length (filter (\<lambda>p. p \<le> price) ys) \<and> length ys \<le> 2 * length (filter (\<lambda>p. price \<le> p) ys)"
  proof (cases "length ys mod 2 = 0")
    case True
    then have ev: "length ys = 2 * mid" by (simp add: mid_def) presburger
    with len have m1: "mid - 1 < length ys" "Suc (mid - 1) = mid" by linarith+
    have p: "price = (ys ! (mid - 1) + ys ! mid) div 2"
      using True by (simp add: price median_def Let_def half_sum flip: ys_def mid_def)
    have "ys ! (mid - 1) \<le> ys ! mid" using ys len by (simp add: sorted_nth_mono)
    then have "ys ! (mid - 1) \<le> price" "price \<le> ys ! mid" by (simp_all add: p)
    then have "mid \<le> length (filter (\<lambda>p. p \<le> price) ys)" "length ys - mid \<le> length (filter (\<lambda>p. price \<le> p) ys)"
      using sorted_low_half [OF ys(1) m1(1), of price] sorted_high_half [OF ys(1) len, of price] m1 by simp_all
    with ev show ?thesis by linarith
  next
    case False
    then have od: "length ys = 2 * mid + 1" by (simp add: mid_def) presburger
    have p: "price = ys ! mid"
      using False by (simp add: price median_def Let_def flip: ys_def mid_def)
    then have "Suc mid \<le> length (filter (\<lambda>p. p \<le> price) ys)" "length ys - mid \<le> length (filter (\<lambda>p. price \<le> p) ys)"
      using sorted_low_half [OF ys(1) len, of price] sorted_high_half [OF ys(1) len, of price] by simp_all
    with od show ?thesis by linarith
  qed
  then have "length (usable_prices E config obs) \<le> 2 * length (filter (\<lambda>p. p \<le> price) (usable_prices E config obs)) \<and>
     length (usable_prices E config obs) \<le> 2 * length (filter (\<lambda>p. price \<le> p) (usable_prices E config obs))"
    by (simp add: ys_def length_filter_sort)
  with orc ne pos show ?thesis by (auto simp: Let_def)
qed

definition twap_config :: oracle_config where
  "twap_config = \<lparr>oc_enabled = True, oc_oracle = Some (Addr 3), oc_max_age_seconds = 600, oc_kind = Twap,
     oc_window_secs = 300, oc_fixed_numerator = 0, oc_fixed_denominator = 1\<rparr>"

definition oracle_env :: env where
  "oracle_env = test_env\<lparr>e_observations := (\<lambda>a w. if a = Addr 3 then Some
     [\<lparr>op_price = 30, op_timestamp = 1000000\<rparr>, \<lparr>op_price = 11, op_timestamp = 999900\<rparr>,
      \<lparr>op_price = 5, op_timestamp = 1000\<rparr>, \<lparr>op_price = 0, op_timestamp = 1000000\<rparr>] else None)\<rparr>"

theorem twap_quote_is_median_witness:
  "fst (twap_quote oracle_env twap_config empty_vault) = Ok 20 \<and>
   length (filter (\<lambda>p. p \<le> 20) (usable_prices oracle_env twap_config
     [\<lparr>op_price = 30, op_timestamp = 1000000\<rparr>, \<lparr>op_price = 11, op_timestamp = 999900\<rparr>,
      \<lparr>op_price = 5, op_timestamp = 1000\<rparr>, \<lparr>op_price = 0, op_timestamp = 1000000\<rparr>])) \<ge> 1"
proof -
  have q: "twap_quote oracle_env twap_config empty_vault = (Ok 20, empty_vault)"
    by (simp add: twap_quote_def twap_config_def oracle_env_def usable_prices_def median_def Let_def act_run
        validate_twap_config_def MIN_TWAP_WINDOW_SECS_def validate_sanity_band_def)
  from twap_quote_is_median [OF q] q show ?thesis
    by (auto simp: twap_config_def oracle_env_def Let_def usable_prices_def)
qed

lemma dispatch_price_positive: "dispatch_price E config b q s = (Ok p, t) \<Longrightarrow> 0 < p"
  by (auto simp: dispatch_price_def spot_quote_def twap_quote_def fixed_quote_def validate_price_def
      validate_sanity_band_def Let_def act_ok split: oracle_kind.splits option.splits if_split_asm)

end
