(* ===== verification/Proration.thy ===== *)
theory Proration
  imports Safe_Math
begin

text \<open>
  The prorated first charge (\<^verbatim>\<open>src/charge_core.rs::calculate_prorated_first_charge\<close>): an amount scaled
  by a fraction of the interval without forming the product of amount and seconds.
\<close>

definition checked_mul_u128 :: "nat \<Rightarrow> nat \<Rightarrow> nat option" where
  "checked_mul_u128 a b = (if a * b \<le> u128_max then Some (a * b) else None)"

definition calculate_prorated_first_charge :: "int \<Rightarrow> nat \<Rightarrow> nat \<Rightarrow> int res" where
  "calculate_prorated_first_charge amount interval remaining_seconds =
     (if amount < 0 then Err E_InvalidAmount
      else if interval = 0 then Err E_InvalidInput
      else if remaining_seconds = 0 then Ok 0
      else if remaining_seconds \<ge> interval then Ok amount
      else
        let interval_i128 = int interval; remaining_i128 = int remaining_seconds in
        case checked_mul_i128 (tdiv amount interval_i128) remaining_i128 of
          None \<Rightarrow> Err E_Overflow
        | Some whole_product \<Rightarrow>
            (case checked_mul_u128 (nat (tmod amount interval_i128)) remaining_seconds of
               None \<Rightarrow> Err E_Overflow
             | Some fractional_product \<Rightarrow>
                 let fractional = wrap_i128 (int (fractional_product div interval)) in
                 (case checked_add_i128 whole_product fractional of
                    None \<Rightarrow> Err E_Overflow
                  | Some prorated \<Rightarrow> Ok (min prorated amount))))"

lemma split_scaling:
  "0 < n \<Longrightarrow> (a div n) * r + (a mod n) * r div n = a * r div (n :: int)"
proof -
  assume n: "0 < n"
  have "a * r = n * ((a div n) * r) + (a mod n) * r"
    by (metis div_mult_mod_eq mult.assoc mult.commute ring_class.ring_distribs(2))
  then have "a * r div n = (n * ((a div n) * r) + (a mod n) * r) div n" by simp
  also have "\<dots> = (a div n) * r + (a mod n) * r div n"
    using n by simp
  finally show ?thesis by simp
qed

text \<open>
  Proration is exact and total: for every non-negative \<open>i128\<close> amount and every positive \<open>u64\<close> interval
  it returns the floor of \<open>amount * remaining / interval\<close>, capped at the amount; none of the intermediate
  operations can overflow, the result lies between zero and the amount and grows with the seconds.
\<close>

theorem proration_exact:
  assumes "0 \<le> amount" and "fits_i128 amount" and "0 < interval" and "interval \<le> u64_max"
  shows "calculate_prorated_first_charge amount interval r =
      Ok (if interval \<le> r then amount else amount * int r div int interval) \<and>
    0 \<le> min amount (amount * int r div int interval) \<and>
    (r \<le> r' \<longrightarrow> min amount (amount * int r div int interval) \<le> min amount (amount * int r' div int interval))"
proof -
  define n where "n = int interval"
  have n: "0 < n" using assms(3) by (simp add: n_def)
  have nonneg: "0 \<le> amount * int q div n" for q
    using assms(1) n by (simp add: pos_imp_zdiv_nonneg_iff)
  have mono: "r \<le> r' \<Longrightarrow> amount * int r div n \<le> amount * int r' div n"
    using assms(1) n by (intro zdiv_mono1 mult_left_mono) auto
  have main: "calculate_prorated_first_charge amount interval r =
      Ok (if interval \<le> r then amount else amount * int r div n)"
  proof (cases "r = 0 \<or> interval \<le> r")
    case True
    then show ?thesis using assms(1,3) by (auto simp: calculate_prorated_first_charge_def)
  next
    case False
    then have r: "0 < r" "r < interval" by auto
    have le: "amount * int r div n \<le> amount"
    proof -
      have "amount * int r \<le> amount * n" using r assms(1) by (intro mult_left_mono) (auto simp: n_def)
      then have "amount * int r div n \<le> amount * n div n" using n by (intro zdiv_mono1)
      then show ?thesis using n by simp
    qed
    define w where "w = amount div n * int r"
    define f where "f = amount mod n * int r div n"
    have parts: "w + f = amount * int r div n" "0 \<le> w" "0 \<le> f"
      using split_scaling [OF n] assms(1) n by (simp_all add: w_def f_def pos_imp_zdiv_nonneg_iff)
    have fits: "fits_i128 w" "fits_i128 f" "fits_i128 (w + f)"
      by (rule fits_i128_between [OF assms(2)]; use parts le in linarith)+
    have modn: "nat (tmod amount n) = nat (amount mod n)" "int (nat (amount mod n)) = amount mod n"
      using assms(1) n by (simp_all add: tmod_nonneg)
    have "nat (amount mod n) * r \<le> u64_max * u64_max"
    proof (rule mult_le_mono)
      have "amount mod n < n" using n by simp
      then show "nat (amount mod n) \<le> u64_max" using assms(4) by (simp add: n_def)
      show "r \<le> u64_max" using r assms(4) by linarith
    qed
    then have mul: "nat (amount mod n) * r \<le> u128_max" by (simp add: u64_max_def u128_max_def)
    have fr: "int (nat (amount mod n) * r div interval) = f"
      using n by (simp add: zdiv_int modn(2) f_def flip: n_def)
    have tw: "tdiv amount n * int r = w"
      using n assms(1) by (simp add: tdiv_nonneg w_def)
    show ?thesis
      using r assms(1,3) fits le mul parts
      by (simp add: calculate_prorated_first_charge_def Let_def checked_mul_i128_def checked_mul_u128_def
          checked_add_i128_def tw modn fr flip: n_def)
  qed
  show ?thesis using main nonneg assms(1) mono by (auto simp flip: n_def)
qed

theorem proration_exact_witness: "calculate_prorated_first_charge 1000 86400 43199 = Ok 499"
  using proration_exact [of 1000 86400 43199] by (simp add: int_bounds)

end
