(* ===== verification/Charge_Core.thy ===== *)
theory Charge_Core
  imports Coupons Merchant_Ledger Oracle Proration Idempotency Statements Period_Snapshots Nonces Status_Machine
begin

text \<open>
  Charging a subscription for an interval (\<^verbatim>\<open>src/charge_core.rs::charge_one\<close>). The function is cut into
  the stages its comments name, in order: the gates before the amount is known, the amount (discount,
  proration), the gates that may end the charge early, the per-period replay checks, and settlement.
  An early \<open>return Ok(r)\<close> is a stage result \<open>Some r\<close>.
\<close>

definition mod_charge :: "(charge_store \<Rightarrow> charge_store) \<Rightarrow> unit vm" where
  "mod_charge f = modify (\<lambda>v. v\<lparr>v_charge := f (v_charge v)\<rparr>)"

lemma mod_charge_ok [act_ok]:
  "mod_charge f s = (Ok u, t) \<longleftrightarrow> t = s\<lparr>v_charge := f (v_charge s)\<rparr>"
  by (simp add: mod_charge_def act_ok)

lemma mod_charge_run [act_run]: "mod_charge f s = (Ok (), s\<lparr>v_charge := f (v_charge s)\<rparr>)"
  by (simp add: mod_charge_def act_run)

lemma keeps_mod_charge [keeps_intro]:
  "(\<And>s x. g (s\<lparr>v_charge := x\<rparr>) = g s) \<Longrightarrow> keeps g (mod_charge f)"
  by (simp add: mod_charge_def keeps_modify)

section \<open>Failing a charge\<close>

definition charge_fail :: "nat \<Rightarrow> error \<Rightarrow> int \<Rightarrow> nat \<Rightarrow> 'a vm" where
  "charge_fail i err attempted_amount now =
     thn (publish (ChargeEv (Ev_charge_failed_v2 i (to_code err) attempted_amount now)))
     (fail err)"

text \<open>\<open>m.map_err(|e| charge_fail(...))?\<close>\<close>

definition or_charge_fail :: "nat \<Rightarrow> int \<Rightarrow> nat \<Rightarrow> 'a vm \<Rightarrow> 'a vm" where
  "or_charge_fail i attempted_amount now m =
     bnd (attempt m) (\<lambda>r. case r of Inr a \<Rightarrow> ret a | Inl e \<Rightarrow> charge_fail i e attempted_amount now)"

section \<open>Fees\<close>

definition route_fee_bps :: "address \<Rightarrow> nat vm" where
  "route_fee_bps merchant =
     bnd (get_merchant_fee_override_bps merchant) (\<lambda>x.
     case x of Some override_bps \<Rightarrow> ret override_bps | None \<Rightarrow> get_protocol_fee_bps)"

text \<open>The split of a charge into the merchant's net amount and the protocol fee.\<close>

definition fee_split :: "int \<Rightarrow> nat \<Rightarrow> address option \<Rightarrow> (int \<times> int) res" where
  "fee_split charge_amount fee_bps treasury_opt =
     (if fee_bps > 0 then
        (case treasury_opt of
           Some t \<Rightarrow>
             let fee = max (tdiv (wrap_i128 (charge_amount * int fee_bps)) 10000) 1 in
             (case safe_sub charge_amount fee of
                Ok net \<Rightarrow> Ok (net, fee) | Err e \<Rightarrow> Err e | Panic \<Rightarrow> Panic)
         | None \<Rightarrow> Ok (charge_amount, 0))
      else Ok (charge_amount, 0))"

record fee_conversion =
  fc_effective_amount :: int
  fc_target_token :: "address option"
  fc_rate :: nat

definition no_conversion :: "int \<Rightarrow> fee_conversion" where
  "no_conversion fee_amount = \<lparr>fc_effective_amount = fee_amount, fc_target_token = None, fc_rate = 0\<rparr>"

type_synonym price_cache = "((address \<times> address \<times> nat) list) option"

definition cached_price :: "price_cache \<Rightarrow> address \<Rightarrow> address \<Rightarrow> nat option" where
  "cached_price cache m t =
     (case cache of None \<Rightarrow> None
      | Some c \<Rightarrow> map_option (\<lambda>(_, _, p). p) (find (\<lambda>(m', t', _). m' = m \<and> t' = t) c))"

definition converted_fee :: "int \<Rightarrow> nat \<Rightarrow> int" where
  "converted_fee fee_amount price =
     (let fee_u128 = nat (fee_amount mod 2 ^ 128) in
      case checked_mul_u128 fee_u128 price of
        Some v \<Rightarrow> wrap_i128 (int (v div PRICE_SCALE))
      | None \<Rightarrow> 0)"

text \<open>The result is paired with the price cache as it is afterwards.\<close>

definition convert_fee ::
  "env \<Rightarrow> address \<Rightarrow> address \<Rightarrow> int \<Rightarrow> price_cache \<Rightarrow> (fee_conversion \<times> price_cache) vm" where
  "convert_fee E merchant source_token fee_amount price_cache =
     bnd get_fee_token (\<lambda>fee_token_opt.
     case fee_token_opt of
       None \<Rightarrow> ret (no_conversion fee_amount, price_cache)
     | Some fee_token \<Rightarrow>
         if fee_token = source_token then ret (no_conversion fee_amount, price_cache)
         else
           bnd get_oracle_config (\<lambda>config.
           if \<not> oc_enabled config \<or> oc_oracle config = None
           then ret (no_conversion fee_amount, price_cache)
           else
             let cached = cached_price price_cache merchant source_token in
             bnd (case cached of
                    Some p \<Rightarrow> ret (Inr p)
                  | None \<Rightarrow> attempt (dispatch_price E config source_token fee_token)) (\<lambda>price_result.
             case price_result of
               Inl e \<Rightarrow> ret (no_conversion fee_amount, price_cache)
             | Inr price \<Rightarrow>
                 let cache' = (if cached = None
                       then map_option (\<lambda>c. c @ [(merchant, source_token, price)]) price_cache
                       else price_cache);
                     converted = converted_fee fee_amount price in
                 if converted > 0
                 then ret (\<lparr>fc_effective_amount = converted, fc_target_token = Some fee_token,
                            fc_rate = price\<rparr>, cache')
                 else ret (no_conversion fee_amount, cache'))))"

section \<open>Crediting the payees\<close>

definition payee_share :: "int \<Rightarrow> nat \<Rightarrow> int" where
  "payee_share net_merchant_amount weight = tdiv (wrap_i128 (net_merchant_amount * int weight)) 10000"

text \<open>The loop over all payees but the first; it returns what it has distributed.\<close>

primrec credit_others ::
  "address \<Rightarrow> int \<Rightarrow> billing_charge_kind \<Rightarrow> (address \<times> nat) list \<Rightarrow> int \<Rightarrow> int vm" where
  "credit_others token net kind [] acc = ret acc"
| "credit_others token net kind (entry # rest) acc =
     (case entry of (payee, weight) \<Rightarrow>
        let share = payee_share net weight in
        bnd (lift (safe_add acc share)) (\<lambda>acc'.
        thn (credit_merchant_balance_for_token payee token share kind)
        (credit_others token net kind rest acc')))"

definition credit_charge_payees ::
  "env \<Rightarrow> nat \<Rightarrow> subscription \<Rightarrow> int \<Rightarrow> billing_charge_kind \<Rightarrow> unit vm" where
  "credit_charge_payees E i sub net_merchant_amount charge_kind =
     bnd (get_split_payees i) (\<lambda>split.
     case split of
       Some entries \<Rightarrow>
         bnd (credit_others (s_token sub) net_merchant_amount charge_kind (tl entries) 0) (\<lambda>total_distributed.
         let first_share = wrap_i128 (net_merchant_amount - total_distributed) in
         thn (case entries of
                (payee, _) # _ \<Rightarrow> credit_merchant_balance_for_token payee (s_token sub) first_share charge_kind
              | [] \<Rightarrow> ret ())
         (publish (ChargeEv (Ev_split_charge i
            (case entries of
               [] \<Rightarrow> []
             | (payee, _) # rest \<Rightarrow>
                 (payee, first_share) # map (\<lambda>(p, weight). (p, payee_share net_merchant_amount weight)) rest)
            (e_timestamp E)))))
     | None \<Rightarrow>
         credit_merchant_balance_for_token (s_merchant sub) (s_token sub) net_merchant_amount charge_kind)"

text \<open>A labelled subscription moves the merchant's credit to its sub-account.\<close>

definition route_to_sub_account :: "subscription \<Rightarrow> int \<Rightarrow> unit vm" where
  "route_to_sub_account sub merchant_amount =
     (case s_sub_account_label sub of
        None \<Rightarrow> ret ()
      | Some label \<Rightarrow>
          thn (credit_sub_account (s_merchant sub) label (s_token sub) merchant_amount)
          (bnd (get_merchant_balance_by_token (s_merchant sub) (s_token sub)) (\<lambda>parent_bal.
          bnd (lift (safe_sub parent_bal merchant_amount)) (\<lambda>new_parent_bal.
          set_merchant_balance (s_merchant sub) (s_token sub) new_parent_bal))))"

text \<open>
  Crediting the treasury; the result is the treasury with its fee and the conversion, when a fee
  event is due.
\<close>

definition credit_fee ::
  "env \<Rightarrow> subscription \<Rightarrow> int \<Rightarrow> address option \<Rightarrow> billing_charge_kind \<Rightarrow>
   ((address \<times> int \<times> fee_conversion) option) vm" where
  "credit_fee E sub fee_amount treasury_opt kind =
     (if fee_amount > 0 then
        bnd (convert_fee E (s_merchant sub) (s_token sub) fee_amount None) (\<lambda>(conv, _).
        case treasury_opt of
          Some treasury \<Rightarrow>
            thn (credit_merchant_balance_for_token treasury
                   (case fc_target_token conv of Some ft \<Rightarrow> ft | None \<Rightarrow> s_token sub)
                   (fc_effective_amount conv) kind)
            (ret (Some (treasury, fee_amount, conv)))
        | None \<Rightarrow> ret None)
      else ret None)"

definition publish_fee :: "nat \<Rightarrow> nat \<Rightarrow> (address \<times> int \<times> fee_conversion) option \<Rightarrow> unit vm" where
  "publish_fee i now should_emit =
     (case should_emit of
        None \<Rightarrow> ret ()
      | Some (treasury, fee, conv) \<Rightarrow>
          thn (publish (ChargeEv (Ev_protocol_fee_charged i fee treasury now)))
          (case fc_target_token conv of
             Some target \<Rightarrow>
               publish (ChargeEv (Ev_fee_converted i target fee (fc_effective_amount conv) (fc_rate conv) now))
           | None \<Rightarrow> ret ()))"

section \<open>Gates before the amount\<close>

text \<open>
  The merchant's pause and vacation flags, looked up once per merchant in a batch. The cache is
  threaded as a value: \<open>None\<close> outside a batch.
\<close>

type_synonym merchant_cache = "(address \<Rightarrow> (bool \<times> bool) option) option"

definition merchant_flags ::
  "subscription \<Rightarrow> nat \<Rightarrow> merchant_cache \<Rightarrow> ((bool \<times> bool) \<times> merchant_cache) vm" where
  "merchant_flags sub now cache =
     (let fresh = bnd (get_merchant_paused (s_merchant sub)) (\<lambda>paused.
                  bnd (is_merchant_in_vacation (s_merchant sub) now) (\<lambda>vacation. ret (paused, vacation))) in
      case cache of
        None \<Rightarrow> bnd fresh (\<lambda>status. ret (status, None))
      | Some c \<Rightarrow>
          (case c (s_merchant sub) of
             Some cached \<Rightarrow> ret (cached, cache)
           | None \<Rightarrow> bnd fresh (\<lambda>status. ret (status, Some (c(s_merchant sub \<mapsto> status))))))"

definition payee_gate :: "nat \<Rightarrow> nat \<Rightarrow> address \<times> nat \<Rightarrow> unit vm" where
  "payee_gate i now entry =
     (case entry of (payee, _) \<Rightarrow>
        thn (or_charge_fail i 0 now (require_not_blocklisted payee))
        (bnd (get_merchant_paused payee) (\<lambda>paused.
        if paused then charge_fail i E_MerchantPaused 0 now
        else
          bnd (is_merchant_in_vacation payee now) (\<lambda>vacation.
          if vacation then charge_fail i E_VacationActive 0 now else ret ()))))"

text \<open>Merchant, block list and payees.\<close>

definition party_gates :: "nat \<Rightarrow> nat \<Rightarrow> subscription \<Rightarrow> bool \<times> bool \<Rightarrow> unit vm" where
  "party_gates i now sub flags =
     (case flags of (merchant_paused, merchant_in_vacation) \<Rightarrow>
      if merchant_paused then charge_fail i E_MerchantPaused 0 now
      else if merchant_in_vacation then charge_fail i E_VacationActive 0 now
      else
        thn (or_charge_fail i 0 now (require_not_blocklisted (s_subscriber sub)))
        (thn (or_charge_fail i 0 now (require_not_blocklisted (s_merchant sub)))
        (bnd (get_split_payees i) (\<lambda>split.
        case split of
          Some entries \<Rightarrow> each (payee_gate i now) entries
        | None \<Rightarrow> ret ()))))"

definition expiry_gate :: "env \<Rightarrow> nat \<Rightarrow> nat \<Rightarrow> subscription \<Rightarrow> unit vm" where
  "expiry_gate E i now sub =
     (if is_expired sub now (e_sequence E) then
        thn (if s_status sub \<noteq> Expired then
               bnd (lift (transition_to (s_status sub) Expired)) (\<lambda>st.
               thn (write_subscription i (sub\<lparr>s_status := st\<rparr>))
               (publish (ChargeEv (Ev_subscription_expired i now))))
             else ret ())
        (charge_fail i E_SubscriptionExpired 0 now)
      else ret ())"

section \<open>The amount\<close>

definition charge_amount_stage :: "nat \<Rightarrow> nat \<Rightarrow> subscription \<Rightarrow> int vm" where
  "charge_amount_stage i now sub =
     bnd (or_charge_fail i 0 now (resolve_charge_amount i sub)) (\<lambda>gross.
     bnd (apply_discount_at_charge i now (s_token sub) gross) (\<lambda>(charge_amount, _).
     if s_proration_enabled sub \<and> s_last_payment_timestamp sub = s_start_time sub then
       let elapsed_seconds = now - s_start_time sub in
       or_charge_fail i charge_amount now
         (lift (calculate_prorated_first_charge charge_amount (s_interval_seconds sub) elapsed_seconds))
     else ret charge_amount))"

section \<open>Gates that may end the charge\<close>

text \<open>A lifetime cap that is already reached cancels the subscription.\<close>

definition cap_gate :: "nat \<Rightarrow> nat \<Rightarrow> subscription \<Rightarrow> (charge_execution_result option) vm" where
  "cap_gate i now sub =
     (case s_lifetime_cap sub of
        None \<Rightarrow> ret None
      | Some cap \<Rightarrow>
          if lifetime_cap_reached cap (s_lifetime_charged sub) then
            thn (if s_status sub \<noteq> Cancelled then
                   bnd (lift (transition_to (s_status sub) Cancelled)) (\<lambda>st.
                   thn (write_subscription i (sub\<lparr>s_status := st\<rparr>))
                   (publish (ChargeEv (Ev_lifetime_cap_reached i cap (s_lifetime_charged sub) now))))
                 else ret ())
            (ret (Some CER_LifetimeCapReached))
          else ret None)"

text \<open>A scheduled cancellation that is due refunds the prepaid balance.\<close>

definition cancel_gate :: "env \<Rightarrow> nat \<Rightarrow> nat \<Rightarrow> subscription \<Rightarrow> (charge_execution_result option) vm" where
  "cancel_gate E i now sub =
     (case s_cancel_at sub of
        None \<Rightarrow> ret None
      | Some cancel_at \<Rightarrow>
          if now \<ge> cancel_at then
            thn (if s_status sub \<noteq> Cancelled then
                   bnd (lift (transition_to (s_status sub) Cancelled)) (\<lambda>st.
                   let refund_amount = s_prepaid_balance sub;
                       sub' = sub\<lparr>s_status := st, s_prepaid_balance := 0, s_cancel_at := None\<rparr> in
                   thn (write_subscription i sub')
                   (thn (if refund_amount > 0 then
                           thn (token_transfer E (s_token sub) (e_self E) (s_subscriber sub) refund_amount)
                           (sub_total_accounted (s_token sub) refund_amount)
                         else ret ())
                   (publish (ChargeEv (Ev_subscription_cancelled i (s_subscriber sub) refund_amount now)))))
                 else ret ())
            (ret (Some CER_ScheduledCancellation))
          else ret None)"

definition status_gate :: "nat \<Rightarrow> nat \<Rightarrow> int \<Rightarrow> subscription \<Rightarrow> unit vm" where
  "status_gate i now charge_amount sub =
     (if s_status sub \<noteq> Active \<and> s_status sub \<noteq> GracePeriod then
        (if s_status sub = InsufficientBalance then
           bnd (lift (next_charge_time (s_last_payment_timestamp sub) (s_interval_seconds sub))) (\<lambda>next_allowed.
           if now < next_allowed then charge_fail i E_NotActive charge_amount now else ret ())
         else charge_fail i E_NotActive charge_amount now)
      else ret ())"

definition auto_renew_gate :: "nat \<Rightarrow> subscription \<Rightarrow> (charge_execution_result option) vm" where
  "auto_renew_gate now sub =
     (if \<not> s_auto_renew sub then
        bnd (lift (next_charge_time (s_last_payment_timestamp sub) (s_interval_seconds sub))) (\<lambda>next_allowed.
        if now \<ge> next_allowed then ret (Some CER_Skipped) else ret None)
      else ret None)"

section \<open>Period, salt and idempotency\<close>

text \<open>Period index, start and end; the division panics on a zero interval.\<close>

definition charge_period :: "nat \<Rightarrow> subscription \<Rightarrow> (nat \<times> nat \<times> nat) vm" where
  "charge_period now sub =
     (if s_interval_seconds sub = 0 then panic
      else
        let period_index = (now - s_start_time sub) div s_interval_seconds sub;
            period_start = sat_add_u64 (s_start_time sub) (sat_mul_u64 period_index (s_interval_seconds sub));
            period_end = sat_add_u64 period_start (s_interval_seconds sub)
        in ret (period_index, period_start, period_end))"

text \<open>\<open>dst.copy_from_slice(src)\<close> panics unless the two slices have the same length.\<close>

definition copy_from_slice :: "nat \<Rightarrow> bytes \<Rightarrow> bytes res" where
  "copy_from_slice dst_len src = (if length src = dst_len then Ok src else Panic)"

text \<open>
  The salt of a charge: subscription id, last payment and ledger sequence packed into 20 bytes. The
  sequence is a \<open>u32\<close>, four bytes for the eight bytes \<open>salt_buf[12..20]\<close>.
\<close>

definition charge_salt :: "env \<Rightarrow> nat \<Rightarrow> nat \<Rightarrow> bytes vm" where
  "charge_salt E i last_payment_timestamp =
     bnd (lift (copy_from_slice 4 (be_bytes4 i))) (\<lambda>a.
     bnd (lift (copy_from_slice 8 (be_bytes8 last_payment_timestamp))) (\<lambda>b.
     bnd (lift (copy_from_slice 8 (be_bytes4 (e_sequence E)))) (\<lambda>c.
     ret (e_sha256 E (a @ b @ c)))))"

definition salt_gate :: "nat \<Rightarrow> nat \<Rightarrow> int \<Rightarrow> bytes \<Rightarrow> unit vm" where
  "salt_gate i now charge_amount salt =
     bnd (gets (\<lambda>v. ch_salt (v_charge v) i)) (\<lambda>last_salt.
     if last_salt = Some salt then charge_fail i E_Replay charge_amount now else ret ())"

definition DOMAIN_CHARGE_INTERVAL :: nonce_domain where "DOMAIN_CHARGE_INTERVAL = ChargeInterval"

definition idem_gate :: "env \<Rightarrow> nat \<Rightarrow> bytes option \<Rightarrow> (charge_execution_result option) vm" where
  "idem_gate E i idempotency_key =
     (case idempotency_key of
        None \<Rightarrow> ret None
      | Some k \<Rightarrow>
          let hashed = hash_idem_key E (as_u32 DOMAIN_CHARGE_INTERVAL) i k in
          bnd (gets (\<lambda>v. check_key_at (v_idem v) i hashed (e_timestamp E))) (\<lambda>seen.
          ret (if seen then Some CER_Charged else None)))"

text \<open>The per-period replay guard and the interval check; the result is the next allowed time.\<close>

definition period_gate :: "nat \<Rightarrow> nat \<Rightarrow> int \<Rightarrow> nat \<Rightarrow> subscription \<Rightarrow> nat vm" where
  "period_gate i now charge_amount period_index sub =
     bnd (gets (\<lambda>v. ch_charged_period (v_charge v) i)) (\<lambda>stored.
     if (case stored of Some stored_period \<Rightarrow> period_index \<le> stored_period | None \<Rightarrow> False)
     then charge_fail i E_Replay charge_amount now
     else
       bnd (lift (next_charge_time (s_last_payment_timestamp sub) (s_interval_seconds sub))) (\<lambda>next_allowed.
       if now < next_allowed then charge_fail i E_IntervalNotElapsed charge_amount now
       else ret next_allowed))"

text \<open>A charge that would exceed the lifetime cap cancels the subscription instead.\<close>

definition cap_remaining_gate :: "nat \<Rightarrow> nat \<Rightarrow> int \<Rightarrow> subscription \<Rightarrow> (charge_execution_result option) vm" where
  "cap_remaining_gate i now charge_amount sub =
     (case s_lifetime_cap sub of
        None \<Rightarrow> ret None
      | Some cap \<Rightarrow>
          bnd (if lifetime_cap_reached cap (s_lifetime_charged sub) then ret 0
               else lift (safe_sub cap (s_lifetime_charged sub))) (\<lambda>remaining.
          if remaining = 0 \<or> charge_amount > remaining then
            bnd (lift (transition_to (s_status sub) Cancelled)) (\<lambda>st.
            thn (write_subscription i (sub\<lparr>s_status := st\<rparr>))
            (thn (publish (ChargeEv (Ev_lifetime_cap_reached i cap (s_lifetime_charged sub) now)))
            (ret (Some CER_LifetimeCapReached))))
          else ret None))"

section \<open>Settlement\<close>

text \<open>The configuration of the fee: cached for a batch, read otherwise.\<close>

definition fee_config :: "cached_admin_config option \<Rightarrow> (nat \<times> address option) vm" where
  "fee_config admin_config =
     (case admin_config of
        Some cfg \<Rightarrow> ret (ca_fee_bps cfg, ca_treasury cfg)
      | None \<Rightarrow>
          bnd get_protocol_fee_bps (\<lambda>fee_bps.
          bnd get_treasury (\<lambda>treasury. ret (fee_bps, treasury))))"

definition cap_now_reached :: "subscription \<Rightarrow> bool" where
  "cap_now_reached sub =
     (case s_lifetime_cap sub of Some cap \<Rightarrow> lifetime_cap_reached cap (s_lifetime_charged sub) | None \<Rightarrow> False)"

text \<open>The subscription record after a settled charge; the failure counter is cleared on the way.\<close>

definition clear_failures :: "nat \<Rightarrow> unit vm" where
  "clear_failures i = mod_charge (\<lambda>c. c\<lparr>ch_failure_counter := (ch_failure_counter c)(i := None)\<rparr>)"

definition settled_subscription :: "nat \<Rightarrow> nat \<Rightarrow> int \<Rightarrow> subscription \<Rightarrow> (subscription \<times> bool) vm" where
  "settled_subscription i now charge_amount sub0 =
     (let sub1 = sub0\<lparr>s_last_payment_timestamp := max now (s_last_payment_timestamp sub0)\<rparr> in
     bnd (lift (safe_add (s_lifetime_charged sub1) charge_amount)) (\<lambda>lifetime.
     let sub2 = sub1\<lparr>s_lifetime_charged := lifetime\<rparr> in
     bnd (if s_status sub2 = GracePeriod \<or> s_status sub2 = InsufficientBalance then
            bnd (lift (transition_to (s_status sub2) Active)) (\<lambda>st.
            ret (sub2\<lparr>s_status := st, s_grace_start_timestamp := None\<rparr>))
          else ret sub2) (\<lambda>sub3.
     thn (clear_failures i)
     (let cap_reached = cap_now_reached sub3 in
     bnd (if cap_reached then
            bnd (lift (transition_to (s_status sub3) Cancelled)) (\<lambda>st. ret (sub3\<lparr>s_status := st\<rparr>))
          else ret sub3) (\<lambda>sub4.
     ret (sub4, cap_reached))))))"

definition remember_key :: "env \<Rightarrow> nat \<Rightarrow> nat \<Rightarrow> bytes option \<Rightarrow> unit vm" where
  "remember_key E i now idempotency_key =
     (case idempotency_key of
        None \<Rightarrow> ret ()
      | Some k \<Rightarrow>
          zoom v_idem v_idem_update
            (push_key i (hash_idem_key E (as_u32 DOMAIN_CHARGE_INTERVAL) i k) now))"

definition publish_cap_reached :: "nat \<Rightarrow> nat \<Rightarrow> subscription \<Rightarrow> bool \<Rightarrow> unit vm" where
  "publish_cap_reached i now sub cap_reached =
     (if cap_reached then
        (case s_lifetime_cap sub of
           Some cap \<Rightarrow> publish (ChargeEv (Ev_lifetime_cap_reached i cap (s_lifetime_charged sub) now))
         | None \<Rightarrow> ret ())
      else ret ())"

text \<open>
  What settlement stores and publishes once the money is credited: \<open>period\<close> is period index, start and
  end, \<open>settled\<close> the new subscription and whether it reached its cap.
\<close>

definition record_settlement ::
  "env \<Rightarrow> nat \<Rightarrow> nat \<Rightarrow> bytes option \<Rightarrow> nat \<times> nat \<times> nat \<Rightarrow> bytes \<Rightarrow> int \<Rightarrow> nat \<Rightarrow> int \<Rightarrow>
   (address \<times> int \<times> fee_conversion) option \<Rightarrow> subscription \<times> bool \<Rightarrow> charge_execution_result vm" where
  "record_settlement E i now idempotency_key period salt charge_amount next_allowed merchant_amount should_emit
     settled =
     (case period of (period_index, period_start, period_end) \<Rightarrow>
     case settled of (sub, cap_reached) \<Rightarrow>
     thn (write_subscription i sub)
     (thn (publish_fee i now should_emit)
     (thn (zoom v_stmt v_stmt_update
             (append_statement i charge_amount (s_merchant sub) (s_token sub) Interval
                (next_allowed - s_interval_seconds sub) now))
     (thn (zoom v_snap v_snap_update
             (write_period_snapshot \<lparr>ps_subscription_id = i, ps_period_index = period_index,
                ps_period_start = next_allowed - s_interval_seconds sub, ps_period_end = now,
                ps_total_charged = charge_amount, ps_total_usage_units = 0,
                ps_status_flags = SNAPSHOT_FLAG_CLOSED OR SNAPSHOT_FLAG_INTERVAL_CHARGED,
                ps_finalized_at = now\<rparr>))
     (thn (mod_charge (\<lambda>c. c\<lparr>ch_charged_period := (ch_charged_period c)(i \<mapsto> period_index)\<rparr>))
     (thn (mod_charge (\<lambda>c. c\<lparr>ch_salt := (ch_salt c)(i \<mapsto> salt)\<rparr>))
     (thn (remember_key E i now idempotency_key)
     (thn (publish (ChargeEv (Ev_charged i merchant_amount (s_lifetime_charged sub) now
             period_start period_end salt (s_prepaid_balance sub))))
     (thn (publish_cap_reached i now sub cap_reached)
     (ret CER_Charged))))))))))"

text \<open>Settlement of a charge the prepaid balance covers; \<open>sub0\<close> is the subscription with the new balance.\<close>

definition settle_charge ::
  "env \<Rightarrow> nat \<Rightarrow> nat \<Rightarrow> bytes option \<Rightarrow> cached_admin_config option \<Rightarrow> nat \<times> nat \<times> nat \<Rightarrow> bytes \<Rightarrow>
   int \<Rightarrow> nat \<Rightarrow> subscription \<Rightarrow> charge_execution_result vm" where
  "settle_charge E i now idempotency_key admin_config period salt charge_amount next_allowed sub0 =
     bnd (fee_config admin_config) (\<lambda>(fee_bps, treasury_opt).
     bnd (lift (fee_split charge_amount fee_bps treasury_opt)) (\<lambda>(merchant_amount, fee_amount).
     thn (credit_charge_payees E i sub0 merchant_amount Interval)
     (thn (route_to_sub_account sub0 merchant_amount)
     (bnd (credit_fee E sub0 fee_amount treasury_opt Interval) (\<lambda>should_emit.
     bnd (settled_subscription i now charge_amount sub0) (\<lambda>settled.
     record_settlement E i now idempotency_key period salt charge_amount next_allowed merchant_amount
       should_emit settled))))))"

text \<open>The repeated-failure counter and the automatic pause.\<close>

definition auto_pause :: "env \<Rightarrow> nat \<Rightarrow> nat \<Rightarrow> nat \<Rightarrow> subscription_status \<Rightarrow> unit vm" where
  "auto_pause E i now threshold status =
     (if threshold > 0 \<and> status = InsufficientBalance then
        bnd (gets (\<lambda>v. sat_add_u32 (case ch_failure_counter (v_charge v) i of Some n \<Rightarrow> n | None \<Rightarrow> 0) 1)) (\<lambda>failures.
        thn (mod_charge (\<lambda>c. c\<lparr>ch_failure_counter := (ch_failure_counter c)(i \<mapsto> failures)\<rparr>))
        (if failures \<ge> threshold then
           bnd (attempt (get_subscription E i)) (\<lambda>r.
           case r of
             Inl e \<Rightarrow> panic
           | Inr sub2 \<Rightarrow>
               if s_status sub2 = InsufficientBalance then
                 (case transition_to (s_status sub2) Paused of
                    Ok st \<Rightarrow>
                      thn (write_subscription i (sub2\<lparr>s_status := st\<rparr>))
                      (thn (mod_charge (\<lambda>c. c\<lparr>ch_failure_counter := (ch_failure_counter c)(i := None)\<rparr>))
                      (publish (ChargeEv (Ev_auto_paused i failures threshold now))))
                  | _ \<Rightarrow> ret ())
               else ret ())
         else ret ()))
      else ret ())"

text \<open>The status an underfunded subscription moves to.\<close>

definition underfunded_subscription :: "nat \<Rightarrow> nat \<Rightarrow> subscription \<Rightarrow> subscription vm" where
  "underfunded_subscription now grace_secs sub =
     (if s_status sub = GracePeriod then
        (case s_grace_start_timestamp sub of
           Some grace_start \<Rightarrow>
             if grace_secs = 0 \<or> now \<ge> sat_add_u64 grace_start grace_secs then
               bnd (lift (transition_to (s_status sub) InsufficientBalance)) (\<lambda>st. ret (sub\<lparr>s_status := st\<rparr>))
             else ret sub
         | None \<Rightarrow> ret (sub\<lparr>s_grace_start_timestamp := Some now\<rparr>))
      else if grace_secs > 0 then
        bnd (lift (transition_to (s_status sub) GracePeriod)) (\<lambda>st.
        ret (sub\<lparr>s_status := st, s_grace_start_timestamp := Some now\<rparr>))
      else
        bnd (lift (transition_to (s_status sub) InsufficientBalance)) (\<lambda>st.
        ret (sub\<lparr>s_status := st, s_grace_start_timestamp := None\<rparr>)))"

definition fail_underfunded ::
  "env \<Rightarrow> nat \<Rightarrow> nat \<Rightarrow> cached_admin_config option \<Rightarrow> int \<Rightarrow> subscription \<Rightarrow> charge_execution_result vm" where
  "fail_underfunded E i now admin_config charge_amount sub0 =
     bnd (case admin_config of Some cfg \<Rightarrow> ret (ca_grace_duration cfg) | None \<Rightarrow> get_grace_period) (\<lambda>grace_secs.
     let previous_status = s_status sub0 in
     bnd (underfunded_subscription now grace_secs sub0) (\<lambda>sub.
     thn (write_subscription i sub)
     (thn (if grace_secs > 0 \<and> previous_status \<noteq> GracePeriod then
             publish (ChargeEv (Ev_grace_period_entered i previous_status (sat_add_u64 now grace_secs) now))
           else ret ())
     (let shortfall = max (sat_i128 (charge_amount - s_prepaid_balance sub)) 0 in
     thn (publish (ChargeEv (Ev_charge_failed i charge_amount (s_prepaid_balance sub) shortfall (s_status sub) now)))
     (bnd (case admin_config of Some cfg \<Rightarrow> ret (ca_auto_pause_threshold cfg) | None \<Rightarrow> get_auto_pause_threshold)
     (\<lambda>threshold.
     thn (auto_pause E i now threshold (s_status sub))
     (ret CER_InsufficientBalance)))))))"

text \<open>Everything after the salt: replay checks, cap and settlement.\<close>

definition charge_after_salt ::
  "env \<Rightarrow> nat \<Rightarrow> nat \<Rightarrow> bytes option \<Rightarrow> cached_admin_config option \<Rightarrow> nat \<times> nat \<times> nat \<Rightarrow> bytes \<Rightarrow>
   int \<Rightarrow> subscription \<Rightarrow> charge_execution_result vm" where
  "charge_after_salt E i now idempotency_key admin_config period salt charge_amount sub =
     thn (salt_gate i now charge_amount salt)
     (bnd (idem_gate E i idempotency_key) (\<lambda>early.
     case early of
       Some r \<Rightarrow> ret r
     | None \<Rightarrow>
         bnd (period_gate i now charge_amount (fst period) sub) (\<lambda>next_allowed.
         bnd (cap_remaining_gate i now charge_amount sub) (\<lambda>early.
         case early of
           Some r \<Rightarrow> ret r
         | None \<Rightarrow>
             (case safe_sub_balance (s_prepaid_balance sub) charge_amount of
                Ok new_balance \<Rightarrow>
                  settle_charge E i now idempotency_key admin_config period salt charge_amount next_allowed
                    (sub\<lparr>s_prepaid_balance := new_balance\<rparr>)
              | _ \<Rightarrow> fail_underfunded E i now admin_config charge_amount sub)))))"

text \<open>
  The body of \<open>charge_one\<close> once the merchant flags are known. The salt is a parameter so that what
  follows it can be stated for any salt; \<open>charge_one\<close> below uses the code's own.
\<close>

definition charge_with_flags ::
  "(nat \<Rightarrow> nat \<Rightarrow> bytes vm) \<Rightarrow> env \<Rightarrow> nat \<Rightarrow> nat \<Rightarrow> bytes option \<Rightarrow> cached_admin_config option \<Rightarrow>
   bool \<times> bool \<Rightarrow> subscription \<Rightarrow> charge_execution_result vm" where
  "charge_with_flags mk_salt E i now idempotency_key admin_config flags sub =
     thn (party_gates i now sub flags)
     (thn (expiry_gate E i now sub)
     (bnd (charge_amount_stage i now sub) (\<lambda>charge_amount.
     bnd (cap_gate i now sub) (\<lambda>early.
     case early of
       Some r \<Rightarrow> ret r
     | None \<Rightarrow>
         bnd (cancel_gate E i now sub) (\<lambda>early.
         case early of
           Some r \<Rightarrow> ret r
         | None \<Rightarrow>
             thn (status_gate i now charge_amount sub)
             (bnd (auto_renew_gate now sub) (\<lambda>early.
             case early of
               Some r \<Rightarrow> ret r
             | None \<Rightarrow>
                 bnd (charge_period now sub) (\<lambda>period.
                 bnd (mk_salt i (s_last_payment_timestamp sub)) (\<lambda>salt.
                 charge_after_salt E i now idempotency_key admin_config period salt charge_amount sub)))))))))"

definition charge_open :: "env \<Rightarrow> nat \<Rightarrow> nat \<Rightarrow> subscription vm" where
  "charge_open E i now =
     bnd (read_config cf_emergency_stop) (\<lambda>stop.
     if stop = Some True then charge_fail i E_EmergencyStopActive 0 now
     else or_charge_fail i 0 now (get_subscription E i))"

text \<open>
  \<open>charge_one\<close> with the batch's merchant cache: the result of the charge (an error or a success value)
  together with the cache as it is afterwards.
\<close>

definition charge_one_cached ::
  "(nat \<Rightarrow> nat \<Rightarrow> bytes vm) \<Rightarrow> env \<Rightarrow> nat \<Rightarrow> nat \<Rightarrow> bytes option \<Rightarrow> cached_admin_config option \<Rightarrow>
   merchant_cache \<Rightarrow> ((error + charge_execution_result) \<times> merchant_cache) vm" where
  "charge_one_cached mk_salt E i now idempotency_key admin_config cache =
     bnd (attempt (charge_open E i now)) (\<lambda>r.
     case r of
       Inl e \<Rightarrow> ret (Inl e, cache)
     | Inr sub \<Rightarrow>
         bnd (merchant_flags sub now cache) (\<lambda>(flags, cache').
         bnd (attempt (charge_with_flags mk_salt E i now idempotency_key admin_config flags sub)) (\<lambda>r.
         ret (r, cache'))))"

definition charge_one_with ::
  "(nat \<Rightarrow> nat \<Rightarrow> bytes vm) \<Rightarrow> env \<Rightarrow> nat \<Rightarrow> nat \<Rightarrow> bytes option \<Rightarrow> cached_admin_config option \<Rightarrow>
   charge_execution_result vm" where
  "charge_one_with mk_salt E i now idempotency_key admin_config =
     bnd (charge_one_cached mk_salt E i now idempotency_key admin_config None) (\<lambda>(r, _).
     case r of Inl e \<Rightarrow> fail e | Inr x \<Rightarrow> ret x)"

definition charge_one ::
  "env \<Rightarrow> nat \<Rightarrow> nat \<Rightarrow> bytes option \<Rightarrow> cached_admin_config option \<Rightarrow> charge_execution_result vm" where
  "charge_one E = charge_one_with (charge_salt E) E"

end
