(* ===== verification/Charge_Facts.thy ===== *)
theory Charge_Facts
  imports Charge_Core
begin

text \<open>
  Facts about interval charges: what the stages of \<open>charge_one\<close> do when they succeed, conservation of
  money by settlement, the caps and replay guards, and the paths the code cannot take.
\<close>

section \<open>Stages\<close>

lemma attempt_bnd_ok:
  "bnd (attempt m) (\<lambda>r. case r of Inl e \<Rightarrow> f e | Inr a \<Rightarrow> g a) s = (Ok b, t) \<longleftrightarrow>
     (\<exists>e u. m s = (Err e, u) \<and> f e u = (Ok b, t)) \<or> (\<exists>a u. m s = (Ok a, u) \<and> g a u = (Ok b, t))"
  by (cases "m s"; cases "fst (m s)") (auto simp: bnd_def attempt_def)

lemma charge_one_with_ok:
  "charge_one_with mk_salt E i now key cfg s = (Ok r, t) \<longleftrightarrow>
     (\<exists>sub u flags c v. charge_open E i now s = (Ok sub, u) \<and> merchant_flags sub now None u = (Ok (flags, c), v) \<and>
        charge_with_flags mk_salt E i now key cfg flags sub v = (Ok r, t))"
proof -
  have cached: "charge_one_cached mk_salt E i now key cfg None s = (Ok (Inr r, c), t) \<longleftrightarrow>
     (\<exists>sub u flags v. charge_open E i now s = (Ok sub, u) \<and> merchant_flags sub now None u = (Ok (flags, c), v) \<and>
        charge_with_flags mk_salt E i now key cfg flags sub v = (Ok r, t))" for c
    unfolding charge_one_cached_def attempt_bnd_ok
    by (auto simp: bnd_ok basic_ok attempt_ok)
  have "charge_one_with mk_salt E i now key cfg s = (Ok r, t) \<longleftrightarrow>
     (\<exists>c. charge_one_cached mk_salt E i now key cfg None s = (Ok (Inr r, c), t))"
    unfolding charge_one_with_def bnd_ok
    by (auto simp: basic_ok split: sum.split_asm)
  then show ?thesis unfolding cached by blast
qed

lemma charge_fail_run [act_run]:
  "charge_fail i e a now s = (Err e, s\<lparr>v_events := v_events s @ [ChargeEv (Ev_charge_failed_v2 i (to_code e) a now)]\<rparr>)"
  by (simp add: charge_fail_def act_run)

lemma charge_fail_ok [act_ok]: "charge_fail i e a now s = (Ok r, t) \<longleftrightarrow> False"
  by (simp add: charge_fail_run)

lemma or_charge_fail_ok [act_ok]: "or_charge_fail i a now m s = (Ok r, t) \<longleftrightarrow> m s = (Ok r, t)"
  by (cases "m s"; cases "fst (m s)") (auto simp: or_charge_fail_def act_run)

lemma keeps_charge_fail [keeps_intro]:
  "(\<And>s l. g (s\<lparr>v_events := l\<rparr>) = g s) \<Longrightarrow> keeps g (charge_fail i e a now)"
  by (simp add: keeps_def charge_fail_run)

lemma keeps_or_charge_fail [keeps_intro]:
  "(\<And>s l. g (s\<lparr>v_events := l\<rparr>) = g s) \<Longrightarrow> keeps g m \<Longrightarrow> keeps g (or_charge_fail i a now m)"
  by (auto simp: or_charge_fail_def intro!: keeps_intro split: sum.splits)

lemma safe_sub_fits: "fits_i128 (a - b) \<Longrightarrow> safe_sub a b = Ok (a - b)"
  by (simp add: safe_sub_def checked_sub_i128_def)

text \<open>The fee split never creates or loses a unit.\<close>

lemma fee_split_sum: "fee_split a bps tr = Ok (net, fee) \<Longrightarrow> net + fee = a \<and> 0 \<le> fee"
  by (auto simp: fee_split_def Let_def split: if_split_asm option.splits outcome.splits)

lemma fee_percentage_le:
  assumes "0 \<le> a" and "bps \<le> 10000"
  shows "0 \<le> a * int bps div 10000 \<and> a * int bps div 10000 \<le> a"
proof -
  have "a * int bps \<le> a * 10000" using assms by (intro mult_left_mono) auto
  then have "a * int bps div 10000 \<le> a * 10000 div 10000" by (intro zdiv_mono1) auto
  then show ?thesis using assms by (simp add: pos_imp_zdiv_nonneg_iff)
qed

lemma fee_split_eq:
  assumes "0 \<le> a" and "a \<le> MAX_SUBSCRIPTION_AMOUNT" and "bps \<le> 10000"
  shows "fee_split a bps tr =
      Ok (if bps > 0 \<and> tr \<noteq> None
          then (a - max (a * int bps div 10000) 1, max (a * int bps div 10000) 1) else (a, 0))"
proof -
  have w: "wrap_i128 (a * int bps) = a * int bps"
    using assms by (intro wrap_i128_id max_subscription_amount_mul) auto
  note pc = fee_percentage_le [OF assms(1,3)]
  have "a \<le> i128_max"
    using assms(1,2) by (simp add: MAX_SUBSCRIPTION_AMOUNT_def MAX_FEE_BIPS_def tdiv_nonneg i128_max_def)
  then have "fits_i128 (a - max (a * int bps div 10000) 1)"
    using pc assms(1) by (auto simp: fits_i128_def i128_min_def)
  then show ?thesis
    using assms(1) w by (simp add: fee_split_def Let_def tdiv_nonneg safe_sub_fits split: option.splits)
qed

lemma fee_split_parts:
  assumes "0 \<le> a" and "a \<le> MAX_SUBSCRIPTION_AMOUNT" and "bps \<le> 10000" and "fee_split a bps tr = Ok (net, fee)"
  shows "net + fee = a \<and> 0 \<le> fee \<and> - 1 \<le> net \<and> fits_i128 net \<and> (0 < fee \<longrightarrow> tr \<noteq> None)"
proof -
  have "a \<le> i128_max"
    using assms(1,2) by (simp add: MAX_SUBSCRIPTION_AMOUNT_def MAX_FEE_BIPS_def tdiv_nonneg i128_max_def)
  with assms fee_percentage_le [OF assms(1,3)] show ?thesis
    by (auto simp: fee_split_eq fits_i128_def i128_min_def split: if_split_asm)
qed

text \<open>
  The protocol fee is bounded and exact: for an amount a subscription can have and a rate of at
  most 100 percent, the fee is the floor of the percentage, at least one unit when a rate and a
  treasury are set, net amount and fee add up to the charge, and the fee exceeds the charge only for
  a charge of zero, which a positive rate turns into a negative net amount.
\<close>

theorem fee_split_bounds:
  assumes "0 \<le> a" and "a \<le> MAX_SUBSCRIPTION_AMOUNT" and "bps \<le> 10000"
  shows "fee_split a bps tr =
      Ok (if bps > 0 \<and> tr \<noteq> None
          then (a - max (a * int bps div 10000) 1, max (a * int bps div 10000) 1) else (a, 0)) \<and>
    (0 < a \<longrightarrow> max (a * int bps div 10000) 1 \<le> a) \<and>
    (0 < bps \<longrightarrow> fee_split 0 bps (Some (Addr 0)) = Ok (-1, 1))"
proof -
  have "0 < bps \<Longrightarrow> fee_split 0 bps (Some (Addr 0)) = Ok (-1, 1)"
    by (simp add: fee_split_def Let_def tdiv_nonneg safe_sub_def checked_sub_i128_def int_bounds)
  with fee_split_eq [OF assms] fee_percentage_le [OF assms(1,3)] show ?thesis by auto
qed

theorem fee_split_bounds_witness: "fee_split 1999 250 (Some (Addr 4)) = Ok (1950, 49)"
  using fee_split_bounds [of 1999 250 "Some (Addr 4)"]
  by (simp add: MAX_SUBSCRIPTION_AMOUNT_def MAX_FEE_BIPS_def tdiv_nonneg int_bounds)

section \<open>Crediting the payees\<close>

definition credit_all :: "billing_charge_kind \<Rightarrow> ((address \<times> address) \<times> int) list \<Rightarrow> unit vm" where
  "credit_all kind = each (\<lambda>(k, a). credit_merchant_balance_for_token (fst k) (snd k) a kind)"

definition other_credits :: "address \<Rightarrow> int \<Rightarrow> (address \<times> nat) list \<Rightarrow> ((address \<times> address) \<times> int) list" where
  "other_credits token net entries = map (\<lambda>e. ((fst e, token), payee_share net (snd e))) entries"

lemma credit_others_credits:
  "credit_others token net kind entries acc s = (Ok r, t) \<Longrightarrow>
   credit_all kind (other_credits token net entries) s = (Ok (), t) \<and>
   r = acc + (\<Sum>x \<leftarrow> other_credits token net entries. snd x) \<and> (entries \<noteq> [] \<longrightarrow> fits_i128 r)"
proof (induction entries arbitrary: acc s)
  case Nil
  then show ?case by (simp add: act_ok credit_all_def other_credits_def)
next
  case (Cons e rest)
  obtain p w where e: "e = (p, w)" by (cases e)
  from Cons.prems e obtain v where fits: "fits_i128 (acc + payee_share net w)"
    and one: "credit_merchant_balance_for_token p token (payee_share net w) kind s = (Ok (), v)"
    and rest: "credit_others token net kind rest (acc + payee_share net w) v = (Ok r, t)"
    by (auto simp: act_ok Let_def)
  from Cons.IH [OF rest] one fits e show ?case
    by (auto simp: credit_all_def other_credits_def act_ok)
qed

lemma credit_all_snoc:
  "credit_all kind xs s = (Ok (), v) \<Longrightarrow>
   credit_merchant_balance_for_token m tk a kind v = (Ok u, t) \<Longrightarrow>
   credit_all kind (xs @ [((m, tk), a)]) s = (Ok (), t)"
  by (induction xs arbitrary: s) (auto simp: credit_all_def act_ok)

lemma credit_charge_payees_credits:
  assumes run: "credit_charge_payees E i sub net kind s = (Ok u, t)"
    and net: "- 1 \<le> net" "fits_i128 net"
    and ne: "su_split_payees (v_subs s) i \<noteq> Some []"
  shows "\<exists>xs v. credit_all kind xs s = (Ok (), v) \<and> (\<Sum>x \<leftarrow> xs. snd x) = net \<and>
    (\<forall>x \<in> set xs. snd (fst x) = s_token sub) \<and>
    (\<exists>ev. t = v\<lparr>v_events := ev\<rparr>) \<and>
    fst ` fst ` set xs = (case su_split_payees (v_subs s) i of
      Some entries \<Rightarrow> fst ` set entries | None \<Rightarrow> {s_merchant sub})"
proof (cases "su_split_payees (v_subs s) i")
  case None
  with run have one: "credit_merchant_balance_for_token (s_merchant sub) (s_token sub) net kind s = (Ok (), t)"
    by (auto simp: credit_charge_payees_def act_ok)
  let ?xs = "[((s_merchant sub, s_token sub), net)]"
  have "credit_all kind ?xs s = (Ok (), t)" using one by (simp add: credit_all_def act_ok)
  moreover have "\<exists>ev. t = t\<lparr>v_events := ev\<rparr>" by (rule exI [of _ "v_events t"]) simp
  ultimately show ?thesis
    unfolding None option.case by (intro exI [of _ ?xs] exI [of _ t]) simp
next
  case (Some entries)
  with ne obtain p w rest where entries: "entries = (p, w) # rest" by (cases entries) auto
  from run Some entries obtain total v v' where
    others: "credit_others (s_token sub) net kind rest 0 s = (Ok total, v)"
    and first: "credit_merchant_balance_for_token p (s_token sub) (wrap_i128 (net - total)) kind v = (Ok (), v')"
    and t: "\<exists>ev. t = v'\<lparr>v_events := ev\<rparr>"
    by (auto simp: credit_charge_payees_def act_ok Let_def)
  note oc = credit_others_credits [OF others]
  have "0 \<le> total"
  proof -
    have "\<forall>x \<in> set (other_credits (s_token sub) net rest). 0 \<le> snd x"
      using credits.each_credit [of kind] oc by (fastforce simp: credit_all_def)
    then have "0 \<le> (\<Sum>x \<leftarrow> other_credits (s_token sub) net rest. snd x)" by (intro sum_list_nonneg) auto
    then show ?thesis using oc by simp
  qed
  moreover have "fits_i128 total" using oc by (cases "rest = []") (auto simp: other_credits_def)
  ultimately have fits: "fits_i128 (net - total)"
    using net by (auto simp: fits_i128_def i128_min_def i128_max_def)
  let ?xs = "other_credits (s_token sub) net rest @ [((p, s_token sub), net - total)]"
  have "credit_all kind ?xs s = (Ok (), v')"
    using credit_all_snoc [of kind _ s v p "s_token sub" "net - total" "()" v'] oc first fits by simp
  moreover have "(\<Sum>x \<leftarrow> ?xs. snd x) = net" using oc by simp
  ultimately show ?thesis using t Some entries
    by (intro exI [of _ ?xs] exI [of _ v']) (auto simp: other_credits_def image_image)
qed

section \<open>Settlement\<close>

lemma fee_config_ok [act_ok]:
  "fee_config cfg s = (Ok r, t) \<longleftrightarrow> t = s \<and> r = (case cfg of
      Some c \<Rightarrow> (ca_fee_bps c, ca_treasury c)
    | None \<Rightarrow> (case config_value cf_fee_bps (v_admin s) of Some b \<Rightarrow> b | None \<Rightarrow> 0, config_value cf_treasury (v_admin s)))"
  by (auto simp: fee_config_def act_ok split: option.splits)

lemma settled_subscription_ok [act_ok]:
  "settled_subscription i now a sub0 s = (Ok (sub, cap), t) \<longleftrightarrow>
     t = s\<lparr>v_charge := (v_charge s)\<lparr>ch_failure_counter := (ch_failure_counter (v_charge s))(i := None)\<rparr>\<rparr> \<and>
     fits_i128 (s_lifetime_charged sub0 + a) \<and>
     (let st1 = (if s_status sub0 = GracePeriod \<or> s_status sub0 = InsufficientBalance then Active else s_status sub0) in
      cap = (case s_lifetime_cap sub0 of Some c \<Rightarrow> c \<le> s_lifetime_charged sub0 + a | None \<Rightarrow> False) \<and>
      (cap \<longrightarrow> can_transition st1 Cancelled) \<and>
      sub = sub0\<lparr>s_last_payment_timestamp := max now (s_last_payment_timestamp sub0),
        s_lifetime_charged := s_lifetime_charged sub0 + a,
        s_grace_start_timestamp := (if s_status sub0 = GracePeriod \<or> s_status sub0 = InsufficientBalance
            then None else s_grace_start_timestamp sub0),
        s_status := (if cap then Cancelled else st1)\<rparr>)"
  by (cases "s_status sub0 = GracePeriod \<or> s_status sub0 = InsufficientBalance")
    (auto simp: settled_subscription_def clear_failures_def act_ok Let_def cap_now_reached_def
      lifetime_cap_reached_def can_transition_def split: option.splits)

lemma remember_key_ok:
  assumes "remember_key E i now key s = (Ok u, t)"
  shows "\<exists>st. t = s\<lparr>v_idem := st\<rparr> \<and>
    (case key of None \<Rightarrow> st = v_idem s
     | Some k \<Rightarrow> push_key i (hash_idem_key E (as_u32 DOMAIN_CHARGE_INTERVAL) i k) now (v_idem s) = (Ok (), st))"
  using assms by (cases key) (auto simp: remember_key_def act_ok)

lemma publish_fee_ok: "publish_fee i now emit s = (Ok u, t) \<Longrightarrow> \<exists>ev. t = s\<lparr>v_events := ev\<rparr>"
  by (cases s) (auto simp: publish_fee_def act_ok split: option.splits prod.splits)

lemma publish_cap_reached_ok: "publish_cap_reached i now sub cap s = (Ok u, t) \<Longrightarrow> \<exists>ev. t = s\<lparr>v_events := ev\<rparr>"
  by (cases s) (auto simp: publish_cap_reached_def act_ok split: option.splits if_split_asm)

text \<open>What the bookkeeping of a settled charge leaves behind.\<close>

lemma record_settlement_ok:
  assumes "record_settlement E i now key (p, ps, pe) salt a nxt net emit (sub, cap) s = (Ok r, t)"
  shows "r = CER_Charged \<and> v_merchant t = v_merchant s \<and> v_ledger t = v_ledger s \<and> v_admin t = v_admin s \<and>
    v_subs t = (v_subs s)\<lparr>su_sub := (su_sub (v_subs s))(i \<mapsto> sub)\<rparr> \<and>
    ch_charged_period (v_charge t) = (ch_charged_period (v_charge s))(i \<mapsto> p) \<and>
    ch_salt (v_charge t) = (ch_salt (v_charge s))(i \<mapsto> salt) \<and>
    ch_failure_counter (v_charge t) = ch_failure_counter (v_charge s) \<and>
    (case key of None \<Rightarrow> v_idem t = v_idem s
     | Some k \<Rightarrow> push_key i (hash_idem_key E (as_u32 DOMAIN_CHARGE_INTERVAL) i k) now (v_idem s) = (Ok (), v_idem t))"
  using assms
  by (auto simp: record_settlement_def act_ok
      dest!: publish_fee_ok publish_cap_reached_ok remember_key_ok split: option.splits)


lemma fee_config_same: "fee_config cfg s = (Ok r, t) \<Longrightarrow> t = s"
  by (simp add: fee_config_ok)

lemma settle_charge_ok:
  assumes "settle_charge E i now key cfg period salt a nxt sub0 s = (Ok r, t)"
  obtains bps tr net fee v1 v2 emit v3 sub cap v4 where
    "fee_config cfg s = (Ok (bps, tr), s)" "fee_split a bps tr = Ok (net, fee)"
    "credit_charge_payees E i sub0 net Interval s = (Ok (), v1)"
    "route_to_sub_account sub0 net v1 = (Ok (), v2)"
    "credit_fee E sub0 fee tr Interval v2 = (Ok emit, v3)"
    "settled_subscription i now a sub0 v3 = (Ok (sub, cap), v4)"
    "record_settlement E i now key period salt a nxt net emit (sub, cap) v4 = (Ok r, t)"
proof -
  from assms obtain bps tr w where 1: "fee_config cfg s = (Ok (bps, tr), w)"
    and "bnd (lift (fee_split a bps tr)) (\<lambda>(net, fee).
      thn (credit_charge_payees E i sub0 net Interval)
      (thn (route_to_sub_account sub0 net)
      (bnd (credit_fee E sub0 fee tr Interval) (\<lambda>emit.
      bnd (settled_subscription i now a sub0) (\<lambda>settled.
      record_settlement E i now key period salt a nxt net emit settled))))) w = (Ok r, t)"
    unfolding settle_charge_def bnd_ok [of "fee_config cfg"] by auto
  then obtain net fee v1 v2 emit v3 settled v4 where
    2: "fee_split a bps tr = Ok (net, fee)" "credit_charge_payees E i sub0 net Interval w = (Ok (), v1)"
    "route_to_sub_account sub0 net v1 = (Ok (), v2)"
    "credit_fee E sub0 fee tr Interval v2 = (Ok emit, v3)"
    and 3: "settled_subscription i now a sub0 v3 = (Ok settled, v4)"
    and 4: "record_settlement E i now key period salt a nxt net emit settled v4 = (Ok r, t)"
    by (auto simp: bnd_ok thn_ok basic_ok)
  obtain sub cap where "settled = (sub, cap)" by (cases settled)
  with that 1 2 3 4 fee_config_same [OF 1] show thesis by blast
qed


section \<open>Conservation\<close>

text \<open>What crediting and routing do not touch.\<close>

definition untouched :: "vault \<Rightarrow> vault \<Rightarrow> bool" where
  "untouched s t \<longleftrightarrow> v_admin t = v_admin s \<and> v_subs t = v_subs s \<and> v_charge t = v_charge s \<and>
     v_idem t = v_idem s \<and> v_ledger t = v_ledger s \<and> v_stmt t = v_stmt s \<and> v_snap t = v_snap s"

lemma untouched_trans: "untouched s t \<Longrightarrow> untouched t u \<Longrightarrow> untouched s u"
  by (simp add: untouched_def)

lemma credit_frame:
  "credit_merchant_balance_for_token m tk a kind s = (Ok u, t) \<Longrightarrow>
   untouched s t \<and> sub_account_balance t = sub_account_balance s"
  by (erule credit_run) (simp add: untouched_def fun_eq_iff sub_account_balance_def)

lemma credit_all_frame:
  "credit_all kind xs s = (Ok u, t) \<Longrightarrow> untouched s t \<and> sub_account_balance t = sub_account_balance s"
proof (induction xs arbitrary: s)
  case Nil
  then show ?case by (simp add: credit_all_def act_ok untouched_def)
next
  case (Cons x xs)
  from Cons.prems obtain v where
    one: "credit_merchant_balance_for_token (fst (fst x)) (snd (fst x)) (snd x) kind s = (Ok (), v)"
    and rest: "credit_all kind xs v = (Ok u, t)"
    by (cases x) (auto simp: credit_all_def act_ok)
  from Cons.IH [OF rest] credit_frame [OF one] show ?case by (auto intro: untouched_trans)
qed

lemma credit_all_total:
  assumes run: "credit_all kind xs s = (Ok u, t)" and fin: "finite K"
    and dom: "fst ` fst ` set xs \<subseteq> K" and tok: "\<forall>x \<in> set xs. snd (fst x) = tk"
  shows "(\<Sum>m \<in> K. merchant_balance t m tk) = (\<Sum>m \<in> K. merchant_balance s m tk) + (\<Sum>x \<leftarrow> xs. snd x)"
proof -
  have eq: "(\<Sum>k \<in> K \<times> {tk}. merchant_balance v (fst k) (snd k)) = (\<Sum>m \<in> K. merchant_balance v m tk)" for v
    by (rule sum.reindex_cong [of "\<lambda>m. (m, tk)"]) (auto simp: inj_on_def)
  have "fst ` set xs \<subseteq> K \<times> {tk}" using dom tok by force
  with credits.each_credit_total [of kind xs s u t "K \<times> {tk}"] run fin show ?thesis
    by (simp add: credit_all_def eq)
qed

lemma sub_account_balance_event [simp]: "sub_account_balance (v\<lparr>v_events := ev\<rparr>) = sub_account_balance v"
  by (simp add: fun_eq_iff sub_account_balance_def)

text \<open>The sub-account a subscription is labelled with.\<close>

definition label_balance :: "vault \<Rightarrow> subscription \<Rightarrow> int" where
  "label_balance v sub =
     (case s_sub_account_label sub of Some label \<Rightarrow> sub_account_balance v (s_merchant sub) label | None \<Rightarrow> 0)"

definition payees :: "vault \<Rightarrow> nat \<Rightarrow> subscription \<Rightarrow> address set" where
  "payees v i sub =
     (case su_split_payees (v_subs v) i of Some entries \<Rightarrow> fst ` set entries | None \<Rightarrow> {s_merchant sub})"

lemma route_to_sub_account_total:
  assumes run: "route_to_sub_account sub a s = (Ok u, t)" and fin: "finite K" and mem: "s_merchant sub \<in> K"
  shows "(\<Sum>m \<in> K. merchant_balance t m (s_token sub)) + label_balance t sub =
    (\<Sum>m \<in> K. merchant_balance s m (s_token sub)) + label_balance s sub \<and> untouched s t"
proof (cases "s_sub_account_label sub")
  case None
  with run show ?thesis by (simp add: route_to_sub_account_def act_ok untouched_def label_balance_def)
next
  case (Some label)
  let ?m = "s_merchant sub" and ?tk = "s_token sub"
  from run Some have "\<forall>m. merchant_balance t m ?tk =
      (if m = ?m then merchant_balance s ?m ?tk - a else merchant_balance s m ?tk)"
    and lab: "sub_account_balance t ?m label = sub_account_balance s ?m label + a" and fr: "untouched s t"
    by (auto simp: route_to_sub_account_def credit_sub_account_def require_sub_account_exists_def
        set_sub_account_def act_ok checked_add_i128_def untouched_def sub_account_balance_def
        merchant_balance_def split: if_split_asm)
  then have "(\<Sum>m \<in> K. merchant_balance t m ?tk) =
      (\<Sum>m \<in> K. merchant_balance s m ?tk + (if m = ?m then - a else 0))"
    by (intro sum.cong) auto
  also have "\<dots> = (\<Sum>m \<in> K. merchant_balance s m ?tk) - a"
    using fin mem by (simp add: sum.distrib)
  finally show ?thesis using lab fr Some by (simp add: label_balance_def)
qed

lemma credit_fee_total:
  assumes run: "credit_fee E sub fee tr kind s = (Ok emit, t)" and fin: "finite K" and mem: "set_option tr \<subseteq> K"
    and plain: "config_value cf_fee_token (v_admin s) = None" and ok: "0 \<le> fee" "0 < fee \<Longrightarrow> tr \<noteq> None"
  shows "(\<Sum>m \<in> K. merchant_balance t m (s_token sub)) = (\<Sum>m \<in> K. merchant_balance s m (s_token sub)) + fee \<and>
    untouched s t \<and> sub_account_balance t = sub_account_balance s"
proof (cases "0 < fee")
  case True
  with ok obtain tre where tr: "tr = Some tre" by auto
  from run True tr plain have one: "credit_merchant_balance_for_token tre (s_token sub) fee kind s = (Ok (), t)"
    by (auto simp: credit_fee_def convert_fee_def no_conversion_def act_ok)
  then have "credit_all kind [((tre, s_token sub), fee)] s = (Ok (), t)" by (simp add: credit_all_def act_ok)
  from credit_all_total [OF this fin, of "s_token sub"] credit_frame [OF one] mem tr show ?thesis by simp
next
  case False
  with run ok show ?thesis by (auto simp: credit_fee_def act_ok untouched_def)
qed


section \<open>Charging after the salt is known\<close>

lemma fail_underfunded_result:
  "fail_underfunded E i now cfg a sub s = (Ok r, t) \<Longrightarrow> r = CER_InsufficientBalance"
  by (auto simp: fail_underfunded_def bnd_ok thn_ok basic_ok Let_def)

lemma salt_gate_ok: "salt_gate i now a salt s = (Ok u, t) \<longleftrightarrow> t = s \<and> ch_salt (v_charge s) i \<noteq> Some salt"
  by (auto simp: salt_gate_def act_ok split: if_split_asm)

lemma idem_gate_same: "idem_gate E i key s = (Ok r, t) \<Longrightarrow> t = s"
  by (cases key) (auto simp: idem_gate_def act_ok Let_def)

lemma period_gate_ok:
  "period_gate i now a p sub s = (Ok nxt, t) \<longleftrightarrow>
     t = s \<and> (\<forall>q. ch_charged_period (v_charge s) i = Some q \<longrightarrow> q < p) \<and>
     nxt = s_last_payment_timestamp sub + s_interval_seconds sub \<and> nxt \<le> now \<and> nxt \<le> u64_max"
  by (auto simp: period_gate_def act_ok next_charge_time_def checked_add_u64_def split: option.splits)

lemma cap_remaining_gate_Some:
  "cap_remaining_gate i now a sub s = (Ok (Some r), t) \<Longrightarrow>
   \<exists>cap ev. s_lifetime_cap sub = Some cap \<and> r = CER_LifetimeCapReached \<and>
     (cap - s_lifetime_charged sub < a \<or> cap \<le> s_lifetime_charged sub) \<and>
     can_transition (s_status sub) Cancelled \<and>
     t = s\<lparr>v_subs := (v_subs s)\<lparr>su_sub := (su_sub (v_subs s))(i \<mapsto> sub\<lparr>s_status := Cancelled\<rparr>)\<rparr>, v_events := ev\<rparr>"
  by (cases "s_lifetime_cap sub"; cases "s_lifetime_charged sub \<ge> the (s_lifetime_cap sub)")
    (auto simp: cap_remaining_gate_def act_ok lifetime_cap_reached_def split: if_split_asm)

lemma cap_remaining_gate_None:
  "cap_remaining_gate i now a sub s = (Ok None, t) \<Longrightarrow>
   t = s \<and> (\<forall>cap. s_lifetime_cap sub = Some cap \<longrightarrow> s_lifetime_charged sub + a \<le> cap)"
  by (cases "s_lifetime_cap sub"; cases "s_lifetime_charged sub \<ge> the (s_lifetime_cap sub)")
    (auto simp: cap_remaining_gate_def act_ok lifetime_cap_reached_def split: if_split_asm)

text \<open>What it takes for a charge to be settled.\<close>

lemma charge_after_salt_cases:
  assumes run: "charge_after_salt E i now key cfg period salt a sub s = (Ok r, t)"
    and fits: "fits_i128 (s_prepaid_balance sub)"
  obtains
    (repeated) k where "key = Some k" "r = CER_Charged" "t = s"
      "check_key_at (v_idem s) i (hash_idem_key E (as_u32 DOMAIN_CHARGE_INTERVAL) i k) (e_timestamp E)"
  | (capped) cap where "s_lifetime_cap sub = Some cap" "r = CER_LifetimeCapReached"
      "cap - s_lifetime_charged sub < a \<or> cap \<le> s_lifetime_charged sub"
      "can_transition (s_status sub) Cancelled"
      "\<exists>ev. t = s\<lparr>v_subs := (v_subs s)\<lparr>su_sub := (su_sub (v_subs s))(i \<mapsto> sub\<lparr>s_status := Cancelled\<rparr>)\<rparr>,
          v_events := ev\<rparr>"
  | (settled) nxt where "0 \<le> a" "a \<le> s_prepaid_balance sub"
      "\<forall>q. ch_charged_period (v_charge s) i = Some q \<longrightarrow> q < fst period"
      "ch_salt (v_charge s) i \<noteq> Some salt"
      "nxt = s_last_payment_timestamp sub + s_interval_seconds sub" "nxt \<le> now"
      "\<forall>cap. s_lifetime_cap sub = Some cap \<longrightarrow> s_lifetime_charged sub + a \<le> cap"
      "settle_charge E i now key cfg period salt a nxt
         (sub\<lparr>s_prepaid_balance := s_prepaid_balance sub - a\<rparr>) s = (Ok r, t)"
  | (underfunded) "a < 0 \<or> s_prepaid_balance sub < a"
      "s_last_payment_timestamp sub + s_interval_seconds sub \<le> now"
      "fail_underfunded E i now cfg a sub s = (Ok r, t)"
proof -
  from run obtain early where salt: "ch_salt (v_charge s) i \<noteq> Some salt"
    and early: "idem_gate E i key s = (Ok early, s)"
    and rest: "(case early of Some r \<Rightarrow> ret r | None \<Rightarrow>
         bnd (period_gate i now a (fst period) sub) (\<lambda>next_allowed.
         bnd (cap_remaining_gate i now a sub) (\<lambda>early.
         case early of
           Some r \<Rightarrow> ret r
         | None \<Rightarrow>
             (case safe_sub_balance (s_prepaid_balance sub) a of
                Ok new_balance \<Rightarrow>
                  settle_charge E i now key cfg period salt a next_allowed
                    (sub\<lparr>s_prepaid_balance := new_balance\<rparr>)
              | _ \<Rightarrow> fail_underfunded E i now cfg a sub)))) s = (Ok r, t)"
    unfolding charge_after_salt_def thn_ok bnd_ok [of "idem_gate E i key"] salt_gate_ok
    by (metis idem_gate_same)
  show thesis
  proof (cases early)
    case (Some x)
    with early rest repeated show thesis
      by (cases key) (auto simp: idem_gate_def act_ok Let_def split: if_split_asm)
  next
    case None
    from rest [unfolded None option.case bnd_ok [of "period_gate i now a (fst period) sub"]]
    obtain nxt u where gate: "period_gate i now a (fst period) sub s = (Ok nxt, u)"
      and next_step: "bnd (cap_remaining_gate i now a sub) (\<lambda>early.
         case early of
           Some r \<Rightarrow> ret r
         | None \<Rightarrow>
             (case safe_sub_balance (s_prepaid_balance sub) a of
                Ok new_balance \<Rightarrow>
                  settle_charge E i now key cfg period salt a nxt (sub\<lparr>s_prepaid_balance := new_balance\<rparr>)
              | _ \<Rightarrow> fail_underfunded E i now cfg a sub)) u = (Ok r, t)"
      by (elim exE conjE)
    from gate have u: "u = s" by (simp only: period_gate_ok)
    from next_step [unfolded u bnd_ok [of "cap_remaining_gate i now a sub"]]
    obtain early2 v where cap: "cap_remaining_gate i now a sub s = (Ok early2, v)"
      and rest2: "(case early2 of Some r \<Rightarrow> ret r | None \<Rightarrow>
             (case safe_sub_balance (s_prepaid_balance sub) a of
                Ok new_balance \<Rightarrow>
                  settle_charge E i now key cfg period salt a nxt (sub\<lparr>s_prepaid_balance := new_balance\<rparr>)
              | _ \<Rightarrow> fail_underfunded E i now cfg a sub)) v = (Ok r, t)"
      by (elim exE conjE)
    from gate have per: "\<forall>q. ch_charged_period (v_charge s) i = Some q \<longrightarrow> q < fst period"
      and nxt: "nxt = s_last_payment_timestamp sub + s_interval_seconds sub" "nxt \<le> now"
      by (simp_all add: period_gate_ok)
    show thesis
    proof (cases early2)
      case (Some x)
      with rest2 have r: "r = x" "t = v" by (simp_all add: basic_ok)
      from cap_remaining_gate_Some [OF cap [unfolded Some]] show thesis
        by (elim exE conjE) (rule capped; auto simp: r)
    next
      case None
      with cap have v: "v = s"
        and room: "\<forall>cap. s_lifetime_cap sub = Some cap \<longrightarrow> s_lifetime_charged sub + a \<le> cap"
        using cap_remaining_gate_None by blast+
      show thesis
      proof (cases "0 \<le> a \<and> a \<le> s_prepaid_balance sub")
        case True
        with fits have "safe_sub_balance (s_prepaid_balance sub) a = Ok (s_prepaid_balance sub - a)" by simp
        with rest2 None v have "settle_charge E i now key cfg period salt a nxt
            (sub\<lparr>s_prepaid_balance := s_prepaid_balance sub - a\<rparr>) s = (Ok r, t)" by simp
        with settled True per salt nxt room show thesis by blast
      next
        case False
        then have neg: "a < 0 \<or> s_prepaid_balance sub < a" by auto
        with fits have "safe_sub_balance (s_prepaid_balance sub) a = Err E_Underflow"
          by (simp add: safe_sub_balance_Err)
        with rest2 None v have "fail_underfunded E i now cfg a sub s = (Ok r, t)" by simp
        with underfunded neg nxt show thesis by blast
      qed
    qed
  qed
qed


text \<open>Frames of the crediting stages, for every outcome.\<close>

lemma keeps_credit [keeps_intro]:
  "(\<And>s x. g (s\<lparr>v_merchant := x\<rparr>) = g s) \<Longrightarrow> keeps g (credit_merchant_balance_for_token m tk a kind)"
  by (auto simp: credit_merchant_balance_for_token_def get_merchant_balance_by_token_def set_merchant_balance_def
      get_merchant_token_earnings_def set_merchant_token_earnings_def add_merchant_token_def accrue_def
      add_total_accounted_def Let_def intro!: keeps_intro split: billing_charge_kind.splits)

lemma keeps_credit_others [keeps_intro]:
  "(\<And>s x. g (s\<lparr>v_merchant := x\<rparr>) = g s) \<Longrightarrow> keeps g (credit_others tk net kind entries acc)"
  by (induction entries arbitrary: acc) (auto simp: Let_def intro!: keeps_intro)

lemma keeps_credit_charge_payees [keeps_intro]:
  "(\<And>s x. g (s\<lparr>v_merchant := x\<rparr>) = g s) \<Longrightarrow> (\<And>s l. g (s\<lparr>v_events := l\<rparr>) = g s) \<Longrightarrow>
   keeps g (credit_charge_payees E i sub net kind)"
  by (auto simp: credit_charge_payees_def Let_def intro!: keeps_intro split: list.splits)

lemma keeps_route_to_sub_account [keeps_intro]:
  "(\<And>s x. g (s\<lparr>v_merchant := x\<rparr>) = g s) \<Longrightarrow> keeps g (route_to_sub_account sub a)"
  by (auto simp: route_to_sub_account_def credit_sub_account_def require_sub_account_exists_def
      set_sub_account_def get_merchant_balance_by_token_def set_merchant_balance_def Let_def intro!: keeps_intro)

lemma keeps_convert_fee [keeps_intro]: "keeps g (convert_fee E m tk fee cache)"
  by (auto simp: convert_fee_def Let_def intro!: keeps_intro split: sum.splits option.splits)

lemma keeps_credit_fee [keeps_intro]:
  "(\<And>s x. g (s\<lparr>v_merchant := x\<rparr>) = g s) \<Longrightarrow> keeps g (credit_fee E sub fee tr kind)"
  by (auto simp: credit_fee_def Let_def intro!: keeps_intro split: sum.splits option.splits)


text \<open>What a settled charge does to the subscription and to the replay guards.\<close>

definition charged_sub :: "nat \<Rightarrow> int \<Rightarrow> subscription \<Rightarrow> subscription" where
  "charged_sub now a sub = sub\<lparr>s_last_payment_timestamp := max now (s_last_payment_timestamp sub),
     s_lifetime_charged := s_lifetime_charged sub + a,
     s_grace_start_timestamp := (if s_status sub = GracePeriod \<or> s_status sub = InsufficientBalance
        then None else s_grace_start_timestamp sub),
     s_status := (if \<exists>cap. s_lifetime_cap sub = Some cap \<and> cap \<le> s_lifetime_charged sub + a then Cancelled
        else if s_status sub = GracePeriod \<or> s_status sub = InsufficientBalance then Active else s_status sub)\<rparr>"

lemma settle_charge_effect:
  assumes run: "settle_charge E i now key cfg period salt a nxt sub s = (Ok r, t)"
  shows "r = CER_Charged \<and> v_ledger t = v_ledger s \<and> v_admin t = v_admin s \<and>
    ch_charged_period (v_charge t) = (ch_charged_period (v_charge s))(i \<mapsto> fst period) \<and>
    ch_salt (v_charge t) = (ch_salt (v_charge s))(i \<mapsto> salt) \<and>
    v_subs t = (v_subs s)\<lparr>su_sub := (su_sub (v_subs s))(i \<mapsto> charged_sub now a sub)\<rparr> \<and>
    (case key of None \<Rightarrow> v_idem t = v_idem s
     | Some k \<Rightarrow> push_key i (hash_idem_key E (as_u32 DOMAIN_CHARGE_INTERVAL) i k) now (v_idem s) = (Ok (), v_idem t))"
proof -
  obtain p ps pe where period: "period = (p, ps, pe)" by (cases period)
  from run show ?thesis
  proof (rule settle_charge_ok)
    fix bps tr net fee v1 v2 emit v3 sub' cap v4
    assume c: "credit_charge_payees E i sub net Interval s = (Ok (), v1)"
      and ro: "route_to_sub_account sub net v1 = (Ok (), v2)"
      and f: "credit_fee E sub fee tr Interval v2 = (Ok emit, v3)"
      and su: "settled_subscription i now a sub v3 = (Ok (sub', cap), v4)"
      and rec: "record_settlement E i now key period salt a nxt net emit (sub', cap) v4 = (Ok r, t)"
    let ?g = "\<lambda>v. (v_admin v, v_subs v, v_charge v, v_ledger v, v_idem v)"
    have "keeps ?g (credit_charge_payees E i sub net Interval)" "keeps ?g (route_to_sub_account sub net)"
      "keeps ?g (credit_fee E sub fee tr Interval)" by (auto intro!: keeps_intro)
    from this(1) [THEN keepsD, OF c] this(2) [THEN keepsD, OF ro] this(3) [THEN keepsD, OF f]
    have fr: "v_admin v3 = v_admin s" "v_subs v3 = v_subs s" "v_charge v3 = v_charge s" "v_ledger v3 = v_ledger s" "v_idem v3 = v_idem s"
      by simp_all
    have "sub' = charged_sub now a sub"
      using su by (auto simp: settled_subscription_ok charged_sub_def Let_def split: option.splits)
    moreover have "v4 = v3\<lparr>v_charge := (v_charge v3)\<lparr>ch_failure_counter := (ch_failure_counter (v_charge v3))(i := None)\<rparr>\<rparr>"
      using su by (simp add: settled_subscription_ok)
    ultimately show ?thesis using record_settlement_ok [OF rec [unfolded period]] fr period by (simp split: option.splits)
  qed
qed

text \<open>Payees and sub-account together receive the net amount.\<close>

lemma payees_total:
  assumes c: "credit_charge_payees E i sub net kind s = (Ok u, v1)" and ro: "route_to_sub_account sub net v1 = (Ok u', v2)"
    and net: "- 1 \<le> net" "fits_i128 net" and ne: "su_split_payees (v_subs s) i \<noteq> Some []"
    and K: "finite K" "insert (s_merchant sub) (payees s i sub) \<subseteq> K"
  shows "(\<Sum>m \<in> K. merchant_balance v2 m (s_token sub)) + label_balance v2 sub =
      (\<Sum>m \<in> K. merchant_balance s m (s_token sub)) + label_balance s sub + net \<and> untouched s v2"
proof -
  let ?tk = "s_token sub" and ?bal = "\<lambda>v. \<Sum>m \<in> K. merchant_balance v m (s_token sub)"
  obtain xs v where xs: "credit_all kind xs s = (Ok (), v)" "(\<Sum>x \<leftarrow> xs. snd x) = net"
      "\<forall>x \<in> set xs. snd (fst x) = ?tk" "fst ` fst ` set xs = payees s i sub"
    and ev: "\<exists>ev. v1 = v\<lparr>v_events := ev\<rparr>"
    using credit_charge_payees_credits [OF c net ne] unfolding payees_def by blast
  have "?bal v1 = ?bal s + net" "untouched s v1" "label_balance v1 sub = label_balance s sub"
    using credit_all_total [OF xs(1) K(1), of ?tk] credit_all_frame [OF xs(1)] xs K(2) ev
    by (auto simp: untouched_def label_balance_def split: option.split)
  with route_to_sub_account_total [OF ro K(1)] K(2) show ?thesis by (auto simp: untouched_def)
qed

lemma settle_charge_money:
  assumes run: "settle_charge E i now key cfg period salt a nxt sub s = (Ok r, t)"
    and cfg: "fee_config cfg s = (Ok (bps, tr), s)" "bps \<le> 10000" "0 \<le> a" "a \<le> MAX_SUBSCRIPTION_AMOUNT"
    and plain: "config_value cf_fee_token (v_admin s) = None" and ne: "su_split_payees (v_subs s) i \<noteq> Some []"
    and K: "finite K" "insert (s_merchant sub) (payees s i sub \<union> set_option tr) \<subseteq> K"
  shows "(\<Sum>m \<in> K. merchant_balance t m (s_token sub)) + label_balance t sub =
    (\<Sum>m \<in> K. merchant_balance s m (s_token sub)) + label_balance s sub + a"
proof -
  obtain p ps pe where period: "period = (p, ps, pe)" by (cases period)
  from run show ?thesis
  proof (rule settle_charge_ok)
    fix bps' tr' net fee v1 v2 emit v3 sub' cap v4
    assume "fee_config cfg s = (Ok (bps', tr'), s)" and split: "fee_split a bps' tr' = Ok (net, fee)"
      and c: "credit_charge_payees E i sub net Interval s = (Ok (), v1)"
      and ro: "route_to_sub_account sub net v1 = (Ok (), v2)"
      and f: "credit_fee E sub fee tr' Interval v2 = (Ok emit, v3)"
      and su: "settled_subscription i now a sub v3 = (Ok (sub', cap), v4)"
      and rec: "record_settlement E i now key period salt a nxt net emit (sub', cap) v4 = (Ok r, t)"
    with cfg have tr: "tr' = tr" "bps' = bps" by simp_all
    note parts = fee_split_parts [OF cfg(3,4,2) split [unfolded tr]]
    let ?tk = "s_token sub" and ?bal = "\<lambda>v. \<Sum>m \<in> K. merchant_balance v m (s_token sub)"
    have 1: "?bal v2 + label_balance v2 sub = ?bal s + label_balance s sub + net" "untouched s v2"
      using payees_total [OF c ro _ _ ne K(1)] parts K(2) by auto
    have "config_value cf_fee_token (v_admin v2) = None"
      using plain 1 by (simp add: untouched_def)
    from credit_fee_total [OF f [unfolded tr] K(1) _ this] K(2) parts
    have 3: "?bal v3 = ?bal v2 + fee" "label_balance v3 sub = label_balance v2 sub"
      by (auto simp: label_balance_def split: option.splits)
    have "v_merchant t = v_merchant v3"
      using record_settlement_ok [OF rec [unfolded period]] su by (simp add: settled_subscription_ok)
    then have "?bal t = ?bal v3" "label_balance t sub = label_balance v3 sub"
      by (simp_all add: merchant_balance_def label_balance_def sub_account_balance_def split: option.split)
    with 1 3 parts show ?thesis by simp
  qed
qed

text \<open>The sequence number has four bytes and its slot eight, so the salt cannot be built.\<close>

lemma charge_salt_panics: "charge_salt E i l = panic"
  by (simp add: charge_salt_def copy_from_slice_def be_bytes4_def be_bytes8_def fun_eq_iff act_run)

section \<open>Runs that succeed\<close>

lemma fits_small: "- 1000000 \<le> x \<Longrightarrow> x \<le> 1000000 \<Longrightarrow> fits_i128 x"
  by (simp add: fits_i128_def i128_min_def i128_max_def)

lemma credit_succeeds:
  assumes "0 \<le> a" and "fits_i128 (merchant_balance s m tk + a)" and "fits_i128 (accrual kind (token_earnings_of s m tk) + a)"
  shows "\<exists>t. credit_merchant_balance_for_token m tk a kind s = (Ok (), t)"
  using assms by (simp add: credit_merchant_balance_for_token_def act_ok)

end
