(* ===== verification/Charge_Invariant.thy ===== *)
theory Charge_Invariant
  imports Charge_Facts
begin

text \<open>
  The invariant of stored subscriptions that interval charges preserve on every path, whatever the
  charge returns: a prepaid balance is never negative and a lifetime cap is never exceeded. An action
  preserves it when it writes no subscription, or only sound ones.
\<close>

definition sub_sound :: "subscription \<Rightarrow> bool" where
  "sub_sound sub \<longleftrightarrow> 0 \<le> s_prepaid_balance sub \<and> fits_i128 (s_prepaid_balance sub) \<and>
     (\<forall>cap. s_lifetime_cap sub = Some cap \<longrightarrow> s_lifetime_charged sub \<le> cap)"

definition subs_sound :: "vault \<Rightarrow> bool" where
  "subs_sound v \<longleftrightarrow> (\<forall>i sub. su_sub (v_subs v) i = Some sub \<longrightarrow> sub_sound sub)"

lemma subs_soundD: "subs_sound v \<Longrightarrow> su_sub (v_subs v) i = Some sub \<Longrightarrow> sub_sound sub"
  by (auto simp: subs_sound_def)

lemma sub_sound_update [simp]:
  "sub_sound (sub\<lparr>s_status := st\<rparr>) = sub_sound sub"
  "sub_sound (sub\<lparr>s_cancel_at := c\<rparr>) = sub_sound sub"
  "sub_sound (sub\<lparr>s_grace_start_timestamp := g\<rparr>) = sub_sound sub"
  "sub_sound (effective E v sub) = sub_sound sub"
  by (simp_all add: sub_sound_def)

lemma pres_subs: "keeps v_subs m \<Longrightarrow> pres subs_sound m"
  by (rule pres_keeps) (auto simp: subs_sound_def)

lemma pres_write_subscription: "sub_sound sub \<Longrightarrow> pres subs_sound (write_subscription i sub)"
  by (auto simp: write_subscription_def subs_sound_def intro!: pres_modify)

lemma keeps_party_gates [keeps_intro]:
  "(\<And>s l. g (s\<lparr>v_events := l\<rparr>) = g s) \<Longrightarrow> keeps g (party_gates i now sub flags)"
  by (auto simp: party_gates_def payee_gate_def intro!: keeps_intro)

lemma keeps_charge_amount_stage [keeps_intro]:
  "(\<And>s l. g (s\<lparr>v_events := l\<rparr>) = g s) \<Longrightarrow> keeps g (charge_amount_stage i now sub)"
  by (auto simp: charge_amount_stage_def Let_def intro!: keeps_intro)

lemma keeps_simple_gates [keeps_intro]:
  assumes "\<And>s l. g (s\<lparr>v_events := l\<rparr>) = g s"
  shows "keeps g (status_gate i now a sub)" "keeps g (auto_renew_gate now sub)" "keeps g (charge_period now sub)"
    "keeps g (salt_gate i now a salt)" "keeps g (idem_gate E i key)" "keeps g (period_gate i now a p sub)"
    "keeps g (charge_open E i now)"
  using assms
  by (auto simp: status_gate_def auto_renew_gate_def charge_period_def salt_gate_def idem_gate_def period_gate_def
      charge_open_def Let_def intro!: keeps_intro)

lemma keeps_merchant_flags [keeps_intro]: "keeps g (merchant_flags sub now cache)"
  by (auto simp: merchant_flags_def Let_def intro!: keeps_intro split: option.split)

lemma keeps_fee_config [keeps_intro]: "keeps g (fee_config cfg)"
  by (auto simp: fee_config_def intro!: keeps_intro)

text \<open>Single actions that write no subscription.\<close>

lemma pres_leaf [pres_intro]:
  "pres subs_sound (publish e)" "pres subs_sound (charge_fail i er am now :: 'a vm)"
  "pres subs_sound (token_transfer E tk from to am)" "pres subs_sound (mod_charge f)"
  "pres subs_sound (read_config k)" "pres subs_sound (sub_total_accounted tk am)"
  "pres subs_sound (fee_config cfg)" "pres subs_sound (credit_charge_payees E i sub net kind)"
  "pres subs_sound (route_to_sub_account sub am)" "pres subs_sound (credit_fee E sub fee tr kind)"
  "pres subs_sound (publish_fee i now em)" "pres subs_sound (publish_cap_reached i now sub cap)"
  "pres subs_sound (remember_key E i now key)" "pres subs_sound (zoom v_stmt v_stmt_update st)"
  "pres subs_sound (zoom v_snap v_snap_update sn)" "pres subs_sound (clear_failures i)"
  "pres subs_sound (party_gates i now sub flags)" "pres subs_sound (charge_amount_stage i now sub)"
  "pres subs_sound (status_gate i now am sub)" "pres subs_sound (auto_renew_gate now sub)"
  "pres subs_sound (charge_period now sub)" "pres subs_sound (salt_gate i now am salt)"
  "pres subs_sound (idem_gate E i key)" "pres subs_sound (period_gate i now am p sub)"
  "pres subs_sound (charge_open E i now)" "pres subs_sound (merchant_flags sub now cache)"
  "pres subs_sound get_grace_period" "pres subs_sound get_auto_pause_threshold"
  "pres subs_sound (get_subscription E i)"
  by (auto simp: sub_total_accounted_def publish_fee_def publish_cap_reached_def remember_key_def clear_failures_def
      intro!: pres_subs keeps_intro)

lemmas pres_rules = pres_intro pres_thn pres_bnd pres_if pres_attempt pres_write_subscription

lemma pres_mark:
  "sub_sound sub \<Longrightarrow> pres subs_sound m \<Longrightarrow>
   pres subs_sound (bnd (lift (transition_to st st')) (\<lambda>st. thn (write_subscription i (sub\<lparr>s_status := st\<rparr>)) m))"
  by (intro pres_rules) simp_all

lemma pres_expiry_gate: "sub_sound sub \<Longrightarrow> pres subs_sound (expiry_gate E i now sub)"
  unfolding expiry_gate_def by (intro pres_rules) simp_all

lemma pres_cap_gate: "sub_sound sub \<Longrightarrow> pres subs_sound (cap_gate i now sub)"
  unfolding cap_gate_def
  by (cases "s_lifetime_cap sub") (simp_all only: option.case, auto intro!: pres_rules)

lemma pres_cancel_gate: "sub_sound sub \<Longrightarrow> pres subs_sound (cancel_gate E i now sub)"
  unfolding cancel_gate_def
  by (cases "s_cancel_at sub") (simp_all only: option.case Let_def, auto intro!: pres_rules simp: sub_sound_def)

lemma pres_cap_remaining_gate: "sub_sound sub \<Longrightarrow> pres subs_sound (cap_remaining_gate i now a sub)"
  unfolding cap_remaining_gate_def
  by (cases "s_lifetime_cap sub") (simp_all only: option.case, auto intro!: pres_rules)

section \<open>Settlement and failure\<close>

lemma pres_settled: "pres subs_sound (settled_subscription i now a sub)"
  unfolding settled_subscription_def Let_def by (intro pres_rules)

lemma pres_settle_charge:
  assumes "0 \<le> s_prepaid_balance sub" and "fits_i128 (s_prepaid_balance sub)"
    and "\<And>cap. s_lifetime_cap sub = Some cap \<Longrightarrow> s_lifetime_charged sub + a \<le> cap"
  shows "pres subs_sound (settle_charge E i now key cfg period salt a nxt sub)"
proof -
  have "sub_sound (fst r)" if "settled_subscription i now a sub s = (Ok r, t)" for r s t
    using that assms by (cases r) (auto simp: settled_subscription_ok sub_sound_def Let_def)
  then show ?thesis
    unfolding settle_charge_def record_settlement_def
    by (auto intro!: pres_rules pres_settled split: prod.split)
qed

lemma read_sub_sound: "subs_sound s \<Longrightarrow> get_subscription E i s = (Ok sub, t) \<Longrightarrow> sub_sound sub"
  by (auto simp: get_subscription_ok dest: subs_soundD)

lemma pres_auto_pause: "pres subs_sound (auto_pause E i now threshold st)"
  unfolding auto_pause_def
  by (intro pres_rules)
    (auto simp: attempt_ok split: sum.split outcome.split intro!: pres_rules dest: read_sub_sound)

lemma underfunded_subscription_sound:
  "sub_sound sub \<Longrightarrow> underfunded_subscription now g sub s = (Ok sub', t) \<Longrightarrow> sub_sound sub' \<and> t = s"
  by (auto simp: underfunded_subscription_def act_ok split: if_split_asm option.split_asm)

lemma pres_fail_underfunded: "sub_sound sub \<Longrightarrow> pres subs_sound (fail_underfunded E i now cfg a sub)"
  unfolding fail_underfunded_def Let_def
  by (intro pres_rules pres_auto_pause)
    (auto intro!: pres_rules pres_subs keeps_intro simp: underfunded_subscription_def split: option.split
      dest: underfunded_subscription_sound)

lemma pres_charge_after_salt:
  assumes "sub_sound sub"
  shows "pres subs_sound (charge_after_salt E i now key cfg period salt a sub)"
proof -
  have *: "pres subs_sound (settle_charge E i now key cfg period salt a nxt (sub\<lparr>s_prepaid_balance := b\<rparr>))"
    if "cap_remaining_gate i now a sub s = (Ok None, t)" and "safe_sub_balance (s_prepaid_balance sub) a = Ok b"
    for nxt b s t
  proof (rule pres_settle_charge)
    have b: "0 \<le> a" "a \<le> s_prepaid_balance sub" "b = s_prepaid_balance sub - a"
      using that(2) assms by (simp_all add: sub_sound_def)
    then show "0 \<le> s_prepaid_balance (sub\<lparr>s_prepaid_balance := b\<rparr>)" by simp
    show "fits_i128 (s_prepaid_balance (sub\<lparr>s_prepaid_balance := b\<rparr>))"
      using b assms by (simp add: sub_sound_def fits_i128_diff)
    show "s_lifetime_charged (sub\<lparr>s_prepaid_balance := b\<rparr>) + a \<le> cap"
      if "s_lifetime_cap (sub\<lparr>s_prepaid_balance := b\<rparr>) = Some cap" for cap
      using that cap_remaining_gate_None [OF \<open>cap_remaining_gate i now a sub s = (Ok None, t)\<close>] by simp
  qed
  show ?thesis
    unfolding charge_after_salt_def
    by (intro pres_rules)
      (auto split: option.split outcome.split intro!: pres_rules * pres_fail_underfunded pres_cap_remaining_gate assms)
qed

lemma pres_charge_with_flags:
  assumes "sub_sound sub" and "\<And>i l. pres subs_sound (mk_salt i l)"
  shows "pres subs_sound (charge_with_flags mk_salt E i now key cfg flags sub)"
  unfolding charge_with_flags_def
  by (intro pres_rules pres_expiry_gate pres_cap_gate pres_cancel_gate assms)
    (auto split: option.split
      intro!: pres_rules pres_expiry_gate pres_cap_gate pres_cancel_gate pres_charge_after_salt assms)

lemma charge_open_sound: "subs_sound s \<Longrightarrow> charge_open E i now s = (Ok sub, t) \<Longrightarrow> sub_sound sub"
  by (auto simp: charge_open_def act_ok charge_fail_ok or_charge_fail_ok read_sub_sound split: if_split_asm
      dest: subs_soundD)

lemma pres_charge_one_with:
  assumes "\<And>i l. pres subs_sound (mk_salt i l)"
  shows "pres subs_sound (charge_one_with mk_salt E i now key cfg)"
  unfolding charge_one_with_def charge_one_cached_def
  by (intro pres_rules)
    (auto simp: attempt_ok split: sum.split prod.split
      intro!: pres_rules pres_charge_with_flags assms dest: charge_open_sound)

end
