(* ===== verification/Charge_Claims.thy ===== *)
theory Charge_Claims
  imports Charge_Invariant
begin

text \<open>
  The properties of interval charges: conservation of money, the caps and replay guards, the paths
  the code cannot take, and what a batch sees of a failed charge. The concrete charges that show the
  properties apply are runs of the model on \<open>billing_vault\<close>.
\<close>

section \<open>A contract with one subscription\<close>

definition plain_sub :: subscription where
  "plain_sub = \<lparr>s_subscriber = Addr 1, s_merchant = Addr 5, s_token = Addr 9, s_amount = 1000,
     s_interval_seconds = 86400, s_last_payment_timestamp = 900000, s_status = Active, s_prepaid_balance = 5000,
     s_usage_enabled = False, s_lifetime_cap = Some 20000, s_lifetime_charged = 10000, s_start_time = 100000,
     s_expires_at = None, s_grace_start_timestamp = None, s_cancel_at = None, s_auto_renew = True,
     s_auto_renew_disabled_at = None, s_expires_at_ledger = None, s_sub_account_label = Some ''eu'',
     s_proration_enabled = False, s_auto_pause_threshold = 0\<rparr>"

definition billing_vault :: vault where
  "billing_vault = empty_vault\<lparr>
     v_admin := (v_admin empty_vault)\<lparr>ad_persistent := empty_config\<lparr>cf_admin := Some (Addr 3),
         cf_fee_bps := Some 250, cf_treasury := Some (Addr 4)\<rparr>\<rparr>,
     v_merchant := (v_merchant empty_vault)\<lparr>
         m_sub_account := (\<lambda>m. if m = Addr 5 then [''eu'' \<mapsto> 0] else Map.empty)\<rparr>,
     v_subs := (v_subs empty_vault)\<lparr>su_sub := [7 \<mapsto> plain_sub]\<rparr>\<rparr>"

text \<open>
  C1. Charging an interval conserves money. Let a charge past the salt succeed, with no fee token configured, an amount of at most
  the largest subscription amount, a fee rate of at most 100 percent and a stored payee split, if there is one, that is not empty. Then the
  prepaid balance of the stored subscription, the balances of all payees and of the treasury in the subscription's
  token, and the balance of the sub-account it is labelled with have the same sum before and after:
  nothing is created or lost by the split among payees, by the fee or by the sub-account. The token
  ledger is not touched. (With a fee token the fee is credited in that token although nothing was swapped, \<open>converted_fee_is_unbacked\<close>,
  so the sum is not kept then.)
\<close>

theorem charge_conserves_money:
  assumes "charge_after_salt E i now key cfg period salt a sub s = (Ok CER_Charged, t)"
    and "su_sub (v_subs s) i = Some sub" and "fits_i128 (s_prepaid_balance sub)"
    and "a \<le> MAX_SUBSCRIPTION_AMOUNT" and "fee_config cfg s = (Ok (bps, tr), s)" and "bps \<le> 10000"
    and "config_value cf_fee_token (v_admin s) = None" and "su_split_payees (v_subs s) i \<noteq> Some []"
    and "finite K" and "insert (s_merchant sub) (payees s i sub \<union> set_option tr) \<subseteq> K"
  shows "\<exists>sub'. su_sub (v_subs t) i = Some sub' \<and> v_ledger t = v_ledger s \<and>
    s_prepaid_balance sub' + (\<Sum>m \<in> K. merchant_balance t m (s_token sub)) + label_balance t sub =
    s_prepaid_balance sub + (\<Sum>m \<in> K. merchant_balance s m (s_token sub)) + label_balance s sub"
  using assms(1,3)
proof (cases rule: charge_after_salt_cases)
  case repeated
  then show ?thesis using assms(2) by simp
next
  case (settled nxt)
  let ?sub = "sub\<lparr>s_prepaid_balance := s_prepaid_balance sub - a\<rparr>"
  have same: "payees s i ?sub = payees s i sub" "label_balance v ?sub = label_balance v sub" for v
    by (auto simp: payees_def label_balance_def split: option.split)
  note run = settled(8)
  from settle_charge_money [OF run assms(5,6) settled(1) assms(4,7,8,9)] assms(10)
    settle_charge_effect [OF run] show ?thesis
    by (auto simp: same charged_sub_def)
next
  case underfunded
  then show ?thesis using fail_underfunded_result by fastforce
qed simp


lemma billing_vault_simps [simp]:
  "su_split_payees (v_subs billing_vault) i = None" "su_sub (v_subs billing_vault) 7 = Some plain_sub"
  "merchant_balance billing_vault m tk = 0" "token_earnings_of billing_vault m tk = no_earnings"
  "ch_salt (v_charge billing_vault) i = None" "ch_charged_period (v_charge billing_vault) i = None"
  "config_value cf_fee_bps (v_admin billing_vault) = Some 250"
  "config_value cf_treasury (v_admin billing_vault) = Some (Addr 4)"
  "config_value cf_fee_token (v_admin billing_vault) = None"
  "m_sub_account (v_merchant billing_vault) (Addr 5) ''eu'' = Some 0"
  "v_idem billing_vault = v_idem empty_vault" "v_stmt billing_vault = v_stmt empty_vault"
  "v_snap billing_vault = v_snap empty_vault"
  by (simp_all add: billing_vault_def empty_vault_def merchant_balance_def token_earnings_of_def
      config_value_def empty_config_def)

lemma plain_sub_simps [simp]:
  "s_merchant plain_sub = Addr 5" "s_token plain_sub = Addr 9" "s_interval_seconds plain_sub = 86400"
  "s_last_payment_timestamp plain_sub = 900000" "s_status plain_sub = Active" "s_prepaid_balance plain_sub = 5000"
  "s_lifetime_cap plain_sub = Some 20000" "s_lifetime_charged plain_sub = 10000"
  "s_sub_account_label plain_sub = Some ''eu''" "s_start_time plain_sub = 100000" "s_auto_renew plain_sub"
  "s_subscriber plain_sub = Addr 1" "s_amount plain_sub = 1000"
  by (simp_all add: plain_sub_def)

lemma fee_split_small: "fee_split 1000 250 (Some (Addr 4)) = Ok (975, 25)"
  by (simp add: fee_split_eq MAX_SUBSCRIPTION_AMOUNT_def MAX_FEE_BIPS_def tdiv_nonneg i128_max_def)

text \<open>When the settlement stages succeed.\<close>

lemma route_succeeds:
  assumes "s_sub_account_label sub = Some l" and "m_sub_account (v_merchant s) (s_merchant sub) l = Some b"
    and "0 < a" and "fits_i128 (b + a)" and "fits_i128 (merchant_balance s (s_merchant sub) (s_token sub) - a)"
  shows "\<exists>t. route_to_sub_account sub a s = (Ok (), t)"
  using assms
  by (simp add: route_to_sub_account_def credit_sub_account_def require_sub_account_exists_def set_sub_account_def
      sub_account_balance_def checked_add_i128_def act_ok)

lemma route_effect:
  assumes "route_to_sub_account sub a s = (Ok u, t)"
  shows "(m \<noteq> s_merchant sub \<longrightarrow> merchant_balance t m tk = merchant_balance s m tk) \<and>
    token_earnings_of t m tk = token_earnings_of s m tk \<and> untouched s t"
  using assms
  by (cases "s_sub_account_label sub")
    (auto simp: route_to_sub_account_def credit_sub_account_def require_sub_account_exists_def set_sub_account_def
      act_ok token_earnings_of_def untouched_def merchant_balance_def checked_add_i128_def split: if_split_asm)

lemma first_statement:
  "\<exists>t. append_statement i a m tk kind p now (v_stmt empty_vault) = (Ok (), t)"
  by (simp add: append_statement_def act_ok empty_vault_def Let_def checked_add_u32_def u32_max_def)

lemma first_key: "\<exists>t. push_key i h now (v_idem empty_vault) = (Ok (), t)"
  by (simp add: act_ok load_buffer_def prune_expired_def empty_vault_def IDEM_HISTORY_def)

lemma first_snapshot:
  assumes "start < end" and "0 < a"
  shows "\<exists>t. write_period_snapshot \<lparr>ps_subscription_id = i, ps_period_index = p, ps_period_start = start,
      ps_period_end = end, ps_total_charged = a, ps_total_usage_units = 0,
      ps_status_flags = SNAPSHOT_FLAG_CLOSED OR SNAPSHOT_FLAG_INTERVAL_CHARGED, ps_finalized_at = end\<rparr>
      (v_snap empty_vault) = (Ok (), t)"
  using assms
  by (simp add: write_period_snapshot_def act_ok empty_vault_def Let_def mark_empty_def has_flag_def snapshot_flags
      snapshot_index_def evict_loop.simps MAX_BILLING_PERIOD_SNAPSHOTS_PER_SUBSCRIPTION_def)

lemma billing_gates:
  "salt_gate 7 1000000 1000 [1] billing_vault = (Ok (), billing_vault)"
  "idem_gate test_env 7 (Some [1]) billing_vault = (Ok None, billing_vault)"
  "period_gate 7 1000000 1000 10 plain_sub billing_vault = (Ok 986400, billing_vault)"
  "cap_remaining_gate 7 1000000 1000 plain_sub billing_vault = (Ok None, billing_vault)"
  "fee_config None billing_vault = (Ok (250, Some (Addr 4)), billing_vault)"
  by (simp_all add: salt_gate_ok idem_gate_def act_run check_key_at_def load_buffer_def empty_vault_def
      period_gate_ok u64_max_def cap_remaining_gate_def lifetime_cap_reached_def safe_sub_fits fits_small fee_config_ok)

lemma billing_charge:
  "\<exists>t. charge_after_salt test_env 7 1000000 (Some [1]) None (10, 964000, 1050400) [1] 1000 plain_sub billing_vault
   = (Ok CER_Charged, t)"
proof -
  let ?sub = "plain_sub\<lparr>s_prepaid_balance := 4000\<rparr>"
  obtain v1 where c: "credit_merchant_balance_for_token (Addr 5) (Addr 9) 975 Interval billing_vault = (Ok (), v1)"
    using credit_succeeds [of 975 billing_vault "Addr 5" "Addr 9" Interval]
    by (auto simp: fits_small no_earnings_def accrual_def)
  have p: "credit_charge_payees test_env 7 ?sub 975 Interval billing_vault = (Ok (), v1)"
    using c by (simp add: credit_charge_payees_def act_ok)
  from c have bal1: "merchant_balance v1 (Addr 5) (Addr 9) = 975"
    and acc1: "m_sub_account (v_merchant v1) (Addr 5) ''eu'' = Some 0"
    and unt1: "untouched billing_vault v1" 
    using credit_ok [OF c, of "Addr 5" "Addr 9"] credit_frame [OF c] by (auto elim!: credit_run)
  obtain v2 where ro: "route_to_sub_account ?sub 975 v1 = (Ok (), v2)"
    using route_succeeds [of ?sub "''eu''" v1 0 975] bal1 acc1 by (auto simp: fits_small)
  from ro have bal2: "merchant_balance v2 (Addr 4) (Addr 9) = merchant_balance v1 (Addr 4) (Addr 9)"
    and earn2: "token_earnings_of v2 (Addr 4) (Addr 9) = token_earnings_of v1 (Addr 4) (Addr 9)"
    and unt2: "untouched v1 v2"
    using route_effect [OF ro, of "Addr 4" "Addr 9"] by simp_all
  obtain v3 where f: "credit_merchant_balance_for_token (Addr 4) (Addr 9) 25 Interval v2 = (Ok (), v3)"
    using credit_succeeds [of 25 v2 "Addr 4" "Addr 9" Interval] credit_ok [OF c, of "Addr 4" "Addr 9"]
    by (auto simp: fits_small no_earnings_def accrual_def bal2 earn2)
  have unt: "untouched billing_vault v3" using unt1 unt2 credit_frame [OF f] by (auto intro: untouched_trans)
  have fee: "credit_fee test_env ?sub 25 (Some (Addr 4)) Interval v2 = (Ok (Some (Addr 4, 25, no_conversion 25)), v3)"
    using f unt1 unt2 by (auto simp: credit_fee_def convert_fee_def act_ok untouched_def no_conversion_def)
  let ?v4 = "v3\<lparr>v_charge := (v_charge v3)\<lparr>ch_failure_counter := (ch_failure_counter (v_charge v3))(7 := None)\<rparr>\<rparr>"
  have su: "settled_subscription 7 1000000 1000 ?sub v3 = (Ok (charged_sub 1000000 1000 ?sub, False), ?v4)"
    by (simp add: settled_subscription_ok charged_sub_def fits_small)
  obtain st where st: "append_statement 7 1000 (Addr 5) (Addr 9) Interval 900000 1000000 (v_stmt empty_vault) = (Ok (), st)"
    using first_statement by blast
  obtain sn where sn: "write_period_snapshot \<lparr>ps_subscription_id = 7, ps_period_index = 10, ps_period_start = 900000,
      ps_period_end = 1000000, ps_total_charged = 1000, ps_total_usage_units = 0,
      ps_status_flags = SNAPSHOT_FLAG_CLOSED OR SNAPSHOT_FLAG_INTERVAL_CHARGED, ps_finalized_at = 1000000\<rparr>
      (v_snap empty_vault) = (Ok (), sn)"
    using first_snapshot [of 900000 1000000 1000 7 10] by auto
  obtain ib where ib: "push_key 7 (hash_idem_key test_env (as_u32 DOMAIN_CHARGE_INTERVAL) 7 [1]) 1000000
      (v_idem empty_vault) = (Ok (), ib)"
    using first_key by blast
  have stores: "v_stmt v3 = v_stmt empty_vault" "v_snap v3 = v_snap empty_vault" "v_idem v3 = v_idem empty_vault"
    using unt by (simp_all add: untouched_def)
  have rec: "\<exists>t. record_settlement test_env 7 1000000 (Some [1]) (10, 964000, 1050400) [1] 1000 986400 975
      (Some (Addr 4, 25, no_conversion 25)) (charged_sub 1000000 1000 ?sub, False) ?v4 = (Ok CER_Charged, t)"
    by (simp add: record_settlement_def publish_fee_def publish_cap_reached_def remember_key_def act_run
       no_conversion_def charged_sub_def stores st sn ib)
  have "safe_sub_balance 5000 1000 = Ok 4000" by (simp add: safe_sub_balance_def safe_sub_fits fits_small)
  with billing_gates p ro fee su rec show ?thesis
    by (simp add: charge_after_salt_def settle_charge_def act_run fee_split_small)
qed

theorem charge_conserves_money_witness:
  "\<exists>t sub'. charge_after_salt test_env 7 1000000 (Some [1]) None (10, 964000, 1050400) [1] 1000 plain_sub
      billing_vault = (Ok CER_Charged, t) \<and> su_sub (v_subs t) 7 = Some sub' \<and>
    s_prepaid_balance sub' + (merchant_balance t (Addr 5) (Addr 9) + merchant_balance t (Addr 4) (Addr 9))
      + label_balance t plain_sub = 5000"
proof -
  from billing_charge obtain t where run: "charge_after_salt test_env 7 1000000 (Some [1]) None
      (10, 964000, 1050400) [1] 1000 plain_sub billing_vault = (Ok CER_Charged, t)" by blast
  have "label_balance billing_vault plain_sub = 0" by (simp add: label_balance_def sub_account_balance_def)
  with charge_conserves_money [OF run, of 250 "Some (Addr 4)" "{Addr 5, Addr 4}"] run show ?thesis
    by (auto simp: fits_small payees_def fee_config_ok MAX_SUBSCRIPTION_AMOUNT_def MAX_FEE_BIPS_def tdiv_nonneg
        i128_max_def)
qed

section \<open>Sequences of charges\<close>

text \<open>
  C2. Whatever sequence of interval charges is served, for whatever subscriptions, times and cached
  configurations, and however each of them ends, no stored subscription ever has a negative prepaid
  balance or more lifetime charges than its cap allows. The salt is any function that writes no
  subscription, so this holds for the code's own salt and for a repaired one.
\<close>

theorem charging_keeps_subscriptions_sound:
  assumes "\<And>E i l. keeps v_subs (mk_salt E i l)" and "subs_sound s"
    and "serve (\<lambda>(E, i, now, key, cfg). charge_one_with (mk_salt E) E i now key cfg) reqs s = (rs, t)"
  shows "subs_sound t"
proof (rule serve_invariant [where I = subs_sound, OF _ assms(3,2)])
  fix x :: "env \<times> nat \<times> nat \<times> bytes option \<times> cached_admin_config option" and u r v
  obtain E i now key cfg where x: "x = (E, i, now, key, cfg)" by (cases x)
  assume "(case x of (E, i, now, key, cfg) \<Rightarrow> charge_one_with (mk_salt E) E i now key cfg) u = (r, v)"
    and "subs_sound u"
  moreover have "pres subs_sound (charge_one_with (mk_salt E) E i now key cfg)"
    by (rule pres_charge_one_with) (rule pres_subs [OF assms(1)])
  ultimately show "subs_sound v" using x by (auto dest: presD)
qed

lemma billing_vault_sound: "subs_sound billing_vault"
  by (auto simp: subs_sound_def sub_sound_def billing_vault_def empty_vault_def fits_small)

theorem charging_keeps_subscriptions_sound_witness:
  "subs_sound (snd (serve (\<lambda>(E, i, now, key, cfg). charge_one_with (charge_salt E) E i now key cfg)
     [(test_env, 7, 1000000, None, None), (test_env, 8, 1000000, None, None)] billing_vault))"
  by (rule charging_keeps_subscriptions_sound [of charge_salt, OF _ billing_vault_sound prod.collapse [symmetric]])
    (auto simp: charge_salt_def intro!: keeps_intro)

text \<open>
  C3. A charge is settled at most once per period and only when it is due and covered. When a charge
  past the salt reports success, either it repeats a remembered idempotency key and changes nothing,
  or its period is larger than every period charged before and is recorded, a full interval has passed
  since the last payment, the prepaid balance covers the amount and is reduced by exactly it, and the
  lifetime total stays within the cap; reaching the cap exactly cancels the subscription.
\<close>

theorem settled_charge_guards:
  assumes "charge_after_salt E i now key cfg (p, ps, pe) salt a sub s = (Ok CER_Charged, t)"
    and "fits_i128 (s_prepaid_balance sub)"
  shows "(key \<noteq> None \<and> t = s) \<or>
    ((\<forall>q. ch_charged_period (v_charge s) i = Some q \<longrightarrow> q < p) \<and> ch_charged_period (v_charge t) i = Some p \<and>
     s_last_payment_timestamp sub + s_interval_seconds sub \<le> now \<and> 0 \<le> a \<and>
     (\<exists>sub'. su_sub (v_subs t) i = Some sub' \<and> s_prepaid_balance sub' = s_prepaid_balance sub - a \<and>
        0 \<le> s_prepaid_balance sub' \<and> now \<le> s_last_payment_timestamp sub' \<and>
        (case s_lifetime_cap sub' of
           Some cap \<Rightarrow> s_lifetime_charged sub' \<le> cap \<and>
             (s_lifetime_charged sub' = cap \<longrightarrow> s_status sub' = Cancelled)
         | None \<Rightarrow> True)))"
  using assms
proof (cases rule: charge_after_salt_cases)
  case (settled nxt)
  note eff = settle_charge_effect [OF settled(8)]
  from eff settled show ?thesis
    by (intro disjI2) (auto simp: charged_sub_def split: option.split)
next
  case underfunded
  then show ?thesis using fail_underfunded_result by fastforce
qed simp_all

theorem settled_charge_guards_witness:
  "\<exists>t. charge_after_salt test_env 7 1000000 (Some [1]) None (10, 964000, 1050400) [1] 1000 plain_sub
      billing_vault = (Ok CER_Charged, t) \<and> (t = billing_vault \<or> ch_charged_period (v_charge t) 7 = Some 10)"
proof -
  from billing_charge obtain t where run: "charge_after_salt test_env 7 1000000 (Some [1]) None
      (10, 964000, 1050400) [1] 1000 plain_sub billing_vault = (Ok CER_Charged, t)" by blast
  from settled_charge_guards [OF run] run show ?thesis by (auto simp: fits_small)
qed

section \<open>What the code cannot do\<close>

lemma keeps_early_gates [keeps_intro]:
  assumes "\<And>s l. g (s\<lparr>v_events := l\<rparr>) = g s" and "\<And>s l. g (s\<lparr>v_subs := l\<rparr>) = g s"
    and "\<And>s l. g (s\<lparr>v_ledger := l\<rparr>) = g s"
  shows "keeps g (expiry_gate E i now sub)" "keeps g (cap_gate i now sub)" "keeps g (cancel_gate E i now sub)"
  using assms
  by (auto simp: expiry_gate_def cap_gate_def cancel_gate_def sub_total_accounted_def Let_def intro!: keeps_intro)

lemma no_charge_after_panic:
  "keeps v_merchant (charge_with_flags (charge_salt E) E i now key cfg flags sub)"
  "charge_with_flags (charge_salt E) E i now key cfg flags sub s = (Ok r, t) \<Longrightarrow>
   r = CER_LifetimeCapReached \<or> r = CER_ScheduledCancellation \<or> r = CER_Skipped"
proof -
  show "keeps v_merchant (charge_with_flags (charge_salt E) E i now key cfg flags sub)"
    unfolding charge_with_flags_def charge_salt_panics bnd_panic
    by (auto intro!: keeps_intro split: option.split)
  assume "charge_with_flags (charge_salt E) E i now key cfg flags sub s = (Ok r, t)"
  then show "r = CER_LifetimeCapReached \<or> r = CER_ScheduledCancellation \<or> r = CER_Skipped"
    by (auto simp: charge_with_flags_def charge_salt_panics bnd_ok thn_ok basic_ok cap_gate_def cancel_gate_def
        auto_renew_gate_def split: option.split_asm if_split_asm)
qed

text \<open>
  No interval charge ever settles: the replay salt copies a four-byte sequence number into an
  eight-byte slot, which panics, so for every state, time, key and configuration \<open>charge_one\<close> credits
  no merchant, and the only successes it can report are an exhausted cap, a due scheduled
  cancellation, and a charge skipped because renewal is off.
\<close>

theorem charge_one_never_settles:
  "v_merchant (snd (charge_one E i now key cfg s)) = v_merchant s \<and>
   fst (charge_one E i now key cfg s) \<noteq> Ok CER_Charged \<and>
   fst (charge_one E i now key cfg s) \<noteq> Ok CER_InsufficientBalance"
proof -
  have "keeps v_merchant (charge_one E i now key cfg)"
    unfolding charge_one_def charge_one_with_def charge_one_cached_def
    by (auto intro!: keeps_intro no_charge_after_panic(1))
  moreover have "r = CER_LifetimeCapReached \<or> r = CER_ScheduledCancellation \<or> r = CER_Skipped"
    if "charge_one E i now key cfg s = (Ok r, t)" for r t
    using that unfolding charge_one_def charge_one_with_ok by (auto dest: no_charge_after_panic(2))
  ultimately show ?thesis
    by (metis keeps_def prod.collapse charge_execution_result.distinct)
qed

text \<open>
  Proration never changes an accepted charge: it scales the amount by the seconds elapsed since the
  start, and a charge is accepted only once a whole interval has passed, when the scaled amount is the
  full one. Whenever the interval check lets a charge through, the amount is the one a subscription
  without proration pays.
\<close>

theorem proration_never_reduces:
  assumes "apply_discount_at_charge i now (s_token sub) (s_amount sub) s = (Ok (c, d), t)" and "0 \<le> c"
    and "period_gate i now a p sub v = (Ok nxt, u)" and "0 < s_interval_seconds sub"
  shows "charge_amount_stage i now sub s = (Ok c, t) \<and>
    charge_amount_stage i now (sub\<lparr>s_proration_enabled := False\<rparr>) s = (Ok c, t)"
proof -
  have gross: "resolve_charge_amount i x s = (Ok (s_amount x), s)" for x
    by (simp add: resolve_charge_amount_def get_oracle_config_def act_run split: option.split)
  have "calculate_prorated_first_charge c (s_interval_seconds sub) (now - s_start_time sub) = Ok c"
    if "s_last_payment_timestamp sub = s_start_time sub"
    using that assms by (auto simp: period_gate_ok calculate_prorated_first_charge_def)
  then show ?thesis
    using assms(1) by (simp add: charge_amount_stage_def bnd_ok or_charge_fail_ok basic_ok gross Let_def)
qed

theorem proration_never_reduces_witness:
  "charge_amount_stage 7 1000000 (plain_sub\<lparr>s_proration_enabled := True, s_start_time := 900000\<rparr>) billing_vault
   = (Ok 1000, billing_vault)"
proof -
  let ?sub = "plain_sub\<lparr>s_proration_enabled := True, s_start_time := 900000\<rparr>"
  have "apply_discount_at_charge 7 1000000 (s_token ?sub) (s_amount ?sub) billing_vault = (Ok (1000, 0), billing_vault)"
    by (simp add: apply_discount_at_charge_def resolve_coupon_for_charge_def act_run billing_vault_def empty_vault_def)
  moreover have "period_gate 7 1000000 1000 10 ?sub billing_vault = (Ok 986400, billing_vault)"
    by (simp add: period_gate_ok u64_max_def)
  ultimately show ?thesis using proration_never_reduces [of 7 1000000 ?sub] by fastforce
qed

definition grace_vault :: vault where
  "grace_vault = empty_vault\<lparr>
     v_admin := (v_admin empty_vault)\<lparr>ad_persistent := empty_config\<lparr>cf_grace_period := Some 3600\<rparr>\<rparr>,
     v_subs := (v_subs empty_vault)\<lparr>su_sub := [7 \<mapsto> plain_sub]\<rparr>\<rparr>"

text \<open>
  With a grace period the automatic pause is out of reach. When an underfunded charge of a stored
  subscription fails outside a batch and a grace period is set, the failure counter is left alone: an
  active subscription enters grace and reports the shortfall, one still in grace stays as it is, and
  one whose grace is over cannot change its status, so the charge ends with an error and stores nothing.
\<close>

theorem grace_blocks_auto_pause:
  assumes "su_sub (v_subs s) i = Some sub0" and "sub = effective E s sub0" and "now = e_timestamp E"
    and "0 < grace_duration s" and "s_status sub \<in> {Active, GracePeriod, InsufficientBalance}"
  shows "ch_failure_counter (v_charge (snd (fail_underfunded E i now None a sub s))) = ch_failure_counter (v_charge s) \<and>
    fail_underfunded E i now None a sub s =
      (if s_status sub = InsufficientBalance then (Err E_InvalidStatusTransition, s)
       else (Ok CER_InsufficientBalance, snd (fail_underfunded E i now None a sub s))) \<and>
    (s_status sub \<noteq> InsufficientBalance \<longrightarrow>
      (\<exists>sub'. su_sub (v_subs (snd (fail_underfunded E i now None a sub s))) i = Some sub' \<and>
         s_status sub' = GracePeriod \<and> s_prepaid_balance sub' = s_prepaid_balance sub))"
proof -
  have g: "config_value cf_grace_period (v_admin s) = Some (grace_duration s)"
    using assms(4) by (simp add: grace_duration_def split: option.splits)
  have open_window: "\<not> sat_add_u64 st (grace_duration s) \<le> now" 
    if "s_status sub = GracePeriod" "s_grace_start_timestamp sub = Some st" for st
    using that assms by (auto simp: effective_def grace_over_def split: if_split_asm)
  consider "s_status sub = Active" | "s_status sub = GracePeriod" | "s_status sub = InsufficientBalance"
    using assms(5) by blast
  then show ?thesis
  proof cases
    case 1
    then show ?thesis
      using assms(4)
      by (simp add: fail_underfunded_def underfunded_subscription_def act_run g auto_pause_def can_transition_def
          transition_to_def validate_status_transition_def get_auto_pause_threshold_def)
  next
    case 2
    then show ?thesis
      using assms(4) open_window
      by (cases "s_grace_start_timestamp sub")
        (simp_all add: fail_underfunded_def underfunded_subscription_def act_run g auto_pause_def
          get_auto_pause_threshold_def)
  next
    case 3
    then show ?thesis
      using assms(4)
      by (simp add: fail_underfunded_def underfunded_subscription_def act_run g can_transition_def
          transition_to_def validate_status_transition_def)
  qed
qed

theorem grace_blocks_auto_pause_witness:
  "fst (fail_underfunded test_env 7 (e_timestamp test_env) None 9000 plain_sub grace_vault) = Ok CER_InsufficientBalance"
proof -
  have "grace_duration grace_vault = 3600"
    by (simp add: grace_duration_def grace_vault_def config_value_def empty_vault_def empty_config_def)
  moreover have "plain_sub = effective test_env grace_vault plain_sub"
    by (simp add: effective_def grace_over_def plain_sub_def)
  moreover have "s_status plain_sub = Active" by (simp add: plain_sub_def)
  moreover have "su_sub (v_subs grace_vault) 7 = Some plain_sub" by (simp add: grace_vault_def)
  ultimately have "fail_underfunded test_env 7 (e_timestamp test_env) None 9000 plain_sub grace_vault =
      (Ok CER_InsufficientBalance,
       snd (fail_underfunded test_env 7 (e_timestamp test_env) None 9000 plain_sub grace_vault))"
    using grace_blocks_auto_pause [of grace_vault 7 plain_sub plain_sub test_env "e_timestamp test_env" 9000]
    by (simp del: fail_underfunded_def)
  then show ?thesis by (metis fst_conv)
qed

text \<open>A property of every result of a computation, closed under the control flow.\<close>

definition yields :: "('a \<Rightarrow> bool) \<Rightarrow> 'a vm \<Rightarrow> bool" where
  "yields P m \<longleftrightarrow> (\<forall>s a t. m s = (Ok a, t) \<longrightarrow> P a)"

lemma yields_bnd: "(\<And>a. yields P (f a)) \<Longrightarrow> yields P (bnd m f)"
  by (auto simp: yields_def bnd_ok)

lemma yields_ret: "P a \<Longrightarrow> yields P (ret a)" "yields P (fail e)"
  by (auto simp: yields_def basic_ok)

lemma convert_fee_target:
  "yields (\<lambda>(conv, _). \<forall>ft. fc_target_token conv = Some ft \<longrightarrow> ft \<noteq> tk \<and> 0 < fc_effective_amount conv)
     (convert_fee E m tk fee cache)"
  unfolding convert_fee_def Let_def no_conversion_def
  by (intro yields_bnd) (auto intro!: yields_bnd yields_ret split: option.split sum.split)

text \<open>
  A converted fee is booked but not backed. When the fee of a charge is converted into the fee
  token, the treasury's balance in the fee token grows by the converted amount, no balance in the
  subscription's token grows by the fee, and the token ledger does not change: the vault swaps nothing,
  so it owes fee tokens it never received.
\<close>

theorem converted_fee_is_unbacked:
  assumes "credit_fee E sub fee tr kind s = (Ok (Some (treasury, fee', conv)), t)"
    and "fc_target_token conv = Some ft"
  shows "ft \<noteq> s_token sub \<and> 0 < fc_effective_amount conv \<and> v_ledger t = v_ledger s \<and>
    (\<forall>m tk. merchant_balance t m tk = merchant_balance s m tk +
        (if m = treasury \<and> tk = ft then fc_effective_amount conv else 0))"
proof -
  from assms obtain cache where conv: "convert_fee E (s_merchant sub) (s_token sub) fee None s = (Ok (conv, cache), s)"
    and cr: "credit_merchant_balance_for_token treasury ft (fc_effective_amount conv) kind s = (Ok (), t)"
    using keepsD [OF keeps_convert_fee [of id]]
    by (fastforce simp: credit_fee_def bnd_ok thn_ok basic_ok split: if_split_asm option.split_asm prod.split_asm)
  from conv assms(2) convert_fee_target [of "s_token sub" E "s_merchant sub" fee None]
  have "ft \<noteq> s_token sub \<and> 0 < fc_effective_amount conv" by (auto simp: yields_def)
  with credit_frame [OF cr] credit_ok [OF cr] show ?thesis by (auto simp: untouched_def)
qed

definition fee_token_vault :: vault where
  "fee_token_vault = empty_vault\<lparr>v_admin := (v_admin empty_vault)\<lparr>ad_persistent := empty_config\<lparr>
     cf_fee_token := Some (Addr 8), cf_oracle := Some \<lparr>oc_enabled = True, oc_oracle = Some (Addr 2),
       oc_max_age_seconds = 60, oc_kind = FixedRate, oc_window_secs = 0,
       oc_fixed_numerator = 6, oc_fixed_denominator = 2\<rparr>\<rparr>\<rparr>\<rparr>"

theorem converted_fee_is_unbacked_witness:
  "merchant_balance (snd (credit_fee test_env plain_sub 100 (Some (Addr 4)) Interval fee_token_vault)) (Addr 4) (Addr 8) = 300"
proof -
  let ?conv = "\<lparr>fc_effective_amount = 300, fc_target_token = Some (Addr 8), fc_rate = 3 * PRICE_SCALE\<rparr>"
  have cfg: "config_value cf_fee_token (v_admin fee_token_vault) = Some (Addr 8)"
    "config_value cf_oracle (v_admin fee_token_vault) = Some \<lparr>oc_enabled = True, oc_oracle = Some (Addr 2),
       oc_max_age_seconds = 60, oc_kind = FixedRate, oc_window_secs = 0,
       oc_fixed_numerator = 6, oc_fixed_denominator = 2\<rparr>"
    by (simp_all add: fee_token_vault_def config_value_def empty_vault_def empty_config_def)
  have quote: "fixed_quote \<lparr>oc_enabled = True, oc_oracle = Some (Addr 2),
       oc_max_age_seconds = 60, oc_kind = FixedRate, oc_window_secs = 0,
       oc_fixed_numerator = 6, oc_fixed_denominator = 2\<rparr> fee_token_vault = (Ok (3 * PRICE_SCALE), fee_token_vault)"
    by (simp add: fixed_quote_def act_run validate_sanity_band_def PRICE_SCALE_def)
  have conv: "convert_fee test_env (Addr 5) (Addr 9) 100 None fee_token_vault = (Ok (?conv, None), fee_token_vault)"
    by (simp add: convert_fee_def get_fee_token_def get_oracle_config_def act_run cfg dispatch_price_def quote
        cached_price_def converted_fee_def PRICE_SCALE_def
        checked_mul_u128_def u128_max_def wrap_i128_def signed_take_bit_eq_if_positive no_conversion_def)
  have fresh: "merchant_balance fee_token_vault m tk = 0" "token_earnings_of fee_token_vault m tk = no_earnings" for m tk
    by (simp_all add: merchant_balance_def token_earnings_of_def fee_token_vault_def empty_vault_def)
  obtain t where "credit_merchant_balance_for_token (Addr 4) (Addr 8) 300 Interval fee_token_vault = (Ok (), t)"
    using credit_succeeds [of 300 fee_token_vault "Addr 4" "Addr 8" Interval]
    by (auto simp: fresh fits_small no_earnings_def accrual_def)
  then have run: "credit_fee test_env plain_sub 100 (Some (Addr 4)) Interval fee_token_vault = (Ok (Some (Addr 4, 100, ?conv)), t)"
    using conv by (simp add: credit_fee_def act_run plain_sub_def)
  show ?thesis using fresh(1) converted_fee_is_unbacked [OF run] run by simp
qed

end
