(* ===== verification/Subscription_Limits.thy ===== *)
theory Subscription_Limits
  imports Subscription_Reads Validation Status_Machine
begin

text \<open>
  The limits a subscription is created and funded under (\<^verbatim>\<open>src/subscription.rs\<close>): the creation rate
  per day, the number of active subscriptions per subscriber and of subscriptions per merchant, the
  lifetime cap and its defaults, and the credit limit on a subscriber's exposure in a token.
\<close>

section \<open>Stores\<close>

definition mod_subs :: "(subscription_store \<Rightarrow> subscription_store) \<Rightarrow> unit vm" where
  "mod_subs f = modify (\<lambda>v. v\<lparr>v_subs := f (v_subs v)\<rparr>)"

definition mod_life :: "(lifecycle_store \<Rightarrow> lifecycle_store) \<Rightarrow> unit vm" where
  "mod_life f = modify (\<lambda>v. v\<lparr>v_life := f (v_life v)\<rparr>)"

lemma mod_store_ok [act_ok]:
  "mod_subs f s = (Ok u, t) \<longleftrightarrow> t = s\<lparr>v_subs := f (v_subs s)\<rparr>"
  "mod_life g s = (Ok u, t) \<longleftrightarrow> t = s\<lparr>v_life := g (v_life s)\<rparr>"
  by (simp_all add: mod_subs_def mod_life_def act_ok)

lemma mod_store_run [act_run]:
  "mod_subs f s = (Ok (), s\<lparr>v_subs := f (v_subs s)\<rparr>)"
  "mod_life g s = (Ok (), s\<lparr>v_life := g (v_life s)\<rparr>)"
  by (simp_all add: mod_subs_def mod_life_def act_run)

lemma keeps_mod_store [keeps_intro]:
  "(\<And>s x. g (s\<lparr>v_subs := x\<rparr>) = g s) \<Longrightarrow> keeps g (mod_subs f)"
  "(\<And>s x. g (s\<lparr>v_life := x\<rparr>) = g s) \<Longrightarrow> keeps g (mod_life h)"
  by (simp_all add: mod_subs_def mod_life_def keeps_modify)

section \<open>Checks\<close>

text \<open>A check that changes nothing is a condition on the state.\<close>

lemma check_ok: "keeps id m \<Longrightarrow> m s = (Ok u, t) \<longleftrightarrow> t = s \<and> fst (m s) = Ok u"
  by (metis keepsD id_apply fst_conv prod.collapse snd_conv)

section \<open>Intervals and ids\<close>

definition MIN_SUBSCRIPTION_INTERVAL_SECONDS :: nat where "MIN_SUBSCRIPTION_INTERVAL_SECONDS = 60"
definition MAX_SUBSCRIPTION_INTERVAL_SECONDS :: nat where "MAX_SUBSCRIPTION_INTERVAL_SECONDS = 31536000"
definition SECONDS_IN_DAY :: nat where "SECONDS_IN_DAY = 86400"
definition DEFAULT_CREATE_CAP :: nat where "DEFAULT_CREATE_CAP = 50"
definition DEFAULT_SUBSCRIBER_ACTIVE_CAP :: nat where "DEFAULT_SUBSCRIBER_ACTIVE_CAP = 10"
definition MAX_WRITE_PATH_SCAN_DEPTH :: nat where "MAX_WRITE_PATH_SCAN_DEPTH = 5000"
definition MAX_SUBSCRIPTION_ID :: nat where "MAX_SUBSCRIPTION_ID = u32_max"

definition validate_interval :: "nat \<Rightarrow> unit res" where
  "validate_interval interval_seconds =
     (case reject_zero_interval interval_seconds of
        Ok u \<Rightarrow>
          if interval_seconds < MIN_SUBSCRIPTION_INTERVAL_SECONDS \<or>
             interval_seconds > MAX_SUBSCRIPTION_INTERVAL_SECONDS
          then Err E_InvalidInput else Ok ()
      | Err e \<Rightarrow> Err e
      | Panic \<Rightarrow> Panic)"

definition next_id_of :: "vault \<Rightarrow> nat" where
  "next_id_of v = (case config_value cf_next_id (v_admin v) of Some n \<Rightarrow> n | None \<Rightarrow> 0)"

definition read_next_id :: "nat vm" where
  "read_next_id = gets next_id_of"

lemma validate_interval_ok [simp]:
  "validate_interval n = Ok u \<longleftrightarrow> 60 \<le> n \<and> n \<le> 31536000"
  by (auto simp: validate_interval_def reject_zero_interval_def MIN_SUBSCRIPTION_INTERVAL_SECONDS_def
      MAX_SUBSCRIPTION_INTERVAL_SECONDS_def)

lemma read_next_id_ok [act_ok]: "read_next_id s = (Ok n, t) \<longleftrightarrow> n = next_id_of s \<and> t = s"
  by (simp add: read_next_id_def act_ok)

lemma read_next_id_run [act_run]: "read_next_id s = (Ok (next_id_of s), s)"
  by (simp add: read_next_id_def act_run)

lemma keeps_read_next_id [keeps_intro]: "keeps g read_next_id"
  by (simp add: read_next_id_def keeps_intro)

section \<open>Expired subscriptions\<close>

text \<open>
  The block many operations open with: an expired subscription is marked as such and refused. The
  caller rolls the mark back with the error.
\<close>

definition reject_expired :: "env \<Rightarrow> nat \<Rightarrow> subscription \<Rightarrow> unit vm" where
  "reject_expired E i sub =
     (if is_expired sub (e_timestamp E) (e_sequence E) then
        thn (if s_status sub \<noteq> Expired then
               bnd (lift (transition_to (s_status sub) Expired)) (\<lambda>st.
               thn (write_subscription i (sub\<lparr>s_status := st\<rparr>))
               (publish (ChargeEv (Ev_subscription_expired i (e_timestamp E)))))
             else ret ())
        (fail E_SubscriptionExpired)
      else ret ())"

lemma reject_expired_ok [act_ok]:
  "reject_expired E i sub s = (Ok u, t) \<longleftrightarrow> \<not> is_expired sub (e_timestamp E) (e_sequence E) \<and> t = s"
  by (auto simp: reject_expired_def act_ok)

section \<open>Active subscriptions per subscriber\<close>

definition active_count :: "vault \<Rightarrow> address \<Rightarrow> nat" where
  "active_count v a = (case su_active_count (v_subs v) a of Some n \<Rightarrow> n | None \<Rightarrow> 0)"

definition get_subscriber_active_count :: "address \<Rightarrow> nat vm" where
  "get_subscriber_active_count subscriber = gets (\<lambda>v. active_count v subscriber)"

definition increment_subscriber_active_count :: "address \<Rightarrow> unit vm" where
  "increment_subscriber_active_count subscriber =
     bnd (get_subscriber_active_count subscriber) (\<lambda>count.
     mod_subs (\<lambda>u. u\<lparr>su_active_count := (su_active_count u)(subscriber \<mapsto> sat_add_u32 count 1)\<rparr>))"

definition decrement_subscriber_active_count :: "address \<Rightarrow> unit vm" where
  "decrement_subscriber_active_count subscriber =
     bnd (get_subscriber_active_count subscriber) (\<lambda>count.
     mod_subs (\<lambda>u. u\<lparr>su_active_count := (su_active_count u)(subscriber \<mapsto> count - 1)\<rparr>))"

definition active_cap :: "vault \<Rightarrow> address \<Rightarrow> nat" where
  "active_cap v a = (case lf_active_cap (v_life v) a of Some n \<Rightarrow> n | None \<Rightarrow> DEFAULT_SUBSCRIBER_ACTIVE_CAP)"

definition get_subscriber_active_cap :: "address \<Rightarrow> nat vm" where
  "get_subscriber_active_cap subscriber = gets (\<lambda>v. active_cap v subscriber)"

definition do_set_subscriber_active_cap :: "env \<Rightarrow> address \<Rightarrow> address \<Rightarrow> nat option \<Rightarrow> unit vm" where
  "do_set_subscriber_active_cap E admin subscriber cap =
     thn (require_admin_auth E admin)
     (mod_life (\<lambda>l. l\<lparr>lf_active_cap := (lf_active_cap l)(subscriber := cap)\<rparr>))"

lemma active_count_ok [act_ok]:
  "get_subscriber_active_count a s = (Ok n, t) \<longleftrightarrow> n = active_count s a \<and> t = s"
  "get_subscriber_active_cap a s = (Ok n, t) \<longleftrightarrow> n = active_cap s a \<and> t = s"
  by (simp_all add: get_subscriber_active_count_def get_subscriber_active_cap_def act_ok)

lemma active_count_run [act_run]:
  "increment_subscriber_active_count a s =
     (Ok (), s\<lparr>v_subs := (v_subs s)\<lparr>su_active_count := (su_active_count (v_subs s))(a \<mapsto> sat_add_u32 (active_count s a) 1)\<rparr>\<rparr>)"
  "decrement_subscriber_active_count a s =
     (Ok (), s\<lparr>v_subs := (v_subs s)\<lparr>su_active_count := (su_active_count (v_subs s))(a \<mapsto> active_count s a - 1)\<rparr>\<rparr>)"
  "get_subscriber_active_count a s = (Ok (active_count s a), s)"
  "get_subscriber_active_cap a s = (Ok (active_cap s a), s)"
  by (simp_all add: increment_subscriber_active_count_def decrement_subscriber_active_count_def
      get_subscriber_active_count_def get_subscriber_active_cap_def act_run)

lemma active_step_ok [act_ok]:
  "increment_subscriber_active_count a s = (Ok u, t) \<longleftrightarrow>
     t = s\<lparr>v_subs := (v_subs s)\<lparr>su_active_count := (su_active_count (v_subs s))(a \<mapsto> sat_add_u32 (active_count s a) 1)\<rparr>\<rparr>"
  "decrement_subscriber_active_count a s = (Ok u, t) \<longleftrightarrow>
     t = s\<lparr>v_subs := (v_subs s)\<lparr>su_active_count := (su_active_count (v_subs s))(a \<mapsto> active_count s a - 1)\<rparr>\<rparr>"
  by (auto simp: active_count_run)

section \<open>Subscriptions per merchant\<close>

definition id_list :: "(nat list) option \<Rightarrow> nat list" where
  "id_list x = (case x of Some l \<Rightarrow> l | None \<Rightarrow> [])"

definition get_merchant_subscription_count :: "address \<Rightarrow> nat vm" where
  "get_merchant_subscription_count merchant =
     gets (\<lambda>v. length (id_list (su_merchant_subs (v_subs v) merchant)))"

definition get_merchant_max_subs :: "address \<Rightarrow> nat vm" where
  "get_merchant_max_subs merchant =
     gets (\<lambda>v. case lf_merchant_max_subs (v_life v) merchant of Some n \<Rightarrow> n | None \<Rightarrow> u32_max)"

definition do_set_merchant_max_subs :: "env \<Rightarrow> address \<Rightarrow> address \<Rightarrow> nat \<Rightarrow> unit vm" where
  "do_set_merchant_max_subs E admin merchant max_subs =
     thn (require_admin_auth E admin)
     (thn (mod_life (\<lambda>l. l\<lparr>lf_merchant_max_subs := (lf_merchant_max_subs l)(merchant \<mapsto> max_subs)\<rparr>))
     (publish (PlanEv (Ev_merchant_max_subs_updated merchant max_subs (e_timestamp E)))))"

lemma merchant_limits_ok [act_ok]:
  "get_merchant_subscription_count m s = (Ok n, t) \<longleftrightarrow>
     n = length (id_list (su_merchant_subs (v_subs s) m)) \<and> t = s"
  "get_merchant_max_subs m s = (Ok n, t) \<longleftrightarrow>
     n = (case lf_merchant_max_subs (v_life s) m of Some n \<Rightarrow> n | None \<Rightarrow> u32_max) \<and> t = s"
  by (simp_all add: get_merchant_subscription_count_def get_merchant_max_subs_def act_ok)

section \<open>Creations per day\<close>

text \<open>The cap is read from the instance tier alone; the sum of seconds wraps in the release profile.\<close>

definition create_cap_of :: "vault \<Rightarrow> nat" where
  "create_cap_of v =
     (case cf_subscriber_create_cap (ad_instance (v_admin v)) of Some c \<Rightarrow> c | None \<Rightarrow> DEFAULT_CREATE_CAP)"

definition emit_rate_limit_tripped :: "env \<Rightarrow> address \<Rightarrow> unit vm" where
  "emit_rate_limit_tripped E subscriber = publish (LifeEv (Ev_rate_limit_tripped subscriber (e_timestamp E)))"

definition open_window :: "env \<Rightarrow> subscriber_create_window option \<Rightarrow> subscriber_create_window" where
  "open_window E stored =
     (let now = e_timestamp E;
          window = (case stored of Some w \<Rightarrow> w | None \<Rightarrow> \<lparr>cw_start_ts = now, cw_count = 0\<rparr>)
      in if now \<ge> (cw_start_ts window + SECONDS_IN_DAY) mod 2 ^ 64
         then \<lparr>cw_start_ts = now, cw_count = 0\<rparr> else window)"

definition enforce_creation_rate_limit :: "env \<Rightarrow> address \<Rightarrow> unit vm" where
  "enforce_creation_rate_limit E subscriber =
     bnd (attempt do_get_admin) (\<lambda>admin.
     if admin = Inr subscriber then ret ()
     else
       bnd (gets create_cap_of) (\<lambda>cap.
       if cap = 0 then thn (emit_rate_limit_tripped E subscriber) (fail E_SubscriberRateLimited)
       else
         bnd (gets (\<lambda>v. lf_create_window (v_life v) subscriber)) (\<lambda>stored.
         let window = open_window E stored in
         if cw_count window \<ge> cap then thn (emit_rate_limit_tripped E subscriber) (fail E_SubscriberRateLimited)
         else
           mod_life (\<lambda>l. l\<lparr>lf_create_window := (lf_create_window l)
             (subscriber \<mapsto> window\<lparr>cw_count := (cw_count window + 1) mod 2 ^ 32\<rparr>)\<rparr>))))"

section \<open>Lifetime caps\<close>

definition get_global_cap_default :: "(int option) vm" where
  "get_global_cap_default = gets (\<lambda>v. lf_cap_default (v_life v))"

definition get_merchant_cap_default :: "address \<Rightarrow> (int option) vm" where
  "get_merchant_cap_default merchant = gets (\<lambda>v. lf_merchant_cap (v_life v) merchant)"

definition resolve_cap :: "address \<Rightarrow> int option \<Rightarrow> (int option) vm" where
  "resolve_cap merchant explicit_cap =
     (if explicit_cap \<noteq> None then ret explicit_cap
      else
        bnd (get_merchant_cap_default merchant) (\<lambda>merchant_default.
        if merchant_default \<noteq> None then ret merchant_default else get_global_cap_default))"

definition lifetime_cap_remaining :: "int \<Rightarrow> int \<Rightarrow> int" where
  "lifetime_cap_remaining cap lifetime_charged = max (sat_i128 (cap - lifetime_charged)) 0"

definition enforce_deposit_cap :: "subscription \<Rightarrow> int \<Rightarrow> unit res" where
  "enforce_deposit_cap sub deposit =
     (case s_lifetime_cap sub of
        None \<Rightarrow> Ok ()
      | Some cap \<Rightarrow>
          let chargeable_remaining = lifetime_cap_remaining cap (s_lifetime_charged sub);
              depositable_remaining = sat_i128 (chargeable_remaining - s_prepaid_balance sub)
          in if deposit > depositable_remaining then Err E_LifetimeCapReached else Ok ())"

definition positive_cap :: "int option \<Rightarrow> unit vm" where
  "positive_cap cap = (case cap of Some c \<Rightarrow> if c \<le> 0 then fail E_InvalidAmount else ret () | None \<Rightarrow> ret ())"

definition cap_or_zero :: "int option \<Rightarrow> int" where
  "cap_or_zero cap = (case cap of Some c \<Rightarrow> c | None \<Rightarrow> 0)"

definition do_set_global_cap_default :: "env \<Rightarrow> address \<Rightarrow> int option \<Rightarrow> unit vm" where
  "do_set_global_cap_default E admin cap =
     thn (require_admin_auth E admin)
     (thn (positive_cap cap)
     (thn (mod_life (\<lambda>l. l\<lparr>lf_cap_default := cap\<rparr>))
     (publish (PlanEv (Ev_global_cap_set admin (cap_or_zero cap) (e_timestamp E))))))"

definition do_set_merchant_cap_default :: "env \<Rightarrow> address \<Rightarrow> int option \<Rightarrow> unit vm" where
  "do_set_merchant_cap_default E merchant cap =
     thn (require_auth E merchant)
     (thn (positive_cap cap)
     (thn (mod_life (\<lambda>l. l\<lparr>lf_merchant_cap := (lf_merchant_cap l)(merchant := cap)\<rparr>))
     (publish (PlanEv (Ev_merchant_cap_set merchant (cap_or_zero cap) (e_timestamp E))))))"

definition do_update_subscription_cap :: "env \<Rightarrow> address \<Rightarrow> nat \<Rightarrow> int option \<Rightarrow> unit vm" where
  "do_update_subscription_cap E admin i new_cap =
     thn (require_admin_auth E admin)
     (thn (positive_cap new_cap)
     (bnd (get_subscription E i) (\<lambda>sub.
     if (case new_cap of Some c \<Rightarrow> c < s_lifetime_charged sub | None \<Rightarrow> False)
     then fail E_LifetimeCapReached
     else
       thn (write_subscription i (sub\<lparr>s_lifetime_cap := new_cap\<rparr>))
       (bnd (read_config cf_admin) (\<lambda>stored.
       publish (PlanEv (Ev_cap_updated i (case stored of Some a \<Rightarrow> a | None \<Rightarrow> s_merchant sub)
         (cap_or_zero new_cap) (e_timestamp E))))))))"

section \<open>Credit limit\<close>

definition credit_limit_of :: "vault \<Rightarrow> address \<Rightarrow> address \<Rightarrow> int" where
  "credit_limit_of v a tk = (case lf_credit_limit (v_life v) a tk of Some l \<Rightarrow> l | None \<Rightarrow> 0)"

definition get_subscriber_credit_limit :: "address \<Rightarrow> address \<Rightarrow> int vm" where
  "get_subscriber_credit_limit subscriber token = gets (\<lambda>v. credit_limit_of v subscriber token)"

definition do_set_subscriber_credit_limit :: "env \<Rightarrow> address \<Rightarrow> address \<Rightarrow> address \<Rightarrow> int \<Rightarrow> unit vm" where
  "do_set_subscriber_credit_limit E admin subscriber token limit =
     thn (require_admin_auth E admin)
     (if limit < 0 then fail E_InvalidAmount
      else
        mod_life (\<lambda>l. l\<lparr>lf_credit_limit := (lf_credit_limit l)
          (subscriber := (lf_credit_limit l subscriber)(token \<mapsto> limit))\<rparr>))"

primrec exposure_loop :: "address \<Rightarrow> address \<Rightarrow> nat list \<Rightarrow> int \<Rightarrow> int vm" where
  "exposure_loop subscriber token [] exposure = ret exposure"
| "exposure_loop subscriber token (i # ids) exposure =
     bnd (gets (\<lambda>v. su_sub (v_subs v) i)) (\<lambda>x.
     case x of
       None \<Rightarrow> exposure_loop subscriber token ids exposure
     | Some sub \<Rightarrow>
         if s_subscriber sub \<noteq> subscriber \<or> s_token sub \<noteq> token
         then exposure_loop subscriber token ids exposure
         else
           bnd (lift (safe_add exposure (s_prepaid_balance sub))) (\<lambda>e1.
           bnd (if s_status sub = Active then lift (safe_add e1 (s_amount sub)) else ret e1) (\<lambda>e2.
           exposure_loop subscriber token ids e2)))"

definition compute_subscriber_exposure :: "address \<Rightarrow> address \<Rightarrow> int vm" where
  "compute_subscriber_exposure subscriber token =
     bnd read_next_id (\<lambda>next_id.
     if next_id > MAX_WRITE_PATH_SCAN_DEPTH then fail E_InvalidInput
     else exposure_loop subscriber token [0..<next_id] 0)"

definition enforce_credit_limit_for_delta :: "address \<Rightarrow> address \<Rightarrow> int \<Rightarrow> unit vm" where
  "enforce_credit_limit_for_delta subscriber token additional_liability =
     (if additional_liability \<le> 0 then ret ()
      else
        bnd (get_subscriber_credit_limit subscriber token) (\<lambda>limit.
        if limit = 0 then ret ()
        else
          bnd (compute_subscriber_exposure subscriber token) (\<lambda>current.
          bnd (lift (safe_add current additional_liability)) (\<lambda>new_exposure.
          if new_exposure > limit then fail E_CreditLimitExceeded else ret ()))))"

text \<open>What the loop computes: the sum of the contributions of the subscriptions.\<close>

definition contribution :: "address \<Rightarrow> address \<Rightarrow> subscription option \<Rightarrow> int" where
  "contribution a tk x =
     (case x of
        Some sub \<Rightarrow>
          if s_subscriber sub = a \<and> s_token sub = tk
          then s_prepaid_balance sub + (if s_status sub = Active then s_amount sub else 0) else 0
      | None \<Rightarrow> 0)"

definition exposure :: "vault \<Rightarrow> address \<Rightarrow> address \<Rightarrow> int" where
  "exposure v a tk = (\<Sum>i<next_id_of v. contribution a tk (su_sub (v_subs v) i))"

lemma exposure_loop_ok:
  "exposure_loop a tk ids e s = (Ok x, t) \<Longrightarrow>
     x = e + (\<Sum>i\<leftarrow>ids. contribution a tk (su_sub (v_subs s) i)) \<and> t = s"
  by (induction ids arbitrary: e)
    (fastforce simp: act_ok contribution_def split: option.split_asm if_split_asm)+

lemma compute_subscriber_exposure_ok:
  "compute_subscriber_exposure a tk s = (Ok x, t) \<Longrightarrow> x = exposure s a tk \<and> t = s"
  by (auto simp: compute_subscriber_exposure_def act_ok exposure_def sum_list_distinct_conv_sum_set
      atLeast_upt split: if_split_asm dest!: exposure_loop_ok)

lemma enforce_credit_limit_ok:
  "enforce_credit_limit_for_delta a tk d s = (Ok u, t) \<Longrightarrow>
     t = s \<and> (0 < d \<longrightarrow> credit_limit_of s a tk \<noteq> 0 \<longrightarrow> exposure s a tk + d \<le> credit_limit_of s a tk)"
  by (auto simp: enforce_credit_limit_for_delta_def get_subscriber_credit_limit_def act_ok not_less
      split: if_split_asm dest!: compute_subscriber_exposure_ok)

lemma keeps_exposure_loop [keeps_intro]: "keeps g (exposure_loop a tk ids e)"
  by (induction ids arbitrary: e) (auto intro!: keeps_intro split: option.split)

lemma keeps_limits [keeps_intro]:
  "keeps g (get_subscriber_active_count a)" "keeps g (get_subscriber_active_cap a)"
  "keeps g (get_merchant_subscription_count m)" "keeps g (get_merchant_max_subs m)"
  "keeps g (compute_subscriber_exposure a tk)" "keeps g (enforce_credit_limit_for_delta a tk d)"
  "keeps g get_global_cap_default" "keeps g (get_merchant_cap_default m)" "keeps g (resolve_cap m c)"
  "keeps g (positive_cap c)" "keeps g (get_subscriber_credit_limit a tk)"
  by (auto simp: get_subscriber_active_count_def get_subscriber_active_cap_def
      get_merchant_subscription_count_def get_merchant_max_subs_def compute_subscriber_exposure_def
      enforce_credit_limit_for_delta_def get_global_cap_default_def get_merchant_cap_default_def
      resolve_cap_def positive_cap_def get_subscriber_credit_limit_def intro!: keeps_intro split: option.split)

end
