(* ===== verification/Subscription_Create.thy ===== *)
theory Subscription_Create
  imports Subscription_Limits
begin

text \<open>
  Creating subscriptions (\<^verbatim>\<open>src/subscription.rs\<close>: \<open>do_create_subscription\<close> and
  \<open>do_create_subscription_with_token\<close>): the checks in the order of the code, the new record, the id
  counter and the three indexes.
\<close>

section \<open>The operation\<close>

record creation =
  cr_subscriber :: address
  cr_merchant :: address
  cr_token :: address
  cr_amount :: int
  cr_interval_seconds :: nat
  cr_usage_enabled :: bool
  cr_lifetime_cap :: "int option"
  cr_expires_at :: "nat option"
  cr_expires_at_ledger :: "nat option"
  cr_sub_account_label :: "symbol option"
  cr_proration_enabled :: bool

definition new_subscription :: "env \<Rightarrow> creation \<Rightarrow> int option \<Rightarrow> subscription" where
  "new_subscription E c cap = \<lparr>
     s_subscriber = cr_subscriber c, s_merchant = cr_merchant c, s_token = cr_token c,
     s_amount = cr_amount c, s_interval_seconds = cr_interval_seconds c,
     s_last_payment_timestamp = e_timestamp E, s_status = Active, s_prepaid_balance = 0,
     s_usage_enabled = cr_usage_enabled c, s_lifetime_cap = cap, s_lifetime_charged = 0,
     s_start_time = e_timestamp E, s_expires_at = cr_expires_at c, s_grace_start_timestamp = None,
     s_cancel_at = None, s_auto_renew = True, s_auto_renew_disabled_at = None,
     s_expires_at_ledger = cr_expires_at_ledger c, s_sub_account_label = cr_sub_account_label c,
     s_proration_enabled = cr_proration_enabled c, s_auto_pause_threshold = 0\<rparr>"

definition concurrency_gate :: "env \<Rightarrow> address \<Rightarrow> address \<Rightarrow> unit vm" where
  "concurrency_gate E subscriber merchant =
     bnd (get_merchant_subscription_count merchant) (\<lambda>merchant_count.
     bnd (get_merchant_max_subs merchant) (\<lambda>max_subs.
     if merchant_count \<ge> max_subs then fail E_MaxConcurrentSubscriptionsReached
     else
       bnd (get_subscriber_active_count subscriber) (\<lambda>subscriber_active_count.
       bnd (get_subscriber_active_cap subscriber) (\<lambda>subscriber_cap.
       if subscriber_active_count \<ge> subscriber_cap then
         thn (publish (LifeEv (Ev_subscriber_cap_reached subscriber subscriber_active_count subscriber_cap
                (e_timestamp E))))
         (fail E_MaxConcurrentSubscriptionsReached)
       else ret ()))))"

definition expiry_in_future :: "env \<Rightarrow> nat option \<Rightarrow> nat option \<Rightarrow> bool" where
  "expiry_in_future E expires_at expires_at_ledger \<longleftrightarrow>
     (case expires_at of Some t \<Rightarrow> e_timestamp E < t | None \<Rightarrow> True) \<and>
     (case expires_at_ledger of Some l \<Rightarrow> e_sequence E < l | None \<Rightarrow> True)"

definition cap_covers_amount :: "int option \<Rightarrow> int \<Rightarrow> unit vm" where
  "cap_covers_amount cap amount =
     (case cap of
        None \<Rightarrow> ret ()
      | Some c \<Rightarrow> if c \<le> 0 then fail E_InvalidAmount else if c < amount then fail E_InvalidInput else ret ())"

definition usage_limits_gate :: "bool \<Rightarrow> nat \<Rightarrow> address \<Rightarrow> unit vm" where
  "usage_limits_gate usage_enabled i merchant =
     (if usage_enabled then
        bnd (gets (\<lambda>v. ch_usage_limits (v_charge v) i)) (\<lambda>limits.
        case limits of
          Some l \<Rightarrow> if ul_merchant l \<noteq> merchant then fail E_UsageLimitsRequired else ret ()
        | None \<Rightarrow> fail E_UsageLimitsRequired)
      else ret ())"

definition index_subscription :: "nat \<Rightarrow> subscription \<Rightarrow> unit vm" where
  "index_subscription i sub =
     thn (mod_subs (\<lambda>u. u\<lparr>su_merchant_subs := (su_merchant_subs u)
            (s_merchant sub \<mapsto> id_list (su_merchant_subs u (s_merchant sub)) @ [i])\<rparr>))
     (thn (mod_life (\<lambda>l. l\<lparr>lf_token_subs := (lf_token_subs l)
            (s_token sub \<mapsto> id_list (lf_token_subs l (s_token sub)) @ [i])\<rparr>))
     (mod_subs (\<lambda>u. u\<lparr>su_subscriber_subs := (su_subscriber_subs u)
            (s_subscriber sub \<mapsto> id_list (su_subscriber_subs u (s_subscriber sub)) @ [i])\<rparr>)))"

definition issue_credential :: "env \<Rightarrow> nat \<Rightarrow> unit vm" where
  "issue_credential E i =
     thn (mod_life (\<lambda>l. l\<lparr>lf_credential := (lf_credential l)(i \<mapsto>
            \<lparr>cb_subscription_id = i, cb_tier = 1, cb_issued_at = e_timestamp E, cb_revoked = False\<rparr>)\<rparr>))
     (publish (LifeEv (Ev_credential_issued i 1 (e_timestamp E))))"

text \<open>\<open>MAX_SUBSCRIPTION_ID\<close> is the largest \<open>u32\<close>, so the increment after the check cannot fail.\<close>

definition store_new_subscription :: "env \<Rightarrow> creation \<Rightarrow> int option \<Rightarrow> nat vm" where
  "store_new_subscription E c cap =
     (let sub = new_subscription E c cap in
     bnd read_next_id (\<lambda>i.
     thn (usage_limits_gate (cr_usage_enabled c) i (cr_merchant c))
     (if i = MAX_SUBSCRIPTION_ID then fail E_SubscriptionLimitReached
      else
        bnd (ok_or (checked_add_u32 i 1) E_SubscriptionLimitReached) (\<lambda>next_id.
        thn (write_config cf_next_id_update next_id)
        (thn (write_subscription i sub)
        (thn (increment_subscriber_active_count (cr_subscriber c))
        (thn (index_subscription i sub)
        (thn (publish (LifeEv (Ev_subscription_created i (cr_subscriber c) (cr_merchant c) (cr_token c)
                (cr_amount c) (cr_interval_seconds c) (cr_lifetime_cap c) (cr_expires_at c)
                (cr_expires_at_ledger c) (e_timestamp E))))
        (thn (issue_credential E i)
        (ret i)))))))))) "

text \<open>There is no inviter in the code as it stands (\<open>let inviter: Option<Address> = None\<close>).\<close>

definition do_create_subscription_with_token :: "env \<Rightarrow> creation \<Rightarrow> nat vm" where
  "do_create_subscription_with_token E c =
     thn (require_auth E (cr_subscriber c))
     (thn (lift (validate_subscription_amount_for_create (cr_amount c) (cr_usage_enabled c)))
     (thn (require_not_blocklisted (cr_subscriber c))
     (thn (require_not_blocklisted (cr_merchant c))
     (thn (enforce_creation_rate_limit E (cr_subscriber c))
     (thn (concurrency_gate E (cr_subscriber c) (cr_merchant c))
     (thn (lift (validate_interval (cr_interval_seconds c)))
     (if \<not> expiry_in_future E (cr_expires_at c) (cr_expires_at_ledger c) then fail E_InvalidExpiration
      else
        bnd (is_token_accepted (cr_token c)) (\<lambda>accepted.
        if \<not> accepted then fail E_InvalidInput
        else
          bnd (resolve_cap (cr_merchant c) (cr_lifetime_cap c)) (\<lambda>resolved_cap.
          thn (cap_covers_amount resolved_cap (cr_amount c))
          (thn (enforce_credit_limit_for_delta (cr_subscriber c) (cr_token c) (cr_amount c))
          (store_new_subscription E c resolved_cap)))))))))))"

definition do_create_subscription :: "env \<Rightarrow> creation \<Rightarrow> nat vm" where
  "do_create_subscription E c =
     thn (lift (validate_subscription_amount_for_create (cr_amount c) (cr_usage_enabled c)))
     (bnd get_token (\<lambda>token.
     thn (enforce_credit_limit_for_delta (cr_subscriber c) token (cr_amount c))
     (do_create_subscription_with_token E (c\<lparr>cr_token := token\<rparr>))))"

section \<open>What a successful creation did\<close>

lemma enforce_creation_rate_limit_frame:
  "enforce_creation_rate_limit E a s = (Ok u, t) \<Longrightarrow>
   (\<exists>w. t = s\<lparr>v_life := (v_life s)\<lparr>lf_create_window := w\<rparr>\<rparr>)"
proof -
  have self: "\<exists>w. s = s\<lparr>v_life := (v_life s)\<lparr>lf_create_window := w\<rparr>\<rparr>"
    by (rule exI [of _ "lf_create_window (v_life s)"]) simp
  assume "enforce_creation_rate_limit E a s = (Ok u, t)"
  moreover have "keeps id do_get_admin" by (simp add: do_get_admin_def keeps_intro)
  ultimately show ?thesis
    using self keepsD [of id do_get_admin s]
    by (auto simp: enforce_creation_rate_limit_def Let_def act_ok emit_rate_limit_tripped_def
        split: if_split_asm sum.split_asm)
qed

lemma concurrency_gate_ok [act_ok]:
  "concurrency_gate E a m s = (Ok u, t) \<longleftrightarrow> t = s \<and> active_count s a < active_cap s a \<and>
     length (id_list (su_merchant_subs (v_subs s) m)) <
       (case lf_merchant_max_subs (v_life s) m of Some n \<Rightarrow> n | None \<Rightarrow> u32_max)"
  by (auto simp: concurrency_gate_def act_ok)

lemma resolve_cap_ok [act_ok]:
  "resolve_cap m c s = (Ok r, t) \<longleftrightarrow> t = s \<and>
     r = (if c \<noteq> None then c else if lf_merchant_cap (v_life s) m \<noteq> None then lf_merchant_cap (v_life s) m
          else lf_cap_default (v_life s))"
  by (auto simp: resolve_cap_def get_merchant_cap_default_def get_global_cap_default_def act_ok)

lemma cap_covers_amount_ok [act_ok]:
  "cap_covers_amount cap a s = (Ok u, t) \<longleftrightarrow> t = s \<and> (\<forall>c. cap = Some c \<longrightarrow> 0 < c \<and> a \<le> c)"
  by (auto simp: cap_covers_amount_def act_ok split: option.split)

lemma usage_limits_gate_ok [act_ok]:
  "usage_limits_gate b i m s = (Ok u, t) \<longleftrightarrow> t = s \<and>
     (b \<longrightarrow> (\<exists>l. ch_usage_limits (v_charge s) i = Some l \<and> ul_merchant l = m))"
  by (auto simp: usage_limits_gate_def act_ok split: option.split)

lemma next_id_after_put [simp]:
  "schema_version (v_admin s) \<ge> 3 \<or> cf_next_id (ad_persistent (v_admin s)) = None \<Longrightarrow>
   config_value cf_next_id (config_put cf_next_id_update n (v_admin s)) = Some n"
  by (auto simp: config_value_def config_put_def split: option.splits)

text \<open>The state after a creation, by the stores it changes.\<close>

definition created :: "env \<Rightarrow> creation \<Rightarrow> int option \<Rightarrow> vault \<Rightarrow> vault \<Rightarrow> bool" where
  "created E c cap s t \<longleftrightarrow>
     (let i = next_id_of s; sub = new_subscription E c cap in
      v_subs t = (v_subs s)\<lparr>su_sub := (su_sub (v_subs s))(i \<mapsto> sub),
        su_active_count := (su_active_count (v_subs s))(cr_subscriber c \<mapsto> sat_add_u32 (active_count s (cr_subscriber c)) 1),
        su_merchant_subs := (su_merchant_subs (v_subs s))(cr_merchant c \<mapsto> id_list (su_merchant_subs (v_subs s) (cr_merchant c)) @ [i]),
        su_subscriber_subs := (su_subscriber_subs (v_subs s))(cr_subscriber c \<mapsto> id_list (su_subscriber_subs (v_subs s) (cr_subscriber c)) @ [i])\<rparr> \<and>
      v_admin t = config_put cf_next_id_update (i + 1) (v_admin s) \<and>
      lf_token_subs (v_life t) = (lf_token_subs (v_life s))(cr_token c \<mapsto> id_list (lf_token_subs (v_life s) (cr_token c)) @ [i]) \<and>
      lf_credit_limit (v_life t) = lf_credit_limit (v_life s) \<and> lf_escrow (v_life t) = lf_escrow (v_life s) \<and> v_merchant t = v_merchant s \<and>
      v_ledger t = v_ledger s \<and> v_charge t = v_charge s \<and> v_dispute t = v_dispute s)"

lemma store_new_subscription_ok:
  "store_new_subscription E c cap s = (Ok i, t) \<Longrightarrow> i = next_id_of s \<and> i < u32_max \<and> created E c cap s t \<and>
     (cr_usage_enabled c \<longrightarrow> (\<exists>l. ch_usage_limits (v_charge s) i = Some l \<and> ul_merchant l = cr_merchant c))"
  by (auto simp: store_new_subscription_def Let_def act_ok created_def issue_credential_def index_subscription_def
      new_subscription_def checked_add_u32_def MAX_SUBSCRIPTION_ID_def active_count_def split: if_split_asm)

lemma created_window:
  "created E c cap (s\<lparr>v_life := (v_life s)\<lparr>lf_create_window := w\<rparr>\<rparr>) t \<longleftrightarrow> created E c cap s t"
  by (simp add: created_def Let_def next_id_of_def active_count_def)

lemma create_with_token_ok:
  assumes "do_create_subscription_with_token E c s = (Ok i, t)"
  obtains cap where "i = next_id_of s" "i < u32_max" "created E c cap s t" "e_auth E (cr_subscriber c)"
    "0 \<le> cr_amount c" "cr_amount c \<le> MAX_SUBSCRIPTION_AMOUNT" "60 \<le> cr_interval_seconds c"
    "\<forall>k. cap = Some k \<longrightarrow> 0 < k \<and> cr_amount c \<le> k"
    "ad_accepted_decimals (v_admin s) (cr_token c) \<noteq> None"
    "\<not> is_blocklisted s (cr_subscriber c)" "\<not> is_blocklisted s (cr_merchant c)"
    "active_count s (cr_subscriber c) < active_cap s (cr_subscriber c)"
    "0 < cr_amount c \<longrightarrow> credit_limit_of s (cr_subscriber c) (cr_token c) \<noteq> 0 \<longrightarrow>
       exposure s (cr_subscriber c) (cr_token c) + cr_amount c \<le> credit_limit_of s (cr_subscriber c) (cr_token c)"
proof -
  from assms obtain u cap v where
    gates: "e_auth E (cr_subscriber c)"
      "validate_subscription_amount_for_create (cr_amount c) (cr_usage_enabled c) = Ok ()"
      "\<not> is_blocklisted s (cr_subscriber c)" "\<not> is_blocklisted s (cr_merchant c)"
      "60 \<le> cr_interval_seconds c"
    and rate: "enforce_creation_rate_limit E (cr_subscriber c) s = (Ok (), u)"
    and more: "active_count u (cr_subscriber c) < active_cap u (cr_subscriber c)"
      "ad_accepted_decimals (v_admin u) (cr_token c) \<noteq> None" "\<forall>k. cap = Some k \<longrightarrow> 0 < k \<and> cr_amount c \<le> k"
    and credit: "enforce_credit_limit_for_delta (cr_subscriber c) (cr_token c) (cr_amount c) u = (Ok (), v)"
    and store: "store_new_subscription E c cap v = (Ok i, t)"
    unfolding do_create_subscription_with_token_def
    by (simp add: act_ok split: if_split_asm) (metis option.inject option.distinct(1))+
  from enforce_creation_rate_limit_frame [OF rate] obtain w
    where u: "u = s\<lparr>v_life := (v_life s)\<lparr>lf_create_window := w\<rparr>\<rparr>" ..
  from enforce_credit_limit_ok [OF credit] have v: "v = u"
    and lim: "0 < cr_amount c \<longrightarrow> credit_limit_of u (cr_subscriber c) (cr_token c) \<noteq> 0 \<longrightarrow>
       exposure u (cr_subscriber c) (cr_token c) + cr_amount c \<le> credit_limit_of u (cr_subscriber c) (cr_token c)"
    by auto
  from store_new_subscription_ok [OF store [unfolded v]] have new: "i = next_id_of s" "i < u32_max" "created E c cap s t"
    by (auto simp: u created_window next_id_of_def)
  from gates(2) have amount: "0 \<le> cr_amount c" "cr_amount c \<le> MAX_SUBSCRIPTION_AMOUNT"
    by (auto simp: validate_subscription_amount_for_create_def split: if_split_asm)
  show thesis
    by (rule that [OF new gates(1) amount gates(5) more(3)])
      (use gates more lim in \<open>simp_all add: u active_count_def active_cap_def credit_limit_of_def exposure_def next_id_of_def\<close>)
qed

lemma created_exposure:
  assumes "created E c cap s t" and "schema_version (v_admin s) \<ge> 3 \<or> cf_next_id (ad_persistent (v_admin s)) = None"
  shows "exposure t a tk = exposure s a tk + (if a = cr_subscriber c \<and> tk = cr_token c then cr_amount c else 0)"
proof -
  let ?n = "next_id_of s"
  from assms have "next_id_of t = Suc ?n" "su_sub (v_subs t) = (su_sub (v_subs s))(?n \<mapsto> new_subscription E c cap)"
    by (simp_all add: created_def Let_def next_id_of_def [of t])
  moreover have "(\<Sum>i<?n. contribution a tk (if i = ?n then x else su_sub (v_subs s) i)) = exposure s a tk" for x
    unfolding exposure_def by (rule sum.cong) auto
  ultimately show ?thesis
    by (simp add: exposure_def [of t] fun_upd_def contribution_def new_subscription_def)
qed

end
