(* ===== verification/Subscription_Funds.thy ===== *)
theory Subscription_Funds
  imports Subscription_Limits Merchant_Ledger Nonces Charge_Core
begin

text \<open>
  Money into and out of prepaid balances (\<^verbatim>\<open>src/subscription.rs\<close>): deposits by the subscriber and by a
  delegated payer, cancellation with its refund, withdrawals after the end, the emergency withdrawal
  with its waiting time, partial refunds by the admin, and archiving.
\<close>

section \<open>Deposits\<close>

definition accept_topup :: "int \<Rightarrow> unit vm" where
  "accept_topup amount =
     bnd get_min_topup (\<lambda>min_topup.
     if amount < 0 then fail E_InvalidAmount
     else if amount < min_topup then fail E_BelowMinimumTopup else ret ())"

definition merchant_not_paused :: "address \<Rightarrow> unit vm" where
  "merchant_not_paused merchant =
     bnd (get_merchant_paused merchant) (\<lambda>paused. if paused then fail E_MerchantPaused else ret ())"

definition merchant_not_in_vacation :: "env \<Rightarrow> address \<Rightarrow> unit vm" where
  "merchant_not_in_vacation E merchant =
     bnd (is_merchant_in_vacation merchant (e_timestamp E)) (\<lambda>vacation.
     if vacation then fail E_VacationActive else ret ())"

definition recovering :: "subscription \<Rightarrow> bool" where
  "recovering sub \<longleftrightarrow>
     (s_status sub = InsufficientBalance \<or> s_status sub = GracePeriod) \<and> s_prepaid_balance sub \<ge> s_amount sub"

definition publish_recovery_ready :: "env \<Rightarrow> nat \<Rightarrow> subscription \<Rightarrow> unit vm" where
  "publish_recovery_ready E i sub =
     publish (FundEv (Ev_recovery_ready i (s_subscriber sub) (s_prepaid_balance sub) (s_amount sub) (e_timestamp E)))"

definition optional_nonce :: "env \<Rightarrow> address \<Rightarrow> nonce_domain \<Rightarrow> nat option \<Rightarrow> unit vm" where
  "optional_nonce E signer domain nonce =
     (case nonce of Some n \<Rightarrow> check_and_advance E signer domain n | None \<Rightarrow> ret ())"

definition do_deposit_funds :: "env \<Rightarrow> nat \<Rightarrow> int \<Rightarrow> nat option \<Rightarrow> unit vm" where
  "do_deposit_funds E i amount nonce =
     bnd (get_subscription E i) (\<lambda>sub0.
     let subscriber = s_subscriber sub0; token_addr = s_token sub0 in
     thn (require_auth E subscriber)
     (thn (require_not_blocklisted subscriber)
     (thn (optional_nonce E subscriber DepositFunds nonce)
     (if s_status sub0 = Cancelled then fail E_InvalidStatusTransition
      else
        thn (accept_topup amount)
        (thn (require_not_blocklisted (s_merchant sub0))
        (thn (merchant_not_paused (s_merchant sub0))
        (thn (merchant_not_in_vacation E (s_merchant sub0))
        (thn (reject_expired E i sub0)
        (thn (enforce_credit_limit_for_delta subscriber token_addr amount)
        (thn (lift (enforce_deposit_cap sub0 amount))
        (bnd (lift (safe_add_balance (s_prepaid_balance sub0) amount)) (\<lambda>new_balance.
        let sub = sub0\<lparr>s_prepaid_balance := new_balance\<rparr> in
        thn (clear_failures i)
        (thn (write_subscription i sub)
        (thn (token_transfer E token_addr subscriber (e_self E) amount)
        (thn (add_total_accounted token_addr amount)
        (thn (publish (FundEv (Ev_funds_deposited i subscriber token_addr amount new_balance (e_timestamp E))))
        (if recovering sub then publish_recovery_ready E i sub else ret ())))))))))))))))))"

section \<open>Delegated payers\<close>

definition do_grant_delegated_payer :: "env \<Rightarrow> address \<Rightarrow> address \<Rightarrow> nat \<Rightarrow> int \<Rightarrow> unit vm" where
  "do_grant_delegated_payer E subscriber payer expires_at max_amount =
     thn (require_auth E subscriber)
     (if expires_at \<le> e_timestamp E then fail E_InvalidInput
      else if max_amount \<le> 0 then fail E_InvalidAmount
      else if payer = subscriber then fail E_InvalidInput
      else
        thn (mod_life (\<lambda>l. l\<lparr>lf_delegated := (lf_delegated l)(subscriber := (lf_delegated l subscriber)
               (payer \<mapsto> \<lparr>dg_subscriber = subscriber, dg_payer = payer, dg_expires_at = expires_at,
                          dg_max_amount = max_amount\<rparr>))\<rparr>))
        (publish (FundEv (Ev_delegated_payer_granted subscriber payer expires_at max_amount (e_timestamp E)))))"

definition remove_grant :: "address \<Rightarrow> address \<Rightarrow> unit vm" where
  "remove_grant subscriber payer =
     mod_life (\<lambda>l. l\<lparr>lf_delegated := (lf_delegated l)(subscriber := (lf_delegated l subscriber)(payer := None))\<rparr>)"

definition do_revoke_delegated_payer :: "env \<Rightarrow> address \<Rightarrow> address \<Rightarrow> unit vm" where
  "do_revoke_delegated_payer E subscriber payer =
     thn (require_auth E subscriber)
     (bnd (gets (\<lambda>v. lf_delegated (v_life v) subscriber payer)) (\<lambda>grant.
     if grant = None then fail E_DelegatedPayerGrantNotFound
     else
       thn (remove_grant subscriber payer)
       (publish (FundEv (Ev_delegated_payer_revoked subscriber payer (e_timestamp E))))))"

text \<open>
  The status is not checked against \<open>Cancelled\<close> here, and a recovering subscription is activated by
  assignment, without the transition check.
\<close>

definition do_deposit_funds_on_behalf :: "env \<Rightarrow> nat \<Rightarrow> address \<Rightarrow> int \<Rightarrow> nat option \<Rightarrow> unit vm" where
  "do_deposit_funds_on_behalf E i payer amount nonce =
     thn (require_auth E payer)
     (thn (optional_nonce E payer DepositFunds nonce)
     (bnd (get_subscription E i) (\<lambda>sub0.
     let subscriber = s_subscriber sub0; now = e_timestamp E; token_addr = s_token sub0 in
     bnd (gets (\<lambda>v. lf_delegated (v_life v) subscriber payer)) (\<lambda>x.
     bnd (ok_or x E_DelegatedPayerGrantNotFound) (\<lambda>grant.
     if now \<ge> dg_expires_at grant then fail E_DelegatedPayerGrantExpired
     else if amount > dg_max_amount grant then fail E_DelegatedPayerAmountExceeded
     else
       thn (accept_topup amount)
       (thn (require_not_blocklisted subscriber)
       (thn (require_not_blocklisted (s_merchant sub0))
       (thn (merchant_not_paused (s_merchant sub0))
       (thn (reject_expired E i sub0)
       (thn (enforce_credit_limit_for_delta subscriber token_addr amount)
       (thn (lift (enforce_deposit_cap sub0 amount))
       (bnd (lift (safe_add_balance (s_prepaid_balance sub0) amount)) (\<lambda>new_balance.
       let sub = sub0\<lparr>s_prepaid_balance := new_balance\<rparr> in
       thn (write_subscription i sub)
       (thn (remove_grant subscriber payer)
       (thn (token_transfer E token_addr payer (e_self E) amount)
       (thn (add_total_accounted token_addr amount)
       (thn (publish (FundEv (Ev_delegated_deposited i subscriber payer token_addr amount new_balance now)))
       (if recovering sub then
          thn (write_subscription i (sub\<lparr>s_status := Active, s_grace_start_timestamp := None\<rparr>))
          (thn (publish_recovery_ready E i sub)
          (publish (LifeEv (Ev_sub_resumed i subscriber Paused now))))
        else ret ()))))))))))))))))))"

section \<open>Cancellation\<close>

definition compute_cancel_refund :: "int \<Rightarrow> int" where
  "compute_cancel_refund prepaid_balance = prepaid_balance"

text \<open>Removing the first occurrence of an id from an index that exists.\<close>

definition drop_id :: "nat \<Rightarrow> (nat list) option \<Rightarrow> (nat list) option" where
  "drop_id i ids = map_option (remove1 i) ids"

definition unindex_subscription :: "nat \<Rightarrow> subscription \<Rightarrow> unit vm" where
  "unindex_subscription i sub =
     thn (mod_subs (\<lambda>u. u\<lparr>su_merchant_subs := (su_merchant_subs u)
            (s_merchant sub := drop_id i (su_merchant_subs u (s_merchant sub)))\<rparr>))
     (thn (mod_life (\<lambda>l. l\<lparr>lf_token_subs := (lf_token_subs l)
            (s_token sub := drop_id i (lf_token_subs l (s_token sub)))\<rparr>))
     (mod_subs (\<lambda>u. u\<lparr>su_subscriber_subs := (su_subscriber_subs u)
            (s_subscriber sub := drop_id i (su_subscriber_subs u (s_subscriber sub)))\<rparr>)))"

definition revoke_credential :: "env \<Rightarrow> nat \<Rightarrow> unit vm" where
  "revoke_credential E i =
     bnd (gets (\<lambda>v. lf_credential (v_life v) i)) (\<lambda>x.
     case x of
       None \<Rightarrow> ret ()
     | Some credential \<Rightarrow>
         if cb_revoked credential then ret ()
         else
           thn (mod_life (\<lambda>l. l\<lparr>lf_credential := (lf_credential l)(i \<mapsto> credential\<lparr>cb_revoked := True\<rparr>)\<rparr>))
           (publish (LifeEv (Ev_credential_revoked i (e_timestamp E)))))"

definition apply_cancellation :: "env \<Rightarrow> nat \<Rightarrow> subscription \<Rightarrow> address \<Rightarrow> unit vm" where
  "apply_cancellation E i sub0 authorizer =
     (let was_active = (s_status sub0 = Active) in
     bnd (lift (transition_to (s_status sub0) Cancelled)) (\<lambda>st.
     thn (if was_active then decrement_subscriber_active_count (s_subscriber sub0) else ret ())
     (let refund_amount = compute_cancel_refund (s_prepaid_balance sub0);
          sub = sub0\<lparr>s_status := st, s_prepaid_balance := 0\<rparr> in
     thn (write_subscription i sub)
     (thn (if refund_amount > 0 then
             thn (sub_total_accounted (s_token sub) refund_amount)
             (token_transfer E (s_token sub) (e_self E) (s_subscriber sub) refund_amount)
           else ret ())
     (thn (unindex_subscription i sub)
     (thn (publish (LifeEv (Ev_cancelled i (s_subscriber sub) (s_merchant sub) (s_token sub) authorizer
             refund_amount (e_timestamp E))))
     (revoke_credential E i)))))))"

definition do_cancel_subscription :: "env \<Rightarrow> nat \<Rightarrow> address \<Rightarrow> unit vm" where
  "do_cancel_subscription E i authorizer =
     thn (require_auth E authorizer)
     (bnd (get_subscription E i) (\<lambda>sub.
     thn (reject_expired E i sub)
     (if authorizer \<noteq> s_subscriber sub \<and> authorizer \<noteq> s_merchant sub then fail E_Forbidden
      else
        thn (if authorizer = s_subscriber sub then require_not_blocklisted (s_subscriber sub) else ret ())
        (if s_status sub = Cancelled then fail E_InvalidStatusTransition
         else apply_cancellation E i sub authorizer))))"

section \<open>Withdrawals and refunds\<close>

definition do_request_emergency_withdraw :: "env \<Rightarrow> nat \<Rightarrow> address \<Rightarrow> unit vm" where
  "do_request_emergency_withdraw E i subscriber =
     thn (require_auth E subscriber)
     (bnd (get_subscription E i) (\<lambda>sub.
     if subscriber \<noteq> s_subscriber sub then fail E_Forbidden
     else if s_status sub \<noteq> Paused \<and> s_status sub \<noteq> Cancelled then fail E_EmergencyWithdrawInvalidState
     else if s_prepaid_balance sub \<le> 0 then fail E_InvalidAmount
     else
       bnd (gets (\<lambda>v. lf_emergency (v_life v) i)) (\<lambda>pending.
       if pending \<noteq> None then fail E_EmergencyWithdrawCooldownActive
       else
         thn (mod_life (\<lambda>l. l\<lparr>lf_emergency := (lf_emergency l)(i \<mapsto>
                \<lparr>ei_subscription_id = i, ei_requested_at = e_timestamp E, ei_requested_status = s_status sub\<rparr>)\<rparr>))
         (publish (FundEv (Ev_emergency_withdraw i subscriber (s_prepaid_balance sub) (e_timestamp E)))))))"

text \<open>The sum with the waiting time wraps in the release profile.\<close>

definition EMERGENCY_WAIT :: nat where "EMERGENCY_WAIT = 72 * 60 * 60"

definition do_finalize_emergency_withdraw :: "env \<Rightarrow> nat \<Rightarrow> address \<Rightarrow> unit vm" where
  "do_finalize_emergency_withdraw E i subscriber =
     thn (require_auth E subscriber)
     (bnd (get_subscription E i) (\<lambda>sub.
     if subscriber \<noteq> s_subscriber sub then fail E_Forbidden
     else
       bnd (gets (\<lambda>v. lf_emergency (v_life v) i)) (\<lambda>x.
       bnd (ok_or x E_EmergencyWithdrawNotRequested) (\<lambda>intent.
       if s_status sub \<noteq> ei_requested_status intent then fail E_EmergencyWithdrawStateChanged
       else if s_status sub \<noteq> Paused \<and> s_status sub \<noteq> Cancelled then fail E_EmergencyWithdrawInvalidState
       else if (ei_requested_at intent + EMERGENCY_WAIT) mod 2 ^ 64 > e_timestamp E
       then fail E_EmergencyWithdrawCooldownActive
       else
         let amount_to_refund = s_prepaid_balance sub in
         if amount_to_refund \<le> 0 then fail E_InvalidAmount
         else
           thn (write_subscription i (sub\<lparr>s_prepaid_balance := 0\<rparr>))
           (thn (mod_life (\<lambda>l. l\<lparr>lf_emergency := (lf_emergency l)(i := None)\<rparr>))
           (thn (token_transfer E (s_token sub) (e_self E) subscriber amount_to_refund)
           (thn (sub_total_accounted (s_token sub) amount_to_refund)
           (publish (FundEv (Ev_sub_withdrawn i subscriber (s_token sub) amount_to_refund (e_timestamp E)))))))))))"

definition do_cleanup_subscription :: "env \<Rightarrow> nat \<Rightarrow> address \<Rightarrow> unit vm" where
  "do_cleanup_subscription E i authorizer =
     thn (require_auth E authorizer)
     (bnd (get_subscription E i) (\<lambda>sub.
     let expired = is_expired sub (e_timestamp E) (e_sequence E) in
     if \<not> (s_status sub = Cancelled \<or> expired) then fail E_InvalidStatusTransition
     else if s_status sub \<noteq> Archived then
       bnd (if s_status sub \<noteq> Cancelled \<and> s_status sub \<noteq> Expired \<and> expired
            then lift (transition_to (s_status sub) Expired) else ret (s_status sub)) (\<lambda>st1.
       bnd (lift (transition_to st1 Archived)) (\<lambda>st2.
       thn (write_subscription i (sub\<lparr>s_status := st2\<rparr>))
       (publish (LifeEv (Ev_subscription_archived i (e_timestamp E))))))
     else ret ()))"

text \<open>What is paid out: the prepaid balance, or a released escrow when there is none.\<close>

definition withdrawal_source ::
  "env \<Rightarrow> nat \<Rightarrow> address \<Rightarrow> subscription \<Rightarrow> (int \<times> cancellation_escrow option) vm" where
  "withdrawal_source E i subscriber sub =
     (if s_prepaid_balance sub \<le> 0 then
        bnd (gets (\<lambda>v. lf_escrow (v_life v) i)) (\<lambda>x.
        case x of
          None \<Rightarrow> fail E_InvalidAmount
        | Some escrow \<Rightarrow>
            if subscriber \<noteq> ce_subscriber escrow then fail E_Forbidden
            else if e_timestamp E < ce_released_at escrow then fail E_EscrowNotReleased
            else
              bnd (gets (\<lambda>v. dp_by_subscription (v_dispute v) i)) (\<lambda>disputed.
              if disputed \<noteq> None then fail E_DisputeAlreadyOpen
              else ret (ce_amount escrow, Some escrow)))
      else ret (s_prepaid_balance sub, None))"

definition do_withdraw_subscriber_funds :: "env \<Rightarrow> nat \<Rightarrow> address \<Rightarrow> unit vm" where
  "do_withdraw_subscriber_funds E i subscriber =
     thn (require_auth E subscriber)
     (bnd (get_subscription E i) (\<lambda>sub.
     if subscriber \<noteq> s_subscriber sub then fail E_Forbidden
     else if s_status sub \<noteq> Cancelled \<and> s_status sub \<noteq> Expired \<and> s_status sub \<noteq> Archived \<and>
             \<not> is_expired sub (e_timestamp E) (e_sequence E)
     then fail E_InvalidStatusTransition
     else
       bnd (withdrawal_source E i subscriber sub) (\<lambda>(amount_to_refund, escrow).
       if amount_to_refund \<le> 0 then fail E_InvalidAmount
       else
         let token_addr = (case escrow of Some e \<Rightarrow> ce_token e | None \<Rightarrow> s_token sub) in
         thn (if escrow \<noteq> None then mod_life (\<lambda>l. l\<lparr>lf_escrow := (lf_escrow l)(i := None)\<rparr>)
              else write_subscription i (sub\<lparr>s_prepaid_balance := 0\<rparr>))
         (thn (token_transfer E token_addr (e_self E) subscriber amount_to_refund)
         (thn (sub_total_accounted token_addr amount_to_refund)
         (thn (if escrow \<noteq> None then
                 publish (FundEv (Ev_escrow_released i subscriber amount_to_refund (e_timestamp E)))
               else ret ())
         (publish (FundEv (Ev_sub_withdrawn i subscriber token_addr amount_to_refund (e_timestamp E))))))))))"

definition do_partial_refund :: "env \<Rightarrow> address \<Rightarrow> nat \<Rightarrow> address \<Rightarrow> int \<Rightarrow> unit vm" where
  "do_partial_refund E admin i subscriber amount =
     thn (require_admin_auth E admin)
     (if amount \<le> 0 then fail E_InvalidAmount
      else
        bnd (get_subscription E i) (\<lambda>sub.
        if subscriber \<noteq> s_subscriber sub then fail E_Unauthorized
        else if amount > s_prepaid_balance sub then fail E_InsufficientBalance
        else
          bnd (lift (safe_sub (s_prepaid_balance sub) amount)) (\<lambda>new_balance.
          thn (write_subscription i (sub\<lparr>s_prepaid_balance := new_balance\<rparr>))
          (thn (token_transfer E (s_token sub) (e_self E) subscriber amount)
          (thn (sub_total_accounted (s_token sub) amount)
          (publish (FundEv (Ev_partial_refund i subscriber (s_token sub) amount (e_timestamp E)))))))))"

section \<open>Gates\<close>

lemma keeps_gates [keeps_intro]:
  "keeps g (accept_topup a)" "keeps g (merchant_not_paused m)" "keeps g (merchant_not_in_vacation E m)"
  by (auto simp: accept_topup_def merchant_not_paused_def merchant_not_in_vacation_def intro!: keeps_intro)

lemmas gates_ok = check_ok [OF keeps_gates(1)] check_ok [OF keeps_gates(2)] check_ok [OF keeps_gates(3)]
  check_ok [OF keeps_limits(6)]

end
