(* ===== verification/Subscription_Custody.thy ===== *)
theory Subscription_Custody
  imports Subscription_Create Subscription_Funds
begin

text \<open>
  Custody of prepaid money: what the vault holds of a token beyond what it owes to subscribers is the
  same before and after every operation that creates, funds, cancels, refunds or archives
  subscriptions.
\<close>

section \<open>What the vault owes to subscribers\<close>

definition prepaid_in :: "address \<Rightarrow> subscription option \<Rightarrow> int" where
  "prepaid_in tk x = (case x of Some sub \<Rightarrow> if s_token sub = tk then s_prepaid_balance sub else 0 | None \<Rightarrow> 0)"

definition escrow_in :: "address \<Rightarrow> cancellation_escrow option \<Rightarrow> int" where
  "escrow_in tk x = (case x of Some e \<Rightarrow> if ce_token e = tk then ce_amount e else 0 | None \<Rightarrow> 0)"

definition owed :: "vault \<Rightarrow> address \<Rightarrow> int" where
  "owed v tk = (\<Sum>i\<le>u32_max. prepaid_in tk (su_sub (v_subs v) i) + escrow_in tk (lf_escrow (v_life v) i))"

definition surplus :: "address \<Rightarrow> vault \<Rightarrow> address \<Rightarrow> int" where
  "surplus self v tk = v_ledger v tk self - owed v tk"

lemma sum_upd:
  fixes f :: "'v \<Rightarrow> int" and n :: nat
  assumes "i \<le> n"
  shows "(\<Sum>k\<le>n. f ((m(i := x)) k)) = (\<Sum>k\<le>n. f (m k)) - f (m i) + f x"
proof -
  have "(\<Sum>k\<le>n. f ((m(i := x)) k)) = (\<Sum>k\<in>{..n} - {i}. f (m k)) + f x"
    using assms by (subst sum.remove [of _ i]) (auto intro!: sum.cong)
  moreover have "(\<Sum>k\<le>n. f (m k)) = (\<Sum>k\<in>{..n} - {i}. f (m k)) + f (m i)"
    using assms by (subst sum.remove [of _ i]) auto
  ultimately show ?thesis by simp
qed

lemma owed_upd:
  assumes "i \<le> u32_max"
  shows "su_sub (v_subs t) = (su_sub (v_subs s))(i := x) \<Longrightarrow> lf_escrow (v_life t) = lf_escrow (v_life s) \<Longrightarrow>
      owed t tk = owed s tk - prepaid_in tk (su_sub (v_subs s) i) + prepaid_in tk x"
    and "su_sub (v_subs t) = su_sub (v_subs s) \<Longrightarrow> lf_escrow (v_life t) = (lf_escrow (v_life s))(i := e) \<Longrightarrow>
      owed t tk = owed s tk - escrow_in tk (lf_escrow (v_life s) i) + escrow_in tk e"
  using sum_upd [OF assms, of "prepaid_in tk" "su_sub (v_subs s)" x]
    sum_upd [OF assms, of "escrow_in tk" "lf_escrow (v_life s)" e]
  by (simp_all add: owed_def sum.distrib)

section \<open>The invariant\<close>

text \<open>
  The host: a SEP-41 token, and the vault never authorises a call of itself as a user.
\<close>

definition host_ok :: "address \<Rightarrow> env \<Rightarrow> bool" where
  "host_ok self E \<longleftrightarrow> sep41 E \<and> e_self E = self \<and> \<not> e_auth E self"

definition registry_ok :: "address \<Rightarrow> vault \<Rightarrow> bool" where
  "registry_ok self v \<longleftrightarrow>
     (schema_version (v_admin v) \<ge> 3 \<or> cf_next_id (ad_persistent (v_admin v)) = None) \<and> next_id_of v \<le> u32_max \<and>
     (\<forall>i sub. su_sub (v_subs v) i = Some sub \<longrightarrow> i < next_id_of v \<and> s_subscriber sub \<noteq> self \<and> 0 \<le> s_prepaid_balance sub)"

definition custody :: "address \<Rightarrow> address \<Rightarrow> int \<Rightarrow> vault \<Rightarrow> bool" where
  "custody self tk k v \<longleftrightarrow> registry_ok self v \<and> surplus self v tk = k"

text \<open>An operation on one stored subscription moves as much money as it books.\<close>

definition books_moved :: "address \<Rightarrow> nat \<Rightarrow> vault \<Rightarrow> vault \<Rightarrow> bool" where
  "books_moved self i s t \<longleftrightarrow> v_admin t = v_admin s \<and>
     (\<exists>x sub. su_sub (v_subs s) i = Some x \<and> su_sub (v_subs t) = (su_sub (v_subs s))(i \<mapsto> sub) \<and>
        s_subscriber sub = s_subscriber x \<and> 0 \<le> s_prepaid_balance sub \<and>
        (\<forall>tk. v_ledger t tk self - v_ledger s tk self =
           prepaid_in tk (Some sub) - prepaid_in tk (Some x) + escrow_in tk (lf_escrow (v_life t) i) - escrow_in tk (lf_escrow (v_life s) i)) \<and>
        (lf_escrow (v_life t) = lf_escrow (v_life s) \<or> lf_escrow (v_life t) = (lf_escrow (v_life s))(i := None)))"

lemma owed_both:
  assumes "i \<le> u32_max" and "su_sub (v_subs t) = (su_sub (v_subs s))(i := x)"
    and "lf_escrow (v_life t) = (lf_escrow (v_life s))(i := e)"
  shows "owed t tk = owed s tk - prepaid_in tk (su_sub (v_subs s) i) + prepaid_in tk x
     - escrow_in tk (lf_escrow (v_life s) i) + escrow_in tk e"
  using assms(2,3) sum_upd [OF assms(1), of "prepaid_in tk" "su_sub (v_subs s)" x]
    sum_upd [OF assms(1), of "escrow_in tk" "lf_escrow (v_life s)" e]
  by (simp add: owed_def sum.distrib)

lemma books_moved_custody:
  assumes "books_moved self i s t" and "custody self tk k s"
  shows "custody self tk k t"
proof -
  from assms(1) obtain x sub where stored: "su_sub (v_subs s) i = Some x"
    and upd: "su_sub (v_subs t) = (su_sub (v_subs s))(i \<mapsto> sub)" and party: "s_subscriber sub = s_subscriber x" "0 \<le> s_prepaid_balance sub"
    and led: "v_ledger t tk self - v_ledger s tk self =
           prepaid_in tk (Some sub) - prepaid_in tk (Some x) + escrow_in tk (lf_escrow (v_life t) i) - escrow_in tk (lf_escrow (v_life s) i)"
    and esc: "lf_escrow (v_life t) = (lf_escrow (v_life s))(i := lf_escrow (v_life t) i)" and adm: "v_admin t = v_admin s"
    by (auto simp: books_moved_def)
  have next_id: "next_id_of t = next_id_of s" by (simp add: next_id_of_def adm)
  from assms(2) stored have "i < next_id_of s" "next_id_of s \<le> u32_max" by (auto simp: custody_def registry_ok_def)
  then have "i \<le> u32_max" by linarith
  from owed_both [OF this upd esc] led stored have "surplus self t tk = surplus self s tk"
    by (simp add: surplus_def)
  moreover have "registry_ok self t"
    using assms(2) stored party by (auto simp: custody_def registry_ok_def next_id adm upd)
  ultimately show ?thesis using assms(2) by (simp add: custody_def)
qed

lemma sep41D:
  "sep41 E \<Longrightarrow> e_transfer E tk from to a l = Some l' \<Longrightarrow>
   l' = l(tk := ((l tk)(from := l tk from - a))(to := ((l tk)(from := l tk from - a)) to + a))"
  unfolding sep41_def by blast

lemma transfer_in:
  assumes "sep41 E" and "e_transfer E tk from self a l = Some l'" and "from \<noteq> self"
  shows "l' tk' self - l tk' self = (if tk' = tk then a else 0)"
  using assms(3) by (simp add: sep41D [OF assms(1,2)])

lemma transfer_out:
  assumes "sep41 E" and "e_transfer E tk self to a l = Some l'" and "to \<noteq> self"
  shows "l' tk' self - l tk' self = - (if tk' = tk then a else 0)"
  using assms(3) by (simp add: sep41D [OF assms(1,2)])

section \<open>The operations\<close>

lemma optional_nonce_ok:
  "optional_nonce E a d n s = (Ok u, t) \<Longrightarrow>
   v_subs t = v_subs s \<and> v_life t = v_life s \<and> v_admin t = v_admin s \<and> v_ledger t = v_ledger s"
  by (cases n) (auto simp: optional_nonce_def act_ok)

lemma registered:
  "registry_ok self s \<Longrightarrow> su_sub (v_subs s) i = Some x \<Longrightarrow> s_subscriber x \<noteq> self \<and> 0 \<le> s_prepaid_balance x"
  by (auto simp: registry_ok_def)

lemma deposit_books:
  assumes "host_ok self E" and "registry_ok self s" and "do_deposit_funds E i a n s = (Ok (), t)"
  shows "books_moved self i s t"
proof -
  from assms(3) obtain x u l where stored: "su_sub (v_subs s) i = Some x" and auth: "e_auth E (s_subscriber x)"
    and nonce: "optional_nonce E (s_subscriber x) DepositFunds n s = (Ok (), u)"
    and paid: "e_transfer E (s_token x) (s_subscriber x) (e_self E) a (v_ledger u) = Some l" "0 \<le> a"
    and after: "v_subs t = (v_subs u)\<lparr>su_sub := (su_sub (v_subs u))(i \<mapsto> (effective E s x)\<lparr>s_prepaid_balance := s_prepaid_balance x + a\<rparr>)\<rparr>"
      "v_life t = v_life u" "v_admin t = v_admin u" "v_ledger t = l"
    unfolding do_deposit_funds_def Let_def
    by (simp add: act_ok gates_ok clear_failures_def mod_charge_def add_total_accounted_def publish_recovery_ready_def split: if_split_asm) auto
  from assms(1) auth have "sep41 E" "e_self E = self" "s_subscriber x \<noteq> self" by (auto simp: host_ok_def)
  with transfer_in [of E "s_token x" "s_subscriber x" self a _ l] paid optional_nonce_ok [OF nonce] after stored
    registered [OF assms(2) stored]
  show ?thesis by (auto simp: books_moved_def prepaid_in_def)
qed

lemma delegated_deposit_books:
  assumes "host_ok self E" and "registry_ok self s" and "do_deposit_funds_on_behalf E i p a n s = (Ok (), t)"
  shows "books_moved self i s t"
proof -
  from assms(3) obtain x u l sub where nonce: "optional_nonce E p DepositFunds n s = (Ok (), u)" and auth: "e_auth E p"
    and stored: "su_sub (v_subs u) i = Some x"
    and paid: "e_transfer E (s_token x) p (e_self E) a (v_ledger u) = Some l" "0 \<le> a"
    and after: "v_subs t = (v_subs u)\<lparr>su_sub := (su_sub (v_subs u))(i \<mapsto> sub)\<rparr>"
      "lf_escrow (v_life t) = lf_escrow (v_life u)" "v_admin t = v_admin u" "v_ledger t = l"
    and sub: "s_prepaid_balance sub = s_prepaid_balance x + a" "s_token sub = s_token x" "s_subscriber sub = s_subscriber x"
    unfolding do_deposit_funds_on_behalf_def Let_def
    by (simp add: act_ok gates_ok remove_grant_def add_total_accounted_def publish_recovery_ready_def split: if_split_asm) auto
  from assms(1) auth have "sep41 E" "e_self E = self" "p \<noteq> self" by (auto simp: host_ok_def)
  with transfer_in [of E "s_token x" p self a _ l] paid optional_nonce_ok [OF nonce] after stored sub
    registered [OF assms(2), of i x]
  show ?thesis by (auto simp: books_moved_def prepaid_in_def)
qed

lemma topup_books:
  assumes "registry_ok self s" and stored: "su_sub (v_subs s) i = Some x"
    and led: "\<And>tk. v_ledger t tk self - v_ledger s tk self = (if tk = s_token x then a else 0)" and "0 \<le> a"
    and after: "su_sub (v_subs t) = (su_sub (v_subs s))(i \<mapsto> sub)" "lf_escrow (v_life t) = lf_escrow (v_life s)" "v_admin t = v_admin s"
    and sub: "s_prepaid_balance sub = s_prepaid_balance x + a" "s_token sub = s_token x" "s_subscriber sub = s_subscriber x"
  shows "books_moved self i s t"
  using assms registered [OF assms(1) stored] by (auto simp: books_moved_def prepaid_in_def intro!: exI [of _ sub])

text \<open>A payout that takes the whole prepaid balance or part of it.\<close>

lemma payout_books:
  assumes "host_ok self E" and "registry_ok self s" and stored: "su_sub (v_subs s) i = Some x"
    and paid: "0 < r \<Longrightarrow> e_transfer E (s_token x) (e_self E) (s_subscriber x) r (v_ledger s) = Some (v_ledger t)"
      "r \<le> 0 \<Longrightarrow> v_ledger t = v_ledger s" "0 \<le> r" "r \<le> s_prepaid_balance x"
    and after: "su_sub (v_subs t) = (su_sub (v_subs s))(i \<mapsto> sub)" "lf_escrow (v_life t) = lf_escrow (v_life s)" "v_admin t = v_admin s"
    and sub: "s_prepaid_balance sub = s_prepaid_balance x - r" "s_token sub = s_token x" "s_subscriber sub = s_subscriber x"
  shows "books_moved self i s t"
proof -
  from registered [OF assms(2) stored] have "s_subscriber x \<noteq> self" "0 \<le> s_prepaid_balance x" by auto
  moreover from assms(1) have "sep41 E" "e_self E = self" by (auto simp: host_ok_def)
  ultimately have "v_ledger t tk self - v_ledger s tk self = - (if tk = s_token x then r else 0)" for tk
    using paid transfer_out [of E "s_token x" self "s_subscriber x" r "v_ledger s" "v_ledger t" tk] by (cases "0 < r") auto
  with stored after sub paid(4) show ?thesis by (auto simp: books_moved_def prepaid_in_def)
qed

lemma revoke_credential_frame:
  "revoke_credential E i s = (Ok u, t) \<Longrightarrow> v_subs t = v_subs s \<and> lf_escrow (v_life t) = lf_escrow (v_life s) \<and>
     v_admin t = v_admin s \<and> v_ledger t = v_ledger s"
  by (auto simp: revoke_credential_def act_ok split: option.split_asm if_split_asm)

lemma cancellation_books:
  assumes "host_ok self E" and "registry_ok self s" and "su_sub (v_subs s) i = Some x"
    and "apply_cancellation E i (effective E s x) b s = (Ok (), t)"
  shows "books_moved self i s t"
proof -
  let ?r = "s_prepaid_balance x"
  from assms(4) obtain u where last: "revoke_credential E i u = (Ok (), t)"
    and after: "su_sub (v_subs u) = (su_sub (v_subs s))(i \<mapsto> (effective E s x)\<lparr>s_status := Cancelled, s_prepaid_balance := 0\<rparr>)"
      "lf_escrow (v_life u) = lf_escrow (v_life s)" "v_admin u = v_admin s"
    and paid: "0 < ?r \<Longrightarrow> e_transfer E (s_token x) (e_self E) (s_subscriber x) ?r (v_ledger s) = Some (v_ledger u)"
      "?r \<le> 0 \<Longrightarrow> v_ledger u = v_ledger s"
    unfolding apply_cancellation_def Let_def compute_cancel_refund_def
    by (simp add: act_ok unindex_subscription_def sub_total_accounted_def split: if_split_asm) auto
  from revoke_credential_frame [OF last] after paid registered [OF assms(2,3)] show ?thesis
    by (intro payout_books [OF assms(1-3), where r = ?r and sub = "(effective E s x)\<lparr>s_status := Cancelled, s_prepaid_balance := 0\<rparr>"])
      simp_all
qed

lemma cancel_books:
  assumes "host_ok self E" and "registry_ok self s" and "do_cancel_subscription E i b s = (Ok (), t)"
  shows "books_moved self i s t"
proof -
  from assms(3) obtain x where "su_sub (v_subs s) i = Some x" "apply_cancellation E i (effective E s x) b s = (Ok (), t)"
    by (auto simp: do_cancel_subscription_def act_ok split: if_split_asm)
  then show ?thesis by (rule cancellation_books [OF assms(1,2)])
qed

lemma emergency_books:
  assumes "host_ok self E" and "registry_ok self s" and "do_finalize_emergency_withdraw E i a s = (Ok (), t)"
  shows "books_moved self i s t"
proof -
  from assms(3) obtain x where stored: "su_sub (v_subs s) i = Some x" and pos: "0 < s_prepaid_balance x"
    and paid: "e_transfer E (s_token x) (e_self E) (s_subscriber x) (s_prepaid_balance x) (v_ledger s) = Some (v_ledger t)"
    and after: "su_sub (v_subs t) = (su_sub (v_subs s))(i \<mapsto> (effective E s x)\<lparr>s_prepaid_balance := 0\<rparr>)"
      "lf_escrow (v_life t) = lf_escrow (v_life s)" "v_admin t = v_admin s"
    by (auto simp: do_finalize_emergency_withdraw_def act_ok Let_def sub_total_accounted_def split: if_split_asm)
  then show ?thesis
    by (intro payout_books [OF assms(1,2) stored, where sub = "(effective E s x)\<lparr>s_prepaid_balance := 0\<rparr>"]) simp_all
qed

lemma partial_refund_books:
  assumes "host_ok self E" and "registry_ok self s" and "do_partial_refund E b i a r s = (Ok (), t)"
  shows "books_moved self i s t"
proof -
  from assms(3) obtain x where stored: "su_sub (v_subs s) i = Some x" and pos: "0 < r" "r \<le> s_prepaid_balance x"
    and paid: "e_transfer E (s_token x) (e_self E) (s_subscriber x) r (v_ledger s) = Some (v_ledger t)"
    and after: "su_sub (v_subs t) = (su_sub (v_subs s))(i \<mapsto> (effective E s x)\<lparr>s_prepaid_balance := s_prepaid_balance x - r\<rparr>)"
      "lf_escrow (v_life t) = lf_escrow (v_life s)" "v_admin t = v_admin s"
    by (auto simp: do_partial_refund_def act_ok sub_total_accounted_def split: if_split_asm)
  then show ?thesis
    by (intro payout_books [OF assms(1,2) stored, where sub = "(effective E s x)\<lparr>s_prepaid_balance := s_prepaid_balance x - r\<rparr>"]) simp_all
qed

lemma withdrawal_source_ok [act_ok]:
  "withdrawal_source E i a sub s = (Ok r, t) \<longleftrightarrow> t = s \<and>
     (if s_prepaid_balance sub \<le> 0 then
        (\<exists>e. lf_escrow (v_life s) i = Some e \<and> r = (ce_amount e, Some e) \<and> a = ce_subscriber e \<and>
           ce_released_at e \<le> e_timestamp E \<and> dp_by_subscription (v_dispute s) i = None)
      else r = (s_prepaid_balance sub, None))"
  by (auto simp: withdrawal_source_def act_ok not_less split: option.split)

lemma withdraw_books:
  assumes "host_ok self E" and "registry_ok self s" and "do_withdraw_subscriber_funds E i a s = (Ok (), t)"
  shows "books_moved self i s t"
proof -
  from assms(3) obtain x where stored: "su_sub (v_subs s) i = Some x" and party: "a = s_subscriber x"
    and adm: "v_admin t = v_admin s"
    and paths: "0 < s_prepaid_balance x \<and> v_life t = v_life s \<and>
        e_transfer E (s_token x) (e_self E) a (s_prepaid_balance x) (v_ledger s) = Some (v_ledger t) \<and>
        su_sub (v_subs t) = (su_sub (v_subs s))(i \<mapsto> (effective E s x)\<lparr>s_prepaid_balance := 0\<rparr>) \<or>
      (\<exists>k. lf_escrow (v_life s) i = Some k \<and> v_subs t = v_subs s \<and>
        e_transfer E (ce_token k) (e_self E) a (ce_amount k) (v_ledger s) = Some (v_ledger t) \<and>
        lf_escrow (v_life t) = (lf_escrow (v_life s))(i := None))"
    by (auto simp: do_withdraw_subscriber_funds_def Let_def act_ok sub_total_accounted_def split: if_split_asm)
  note reg = registered [OF assms(2) stored]
  from paths show ?thesis
  proof (elim disjE exE conjE)
    assume "0 < s_prepaid_balance x" "v_life t = v_life s"
      "e_transfer E (s_token x) (e_self E) a (s_prepaid_balance x) (v_ledger s) = Some (v_ledger t)"
      "su_sub (v_subs t) = (su_sub (v_subs s))(i \<mapsto> (effective E s x)\<lparr>s_prepaid_balance := 0\<rparr>)"
    with adm party show ?thesis
      by (intro payout_books [OF assms(1,2) stored, where sub = "(effective E s x)\<lparr>s_prepaid_balance := 0\<rparr>"]) simp_all
  next
    fix k
    assume k: "lf_escrow (v_life s) i = Some k" "v_subs t = v_subs s"
        "lf_escrow (v_life t) = (lf_escrow (v_life s))(i := None)"
      and paid: "e_transfer E (ce_token k) (e_self E) a (ce_amount k) (v_ledger s) = Some (v_ledger t)"
    have "v_ledger t tk self - v_ledger s tk self = - (if tk = ce_token k then ce_amount k else 0)" for tk
      using transfer_out [of E "ce_token k" self a "ce_amount k" "v_ledger s" "v_ledger t" tk] paid party reg assms(1)
      by (simp add: host_ok_def)
    with k stored reg adm show ?thesis
      by (auto simp: books_moved_def escrow_in_def intro!: exI [of _ x])
  qed
qed

lemma created_custody:
  assumes host: "host_ok self E" and cust: "custody self tk k s" and run: "do_create_subscription_with_token E c s = (Ok i, t)"
  shows "custody self tk k t"
proof -
  from run obtain cap where i: "i = next_id_of s" "i < u32_max" and made: "created E c cap s t" and auth: "e_auth E (cr_subscriber c)"
    by (rule create_with_token_ok)
  from cust i have fresh: "su_sub (v_subs s) i = None"
    by (cases "su_sub (v_subs s) i") (auto simp: custody_def registry_ok_def)
  from cust have live: "schema_version (v_admin s) \<ge> 3 \<or> cf_next_id (ad_persistent (v_admin s)) = None"
    by (simp add: custody_def registry_ok_def)
  from made i have adm_t: "v_admin t = config_put cf_next_id_update (Suc i) (v_admin s)"
    by (simp add: created_def Let_def)
  then have next_id: "next_id_of t = Suc i" using live by (simp add: next_id_of_def)
  from live adm_t have adm: "schema_version (v_admin t) \<ge> 3 \<or> cf_next_id (ad_persistent (v_admin t)) = None"
    by (auto simp: config_put_def)
  have upd: "su_sub (v_subs t) = (su_sub (v_subs s))(i \<mapsto> new_subscription E c cap)"
    using made i by (simp add: created_def Let_def)
  have "registry_ok self t"
    using cust next_id adm i auth host upd
    by (auto simp: custody_def registry_ok_def new_subscription_def host_ok_def less_Suc_eq)
  moreover have "owed t tk = owed s tk"
    using owed_upd(1) [of i t s "Some (new_subscription E c cap)" tk] i made upd fresh
    by (simp add: prepaid_in_def new_subscription_def created_def Let_def)
  ultimately show ?thesis using cust made by (simp add: custody_def surplus_def created_def Let_def)
qed

lemma cleanup_books:
  assumes "registry_ok self s" and "do_cleanup_subscription E i b s = (Ok (), t)" and "t \<noteq> s"
  shows "books_moved self i s t"
proof -
  from assms(2,3) obtain x st where stored: "su_sub (v_subs s) i = Some x"
    and after: "su_sub (v_subs t) = (su_sub (v_subs s))(i \<mapsto> (effective E s x)\<lparr>s_status := st\<rparr>)"
      "v_life t = v_life s" "v_admin t = v_admin s" "v_ledger t = v_ledger s"
    by (auto simp: do_cleanup_subscription_def act_ok Let_def split: if_split_asm)
  with registered [OF assms(1) stored] show ?thesis by (auto simp: books_moved_def prepaid_in_def)
qed

lemma custody_frame:
  "su_sub (v_subs t) = su_sub (v_subs s) \<Longrightarrow> lf_escrow (v_life t) = lf_escrow (v_life s) \<Longrightarrow>
   v_admin t = v_admin s \<Longrightarrow> v_ledger t = v_ledger s \<Longrightarrow> custody self tk k t = custody self tk k s"
  by (simp add: custody_def registry_ok_def surplus_def owed_def next_id_of_def)

section \<open>A vault for witnesses\<close>

text \<open>A vault with one stored subscription, for the witnesses.\<close>

definition stored_sub :: subscription where
  "stored_sub = \<lparr>s_subscriber = Addr 2, s_merchant = Addr 5, s_token = Addr 9, s_amount = 1000,
     s_interval_seconds = 86400, s_last_payment_timestamp = 900000, s_status = Active, s_prepaid_balance = 5000,
     s_usage_enabled = False, s_lifetime_cap = Some 20000, s_lifetime_charged = 10000, s_start_time = 100000,
     s_expires_at = None, s_grace_start_timestamp = None, s_cancel_at = None, s_auto_renew = True,
     s_auto_renew_disabled_at = None, s_expires_at_ledger = None, s_sub_account_label = None,
     s_proration_enabled = False, s_auto_pause_threshold = 0\<rparr>"

definition fund_env :: env where
  "fund_env = test_env\<lparr>e_auth := (\<lambda>a. a \<noteq> Addr 0)\<rparr>"

definition fund_vault :: vault where
  "fund_vault = empty_vault\<lparr>
     v_admin := (v_admin empty_vault)\<lparr>ad_schema_persistent := Some 3,
       ad_persistent := empty_config\<lparr>cf_next_id := Some 8, cf_min_topup := Some 100, cf_admin := Some (Addr 3)\<rparr>\<rparr>,
     v_subs := (v_subs empty_vault)\<lparr>su_sub := [7 \<mapsto> stored_sub], su_active_count := [Addr 2 \<mapsto> 1]\<rparr>,
     v_life := (v_life empty_vault)\<lparr>lf_credit_limit := (\<lambda>a. if a = Addr 2 then [Addr 9 \<mapsto> 10000] else Map.empty)\<rparr>,
     v_ledger := (\<lambda>tk a. if tk = Addr 9 then (if a = Addr 0 then 6000 else 700) else 0)\<rparr>"

lemma fund_env_sel [simp]:
  "e_timestamp fund_env = 1000000" "e_sequence fund_env = 100" "e_self fund_env = Addr 0"
  "e_auth fund_env a \<longleftrightarrow> a \<noteq> Addr 0" "e_transfer fund_env = sep41_transfer"
  by (simp_all add: fund_env_def)

lemma fund_host: "host_ok (Addr 0) fund_env"
  by (auto simp: host_ok_def sep41_def sep41_transfer_def split: if_split_asm)

lemma fund_vault_sel [simp]:
  "su_sub (v_subs fund_vault) = [7 \<mapsto> stored_sub]" "config_value cf_min_topup (v_admin fund_vault) = Some 100"
  "config_value cf_next_id (v_admin fund_vault) = Some 8" "schema_version (v_admin fund_vault) = 3"
  "v_ledger fund_vault = (\<lambda>tk a. if tk = Addr 9 then (if a = Addr 0 then 6000 else 700) else 0)"
  "m_config (v_merchant fund_vault) m = None" "m_paused (v_merchant fund_vault) m = None"
  "m_vacation (v_merchant fund_vault) m = None" "lf_credit_limit (v_life fund_vault) (Addr 2) (Addr 9) = Some 10000"
  "su_active_count (v_subs fund_vault) = [Addr 2 \<mapsto> 1]"
  "v_blocklist fund_vault a = None"
  by (simp_all add: fund_vault_def config_value_def schema_version_def)
    (simp_all add: empty_vault_def)

lemma fund_registry: "registry_ok (Addr 0) fund_vault"
  by (simp add: registry_ok_def next_id_of_def u32_max_def stored_sub_def)

lemma stored_sub_sel [simp]:
  "s_subscriber stored_sub = Addr 2" "s_merchant stored_sub = Addr 5" "s_token stored_sub = Addr 9"
  "s_status stored_sub = Active" "s_prepaid_balance stored_sub = 5000" "s_amount stored_sub = 1000"
  "s_lifetime_cap stored_sub = Some 20000" "s_lifetime_charged stored_sub = 10000" "s_sub_account_label stored_sub = None"
  "\<not> is_expired stored_sub n m" "effective E v stored_sub = stored_sub"
  by (simp_all add: stored_sub_def is_expired_def effective_def grace_over_def)

lemma fund_fits: "fits_i128 5000" "fits_i128 6000" "fits_i128 6500" "fits_i128 5500"
  by (simp_all add: fits_i128_def i128_min_def i128_max_def)

lemma fund_exposure:
  "compute_subscriber_exposure (Addr 2) (Addr 9) fund_vault = (Ok 6000, fund_vault)"
proof -
  have "[0..<8] = [0, 1, 2, 3, 4, 5, 6, 7 :: nat]" by (simp add: upt_conv_Cons)
  then show ?thesis
    by (simp add: compute_subscriber_exposure_def act_run next_id_of_def MAX_WRITE_PATH_SCAN_DEPTH_def
        safe_add_def checked_add_i128_def fund_fits)
qed

lemma fund_credit: "enforce_credit_limit_for_delta (Addr 2) (Addr 9) 500 fund_vault = (Ok (), fund_vault)"
  by (simp add: enforce_credit_limit_for_delta_def get_subscriber_credit_limit_def credit_limit_of_def fund_exposure
      bnd_run run_simps safe_add_def checked_add_i128_def fund_fits)

lemma fund_gates:
  "fst (accept_topup 500 fund_vault) = Ok ()" "fst (merchant_not_paused (Addr 5) fund_vault) = Ok ()"
  "fst (merchant_not_in_vacation fund_env (Addr 5) fund_vault) = Ok ()"
  "fst (enforce_credit_limit_for_delta (Addr 2) (Addr 9) 500 fund_vault) = Ok ()"
  "\<not> is_blocklisted fund_vault a" "enforce_deposit_cap stored_sub 500 = Ok ()"
  by (simp_all add: accept_topup_def merchant_not_paused_def merchant_not_in_vacation_def act_run fund_credit
      get_min_topup_def get_merchant_paused_def get_merchant_config_def is_merchant_in_vacation_def get_merchant_vacation_def
      is_blocklisted_def enforce_deposit_cap_def lifetime_cap_remaining_def Let_def sat_i128_def i128_min_def i128_max_def)

lemma fund_deposit: "\<exists>t. do_deposit_funds fund_env 7 500 None fund_vault = (Ok (), t)"
  by (simp add: do_deposit_funds_def Let_def act_ok gates_ok fund_gates optional_nonce_def clear_failures_def
      mod_charge_def add_total_accounted_def publish_recovery_ready_def recovering_def sep41_transfer_def
      fits_i128_def i128_min_def i128_max_def)

end
