(* ===== verification/Subscription_Status.thy ===== *)
theory Subscription_Status
  imports Subscription_Custody
begin

text \<open>
  Changes of a subscription's status and schedule (\<^verbatim>\<open>src/subscription.rs\<close>): scheduled cancellation, the
  expiration ledger, auto-renewal, pausing and resuming, the bulk operations of the admin or operator,
  and the resumption of paused subscriptions when a subscriber leaves the block list
  (\<^verbatim>\<open>src/blocklist.rs::do_remove_from_blocklist\<close>).
\<close>

section \<open>Schedules\<close>

definition is_party :: "address \<Rightarrow> subscription \<Rightarrow> bool" where
  "is_party a sub \<longleftrightarrow> a = s_subscriber sub \<or> a = s_merchant sub"

definition require_party :: "address \<Rightarrow> subscription \<Rightarrow> unit vm" where
  "require_party authorizer sub =
     (if authorizer \<noteq> s_subscriber sub \<and> authorizer \<noteq> s_merchant sub then fail E_Forbidden else ret ())"

definition not_cancelled :: "subscription \<Rightarrow> unit vm" where
  "not_cancelled sub = (if s_status sub = Cancelled then fail E_InvalidStatusTransition else ret ())"

definition do_schedule_cancel :: "env \<Rightarrow> nat \<Rightarrow> address \<Rightarrow> nat \<Rightarrow> unit vm" where
  "do_schedule_cancel E i authorizer cancel_at =
     thn (require_auth E authorizer)
     (if cancel_at \<le> e_timestamp E then fail E_InvalidInput
      else
        bnd (get_subscription E i) (\<lambda>sub.
        thn (require_party authorizer sub)
        (thn (not_cancelled sub)
        (thn (reject_expired E i sub)
        (thn (write_subscription i (sub\<lparr>s_cancel_at := Some cancel_at\<rparr>))
        (publish (LifeEv (Ev_cancel_scheduled i cancel_at authorizer (e_timestamp E)))))))))"

definition do_unschedule_cancel :: "env \<Rightarrow> nat \<Rightarrow> address \<Rightarrow> unit vm" where
  "do_unschedule_cancel E i authorizer =
     thn (require_auth E authorizer)
     (bnd (get_subscription E i) (\<lambda>sub.
     thn (require_party authorizer sub)
     (thn (not_cancelled sub)
     (thn (write_subscription i (sub\<lparr>s_cancel_at := None\<rparr>))
     (publish (LifeEv (Ev_cancel_unscheduled i authorizer (e_timestamp E))))))))"

definition do_set_subscription_expiration_ledger :: "env \<Rightarrow> nat \<Rightarrow> address \<Rightarrow> nat option \<Rightarrow> unit vm" where
  "do_set_subscription_expiration_ledger E i authorizer expires_at_ledger =
     thn (require_auth E authorizer)
     (bnd (get_subscription E i) (\<lambda>sub.
     thn (require_party authorizer sub)
     (if s_status sub \<in> {Cancelled, Expired, Archived} then fail E_InvalidStatusTransition
      else if (case expires_at_ledger of Some q \<Rightarrow> q \<le> e_sequence E | None \<Rightarrow> False) then fail E_InvalidExpiration
      else
        thn (write_subscription i (sub\<lparr>s_expires_at_ledger := expires_at_ledger\<rparr>))
        (publish (LifeEv (Ev_expiration_ledger_set i expires_at_ledger (s_expires_at_ledger sub) authorizer
           (e_timestamp E)))))))"

definition do_set_auto_renew :: "env \<Rightarrow> nat \<Rightarrow> address \<Rightarrow> bool \<Rightarrow> unit vm" where
  "do_set_auto_renew E i authorizer enabled =
     thn (require_auth E authorizer)
     (bnd (get_subscription E i) (\<lambda>sub.
     let now = e_timestamp E in
     thn (not_cancelled sub)
     (if is_expired sub now (e_sequence E) then fail E_SubscriptionExpired
      else
        thn (require_party authorizer sub)
        (bnd (if enabled then
                (if \<not> s_auto_renew sub then
                   (if \<not> is_in_renewal_window sub now then fail E_RenewalWindowClosed else ret None)
                 else ret (s_auto_renew_disabled_at sub))
              else ret (if s_auto_renew sub then Some now else s_auto_renew_disabled_at sub)) (\<lambda>disabled_at.
        thn (write_subscription i (sub\<lparr>s_auto_renew_disabled_at := disabled_at, s_auto_renew := enabled\<rparr>))
        (publish (LifeEv (Ev_auto_renew_toggled i enabled authorizer now))))))))"

section \<open>Pause and resume\<close>

definition apply_pause :: "env \<Rightarrow> nat \<Rightarrow> subscription \<Rightarrow> address \<Rightarrow> pause_initiator_role \<Rightarrow> unit vm" where
  "apply_pause E i sub authorizer initiator_role =
     bnd (lift (transition_to (s_status sub) Paused)) (\<lambda>st.
     thn (write_subscription i (sub\<lparr>s_status := st\<rparr>))
     (thn (decrement_subscriber_active_count (s_subscriber sub))
     (publish (LifeEv (Ev_sub_paused i authorizer initiator_role (e_timestamp E))))))"

definition do_pause_subscription :: "env \<Rightarrow> nat \<Rightarrow> address \<Rightarrow> unit vm" where
  "do_pause_subscription E i authorizer =
     thn (require_auth E authorizer)
     (bnd (get_subscription E i) (\<lambda>sub.
     thn (reject_expired E i sub)
     (thn (require_party authorizer sub)
     (if s_status sub = Paused then ret ()
      else apply_pause E i sub authorizer (if authorizer = s_subscriber sub then BySubscriber else ByMerchant)))))"

text \<open>The last part of both resumptions: activation, the counter for a paused subscription, the event.\<close>

definition activate :: "env \<Rightarrow> nat \<Rightarrow> subscription \<Rightarrow> address \<Rightarrow> unit vm" where
  "activate E i sub authorizer =
     (let previous_status = s_status sub in
     bnd (lift (transition_to (s_status sub) Active)) (\<lambda>st.
     thn (write_subscription i (sub\<lparr>s_status := st\<rparr>))
     (thn (if previous_status = Paused then increment_subscriber_active_count (s_subscriber sub) else ret ())
     (publish (LifeEv (Ev_sub_resumed i authorizer previous_status (e_timestamp E)))))))"

definition do_resume_subscription :: "env \<Rightarrow> nat \<Rightarrow> address \<Rightarrow> unit vm" where
  "do_resume_subscription E i authorizer =
     thn (require_auth E authorizer)
     (bnd (get_subscription E i) (\<lambda>sub.
     thn (reject_expired E i sub)
     (thn (require_party authorizer sub)
     (thn (if authorizer = s_subscriber sub then require_not_blocklisted (s_subscriber sub) else ret ())
     (if s_status sub = Active then ret ()
      else if (s_status sub = InsufficientBalance \<or> s_status sub = GracePeriod) \<and> s_prepaid_balance sub < s_amount sub
      then fail E_InsufficientBalance
      else activate E i sub authorizer)))))"

definition resume_after_blocklist_removal :: "env \<Rightarrow> nat \<Rightarrow> address \<Rightarrow> unit vm" where
  "resume_after_blocklist_removal E i authorizer =
     bnd (get_subscription E i) (\<lambda>sub.
     if s_status sub \<noteq> Paused then ret () else activate E i sub authorizer)"

definition open_dispute_on :: "vault \<Rightarrow> nat \<Rightarrow> bool" where
  "open_dispute_on v i =
     (case dp_by_subscription (v_dispute v) i of
        Some d \<Rightarrow> (case dp_dispute (v_dispute v) d of Some x \<Rightarrow> d_status x = Open | None \<Rightarrow> False)
      | None \<Rightarrow> False)"

definition resume_if_paused :: "env \<Rightarrow> address \<Rightarrow> nat \<Rightarrow> unit vm" where
  "resume_if_paused E admin i =
     bnd (gets (\<lambda>v. su_sub (v_subs v) i)) (\<lambda>x.
     case x of
       Some sub \<Rightarrow> if s_status sub = Paused then resume_after_blocklist_removal E i admin else ret ()
     | None \<Rightarrow> ret ())"

definition do_remove_from_blocklist :: "env \<Rightarrow> address \<Rightarrow> address \<Rightarrow> unit vm" where
  "do_remove_from_blocklist E admin subscriber =
     thn (require_admin_auth E admin)
     (bnd (gets (\<lambda>v. is_blocklisted v subscriber)) (\<lambda>listed.
     if \<not> listed then fail E_NotFound
     else
       bnd (gets (\<lambda>v. id_list (su_subscriber_subs (v_subs v) subscriber))) (\<lambda>ids.
       bnd (gets (\<lambda>v. list_ex (open_dispute_on v) ids)) (\<lambda>disputed.
       if disputed then fail E_SubscriberHasOpenDisputes
       else
         thn (modify (\<lambda>v. v\<lparr>v_blocklist := (v_blocklist v)(subscriber := None)\<rparr>))
         (thn (each (resume_if_paused E admin) ids)
         (publish (AdminEv (Ev_blocklist_removed subscriber))))))))"

section \<open>Bulk operations\<close>

definition BATCH_MAX_SIZE :: nat where "BATCH_MAX_SIZE = 100"

record bulk_subscription_result =
  bk_subscription_id :: nat
  bk_success :: bool
  bk_changed :: bool
  bk_error_code :: nat

definition bulk_failed :: "nat \<Rightarrow> error \<Rightarrow> bulk_subscription_result" where
  "bulk_failed i err = \<lparr>bk_subscription_id = i, bk_success = False, bk_changed = False, bk_error_code = to_code err\<rparr>"

definition bulk_skipped :: "nat \<Rightarrow> bulk_subscription_result" where
  "bulk_skipped i = \<lparr>bk_subscription_id = i, bk_success = True, bk_changed = False, bk_error_code = 0\<rparr>"

definition bulk_changed :: "nat \<Rightarrow> bulk_subscription_result" where
  "bulk_changed i = \<lparr>bk_subscription_id = i, bk_success = True, bk_changed = True, bk_error_code = 0\<rparr>"

definition bulk_outcome :: "nat \<Rightarrow> unit vm \<Rightarrow> bulk_subscription_result vm" where
  "bulk_outcome i m =
     bnd (attempt m) (\<lambda>r. case r of Inr u \<Rightarrow> ret (bulk_changed i) | Inl e \<Rightarrow> ret (bulk_failed i e))"

text \<open>Reading the subscription and reporting an expired one are common to both operations.\<close>

definition bulk_one :: "env \<Rightarrow> nat \<Rightarrow> subscription_status \<Rightarrow> (subscription \<Rightarrow> unit vm) \<Rightarrow> bulk_subscription_result vm" where
  "bulk_one E i already change =
     bnd (attempt (get_subscription E i)) (\<lambda>r.
     case r of
       Inl e \<Rightarrow> ret (bulk_failed i e)
     | Inr sub \<Rightarrow>
         if is_expired sub (e_timestamp E) (e_sequence E) then
           thn (publish (ChargeEv (Ev_subscription_expired i (e_timestamp E))))
           (ret (bulk_failed i E_SubscriptionExpired))
         else if s_status sub = already then ret (bulk_skipped i)
         else bulk_outcome i (change sub))"

definition bulk_pause_one :: "env \<Rightarrow> address \<Rightarrow> nat \<Rightarrow> bulk_subscription_result vm" where
  "bulk_pause_one E caller i = bulk_one E i Paused (\<lambda>sub. apply_pause E i sub caller ByAdmin)"

definition bulk_cancel_one :: "env \<Rightarrow> address \<Rightarrow> nat \<Rightarrow> bulk_subscription_result vm" where
  "bulk_cancel_one E caller i = bulk_one E i Cancelled (\<lambda>sub. apply_cancellation E i sub caller)"

definition bulk_precheck :: "env \<Rightarrow> address \<Rightarrow> nat list \<Rightarrow> nat \<Rightarrow> bool vm" where
  "bulk_precheck E caller ids nonce =
     thn (require_admin_or_operator_auth E caller)
     (if length ids > BATCH_MAX_SIZE then fail E_BatchTooLarge
      else if ids = [] then ret False
      else thn (check_and_advance E caller OperatorBatchCharge nonce) (ret True))"

primrec collect :: "('x \<Rightarrow> 'r vm) \<Rightarrow> 'x list \<Rightarrow> 'r list vm" where
  "collect f [] = ret []"
| "collect f (x # xs) = bnd (f x) (\<lambda>r. bnd (collect f xs) (\<lambda>rs. ret (r # rs)))"

definition count_changed :: "bulk_subscription_result list \<Rightarrow> nat" where
  "count_changed rs = length (filter (\<lambda>r. bk_success r \<and> bk_changed r) rs)"

definition count_skipped :: "bulk_subscription_result list \<Rightarrow> nat" where
  "count_skipped rs = length (filter (\<lambda>r. bk_success r \<and> \<not> bk_changed r) rs)"

definition count_failed :: "bulk_subscription_result list \<Rightarrow> nat" where
  "count_failed rs = length (filter (\<lambda>r. \<not> bk_success r) rs)"

definition do_bulk_pause_subscriptions :: "env \<Rightarrow> address \<Rightarrow> nat list \<Rightarrow> nat \<Rightarrow> bulk_subscription_result list vm" where
  "do_bulk_pause_subscriptions E caller ids nonce =
     bnd (bulk_precheck E caller ids nonce) (\<lambda>go.
     if \<not> go then ret []
     else
       bnd (collect (bulk_pause_one E caller) ids) (\<lambda>results.
       thn (publish (FundEv (Ev_bulk_paused caller (length ids) (count_changed results) (count_skipped results)
              (count_failed results) nonce (e_timestamp E))))
       (ret results)))"

definition do_bulk_cancel_subscriptions :: "env \<Rightarrow> address \<Rightarrow> nat list \<Rightarrow> nat \<Rightarrow> bulk_subscription_result list vm" where
  "do_bulk_cancel_subscriptions E caller ids nonce =
     bnd (bulk_precheck E caller ids nonce) (\<lambda>go.
     if \<not> go then ret []
     else
       bnd (collect (bulk_cancel_one E caller) ids) (\<lambda>results.
       thn (publish (FundEv (Ev_bulk_cancelled caller (length ids) (count_changed results) (count_skipped results)
              (count_failed results) nonce (e_timestamp E))))
       (ret results)))"

record bulk_deposit_result =
  bd_subscription_id :: nat
  bd_success :: bool
  bd_error_code :: nat

text \<open>
  The checks of one entry; none of them writes. The answer of the merchant's block list entry is
  discarded (\<open>unwrap_or(())\<close>), and neither the status nor the subscriber's entry is looked at.
\<close>

definition bulk_deposit_checks :: "env \<Rightarrow> nat \<Rightarrow> int \<Rightarrow> (subscription \<times> int) vm" where
  "bulk_deposit_checks E i amount =
     bnd (get_subscription E i) (\<lambda>sub.
     if amount < 0 then fail E_InvalidAmount
     else
       bnd get_min_topup (\<lambda>min_topup.
       if amount < min_topup then fail E_BelowMinimumTopup
       else
         thn (merchant_not_paused (s_merchant sub))
         (thn (merchant_not_in_vacation E (s_merchant sub))
         (thn (attempt (require_not_blocklisted (s_merchant sub)))
         (if is_expired sub (e_timestamp E) (e_sequence E) then fail E_SubscriptionExpired
          else
            thn (enforce_credit_limit_for_delta (s_subscriber sub) (s_token sub) amount)
            (thn (lift (enforce_deposit_cap sub amount))
            (bnd (lift (safe_add_balance (s_prepaid_balance sub) amount)) (\<lambda>new_balance.
            ret (sub, new_balance)))))))))"

definition bulk_deposit_one :: "env \<Rightarrow> address \<Rightarrow> nat \<times> int \<Rightarrow> bulk_deposit_result vm" where
  "bulk_deposit_one E caller entry =
     (case entry of (i, amount) \<Rightarrow>
     bnd (attempt (bulk_deposit_checks E i amount)) (\<lambda>r.
     case r of
       Inl e \<Rightarrow> ret \<lparr>bd_subscription_id = i, bd_success = False, bd_error_code = to_code e\<rparr>
     | Inr (sub0, new_balance) \<Rightarrow>
         let sub = sub0\<lparr>s_prepaid_balance := new_balance\<rparr> in
         thn (clear_failures i)
         (thn (write_subscription i sub)
         (thn (token_transfer E (s_token sub) caller (e_self E) amount)
         (thn (attempt (add_total_accounted (s_token sub) amount))
         (thn (publish (FundEv (Ev_funds_deposited i (s_subscriber sub) (s_token sub) amount new_balance (e_timestamp E))))
         (thn (if recovering sub then publish_recovery_ready E i sub else ret ())
         (ret \<lparr>bd_subscription_id = i, bd_success = True, bd_error_code = 0\<rparr>))))))))"

primrec deposited_total :: "(nat \<times> int) list \<Rightarrow> bulk_deposit_result list \<Rightarrow> int \<Rightarrow> int" where
  "deposited_total [] rs acc = acc"
| "deposited_total (e # es) rs acc =
     (case rs of
        [] \<Rightarrow> acc
      | r # rs' \<Rightarrow> deposited_total es rs' (if bd_success r then sat_i128 (acc + snd e) else acc))"

definition do_bulk_deposit_funds :: "env \<Rightarrow> address \<Rightarrow> (nat \<times> int) list \<Rightarrow> nat \<Rightarrow> bulk_deposit_result list vm" where
  "do_bulk_deposit_funds E caller entries nonce =
     bnd (bulk_precheck E caller (map fst entries) nonce) (\<lambda>go.
     if \<not> go then ret []
     else
       bnd (collect (bulk_deposit_one E caller) entries) (\<lambda>results.
       thn (publish (FundEv (Ev_bulk_deposited caller (length entries) (length (filter bd_success results))
              (length (filter (\<lambda>r. \<not> bd_success r) results)) (deposited_total entries results 0) nonce (e_timestamp E))))
       (ret results)))"

end
