(* ===== verification/Subscription_Claims.thy ===== *)
theory Subscription_Claims
  imports Subscription_Status Charge_Facts
begin

text \<open>
  What the subscription operations guarantee together: custody of prepaid money over any sequence of
  them, who may act on a subscription, the credit limit, pausing and resuming, and the slots of active
  subscriptions.
\<close>

section \<open>Custody of each operation\<close>

lemma create_default_ok:
  "do_create_subscription E c s = (Ok i, t) \<Longrightarrow> \<exists>tk. do_create_subscription_with_token E (c\<lparr>cr_token := tk\<rparr>) s = (Ok i, t)"
  by (auto simp: do_create_subscription_def act_ok check_ok [OF keeps_limits(6)])

lemma same_money_books:
  assumes "registry_ok self s" and "su_sub (v_subs s) i = Some x" and "su_sub (v_subs t) = (su_sub (v_subs s))(i \<mapsto> sub)"
    and "s_prepaid_balance sub = s_prepaid_balance x" "s_token sub = s_token x" "s_subscriber sub = s_subscriber x"
    and "lf_escrow (v_life t) = lf_escrow (v_life s)" "v_admin t = v_admin s" "v_ledger t = v_ledger s"
  shows "books_moved self i s t"
  using assms registered [OF assms(1,2)] by (auto simp: books_moved_def prepaid_in_def)

lemma require_party_ok [act_ok]: "require_party a sub s = (Ok u, t) \<longleftrightarrow> t = s \<and> is_party a sub"
  by (auto simp: require_party_def is_party_def act_ok)

lemma not_cancelled_ok [act_ok]: "not_cancelled sub s = (Ok u, t) \<longleftrightarrow> t = s \<and> s_status sub \<noteq> Cancelled"
  by (auto simp: not_cancelled_def act_ok)

lemma is_party_effective [simp]: "is_party a (effective E s x) \<longleftrightarrow> is_party a x"
  by (simp add: is_party_def)

text \<open>
  The operations a party performs on its own subscription: they change at most that record, and in it
  neither the money nor the parties.
\<close>

definition own_change :: "env \<Rightarrow> nat \<Rightarrow> address \<Rightarrow> vault \<Rightarrow> vault \<Rightarrow> bool" where
  "own_change E i a s t \<longleftrightarrow> e_auth E a \<and>
     (\<exists>x. su_sub (v_subs s) i = Some x \<and> is_party a x \<and> (\<forall>k. k \<noteq> i \<longrightarrow> su_sub (v_subs t) k = su_sub (v_subs s) k) \<and>
        (case su_sub (v_subs t) i of
           None \<Rightarrow> False
         | Some sub \<Rightarrow> can_transition (s_status (effective E s x)) (s_status sub) \<and>
             s_prepaid_balance sub = s_prepaid_balance x \<and> s_token sub = s_token x \<and> s_amount sub = s_amount x \<and>
             s_subscriber sub = s_subscriber x \<and> s_merchant sub = s_merchant x \<and>
             s_lifetime_charged sub = s_lifetime_charged x \<and> s_lifetime_cap sub = s_lifetime_cap x)) \<and>
     v_life t = v_life s \<and> v_admin t = v_admin s \<and> v_ledger t = v_ledger s \<and> v_merchant t = v_merchant s"

lemma effective_status_iff [simp]:
  "s_status (effective E s x) = Active \<longleftrightarrow> s_status x = Active"
  "s_status (effective E s x) = Paused \<longleftrightarrow> s_status x = Paused"
  "s_status (effective E s x) = Cancelled \<longleftrightarrow> s_status x = Cancelled"
  by (auto simp: effective_def grace_over_def)

lemma can_transition_refl [simp]: "can_transition c c"
  by (simp add: can_transition_def)

lemma apply_pause_ok [act_ok]:
  "apply_pause E i sub b r s = (Ok u, t) \<longleftrightarrow> can_transition (s_status sub) Paused \<and>
     t = s\<lparr>v_subs := (v_subs s)\<lparr>su_sub := (su_sub (v_subs s))(i \<mapsto> sub\<lparr>s_status := Paused\<rparr>),
             su_active_count := (su_active_count (v_subs s))(s_subscriber sub \<mapsto> active_count s (s_subscriber sub) - 1)\<rparr>,
           v_events := v_events s @ [LifeEv (Ev_sub_paused i b r (e_timestamp E))]\<rparr>"
  by (auto simp: apply_pause_def act_ok active_count_def)

lemma activate_ok [act_ok]:
  "activate E i sub b s = (Ok u, t) \<longleftrightarrow> can_transition (s_status sub) Active \<and>
     t = s\<lparr>v_subs := (v_subs s)\<lparr>su_sub := (su_sub (v_subs s))(i \<mapsto> sub\<lparr>s_status := Active\<rparr>),
             su_active_count := (if s_status sub = Paused
               then (su_active_count (v_subs s))(s_subscriber sub \<mapsto> sat_add_u32 (active_count s (s_subscriber sub)) 1)
               else su_active_count (v_subs s))\<rparr>,
           v_events := v_events s @ [LifeEv (Ev_sub_resumed i b (s_status sub) (e_timestamp E))]\<rparr>"
  by (auto simp: activate_def Let_def bnd_ok thn_ok basic_ok write_subscription_ok publish_ok active_step_ok active_count_def)

lemma own_change_same:
  "e_auth E a \<Longrightarrow> su_sub (v_subs s) i = Some x \<Longrightarrow> is_party a x \<Longrightarrow> s_status (effective E s x) = s_status x \<Longrightarrow> own_change E i a s s"
  by (simp add: own_change_def)

lemma own_operations:
  "do_schedule_cancel E i a n s = (Ok (), t) \<Longrightarrow> own_change E i a s t"
  "do_unschedule_cancel E i a s = (Ok (), t) \<Longrightarrow> own_change E i a s t"
  "do_set_subscription_expiration_ledger E i a l s = (Ok (), t) \<Longrightarrow> own_change E i a s t"
  "do_set_auto_renew E i a b s = (Ok (), t) \<Longrightarrow> own_change E i a s t"
  "do_pause_subscription E i a s = (Ok (), t) \<Longrightarrow> own_change E i a s t"
  "do_resume_subscription E i a s = (Ok (), t) \<Longrightarrow> own_change E i a s t"
proof -
  assume "do_schedule_cancel E i a n s = (Ok (), t)"
  then show "own_change E i a s t" by (auto simp: do_schedule_cancel_def own_change_def act_ok split: if_split_asm)
next
  assume "do_unschedule_cancel E i a s = (Ok (), t)"
  then show "own_change E i a s t" by (auto simp: do_unschedule_cancel_def own_change_def act_ok)
next
  assume "do_set_subscription_expiration_ledger E i a l s = (Ok (), t)"
  then show "own_change E i a s t"
    by (auto simp: do_set_subscription_expiration_ledger_def own_change_def act_ok split: if_split_asm)
next
  assume "do_set_auto_renew E i a b s = (Ok (), t)"
  then show "own_change E i a s t"
    by (auto simp: do_set_auto_renew_def own_change_def Let_def act_ok split: if_split_asm)
next
  assume run: "do_pause_subscription E i a s = (Ok (), t)"
  then obtain x where x: "e_auth E a" "su_sub (v_subs s) i = Some x" "is_party a x"
    and "(if s_status x = Paused then ret () else apply_pause E i (effective E s x) a
       (if a = s_subscriber (effective E s x) then BySubscriber else ByMerchant)) s = (Ok (), t)"
    unfolding do_pause_subscription_def thn_ok bnd_ok require_auth_ok get_subscription_ok reject_expired_ok require_party_ok
    by auto
  then show "own_change E i a s t"
    by (cases "s_status x = Paused") (simp_all add: own_change_same basic_ok, simp add: own_change_def act_ok)
next
  assume run: "do_resume_subscription E i a s = (Ok (), t)"
  then obtain x where x: "e_auth E a" "su_sub (v_subs s) i = Some x" "is_party a x"
    and rest: "(if s_status x = Active then ret ()
      else if (s_status (effective E s x) = InsufficientBalance \<or> s_status (effective E s x) = GracePeriod) \<and>
        s_prepaid_balance x < s_amount x then fail E_InsufficientBalance
      else activate E i (effective E s x) a) s = (Ok (), t)"
    unfolding do_resume_subscription_def thn_ok bnd_ok require_auth_ok get_subscription_ok reject_expired_ok require_party_ok
    by (elim exE conjE) (simp add: basic_ok require_not_blocklisted_ok split: if_split_asm)
  show "own_change E i a s t"
  proof (cases "s_status x = Active")
    case True
    with rest x show ?thesis by (simp add: own_change_same basic_ok)
  next
    case False
    with rest have "activate E i (effective E s x) a s = (Ok (), t)" by (simp add: basic_ok split: if_split_asm)
    with x show ?thesis by (simp add: own_change_def act_ok)
  qed
qed

lemma own_change_books:
  assumes "registry_ok self s" and "own_change E i a s t"
  shows "books_moved self i s t"
proof -
  from assms(2) obtain x where x: "su_sub (v_subs s) i = Some x"
    and other: "\<And>k. k \<noteq> i \<Longrightarrow> su_sub (v_subs t) k = su_sub (v_subs s) k"
    and this: "case su_sub (v_subs t) i of None \<Rightarrow> False
         | Some sub \<Rightarrow> s_prepaid_balance sub = s_prepaid_balance x \<and> s_token sub = s_token x \<and> s_subscriber sub = s_subscriber x"
    and frame: "v_life t = v_life s" "v_admin t = v_admin s" "v_ledger t = v_ledger s"
    unfolding own_change_def by (fastforce split: option.splits)
  from this obtain sub where sub: "su_sub (v_subs t) i = Some sub" "s_prepaid_balance sub = s_prepaid_balance x"
      "s_token sub = s_token x" "s_subscriber sub = s_subscriber x"
    by (cases "su_sub (v_subs t) i") simp_all
  with other have "su_sub (v_subs t) = (su_sub (v_subs s))(i \<mapsto> sub)" by (simp add: fun_eq_iff)
  with x sub frame show ?thesis by (intro same_money_books [OF assms(1), of i x t sub]) simp_all
qed

section \<open>Custody of the bulk operations\<close>

text \<open>A cancellation that returns an error changed nothing.\<close>

lemma apply_cancellation_err: "apply_cancellation E i sub b s = (Err e, t) \<Longrightarrow> t = s"
  by (auto simp: apply_cancellation_def Let_def act_run unindex_subscription_def sub_total_accounted_def
      revoke_credential_def transition_to_def validate_status_transition_def split: if_split_asm option.split_asm)

lemma apply_pause_err: "apply_pause E i sub b r s = (Err e, t) \<Longrightarrow> t = s"
  by (auto simp: apply_pause_def act_run transition_to_def validate_status_transition_def split: if_split_asm)

lemma collect_run:
  assumes "collect f xs s = (Ok rs, t)" and "P s" and "\<And>x s r t. P s \<Longrightarrow> f x s = (Ok r, t) \<Longrightarrow> P t"
  shows "P t"
  using assms(1,2) by (induction xs arbitrary: s rs) (auto simp: bnd_ok basic_ok dest: assms(3))

lemma bulk_outcome_ok: "bulk_outcome i m s = (Ok r, t) \<Longrightarrow> m s = (Ok (), t) \<or> (\<exists>e. m s = (Err e, t))"
  by (auto simp: bulk_outcome_def attempt_bnd_ok basic_ok)

lemma attempt_ret [simp]: "attempt (ret a) = ret (Inr a)"
  by (simp add: attempt_def ret_def fun_eq_iff)

lemma bulk_one_ok:
  assumes "bulk_one E i st f s = (Ok r, t)"
  shows "v_subs t = v_subs s \<and> v_life t = v_life s \<and> v_admin t = v_admin s \<and> v_ledger t = v_ledger s \<or>
    (\<exists>x. su_sub (v_subs s) i = Some x \<and> \<not> is_expired (effective E s x) (e_timestamp E) (e_sequence E) \<and>
       (f (effective E s x) s = (Ok (), t) \<or> (\<exists>e. f (effective E s x) s = (Err e, t))))"
proof -
  from assms obtain g u where g: "attempt (get_subscription E i) s = (Ok g, u)"
    and rest: "(case g of Inl e \<Rightarrow> ret (bulk_failed i e) | Inr sub \<Rightarrow>
         if is_expired sub (e_timestamp E) (e_sequence E) then
           thn (publish (ChargeEv (Ev_subscription_expired i (e_timestamp E)))) (ret (bulk_failed i E_SubscriptionExpired))
         else if s_status sub = st then ret (bulk_skipped i) else bulk_outcome i (f sub)) u = (Ok r, t)"
    unfolding bulk_one_def bnd_ok by blast
  show ?thesis
  proof (cases g)
    case (Inl e)
    with g rest show ?thesis by (auto simp: attempt_ok basic_ok get_subscription_run split: option.split_asm)
  next
    case (Inr sub)
    with g obtain x where x: "su_sub (v_subs s) i = Some x" "sub = effective E s x" "u = s"
      by (auto simp: attempt_ok get_subscription_ok)
    with Inr rest show ?thesis by (auto simp: thn_ok publish_ok basic_ok split: if_split_asm dest: bulk_outcome_ok)
  qed
qed

lemma bulk_one_custody:
  assumes cust: "custody self tk k s" and run: "bulk_one E i st f s = (Ok r, t)"
    and ok: "\<And>x t. su_sub (v_subs s) i = Some x \<Longrightarrow> f (effective E s x) s = (Ok (), t) \<Longrightarrow> books_moved self i s t"
    and err: "\<And>sub e t. f sub s = (Err e, t) \<Longrightarrow> t = s"
  shows "custody self tk k t"
  using bulk_one_ok [OF run]
proof (elim disjE exE conjE)
  assume "v_subs t = v_subs s" "v_life t = v_life s" "v_admin t = v_admin s" "v_ledger t = v_ledger s"
  then have "custody self tk k t = custody self tk k s" by (intro custody_frame) simp_all
  with cust show ?thesis by simp
qed (use cust in \<open>auto dest: ok err intro: books_moved_custody\<close>)

lemma pause_books:
  assumes "registry_ok self s" and "su_sub (v_subs s) i = Some x" and "apply_pause E i (effective E s x) b r s = (Ok (), t)"
  shows "books_moved self i s t"
  using assms(3)
  by (intro same_money_books [OF assms(1,2), of t "(effective E s x)\<lparr>s_status := Paused\<rparr>"]) (simp_all add: act_ok)

lemma precheck_frame:
  "bulk_precheck E c ids n s = (Ok b, t) \<Longrightarrow> v_subs t = v_subs s \<and> v_life t = v_life s \<and> v_admin t = v_admin s \<and>
     v_ledger t = v_ledger s \<and> e_auth E c"
  by (auto simp: bulk_precheck_def require_admin_or_operator_auth_def get_operator_def act_ok split: if_split_asm)

lemma bulk_deposit_checks_ok:
  "bulk_deposit_checks E i a s = (Ok (sub, n), t) \<Longrightarrow> t = s \<and> 0 \<le> a \<and> n = s_prepaid_balance sub + a \<and>
     (\<exists>x. su_sub (v_subs s) i = Some x \<and> sub = effective E s x)"
  by (auto simp: bulk_deposit_checks_def bnd_ok thn_ok basic_ok get_subscription_ok getters_ok gates_ok attempt_ok
      require_not_blocklisted_run split: if_split_asm sum.split_asm)

lemma bulk_deposit_checks_err: "bulk_deposit_checks E i a s = (r, t) \<Longrightarrow> t = s"
proof -
  have "keeps id (bulk_deposit_checks E i a)"
    by (auto simp: bulk_deposit_checks_def get_min_topup_def require_not_blocklisted_def intro!: keeps_intro)
  then show "bulk_deposit_checks E i a s = (r, t) \<Longrightarrow> t = s" by (metis keepsD id_apply)
qed

lemma bulk_deposit_one_custody:
  assumes host: "host_ok self E" and payer: "e_auth E c" and cust: "custody self tk k s" and run: "bulk_deposit_one E c (i, a) s = (Ok r, t)"
  shows "custody self tk k t"
proof -
  from run obtain g u where g: "attempt (bulk_deposit_checks E i a) s = (Ok g, u)"
    and rest: "(case g of
       Inl e \<Rightarrow> ret \<lparr>bd_subscription_id = i, bd_success = False, bd_error_code = to_code e\<rparr>
     | Inr (sub0, new_balance) \<Rightarrow>
         let sub = sub0\<lparr>s_prepaid_balance := new_balance\<rparr> in
         thn (clear_failures i)
         (thn (write_subscription i sub)
         (thn (token_transfer E (s_token sub) c (e_self E) a)
         (thn (attempt (add_total_accounted (s_token sub) a))
         (thn (publish (FundEv (Ev_funds_deposited i (s_subscriber sub) (s_token sub) a new_balance (e_timestamp E))))
         (thn (if recovering sub then publish_recovery_ready E i sub else ret ())
         (ret \<lparr>bd_subscription_id = i, bd_success = True, bd_error_code = 0\<rparr>))))))) u = (Ok r, t)"
    unfolding bulk_deposit_one_def prod.case bnd_ok by blast
  show ?thesis
  proof (cases g)
    case (Inl e)
    with g rest cust show ?thesis by (auto simp: attempt_ok basic_ok dest: bulk_deposit_checks_err)
  next
    case (Inr p)
    obtain sub n where p: "p = (sub, n)" by (cases p)
    with g Inr obtain x where x: "su_sub (v_subs s) i = Some x" "sub = effective E s x" "u = s" "0 \<le> a" "n = s_prepaid_balance x + a"
      by (auto simp: attempt_ok dest: bulk_deposit_checks_ok)
    from rest Inr p x have paid: "e_transfer E (s_token x) c (e_self E) a (v_ledger s) = Some (v_ledger t)"
      and after: "su_sub (v_subs t) = (su_sub (v_subs s))(i \<mapsto> sub\<lparr>s_prepaid_balance := n\<rparr>)" "lf_escrow (v_life t) = lf_escrow (v_life s)" "v_admin t = v_admin s"
      by (auto simp: Let_def thn_ok basic_ok act_ok clear_failures_def mod_charge_def add_total_accounted_def
          publish_recovery_ready_def split: if_split_asm sum.split_asm)
    from host payer have "sep41 E" "e_self E = self" "c \<noteq> self" by (auto simp: host_ok_def)
    with paid have led: "v_ledger t tk self - v_ledger s tk self = (if tk = s_token x then a else 0)" for tk
      by (intro transfer_in) simp_all
    from cust have "registry_ok self s" by (simp add: custody_def)
    from this x(1) led x(4) after have "books_moved self i s t"
      by (rule topup_books) (simp_all add: x)
    then show ?thesis using cust by (rule books_moved_custody)
  qed
qed

lemma bulk_custody:
  assumes cust: "custody self tk k s"
    and run: "bnd (bulk_precheck E c ids n) (\<lambda>go. if \<not> go then ret []
      else bnd (collect f xs) (\<lambda>rs. thn (publish (ev rs)) (ret rs))) s = (Ok r, t)"
    and one: "\<And>x s r t. e_auth E c \<Longrightarrow> custody self tk k s \<Longrightarrow> f x s = (Ok r, t) \<Longrightarrow> custody self tk k t"
  shows "custody self tk k t"
proof -
  from run obtain b u where pre: "bulk_precheck E c ids n s = (Ok b, u)"
    and rest: "(if \<not> b then ret [] else bnd (collect f xs) (\<lambda>rs. thn (publish (ev rs)) (ret rs))) u = (Ok r, t)"
    unfolding bnd_ok [of "bulk_precheck E c ids n"] by blast
  from precheck_frame [OF pre] cust custody_frame [of u s] have u: "custody self tk k u" and auth: "e_auth E c" by simp_all
  show ?thesis
  proof (cases b)
    case False
    with rest u show ?thesis by (simp add: basic_ok)
  next
    case True
    with rest obtain v where v: "collect f xs u = (Ok r, v)" "t = v\<lparr>v_events := v_events v @ [ev r]\<rparr>"
      by (auto simp: bnd_ok thn_ok publish_ok basic_ok)
    have "custody self tk k v"
      by (rule collect_run [where P = "custody self tk k", OF v(1) u]) (rule one [OF auth])
    with v(2) custody_frame [of t v] show ?thesis by simp
  qed
qed

lemma bulk_pause_custody:
  assumes "custody self tk k s" and "do_bulk_pause_subscriptions E c ids n s = (Ok r, t)"
  shows "custody self tk k t"
proof (rule bulk_custody [OF assms(1) assms(2) [unfolded do_bulk_pause_subscriptions_def]])
  fix i s r t
  assume cust: "custody self tk k s" and "bulk_pause_one E c i s = (Ok r, t)"
  then show "custody self tk k t"
    unfolding bulk_pause_one_def
    by (elim bulk_one_custody) (use cust in \<open>auto simp: custody_def intro: pause_books dest: apply_pause_err\<close>)
qed

lemma bulk_cancel_custody:
  assumes "host_ok self E" and "custody self tk k s" and "do_bulk_cancel_subscriptions E c ids n s = (Ok r, t)"
  shows "custody self tk k t"
proof (rule bulk_custody [OF assms(2) assms(3) [unfolded do_bulk_cancel_subscriptions_def]])
  fix i s r t
  assume cust: "custody self tk k s" and "bulk_cancel_one E c i s = (Ok r, t)"
  then show "custody self tk k t"
    unfolding bulk_cancel_one_def
    by (elim bulk_one_custody)
      (use cust in \<open>auto simp: custody_def intro: cancellation_books [OF assms(1)] dest: apply_cancellation_err\<close>)
qed

lemma bulk_deposit_custody:
  assumes "host_ok self E" and "custody self tk k s" and "do_bulk_deposit_funds E c es n s = (Ok r, t)"
  shows "custody self tk k t"
proof (rule bulk_custody [OF assms(2) assms(3) [unfolded do_bulk_deposit_funds_def]])
  fix x s r t
  assume "e_auth E c" "custody self tk k s" "bulk_deposit_one E c x s = (Ok r, t)"
  then show "custody self tk k t"
    by (cases x) (auto intro: bulk_deposit_one_custody [OF assms(1)])
qed

section \<open>Any sequence of operations\<close>

datatype sub_step =
    S_Create creation
  | S_CreateDefault creation
  | S_Deposit nat int "nat option"
  | S_DepositFor nat address int "nat option"
  | S_Grant address address nat int
  | S_Revoke address address
  | S_Cancel nat address
  | S_RequestEmergency nat address
  | S_FinalizeEmergency nat address
  | S_Withdraw nat address
  | S_PartialRefund address nat address int
  | S_Cleanup nat address
  | S_ScheduleCancel nat address nat
  | S_UnscheduleCancel nat address
  | S_ExpirationLedger nat address "nat option"
  | S_AutoRenew nat address bool
  | S_Pause nat address
  | S_Resume nat address
  | S_BulkPause address "nat list" nat
  | S_BulkCancel address "nat list" nat
  | S_BulkDeposit address "(nat \<times> int) list" nat

fun sub_run :: "env \<Rightarrow> sub_step \<Rightarrow> unit vm" where
  "sub_run E (S_Create c) = thn (do_create_subscription_with_token E c) (ret ())"
| "sub_run E (S_CreateDefault c) = thn (do_create_subscription E c) (ret ())"
| "sub_run E (S_Deposit i a n) = do_deposit_funds E i a n"
| "sub_run E (S_DepositFor i p a n) = do_deposit_funds_on_behalf E i p a n"
| "sub_run E (S_Grant a p x m) = do_grant_delegated_payer E a p x m"
| "sub_run E (S_Revoke a p) = do_revoke_delegated_payer E a p"
| "sub_run E (S_Cancel i a) = do_cancel_subscription E i a"
| "sub_run E (S_RequestEmergency i a) = do_request_emergency_withdraw E i a"
| "sub_run E (S_FinalizeEmergency i a) = do_finalize_emergency_withdraw E i a"
| "sub_run E (S_Withdraw i a) = do_withdraw_subscriber_funds E i a"
| "sub_run E (S_PartialRefund d i a m) = do_partial_refund E d i a m"
| "sub_run E (S_Cleanup i a) = do_cleanup_subscription E i a"
| "sub_run E (S_ScheduleCancel i a n) = do_schedule_cancel E i a n"
| "sub_run E (S_UnscheduleCancel i a) = do_unschedule_cancel E i a"
| "sub_run E (S_ExpirationLedger i a l) = do_set_subscription_expiration_ledger E i a l"
| "sub_run E (S_AutoRenew i a b) = do_set_auto_renew E i a b"
| "sub_run E (S_Pause i a) = do_pause_subscription E i a"
| "sub_run E (S_Resume i a) = do_resume_subscription E i a"
| "sub_run E (S_BulkPause c ids n) = thn (do_bulk_pause_subscriptions E c ids n) (ret ())"
| "sub_run E (S_BulkCancel c ids n) = thn (do_bulk_cancel_subscriptions E c ids n) (ret ())"
| "sub_run E (S_BulkDeposit c es n) = thn (do_bulk_deposit_funds E c es n) (ret ())"

definition run_sub_steps :: "(env \<times> sub_step) list \<Rightarrow> vault \<Rightarrow> vault" where
  "run_sub_steps steps s = foldl (\<lambda>v (E, op). snd (tx (sub_run E op) v)) s steps"

lemma sub_step_custody:
  assumes host: "host_ok self E" and cust: "custody self tk k s" and run: "sub_run E op s = (Ok (), t)"
  shows "custody self tk k t"
proof -
  from cust have reg: "registry_ok self s" by (simp add: custody_def)
  have moved: ?thesis if "books_moved self i s t" for i
    using that cust by (rule books_moved_custody)
  show ?thesis
  proof (cases op)
    case (S_Create c)
    with run show ?thesis by (auto simp: act_ok intro: created_custody [OF host cust])
  next
    case (S_CreateDefault c)
    with run show ?thesis by (auto simp: act_ok dest!: create_default_ok intro: created_custody [OF host cust])
  next
    case (S_Grant a p x m)
    with run have "custody self tk k t = custody self tk k s"
      by (intro custody_frame) (auto simp: do_grant_delegated_payer_def act_ok split: if_split_asm)
    with cust show ?thesis by simp
  next
    case (S_Revoke a p)
    with run have "custody self tk k t = custody self tk k s"
      by (intro custody_frame) (auto simp: do_revoke_delegated_payer_def remove_grant_def act_ok split: if_split_asm)
    with cust show ?thesis by simp
  next
    case (S_RequestEmergency i a)
    with run have "custody self tk k t = custody self tk k s"
      by (intro custody_frame) (auto simp: do_request_emergency_withdraw_def act_ok split: if_split_asm)
    with cust show ?thesis by simp
  next
    case (S_Cleanup i a)
    then show ?thesis using run cust cleanup_books [OF reg] moved [of i] by (cases "t = s") auto
  qed (use run in \<open>auto simp: thn_ok basic_ok intro: moved deposit_books [OF host reg] delegated_deposit_books [OF host reg]
      own_change_books [OF reg] own_operations bulk_pause_custody [OF cust] bulk_cancel_custody [OF host cust]
      bulk_deposit_custody [OF host cust] cancel_books [OF host reg] emergency_books [OF host reg] withdraw_books [OF host reg] partial_refund_books [OF host reg]\<close>)
qed

text \<open>
  C14. Prepaid money is in safe custody. Take any sequence of creating subscriptions, depositing (by the
  subscriber or a delegated payer), granting and revoking delegations, cancelling, requesting and
  finalising emergency withdrawals, withdrawing, partial refunds, archiving, scheduling, pausing,
  resuming and the bulk operations, each accepted or refused. In every token the amount the vault holds beyond the prepaid balances and cancellation
  escrows it owes is the same at the end as at the start, no stored balance is negative, and every
  stored id lies below the id counter.
\<close>

theorem prepaid_custody:
  assumes "\<forall>(E, op) \<in> set steps. host_ok self E" and "registry_ok self s"
  shows "surplus self (run_sub_steps steps s) tk = surplus self s tk \<and> registry_ok self (run_sub_steps steps s)"
proof -
  have "custody self tk k s \<Longrightarrow> custody self tk k (run_sub_steps steps s)" for k
    using assms(1)
  proof (induction steps arbitrary: s)
    case (Cons x steps)
    obtain E op where x: "x = (E, op)" by (cases x)
    have "custody self tk k (snd (tx (sub_run E op) s))"
    proof (cases "sub_run E op s")
      case (Pair r t)
      then show ?thesis using sub_step_custody [of self E tk k s op t] Cons.prems x by (cases r) (auto simp: tx_def)
    qed
    with Cons x show ?case by (simp add: run_sub_steps_def)
  qed (simp add: run_sub_steps_def)
  from this [of "surplus self s tk"] assms(2) show ?thesis by (simp add: custody_def)
qed

theorem prepaid_custody_witness:
  "surplus (Addr 0) (run_sub_steps [(fund_env, S_Deposit 7 500 None), (fund_env, S_Cancel 7 (Addr 2))] fund_vault) (Addr 9)
     = surplus (Addr 0) fund_vault (Addr 9) \<and>
   fst (sub_run fund_env (S_Deposit 7 500 None) fund_vault) = Ok ()"
  using prepaid_custody [of "[(fund_env, S_Deposit 7 500 None), (fund_env, S_Cancel 7 (Addr 2))]" "Addr 0" fund_vault "Addr 9"]
    fund_host fund_registry fund_deposit by auto

section \<open>Credit limit\<close>

lemma exposure_upd:
  assumes "su_sub (v_subs t) = (su_sub (v_subs s))(i \<mapsto> sub)" and "i < next_id_of s" and "v_admin t = v_admin s"
  shows "exposure t a tk = exposure s a tk - contribution a tk (su_sub (v_subs s) i) + contribution a tk (Some sub)"
proof -
  let ?f = "\<lambda>k. contribution a tk (su_sub (v_subs s) k)"
  have "exposure t a tk = (\<Sum>k<next_id_of s. contribution a tk (if k = i then Some sub else su_sub (v_subs s) k))"
    using assms(1,3) by (simp add: exposure_def next_id_of_def fun_upd_def)
  also have "\<dots> = contribution a tk (Some sub) + (\<Sum>k \<in> {..<next_id_of s} - {i}. ?f k)"
    using assms(2) by (subst sum.remove [of _ i]) (auto intro!: sum.cong)
  also have "(\<Sum>k \<in> {..<next_id_of s} - {i}. ?f k) = exposure s a tk - ?f i"
    using assms(2) sum.remove [of "{..<next_id_of s}" i ?f] by (simp add: exposure_def)
  finally show ?thesis by simp
qed

lemma deposit_exposure:
  assumes "do_deposit_funds E i a n s = (Ok (), t)" and "su_sub (v_subs s) i = Some x" and "i < next_id_of s"
  shows "exposure t (s_subscriber x) (s_token x) = exposure s (s_subscriber x) (s_token x) + a \<and>
    credit_limit_of t b tk = credit_limit_of s b tk \<and>
    (0 < a \<longrightarrow> credit_limit_of s (s_subscriber x) (s_token x) \<noteq> 0 \<longrightarrow>
       exposure s (s_subscriber x) (s_token x) + a \<le> credit_limit_of s (s_subscriber x) (s_token x))"
proof -
  from assms(1,2) obtain u where nonce: "optional_nonce E (s_subscriber x) DepositFunds n s = (Ok (), u)"
    and credit: "fst (enforce_credit_limit_for_delta (s_subscriber x) (s_token x) a u) = Ok ()"
    and after: "su_sub (v_subs t) = (su_sub (v_subs u))(i \<mapsto> (effective E s x)\<lparr>s_prepaid_balance := s_prepaid_balance x + a\<rparr>)"
      "v_life t = v_life u" "v_admin t = v_admin u"
    unfolding do_deposit_funds_def Let_def
    by (simp add: act_ok gates_ok clear_failures_def mod_charge_def add_total_accounted_def publish_recovery_ready_def
        split: if_split_asm) auto
  note frame = optional_nonce_ok [OF nonce]
  have "enforce_credit_limit_for_delta (s_subscriber x) (s_token x) a u = (Ok (), u)"
    using credit gates_ok(4) [of "s_subscriber x" "s_token x" a u "()" u] by simp
  from enforce_credit_limit_ok [OF this] frame
  have "0 < a \<longrightarrow> credit_limit_of s (s_subscriber x) (s_token x) \<noteq> 0 \<longrightarrow>
       exposure s (s_subscriber x) (s_token x) + a \<le> credit_limit_of s (s_subscriber x) (s_token x)"
    by (simp add: exposure_def next_id_of_def credit_limit_of_def)
  moreover have "exposure t (s_subscriber x) (s_token x) = exposure s (s_subscriber x) (s_token x) + a"
    using exposure_upd [of t s i _ "s_subscriber x" "s_token x"] after frame assms(2,3) by (simp add: contribution_def)
  ultimately show ?thesis using after frame by (simp add: credit_limit_of_def)
qed



section \<open>Status of a subscription\<close>

lemma fund_pause: "\<exists>t. do_pause_subscription fund_env 7 (Addr 2) fund_vault = (Ok (), t)"
  by (simp add: do_pause_subscription_def act_ok is_party_def can_transition_def)



text \<open>
  Pausing and resuming are inverse. When a party pauses an active subscription and a party resumes
  it at a later time, the stored subscription and the counter of active subscriptions of its
  subscriber are what they were, provided the counter was positive and below its maximum.
\<close>

theorem pause_resume_roundtrip:
  assumes "su_sub (v_subs s) i = Some x" and "s_status x = Active" and "do_pause_subscription E i a s = (Ok (), t)"
    and "do_resume_subscription E' i b t = (Ok (), u)"
    and "0 < active_count s (s_subscriber x)" and "active_count s (s_subscriber x) \<le> u32_max"
  shows "su_sub (v_subs t) i = Some (x\<lparr>s_status := Paused\<rparr>) \<and> su_sub (v_subs u) = su_sub (v_subs s) \<and>
    active_count t (s_subscriber x) = active_count s (s_subscriber x) - 1 \<and>
    active_count u (s_subscriber x) = active_count s (s_subscriber x)"
proof -
  have eff: "effective E s x = x" "effective E' t (x\<lparr>s_status := Paused\<rparr>) = x\<lparr>s_status := Paused\<rparr>"
    using assms(2) by (simp_all add: effective_status)
  from assms(1-3) eff obtain r where "apply_pause E i x a r s = (Ok (), t)"
    by (auto simp: do_pause_subscription_def thn_ok bnd_ok require_auth_ok get_subscription_ok reject_expired_ok require_party_ok)
  then have t: "su_sub (v_subs t) = (su_sub (v_subs s))(i \<mapsto> x\<lparr>s_status := Paused\<rparr>)"
    "active_count t (s_subscriber x) = active_count s (s_subscriber x) - 1"
    by (simp_all add: act_ok active_count_def)
  with assms(4) eff have "activate E' i (x\<lparr>s_status := Paused\<rparr>) b t = (Ok (), u)"
    by (simp add: do_resume_subscription_def thn_ok bnd_ok require_auth_ok get_subscription_ok reject_expired_ok
        require_party_ok basic_ok require_not_blocklisted_ok split: if_split_asm)
  with t assms show ?thesis
    by (auto simp: act_ok active_count_def sat_add_u32_def fun_eq_iff)
qed

theorem pause_resume_roundtrip_witness:
  "\<exists>t u. do_pause_subscription fund_env 7 (Addr 2) fund_vault = (Ok (), t) \<and>
     do_resume_subscription fund_env 7 (Addr 5) t = (Ok (), u) \<and> su_sub (v_subs u) = su_sub (v_subs fund_vault)"
proof -
  obtain t where run: "do_pause_subscription fund_env 7 (Addr 2) fund_vault = (Ok (), t)" using fund_pause by auto
  then have "su_sub (v_subs t) 7 = Some (stored_sub\<lparr>s_status := Paused\<rparr>)"
    by (simp add: do_pause_subscription_def act_ok)
  moreover have "effective fund_env t (stored_sub\<lparr>s_status := Paused\<rparr>) = stored_sub\<lparr>s_status := Paused\<rparr>"
    by (simp add: effective_status)
  moreover have "\<not> is_expired (stored_sub\<lparr>s_status := Paused\<rparr>) n m" for n m
    by (simp add: is_expired_def stored_sub_def)
  ultimately obtain u where run2: "do_resume_subscription fund_env 7 (Addr 5) t = (Ok (), u)"
    by (simp add: do_resume_subscription_def act_ok is_party_def can_transition_def)
  from pause_resume_roundtrip [OF _ _ run run2, of stored_sub] have "su_sub (v_subs u) = su_sub (v_subs fund_vault)"
    by (simp add: active_count_def u32_max_def)
  with run run2 show ?thesis by blast
qed

text \<open>
  Cancelling an underfunded subscription leaks its slot. The counter that limits the active
  subscriptions of a subscriber goes down when an active subscription is cancelled, but stays when the
  cancelled one was in grace or out of funds, although it was counted at its creation; once the counter
  is at the limit the subscriber can create no further subscription.
\<close>

theorem cancelled_slot_leaks:
  assumes "su_sub (v_subs s) i = Some x" and "do_cancel_subscription E i a s = (Ok (), t)"
  shows "active_count t (s_subscriber x) = active_count s (s_subscriber x) - (if s_status x = Active then 1 else 0) \<and>
    (s_status x \<in> {GracePeriod, InsufficientBalance} \<longrightarrow>
       active_cap s (cr_subscriber c) \<le> active_count s (cr_subscriber c) \<longrightarrow> cr_subscriber c = s_subscriber x \<longrightarrow>
       fst (do_create_subscription_with_token E' c t) \<noteq> Ok j)"
proof -
  from assms obtain u where last: "revoke_credential E i u = (Ok (), t)"
    and cnt: "active_count u (s_subscriber x) = active_count s (s_subscriber x) - (if s_status x = Active then 1 else 0)"
    and cap: "lf_active_cap (v_life u) = lf_active_cap (v_life s)"
    by (auto simp: do_cancel_subscription_def act_ok apply_cancellation_def Let_def unindex_subscription_def
        sub_total_accounted_def active_count_def split: if_split_asm)
  have t: "active_count t b = active_count u b" "active_cap t b = active_cap u b" for b
    using last by (auto simp: revoke_credential_def act_ok active_count_def active_cap_def split: option.split_asm if_split_asm)
  have "active_count t (cr_subscriber c) < active_cap t (cr_subscriber c)"
    if "do_create_subscription_with_token E' c t = (Ok j, v)" for v
    using that by (rule create_with_token_ok)
  then show ?thesis
    using cnt cap t by (auto simp: active_cap_def) (metis prod.collapse leD)+
qed

definition short_sub :: subscription where
  "short_sub = stored_sub\<lparr>s_status := InsufficientBalance\<rparr>"

definition short_vault :: vault where
  "short_vault = fund_vault\<lparr>v_subs := (v_subs fund_vault)\<lparr>su_sub := [7 \<mapsto> short_sub]\<rparr>\<rparr>"

theorem cancelled_slot_leaks_witness:
  "\<exists>t. do_cancel_subscription fund_env 7 (Addr 5) short_vault = (Ok (), t) \<and>
     active_count t (Addr 2) = active_count short_vault (Addr 2)"
proof -
  have "\<exists>t. do_cancel_subscription fund_env 7 (Addr 5) short_vault = (Ok (), t)"
    by (simp add: do_cancel_subscription_def act_ok apply_cancellation_def Let_def unindex_subscription_def short_vault_def
        short_sub_def can_transition_def compute_cancel_refund_def sub_total_accounted_def is_expired_def effective_def
        grace_over_def revoke_credential_def stored_sub_def fund_vault_def empty_vault_def sep41_transfer_def)
  then obtain t where run: "do_cancel_subscription fund_env 7 (Addr 5) short_vault = (Ok (), t)" ..
  have "su_sub (v_subs short_vault) 7 = Some short_sub" "s_subscriber short_sub = Addr 2" "s_status short_sub = InsufficientBalance"
    by (simp_all add: short_vault_def short_sub_def)
  with cancelled_slot_leaks [OF _ run, of short_sub] run show ?thesis by auto
qed

end
