(* ===== verification/Direct_Charges.thy ===== *)
theory Direct_Charges
  imports Charge_Invariant Subscription_Custody
begin

text \<open>
  Charges outside the interval schedule (\<^verbatim>\<open>src/subscription.rs\<close>): the one-off charge of a merchant and
  the buyout with which a subscriber leaves the grace period.
\<close>

section \<open>One-off charges\<close>

definition payee_open :: "env \<Rightarrow> address \<times> nat \<Rightarrow> unit vm" where
  "payee_open E entry =
     thn (require_not_blocklisted (fst entry))
     (thn (merchant_not_paused (fst entry))
     (merchant_not_in_vacation E (fst entry)))"

definition one_off_parties :: "env \<Rightarrow> nat \<Rightarrow> subscription \<Rightarrow> unit vm" where
  "one_off_parties E i sub =
     thn (require_not_blocklisted (s_subscriber sub))
     (thn (require_not_blocklisted (s_merchant sub))
     (bnd (get_split_payees i) (\<lambda>split.
     case split of Some entries \<Rightarrow> each (payee_open E) entries | None \<Rightarrow> ret ())))"

definition one_off_hash :: "env \<Rightarrow> nat \<Rightarrow> bytes \<Rightarrow> bytes" where
  "one_off_hash E i k = hash_idem_key E (as_u32 ChargeOneoff) i k"

definition one_off_replayed :: "env \<Rightarrow> nat \<Rightarrow> bytes option \<Rightarrow> bool vm" where
  "one_off_replayed E i idem_key =
     (case idem_key of
        None \<Rightarrow> ret False
      | Some k \<Rightarrow> gets (\<lambda>v. check_key_at (v_idem v) i (one_off_hash E i k) (e_timestamp E)))"

text \<open>A used-up cap cancels the subscription; the error that follows rolls the cancellation back.\<close>

definition cancel_on_cap :: "env \<Rightarrow> nat \<Rightarrow> int \<Rightarrow> subscription \<Rightarrow> unit vm" where
  "cancel_on_cap E i cap sub =
     bnd (lift (transition_to (s_status sub) Cancelled)) (\<lambda>st.
     thn (write_subscription i (sub\<lparr>s_status := st\<rparr>))
     (publish (ChargeEv (Ev_lifetime_cap_reached i cap (s_lifetime_charged sub) (e_timestamp E)))))"

definition one_off_cap_used_up :: "env \<Rightarrow> nat \<Rightarrow> subscription \<Rightarrow> unit vm" where
  "one_off_cap_used_up E i sub =
     (case s_lifetime_cap sub of
        Some cap \<Rightarrow>
          if lifetime_cap_reached cap (s_lifetime_charged sub) then
            thn (if s_status sub \<noteq> Cancelled then cancel_on_cap E i cap sub else ret ())
            (fail E_LifetimeCapReached)
          else ret ()
      | None \<Rightarrow> ret ())"

definition one_off_amount_gates :: "env \<Rightarrow> nat \<Rightarrow> int \<Rightarrow> subscription \<Rightarrow> int vm" where
  "one_off_amount_gates E i amount sub =
     (if s_status sub \<noteq> Active \<and> s_status sub \<noteq> Paused then fail E_NotActive
      else if amount \<le> 0 then fail E_InvalidAmount
      else if s_prepaid_balance sub < amount then fail E_InsufficientPrepaidBalance
      else
        bnd (lift (safe_add (s_lifetime_charged sub) amount)) (\<lambda>new_charged.
        thn (case s_lifetime_cap sub of
               Some cap \<Rightarrow>
                 if new_charged > cap then thn (cancel_on_cap E i cap sub) (fail E_LifetimeCapReached) else ret ()
             | None \<Rightarrow> ret ())
        (ret new_charged)))"

definition one_off_fee :: "subscription \<Rightarrow> int \<Rightarrow> address option \<Rightarrow> unit vm" where
  "one_off_fee sub fee_amount treasury_opt =
     (if fee_amount > 0 then
        (case treasury_opt of
           Some treasury \<Rightarrow> credit_merchant_balance_for_token treasury (s_token sub) fee_amount OneOff
         | None \<Rightarrow> ret ())
      else ret ())"

definition one_off_cap_now_reached :: "env \<Rightarrow> nat \<Rightarrow> subscription \<Rightarrow> subscription vm" where
  "one_off_cap_now_reached E i sub =
     (case s_lifetime_cap sub of
        Some cap \<Rightarrow>
          if lifetime_cap_reached cap (s_lifetime_charged sub) then
            bnd (lift (transition_to (s_status sub) Cancelled)) (\<lambda>st.
            thn (publish (ChargeEv (Ev_lifetime_cap_reached i cap (s_lifetime_charged sub) (e_timestamp E))))
            (ret (sub\<lparr>s_status := st\<rparr>)))
          else ret sub
      | None \<Rightarrow> ret sub)"

definition remember_one_off :: "env \<Rightarrow> nat \<Rightarrow> bytes option \<Rightarrow> unit vm" where
  "remember_one_off E i idem_key =
     (case idem_key of
        None \<Rightarrow> ret ()
      | Some k \<Rightarrow> zoom v_idem v_idem_update (push_key i (one_off_hash E i k) (e_timestamp E)))"

text \<open>
  The charged subscription \<open>sub1\<close> is computed and used for the credits and events. The code does not
  write it back.
\<close>

definition settle_one_off :: "env \<Rightarrow> nat \<Rightarrow> int \<Rightarrow> bytes option \<Rightarrow> subscription \<Rightarrow> unit vm" where
  "settle_one_off E i amount idem_key sub1 =
     bnd (fee_config None) (\<lambda>(fee_bps, treasury_opt).
     bnd (lift (fee_split amount fee_bps treasury_opt)) (\<lambda>(merchant_amount, fee_amount).
     thn (credit_charge_payees E i sub1 merchant_amount OneOff)
     (thn (route_to_sub_account sub1 merchant_amount)
     (thn (one_off_fee sub1 fee_amount treasury_opt)
     (bnd (one_off_cap_now_reached E i sub1) (\<lambda>sub2.
     thn (zoom v_stmt v_stmt_update
            (append_statement i amount (s_merchant sub2) (s_token sub2) OneOff (e_timestamp E) (e_timestamp E)))
     (thn (publish (FundEv (Ev_one_off_charged i amount (s_prepaid_balance sub2) (e_timestamp E))))
     (remember_one_off E i idem_key))))))))"

definition do_charge_one_off :: "env \<Rightarrow> nat \<Rightarrow> address \<Rightarrow> int \<Rightarrow> bytes option \<Rightarrow> unit vm" where
  "do_charge_one_off E i merchant amount idem_key =
     thn (require_auth E merchant)
     (bnd (get_subscription E i) (\<lambda>sub0.
     thn (one_off_parties E i sub0)
     (thn (reject_expired E i sub0)
     (bnd (one_off_replayed E i idem_key) (\<lambda>replayed.
     if replayed then ret ()
     else if s_merchant sub0 \<noteq> merchant then fail E_Unauthorized
     else
       thn (one_off_cap_used_up E i sub0)
       (bnd (one_off_amount_gates E i amount sub0) (\<lambda>new_charged.
       bnd (lift (safe_sub (s_prepaid_balance sub0) amount)) (\<lambda>new_balance.
       settle_one_off E i amount idem_key
         (sub0\<lparr>s_lifetime_charged := new_charged, s_prepaid_balance := new_balance\<rparr>)))))))))"

section \<open>Grace buyout\<close>

definition get_buyout_premium_bps :: "nat vm" where
  "get_buyout_premium_bps = gets (\<lambda>v. case ad_buyout_premium_bps (v_admin v) of Some b \<Rightarrow> b | None \<Rightarrow> 0)"

definition buyout_premium :: "int \<Rightarrow> nat \<Rightarrow> int vm" where
  "buyout_premium charge_amount premium_bps =
     (if premium_bps > 0 then
        bnd (ok_or (checked_mul_i128 charge_amount (int premium_bps)) E_Overflow) (\<lambda>raw. ret (tdiv raw 10000))
      else ret 0)"

text \<open>
  The interval of the period index is divided by without a check for zero, which panics; the salt of
  the published event is the one of \<open>charge_one\<close>.
\<close>

definition do_grace_buyout :: "env \<Rightarrow> nat \<Rightarrow> address \<Rightarrow> int \<Rightarrow> bytes option \<Rightarrow> (int \<times> int) vm" where
  "do_grace_buyout E i subscriber amount idem_key =
     thn (require_auth E subscriber)
     (bnd (get_subscription E i) (\<lambda>sub0.
     if s_status sub0 \<noteq> GracePeriod then fail E_NotInGracePeriod
     else
       bnd (resolve_charge_amount i sub0) (\<lambda>charge_amount.
       bnd get_buyout_premium_bps (\<lambda>premium_bps.
       bnd (buyout_premium charge_amount premium_bps) (\<lambda>premium.
       bnd (ok_or (checked_add_i128 charge_amount premium) E_Overflow) (\<lambda>total_required.
       if amount < total_required then fail E_InsufficientBalance
       else
         bnd (ok_or (checked_add_i128 (s_prepaid_balance sub0) amount) E_Overflow) (\<lambda>topped_up.
         bnd (lift (safe_sub_balance topped_up charge_amount)) (\<lambda>new_balance.
         let now = e_timestamp E in
         bnd (lift (safe_add (s_lifetime_charged sub0) charge_amount)) (\<lambda>lifetime.
         bnd (lift (transition_to (s_status sub0) Active)) (\<lambda>st.
         let sub = sub0\<lparr>s_prepaid_balance := new_balance,
               s_last_payment_timestamp := max now (s_last_payment_timestamp sub0),
               s_lifetime_charged := lifetime, s_status := st, s_grace_start_timestamp := None\<rparr> in
         thn (write_subscription i sub)
         (bnd (lift (safe_add charge_amount premium)) (\<lambda>merchant_credit.
         thn (credit_merchant_balance_for_token (s_merchant sub) (s_token sub) merchant_credit Interval)
         (if s_interval_seconds sub = 0 then panic
          else
            let period_index = (now - s_start_time sub) div s_interval_seconds sub in
            thn (mod_charge (\<lambda>c. c\<lparr>ch_charged_period := (ch_charged_period c)(i \<mapsto> period_index)\<rparr>))
            (thn (zoom v_stmt v_stmt_update
                   (append_statement i charge_amount (s_merchant sub) (s_token sub) Interval
                      (now - s_interval_seconds sub) now))
            (thn (publish (FundEv (Ev_grace_buyout i amount charge_amount premium now)))
            (bnd (charge_salt E i (s_last_payment_timestamp sub)) (\<lambda>salt.
            thn (publish (ChargeEv (Ev_charged i merchant_credit (s_lifetime_charged sub) now
                   (now - s_interval_seconds sub) now salt (s_prepaid_balance sub))))
            (thn (publish (LifeEv (Ev_sub_resumed i subscriber GracePeriod now)))
            (thn (remember_key E i now idem_key)
            (ret (charge_amount, premium)))))))))))))))))))))"

section \<open>What the charges do\<close>

lemma keeps_parties [keeps_intro]: "keeps g (one_off_parties E i sub)"
  by (auto simp: one_off_parties_def payee_open_def merchant_not_paused_def merchant_not_in_vacation_def
      intro!: keeps_intro split: option.split)

lemma keeps_replayed [keeps_intro]: "keeps g (one_off_replayed E i k)"
  by (auto simp: one_off_replayed_def intro!: keeps_intro split: option.split)

lemma one_off_amount_gates_ok [act_ok]:
  "one_off_amount_gates E i a sub s = (Ok n, t) \<longleftrightarrow> t = s \<and> n = s_lifetime_charged sub + a \<and> fits_i128 n \<and>
     (s_status sub = Active \<or> s_status sub = Paused) \<and> 0 < a \<and> a \<le> s_prepaid_balance sub \<and>
     (\<forall>cap. s_lifetime_cap sub = Some cap \<longrightarrow> n \<le> cap)"
  by (cases "s_lifetime_cap sub") (auto simp: one_off_amount_gates_def bnd_ok thn_ok basic_ok)

lemma one_off_cap_used_up_ok [act_ok]:
  "one_off_cap_used_up E i sub s = (Ok u, t) \<longleftrightarrow> t = s \<and>
     (\<forall>cap. s_lifetime_cap sub = Some cap \<longrightarrow> \<not> lifetime_cap_reached cap (s_lifetime_charged sub))"
  by (cases "s_lifetime_cap sub") (auto simp: one_off_cap_used_up_def thn_ok basic_ok)

lemma one_off_cap_now_reached_frame:
  "one_off_cap_now_reached E i sub s = (Ok sub2, t) \<Longrightarrow> v_subs t = v_subs s \<and> v_merchant t = v_merchant s \<and> v_ledger t = v_ledger s"
  by (auto simp: one_off_cap_now_reached_def bnd_ok thn_ok basic_ok publish_ok split: option.split_asm if_split_asm)

lemma remember_one_off_frame:
  "remember_one_off E i k s = (Ok u, t) \<Longrightarrow> v_subs t = v_subs s \<and> v_merchant t = v_merchant s \<and> v_ledger t = v_ledger s"
  by (auto simp: remember_one_off_def act_ok split: option.split_asm)

lemma one_off_fee_total:
  assumes run: "one_off_fee sub fee tr s = (Ok u, t)" and fin: "finite K" and mem: "set_option tr \<subseteq> K"
    and ok: "0 \<le> fee" "0 < fee \<Longrightarrow> tr \<noteq> None"
  shows "(\<Sum>m \<in> K. merchant_balance t m (s_token sub)) = (\<Sum>m \<in> K. merchant_balance s m (s_token sub)) + fee \<and>
    untouched s t \<and> sub_account_balance t = sub_account_balance s"
proof (cases "0 < fee")
  case True
  with ok obtain tre where tr: "tr = Some tre" by auto
  with run True have one: "credit_merchant_balance_for_token tre (s_token sub) fee OneOff s = (Ok (), t)"
    by (simp add: one_off_fee_def)
  then have "credit_all OneOff [((tre, s_token sub), fee)] s = (Ok (), t)" by (simp add: credit_all_def act_ok)
  from credit_all_total [OF this fin, of "s_token sub"] credit_frame [OF one] mem tr show ?thesis by simp
qed (use run ok in \<open>auto simp: one_off_fee_def act_ok untouched_def\<close>)

lemma settle_one_off_ok:
  assumes "settle_one_off E i a key sub s = (Ok u, t)"
  obtains bps tr net fee v1 v2 v3 where "fee_config None s = (Ok (bps, tr), s)" "fee_split a bps tr = Ok (net, fee)"
    "credit_charge_payees E i sub net OneOff s = (Ok (), v1)" "route_to_sub_account sub net v1 = (Ok (), v2)"
    "one_off_fee sub fee tr v2 = (Ok (), v3)"
    "v_subs t = v_subs v3" "v_merchant t = v_merchant v3" "v_ledger t = v_ledger v3"
proof -
  from assms obtain bps tr u where cfg: "fee_config None s = (Ok (bps, tr), u)"
    and "(bnd (lift (fee_split a bps tr)) (\<lambda>(merchant_amount, fee_amount).
     thn (credit_charge_payees E i sub merchant_amount OneOff)
     (thn (route_to_sub_account sub merchant_amount)
     (thn (one_off_fee sub fee_amount tr)
     (bnd (one_off_cap_now_reached E i sub) (\<lambda>sub2.
     thn (zoom v_stmt v_stmt_update
            (append_statement i a (s_merchant sub2) (s_token sub2) OneOff (e_timestamp E) (e_timestamp E)))
     (thn (publish (FundEv (Ev_one_off_charged i a (s_prepaid_balance sub2) (e_timestamp E))))
     (remember_one_off E i key)))))))) u = (Ok (), t)"
    unfolding settle_one_off_def bnd_ok [of "fee_config None"] by auto
  with fee_config_same [OF cfg] obtain net fee v1 v2 v3 where split: "fee_split a bps tr = Ok (net, fee)"
    and c: "credit_charge_payees E i sub net OneOff s = (Ok (), v1)" and ro: "route_to_sub_account sub net v1 = (Ok (), v2)"
    and f: "one_off_fee sub fee tr v2 = (Ok (), v3)"
    and rest: "bnd (one_off_cap_now_reached E i sub) (\<lambda>sub2.
     thn (zoom v_stmt v_stmt_update
            (append_statement i a (s_merchant sub2) (s_token sub2) OneOff (e_timestamp E) (e_timestamp E)))
     (thn (publish (FundEv (Ev_one_off_charged i a (s_prepaid_balance sub2) (e_timestamp E))))
     (remember_one_off E i key))) v3 = (Ok (), t)"
    by (auto simp: bnd_ok [of "lift r" for r] basic_ok thn_ok [of "credit_charge_payees E i sub n k" for n k]
        thn_ok [of "route_to_sub_account sub n" for n] thn_ok [of "one_off_fee sub n k" for n k])
  from rest have "v_subs t = v_subs v3 \<and> v_merchant t = v_merchant v3 \<and> v_ledger t = v_ledger v3"
    by (auto simp: bnd_ok [of "one_off_cap_now_reached E i sub"] thn_ok zoom_ok publish_ok
        dest!: remember_one_off_frame one_off_cap_now_reached_frame)
  then show thesis using that cfg split c ro f fee_config_same [OF cfg] by blast
qed

text \<open>The subscription as the code computes it.\<close>

definition one_off_sub :: "env \<Rightarrow> vault \<Rightarrow> subscription \<Rightarrow> int \<Rightarrow> subscription" where
  "one_off_sub E s x a = (effective E s x)\<lparr>s_lifetime_charged := s_lifetime_charged x + a,
     s_prepaid_balance := s_prepaid_balance x - a\<rparr>"

lemma one_off_settled:
  assumes "do_charge_one_off E i m a key s = (Ok u, t)" and "fst (one_off_replayed E i key s) = Ok False"
  obtains x where "su_sub (v_subs s) i = Some x" "m = s_merchant x" "e_auth E m" "0 < a" "a \<le> s_prepaid_balance x"
    "settle_one_off E i a key (one_off_sub E s x a) s = (Ok (), t)"
proof -
  have "keeps id (one_off_parties E i sub)" for sub by (rule keeps_parties)
  note same = check_ok [OF this]
  have "one_off_replayed E i key s = (Ok False, s)"
    using assms(2) keepsD [OF keeps_replayed, of E i key s _ _ id] by (metis id_apply prod.collapse)
  with assms(1) that show thesis
    by (auto simp: do_charge_one_off_def one_off_sub_def same act_ok split: if_split_asm)
qed

text \<open>
  C32. A one-off charge creates money. When a merchant's one-off charge that is not a replay succeeds,
  the balances of the payees, of the treasury and of the labelled sub-account grow together by the
  amount charged, but no stored subscription changes: the prepaid balance is not debited, the lifetime
  total does not grow, and a reached cap does not cancel, so the same charge can be repeated without
  end. The charge does require the merchant's authorisation and an amount within the prepaid balance.
\<close>

theorem one_off_charge_never_debits:
  assumes "do_charge_one_off E i m a key s = (Ok (), t)" and "fst (one_off_replayed E i key s) = Ok False"
    and "su_sub (v_subs s) i = Some sub" and "su_split_payees (v_subs s) i \<noteq> Some []"
    and "fee_config None s = (Ok (bps, tr), s)" and "bps \<le> 10000" and "a \<le> MAX_SUBSCRIPTION_AMOUNT"
    and "finite K" and "insert (s_merchant sub) (payees s i sub \<union> set_option tr) \<subseteq> K"
  shows "v_subs t = v_subs s \<and> v_ledger t = v_ledger s \<and> 0 < a \<and> a \<le> s_prepaid_balance sub \<and> e_auth E (s_merchant sub) \<and>
    (\<Sum>k \<in> K. merchant_balance t k (s_token sub)) + label_balance t sub =
      (\<Sum>k \<in> K. merchant_balance s k (s_token sub)) + label_balance s sub + a"
proof -
  let ?x = "one_off_sub E s sub a"
  from one_off_settled [OF assms(1,2)] assms(3) have gates: "e_auth E (s_merchant sub)" "0 < a" "a \<le> s_prepaid_balance sub"
    and set: "settle_one_off E i a key ?x s = (Ok (), t)" by (metis option.inject)+
  from set obtain net fee v1 v2 v3 where "fee_split a bps tr = Ok (net, fee)"
    and c: "credit_charge_payees E i ?x net OneOff s = (Ok (), v1)" and ro: "route_to_sub_account ?x net v1 = (Ok (), v2)"
    and f: "one_off_fee ?x fee tr v2 = (Ok (), v3)" and ends: "v_subs t = v_subs v3" "v_merchant t = v_merchant v3" "v_ledger t = v_ledger v3"
    using assms(5) by (elim settle_one_off_ok) simp
  then have parts: "net + fee = a" "- 1 \<le> net" "fits_i128 net" "0 \<le> fee" "0 < fee \<Longrightarrow> tr \<noteq> None"
    using fee_split_parts [of a bps tr net fee] gates(2) assms(6,7) by auto
  have eq: "s_merchant ?x = s_merchant sub" "s_token ?x = s_token sub" "payees s i ?x = payees s i sub"
    "label_balance v ?x = label_balance v sub" for v
    by (simp_all add: one_off_sub_def payees_def label_balance_def split: option.split)
  from payees_total [OF c ro parts(2,3) assms(4,8)] assms(9) eq
  have 1: "(\<Sum>k \<in> K. merchant_balance v2 k (s_token sub)) + label_balance v2 sub =
      (\<Sum>k \<in> K. merchant_balance s k (s_token sub)) + label_balance s sub + net" "untouched s v2" by auto
  from one_off_fee_total [OF f assms(8) _ parts(4,5)] assms(9) eq
  have 2: "(\<Sum>k \<in> K. merchant_balance v3 k (s_token sub)) = (\<Sum>k \<in> K. merchant_balance v2 k (s_token sub)) + fee"
    "untouched v2 v3" "label_balance v3 sub = label_balance v2 sub"
    by (auto simp: label_balance_def split: option.split)
  have "merchant_balance t k tk = merchant_balance v3 k tk" "label_balance t sub = label_balance v3 sub" for k tk
    using ends(2) by (simp_all add: merchant_balance_def label_balance_def sub_account_balance_def split: option.split)
  with 1 2 ends gates parts(1) show ?thesis by (simp add: untouched_def)
qed

theorem one_off_charge_never_debits_witness:
  "\<exists>t. do_charge_one_off fund_env 7 (Addr 5) 300 None fund_vault = (Ok (), t) \<and> v_subs t = v_subs fund_vault \<and>
     merchant_balance t (Addr 5) (Addr 9) = merchant_balance fund_vault (Addr 5) (Addr 9) + 300"
proof -
  have fresh: "merchant_balance fund_vault m tk = 0" "token_earnings_of fund_vault m tk = no_earnings" for m tk
    by (simp_all add: merchant_balance_def token_earnings_of_def fund_vault_def empty_vault_def)
  have cfg: "fee_config None fund_vault = (Ok (0, None), fund_vault)" and split: "su_split_payees (v_subs fund_vault) 7 = None"
    by (simp_all add: fee_config_def act_run get_protocol_fee_bps_def get_treasury_def config_value_def fund_vault_def empty_vault_def empty_config_def)
  let ?x = "one_off_sub fund_env fund_vault stored_sub 300"
  obtain v1 where "credit_merchant_balance_for_token (Addr 5) (Addr 9) 300 OneOff fund_vault = (Ok (), v1)"
    using credit_succeeds [of 300 fund_vault "Addr 5" "Addr 9" OneOff] by (auto simp: fresh fits_small no_earnings_def accrual_def)
  then have c: "credit_charge_payees fund_env 7 ?x 300 OneOff fund_vault = (Ok (), v1)"
    by (simp add: credit_charge_payees_def act_ok split one_off_sub_def)
  have "v_stmt v1 = v_stmt fund_vault"
    using credit_frame [OF \<open>credit_merchant_balance_for_token _ _ _ _ _ = _\<close>] by (simp add: untouched_def)
  then have seq: "st_sequence (v_stmt v1) 7 = None" by (simp add: fund_vault_def empty_vault_def)
  have sel: "s_merchant ?x = Addr 5" "s_token ?x = Addr 9" "s_sub_account_label ?x = None" "s_lifetime_cap ?x = Some 20000"
    "s_lifetime_charged ?x = 10300" by (simp_all add: one_off_sub_def stored_sub_def)
  have "one_off_cap_now_reached fund_env 7 ?x v1 = (Ok ?x, v1)"
    by (simp add: one_off_cap_now_reached_def sel lifetime_cap_reached_def act_run)
  then obtain t where settled: "settle_one_off fund_env 7 300 None ?x fund_vault = (Ok (), t)"
    using c seq by (auto simp: settle_one_off_def fee_split_def route_to_sub_account_def one_off_fee_def remember_one_off_def
        sel cfg bnd_ok thn_ok basic_ok zoom_ok publish_ok append_statement_ok Let_def u32_max_def)
  have parties: "fst (one_off_parties fund_env 7 stored_sub fund_vault) = Ok ()"
    by (simp add: one_off_parties_def act_run is_blocklisted_def get_split_payees_def split)
  have run: "do_charge_one_off fund_env 7 (Addr 5) 300 None fund_vault = (Ok (), t)"
    using settled
    by (simp add: do_charge_one_off_def act_ok check_ok [OF keeps_parties] parties one_off_replayed_def
        one_off_sub_def lifetime_cap_reached_def fits_small)
  from one_off_charge_never_debits [OF run _ _ _ cfg, of stored_sub "{Addr 5}"] split
  show ?thesis using run by (auto simp: one_off_replayed_def act_run payees_def label_balance_def MAX_SUBSCRIPTION_AMOUNT_def MAX_FEE_BIPS_def tdiv_nonneg i128_max_def)
qed

text \<open>
  A grace buyout never succeeds: it ends with the salt of its charge event, whose copy of a
  four-byte sequence number into an eight-byte slot panics, so a subscriber can never leave the grace
  period this way.
\<close>

theorem grace_buyout_never_succeeds:
  "fst (do_grace_buyout E i subscriber amount key s) \<noteq> Ok r"
proof
  assume "fst (do_grace_buyout E i subscriber amount key s) = Ok r"
  then obtain t where "do_grace_buyout E i subscriber amount key s = (Ok r, t)" by (metis prod.collapse)
  then show False
    by (simp add: do_grace_buyout_def Let_def charge_salt_panics act_ok split: if_split_asm)
qed

end
