(* ===== verification/Plans.thy ===== *)
theory Plans
  imports Subscription_Claims
begin

text \<open>
  Plan templates (\<^verbatim>\<open>src/subscription.rs\<close>): creation, versioned updates, disabling, the limit on active
  subscriptions per plan, subscriptions created from a plan and their migration to a newer version.
\<close>

section \<open>Templates\<close>

definition next_plan_id :: "nat vm" where
  "next_plan_id =
     bnd (gets (\<lambda>v. case lf_next_plan_id (v_life v) of Some n \<Rightarrow> n | None \<Rightarrow> 0)) (\<lambda>i.
     let nxt = (case checked_add_u32 i 1 of Some n \<Rightarrow> n | None \<Rightarrow> i) in
     thn (mod_life (\<lambda>l. l\<lparr>lf_next_plan_id := Some nxt\<rparr>))
     (ret i))"

definition get_plan_template :: "nat \<Rightarrow> plan_template vm" where
  "get_plan_template p = bnd (gets (\<lambda>v. lf_plan (v_life v) p)) (\<lambda>x. ok_or x E_NotFound)"

definition store_plan :: "nat \<Rightarrow> plan_template \<Rightarrow> unit vm" where
  "store_plan p plan = mod_life (\<lambda>l. l\<lparr>lf_plan := (lf_plan l)(p \<mapsto> plan)\<rparr>)"

definition new_plan :: "address \<Rightarrow> address \<Rightarrow> int \<Rightarrow> nat \<Rightarrow> bool \<Rightarrow> int option \<Rightarrow> nat \<Rightarrow> plan_template" where
  "new_plan merchant token amount interval_seconds usage_enabled lifetime_cap plan_id = \<lparr>
     pl_merchant = merchant, pl_token = token, pl_amount = amount, pl_interval_seconds = interval_seconds,
     pl_trial_seconds = 0, pl_trial_period_seconds = None, pl_usage_enabled = usage_enabled,
     pl_lifetime_cap = lifetime_cap, pl_template_key = plan_id, pl_version = 1, pl_is_disabled = False\<rparr>"

definition add_plan :: "env \<Rightarrow> address \<Rightarrow> address \<Rightarrow> int \<Rightarrow> nat \<Rightarrow> bool \<Rightarrow> int option \<Rightarrow> nat vm" where
  "add_plan E merchant token amount interval_seconds usage_enabled lifetime_cap =
     bnd next_plan_id (\<lambda>plan_id.
     thn (store_plan plan_id (new_plan merchant token amount interval_seconds usage_enabled lifetime_cap plan_id))
     (thn (publish (PlanEv (Ev_plan_created plan_id merchant token amount interval_seconds usage_enabled (e_timestamp E))))
     (ret plan_id)))"

definition do_create_plan_template :: "env \<Rightarrow> address \<Rightarrow> int \<Rightarrow> nat \<Rightarrow> bool \<Rightarrow> int option \<Rightarrow> nat vm" where
  "do_create_plan_template E merchant amount interval_seconds usage_enabled lifetime_cap =
     thn (require_auth E merchant)
     (thn (lift (validate_subscription_amount amount))
     (thn (lift (validate_interval interval_seconds))
     (thn (positive_cap lifetime_cap)
     (bnd get_token (\<lambda>token.
     add_plan E merchant token amount interval_seconds usage_enabled lifetime_cap)))))"

definition do_create_plan_template_with_token ::
  "env \<Rightarrow> address \<Rightarrow> address \<Rightarrow> int \<Rightarrow> nat \<Rightarrow> bool \<Rightarrow> int option \<Rightarrow> nat vm" where
  "do_create_plan_template_with_token E merchant token amount interval_seconds usage_enabled lifetime_cap =
     thn (require_auth E merchant)
     (thn (lift (validate_subscription_amount amount))
     (thn (lift (validate_interval interval_seconds))
     (bnd (is_token_accepted token) (\<lambda>accepted.
     if \<not> accepted then fail E_InvalidInput
     else
       thn (positive_cap lifetime_cap)
       (add_plan E merchant token amount interval_seconds usage_enabled lifetime_cap)))))"

definition do_update_plan_template :: "env \<Rightarrow> address \<Rightarrow> nat \<Rightarrow> int \<Rightarrow> nat \<Rightarrow> bool \<Rightarrow> int option \<Rightarrow> nat vm" where
  "do_update_plan_template E merchant p amount interval_seconds usage_enabled lifetime_cap =
     thn (require_auth E merchant)
     (thn (lift (validate_subscription_amount amount))
     (thn (lift (validate_interval interval_seconds))
     (thn (positive_cap lifetime_cap)
     (bnd (get_plan_template p) (\<lambda>existing.
     if pl_merchant existing \<noteq> merchant then fail E_Forbidden
     else if usage_enabled \<noteq> pl_usage_enabled existing then fail E_CannotChangeUsageMode
     else
       bnd next_plan_id (\<lambda>new_plan_id.
       bnd (ok_or (checked_add_u32 (pl_version existing) 1) E_Overflow) (\<lambda>new_version.
       let trial = (case pl_trial_period_seconds existing of
              Some t \<Rightarrow> Some t
            | None \<Rightarrow> if pl_trial_seconds existing > 0 then Some (pl_trial_seconds existing) else None);
           updated = \<lparr>pl_merchant = merchant, pl_token = pl_token existing, pl_amount = amount,
              pl_interval_seconds = interval_seconds, pl_trial_seconds = pl_trial_seconds existing,
              pl_trial_period_seconds = trial, pl_usage_enabled = usage_enabled,
              pl_lifetime_cap = lifetime_cap, pl_template_key = pl_template_key existing,
              pl_version = new_version, pl_is_disabled = False\<rparr> in
       thn (store_plan new_plan_id updated)
       (thn (publish (PlanEv (Ev_plan_template_updated (pl_template_key existing) p new_plan_id new_version merchant
              (e_timestamp E))))
       (ret new_plan_id)))))))))"

text \<open>The disabled template is stored under the pair of the symbol \<open>plan\<close> and the id.\<close>

definition do_disable_plan_template :: "env \<Rightarrow> address \<Rightarrow> nat \<Rightarrow> unit vm" where
  "do_disable_plan_template E merchant p =
     thn (require_auth E merchant)
     (bnd (get_plan_template p) (\<lambda>plan.
     if pl_merchant plan \<noteq> merchant then fail E_Forbidden
     else if pl_is_disabled plan then ret ()
     else
       thn (mod_life (\<lambda>l. l\<lparr>lf_plan_pair := (lf_plan_pair l)(p \<mapsto> plan\<lparr>pl_is_disabled := True\<rparr>)\<rparr>))
       (publish (PlanEv (Ev_plan_disabled p merchant (e_timestamp E))))))"

definition get_plan_max_active :: "nat \<Rightarrow> nat vm" where
  "get_plan_max_active p = gets (\<lambda>v. case lf_plan_max_active (v_life v) p of Some n \<Rightarrow> n | None \<Rightarrow> 0)"

definition do_set_plan_max_active_subs :: "env \<Rightarrow> address \<Rightarrow> nat \<Rightarrow> nat \<Rightarrow> unit vm" where
  "do_set_plan_max_active_subs E merchant p max_active =
     thn (require_auth E merchant)
     (bnd (get_plan_template p) (\<lambda>plan.
     if pl_merchant plan \<noteq> merchant then fail E_Forbidden
     else
       thn (mod_life (\<lambda>l. l\<lparr>lf_plan_max_active := (lf_plan_max_active l)(p \<mapsto> max_active)\<rparr>))
       (publish (PlanEv (Ev_plan_max_active_set p merchant max_active (e_timestamp E))))))"

section \<open>Subscriptions of a plan\<close>

primrec plan_count_loop :: "address \<Rightarrow> nat \<Rightarrow> nat list \<Rightarrow> nat \<Rightarrow> nat vm" where
  "plan_count_loop subscriber p [] n = ret n"
| "plan_count_loop subscriber p (i # ids) n =
     bnd (gets (\<lambda>v. lf_sub_plan (v_life v) i)) (\<lambda>maybe_plan_id.
     if maybe_plan_id \<noteq> Some p then plan_count_loop subscriber p ids n
     else
       bnd (gets (\<lambda>v. su_sub (v_subs v) i)) (\<lambda>x.
       plan_count_loop subscriber p ids
         (case x of
            Some sub \<Rightarrow> if s_subscriber sub = subscriber \<and> s_status sub = Active then sat_add_u32 n 1 else n
          | None \<Rightarrow> n)))"

definition count_active_subscriptions_for_plan :: "address \<Rightarrow> nat \<Rightarrow> nat vm" where
  "count_active_subscriptions_for_plan subscriber p =
     bnd read_next_id (\<lambda>next_id.
     if next_id > MAX_WRITE_PATH_SCAN_DEPTH then fail E_InvalidInput
     else plan_count_loop subscriber p [0..<next_id] 0)"

definition enforce_plan_concurrency_limit :: "address \<Rightarrow> nat \<Rightarrow> unit vm" where
  "enforce_plan_concurrency_limit subscriber p =
     bnd (get_plan_max_active p) (\<lambda>max_active.
     if max_active = 0 then ret ()
     else
       bnd (count_active_subscriptions_for_plan subscriber p) (\<lambda>current.
       if current \<ge> max_active then fail E_MaxConcurrentSubscriptionsReached else ret ()))"

definition effective_trial_period_seconds :: "plan_template \<Rightarrow> nat" where
  "effective_trial_period_seconds plan =
     (case pl_trial_period_seconds plan of Some t \<Rightarrow> t | None \<Rightarrow> pl_trial_seconds plan)"

definition plan_subscription :: "env \<Rightarrow> address \<Rightarrow> plan_template \<Rightarrow> int option \<Rightarrow> symbol option \<Rightarrow> subscription" where
  "plan_subscription E subscriber plan cap label = \<lparr>
     s_subscriber = subscriber, s_merchant = pl_merchant plan, s_token = pl_token plan, s_amount = pl_amount plan,
     s_interval_seconds = pl_interval_seconds plan,
     s_last_payment_timestamp = sat_add_u64 (e_timestamp E) (effective_trial_period_seconds plan),
     s_status = Active, s_prepaid_balance = 0, s_usage_enabled = pl_usage_enabled plan, s_lifetime_cap = cap,
     s_lifetime_charged = 0, s_start_time = e_timestamp E, s_expires_at = None, s_grace_start_timestamp = None,
     s_cancel_at = None, s_auto_renew = True, s_auto_renew_disabled_at = None, s_expires_at_ledger = None,
     s_sub_account_label = label, s_proration_enabled = False, s_auto_pause_threshold = 0\<rparr>"

definition do_create_subscription_from_plan :: "env \<Rightarrow> address \<Rightarrow> nat \<Rightarrow> symbol option \<Rightarrow> nat vm" where
  "do_create_subscription_from_plan E subscriber p label =
     thn (require_auth E subscriber)
     (thn (require_not_blocklisted subscriber)
     (thn (enforce_creation_rate_limit E subscriber)
     (bnd (get_plan_template p) (\<lambda>plan.
     thn (lift (validate_subscription_amount (pl_amount plan)))
     (if pl_is_disabled plan then fail E_InvalidInput
      else
        thn (concurrency_gate E subscriber (pl_merchant plan))
        (thn (enforce_credit_limit_for_delta subscriber (pl_token plan) (pl_amount plan))
        (thn (enforce_plan_concurrency_limit subscriber p)
        (bnd read_next_id (\<lambda>i.
        bnd (ok_or (checked_add_u32 i 1) E_Overflow) (\<lambda>next_id.
        thn (write_config cf_next_id_update next_id)
        (bnd (resolve_cap (pl_merchant plan) (pl_lifetime_cap plan)) (\<lambda>resolved_cap.
        let sub = plan_subscription E subscriber plan resolved_cap label in
        thn (write_subscription i sub)
        (thn (increment_subscriber_active_count subscriber)
        (thn (mod_life (\<lambda>l. l\<lparr>lf_sub_plan := (lf_sub_plan l)(i \<mapsto> p)\<rparr>))
        (thn (index_subscription i sub)
        (thn (publish (LifeEv (Ev_subscription_created i subscriber (pl_merchant plan) (pl_token plan)
                (pl_amount plan) (pl_interval_seconds plan) (pl_lifetime_cap plan) None None (e_timestamp E))))
        (ret i)))))))))))))))))"

definition do_migrate_subscription_to_plan :: "env \<Rightarrow> address \<Rightarrow> nat \<Rightarrow> nat \<Rightarrow> unit vm" where
  "do_migrate_subscription_to_plan E subscriber i new_p =
     thn (require_auth E subscriber)
     (thn (require_not_blocklisted subscriber)
     (bnd (get_subscription E i) (\<lambda>sub.
     if s_subscriber sub \<noteq> subscriber then fail E_Forbidden
     else
       bnd (gets (\<lambda>v. lf_sub_plan (v_life v) i)) (\<lambda>x.
       bnd (ok_or x E_InvalidInput) (\<lambda>current_plan_id.
       bnd (get_plan_template current_plan_id) (\<lambda>current_plan.
       bnd (get_plan_template new_p) (\<lambda>target.
       thn (lift (validate_subscription_amount (pl_amount target)))
       (if pl_template_key current_plan \<noteq> pl_template_key target then fail E_InvalidInput
        else if pl_version target \<le> pl_version current_plan then fail E_InvalidInput
        else if pl_token target \<noteq> s_token sub then fail E_InvalidInput
        else if pl_usage_enabled target \<noteq> s_usage_enabled sub then fail E_CannotChangeUsageMode
        else if (case pl_lifetime_cap target of Some cap \<Rightarrow> s_lifetime_charged sub > cap | None \<Rightarrow> False)
        then fail E_LifetimeCapReached
        else
          thn (write_subscription i (sub\<lparr>s_lifetime_cap := pl_lifetime_cap target, s_amount := pl_amount target,
                 s_interval_seconds := pl_interval_seconds target, s_usage_enabled := pl_usage_enabled target\<rparr>))
          (thn (mod_life (\<lambda>l. l\<lparr>lf_sub_plan := (lf_sub_plan l)(i \<mapsto> new_p)\<rparr>))
          (publish (PlanEv (Ev_subscription_migrated i (pl_template_key target) current_plan_id new_p
             (pl_merchant target) subscriber (e_timestamp E)))))))))))))"

section \<open>Runs of template operations\<close>

datatype plan_step =
    P_Create address int nat bool "int option"
  | P_CreateIn address address int nat bool "int option"
  | P_Update address nat int nat bool "int option"
  | P_Disable address nat
  | P_SetMax address nat nat

fun plan_run :: "env \<Rightarrow> plan_step \<Rightarrow> unit vm" where
  "plan_run E (P_Create m a n b c) = thn (do_create_plan_template E m a n b c) (ret ())"
| "plan_run E (P_CreateIn m tk a n b c) = thn (do_create_plan_template_with_token E m tk a n b c) (ret ())"
| "plan_run E (P_Update m p a n b c) = thn (do_update_plan_template E m p a n b c) (ret ())"
| "plan_run E (P_Disable m p) = do_disable_plan_template E m p"
| "plan_run E (P_SetMax m p n) = do_set_plan_max_active_subs E m p n"

definition run_plan_steps :: "(env \<times> plan_step) list \<Rightarrow> vault \<Rightarrow> vault" where
  "run_plan_steps ops s = fold (\<lambda>(E, op) v. snd (tx (plan_run E op) v)) ops s"

definition plan_next :: "vault \<Rightarrow> nat" where
  "plan_next s = (case lf_next_plan_id (v_life s) of Some n \<Rightarrow> n | None \<Rightarrow> 0)"

definition plans_fresh :: "vault \<Rightarrow> bool" where
  "plans_fresh s \<longleftrightarrow> (\<forall>p x. lf_plan (v_life s) p = Some x \<longrightarrow> p < plan_next s)"

text \<open>A successful operation leaves all templates alone or adds one, not disabled, under the next id.\<close>

definition plan_added :: "vault \<Rightarrow> vault \<Rightarrow> bool" where
  "plan_added s t \<longleftrightarrow>
     lf_plan (v_life t) = lf_plan (v_life s) \<and> plan_next t = plan_next s \<or>
     (\<exists>x. lf_plan (v_life t) = (lf_plan (v_life s))(plan_next s \<mapsto> x) \<and> \<not> pl_is_disabled x \<and>
        (plan_next s < u32_max \<longrightarrow> plan_next t = Suc (plan_next s)))"

lemma next_plan_id_ok [act_ok]:
  "next_plan_id s = (Ok i, t) \<longleftrightarrow> i = plan_next s \<and>
     t = s\<lparr>v_life := (v_life s)\<lparr>lf_next_plan_id :=
       Some (case checked_add_u32 (plan_next s) 1 of Some n \<Rightarrow> n | None \<Rightarrow> plan_next s)\<rparr>\<rparr>"
  by (auto simp: next_plan_id_def plan_next_def [symmetric] Let_def mod_life_def act_ok)

lemma get_plan_template_ok [act_ok]:
  "get_plan_template p s = (Ok x, t) \<longleftrightarrow> lf_plan (v_life s) p = Some x \<and> t = s"
  by (auto simp: get_plan_template_def act_ok)

lemma positive_cap_same: "positive_cap c s = (Ok u, t) \<Longrightarrow> t = s"
  by (auto simp: positive_cap_def act_ok split: option.split_asm if_split_asm)

lemma add_plan_added: "add_plan E m tk a n b c s = (Ok i, t) \<Longrightarrow> plan_added s t"
  by (auto simp: add_plan_def act_ok store_plan_def mod_life_def new_plan_def plan_added_def plan_next_def
      checked_add_u32_def split: option.splits)

lemma create_plan_added: "do_create_plan_template E m a n b c s = (Ok i, t) \<Longrightarrow> plan_added s t"
  by (auto simp: do_create_plan_template_def act_ok get_token_def dest!: positive_cap_same add_plan_added)

lemma create_in_plan_added: "do_create_plan_template_with_token E m tk a n b c s = (Ok i, t) \<Longrightarrow> plan_added s t"
  by (auto simp: do_create_plan_template_with_token_def act_ok split: if_split_asm
      dest!: positive_cap_same add_plan_added)

lemma update_plan_added: "do_update_plan_template E m p a n b c s = (Ok i, t) \<Longrightarrow> plan_added s t"
  by (auto simp: do_update_plan_template_def Let_def act_ok store_plan_def mod_life_def plan_added_def plan_next_def
      checked_add_u32_def split: if_split_asm dest!: positive_cap_same)

lemma disable_plan_added: "do_disable_plan_template E m p s = (Ok i, t) \<Longrightarrow> plan_added s t"
  by (auto simp: do_disable_plan_template_def act_ok mod_life_def plan_added_def plan_next_def split: if_split_asm)

lemma max_plan_added: "do_set_plan_max_active_subs E m p n s = (Ok i, t) \<Longrightarrow> plan_added s t"
  by (auto simp: do_set_plan_max_active_subs_def act_ok mod_life_def plan_added_def plan_next_def split: if_split_asm)

lemma plan_run_added: "plan_run E op s = (Ok (), t) \<Longrightarrow> plan_added s t"
  by (cases op) (auto simp: thn_ok basic_ok
      dest: create_plan_added create_in_plan_added update_plan_added disable_plan_added max_plan_added)

lemma plan_added_fresh:
  assumes "plan_added s t" and "plans_fresh s" and "plan_next s < u32_max"
  shows "plans_fresh t \<and> plan_next t \<le> Suc (plan_next s) \<and>
    (lf_plan (v_life s) p = Some x \<longrightarrow> lf_plan (v_life t) p = Some x) \<and>
    (lf_plan (v_life t) p = Some y \<longrightarrow> lf_plan (v_life s) p = Some y \<or> \<not> pl_is_disabled y)"
  using assms unfolding plan_added_def plans_fresh_def by (auto simp: less_Suc_eq split: if_split_asm)

lemma tx_plan_fresh:
  assumes "plans_fresh s" and "plan_next s < u32_max"
  shows "plans_fresh (snd (tx (plan_run E op) s)) \<and> plan_next (snd (tx (plan_run E op) s)) \<le> Suc (plan_next s) \<and>
    (lf_plan (v_life s) p = Some x \<longrightarrow> lf_plan (v_life (snd (tx (plan_run E op) s))) p = Some x) \<and>
    (lf_plan (v_life (snd (tx (plan_run E op) s))) p = Some y \<longrightarrow> lf_plan (v_life s) p = Some y \<or> \<not> pl_is_disabled y)"
proof (cases "plan_run E op s")
  case (Pair r t)
  then show ?thesis
    using plan_added_fresh [of s t p x y] plan_run_added [of E op s t] assms by (cases r) (simp_all add: tx_def)
qed

text \<open>
  Plan templates never change, and none is ever disabled. Through any sequence of creating,
  updating and disabling templates and setting their limits (as long as the ids are not used up), a
  stored template stays exactly as it is under its id, and every template added is not disabled: the
  disabled copy is stored under another key than the one that is read.
\<close>

theorem plans_never_disabled:
  assumes "plans_fresh s" and "plan_next s + length ops \<le> u32_max"
  shows "(lf_plan (v_life s) p = Some x \<longrightarrow> lf_plan (v_life (run_plan_steps ops s)) p = Some x) \<and>
    (lf_plan (v_life (run_plan_steps ops s)) p = Some y \<longrightarrow> lf_plan (v_life s) p = Some y \<or> \<not> pl_is_disabled y)"
  using assms
proof (induction ops arbitrary: s)
  case (Cons op ops)
  obtain E st where op: "op = (E, st)" by (cases op)
  have "run_plan_steps (op # ops) s = run_plan_steps ops (snd (tx (plan_run E st) s))"
    by (simp add: run_plan_steps_def op)
  with Cons.IH [of "snd (tx (plan_run E st) s)"] Cons.prems tx_plan_fresh [of s E st p x y]
  show ?case by auto
qed (simp add: run_plan_steps_def)

definition shop_plan :: plan_template where
  "shop_plan = new_plan (Addr 5) (Addr 9) 1000 3600 False None 0"

definition plan_vault :: vault where
  "plan_vault = fund_vault\<lparr>v_life := (v_life fund_vault)\<lparr>lf_plan := [0 \<mapsto> shop_plan], lf_next_plan_id := Some 1\<rparr>\<rparr>"

lemma plan_vault_sel [simp]:
  "lf_plan (v_life plan_vault) = [0 \<mapsto> shop_plan]" "plan_next plan_vault = 1" "pl_merchant shop_plan = Addr 5"
  "\<not> pl_is_disabled shop_plan"
  by (simp_all add: plan_vault_def plan_next_def shop_plan_def new_plan_def)

theorem plans_never_disabled_witness:
  "fst (plan_run fund_env (P_Disable (Addr 5) 0) plan_vault) = Ok () \<and>
   lf_plan (v_life (run_plan_steps [(fund_env, P_Disable (Addr 5) 0)] plan_vault)) 0 = Some shop_plan"
proof -
  have "plans_fresh plan_vault" by (simp add: plans_fresh_def)
  from plans_never_disabled [OF this, of "[(fund_env, P_Disable (Addr 5) 0)]" 0 shop_plan shop_plan]
  show ?thesis
    by (simp add: u32_max_def do_disable_plan_template_def get_plan_template_def mod_life_def publish_def act_run)
qed

section \<open>Migration\<close>

text \<open>
  C33. A migration is guarded and changes only the terms. When a subscription is moved to a plan, the subscriber authorised it, is not on the blocklist and
  owns the subscription, which came from a plan; the target is a newer version of the same template
  family, in the same token and usage mode, its amount is a valid one, and its cap is not below what
  was charged so far. Afterwards amount, interval and cap are those of the target, and every other field of the subscription is what it was, but for
  the status, which becomes out of funds if the grace period had run out. Apart from this one record the link to the plan and one event are
  all that changes in the whole vault.
\<close>

theorem migration_guards:
  assumes "do_migrate_subscription_to_plan E a i p s = (Ok (), t)"
  shows "\<exists>x cur old target. su_sub (v_subs s) i = Some x \<and> e_auth E a \<and> a = s_subscriber x \<and> v_blocklist s a = None \<and>
    lf_sub_plan (v_life s) i = Some cur \<and> lf_plan (v_life s) cur = Some old \<and> lf_plan (v_life s) p = Some target \<and>
    pl_template_key target = pl_template_key old \<and> pl_version old < pl_version target \<and>
    pl_token target = s_token x \<and> pl_usage_enabled target = s_usage_enabled x \<and>
    validate_subscription_amount (pl_amount target) = Ok () \<and>
    (\<forall>cap. pl_lifetime_cap target = Some cap \<longrightarrow> s_lifetime_charged x \<le> cap) \<and>
    t = s\<lparr>
      v_subs := (v_subs s)\<lparr>su_sub := (su_sub (v_subs s))(i \<mapsto> x\<lparr>s_amount := pl_amount target,
        s_interval_seconds := pl_interval_seconds target, s_lifetime_cap := pl_lifetime_cap target,
        s_status := (if grace_over E s x then InsufficientBalance else s_status x)\<rparr>)\<rparr>,
      v_life := (v_life s)\<lparr>lf_sub_plan := (lf_sub_plan (v_life s))(i \<mapsto> p)\<rparr>,
      v_events := v_events s @ [PlanEv (Ev_subscription_migrated i (pl_template_key target) cur p (pl_merchant target) a (e_timestamp E))]\<rparr>"
proof -
  from assms obtain x cur old target where x: "su_sub (v_subs s) i = Some x" "e_auth E a" "a = s_subscriber x" "v_blocklist s a = None"
      "lf_sub_plan (v_life s) i = Some cur" "lf_plan (v_life s) cur = Some old" "lf_plan (v_life s) p = Some target"
      "pl_template_key target = pl_template_key old" "pl_version old < pl_version target"
      "pl_token target = s_token x" and usage: "pl_usage_enabled target = s_usage_enabled x" and more:
      "validate_subscription_amount (pl_amount target) = Ok ()"
      "\<forall>cap. pl_lifetime_cap target = Some cap \<longrightarrow> s_lifetime_charged x \<le> cap"
    and t: "t = s\<lparr>
      v_subs := (v_subs s)\<lparr>su_sub := (su_sub (v_subs s))(i \<mapsto> (effective E s x)\<lparr>s_lifetime_cap := pl_lifetime_cap target,
        s_amount := pl_amount target, s_interval_seconds := pl_interval_seconds target, s_usage_enabled := pl_usage_enabled target\<rparr>)\<rparr>,
      v_life := (v_life s)\<lparr>lf_sub_plan := (lf_sub_plan (v_life s))(i \<mapsto> p)\<rparr>,
      v_events := v_events s @ [PlanEv (Ev_subscription_migrated i (pl_template_key target) cur p (pl_merchant target) a (e_timestamp E))]\<rparr>"
    unfolding do_migrate_subscription_to_plan_def
    by (auto simp: act_ok gates_ok mod_life_def is_blocklisted_def split: if_split_asm option.split_asm)
  have "(effective E s x)\<lparr>s_lifetime_cap := pl_lifetime_cap target, s_amount := pl_amount target,
        s_interval_seconds := pl_interval_seconds target, s_usage_enabled := pl_usage_enabled target\<rparr> =
      x\<lparr>s_amount := pl_amount target, s_interval_seconds := pl_interval_seconds target, s_lifetime_cap := pl_lifetime_cap target,
        s_status := (if grace_over E s x then InsufficientBalance else s_status x)\<rparr>"
    by (simp add: effective_def usage)
  with x usage more t show ?thesis
    by (intro exI [of _ x] exI [of _ cur] exI [of _ old] exI [of _ target]) simp
qed

definition shop_plan2 :: plan_template where
  "shop_plan2 = shop_plan\<lparr>pl_amount := 2000, pl_version := 2\<rparr>"

definition migrating_vault :: vault where
  "migrating_vault = fund_vault\<lparr>v_life := (v_life fund_vault)\<lparr>lf_plan := [0 \<mapsto> shop_plan, 1 \<mapsto> shop_plan2],
     lf_sub_plan := [7 \<mapsto> 0]\<rparr>\<rparr>"

theorem migration_guards_witness:
  "\<exists>t sub. do_migrate_subscription_to_plan fund_env (Addr 2) 7 1 migrating_vault = (Ok (), t) \<and>
     su_sub (v_subs t) 7 = Some sub \<and> s_amount sub = 2000 \<and> v_ledger t = v_ledger migrating_vault"
proof -
  have "\<exists>t. do_migrate_subscription_to_plan fund_env (Addr 2) 7 1 migrating_vault = (Ok (), t)"
    by (simp add: do_migrate_subscription_to_plan_def act_ok gates_ok mod_life_def migrating_vault_def shop_plan2_def
        shop_plan_def new_plan_def validate_subscription_amount_def stored_sub_def MAX_SUBSCRIPTION_AMOUNT_def
        tdiv_nonneg i128_max_def MAX_FEE_BIPS_def is_blocklisted_def fund_vault_def empty_vault_def)
  then obtain t where run: "do_migrate_subscription_to_plan fund_env (Addr 2) 7 1 migrating_vault = (Ok (), t)" ..
  have "lf_plan (v_life migrating_vault) 1 = Some shop_plan2" "pl_amount shop_plan2 = 2000"
    by (simp_all add: migrating_vault_def shop_plan2_def)
  with migration_guards [OF run] run show ?thesis by auto
qed

end
