(* ===== verification/Transfers.thy ===== *)
theory Transfers
  imports Subscription_Claims
begin

text \<open>
  Usage limits and transfers of ownership (\<^verbatim>\<open>src/subscription.rs\<close>): the subscriber names a new owner,
  the new owner accepts in time, the merchant may veto in between.
\<close>

section \<open>Usage limits\<close>

definition may_limit_usage :: "env \<Rightarrow> address \<Rightarrow> nat \<Rightarrow> unit vm" where
  "may_limit_usage E merchant i =
     bnd (attempt (get_subscription E i)) (\<lambda>r.
     case r of
       Inr sub \<Rightarrow>
         if s_merchant sub \<noteq> merchant then fail E_Forbidden
         else if \<not> s_usage_enabled sub then fail E_UsageNotEnabled
         else ret ()
     | Inl e \<Rightarrow>
         bnd read_next_id (\<lambda>next_id.
         if i \<noteq> next_id then fail E_NotFound else ret ()))"

definition do_configure_usage_limits ::
  "env \<Rightarrow> address \<Rightarrow> nat \<Rightarrow> nat option \<Rightarrow> nat \<Rightarrow> nat \<Rightarrow> int option \<Rightarrow> unit vm" where
  "do_configure_usage_limits E merchant i max_calls window_secs burst_secs cap_units =
     thn (require_auth E merchant)
     (thn (may_limit_usage E merchant i)
     (thn (positive_cap cap_units)
     (let limits = \<lparr>ul_merchant = merchant, ul_rate_limit_max_calls = max_calls, ul_rate_window_secs = window_secs,
            ul_burst_min_interval_secs = burst_secs, ul_usage_cap_units = cap_units\<rparr> in
      thn (mod_charge (\<lambda>c. c\<lparr>ch_usage_limits := (ch_usage_limits c)(i \<mapsto> limits)\<rparr>))
      (publish (PlanEv (Ev_usage_limits_configured i limits (e_timestamp E)))))))"

section \<open>Transfer of ownership\<close>

definition do_initiate_transfer :: "env \<Rightarrow> nat \<Rightarrow> address \<Rightarrow> address \<Rightarrow> nat \<Rightarrow> unit vm" where
  "do_initiate_transfer E i from to expires_at =
     thn (require_auth E from)
     (bnd (get_subscription E i) (\<lambda>sub.
     if s_subscriber sub \<noteq> from then fail E_Unauthorized
     else if s_status sub = Cancelled then fail E_InvalidStatusTransition
     else
       thn (reject_expired E i sub)
       (if expires_at \<le> e_timestamp E then fail E_InvalidInput
        else if from = to then fail E_InvalidTransferTarget
        else
          thn (mod_life (\<lambda>l. l\<lparr>lf_transfer_intent := (lf_transfer_intent l)(i \<mapsto>
                 \<lparr>ti_subscription_id = i, ti_from = from, ti_to = to, ti_expires_at = expires_at\<rparr>)\<rparr>))
          (publish (PlanEv (Ev_transfer_intent_created i from to expires_at (e_timestamp E)))))))"

definition drop_intent :: "nat \<Rightarrow> unit vm" where
  "drop_intent i = mod_life (\<lambda>l. l\<lparr>lf_transfer_intent := (lf_transfer_intent l)(i := None)\<rparr>)"

definition counts_toward_active_cap :: "subscription \<Rightarrow> bool" where
  "counts_toward_active_cap sub \<longleftrightarrow>
     s_status sub = Active \<or> s_status sub = GracePeriod \<or> s_status sub = InsufficientBalance"

definition active_cap_gate :: "env \<Rightarrow> address \<Rightarrow> unit vm" where
  "active_cap_gate E to =
     bnd (get_subscriber_active_count to) (\<lambda>n.
     bnd (get_subscriber_active_cap to) (\<lambda>cap.
     if n \<ge> cap then
       thn (publish (LifeEv (Ev_subscriber_cap_reached to n cap (e_timestamp E))))
       (fail E_MaxConcurrentSubscriptionsReached)
     else ret ()))"

definition move_in_index :: "nat \<Rightarrow> address \<Rightarrow> address \<Rightarrow> unit vm" where
  "move_in_index i old to =
     thn (mod_subs (\<lambda>u. u\<lparr>su_subscriber_subs := (su_subscriber_subs u)(old := drop_id i (su_subscriber_subs u old))\<rparr>))
     (mod_subs (\<lambda>u. u\<lparr>su_subscriber_subs :=
        (su_subscriber_subs u)(to \<mapsto> id_list (su_subscriber_subs u to) @ [i])\<rparr>))"

definition hand_over :: "env \<Rightarrow> nat \<Rightarrow> address \<Rightarrow> address \<Rightarrow> subscription \<Rightarrow> unit vm" where
  "hand_over E i from to sub =
     thn (move_in_index i (s_subscriber sub) to)
     (thn (if counts_toward_active_cap sub
           then thn (decrement_subscriber_active_count (s_subscriber sub)) (increment_subscriber_active_count to)
           else ret ())
     (thn (write_subscription i (sub\<lparr>s_subscriber := to\<rparr>))
     (publish (PlanEv (Ev_subscription_transferred i from to (e_timestamp E))))))"

definition complete_transfer :: "env \<Rightarrow> nat \<Rightarrow> address \<Rightarrow> transfer_intent \<Rightarrow> unit vm" where
  "complete_transfer E i to intent =
     bnd (get_subscription E i) (\<lambda>sub.
     thn (drop_intent i)
     (bnd (lift (safe_add (s_prepaid_balance sub) (if s_status sub = Active then s_amount sub else 0))) (\<lambda>liability.
     thn (enforce_credit_limit_for_delta to (s_token sub) liability)
     (thn (if counts_toward_active_cap sub then active_cap_gate E to else ret ())
     (hand_over E i (ti_from intent) to sub)))))"

definition do_accept_transfer :: "env \<Rightarrow> nat \<Rightarrow> address \<Rightarrow> unit vm" where
  "do_accept_transfer E i to =
     thn (require_auth E to)
     (bnd (gets (\<lambda>v. lf_transfer_intent (v_life v) i)) (\<lambda>x.
     bnd (ok_or x E_TransferIntentNotFound) (\<lambda>intent.
     if ti_to intent \<noteq> to then fail E_Unauthorized
     else if ti_expires_at intent \<le> e_timestamp E then thn (drop_intent i) (fail E_TransferIntentExpired)
     else complete_transfer E i to intent)))"

definition do_veto_transfer :: "env \<Rightarrow> nat \<Rightarrow> address \<Rightarrow> unit vm" where
  "do_veto_transfer E i merchant =
     thn (require_auth E merchant)
     (bnd (get_subscription E i) (\<lambda>sub.
     if s_merchant sub \<noteq> merchant then fail E_Unauthorized
     else
       bnd (gets (\<lambda>v. lf_transfer_intent (v_life v) i)) (\<lambda>x.
       if x = None then fail E_TransferIntentNotFound
       else
         thn (drop_intent i)
         (publish (PlanEv (Ev_transfer_vetoed i merchant (e_timestamp E)))))))"

definition write_split_payees :: "nat \<Rightarrow> (address \<times> nat) list \<Rightarrow> unit vm" where
  "write_split_payees i entries = mod_subs (\<lambda>u. u\<lparr>su_split_payees := (su_split_payees u)(i \<mapsto> entries)\<rparr>)"

section \<open>What an accepted transfer does\<close>

lemma drop_intent_ok [act_ok]:
  "drop_intent i s = (Ok u, t) \<longleftrightarrow>
     t = s\<lparr>v_life := (v_life s)\<lparr>lf_transfer_intent := (lf_transfer_intent (v_life s))(i := None)\<rparr>\<rparr>"
  by (simp add: drop_intent_def act_ok)

lemma active_cap_gate_ok [act_ok]:
  "active_cap_gate E a s = (Ok u, t) \<longleftrightarrow> active_count s a < active_cap s a \<and> t = s"
  by (auto simp: active_cap_gate_def act_ok)

lemma move_in_index_ok [act_ok]:
  "move_in_index i old to s = (Ok u, t) \<longleftrightarrow>
     (let m = (su_subscriber_subs (v_subs s))(old := drop_id i (su_subscriber_subs (v_subs s) old)) in
      t = s\<lparr>v_subs := (v_subs s)\<lparr>su_subscriber_subs := m(to \<mapsto> id_list (m to) @ [i])\<rparr>\<rparr>)"
  by (simp add: move_in_index_def act_ok Let_def)

lemma accept_transfer_effect:
  assumes "do_accept_transfer E i to s = (Ok (), t)"
  obtains x it where "su_sub (v_subs s) i = Some x" "lf_transfer_intent (v_life s) i = Some it" "ti_to it = to"
    "e_auth E to" "e_timestamp E < ti_expires_at it"
    "lf_transfer_intent (v_life t) = (lf_transfer_intent (v_life s))(i := None)"
    "su_sub (v_subs t) = (su_sub (v_subs s))(i \<mapsto> (effective E s x)\<lparr>s_subscriber := to\<rparr>)"
    "v_ledger t = v_ledger s" "v_merchant t = v_merchant s"
proof -
  let ?s = "s\<lparr>v_life := (v_life s)\<lparr>lf_transfer_intent := (lf_transfer_intent (v_life s))(i := None)\<rparr>\<rparr>"
  from assms obtain it where it: "lf_transfer_intent (v_life s) i = Some it" "ti_to it = to" "e_auth E to"
      "e_timestamp E < ti_expires_at it" and rest: "complete_transfer E i to it s = (Ok (), t)"
    by (auto simp: do_accept_transfer_def act_ok split: if_split_asm)
  from rest obtain x u v n w w' where x: "su_sub (v_subs s) i = Some x"
    and u: "enforce_credit_limit_for_delta to (s_token (effective E s x)) n ?s = (Ok w, u)"
    and v: "(if counts_toward_active_cap (effective E s x) then active_cap_gate E to else ret ()) u = (Ok w', v)"
    and handed: "hand_over E i (ti_from it) to (effective E s x) v = (Ok (), t)"
    unfolding complete_transfer_def thn_ok bnd_ok basic_ok get_subscription_ok drop_intent_ok
    by (elim exE conjE) (hypsubst, rule that, assumption+)
  from enforce_credit_limit_ok [OF u]
  have "u = s\<lparr>v_life := (v_life s)\<lparr>lf_transfer_intent := (lf_transfer_intent (v_life s))(i := None)\<rparr>\<rparr>" ..
  moreover from v have "v = u" by (simp add: act_ok split: if_split_asm)
  ultimately show thesis
    by (intro that [OF x it(1,2,3,4)]) (use handed in \<open>auto simp: hand_over_def act_ok Let_def split: if_split_asm\<close>)
qed

lemma initiate_effect:
  assumes "do_initiate_transfer E i from to n s = (Ok (), t)"
  shows "\<exists>x. su_sub (v_subs s) i = Some x \<and> s_subscriber x = from \<and> e_auth E from \<and> v_subs t = v_subs s \<and>
    lf_transfer_intent (v_life t) = (lf_transfer_intent (v_life s))(i \<mapsto>
      \<lparr>ti_subscription_id = i, ti_from = from, ti_to = to, ti_expires_at = n\<rparr>)"
  using assms by (auto simp: do_initiate_transfer_def act_ok split: if_split_asm)

end
