(* ===== verification/Usage_Charge.thy ===== *)
theory Usage_Charge
  imports Charge_Invariant Subscription_Custody
begin

text \<open>
  Charging metered usage (\<^verbatim>\<open>src/charge_core.rs::charge_usage_one\<close>): the gates, the merchant's limits on
  calls and units, and settlement. A refused charge that is not an error is a result other than
  \<open>Charged\<close>; stages that may end the charge so return it as \<open>Some r\<close>.
\<close>

section \<open>Gates\<close>

definition usage_cap_used_up :: "nat \<Rightarrow> nat \<Rightarrow> int \<Rightarrow> subscription \<Rightarrow> unit vm" where
  "usage_cap_used_up i now usage_amount sub =
     (case s_lifetime_cap sub of
        None \<Rightarrow> ret ()
      | Some cap \<Rightarrow>
          if lifetime_cap_reached cap (s_lifetime_charged sub) then
            thn (if s_status sub \<noteq> Cancelled then
                   bnd (lift (transition_to (s_status sub) Cancelled)) (\<lambda>st.
                   thn (write_subscription i (sub\<lparr>s_status := st\<rparr>))
                   (publish (ChargeEv (Ev_lifetime_cap_reached i cap (s_lifetime_charged sub) now))))
                 else ret ())
            (charge_fail i E_LifetimeCapReached usage_amount now)
          else ret ())"

definition usage_renewal_gate :: "nat \<Rightarrow> nat \<Rightarrow> int \<Rightarrow> subscription \<Rightarrow> unit vm" where
  "usage_renewal_gate i now usage_amount sub =
     (if \<not> s_auto_renew sub then
        bnd (lift (next_charge_time (s_last_payment_timestamp sub) (s_interval_seconds sub))) (\<lambda>next_allowed.
        if now \<ge> next_allowed then charge_fail i E_NotActive usage_amount now else ret ())
      else ret ())"

definition usage_gates :: "env \<Rightarrow> nat \<Rightarrow> nat \<Rightarrow> int \<Rightarrow> subscription \<Rightarrow> unit vm" where
  "usage_gates E i now usage_amount sub =
     thn (expiry_gate E i now sub)
     (thn (usage_cap_used_up i now usage_amount sub)
     (if s_status sub \<noteq> Active then charge_fail i E_NotActive usage_amount now
      else if \<not> s_usage_enabled sub then charge_fail i E_UsageNotEnabled usage_amount now
      else
        thn (usage_renewal_gate i now usage_amount sub)
        (if usage_amount \<le> 0 then charge_fail i E_InvalidAmount usage_amount now else ret ())))"

definition reject_usage ::
  "nat \<Rightarrow> nat \<Rightarrow> int \<Rightarrow> bytes \<Rightarrow> usage_charge_result \<Rightarrow> (usage_charge_result option) vm" where
  "reject_usage i now usage_amount reference r =
     thn (publish (ChargeEv (Ev_usage_charge_rejected i usage_amount reference r now)))
     (ret (Some r))"

section \<open>Limits on calls and units\<close>

definition usage_period :: "nat \<Rightarrow> subscription \<Rightarrow> nat" where
  "usage_period now sub = (now - s_start_time sub) div s_interval_seconds sub"

text \<open>
  The stored state, or a fresh one; the fresh one is computed in any case, so a zero interval panics.
\<close>

definition usage_state_of :: "nat \<Rightarrow> nat \<Rightarrow> subscription \<Rightarrow> usage_state vm" where
  "usage_state_of i now sub =
     (if s_interval_seconds sub = 0 then panic
      else
        gets (\<lambda>v. case ch_usage_state (v_charge v) i of
            Some st \<Rightarrow> st
          | None \<Rightarrow> \<lparr>us_last_usage_timestamp = 0, us_window_start_timestamp = now, us_window_call_count = 0,
              us_current_period_usage_units = 0, us_period_index = usage_period now sub\<rparr>))"

definition burst_exceeded :: "usage_limits \<Rightarrow> nat \<Rightarrow> usage_state \<Rightarrow> bool" where
  "burst_exceeded limits now st \<longleftrightarrow>
     ul_burst_min_interval_secs limits > 0 \<and> now - us_last_usage_timestamp st < ul_burst_min_interval_secs limits"

definition open_rate_window :: "usage_limits \<Rightarrow> nat \<Rightarrow> usage_state \<Rightarrow> usage_state" where
  "open_rate_window limits now st =
     (if ul_rate_limit_max_calls limits \<noteq> None \<and>
         now \<ge> sat_add_u64 (us_window_start_timestamp st) (ul_rate_window_secs limits)
      then st\<lparr>us_window_start_timestamp := now, us_window_call_count := 0\<rparr> else st)"

definition rate_exceeded :: "usage_limits \<Rightarrow> usage_state \<Rightarrow> bool" where
  "rate_exceeded limits st \<longleftrightarrow>
     (case ul_rate_limit_max_calls limits of Some max_calls \<Rightarrow> us_window_call_count st \<ge> max_calls | None \<Rightarrow> False)"

definition store_usage_state :: "nat \<Rightarrow> usage_state \<Rightarrow> unit vm" where
  "store_usage_state i st = mod_charge (\<lambda>c. c\<lparr>ch_usage_state := (ch_usage_state c)(i \<mapsto> st)\<rparr>)"

text \<open>With a cap on units a new billing period starts from zero, and is stored at once.\<close>

definition roll_usage_period :: "nat \<Rightarrow> nat \<Rightarrow> subscription \<Rightarrow> usage_limits \<Rightarrow> usage_state \<Rightarrow> usage_state vm" where
  "roll_usage_period i now sub limits st =
     (case ul_usage_cap_units limits of
        None \<Rightarrow> ret st
      | Some cap_units \<Rightarrow>
          let current_period = usage_period now sub in
          if current_period > us_period_index st then
            let st' = st\<lparr>us_period_index := current_period, us_current_period_usage_units := 0\<rparr> in
            thn (store_usage_state i st')
            (thn (publish (ChargeEv (Ev_usage_cap_reset i (us_period_index st) current_period
                    (us_current_period_usage_units st) cap_units now)))
            (ret st'))
          else ret st)"

definition units_exceeded :: "usage_limits \<Rightarrow> usage_state \<Rightarrow> int \<Rightarrow> bool" where
  "units_exceeded limits st usage_amount \<longleftrightarrow>
     (case ul_usage_cap_units limits of
        Some cap_units \<Rightarrow> sat_i128 (us_current_period_usage_units st + usage_amount) > cap_units
      | None \<Rightarrow> False)"

definition count_usage :: "nat \<Rightarrow> int \<Rightarrow> usage_state \<Rightarrow> usage_state" where
  "count_usage now usage_amount st = st\<lparr>us_last_usage_timestamp := now,
     us_window_call_count := sat_add_u32 (us_window_call_count st) 1,
     us_current_period_usage_units := sat_i128 (us_current_period_usage_units st + usage_amount)\<rparr>"

definition apply_usage_limits ::
  "nat \<Rightarrow> nat \<Rightarrow> int \<Rightarrow> bytes \<Rightarrow> subscription \<Rightarrow> usage_limits \<Rightarrow> usage_state \<Rightarrow> (usage_charge_result option) vm" where
  "apply_usage_limits i now usage_amount reference sub limits st0 =
     (if burst_exceeded limits now st0 then reject_usage i now usage_amount reference UCR_BurstLimitExceeded
      else
        let st1 = open_rate_window limits now st0 in
        if rate_exceeded limits st1 then reject_usage i now usage_amount reference UCR_RateLimitExceeded
        else
          bnd (roll_usage_period i now sub limits st1) (\<lambda>st2.
          if units_exceeded limits st2 usage_amount then reject_usage i now usage_amount reference UCR_UsageCapExceeded
          else
            thn (store_usage_state i (count_usage now usage_amount st2))
            (ret None)))"

definition usage_limits_stage ::
  "nat \<Rightarrow> nat \<Rightarrow> int \<Rightarrow> bytes \<Rightarrow> subscription \<Rightarrow> (usage_charge_result option) vm" where
  "usage_limits_stage i now usage_amount reference sub =
     bnd (gets (\<lambda>v. ch_usage_limits (v_charge v) i)) (\<lambda>maybe_limits.
     case maybe_limits of
       None \<Rightarrow> ret None
     | Some limits \<Rightarrow>
         bnd (usage_state_of i now sub) (\<lambda>st0.
         apply_usage_limits i now usage_amount reference sub limits st0))"

text \<open>What may refuse the charge without an error.\<close>

definition usage_refusals ::
  "nat \<Rightarrow> nat \<Rightarrow> int \<Rightarrow> bytes \<Rightarrow> subscription \<Rightarrow> (usage_charge_result option) vm" where
  "usage_refusals i now usage_amount reference sub =
     bnd (gets (\<lambda>v. case m_usage_cap_override (v_merchant v) (s_merchant sub) of Some b \<Rightarrow> b | None \<Rightarrow> False))
     (\<lambda>usage_cap_override.
     if \<not> usage_cap_override \<and> usage_amount > s_amount sub
     then reject_usage i now usage_amount reference UCR_UsageCapExceeded
     else if s_prepaid_balance sub < usage_amount then charge_fail i E_InsufficientPrepaidBalance usage_amount now
     else
       bnd (gets (\<lambda>v. ch_usage_ref (v_charge v) i reference)) (\<lambda>used.
       if used then reject_usage i now usage_amount reference UCR_Replay
       else usage_limits_stage i now usage_amount reference sub))"

section \<open>Settlement\<close>

text \<open>\<open>pending\<close> is the lifetime total with the charge; the new status follows from it and the balance.\<close>

definition used_subscription :: "int \<Rightarrow> subscription \<Rightarrow> (subscription \<times> bool) vm" where
  "used_subscription pending sub0 =
     (let sub1 = sub0\<lparr>s_lifetime_charged := pending\<rparr>; cap_reached = cap_now_reached sub1 in
     bnd (if cap_reached then
            bnd (lift (transition_to (s_status sub1) Cancelled)) (\<lambda>st. ret (sub1\<lparr>s_status := st\<rparr>))
          else if s_prepaid_balance sub1 = 0 then
            bnd (lift (transition_to (s_status sub1) InsufficientBalance)) (\<lambda>st. ret (sub1\<lparr>s_status := st\<rparr>))
          else ret sub1) (\<lambda>sub2.
     ret (sub2, cap_reached)))"

definition usage_period_start :: "nat \<Rightarrow> subscription \<Rightarrow> nat vm" where
  "usage_period_start now sub =
     (if s_interval_seconds sub = 0 then panic
      else
        bnd (ok_or (checked_mul_u64 (usage_period now sub) (s_interval_seconds sub)) E_Overflow) (\<lambda>offset.
        ok_or (checked_add_u64 (s_start_time sub) offset) E_Overflow))"

definition record_usage ::
  "nat \<Rightarrow> nat \<Rightarrow> int \<Rightarrow> bytes \<Rightarrow> (address \<times> int \<times> fee_conversion) option \<Rightarrow> subscription \<times> bool \<Rightarrow>
   usage_charge_result vm" where
  "record_usage i now usage_amount reference should_emit settled =
     (case settled of (sub, cap_reached) \<Rightarrow>
     thn (write_subscription i sub)
     (thn (publish_fee i now should_emit)
     (thn (mod_charge (\<lambda>c. c\<lparr>ch_usage_ref := (ch_usage_ref c)(i := (ch_usage_ref c i)(reference := True))\<rparr>))
     (bnd (usage_period_start now sub) (\<lambda>period_start.
     thn (zoom v_snap v_snap_update
            (write_period_snapshot \<lparr>ps_subscription_id = i, ps_period_index = usage_period now sub,
               ps_period_start = period_start, ps_period_end = now, ps_total_charged = usage_amount,
               ps_total_usage_units = usage_amount, ps_status_flags = SNAPSHOT_FLAG_USAGE_CHARGED,
               ps_finalized_at = now\<rparr>))
     (thn (zoom v_stmt v_stmt_update
            (append_statement i usage_amount (s_merchant sub) (s_token sub) Usage now now))
     (thn (publish (ChargeEv (Ev_usage_charged i usage_amount reference now)))
     (thn (publish_cap_reached i now sub cap_reached)
     (ret UCR_Charged)))))))))"

definition settle_usage ::
  "env \<Rightarrow> nat \<Rightarrow> nat \<Rightarrow> int \<Rightarrow> bytes \<Rightarrow> int \<Rightarrow> subscription \<Rightarrow> usage_charge_result vm" where
  "settle_usage E i now usage_amount reference pending sub0 =
     bnd (route_fee_bps (s_merchant sub0)) (\<lambda>fee_bps.
     bnd get_treasury (\<lambda>treasury_opt.
     bnd (lift (fee_split usage_amount fee_bps treasury_opt)) (\<lambda>(merchant_amount, fee_amount).
     thn (credit_charge_payees E i sub0 merchant_amount Usage)
     (thn (route_to_sub_account sub0 merchant_amount)
     (bnd (credit_fee E sub0 fee_amount treasury_opt Usage) (\<lambda>should_emit.
     bnd (used_subscription pending sub0) (\<lambda>settled.
     record_usage i now usage_amount reference should_emit settled)))))))"

definition usage_underfunded :: "nat \<Rightarrow> nat \<Rightarrow> int \<Rightarrow> subscription \<Rightarrow> usage_charge_result vm" where
  "usage_underfunded i now usage_amount sub =
     bnd (lift (transition_to (s_status sub) InsufficientBalance)) (\<lambda>st.
     thn (write_subscription i (sub\<lparr>s_status := st\<rparr>))
     (thn (publish (ChargeEv (Ev_charge_failed i usage_amount (s_prepaid_balance sub)
             (sat_i128 (usage_amount - s_prepaid_balance sub)) InsufficientBalance now)))
     (ret UCR_Charged)))"

text \<open>A charge that would exceed the lifetime cap cancels the subscription and reports \<open>Charged\<close>.\<close>

definition charge_usage_now ::
  "env \<Rightarrow> nat \<Rightarrow> nat \<Rightarrow> int \<Rightarrow> bytes \<Rightarrow> subscription \<Rightarrow> usage_charge_result vm" where
  "charge_usage_now E i now usage_amount reference sub =
     bnd (lift (safe_add (s_lifetime_charged sub) usage_amount)) (\<lambda>pending.
     if (case s_lifetime_cap sub of Some cap \<Rightarrow> pending > cap | None \<Rightarrow> False) then
       bnd (lift (transition_to (s_status sub) Cancelled)) (\<lambda>st.
       thn (write_subscription i (sub\<lparr>s_status := st\<rparr>))
       (thn (publish (ChargeEv (Ev_lifetime_cap_reached i (case s_lifetime_cap sub of Some cap \<Rightarrow> cap | None \<Rightarrow> 0)
               (s_lifetime_charged sub) now)))
       (ret UCR_Charged)))
     else
       (case safe_sub_balance (s_prepaid_balance sub) usage_amount of
          Ok new_balance \<Rightarrow>
            settle_usage E i now usage_amount reference pending (sub\<lparr>s_prepaid_balance := new_balance\<rparr>)
        | _ \<Rightarrow> usage_underfunded i now usage_amount sub))"

definition charge_usage_one :: "env \<Rightarrow> nat \<Rightarrow> int \<Rightarrow> bytes \<Rightarrow> usage_charge_result vm" where
  "charge_usage_one E i usage_amount reference =
     (let now = e_timestamp E in
     bnd (charge_open E i now) (\<lambda>sub.
     bnd (merchant_flags sub now None) (\<lambda>flags_and_cache.
     thn (party_gates i now sub (fst flags_and_cache))
     (thn (usage_gates E i now usage_amount sub)
     (bnd (usage_refusals i now usage_amount reference sub) (\<lambda>early.
     case early of
       Some r \<Rightarrow> ret r
     | None \<Rightarrow> charge_usage_now E i now usage_amount reference sub))))))"

section \<open>The gates in a successful charge\<close>

text \<open>Everything but usage states and events stays.\<close>

definition usage_frame :: "nat \<Rightarrow> vault \<Rightarrow> vault \<Rightarrow> bool" where
  "usage_frame i s t \<longleftrightarrow> v_admin t = v_admin s \<and> v_merchant t = v_merchant s \<and> v_subs t = v_subs s \<and>
     v_ledger t = v_ledger s \<and> v_snap t = v_snap s \<and> v_stmt t = v_stmt s \<and>
     ch_usage_limits (v_charge t) = ch_usage_limits (v_charge s) \<and> ch_usage_ref (v_charge t) = ch_usage_ref (v_charge s) \<and>
     (\<forall>k. k \<noteq> i \<longrightarrow> ch_usage_state (v_charge t) k = ch_usage_state (v_charge s) k)"

lemma usage_frame_refl: "usage_frame i s (s\<lparr>v_events := ev\<rparr>)" "usage_frame i s s"
  by (simp_all add: usage_frame_def)

lemma usage_frame_trans: "usage_frame i s t \<Longrightarrow> usage_frame i t u \<Longrightarrow> usage_frame i s u"
  by (simp add: usage_frame_def)

lemma usage_gates_ok:
  assumes "usage_gates E i now a sub s = (Ok u, t)"
  shows "t = s \<and> s_status sub = Active \<and> s_usage_enabled sub \<and> 0 < a \<and> \<not> is_expired sub now (e_sequence E) \<and>
    (\<forall>cap. s_lifetime_cap sub = Some cap \<longrightarrow> s_lifetime_charged sub < cap) \<and>
    (s_auto_renew sub \<or> now < s_last_payment_timestamp sub + s_interval_seconds sub)"
  using assms
  by (auto simp: usage_gates_def expiry_gate_def usage_cap_used_up_def usage_renewal_gate_def lifetime_cap_reached_def
      next_charge_time_def checked_add_u64_def act_ok charge_fail_ok split: if_split_asm option.split_asm)

definition within_limits :: "usage_limits \<Rightarrow> usage_state \<Rightarrow> bool" where
  "within_limits l st \<longleftrightarrow> (\<forall>m. ul_rate_limit_max_calls l = Some m \<longrightarrow> us_window_call_count st \<le> m) \<and>
     (\<forall>c. ul_usage_cap_units l = Some c \<longrightarrow> us_current_period_usage_units st \<le> c)"

definition rolled :: "nat \<Rightarrow> subscription \<Rightarrow> usage_limits \<Rightarrow> usage_state \<Rightarrow> usage_state" where
  "rolled now sub l st =
     (if ul_usage_cap_units l \<noteq> None \<and> us_period_index st < usage_period now sub
      then st\<lparr>us_period_index := usage_period now sub, us_current_period_usage_units := 0\<rparr> else st)"

lemma roll_usage_period_ok:
  "roll_usage_period i now sub l st s = (Ok st', t) \<longleftrightarrow> st' = rolled now sub l st \<and>
     t = (if ul_usage_cap_units l \<noteq> None \<and> us_period_index st < usage_period now sub
       then s\<lparr>v_charge := (v_charge s)\<lparr>ch_usage_state := (ch_usage_state (v_charge s))(i \<mapsto> rolled now sub l st)\<rparr>,
              v_events := v_events s @ [ChargeEv (Ev_usage_cap_reset i (us_period_index st) (usage_period now sub)
                  (us_current_period_usage_units st) (the (ul_usage_cap_units l)) now)]\<rparr>
       else s)"
  by (auto simp: roll_usage_period_def rolled_def store_usage_state_def act_ok Let_def split: option.split)

definition initial_usage :: "vault \<Rightarrow> nat \<Rightarrow> nat \<Rightarrow> subscription \<Rightarrow> usage_state" where
  "initial_usage s i now sub = (case ch_usage_state (v_charge s) i of
     Some st \<Rightarrow> st
   | None \<Rightarrow> \<lparr>us_last_usage_timestamp = 0, us_window_start_timestamp = now, us_window_call_count = 0,
       us_current_period_usage_units = 0, us_period_index = usage_period now sub\<rparr>)"

lemma usage_state_of_ok:
  "usage_state_of i now sub s = (Ok st, t) \<longleftrightarrow> s_interval_seconds sub \<noteq> 0 \<and> t = s \<and> st = initial_usage s i now sub"
  by (auto simp: usage_state_of_def initial_usage_def act_ok)

lemma reject_usage_ok:
  "reject_usage i now a ref r s = (Ok x, t) \<longleftrightarrow>
     x = Some r \<and> t = s\<lparr>v_events := v_events s @ [ChargeEv (Ev_usage_charge_rejected i a ref r now)]\<rparr>"
  by (auto simp: reject_usage_def act_ok)

lemma usage_limits_stage_ok:
  assumes "usage_limits_stage i now a ref sub s = (Ok r, t)"
  shows "usage_frame i s t \<and>
    (case ch_usage_limits (v_charge s) i of
       None \<Rightarrow> r = None \<and> t = s
     | Some l \<Rightarrow>
         (let st1 = open_rate_window l now (initial_usage s i now sub); st2 = rolled now sub l st1 in
          if r = None then ch_usage_state (v_charge t) i = Some (count_usage now a st2) \<and> \<not> rate_exceeded l st1 \<and>
            \<not> units_exceeded l st2 a \<and> \<not> burst_exceeded l now (initial_usage s i now sub)
          else r \<noteq> Some UCR_Charged \<and>
            ch_usage_state (v_charge t) i \<in> {ch_usage_state (v_charge s) i, Some st2}))"
proof (cases "ch_usage_limits (v_charge s) i")
  case None
  with assms show ?thesis by (simp add: usage_limits_stage_def act_ok usage_frame_refl)
next
  case (Some l)
  let ?st0 = "initial_usage s i now sub" and ?st1 = "open_rate_window l now (initial_usage s i now sub)"
  from assms Some have run: "apply_usage_limits i now a ref sub l ?st0 s = (Ok r, t)"
    by (simp add: usage_limits_stage_def bnd_ok basic_ok usage_state_of_ok)
  show ?thesis
  proof (cases "burst_exceeded l now ?st0 \<or> rate_exceeded l ?st1")
    case True
    with run Some show ?thesis
      by (auto simp: apply_usage_limits_def reject_usage_ok usage_frame_refl Let_def split: if_split_asm)
  next
    case False
    with run have "(if units_exceeded l (rolled now sub l ?st1) a then reject_usage i now a ref UCR_UsageCapExceeded
        else thn (store_usage_state i (count_usage now a (rolled now sub l ?st1))) (ret None))
        (if ul_usage_cap_units l \<noteq> None \<and> us_period_index ?st1 < usage_period now sub
         then s\<lparr>v_charge := (v_charge s)\<lparr>ch_usage_state := (ch_usage_state (v_charge s))(i \<mapsto> rolled now sub l ?st1)\<rparr>,
              v_events := v_events s @ [ChargeEv (Ev_usage_cap_reset i (us_period_index ?st1) (usage_period now sub)
                  (us_current_period_usage_units ?st1) (the (ul_usage_cap_units l)) now)]\<rparr>
         else s) = (Ok r, t)"
      by (simp add: apply_usage_limits_def Let_def bnd_ok [of "roll_usage_period i now sub l st" for st] roll_usage_period_ok)
    with False Some show ?thesis
      by (auto simp: reject_usage_ok store_usage_state_def act_ok usage_frame_def Let_def split: if_split_asm)
  qed
qed

lemma usage_refusals_frame:
  "usage_refusals i now a ref sub s = (Ok r, t) \<Longrightarrow> usage_frame i s t"
  by (auto simp: usage_refusals_def act_ok charge_fail_ok reject_usage_ok usage_frame_refl split: if_split_asm
      dest: usage_limits_stage_ok)

lemma usage_refusals_pass:
  "usage_refusals i now a ref sub s = (Ok None, t) \<Longrightarrow>
   a \<le> s_prepaid_balance sub \<and> (m_usage_cap_override (v_merchant s) (s_merchant sub) = Some True \<or> a \<le> s_amount sub) \<and>
   \<not> ch_usage_ref (v_charge s) i ref \<and> usage_limits_stage i now a ref sub s = (Ok None, t)"
  by (auto simp: usage_refusals_def act_ok charge_fail_ok reject_usage_ok split: if_split_asm option.split_asm)

lemma usage_refusals_refuse:
  "usage_refusals i now a ref sub s = (Ok (Some r), t) \<Longrightarrow> r \<noteq> UCR_Charged"
  by (auto simp: usage_refusals_def act_ok charge_fail_ok reject_usage_ok split: if_split_asm
      dest: usage_limits_stage_ok split: option.split_asm)

lemma usage_frame_keeps:
  assumes "keeps (\<lambda>v. v\<lparr>v_events := []\<rparr>) m" and "m s = (r, t)"
  shows "usage_frame i s t"
proof -
  from keepsD [OF assms] have "t\<lparr>v_events := []\<rparr> = s\<lparr>v_events := []\<rparr>" .
  then show ?thesis by (cases s; cases t) (simp add: usage_frame_def)
qed

lemma charge_open_ok:
  "charge_open E i now s = (Ok sub, t) \<longleftrightarrow> t = s \<and> config_value cf_emergency_stop (v_admin s) \<noteq> Some True \<and>
     (\<exists>x. su_sub (v_subs s) i = Some x \<and> sub = effective E s x)"
  by (auto simp: charge_open_def act_ok charge_fail_ok or_charge_fail_ok split: if_split_asm)

text \<open>A successful usage charge has passed every gate; what is left is refusing or charging.\<close>

lemma charge_usage_one_cases:
  assumes "charge_usage_one E i a ref s = (Ok r, t)"
  obtains x u w where "su_sub (v_subs s) i = Some x" "config_value cf_emergency_stop (v_admin s) \<noteq> Some True"
    "s_status x = Active" "s_usage_enabled x" "0 < a" "\<forall>cap. s_lifetime_cap x = Some cap \<longrightarrow> s_lifetime_charged x < cap"
    "usage_frame i s u" "ch_usage_state (v_charge u) = ch_usage_state (v_charge s)"
    "usage_refusals i (e_timestamp E) a ref x u = (Ok (Some r), t) \<or>
     usage_refusals i (e_timestamp E) a ref x u = (Ok None, w) \<and> charge_usage_now E i (e_timestamp E) a ref x w = (Ok r, t)"
proof -
  let ?now = "e_timestamp E"
  from assms obtain sub flags u1 u2 u3 u early w v v' where
      1: "charge_open E i ?now s = (Ok sub, u1)" and 2: "merchant_flags sub ?now None u1 = (Ok flags, u2)"
    and 3: "party_gates i ?now sub (fst flags) u2 = (Ok v, u3)" and 4: "usage_gates E i ?now a sub u3 = (Ok v', u)"
    and 5: "usage_refusals i ?now a ref sub u = (Ok early, w)"
    and 6: "(case early of Some r \<Rightarrow> ret r | None \<Rightarrow> charge_usage_now E i ?now a ref sub) w = (Ok r, t)"
    unfolding charge_usage_one_def Let_def by (elim bnd_okE thn_okE) (rule that, assumption+)
  from 1 obtain x where x: "su_sub (v_subs s) i = Some x" "sub = effective E s x"
      "config_value cf_emergency_stop (v_admin s) \<noteq> Some True" and u1: "u1 = s"
    by (auto simp: charge_open_ok)
  from usage_gates_ok [OF 4] have gates: "u = u3" "s_status sub = Active" "s_usage_enabled sub" "0 < a"
      "\<forall>cap. s_lifetime_cap sub = Some cap \<longrightarrow> s_lifetime_charged sub < cap" by simp_all
  with x have sub: "sub = x" by (auto simp: effective_def)
  let ?g = "\<lambda>v. v\<lparr>v_events := []\<rparr>"
  have "keeps id (merchant_flags sub ?now None)" by (rule keeps_merchant_flags)
  from keepsD [OF this 2] u1 have u2: "u2 = s" by simp
  have k: "keeps ?g (party_gates i ?now sub (fst flags))" by (rule keeps_party_gates) simp
  have k': "keeps (\<lambda>v. ch_usage_state (v_charge v)) (party_gates i ?now sub (fst flags))" by (rule keeps_party_gates) simp
  have "ch_usage_state (v_charge u3) = ch_usage_state (v_charge u2)" by (rule keepsD [OF k' 3])
  then show thesis
    using that [of x u w] x gates sub usage_frame_keeps [OF k 3, of i] u2 5 6 by (cases early) (auto simp: basic_ok)
qed

section \<open>What settlement does\<close>

definition used_sub :: "int \<Rightarrow> subscription \<Rightarrow> subscription" where
  "used_sub a sub = sub\<lparr>s_prepaid_balance := s_prepaid_balance sub - a, s_lifetime_charged := s_lifetime_charged sub + a,
     s_status := (if \<exists>cap. s_lifetime_cap sub = Some cap \<and> cap \<le> s_lifetime_charged sub + a then Cancelled
        else if s_prepaid_balance sub = a then InsufficientBalance else s_status sub)\<rparr>"

lemma used_subscription_ok:
  "used_subscription (s_lifetime_charged sub + a) (sub\<lparr>s_prepaid_balance := s_prepaid_balance sub - a\<rparr>) s = (Ok r, t) \<Longrightarrow>
   t = s \<and> fst r = used_sub a sub"
  by (auto simp: used_subscription_def used_sub_def act_ok Let_def cap_now_reached_def lifetime_cap_reached_def
      split: option.split_asm if_split_asm)

lemma usage_period_start_same: "usage_period_start now sub s = (Ok r, t) \<Longrightarrow> t = s"
  by (auto simp: usage_period_start_def act_ok split: if_split_asm)

lemma record_usage_ok:
  assumes "record_usage i now a ref emit settled s = (Ok r, t)"
  shows "r = UCR_Charged \<and> v_merchant t = v_merchant s \<and> v_ledger t = v_ledger s \<and> v_admin t = v_admin s \<and>
    v_subs t = (v_subs s)\<lparr>su_sub := (su_sub (v_subs s))(i \<mapsto> fst settled)\<rparr> \<and>
    v_charge t = (v_charge s)\<lparr>ch_usage_ref := (ch_usage_ref (v_charge s))(i := (ch_usage_ref (v_charge s) i)(ref := True))\<rparr>"
  using assms
  by (cases settled) (auto simp: record_usage_def act_ok
      dest!: publish_fee_ok publish_cap_reached_ok usage_period_start_same)

lemma settle_usage_ok:
  assumes "settle_usage E i now a ref pending sub0 s = (Ok r, t)"
  obtains bps tr net fee v1 v2 emit v3 settled v4 where
    "route_fee_bps (s_merchant sub0) s = (Ok bps, s)" "config_value cf_treasury (v_admin s) = tr"
    "fee_split a bps tr = Ok (net, fee)"
    "credit_charge_payees E i sub0 net Usage s = (Ok (), v1)" "route_to_sub_account sub0 net v1 = (Ok (), v2)"
    "credit_fee E sub0 fee tr Usage v2 = (Ok emit, v3)"
    "used_subscription pending sub0 v3 = (Ok settled, v4)" "record_usage i now a ref emit settled v4 = (Ok r, t)"
proof -
  from assms obtain bps u1 tr u2 p u3 where bps: "route_fee_bps (s_merchant sub0) s = (Ok bps, u1)"
    and tr: "get_treasury u1 = (Ok tr, u2)" and split: "lift (fee_split a bps tr) u2 = (Ok p, u3)"
    and rest: "(case p of (net, fee) \<Rightarrow>
       thn (credit_charge_payees E i sub0 net Usage)
       (thn (route_to_sub_account sub0 net)
       (bnd (credit_fee E sub0 fee tr Usage) (\<lambda>emit.
       bnd (used_subscription pending sub0) (\<lambda>settled.
       record_usage i now a ref emit settled))))) u3 = (Ok r, t)"
    unfolding settle_usage_def by (elim bnd_okE) (rule that, assumption+)
  obtain net fee where p: "p = (net, fee)" by (cases p)
  have "keeps id (route_fee_bps (s_merchant sub0))"
    by (auto simp: route_fee_bps_def get_protocol_fee_bps_def intro!: keeps_intro)
  from keepsD [OF this bps] have u1: "u1 = s" by simp
  from tr [unfolded u1 get_treasury_def read_config_ok] have u2: "config_value cf_treasury (v_admin s) = tr" "u2 = s" by simp_all
  from split have eqs: "u3 = s" "fee_split a bps tr = Ok p" by (simp_all add: basic_ok u2)
  from rest [unfolded p prod.case] obtain w w' v1 v2 emit v3 settled v4 where
    "credit_charge_payees E i sub0 net Usage u3 = (Ok w, v1)" "route_to_sub_account sub0 net v1 = (Ok w', v2)"
    "credit_fee E sub0 fee tr Usage v2 = (Ok emit, v3)"
    "used_subscription pending sub0 v3 = (Ok settled, v4)" "record_usage i now a ref emit settled v4 = (Ok r, t)"
    by (elim bnd_okE thn_okE) (rule that, assumption+)
  with bps u1 u2 eqs p show thesis
    by (intro that [of bps tr net fee v1 v2 emit v3 settled v4]) simp_all
qed

lemma settle_usage_effect:
  assumes "settle_usage E i now a ref (s_lifetime_charged sub + a) (sub\<lparr>s_prepaid_balance := s_prepaid_balance sub - a\<rparr>) s = (Ok r, t)"
  shows "r = UCR_Charged \<and> v_ledger t = v_ledger s \<and> v_admin t = v_admin s \<and>
    v_subs t = (v_subs s)\<lparr>su_sub := (su_sub (v_subs s))(i \<mapsto> used_sub a sub)\<rparr> \<and>
    v_charge t = (v_charge s)\<lparr>ch_usage_ref := (ch_usage_ref (v_charge s))(i := (ch_usage_ref (v_charge s) i)(ref := True))\<rparr>"
  using assms
proof (rule settle_usage_ok)
  let ?sub = "sub\<lparr>s_prepaid_balance := s_prepaid_balance sub - a\<rparr>" and ?g = "\<lambda>v. (v_admin v, v_subs v, v_charge v, v_ledger v)"
  fix bps tr net fee v1 v2 emit v3 settled v4
  assume c: "credit_charge_payees E i ?sub net Usage s = (Ok (), v1)" and ro: "route_to_sub_account ?sub net v1 = (Ok (), v2)"
    and f: "credit_fee E ?sub fee tr Usage v2 = (Ok emit, v3)"
    and su: "used_subscription (s_lifetime_charged sub + a) ?sub v3 = (Ok settled, v4)"
    and rec: "record_usage i now a ref emit settled v4 = (Ok r, t)"
  have "keeps ?g (credit_charge_payees E i ?sub net Usage)" "keeps ?g (route_to_sub_account ?sub net)"
    "keeps ?g (credit_fee E ?sub fee tr Usage)" by (auto intro!: keeps_intro)
  from this(1) [THEN keepsD, OF c] this(2) [THEN keepsD, OF ro] this(3) [THEN keepsD, OF f]
  have "v_admin v3 = v_admin s" "v_subs v3 = v_subs s" "v_charge v3 = v_charge s" "v_ledger v3 = v_ledger s" by simp_all
  with used_subscription_ok [OF su] record_usage_ok [OF rec] show ?thesis by simp
qed

lemma settle_usage_money:
  assumes "settle_usage E i now a ref pending sub s = (Ok r, t)" and "route_fee_bps (s_merchant sub) s = (Ok bps, s)"
    and "bps \<le> 10000" "0 \<le> a" "a \<le> MAX_SUBSCRIPTION_AMOUNT"
    and "config_value cf_fee_token (v_admin s) = None" and ne: "su_split_payees (v_subs s) i \<noteq> Some []"
    and K: "finite K" "insert (s_merchant sub) (payees s i sub \<union> set_option (config_value cf_treasury (v_admin s))) \<subseteq> K"
  shows "(\<Sum>m \<in> K. merchant_balance t m (s_token sub)) + label_balance t sub =
    (\<Sum>m \<in> K. merchant_balance s m (s_token sub)) + label_balance s sub + a"
  using assms(1)
proof (rule settle_usage_ok)
  fix bps' tr net fee v1 v2 emit v3 settled v4
  assume cfg: "route_fee_bps (s_merchant sub) s = (Ok bps', s)" "config_value cf_treasury (v_admin s) = tr"
    and split: "fee_split a bps' tr = Ok (net, fee)"
    and c: "credit_charge_payees E i sub net Usage s = (Ok (), v1)" and ro: "route_to_sub_account sub net v1 = (Ok (), v2)"
    and f: "credit_fee E sub fee tr Usage v2 = (Ok emit, v3)" and su: "used_subscription pending sub v3 = (Ok settled, v4)"
    and rec: "record_usage i now a ref emit settled v4 = (Ok r, t)"
  from cfg(1) assms(2) have "bps' = bps" by simp
  note parts = fee_split_parts [OF assms(4,5,3) split [unfolded this]]
  let ?bal = "\<lambda>v. \<Sum>m \<in> K. merchant_balance v m (s_token sub)"
  have 1: "?bal v2 + label_balance v2 sub = ?bal s + label_balance s sub + net" "untouched s v2"
    using payees_total [OF c ro _ _ ne K(1)] parts K(2) by auto
  then have "config_value cf_fee_token (v_admin v2) = None" using assms(6) by (simp add: untouched_def)
  from credit_fee_total [OF f K(1) _ this] K(2) cfg(2) parts
  have 3: "?bal v3 = ?bal v2 + fee" "label_balance v3 sub = label_balance v2 sub"
    by (auto simp: label_balance_def split: option.splits)
  have "v4 = v3" using su by (auto simp: used_subscription_def act_ok Let_def split: if_split_asm)
  with record_usage_ok [OF rec] have "v_merchant t = v_merchant v3" by simp
  then have "?bal t = ?bal v3" "label_balance t sub = label_balance v3 sub"
    by (simp_all add: merchant_balance_def label_balance_def sub_account_balance_def split: option.split)
  with 1 3 parts show ?thesis by simp
qed

lemma charge_usage_now_cases:
  assumes run: "charge_usage_now E i now a ref x s = (Ok r, t)" and fits: "fits_i128 (s_prepaid_balance x)"
    and gates: "0 < a" "a \<le> s_prepaid_balance x"
  obtains (capped) cap where "r = UCR_Charged" "s_lifetime_cap x = Some cap" "cap < s_lifetime_charged x + a"
      "\<exists>ev. t = s\<lparr>v_subs := (v_subs s)\<lparr>su_sub := (su_sub (v_subs s))(i \<mapsto> x\<lparr>s_status := Cancelled\<rparr>)\<rparr>, v_events := ev\<rparr>"
  | (settled) "\<forall>cap. s_lifetime_cap x = Some cap \<longrightarrow> s_lifetime_charged x + a \<le> cap"
      "settle_usage E i now a ref (s_lifetime_charged x + a) (x\<lparr>s_prepaid_balance := s_prepaid_balance x - a\<rparr>) s = (Ok r, t)"
proof (cases "\<exists>cap. s_lifetime_cap x = Some cap \<and> cap < s_lifetime_charged x + a")
  case True
  then obtain cap where cap: "s_lifetime_cap x = Some cap" "cap < s_lifetime_charged x + a" by blast
  with run show thesis by (intro capped [of cap]) (auto simp: charge_usage_now_def act_ok)
next
  case False
  have "safe_sub_balance (s_prepaid_balance x) a = Ok (s_prepaid_balance x - a)"
    using gates fits_i128_diff [OF fits, of a] by (simp add: safe_sub_balance_def safe_sub_fits)
  with run False show thesis by (intro settled) (auto simp: charge_usage_now_def act_ok split: option.split_asm if_split_asm)
qed

text \<open>Whatever \<open>charge_usage_now\<close> does, the counters of the limits are those of the limits stage.\<close>

lemma charge_usage_now_frame:
  assumes "charge_usage_now E i now a ref x s = (Ok r, t)"
  shows "r = UCR_Charged \<and> ch_usage_state (v_charge t) = ch_usage_state (v_charge s) \<and>
    ch_usage_limits (v_charge t) = ch_usage_limits (v_charge s) \<and>
    (\<forall>k q. ch_usage_ref (v_charge s) k q \<longrightarrow> ch_usage_ref (v_charge t) k q) \<and>
    (\<exists>sub. su_sub (v_subs t) = (su_sub (v_subs s))(i \<mapsto> sub) \<and> s_start_time sub = s_start_time x \<and>
       s_interval_seconds sub = s_interval_seconds x)"
proof -
  consider (capped) cap where "s_lifetime_cap x = Some cap" "cap < s_lifetime_charged x + a"
    | (ok) "\<forall>cap. s_lifetime_cap x = Some cap \<longrightarrow> s_lifetime_charged x + a \<le> cap" by fastforce
  then show ?thesis
  proof cases
    case capped
    with assms show ?thesis by (auto simp: charge_usage_now_def act_ok)
  next
    case ok
    show ?thesis
    proof (cases "safe_sub_balance (s_prepaid_balance x) a")
      case (Ok nb)
      then have "nb = s_prepaid_balance x - a"
        by (auto simp: safe_sub_balance_def safe_sub_def checked_sub_i128_def split: if_split_asm option.split_asm)
      with assms ok Ok have "settle_usage E i now a ref (s_lifetime_charged x + a)
          (x\<lparr>s_prepaid_balance := s_prepaid_balance x - a\<rparr>) s = (Ok r, t)"
        by (auto simp: charge_usage_now_def act_ok split: option.split_asm if_split_asm)
      from settle_usage_effect [OF this] show ?thesis by (auto simp: used_sub_def)
    qed (use assms ok in \<open>auto simp: charge_usage_now_def usage_underfunded_def act_ok split: option.split_asm if_split_asm\<close>)
  qed
qed

section \<open>Properties\<close>

text \<open>
  C36. Usage charges are accounted exactly. Let no fee token be configured, the amount be at most the largest subscription amount, the
  fee rate that applies to the merchant at most 100 percent, and a stored payee split, if there is one, not empty. Then a successful call
  moves no token, and either it is refused
  (the result is not \<open>Charged\<close>) and subscriptions, merchants' books and used references are as before,
  or the subscription was active with usage enabled, the amount is positive, within the prepaid balance
  and (without the merchant's override) within the price, the reference was unused, and one of two things
  happened: the amount would have exceeded the lifetime cap and the subscription is only cancelled,
  although the result is \<open>Charged\<close>; or the balance is debited and the lifetime total raised by the amount,
  the reference is used up, and the payees, the treasury and the labelled sub-account together gained
  exactly the amount. (With a fee token configured the fee is credited in that token, so the last sum is not kept then.)
\<close>

theorem usage_charge_accounts:
  assumes run: "charge_usage_one E i a ref s = (Ok r, t)" and stored: "su_sub (v_subs s) i = Some x"
    and fits: "fits_i128 (s_prepaid_balance x)" and amount: "a \<le> MAX_SUBSCRIPTION_AMOUNT"
    and rate: "route_fee_bps (s_merchant x) s = (Ok bps, s)" "bps \<le> 10000"
    and plain: "config_value cf_fee_token (v_admin s) = None" and ne: "su_split_payees (v_subs s) i \<noteq> Some []"
    and K: "finite K" "insert (s_merchant x) (payees s i x \<union> set_option (config_value cf_treasury (v_admin s))) \<subseteq> K"
  shows "v_ledger t = v_ledger s \<and>
    (r \<noteq> UCR_Charged \<and> v_subs t = v_subs s \<and> v_merchant t = v_merchant s \<and>
       ch_usage_ref (v_charge t) = ch_usage_ref (v_charge s) \<or>
     r = UCR_Charged \<and> s_status x = Active \<and> s_usage_enabled x \<and> 0 < a \<and> a \<le> s_prepaid_balance x \<and>
       (m_usage_cap_override (v_merchant s) (s_merchant x) = Some True \<or> a \<le> s_amount x) \<and>
       \<not> ch_usage_ref (v_charge s) i ref \<and>
       ((\<exists>cap. s_lifetime_cap x = Some cap \<and> cap < s_lifetime_charged x + a) \<and>
          su_sub (v_subs t) = (su_sub (v_subs s))(i \<mapsto> x\<lparr>s_status := Cancelled\<rparr>) \<and> v_merchant t = v_merchant s \<or>
        su_sub (v_subs t) = (su_sub (v_subs s))(i \<mapsto> used_sub a x) \<and> ch_usage_ref (v_charge t) i ref \<and>
          (\<Sum>m \<in> K. merchant_balance t m (s_token x)) + label_balance t x =
            (\<Sum>m \<in> K. merchant_balance s m (s_token x)) + label_balance s x + a))"
  using run
proof (rule charge_usage_one_cases)
  fix y u w
  let ?now = "e_timestamp E"
  assume "su_sub (v_subs s) i = Some y" and gates: "s_status y = Active" "s_usage_enabled y" "0 < a"
    and u: "usage_frame i s u"
    and rest: "usage_refusals i ?now a ref y u = (Ok (Some r), t) \<or>
      usage_refusals i ?now a ref y u = (Ok None, w) \<and> charge_usage_now E i ?now a ref y w = (Ok r, t)"
  with stored have y: "y = x" by simp
  from rest show ?thesis
  proof (elim disjE conjE)
    assume "usage_refusals i ?now a ref y u = (Ok (Some r), t)"
    from usage_refusals_refuse [OF this] usage_refusals_frame [OF this] u show ?thesis by (auto simp: usage_frame_def)
  next
    assume pass: "usage_refusals i ?now a ref y u = (Ok None, w)" and charge: "charge_usage_now E i ?now a ref y w = (Ok r, t)"
    from usage_frame_trans [OF u usage_refusals_frame [OF pass]] have w: "usage_frame i s w" .
    from usage_refusals_pass [OF pass] u y have passed: "a \<le> s_prepaid_balance x"
      "m_usage_cap_override (v_merchant s) (s_merchant x) = Some True \<or> a \<le> s_amount x" "\<not> ch_usage_ref (v_charge s) i ref"
      by (auto simp: usage_frame_def)
    show ?thesis
      using charge [unfolded y] fits gates(3) passed(1)
    proof (cases rule: charge_usage_now_cases)
      case (capped cap)
      with gates passed w y show ?thesis by (auto simp: usage_frame_def)
    next
      case settled
      let ?x = "x\<lparr>s_prepaid_balance := s_prepaid_balance x - a\<rparr>"
      have same: "payees w i ?x = payees s i x" "label_balance v ?x = label_balance v x" for v
        using w by (auto simp: payees_def label_balance_def usage_frame_def split: option.split)
      have bal: "merchant_balance w = merchant_balance s" "label_balance w x = label_balance s x"
        using w by (auto simp: merchant_balance_def label_balance_def sub_account_balance_def usage_frame_def fun_eq_iff split: option.split)
      have "route_fee_bps (s_merchant x) w = (Ok bps, w)"
        using rate(1) w by (auto simp: route_fee_bps_def get_merchant_fee_override_bps_def get_protocol_fee_bps_def act_run usage_frame_def
            split: option.split_asm)
      then have "(\<Sum>m \<in> K. merchant_balance t m (s_token x)) + label_balance t x =
            (\<Sum>m \<in> K. merchant_balance s m (s_token x)) + label_balance s x + a"
        using settle_usage_money [OF settled(2), of bps K] rate(2) gates(3) amount plain ne K w
        by (simp add: same bal usage_frame_def)
      with settle_usage_effect [OF settled(2)] gates passed w y show ?thesis by (auto simp: usage_frame_def)
    qed
  qed
qed

section \<open>Runs of usage charges\<close>

type_synonym usage_request = "env \<times> nat \<times> int \<times> bytes"

definition serve_usage :: "usage_request \<Rightarrow> usage_charge_result vm" where
  "serve_usage q = (case q of (E, i, a, ref) \<Rightarrow> tx (charge_usage_one E i a ref))"

lemma charge_usage_one_keeps:
  assumes "charge_usage_one E i a ref s = (Ok r, t)"
  shows "ch_usage_limits (v_charge t) = ch_usage_limits (v_charge s) \<and>
    (\<forall>k q. ch_usage_ref (v_charge s) k q \<longrightarrow> ch_usage_ref (v_charge t) k q)"
  using assms
proof (rule charge_usage_one_cases)
  fix x u w
  let ?now = "e_timestamp E"
  assume u: "usage_frame i s u"
    and "usage_refusals i ?now a ref x u = (Ok (Some r), t) \<or>
      usage_refusals i ?now a ref x u = (Ok None, w) \<and> charge_usage_now E i ?now a ref x w = (Ok r, t)"
  then show ?thesis
  proof (elim disjE conjE)
    assume "usage_refusals i ?now a ref x u = (Ok (Some r), t)"
    from usage_frame_trans [OF u usage_refusals_frame [OF this]] show ?thesis by (simp add: usage_frame_def)
  next
    assume "usage_refusals i ?now a ref x u = (Ok None, w)" and charge: "charge_usage_now E i ?now a ref x w = (Ok r, t)"
    from usage_frame_trans [OF u usage_refusals_frame [OF this(1)]] charge_usage_now_frame [OF charge]
    show ?thesis by (simp add: usage_frame_def)
  qed
qed

lemma serve_usage_refs:
  assumes "serve serve_usage qs s = (rs, t)" and "ch_usage_ref (v_charge s) i ref"
  shows "ch_usage_ref (v_charge t) i ref"
proof (rule serve_invariant [OF _ assms(1), where I = "\<lambda>v. ch_usage_ref (v_charge v) i ref"])
  fix q v r w
  assume "serve_usage q v = (r, w)" and "ch_usage_ref (v_charge v) i ref"
  moreover obtain E k a q' where "q = (E, k, a, q')" by (cases q)
  ultimately show "ch_usage_ref (v_charge w) i ref"
    using charge_usage_one_keeps [of E k a q' v _ w] by (auto simp: serve_usage_def tx_def split: prod.splits outcome.splits)
qed (rule assms(2))

text \<open>
  C38. A usage reference pays once. After a usage charge that settled (the result is \<open>Charged\<close> and the
  amount was within the lifetime cap), through any further usage charges on any subscriptions, no call
  with the same subscription and reference changes a subscription or the merchants' books, whatever its
  amount and time.
\<close>

theorem usage_reference_pays_once:
  assumes "charge_usage_one E i a ref s = (Ok UCR_Charged, t)" and "su_sub (v_subs s) i = Some x"
    and "fits_i128 (s_prepaid_balance x)" and "\<forall>cap. s_lifetime_cap x = Some cap \<longrightarrow> s_lifetime_charged x + a \<le> cap"
    and "serve serve_usage qs t = (rs, u)"
  shows "v_subs (snd (serve_usage (E', i, b, ref) u)) = v_subs u \<and> v_merchant (snd (serve_usage (E', i, b, ref) u)) = v_merchant u"
proof -
  from assms(1) have "ch_usage_ref (v_charge t) i ref"
  proof (rule charge_usage_one_cases)
    fix y v w
    let ?now = "e_timestamp E"
    assume y: "su_sub (v_subs s) i = Some y" "0 < a" and v: "usage_frame i s v"
      and "usage_refusals i ?now a ref y v = (Ok (Some UCR_Charged), t) \<or>
        usage_refusals i ?now a ref y v = (Ok None, w) \<and> charge_usage_now E i ?now a ref y w = (Ok UCR_Charged, t)"
    then have pass: "usage_refusals i ?now a ref y v = (Ok None, w)"
      and charge: "charge_usage_now E i ?now a ref y w = (Ok UCR_Charged, t)"
      using usage_refusals_refuse [of i ?now a ref y v UCR_Charged t] by auto
    from y assms(2) have yx: "y = x" by simp
    from usage_refusals_pass [OF pass] have "a \<le> s_prepaid_balance x" by (simp add: yx)
    with charge [unfolded yx] assms(3) y(2) show ?thesis
    proof (cases rule: charge_usage_now_cases)
      case settled
      from settle_usage_effect [OF this(2)] show ?thesis by simp
    qed (use assms(4) in auto)
  qed
  from serve_usage_refs [OF assms(5) this] have used: "ch_usage_ref (v_charge u) i ref" .
  show ?thesis
  proof (cases "charge_usage_one E' i b ref u")
    case (Pair r z)
    show ?thesis
    proof (cases r)
      case (Ok r')
      with Pair have "charge_usage_one E' i b ref u = (Ok r', z)" by simp
      then have "v_subs z = v_subs u \<and> v_merchant z = v_merchant u"
      proof (rule charge_usage_one_cases)
        fix y v w
        let ?now = "e_timestamp E'"
        assume v: "usage_frame i u v"
          and "usage_refusals i ?now b ref y v = (Ok (Some r'), z) \<or>
            usage_refusals i ?now b ref y v = (Ok None, w) \<and> charge_usage_now E' i ?now b ref y w = (Ok r', z)"
        with used have "usage_refusals i ?now b ref y v = (Ok (Some r'), z)"
          using usage_refusals_pass [of i ?now b ref y v w] by (auto simp: usage_frame_def)
        from usage_frame_trans [OF v usage_refusals_frame [OF this]] show ?thesis by (simp add: usage_frame_def)
      qed
      with Pair Ok show ?thesis by (simp add: serve_usage_def tx_def)
    qed (use Pair in \<open>simp_all add: serve_usage_def tx_def\<close>)
  qed
qed

section \<open>Call and unit limits\<close>

lemma usage_step:
  assumes run: "tx (charge_usage_one E i a ref) s = (r, t)"
    and lim: "ch_usage_limits (v_charge s) i = Some l" "ul_rate_limit_max_calls l = Some m" "m \<le> u32_max"
      "ul_usage_cap_units l = Some c" "c < i128_max"
    and st: "ch_usage_state (v_charge s) i = Some st" "fits_i128 (us_current_period_usage_units st)"
    and x: "su_sub (v_subs s) i = Some x" "usage_period (e_timestamp E) x \<le> us_period_index st"
    and win: "us_window_start_timestamp st + ul_rate_window_secs l \<le> u64_max"
      "e_timestamp E < us_window_start_timestamp st + ul_rate_window_secs l"
  shows "ch_usage_limits (v_charge t) i = Some l \<and>
    (\<exists>x'. su_sub (v_subs t) i = Some x' \<and> s_start_time x' = s_start_time x \<and> s_interval_seconds x' = s_interval_seconds x) \<and>
    (if r = Ok UCR_Charged
     then us_window_call_count st < m \<and> us_current_period_usage_units st + a \<le> c \<and> 0 < a \<and>
       ch_usage_state (v_charge t) i = Some (st\<lparr>us_last_usage_timestamp := e_timestamp E,
         us_window_call_count := us_window_call_count st + 1, us_current_period_usage_units := us_current_period_usage_units st + a\<rparr>)
     else ch_usage_state (v_charge t) i = Some st)"
proof (cases "\<exists>q. charge_usage_one E i a ref s = (Ok q, t) \<and> r = Ok q")
  case False
  with run have "t = s" "\<forall>q. r \<noteq> Ok q" by (auto simp: tx_def split: prod.splits outcome.splits)
  with lim st x show ?thesis by auto
next
  case True
  then obtain q where q: "charge_usage_one E i a ref s = (Ok q, t)" "r = Ok q" by blast
  from q(1) show ?thesis
  proof (rule charge_usage_one_cases)
    fix y u w
    let ?now = "e_timestamp E"
    assume y: "su_sub (v_subs s) i = Some y" "0 < a" and u: "usage_frame i s u" "ch_usage_state (v_charge u) = ch_usage_state (v_charge s)"
      and rest: "usage_refusals i ?now a ref y u = (Ok (Some q), t) \<or>
        usage_refusals i ?now a ref y u = (Ok None, w) \<and> charge_usage_now E i ?now a ref y w = (Ok q, t)"
    have yx: "y = x" using y x by simp
    have init: "initial_usage u i ?now x = st" using u st by (simp add: initial_usage_def)
    have stay: "open_rate_window l ?now st = st" "rolled ?now x l st = st"
      using win x by (auto simp: open_rate_window_def rolled_def sat_add_u64_def)
    have limu: "ch_usage_limits (v_charge u) i = Some l" using lim u by (simp add: usage_frame_def)
    from rest show ?thesis
    proof (elim disjE conjE)
      assume ref: "usage_refusals i ?now a ref y u = (Ok (Some q), t)"
      have "ch_usage_state (v_charge t) i = Some st"
        using ref usage_limits_stage_ok [of i ?now a ref x u "Some q" t] limu init stay st(1) u(2)
        by (auto simp: yx usage_refusals_def act_ok charge_fail_ok reject_usage_ok Let_def split: if_split_asm)
      with usage_frame_trans [OF u(1) usage_refusals_frame [OF ref]] usage_refusals_refuse [OF ref] lim x q show ?thesis
        by (auto simp: usage_frame_def)
    next
      assume pass: "usage_refusals i ?now a ref y u = (Ok None, w)" and charge: "charge_usage_now E i ?now a ref y w = (Ok q, t)"
      from usage_refusals_pass [OF pass] have "usage_limits_stage i ?now a ref x u = (Ok None, w)" by (simp add: yx)
      from usage_limits_stage_ok [OF this] limu init stay
      have w: "ch_usage_state (v_charge w) i = Some (count_usage ?now a st)" "\<not> rate_exceeded l st" "\<not> units_exceeded l st a"
        by (simp_all add: Let_def)
      have units: "us_current_period_usage_units st + a \<le> c" "sat_i128 (us_current_period_usage_units st + a) = us_current_period_usage_units st + a"
        using w(3) lim(4,5) st(2) y(2) by (auto simp: units_exceeded_def sat_i128_def fits_i128_def)
      have calls: "us_window_call_count st < m" "sat_add_u32 (us_window_call_count st) 1 = us_window_call_count st + 1"
        using w(2) lim(2,3) by (auto simp: rate_exceeded_def sat_add_u32_def)
      have fr: "ch_usage_limits (v_charge w) i = Some l" "v_subs w = v_subs s"
        using usage_frame_trans [OF u(1) usage_refusals_frame [OF pass]] lim(1) by (simp_all add: usage_frame_def)
      have st': "count_usage ?now a st = st\<lparr>us_last_usage_timestamp := ?now, us_window_call_count := us_window_call_count st + 1,
          us_current_period_usage_units := us_current_period_usage_units st + a\<rparr>"
        using units(2) calls(2) by (simp add: count_usage_def)
      from charge_usage_now_frame [OF charge] obtain sub where "q = UCR_Charged"
        "ch_usage_state (v_charge t) i = Some (count_usage ?now a st)" "ch_usage_limits (v_charge t) i = Some l"
        "su_sub (v_subs t) i = Some sub" "s_start_time sub = s_start_time x" "s_interval_seconds sub = s_interval_seconds x"
        using w(1) fr yx by auto
      with units(1) calls(1) st' y(2) q(2) show ?thesis by simp
    qed
  qed
qed

text \<open>
  C37. The merchant's limits bound what a window and a period can cost. With limits of \<open>m\<close> calls per
  window and \<open>c\<close> units per billing period, take any sequence of usage charges to a subscription inside
  the current window and period. Among them at most as many are charged as the window's call count
  leaves of \<open>m\<close>, and the amounts charged add up to at most what the period's units leave of \<open>c\<close>.
\<close>

theorem usage_window_limits:
  assumes "serve (\<lambda>(E, a, ref). tx (charge_usage_one E i a ref)) qs s = (rs, t)"
    and "ch_usage_limits (v_charge s) i = Some l" "ul_rate_limit_max_calls l = Some m" "m \<le> u32_max"
      "ul_usage_cap_units l = Some c" "c < i128_max"
    and "ch_usage_state (v_charge s) i = Some st" "fits_i128 (us_current_period_usage_units st)"
      "us_current_period_usage_units st \<le> c" "us_window_start_timestamp st + ul_rate_window_secs l \<le> u64_max"
    and "su_sub (v_subs s) i = Some x"
    and "\<forall>(E, _) \<in> set qs. e_timestamp E < us_window_start_timestamp st + ul_rate_window_secs l \<and>
      usage_period (e_timestamp E) x \<le> us_period_index st"
  shows "length (filter (\<lambda>r. r = Ok UCR_Charged) rs) \<le> m - us_window_call_count st \<and>
    (\<Sum>((E, a, ref), r) \<leftarrow> zip qs rs. if r = Ok UCR_Charged then a else 0) \<le> c - us_current_period_usage_units st"
  using assms
proof (induction qs arbitrary: s st x rs)
  case Nil
  then show ?case by simp
next
  case (Cons q qs)
  obtain E a ref where q: "q = (E, a, ref)" by (cases q)
  obtain r v rs' where one: "tx (charge_usage_one E i a ref) s = (r, v)"
    and rest: "serve (\<lambda>(E, a, ref). tx (charge_usage_one E i a ref)) qs v = (rs', t)" and rs: "rs = r # rs'"
    using Cons.prems(1) by (auto simp: q split: prod.split_asm)
  have time: "e_timestamp E < us_window_start_timestamp st + ul_rate_window_secs l" "usage_period (e_timestamp E) x \<le> us_period_index st"
    using Cons.prems(12) by (auto simp: q)
  note step = usage_step [OF one Cons.prems(2-8,11) time(2) Cons.prems(10) time(1)]
  then obtain x' where x': "su_sub (v_subs v) i = Some x'" "s_start_time x' = s_start_time x"
    "s_interval_seconds x' = s_interval_seconds x" and lim: "ch_usage_limits (v_charge v) i = Some l" by blast
  have per: "usage_period n x' = usage_period n x" for n using x' by (simp add: usage_period_def)
  show ?case
  proof (cases "r = Ok UCR_Charged")
    case True
    let ?st = "st\<lparr>us_last_usage_timestamp := e_timestamp E, us_window_call_count := us_window_call_count st + 1,
        us_current_period_usage_units := us_current_period_usage_units st + a\<rparr>"
    have fits: "fits_i128 (us_current_period_usage_units ?st)"
      using step True Cons.prems(6,8) by (auto simp: fits_i128_def)
    have "length (filter (\<lambda>r. r = Ok UCR_Charged) rs') \<le> m - us_window_call_count ?st \<and>
      (\<Sum>((E, a, ref), r) \<leftarrow> zip qs rs'. if r = Ok UCR_Charged then a else 0) \<le> c - us_current_period_usage_units ?st"
      by (rule Cons.IH [OF rest lim Cons.prems(3-6) _ fits _ _ x'(1)])
        (use step True Cons.prems(10,12) in \<open>auto simp: per\<close>)
    with step True show ?thesis by (auto simp: rs q)
  next
    case False
    have "length (filter (\<lambda>r. r = Ok UCR_Charged) rs') \<le> m - us_window_call_count st \<and>
      (\<Sum>((E, a, ref), r) \<leftarrow> zip qs rs'. if r = Ok UCR_Charged then a else 0) \<le> c - us_current_period_usage_units st"
      by (rule Cons.IH [OF rest lim Cons.prems(3-6) _ Cons.prems(8,9,10) x'(1)])
        (use step False Cons.prems(12) in \<open>auto simp: per\<close>)
    with False show ?thesis by (simp add: rs q)
  qed
qed

section \<open>A metered subscription\<close>

definition meter_sub :: subscription where
  "meter_sub = stored_sub\<lparr>s_usage_enabled := True\<rparr>"

definition meter_limits :: usage_limits where
  "meter_limits = \<lparr>ul_merchant = Addr 5, ul_rate_limit_max_calls = Some 2, ul_rate_window_secs = 3600,
     ul_burst_min_interval_secs = 0, ul_usage_cap_units = Some 1500\<rparr>"

definition meter_state :: usage_state where
  "meter_state = \<lparr>us_last_usage_timestamp = 999000, us_window_start_timestamp = 999000, us_window_call_count = 1,
     us_current_period_usage_units = 400, us_period_index = 10\<rparr>"

definition meter_vault :: vault where
  "meter_vault = fund_vault\<lparr>v_subs := (v_subs fund_vault)\<lparr>su_sub := [7 \<mapsto> meter_sub]\<rparr>,
     v_charge := (v_charge fund_vault)\<lparr>ch_usage_limits := [7 \<mapsto> meter_limits], ch_usage_state := [7 \<mapsto> meter_state]\<rparr>\<rparr>"

lemma meter_vault_sel [simp]:
  "su_sub (v_subs meter_vault) = [7 \<mapsto> meter_sub]" "v_admin meter_vault = v_admin fund_vault"
  "v_merchant meter_vault = v_merchant fund_vault" "v_ledger meter_vault = v_ledger fund_vault"
  "su_split_payees (v_subs meter_vault) = Map.empty" "ch_usage_limits (v_charge meter_vault) = [7 \<mapsto> meter_limits]"
  "ch_usage_state (v_charge meter_vault) = [7 \<mapsto> meter_state]" "ch_usage_ref (v_charge meter_vault) = (\<lambda>_ _. False)"
  "v_blocklist meter_vault a = None" "v_snap meter_vault = v_snap empty_vault" "v_stmt meter_vault = v_stmt empty_vault"
  by (simp_all add: meter_vault_def) (simp_all add: fund_vault_def empty_vault_def)

lemma meter_sub_sel [simp]:
  "s_merchant meter_sub = Addr 5" "s_token meter_sub = Addr 9" "s_status meter_sub = Active" "s_prepaid_balance meter_sub = 5000"
  "s_amount meter_sub = 1000" "s_usage_enabled meter_sub" "s_lifetime_cap meter_sub = Some 20000"
  "s_lifetime_charged meter_sub = 10000" "s_sub_account_label meter_sub = None" "s_interval_seconds meter_sub = 86400"
  "s_start_time meter_sub = 100000" "s_auto_renew meter_sub" "s_subscriber meter_sub = Addr 2" "\<not> is_expired meter_sub n k"
  "effective E v meter_sub = meter_sub"
  by (simp_all add: meter_sub_def stored_sub_def is_expired_def effective_def grace_over_def)

lemma meter_config [simp]:
  "config_value cf_fee_bps (v_admin fund_vault) = None" "config_value cf_treasury (v_admin fund_vault) = None"
  "config_value cf_fee_token (v_admin fund_vault) = None" "config_value cf_emergency_stop (v_admin fund_vault) = None"
  "m_fee_bps (v_merchant fund_vault) m = None" "m_usage_cap_override (v_merchant fund_vault) m = None"
  by (simp_all add: fund_vault_def empty_vault_def config_value_def empty_config_def schema_version_def)

lemma first_usage_snapshot:
  "\<exists>t. write_period_snapshot \<lparr>ps_subscription_id = i, ps_period_index = p, ps_period_start = 964000,
      ps_period_end = 1000000, ps_total_charged = 300, ps_total_usage_units = 300,
      ps_status_flags = SNAPSHOT_FLAG_USAGE_CHARGED, ps_finalized_at = 1000000\<rparr> (v_snap empty_vault) = (Ok (), t)"
  by (simp add: write_period_snapshot_def act_ok empty_vault_def Let_def mark_empty_def has_flag_def snapshot_flags
      snapshot_index_def evict_loop.simps MAX_BILLING_PERIOD_SNAPSHOTS_PER_SUBSCRIPTION_def)

lemma first_usage_statement:
  "\<exists>t. append_statement i a m tk Usage p now (v_stmt empty_vault) = (Ok (), t)"
  by (simp add: append_statement_def act_ok empty_vault_def Let_def checked_add_u32_def u32_max_def)

lemma meter_gates:
  "charge_open fund_env 7 1000000 meter_vault = (Ok meter_sub, meter_vault)"
  "merchant_flags meter_sub 1000000 None meter_vault = (Ok ((False, False), None), meter_vault)"
  "party_gates 7 1000000 meter_sub (False, False) meter_vault = (Ok (), meter_vault)"
  "usage_gates fund_env 7 1000000 300 meter_sub meter_vault = (Ok (), meter_vault)"
  by (simp_all add: charge_open_def or_charge_fail_def merchant_flags_def party_gates_def usage_gates_def expiry_gate_def
      usage_cap_used_up_def lifetime_cap_reached_def usage_renewal_gate_def act_run get_merchant_paused_def
      get_merchant_config_def is_merchant_in_vacation_def get_merchant_vacation_def is_blocklisted_def get_split_payees_def
      get_subscription_ok Let_def)

lemma meter_refusals:
  "\<exists>w. usage_refusals 7 1000000 300 [1] meter_sub meter_vault = (Ok None, w) \<and>
     w = meter_vault\<lparr>v_charge := (v_charge meter_vault)\<lparr>ch_usage_state := [7 \<mapsto> count_usage 1000000 300 meter_state]\<rparr>\<rparr>"
proof -
  have "initial_usage meter_vault 7 1000000 meter_sub = meter_state" by (simp add: initial_usage_def)
  moreover have "open_rate_window meter_limits 1000000 meter_state = meter_state" "\<not> burst_exceeded meter_limits 1000000 meter_state"
    "\<not> rate_exceeded meter_limits meter_state" "\<not> units_exceeded meter_limits meter_state 300"
    "us_period_index meter_state = 10" "usage_period 1000000 meter_sub = 10"
    by (simp_all add: open_rate_window_def meter_limits_def meter_state_def burst_exceeded_def rate_exceeded_def units_exceeded_def
        sat_add_u64_def u64_max_def usage_period_def fits_small)
  ultimately show ?thesis
    by (simp add: usage_refusals_def usage_limits_stage_def apply_usage_limits_def store_usage_state_def act_ok
        usage_state_of_ok roll_usage_period_ok rolled_def ex_bool_eq)
qed

lemma meter_charge: "\<exists>t. charge_usage_one fund_env 7 300 [1] meter_vault = (Ok UCR_Charged, t)"
proof -
  obtain w where ref: "usage_refusals 7 1000000 300 [1] meter_sub meter_vault = (Ok None, w)"
    and w: "w = meter_vault\<lparr>v_charge := (v_charge meter_vault)\<lparr>ch_usage_state := [7 \<mapsto> count_usage 1000000 300 meter_state]\<rparr>\<rparr>"
    using meter_refusals by blast
  let ?x = "meter_sub\<lparr>s_prepaid_balance := 4700\<rparr>"
  have fresh: "merchant_balance w m tk = 0" "token_earnings_of w m tk = no_earnings" for m tk
    by (simp_all add: w merchant_balance_def token_earnings_of_def) (simp_all add: fund_vault_def empty_vault_def)
  obtain v1 where one: "credit_merchant_balance_for_token (Addr 5) (Addr 9) 300 Usage w = (Ok (), v1)"
    using credit_succeeds [of 300 w "Addr 5" "Addr 9" Usage] by (auto simp: fresh fits_small no_earnings_def accrual_def)
  then have c: "credit_charge_payees fund_env 7 ?x 300 Usage w = (Ok (), v1)"
    by (simp add: credit_charge_payees_def act_ok w)
  from credit_frame [OF one] have v1: "v_stmt v1 = v_stmt empty_vault" "v_snap v1 = v_snap empty_vault"
    by (simp_all add: untouched_def w)
  obtain sn where sn: "write_period_snapshot \<lparr>ps_subscription_id = 7, ps_period_index = 10, ps_period_start = 964000,
      ps_period_end = 1000000, ps_total_charged = 300, ps_total_usage_units = 300,
      ps_status_flags = SNAPSHOT_FLAG_USAGE_CHARGED, ps_finalized_at = 1000000\<rparr> (v_snap empty_vault) = (Ok (), sn)"
    using first_usage_snapshot [of 7 10] by blast
  obtain st where st: "append_statement 7 300 (Addr 5) (Addr 9) Usage 1000000 1000000 (v_stmt empty_vault) = (Ok (), st)"
    using first_usage_statement [of 7 300 "Addr 5" "Addr 9" 1000000 1000000] by blast
  have "used_subscription 10300 ?x v1 = (Ok (?x\<lparr>s_lifetime_charged := 10300\<rparr>, False), v1)"
    by (simp add: used_subscription_def cap_now_reached_def lifetime_cap_reached_def act_run)
  moreover have "\<exists>t. record_usage 7 1000000 300 [1] None (?x\<lparr>s_lifetime_charged := 10300\<rparr>, False) v1 = (Ok UCR_Charged, t)"
    using sn st v1
    by (simp add: record_usage_def act_ok publish_fee_def publish_cap_reached_def usage_period_start_def usage_period_def
        checked_mul_u64_def checked_add_u64_def u64_max_def)
  ultimately obtain t where "settle_usage fund_env 7 1000000 300 [1] 10300 ?x w = (Ok UCR_Charged, t)"
    using c by (auto simp: settle_usage_def route_fee_bps_def get_merchant_fee_override_bps_def get_protocol_fee_bps_def get_treasury_def
        bnd_ok thn_ok basic_ok read_config_ok fee_split_def route_to_sub_account_def credit_fee_def w)
  then have "charge_usage_now fund_env 7 1000000 300 [1] meter_sub w = (Ok UCR_Charged, t)"
    by (simp add: charge_usage_now_def act_run safe_add_def checked_add_i128_def fits_small safe_sub_balance_def safe_sub_fits)
  then show ?thesis
    using meter_gates ref by (intro exI [of _ t]) (simp add: charge_usage_one_def bnd_run thn_def)
qed

theorem usage_charge_accounts_witness:
  "\<exists>t. charge_usage_one fund_env 7 300 [1] meter_vault = (Ok UCR_Charged, t) \<and>
     su_sub (v_subs t) 7 = Some (used_sub 300 meter_sub) \<and> merchant_balance t (Addr 5) (Addr 9) = merchant_balance meter_vault (Addr 5) (Addr 9) + 300"
proof -
  obtain t where run: "charge_usage_one fund_env 7 300 [1] meter_vault = (Ok UCR_Charged, t)" using meter_charge ..
  have "route_fee_bps (s_merchant meter_sub) meter_vault = (Ok 0, meter_vault)"
    by (simp add: route_fee_bps_def get_merchant_fee_override_bps_def get_protocol_fee_bps_def act_run)
  from usage_charge_accounts [OF run _ _ _ this, of "{Addr 5}"] run show ?thesis
    by (auto simp: fits_small payees_def label_balance_def MAX_SUBSCRIPTION_AMOUNT_def MAX_FEE_BIPS_def tdiv_nonneg i128_max_def)
qed

theorem usage_reference_pays_once_witness:
  "\<exists>t. charge_usage_one fund_env 7 300 [1] meter_vault = (Ok UCR_Charged, t) \<and>
     v_subs (snd (serve_usage (fund_env, 7, 200, [1]) t)) = v_subs t"
proof -
  obtain t where run: "charge_usage_one fund_env 7 300 [1] meter_vault = (Ok UCR_Charged, t)" using meter_charge ..
  with usage_reference_pays_once [OF run, of meter_sub "[]" "[]" t fund_env 200] show ?thesis by (simp add: fits_small)
qed

theorem usage_window_limits_witness:
  "\<exists>t. serve (\<lambda>(E, a, ref). tx (charge_usage_one E 7 a ref)) [(fund_env, 300, [1])] meter_vault = ([Ok UCR_Charged], t) \<and>
     (300::int) \<le> 1500 - us_current_period_usage_units meter_state"
proof -
  obtain t where run: "charge_usage_one fund_env 7 300 [1] meter_vault = (Ok UCR_Charged, t)" using meter_charge ..
  have ser: "serve (\<lambda>(E, a, ref). tx (charge_usage_one E 7 a ref)) [(fund_env, 300, [1])] meter_vault = ([Ok UCR_Charged], t)"
    by (simp add: run tx_def)
  from usage_window_limits [OF ser, of meter_limits 2 1500 meter_state meter_sub] ser show ?thesis
    by (simp add: meter_limits_def meter_state_def u32_max_def i128_max_def fits_small u64_max_def usage_period_def)
qed

end
