(* ===== verification/Disputes.thy ===== *)
theory Disputes
  imports Subscription_Claims
begin

text \<open>
  Disputes and escrow (\<^verbatim>\<open>src/dispute.rs\<close>): opening a dispute moves merchant money into an escrow, the admin
  responds and resolves; a cancellation escrow is claimed by the subscriber or turned into a dispute by the
  merchant.
\<close>

section \<open>Storage\<close>

definition mod_dispute :: "(dispute_store \<Rightarrow> dispute_store) \<Rightarrow> unit vm" where
  "mod_dispute f = modify (\<lambda>v. v\<lparr>v_dispute := f (v_dispute v)\<rparr>)"

definition dispute_counter :: "vault \<Rightarrow> nat" where
  "dispute_counter v = (case dp_next_id (v_dispute v) of Some n \<Rightarrow> n | None \<Rightarrow> 0)"

definition next_dispute_id :: "nat vm" where
  "next_dispute_id =
     bnd (gets dispute_counter) (\<lambda>current.
     thn (mod_dispute (\<lambda>d. d\<lparr>dp_next_id := Some ((current + 1) mod 2 ^ 64)\<rparr>))
     (ret current))"

definition read_dispute :: "nat \<Rightarrow> dispute vm" where
  "read_dispute dispute_id =
     bnd (gets (\<lambda>v. dp_dispute (v_dispute v) dispute_id)) (\<lambda>x. ok_or x E_DisputeNotFound)"

definition write_dispute :: "nat \<Rightarrow> dispute \<Rightarrow> unit vm" where
  "write_dispute dispute_id d = mod_dispute (\<lambda>p. p\<lparr>dp_dispute := (dp_dispute p)(dispute_id \<mapsto> d)\<rparr>)"

definition set_dispute_escrow :: "nat \<Rightarrow> dispute_escrow_ledger option \<Rightarrow> unit vm" where
  "set_dispute_escrow dispute_id x = mod_dispute (\<lambda>p. p\<lparr>dp_escrow := (dp_escrow p)(dispute_id := x)\<rparr>)"

definition set_subscription_dispute :: "nat \<Rightarrow> nat option \<Rightarrow> unit vm" where
  "set_subscription_dispute i x = mod_dispute (\<lambda>p. p\<lparr>dp_by_subscription := (dp_by_subscription p)(i := x)\<rparr>)"

definition do_get_dispute :: "nat \<Rightarrow> dispute vm" where
  "do_get_dispute dispute_id = read_dispute dispute_id"

definition do_get_subscription_dispute :: "nat \<Rightarrow> (nat option) vm" where
  "do_get_subscription_dispute i = gets (\<lambda>v. dp_by_subscription (v_dispute v) i)"

definition do_get_cancellation_escrow :: "nat \<Rightarrow> cancellation_escrow vm" where
  "do_get_cancellation_escrow i = bnd (gets (\<lambda>v. lf_escrow (v_life v) i)) (\<lambda>x. ok_or x E_EscrowNotFound)"

definition no_open_dispute :: "nat \<Rightarrow> unit vm" where
  "no_open_dispute i =
     bnd (do_get_subscription_dispute i) (\<lambda>x. check (x = None) E_DisputeAlreadyOpen)"

section \<open>Opening\<close>

definition new_dispute :: "env \<Rightarrow> nat \<Rightarrow> nat \<Rightarrow> address \<Rightarrow> address \<Rightarrow> int \<Rightarrow> bytes option \<Rightarrow> dispute" where
  "new_dispute E dispute_id i subscriber merchant amount evidence_hash =
     \<lparr>d_id = dispute_id, d_subscription_id = i, d_subscriber = subscriber, d_merchant = merchant,
       d_amount = amount, d_opened_at = e_timestamp E, d_status = Open, d_evidence_hash = evidence_hash,
       d_responded_at = None, d_admin_evidence_hash = None\<rparr>"

text \<open>The escrow, the dispute record and the index entry of a new dispute.\<close>

definition record_dispute :: "env \<Rightarrow> nat \<Rightarrow> nat \<Rightarrow> address \<Rightarrow> address \<Rightarrow> int \<Rightarrow> bytes option \<Rightarrow> unit vm" where
  "record_dispute E dispute_id i subscriber merchant amount evidence_hash =
     thn (set_dispute_escrow dispute_id (Some \<lparr>de_original_amount = amount, de_total_disbursed = 0\<rparr>))
     (thn (write_dispute dispute_id (new_dispute E dispute_id i subscriber merchant amount evidence_hash))
     (set_subscription_dispute i (Some dispute_id)))"

definition do_open_dispute :: "env \<Rightarrow> address \<Rightarrow> nat \<Rightarrow> int \<Rightarrow> bytes option \<Rightarrow> nat vm" where
  "do_open_dispute E subscriber i amount evidence_hash =
     thn (require_auth E subscriber)
     (if amount \<le> 0 then fail E_InvalidAmount
      else
        bnd (get_subscription E i) (\<lambda>sub.
        if s_subscriber sub \<noteq> subscriber then fail E_Unauthorized
        else
          thn (no_open_dispute i)
          (bnd (get_merchant_balance_by_token (s_merchant sub) (s_token sub)) (\<lambda>balance.
          if balance < amount then fail E_DisputeAmountExceedsMerchantBalance
          else
            bnd next_dispute_id (\<lambda>dispute_id.
            bnd (ok_or (checked_sub_i128 balance amount) E_Underflow) (\<lambda>new_balance.
            thn (set_merchant_balance (s_merchant sub) (s_token sub) new_balance)
            (thn (record_dispute E dispute_id i subscriber (s_merchant sub) amount evidence_hash)
            (thn (publish (DisputeEv (Ev_dispute_opened dispute_id i subscriber (s_merchant sub) amount
                evidence_hash (e_timestamp E) (s_token sub))))
            (ret dispute_id)))))))))"

section \<open>Responding and resolving\<close>

definition do_respond_dispute :: "env \<Rightarrow> address \<Rightarrow> nat \<Rightarrow> bytes option \<Rightarrow> unit vm" where
  "do_respond_dispute E admin dispute_id evidence_hash =
     thn (require_admin_auth E admin)
     (bnd (read_dispute dispute_id) (\<lambda>d.
     if d_status d \<noteq> Open then fail E_DisputeAlreadyResponded
     else
       thn (write_dispute dispute_id
         (d\<lparr>d_status := Responded, d_responded_at := Some (e_timestamp E), d_admin_evidence_hash := evidence_hash\<rparr>))
       (bnd (get_subscription E (d_subscription_id d)) (\<lambda>sub.
       publish (DisputeEv (Ev_dispute_responded dispute_id (d_subscription_id d) evidence_hash (e_timestamp E)
         (s_token sub)))))))"

definition resolved :: "dispute \<Rightarrow> bool" where
  "resolved d \<longleftrightarrow> d_status d = ResolvedToMerchant \<or> d_status d = ResolvedToSubscriber"

definition window_elapsed :: "env \<Rightarrow> dispute \<Rightarrow> nat \<Rightarrow> bool" where
  "window_elapsed E d window \<longleftrightarrow> e_timestamp E - d_opened_at d \<ge> window"

definition resolution_of :: "dispute \<Rightarrow> bool \<Rightarrow> bool \<Rightarrow> dispute_status" where
  "resolution_of d elapsed resolve_to_subscriber =
     (if d_status d = Open \<and> elapsed then ResolvedToSubscriber
      else if resolve_to_subscriber then ResolvedToSubscriber
      else ResolvedToMerchant)"

text \<open>
  What is left in the escrow is disbursed in full: the amount, and the ledger entry that stays (none once it is
  exhausted).
\<close>

definition disbursement :: "nat \<Rightarrow> (int \<times> dispute_escrow_ledger option) vm" where
  "disbursement dispute_id =
     bnd (gets (\<lambda>v. dp_escrow (v_dispute v) dispute_id)) (\<lambda>x.
     bnd (ok_or x E_InsufficientBalance) (\<lambda>escrow.
     bnd (ok_or (checked_sub_i128 (de_original_amount escrow) (de_total_disbursed escrow)) E_Underflow) (\<lambda>remaining.
     if remaining \<le> 0 then fail E_InsufficientBalance
     else
       bnd (ok_or (checked_add_i128 (de_total_disbursed escrow) remaining) E_Overflow) (\<lambda>new_total_disbursed.
       if new_total_disbursed > de_original_amount escrow then fail E_DisputeOverpay
       else ret (remaining,
         if new_total_disbursed = de_original_amount escrow then None
         else Some (escrow\<lparr>de_total_disbursed := new_total_disbursed\<rparr>))))))"

definition pay_resolution :: "env \<Rightarrow> dispute \<Rightarrow> address \<Rightarrow> dispute_status \<Rightarrow> int \<Rightarrow> unit vm" where
  "pay_resolution E d token resolution remaining =
     (if resolution = ResolvedToMerchant then
        bnd (get_merchant_balance_by_token (d_merchant d) token) (\<lambda>current.
        bnd (ok_or (checked_add_i128 current remaining) E_Overflow) (\<lambda>new_balance.
        set_merchant_balance (d_merchant d) token new_balance))
      else
        thn (sub_total_accounted token remaining)
        (token_transfer E token (e_self E) (d_subscriber d) remaining))"

definition close_dispute :: "env \<Rightarrow> nat \<Rightarrow> dispute \<Rightarrow> dispute_status \<Rightarrow> address \<Rightarrow> unit vm" where
  "close_dispute E dispute_id d resolution token =
     thn (write_dispute dispute_id (d\<lparr>d_status := resolution\<rparr>))
     (thn (set_subscription_dispute (d_subscription_id d) None)
     (publish (DisputeEv (Ev_dispute_resolved dispute_id (d_subscription_id d) resolution
        (if resolution = ResolvedToMerchant then ToMerchant else ToSubscriber) (e_timestamp E) token))))"

definition do_resolve_dispute :: "env \<Rightarrow> address \<Rightarrow> nat \<Rightarrow> bool \<Rightarrow> unit vm" where
  "do_resolve_dispute E admin dispute_id resolve_to_subscriber =
     thn (require_admin_auth E admin)
     (bnd (read_dispute dispute_id) (\<lambda>d.
     if resolved d then fail E_DisputeAlreadyResolved
     else
       bnd get_dispute_window_secs (\<lambda>window.
       if d_status d = Open \<and> \<not> window_elapsed E d window then fail E_DisputeNotResponded
       else
         let resolution = resolution_of d (window_elapsed E d window) resolve_to_subscriber in
         bnd (disbursement dispute_id) (\<lambda>(remaining, left).
         bnd (get_subscription E (d_subscription_id d)) (\<lambda>sub.
         thn (set_dispute_escrow dispute_id left)
         (thn (pay_resolution E d (s_token sub) resolution remaining)
         (close_dispute E dispute_id d resolution (s_token sub))))))))"

section \<open>Cancellation escrow\<close>

definition read_escrow :: "nat \<Rightarrow> cancellation_escrow vm" where
  "read_escrow i = bnd (gets (\<lambda>v. lf_escrow (v_life v) i)) (\<lambda>x. ok_or x E_EscrowNotFound)"

definition drop_escrow :: "nat \<Rightarrow> unit vm" where
  "drop_escrow i = mod_life (\<lambda>l. l\<lparr>lf_escrow := (lf_escrow l)(i := None)\<rparr>)"

definition do_claim_cancellation_escrow :: "env \<Rightarrow> address \<Rightarrow> nat \<Rightarrow> int vm" where
  "do_claim_cancellation_escrow E subscriber i =
     thn (require_auth E subscriber)
     (bnd (read_escrow i) (\<lambda>escrow.
     if subscriber \<noteq> ce_subscriber escrow then fail E_Unauthorized
     else if e_timestamp E < ce_released_at escrow then fail E_EscrowNotReleased
     else
       thn (no_open_dispute i)
       (thn (drop_escrow i)
       (thn (token_transfer E (ce_token escrow) (e_self E) (ce_subscriber escrow) (ce_amount escrow))
       (thn (sub_total_accounted (ce_token escrow) (ce_amount escrow))
       (thn (publish (DisputeEv (Ev_cancellation_escrow_released i (ce_subscriber escrow) (ce_amount escrow) (e_timestamp E))))
       (ret (ce_amount escrow))))))))"

definition do_lodge_escrow_dispute :: "env \<Rightarrow> address \<Rightarrow> nat \<Rightarrow> nat vm" where
  "do_lodge_escrow_dispute E merchant i =
     thn (require_auth E merchant)
     (bnd (read_escrow i) (\<lambda>escrow.
     if merchant \<noteq> ce_merchant escrow then fail E_Unauthorized
     else if e_timestamp E \<ge> ce_released_at escrow then fail E_EscrowNotReleased
     else
       thn (no_open_dispute i)
       (thn (drop_escrow i)
       (bnd next_dispute_id (\<lambda>dispute_id.
       thn (record_dispute E dispute_id i (ce_subscriber escrow) (ce_merchant escrow) (ce_amount escrow) None)
       (thn (publish (DisputeEv (Ev_cancellation_escrow_disputed i (ce_merchant escrow) dispute_id (ce_amount escrow)
          (e_timestamp E))))
       (thn (publish (DisputeEv (Ev_dispute_opened dispute_id i (ce_subscriber escrow) (ce_merchant escrow)
          (ce_amount escrow) None (e_timestamp E) (ce_token escrow))))
       (ret dispute_id))))))))"

section \<open>What each operation does when it succeeds\<close>

lemma mod_dispute_ok [act_ok]:
  "mod_dispute f s = (Ok u, t) \<longleftrightarrow> t = s\<lparr>v_dispute := f (v_dispute s)\<rparr>"
  by (simp add: mod_dispute_def act_ok)

lemma next_dispute_id_ok [act_ok]:
  "next_dispute_id s = (Ok n, t) \<longleftrightarrow> n = dispute_counter s \<and>
     t = s\<lparr>v_dispute := (v_dispute s)\<lparr>dp_next_id := Some ((n + 1) mod 2 ^ 64)\<rparr>\<rparr>"
  by (auto simp: next_dispute_id_def act_ok)

lemma read_dispute_ok [act_ok]:
  "read_dispute n s = (Ok d, t) \<longleftrightarrow> dp_dispute (v_dispute s) n = Some d \<and> t = s"
  by (auto simp: read_dispute_def act_ok)

lemma no_open_dispute_ok [act_ok]:
  "no_open_dispute i s = (Ok u, t) \<longleftrightarrow> dp_by_subscription (v_dispute s) i = None \<and> t = s"
  by (auto simp: no_open_dispute_def do_get_subscription_dispute_def act_ok)

lemma dispute_writes_ok [act_ok]:
  "write_dispute n d s = (Ok u, t) \<longleftrightarrow>
     t = s\<lparr>v_dispute := (v_dispute s)\<lparr>dp_dispute := (dp_dispute (v_dispute s))(n \<mapsto> d)\<rparr>\<rparr>"
  "set_dispute_escrow n x s = (Ok u, t) \<longleftrightarrow>
     t = s\<lparr>v_dispute := (v_dispute s)\<lparr>dp_escrow := (dp_escrow (v_dispute s))(n := x)\<rparr>\<rparr>"
  "set_subscription_dispute i y s = (Ok u, t) \<longleftrightarrow>
     t = s\<lparr>v_dispute := (v_dispute s)\<lparr>dp_by_subscription := (dp_by_subscription (v_dispute s))(i := y)\<rparr>\<rparr>"
  by (simp_all add: write_dispute_def set_dispute_escrow_def set_subscription_dispute_def act_ok)

lemma escrow_access_ok [act_ok]:
  "read_escrow i s = (Ok e, t) \<longleftrightarrow> lf_escrow (v_life s) i = Some e \<and> t = s"
  "drop_escrow i s = (Ok u, t) \<longleftrightarrow>
     t = s\<lparr>v_life := (v_life s)\<lparr>lf_escrow := (lf_escrow (v_life s))(i := None)\<rparr>\<rparr>"
  by (auto simp: read_escrow_def drop_escrow_def act_ok)

lemma disbursement_ok [act_ok]:
  "disbursement n s = (Ok p, t) \<longleftrightarrow> t = s \<and>
     (\<exists>e. dp_escrow (v_dispute s) n = Some e \<and> p = (de_original_amount e - de_total_disbursed e, None) \<and>
        fits_i128 (de_original_amount e - de_total_disbursed e) \<and> fits_i128 (de_original_amount e) \<and>
        0 < de_original_amount e - de_total_disbursed e)"
  by (cases "dp_escrow (v_dispute s) n")
    (auto simp: disbursement_def act_run checked_sub_i128_def checked_add_i128_def)

text \<open>The dispute store with a new dispute.\<close>

definition with_dispute :: "dispute_store \<Rightarrow> dispute \<Rightarrow> dispute_store" where
  "with_dispute p d = \<lparr>dp_dispute = (dp_dispute p)(d_id d \<mapsto> d),
     dp_by_subscription = (dp_by_subscription p)(d_subscription_id d \<mapsto> d_id d), dp_next_id = Some ((d_id d + 1) mod 2 ^ 64),
     dp_escrow = (dp_escrow p)(d_id d \<mapsto> \<lparr>de_original_amount = d_amount d, de_total_disbursed = 0\<rparr>)\<rparr>"

lemma with_dispute_sel [simp]:
  "dp_dispute (with_dispute p d) = (dp_dispute p)(d_id d \<mapsto> d)"
  "dp_by_subscription (with_dispute p d) = (dp_by_subscription p)(d_subscription_id d \<mapsto> d_id d)"
  "dp_escrow (with_dispute p d) = (dp_escrow p)(d_id d \<mapsto> \<lparr>de_original_amount = d_amount d, de_total_disbursed = 0\<rparr>)"
  by (simp_all add: with_dispute_def)

lemma new_dispute_sel [simp]:
  "d_id (new_dispute E n i a b m h) = n" "d_subscription_id (new_dispute E n i a b m h) = i"
  "d_subscriber (new_dispute E n i a b m h) = a" "d_merchant (new_dispute E n i a b m h) = b"
  "d_amount (new_dispute E n i a b m h) = m" "d_status (new_dispute E n i a b m h) = Open"
  by (simp_all add: new_dispute_def)

lemma open_dispute_effect:
  assumes "do_open_dispute E a i m h s = (Ok n, t)"
  obtains x where "su_sub (v_subs s) i = Some x" "s_subscriber x = a" "e_auth E a" "0 < m"
    "m \<le> merchant_balance s (s_merchant x) (s_token x)" "dp_by_subscription (v_dispute s) i = None"
    "n = dispute_counter s" "v_life t = v_life s" "v_subs t = v_subs s" "v_ledger t = v_ledger s"
    "v_merchant t = (v_merchant s)\<lparr>m_balance := (m_balance (v_merchant s))(s_merchant x :=
       (m_balance (v_merchant s) (s_merchant x))(s_token x \<mapsto> merchant_balance s (s_merchant x) (s_token x) - m))\<rparr>"
    "v_dispute t = with_dispute (v_dispute s) (new_dispute E n i a (s_merchant x) m h)"
  using assms
  by (auto simp: do_open_dispute_def with_dispute_def record_dispute_def set_merchant_balance_def checked_sub_i128_def act_ok split: if_split_asm)

lemma lodge_effect:
  assumes "do_lodge_escrow_dispute E a i s = (Ok n, t)"
  obtains e where "lf_escrow (v_life s) i = Some e" "ce_merchant e = a" "e_auth E a" "e_timestamp E < ce_released_at e"
    "dp_by_subscription (v_dispute s) i = None" "n = dispute_counter s" "v_subs t = v_subs s" "v_ledger t = v_ledger s"
    "v_life t = (v_life s)\<lparr>lf_escrow := (lf_escrow (v_life s))(i := None)\<rparr>" "v_merchant t = v_merchant s"
    "v_dispute t = with_dispute (v_dispute s) (new_dispute E n i (ce_subscriber e) a (ce_amount e) None)"
  using assms
  by (auto simp: do_lodge_escrow_dispute_def with_dispute_def record_dispute_def dispute_counter_def act_ok split: if_split_asm)

lemma claim_effect:
  assumes "do_claim_cancellation_escrow E a i s = (Ok m, t)"
  obtains e where "lf_escrow (v_life s) i = Some e" "ce_subscriber e = a" "e_auth E a" "ce_released_at e \<le> e_timestamp E"
    "dp_by_subscription (v_dispute s) i = None" "m = ce_amount e" "v_subs t = v_subs s" "v_merchant t = v_merchant s"
    "v_life t = (v_life s)\<lparr>lf_escrow := (lf_escrow (v_life s))(i := None)\<rparr>" "v_dispute t = v_dispute s"
    "e_transfer E (ce_token e) (e_self E) a m (v_ledger s) = Some (v_ledger t)"
  using assms
  by (auto simp: do_claim_cancellation_escrow_def sub_total_accounted_def act_ok split: if_split_asm)

lemma respond_effect:
  assumes "do_respond_dispute E a n h s = (Ok u, t)"
  obtains d where "dp_dispute (v_dispute s) n = Some d" "d_status d = Open" "e_auth E a"
    "v_dispute t = (v_dispute s)\<lparr>dp_dispute := (dp_dispute (v_dispute s))(n \<mapsto>
       d\<lparr>d_status := Responded, d_responded_at := Some (e_timestamp E), d_admin_evidence_hash := h\<rparr>)\<rparr>"
    "v_subs t = v_subs s" "v_life t = v_life s" "v_ledger t = v_ledger s" "v_merchant t = v_merchant s"
  using assms by (auto simp: do_respond_dispute_def act_ok split: if_split_asm)

definition dispute_window :: "vault \<Rightarrow> nat" where
  "dispute_window v = (case config_value cf_dispute_window_secs (v_admin v) of Some w \<Rightarrow> w | None \<Rightarrow> DISPUTE_WINDOW_SECS)"

lemma get_dispute_window_ok [act_ok]:
  "get_dispute_window_secs s = (Ok w, t) \<longleftrightarrow> w = dispute_window s \<and> t = s"
  by (auto simp: get_dispute_window_secs_def dispute_window_def act_ok)

lemma resolve_effect:
  assumes "do_resolve_dispute E a n b s = (Ok u, t)"
  obtains d x e r where "dp_dispute (v_dispute s) n = Some d" "\<not> resolved d" "e_auth E a" "config_value cf_admin (v_admin s) = Some a"
    "d_status d = Open \<longrightarrow> window_elapsed E d (dispute_window s)"
    "dp_escrow (v_dispute s) n = Some e" "su_sub (v_subs s) (d_subscription_id d) = Some x"
    "r = resolution_of d (window_elapsed E d (dispute_window s)) b"
    "v_dispute t = (v_dispute s)\<lparr>dp_dispute := (dp_dispute (v_dispute s))(n \<mapsto> d\<lparr>d_status := r\<rparr>),
       dp_by_subscription := (dp_by_subscription (v_dispute s))(d_subscription_id d := None),
       dp_escrow := (dp_escrow (v_dispute s))(n := None)\<rparr>" "v_subs t = v_subs s" "v_life t = v_life s"
    "if r = ResolvedToMerchant then v_ledger t = v_ledger s \<and> v_merchant t = (v_merchant s)\<lparr>m_balance := (m_balance (v_merchant s))(d_merchant d :=
       (m_balance (v_merchant s) (d_merchant d))(s_token x \<mapsto> merchant_balance s (d_merchant d) (s_token x) +
          (de_original_amount e - de_total_disbursed e)))\<rparr>
     else v_merchant t = v_merchant s \<and> e_transfer E (s_token x) (e_self E) (d_subscriber d)
            (de_original_amount e - de_total_disbursed e) (v_ledger s) = Some (v_ledger t)"
proof -
  from assms obtain d e x where "dp_dispute (v_dispute s) n = Some d" "\<not> resolved d" "e_auth E a" "config_value cf_admin (v_admin s) = Some a"
      "d_status d = Open \<longrightarrow> window_elapsed E d (dispute_window s)" "dp_escrow (v_dispute s) n = Some e"
      "su_sub (v_subs s) (d_subscription_id d) = Some x"
    and rest: "thn (set_dispute_escrow n None)
        (thn (pay_resolution E d (s_token x) (resolution_of d (window_elapsed E d (dispute_window s)) b)
           (de_original_amount e - de_total_disbursed e))
        (close_dispute E n d (resolution_of d (window_elapsed E d (dispute_window s)) b) (s_token x))) s = (Ok u, t)"
    unfolding do_resolve_dispute_def Let_def
    by (auto simp: bnd_ok [of get_dispute_window_secs] bnd_ok [of "disbursement n"] bnd_ok [of "get_subscription E i" for i]
        bnd_ok [of "read_dispute n"] get_dispute_window_ok disbursement_ok read_dispute_ok get_subscription_ok
        thn_ok [of "require_admin_auth E a"] require_admin_auth_ok basic_ok split: if_split_asm prod.split_asm)
  then show thesis
    by (intro that) (auto simp: pay_resolution_def close_dispute_def set_merchant_balance_def sub_total_accounted_def
        merchant_balance_def checked_add_i128_def act_ok split: if_split_asm)
qed

section \<open>Soundness of the dispute records\<close>

definition escrow_due :: "dispute \<Rightarrow> dispute_escrow_ledger option" where
  "escrow_due d = (if resolved d then None else Some \<lparr>de_original_amount = d_amount d, de_total_disbursed = 0\<rparr>)"

text \<open>
  Every unresolved dispute, and no other, holds an escrow of exactly its amount and is the open dispute of its
  subscription; a subscription has at most one.
\<close>

definition disputes_sound :: "vault \<Rightarrow> bool" where
  "disputes_sound v \<longleftrightarrow>
     (\<forall>n d. dp_dispute (v_dispute v) n = Some d \<longrightarrow> n < dispute_counter v \<and> 0 < d_amount d \<and>
        su_sub (v_subs v) (d_subscription_id d) \<noteq> None \<and>
        (\<not> resolved d \<longrightarrow> dp_by_subscription (v_dispute v) (d_subscription_id d) = Some n)) \<and>
     (\<forall>n. dp_escrow (v_dispute v) n = Option.bind (dp_dispute (v_dispute v) n) escrow_due) \<and>
     (\<forall>i n. dp_by_subscription (v_dispute v) i = Some n \<longrightarrow>
        (\<exists>d. dp_dispute (v_dispute v) n = Some d \<and> d_subscription_id d = i \<and> \<not> resolved d))"

lemma soundD:
  assumes "disputes_sound v"
  shows "dp_dispute (v_dispute v) n = Some d \<Longrightarrow> n < dispute_counter v"
    and "dp_dispute (v_dispute v) n = Some d \<Longrightarrow> 0 < d_amount d"
    and "dp_dispute (v_dispute v) n = Some d \<Longrightarrow> \<not> resolved d \<Longrightarrow>
      dp_by_subscription (v_dispute v) (d_subscription_id d) = Some n"
    and "dp_escrow (v_dispute v) n = Option.bind (dp_dispute (v_dispute v) n) escrow_due"
    and "dp_by_subscription (v_dispute v) i = Some n \<Longrightarrow>
      \<exists>d. dp_dispute (v_dispute v) n = Some d \<and> d_subscription_id d = i \<and> \<not> resolved d"
    and "dp_dispute (v_dispute v) n = Some d \<Longrightarrow> su_sub (v_subs v) (d_subscription_id d) \<noteq> None"
  using assms unfolding disputes_sound_def by blast+

text \<open>The parties: the vault is not a subscriber, and \<open>K\<close> holds every merchant.\<close>

definition parties_ok :: "address \<Rightarrow> address set \<Rightarrow> vault \<Rightarrow> bool" where
  "parties_ok self K v \<longleftrightarrow> finite K \<and>
     (\<forall>n d. dp_dispute (v_dispute v) n = Some d \<longrightarrow> d_subscriber d \<noteq> self \<and> d_merchant d \<in> K) \<and>
     (\<forall>i x. su_sub (v_subs v) i = Some x \<longrightarrow> s_merchant x \<in> K) \<and>
     (\<forall>i e. lf_escrow (v_life v) i = Some e \<longrightarrow> i \<le> u32_max \<and> 0 < ce_amount e \<and> ce_subscriber e \<noteq> self \<and>
        ce_merchant e \<in> K \<and> (\<exists>x. su_sub (v_subs v) i = Some x \<and> s_token x = ce_token e))"

definition held_for :: "vault \<Rightarrow> address \<Rightarrow> nat \<Rightarrow> int" where
  "held_for v tk n =
     (case (dp_dispute (v_dispute v) n, dp_escrow (v_dispute v) n) of
        (Some d, Some e) \<Rightarrow>
          (if map_option s_token (su_sub (v_subs v) (d_subscription_id d)) = Some tk
           then de_original_amount e - de_total_disbursed e else 0)
      | _ \<Rightarrow> 0)"

definition disputed :: "vault \<Rightarrow> address \<Rightarrow> int" where
  "disputed v tk = (\<Sum>n < dispute_counter v. held_for v tk n)"

text \<open>What the vault holds beyond all it owes to subscribers, merchants and the parties of disputes.\<close>

definition free_money :: "address \<Rightarrow> address set \<Rightarrow> vault \<Rightarrow> address \<Rightarrow> int" where
  "free_money self K v tk = surplus self v tk - (\<Sum>m\<in>K. merchant_balance v m tk) - disputed v tk"

lemma disputed_upd:
  assumes "\<And>m. m \<noteq> n \<Longrightarrow> held_for t tk m = held_for s tk m"
    and "n < dispute_counter s \<and> dispute_counter t = dispute_counter s \<or>
      n = dispute_counter s \<and> dispute_counter t = Suc n \<and> held_for s tk n = 0"
  shows "disputed t tk = disputed s tk - held_for s tk n + held_for t tk n"
  using assms(2)
proof (elim disjE conjE)
  assume n: "n < dispute_counter s" "dispute_counter t = dispute_counter s"
  then have "disputed t tk = held_for t tk n + (\<Sum>m\<in>{..<dispute_counter s} - {n}. held_for t tk m)"
    by (simp add: disputed_def sum.remove)
  also have "(\<Sum>m\<in>{..<dispute_counter s} - {n}. held_for t tk m) = (\<Sum>m\<in>{..<dispute_counter s} - {n}. held_for s tk m)"
    by (rule sum.cong) (simp_all add: assms(1))
  finally show ?thesis
    using n by (simp add: disputed_def sum.remove [of "{..<dispute_counter s}" n "held_for s tk"])
next
  assume n: "n = dispute_counter s" "dispute_counter t = Suc n" "held_for s tk n = 0"
  moreover have "(\<Sum>m<dispute_counter s. held_for t tk m) = (\<Sum>m<dispute_counter s. held_for s tk m)"
    by (rule sum.cong) (simp_all add: assms(1) n)
  ultimately show ?thesis by (simp add: disputed_def)
qed

lemma balances_upd:
  assumes "finite K" and "m \<in> K"
    and "m_balance (v_merchant t) = (m_balance (v_merchant s))(m := (m_balance (v_merchant s) m)(tk \<mapsto> b))"
  shows "(\<Sum>k\<in>K. merchant_balance t k tk') = (\<Sum>k\<in>K. merchant_balance s k tk') +
    (if tk' = tk then b - merchant_balance s m tk else 0)"
proof -
  have "(\<Sum>k\<in>K - {m}. merchant_balance t k tk') = (\<Sum>k\<in>K - {m}. merchant_balance s k tk')"
    by (rule sum.cong) (simp_all add: merchant_balance_def assms(3))
  moreover have "merchant_balance t m tk' = (if tk' = tk then b else merchant_balance s m tk')"
    by (simp add: merchant_balance_def assms(3))
  ultimately show ?thesis by (simp add: sum.remove [OF assms(1,2)])
qed

section \<open>Each operation keeps the records and the books\<close>

definition dispute_books :: "address \<Rightarrow> address set \<Rightarrow> address \<Rightarrow> int \<Rightarrow> vault \<Rightarrow> bool" where
  "dispute_books self K tk k v \<longleftrightarrow> disputes_sound v \<and> parties_ok self K v \<and> free_money self K v tk = k"

lemma recorded:
  assumes sound: "disputes_sound s" and few: "dispute_counter s < u64_max"
    and d: "d_id d = dispute_counter s" "d_status d = Open" "0 < d_amount d"
      "su_sub (v_subs s) (d_subscription_id d) = Some x" "dp_by_subscription (v_dispute s) (d_subscription_id d) = None"
    and t: "v_dispute t = with_dispute (v_dispute s) d" "v_subs t = v_subs s"
  shows "disputes_sound t" and "dispute_counter t = Suc (dispute_counter s)"
    and "disputed t tk = disputed s tk + (if tk = s_token x then d_amount d else 0)"
proof -
  from few have "(dispute_counter s + 1) mod 2 ^ 64 = Suc (dispute_counter s)" by (simp add: u64_max_def)
  then show next_id: "dispute_counter t = Suc (dispute_counter s)"
    by (simp add: dispute_counter_def t with_dispute_def d(1))
  from soundD(1) [OF sound, of "dispute_counter s"] have fresh: "dp_dispute (v_dispute s) (dispute_counter s) = None"
    by (cases "dp_dispute (v_dispute s) (dispute_counter s)") auto
  have "\<not> resolved d" by (simp add: resolved_def d(2))
  show "disputes_sound t"
    unfolding disputes_sound_def
  proof (intro conjI allI impI)
    fix n d'
    assume d': "dp_dispute (v_dispute t) n = Some d'"
    show "n < dispute_counter t"
      using d' soundD(1) [OF sound, of n d'] by (auto simp: t d next_id split: if_split_asm)
    show "0 < d_amount d'"
      using d' soundD(2) [OF sound, of n d'] d(3) by (auto simp: t split: if_split_asm)
    show "su_sub (v_subs t) (d_subscription_id d') \<noteq> None"
      using d' soundD(6) [OF sound, of n d'] d(4) by (auto simp: t split: if_split_asm)
    assume "\<not> resolved d'"
    with d' soundD(3) [OF sound, of n d'] d(5) show "dp_by_subscription (v_dispute t) (d_subscription_id d') = Some n"
      by (auto simp: t split: if_split_asm)
  next
    fix n
    from sound show "dp_escrow (v_dispute t) n = Option.bind (dp_dispute (v_dispute t) n) escrow_due"
      using \<open>\<not> resolved d\<close> by (simp add: disputes_sound_def t d escrow_due_def)
  next
    fix i n
    assume "dp_by_subscription (v_dispute t) i = Some n"
    with sound fresh \<open>\<not> resolved d\<close> show "\<exists>d'. dp_dispute (v_dispute t) n = Some d' \<and> d_subscription_id d' = i \<and> \<not> resolved d'"
      unfolding disputes_sound_def by (force simp: t d split: if_split_asm)
  qed
  have old: "held_for s tk (d_id d) = 0" by (simp add: held_for_def fresh d(1))
  moreover have "held_for t tk (d_id d) = (if tk = s_token x then d_amount d else 0)"
    by (simp add: held_for_def t d(4))
  moreover have "held_for t tk m = held_for s tk m" if "m \<noteq> d_id d" for m
    using that by (simp add: held_for_def t split: option.split)
  ultimately show "disputed t tk = disputed s tk + (if tk = s_token x then d_amount d else 0)"
    using disputed_upd [of "d_id d" t tk s] by (simp add: next_id d(1))
qed

text \<open>A change of the status of an unresolved dispute.\<close>

lemma amended:
  assumes sound: "disputes_sound s" and d: "dp_dispute (v_dispute s) n = Some d" "\<not> resolved d"
    and same: "d_subscription_id d' = d_subscription_id d" "d_amount d' = d_amount d"
    and x: "su_sub (v_subs s) (d_subscription_id d) = Some x" and subs: "v_subs t = v_subs s"
    and t: "v_dispute t = (v_dispute s)\<lparr>dp_dispute := (dp_dispute (v_dispute s))(n \<mapsto> d'),
       dp_by_subscription := (dp_by_subscription (v_dispute s))(d_subscription_id d := (if resolved d' then None else Some n)),
       dp_escrow := (dp_escrow (v_dispute s))(n := escrow_due d')\<rparr>"
  shows "disputes_sound t" and "dispute_counter t = dispute_counter s"
    and "disputed t tk = disputed s tk - (if resolved d' \<and> tk = s_token x then d_amount d else 0)"
proof -
  show counter: "dispute_counter t = dispute_counter s" by (simp add: dispute_counter_def t)
  note sd = soundD [OF sound]
  show "disputes_sound t"
    unfolding disputes_sound_def
  proof (intro conjI allI impI)
    fix k e
    assume e: "dp_dispute (v_dispute t) k = Some e"
    then show "k < dispute_counter t" "0 < d_amount e" "su_sub (v_subs t) (d_subscription_id e) \<noteq> None"
      using sd(1) [of k e] sd(2) [of k e] sd(6) [of k e] sd(1,2,6) [OF d(1)] same
      by (auto simp: counter t subs split: if_split_asm)
    assume "\<not> resolved e"
    with e sd(3) [of k e] sd(3) [OF d] same show "dp_by_subscription (v_dispute t) (d_subscription_id e) = Some k"
      by (auto simp: t split: if_split_asm)
  next
    fix k
    show "dp_escrow (v_dispute t) k = Option.bind (dp_dispute (v_dispute t) k) escrow_due"
      using sd(4) [of k] by (simp add: t)
  next
    fix i k
    assume "dp_by_subscription (v_dispute t) i = Some k"
    with sd(5) [of i k] d show "\<exists>e. dp_dispute (v_dispute t) k = Some e \<and> d_subscription_id e = i \<and> \<not> resolved e"
      by (auto simp: t same split: if_split_asm)
  qed
  have "held_for t tk m = held_for s tk m" if "m \<noteq> n" for m
    using that by (simp add: held_for_def t subs split: option.split)
  moreover have "held_for s tk n = (if tk = s_token x then d_amount d else 0)"
    "held_for t tk n = (if resolved d' then 0 else if tk = s_token x then d_amount d else 0)"
    using sd(4) [of n] d by (simp_all add: held_for_def t subs same x escrow_due_def)
  ultimately show "disputed t tk = disputed s tk - (if resolved d' \<and> tk = s_token x then d_amount d else 0)"
    using disputed_upd [of n t tk s] counter sd(1) [OF d(1)] by simp
qed

lemma disputed_frame:
  assumes "v_subs t = v_subs s" and "v_dispute t = v_dispute s"
  shows "disputed t tk = disputed s tk"
proof -
  from assms have "held_for t tk n = held_for s tk n" for n
    by (simp add: held_for_def split: option.split)
  with assms show ?thesis by (simp add: disputed_def dispute_counter_def)
qed

lemma surplus_frame:
  "v_subs t = v_subs s \<Longrightarrow> v_life t = v_life s \<Longrightarrow> v_ledger t = v_ledger s \<Longrightarrow> surplus self t tk = surplus self s tk"
  by (simp add: surplus_def owed_def)

lemma open_books:
  assumes host: "host_ok self E" and books: "dispute_books self K tk k s" and few: "dispute_counter s < u64_max"
    and run: "do_open_dispute E a i m h s = (Ok n, t)"
  shows "dispute_books self K tk k t \<and> dispute_counter t \<le> Suc (dispute_counter s)"
  using run
proof (rule open_dispute_effect)
  fix x :: subscription
  let ?d = "new_dispute E n i a (s_merchant x) m h"
  assume x: "su_sub (v_subs s) i = Some x" "e_auth E a" "0 < m" "dp_by_subscription (v_dispute s) i = None"
    and n: "n = dispute_counter s" and frame: "v_life t = v_life s" "v_subs t = v_subs s" "v_ledger t = v_ledger s"
    and merchant: "v_merchant t = (v_merchant s)\<lparr>m_balance := (m_balance (v_merchant s))(s_merchant x :=
       (m_balance (v_merchant s) (s_merchant x))(s_token x \<mapsto> merchant_balance s (s_merchant x) (s_token x) - m))\<rparr>"
    and dis: "v_dispute t = with_dispute (v_dispute s) ?d"
  from books have sound: "disputes_sound s" and parties: "parties_ok self K s" and k: "free_money self K s tk = k"
    by (simp_all add: dispute_books_def)
  then have new: "disputes_sound t" "dispute_counter t = Suc (dispute_counter s)"
      "disputed t tk = disputed s tk + (if tk = s_token x then m else 0)"
    using recorded [OF sound few, of ?d x t] x n frame dis by simp_all
  from parties x have "finite K" "s_merchant x \<in> K" by (auto simp: parties_ok_def)
  from balances_upd [OF this, of t s "s_token x" "merchant_balance s (s_merchant x) (s_token x) - m" tk] merchant new(3) surplus_frame [OF frame(2,1,3), of self tk] k
  have "free_money self K t tk = k" by (cases "tk = s_token x") (simp_all add: free_money_def)
  moreover have "parties_ok self K t"
    using parties x host \<open>s_merchant x \<in> K\<close> by (auto simp: parties_ok_def host_ok_def frame dis)
  ultimately show ?thesis using new by (simp add: dispute_books_def)
qed

lemma lodge_books:
  assumes host: "host_ok self E" and books: "dispute_books self K tk k s" and few: "dispute_counter s < u64_max"
    and run: "do_lodge_escrow_dispute E a i s = (Ok n, t)"
  shows "dispute_books self K tk k t \<and> dispute_counter t \<le> Suc (dispute_counter s)"
  using run
proof (rule lodge_effect)
  fix e :: cancellation_escrow
  let ?d = "new_dispute E n i (ce_subscriber e) a (ce_amount e) None"
  assume e: "lf_escrow (v_life s) i = Some e" "ce_merchant e = a" "dp_by_subscription (v_dispute s) i = None"
    and n: "n = dispute_counter s" and frame: "v_subs t = v_subs s" "v_ledger t = v_ledger s" "v_merchant t = v_merchant s"
    and esc: "v_life t = (v_life s)\<lparr>lf_escrow := (lf_escrow (v_life s))(i := None)\<rparr>"
    and dis: "v_dispute t = with_dispute (v_dispute s) ?d"
  from books have sound: "disputes_sound s" and parties: "parties_ok self K s" and k: "free_money self K s tk = k"
    by (simp_all add: dispute_books_def)
  from parties e(1) obtain x where x: "su_sub (v_subs s) i = Some x" "s_token x = ce_token e" "i \<le> u32_max"
      "0 < ce_amount e" "ce_subscriber e \<noteq> self" "ce_merchant e \<in> K"
    unfolding parties_ok_def by blast
  then have new: "disputes_sound t" "dispute_counter t = Suc (dispute_counter s)"
      "disputed t tk = disputed s tk + (if tk = s_token x then ce_amount e else 0)"
    using recorded [OF sound few, of ?d x t] e n frame dis by simp_all
  have "surplus self t tk = surplus self s tk + (if tk = s_token x then ce_amount e else 0)"
    using owed_upd(2) [OF x(3), of t s None tk] e x(2) by (simp add: surplus_def frame esc escrow_in_def)
  moreover have "(\<Sum>m\<in>K. merchant_balance t m tk) = (\<Sum>m\<in>K. merchant_balance s m tk)"
    by (simp add: merchant_balance_def frame)
  ultimately have "free_money self K t tk = k"
    using new(3) k by (simp add: free_money_def)
  moreover have "parties_ok self K t"
    using parties x e by (auto simp: parties_ok_def frame esc dis)
  ultimately show ?thesis using new by (simp add: dispute_books_def)
qed

lemma paid_out:
  assumes "host_ok self E" and "e_transfer E tk' (e_self E) a m (v_ledger s) = Some (v_ledger t)" and "a \<noteq> self"
  shows "v_ledger t tk self = v_ledger s tk self - (if tk = tk' then m else 0)"
  using transfer_out [of E tk' self a m "v_ledger s" "v_ledger t" tk] assms by (simp add: host_ok_def split: if_split_asm)

lemma claim_books:
  assumes host: "host_ok self E" and books: "dispute_books self K tk k s"
    and run: "do_claim_cancellation_escrow E a i s = (Ok m, t)"
  shows "dispute_books self K tk k t \<and> dispute_counter t \<le> Suc (dispute_counter s)"
  using run
proof (rule claim_effect)
  fix e :: cancellation_escrow
  assume e: "lf_escrow (v_life s) i = Some e" "ce_subscriber e = a" "m = ce_amount e"
    and frame: "v_subs t = v_subs s" "v_merchant t = v_merchant s" "v_dispute t = v_dispute s"
    and esc: "v_life t = (v_life s)\<lparr>lf_escrow := (lf_escrow (v_life s))(i := None)\<rparr>"
    and paid: "e_transfer E (ce_token e) (e_self E) a m (v_ledger s) = Some (v_ledger t)"
  from books have parties: "parties_ok self K s" by (simp add: dispute_books_def)
  with e(1) have x: "i \<le> u32_max" "ce_subscriber e \<noteq> self" unfolding parties_ok_def by blast+
  have "surplus self t tk = surplus self s tk"
    using owed_upd(2) [OF x(1), of t s None tk] e paid_out [OF host paid] x(2)
    by (simp add: surplus_def frame esc escrow_in_def)
  then have "free_money self K t tk = free_money self K s tk"
    using disputed_frame [OF frame(1,3), of tk] by (simp add: free_money_def merchant_balance_def frame)
  moreover have "parties_ok self K t"
    using parties by (auto simp: parties_ok_def frame esc)
  ultimately show ?thesis
    using books by (simp add: dispute_books_def disputes_sound_def dispute_counter_def frame)
qed

lemma respond_books:
  assumes books: "dispute_books self K tk k s" and run: "do_respond_dispute E a n h s = (Ok u, t)"
  shows "dispute_books self K tk k t \<and> dispute_counter t \<le> Suc (dispute_counter s)"
  using run
proof (rule respond_effect)
  fix d :: dispute
  let ?d = "d\<lparr>d_status := Responded, d_responded_at := Some (e_timestamp E), d_admin_evidence_hash := h\<rparr>"
  assume d: "dp_dispute (v_dispute s) n = Some d" "d_status d = Open"
    and dis: "v_dispute t = (v_dispute s)\<lparr>dp_dispute := (dp_dispute (v_dispute s))(n \<mapsto> ?d)\<rparr>"
    and frame: "v_subs t = v_subs s" "v_life t = v_life s" "v_ledger t = v_ledger s" "v_merchant t = v_merchant s"
  from books have sound: "disputes_sound s" and parties: "parties_ok self K s"
    by (simp_all add: dispute_books_def)
  have nres: "\<not> resolved d" "\<not> resolved ?d" by (simp_all add: resolved_def d)
  from soundD(6) [OF sound d(1)] obtain x where x: "su_sub (v_subs s) (d_subscription_id d) = Some x" by blast
  have "v_dispute t = (v_dispute s)\<lparr>dp_dispute := (dp_dispute (v_dispute s))(n \<mapsto> ?d),
       dp_by_subscription := (dp_by_subscription (v_dispute s))(d_subscription_id d := (if resolved ?d then None else Some n)),
       dp_escrow := (dp_escrow (v_dispute s))(n := escrow_due ?d)\<rparr>"
    using soundD(3) [OF sound d(1) nres(1)] soundD(4) [OF sound, of n] d(1) nres
    by (simp add: dis fun_upd_idem escrow_due_def)
  from amended [OF sound d(1) nres(1) _ _ x frame(1) this] nres
  have new: "disputes_sound t" "dispute_counter t = dispute_counter s" "disputed t tk = disputed s tk" by simp_all
  moreover have "parties_ok self K t"
    using parties d by (auto simp: parties_ok_def dis frame)
  ultimately show ?thesis
    using books surplus_frame [OF frame(1-3), of self tk]
    by (simp add: dispute_books_def free_money_def merchant_balance_def frame)
qed

lemma resolution_resolved [simp]: "resolved (d\<lparr>d_status := resolution_of c b a\<rparr>)"
  by (simp add: resolved_def resolution_of_def)

lemma resolve_books:
  assumes host: "host_ok self E" and books: "dispute_books self K tk k s" and run: "do_resolve_dispute E a n b s = (Ok u, t)"
  shows "dispute_books self K tk k t \<and> dispute_counter t \<le> Suc (dispute_counter s)"
  using run
proof (rule resolve_effect)
  fix d :: dispute and x :: subscription and e r
  assume d: "dp_dispute (v_dispute s) n = Some d" "\<not> resolved d" and e: "dp_escrow (v_dispute s) n = Some e"
    and x: "su_sub (v_subs s) (d_subscription_id d) = Some x" and r: "r = resolution_of d (window_elapsed E d (dispute_window s)) b"
    and dis: "v_dispute t = (v_dispute s)\<lparr>dp_dispute := (dp_dispute (v_dispute s))(n \<mapsto> d\<lparr>d_status := r\<rparr>),
       dp_by_subscription := (dp_by_subscription (v_dispute s))(d_subscription_id d := None),
       dp_escrow := (dp_escrow (v_dispute s))(n := None)\<rparr>" and frame: "v_subs t = v_subs s" "v_life t = v_life s"
    and paid: "if r = ResolvedToMerchant then v_ledger t = v_ledger s \<and> v_merchant t = (v_merchant s)\<lparr>m_balance := (m_balance (v_merchant s))(d_merchant d :=
       (m_balance (v_merchant s) (d_merchant d))(s_token x \<mapsto> merchant_balance s (d_merchant d) (s_token x) +
          (de_original_amount e - de_total_disbursed e)))\<rparr>
     else v_merchant t = v_merchant s \<and> e_transfer E (s_token x) (e_self E) (d_subscriber d)
            (de_original_amount e - de_total_disbursed e) (v_ledger s) = Some (v_ledger t)"
  from books have sound: "disputes_sound s" and parties: "parties_ok self K s" and k: "free_money self K s tk = k"
    by (simp_all add: dispute_books_def)
  from soundD(4) [OF sound, of n] d e have left: "de_original_amount e - de_total_disbursed e = d_amount d"
    by (auto simp: escrow_due_def)
  from parties d have party: "finite K" "d_merchant d \<in> K" "d_subscriber d \<noteq> self" unfolding parties_ok_def by blast+
  have "resolved (d\<lparr>d_status := r\<rparr>)" by (simp add: r)
  with amended [OF sound d, of "d\<lparr>d_status := r\<rparr>" x t] x frame dis
  have new: "disputes_sound t" "dispute_counter t = dispute_counter s"
      "disputed t tk = disputed s tk - (if tk = s_token x then d_amount d else 0)" by (simp_all add: escrow_due_def)
  have "surplus self t tk - (\<Sum>m\<in>K. merchant_balance t m tk) =
      surplus self s tk - (\<Sum>m\<in>K. merchant_balance s m tk) - (if tk = s_token x then d_amount d else 0)"
  proof (cases "r = ResolvedToMerchant")
    case True
    with paid left balances_upd [OF party(1,2), of t s "s_token x" "merchant_balance s (d_merchant d) (s_token x) + d_amount d" tk]
      surplus_frame [OF frame(1,2), of self tk] show ?thesis by simp
  next
    case False
    with paid left paid_out [OF host _ party(3), of "s_token x" "d_amount d" s t tk] show ?thesis
      by (simp add: surplus_def owed_def frame merchant_balance_def)
  qed
  moreover have "parties_ok self K t"
    using parties d by (auto simp: parties_ok_def dis frame)
  ultimately show ?thesis
    using new k by (simp add: dispute_books_def free_money_def)
qed

lemma resolve_refused:
  assumes "dp_dispute (v_dispute s) n = Some d" and "resolved d"
  shows "fst (do_resolve_dispute E a n b s) \<noteq> Ok ()"
  using assms by (cases "do_resolve_dispute E a n b s") (auto elim: resolve_effect)

section \<open>Any sequence of dispute operations\<close>

datatype dispute_step =
    D_Open address nat int "bytes option"
  | D_Respond address nat "bytes option"
  | D_Resolve address nat bool
  | D_Claim address nat
  | D_Lodge address nat

fun dispute_run :: "env \<Rightarrow> dispute_step \<Rightarrow> unit vm" where
  "dispute_run E (D_Open a i m h) = thn (do_open_dispute E a i m h) (ret ())"
| "dispute_run E (D_Respond a n h) = do_respond_dispute E a n h"
| "dispute_run E (D_Resolve a n b) = do_resolve_dispute E a n b"
| "dispute_run E (D_Claim a i) = thn (do_claim_cancellation_escrow E a i) (ret ())"
| "dispute_run E (D_Lodge a i) = thn (do_lodge_escrow_dispute E a i) (ret ())"

definition run_disputes :: "(env \<times> dispute_step) list \<Rightarrow> vault \<Rightarrow> vault" where
  "run_disputes ops s = foldl (\<lambda>v (E, op). snd (tx (dispute_run E op) v)) s ops"

lemma run_disputes_simps [simp]:
  "run_disputes [] s = s"
  "run_disputes ((E, op) # ops) s = run_disputes ops (snd (tx (dispute_run E op) s))"
  by (simp_all add: run_disputes_def)

lemma step_books:
  assumes "host_ok self E" and "dispute_books self K tk k s" and "dispute_counter s < u64_max"
    and "dispute_run E op s = (Ok (), t)"
  shows "dispute_books self K tk k t \<and> dispute_counter t \<le> Suc (dispute_counter s)"
  using assms(4)
  by (cases op) (auto simp: thn_ok basic_ok dest: open_books [OF assms(1-3)] respond_books [OF assms(2)]
      resolve_books [OF assms(1,2)] claim_books [OF assms(1,2)] lodge_books [OF assms(1-3)])

lemma run_books:
  assumes "\<forall>(E, op) \<in> set ops. host_ok self E" and "dispute_books self K tk k s"
    and "dispute_counter s + length ops \<le> u64_max"
  shows "dispute_books self K tk k (run_disputes ops s)"
  using assms
proof (induction ops arbitrary: s)
  case (Cons op ops)
  obtain E d where op: "op = (E, d)" by (cases op)
  let ?t = "snd (tx (dispute_run E d) s)"
  have "dispute_books self K tk k ?t \<and> dispute_counter ?t \<le> Suc (dispute_counter s)"
  proof (cases rule: tx_cases [of "dispute_run E d" s])
    case 1
    with Cons.prems show ?thesis by simp
  next
    case (2 a)
    with Cons.prems op show ?thesis by (intro step_books [of self E K tk k s d]) simp_all
  qed
  with Cons op show ?case by simp
qed simp

lemma step_keeps_resolved:
  assumes "dispute_run E op s = (Ok (), t)" and "disputes_sound s"
    and "dp_dispute (v_dispute s) n = Some d" and "resolved d"
  shows "dp_dispute (v_dispute t) n = Some d"
proof -
  from soundD(1) [OF assms(2,3)] have old: "n \<noteq> dispute_counter s" by simp
  show ?thesis
  proof (cases op)
    case (D_Open a i m h)
    with assms(1) obtain k where "do_open_dispute E a i m h s = (Ok k, t)" by (auto simp: thn_ok basic_ok)
    with assms(3) old show ?thesis by (auto elim: open_dispute_effect)
  next
    case (D_Lodge a i)
    with assms(1) obtain k where "do_lodge_escrow_dispute E a i s = (Ok k, t)" by (auto simp: thn_ok basic_ok)
    with assms(3) old show ?thesis by (auto elim: lodge_effect)
  next
    case (D_Claim a i)
    with assms(1,3) show ?thesis by (auto simp: thn_ok basic_ok elim: claim_effect)
  next
    case (D_Respond a m h)
    with assms(1) have "do_respond_dispute E a m h s = (Ok (), t)" by simp
    then show ?thesis by (rule respond_effect) (use assms(3,4) in \<open>auto simp: resolved_def\<close>)
  next
    case (D_Resolve a m b)
    with assms(1) have "do_resolve_dispute E a m b s = (Ok (), t)" by simp
    then show ?thesis by (rule resolve_effect) (use assms(3,4) in auto)
  qed
qed

lemma run_keeps_resolved:
  assumes "\<forall>(E, op) \<in> set ops. host_ok self E" and "dispute_books self K tk k s"
    and "dispute_counter s + length ops \<le> u64_max"
    and "dp_dispute (v_dispute s) n = Some d" and "resolved d"
  shows "dp_dispute (v_dispute (run_disputes ops s)) n = Some d"
  using assms
proof (induction ops arbitrary: s)
  case (Cons op ops)
  obtain E p where op: "op = (E, p)" by (cases op)
  let ?t = "snd (tx (dispute_run E p) s)"
  have "dispute_books self K tk k ?t \<and> dispute_counter ?t \<le> Suc (dispute_counter s) \<and> dp_dispute (v_dispute ?t) n = Some d"
  proof (cases rule: tx_cases [of "dispute_run E p" s])
    case 1
    with Cons.prems show ?thesis by simp
  next
    case (2 a)
    with Cons.prems op step_books [of self E K tk k s p ?t] step_keeps_resolved [of E p s ?t n d] show ?thesis
      by (simp add: dispute_books_def)
  qed
  with Cons op show ?case by simp
qed simp

section \<open>A contested payment\<close>

definition late_env :: env where
  "late_env = fund_env\<lparr>e_timestamp := 3000000\<rparr>"

definition paid_vault :: vault where
  "paid_vault = fund_vault\<lparr>v_merchant := (v_merchant fund_vault)\<lparr>m_balance := (\<lambda>_. Map.empty)(Addr 5 := [Addr 9 \<mapsto> 800])\<rparr>\<rparr>"

definition contested_vault :: vault where
  "contested_vault = paid_vault\<lparr>
     v_merchant := (v_merchant fund_vault)\<lparr>m_balance := (\<lambda>_. Map.empty)(Addr 5 := [Addr 9 \<mapsto> 500])\<rparr>,
     v_dispute := with_dispute (v_dispute paid_vault) (new_dispute fund_env 0 7 (Addr 2) (Addr 5) 300 None)\<rparr>"

lemma late_env_sel [simp]:
  "e_timestamp late_env = 3000000" "e_self late_env = Addr 0" "e_auth late_env a \<longleftrightarrow> a \<noteq> Addr 0"
  "e_transfer late_env = sep41_transfer"
  by (simp_all add: late_env_def)

lemma late_host: "host_ok (Addr 0) late_env"
  using fund_host by (simp add: host_ok_def sep41_def)

lemma paid_vault_sel [simp]:
  "su_sub (v_subs paid_vault) = [7 \<mapsto> stored_sub]" "v_ledger paid_vault = v_ledger fund_vault"
  "merchant_balance paid_vault (Addr 5) (Addr 9) = 800" "v_admin paid_vault = v_admin fund_vault"
  "v_dispute paid_vault = \<lparr>dp_dispute = Map.empty, dp_by_subscription = Map.empty, dp_next_id = None, dp_escrow = Map.empty\<rparr>"
  "dispute_counter paid_vault = 0" "lf_escrow (v_life paid_vault) = Map.empty"
  by (simp_all add: paid_vault_def merchant_balance_def dispute_counter_def fund_vault_def empty_vault_def)

lemma contested_vault_sel [simp]:
  "su_sub (v_subs contested_vault) = [7 \<mapsto> stored_sub]" "v_ledger contested_vault = v_ledger fund_vault"
  "merchant_balance contested_vault (Addr 5) (Addr 9) = 500" "v_admin contested_vault = v_admin fund_vault"
  "v_dispute contested_vault = with_dispute (v_dispute paid_vault) (new_dispute fund_env 0 7 (Addr 2) (Addr 5) 300 None)"
  "dispute_counter contested_vault = 1" "lf_escrow (v_life contested_vault) = Map.empty"
  by (simp_all add: contested_vault_def merchant_balance_def dispute_counter_def with_dispute_def)

lemma fund_admin [simp]: "config_value cf_admin (v_admin fund_vault) = Some (Addr 3)"
  "dispute_window paid_vault = 1209600" "dispute_window contested_vault = 1209600"
  by (simp_all add: fund_vault_def config_value_def schema_version_def dispute_window_def DISPUTE_WINDOW_SECS_def
      empty_config_def)

lemma paid_sound: "disputes_sound paid_vault" "parties_ok (Addr 0) {Addr 5} paid_vault"
  by (simp_all add: disputes_sound_def parties_ok_def)

lemma contested_sound: "disputes_sound contested_vault" "parties_ok (Addr 0) {Addr 5} contested_vault"
proof -
  have "\<not> resolved (new_dispute E n i a b m h)" for E n i a b m h by (simp add: resolved_def)
  then show "disputes_sound contested_vault" "parties_ok (Addr 0) {Addr 5} contested_vault"
    by (auto simp: disputes_sound_def parties_ok_def escrow_due_def split: if_split_asm)
qed

text \<open>
  C20. Disputed money is conserved. Start from sound dispute records and take any sequence of opening,
  responding, resolving, claiming a cancellation escrow and turning one into a dispute, each accepted or
  rolled back. In every token the vault's holdings beyond what it owes (to subscribers, to cancellation
  escrows, to merchants and to open disputes) stay exactly the same, and the records stay sound: the unresolved
  disputes, and no others, hold an escrow of their full amount, and a subscription has at most one.
\<close>

theorem disputes_conserve_money:
  assumes "\<forall>(E, op) \<in> set ops. host_ok self E" and "disputes_sound s" and "parties_ok self K s"
    and "dispute_counter s + length ops \<le> u64_max" and "run_disputes ops s = t"
  shows "free_money self K t tk = free_money self K s tk \<and> disputes_sound t"
proof -
  from assms(2,3) have "dispute_books self K tk (free_money self K s tk) s" by (simp add: dispute_books_def)
  from run_books [OF assms(1) this assms(4)] assms(5) show ?thesis by (simp add: dispute_books_def)
qed

theorem disputes_conserve_money_witness:
  "free_money (Addr 0) {Addr 5} (run_disputes [(fund_env, D_Open (Addr 2) 7 300 None), (late_env, D_Resolve (Addr 3) 0 False)] paid_vault) (Addr 9) =
     free_money (Addr 0) {Addr 5} paid_vault (Addr 9)"
  using disputes_conserve_money [of "[(fund_env, D_Open (Addr 2) 7 300 None), (late_env, D_Resolve (Addr 3) 0 False)]" "Addr 0" paid_vault "{Addr 5}"]
    paid_sound fund_host late_host
  by (simp add: u64_max_def)

text \<open>
  C21. A dispute is settled once. Resolving needs the authorised admin. While the dispute is still \<open>Open\<close>, that is while nobody has responded
  at all, it also needs the elapsed window, and it goes to the subscriber whatever the admin asks; once there is a response, the admin chooses the side.
  The full disputed amount goes to the chosen side, and after any further dispute operations resolving it again is refused.
  A response has no deadline of its own: one that comes after the window still lets the admin pay the merchant.
\<close>

theorem dispute_settled_once:
  assumes "disputes_sound s" and "parties_ok self K s" and "dispute_counter s + length ops \<le> u64_max"
    and "host_ok self E" and "\<forall>(E, op) \<in> set ops. host_ok self E"
    and "do_resolve_dispute E a n b s = (Ok (), t)"
  shows "\<exists>d x r. dp_dispute (v_dispute s) n = Some d \<and> \<not> resolved d \<and> e_auth E a \<and>
      config_value cf_admin (v_admin s) = Some a \<and> (d_status d = Open \<longrightarrow> dispute_window s \<le> e_timestamp E - d_opened_at d) \<and>
      su_sub (v_subs s) (d_subscription_id d) = Some x \<and> dp_dispute (v_dispute t) n = Some (d\<lparr>d_status := r\<rparr>) \<and>
      r = (if d_status d = Open \<or> b then ResolvedToSubscriber else ResolvedToMerchant) \<and>
      (if r = ResolvedToSubscriber then
         v_merchant t = v_merchant s \<and> v_ledger t (s_token x) (d_subscriber d) = v_ledger s (s_token x) (d_subscriber d) + d_amount d
       else v_ledger t = v_ledger s \<and>
         merchant_balance t (d_merchant d) (s_token x) = merchant_balance s (d_merchant d) (s_token x) + d_amount d) \<and>
      fst (do_resolve_dispute E' a' n b' (run_disputes ops t)) \<noteq> Ok ()"
  using assms(6)
proof (rule resolve_effect)
  fix d :: dispute and x :: subscription and e r
  assume d: "dp_dispute (v_dispute s) n = Some d" "\<not> resolved d" and auth: "e_auth E a" "config_value cf_admin (v_admin s) = Some a"
    and window: "d_status d = Open \<longrightarrow> window_elapsed E d (dispute_window s)" and e: "dp_escrow (v_dispute s) n = Some e"
    and x: "su_sub (v_subs s) (d_subscription_id d) = Some x"
    and r: "r = resolution_of d (window_elapsed E d (dispute_window s)) b"
    and dis: "v_dispute t = (v_dispute s)\<lparr>dp_dispute := (dp_dispute (v_dispute s))(n \<mapsto> d\<lparr>d_status := r\<rparr>),
       dp_by_subscription := (dp_by_subscription (v_dispute s))(d_subscription_id d := None),
       dp_escrow := (dp_escrow (v_dispute s))(n := None)\<rparr>"
    and paid: "if r = ResolvedToMerchant then v_ledger t = v_ledger s \<and> v_merchant t = (v_merchant s)\<lparr>m_balance := (m_balance (v_merchant s))(d_merchant d :=
       (m_balance (v_merchant s) (d_merchant d))(s_token x \<mapsto> merchant_balance s (d_merchant d) (s_token x) +
          (de_original_amount e - de_total_disbursed e)))\<rparr>
     else v_merchant t = v_merchant s \<and> e_transfer E (s_token x) (e_self E) (d_subscriber d)
            (de_original_amount e - de_total_disbursed e) (v_ledger s) = Some (v_ledger t)"
  from soundD(4) [OF assms(1), of n] d e have left: "de_original_amount e - de_total_disbursed e = d_amount d"
    by (auto simp: escrow_due_def)
  from assms(2) d assms(4) have party: "d_subscriber d \<noteq> e_self E" "sep41 E" unfolding parties_ok_def host_ok_def by blast+
  have books: "dispute_books self K tk (free_money self K s tk) s" for tk
    using assms(1,2) by (simp add: dispute_books_def)
  have after: "dispute_books self K tk (free_money self K s tk) t" and counter: "dispute_counter t = dispute_counter s" for tk
    using resolve_books [OF assms(4) books assms(6), of tk] by (simp_all add: dispute_counter_def dis)
  have "dp_dispute (v_dispute (run_disputes ops t)) n = Some (d\<lparr>d_status := r\<rparr>)"
    by (rule run_keeps_resolved [OF assms(5) after]) (use assms(3) counter r in \<open>simp_all add: dis\<close>)
  then have again: "fst (do_resolve_dispute E' a' n b' (run_disputes ops t)) \<noteq> Ok ()"
    by (rule resolve_refused) (simp add: r)
  have "r = (if d_status d = Open \<or> b then ResolvedToSubscriber else ResolvedToMerchant)"
    using window by (auto simp: r resolution_of_def)
  moreover have "v_ledger t (s_token x) (d_subscriber d) = v_ledger s (s_token x) (d_subscriber d) + d_amount d" if "r \<noteq> ResolvedToMerchant"
    using paid that party(1) left by (auto dest!: sep41D [OF party(2)])
  ultimately show ?thesis
    using d auth window x paid left again
    by (intro exI [of _ d] exI [of _ x] exI [of _ r]) (auto simp: dis window_elapsed_def merchant_balance_def)
qed

lemma contested_resolve: "\<exists>t. do_resolve_dispute late_env (Addr 3) 0 False contested_vault = (Ok (), t)"
  by (simp add: do_resolve_dispute_def pay_resolution_def close_dispute_def sub_total_accounted_def Let_def act_ok
      resolved_def window_elapsed_def resolution_of_def sep41_transfer_def) (simp add: new_dispute_def int_bounds)

theorem dispute_settled_once_witness:
  "\<exists>t. do_resolve_dispute late_env (Addr 3) 0 False contested_vault = (Ok (), t) \<and> v_ledger t (Addr 9) (Addr 2) = 1000 \<and>
     fst (do_resolve_dispute late_env (Addr 3) 0 True (run_disputes [(late_env, D_Open (Addr 2) 7 100 None)] t)) \<noteq> Ok ()"
proof -
  obtain t where run: "do_resolve_dispute late_env (Addr 3) 0 False contested_vault = (Ok (), t)"
    using contested_resolve ..
  from dispute_settled_once [OF contested_sound _ late_host _ run, of "[(late_env, D_Open (Addr 2) 7 100 None)]"] late_host
  show ?thesis by (intro exI [of _ t]) (auto simp: run u64_max_def split: if_split_asm)
qed

text \<open>
  C22. Nobody can hold disputed money hostage: after any sequence of dispute operations, once the response window has
  elapsed the admin can settle every dispute nobody responded to, and then (as whenever the admin decides for
  the subscriber) the subscriber is paid the full amount in the subscription's token, provided only that the token
  accepts the payment.
\<close>

theorem dispute_can_be_settled:
  assumes "\<forall>(E, op) \<in> set ops. host_ok self E" and "disputes_sound s" and "parties_ok self K s"
    and "dispute_counter s + length ops \<le> u64_max" and "run_disputes ops s = w"
    and "dp_dispute (v_dispute w) n = Some d" and "\<not> resolved d" and "fits_i128 (d_amount d)"
    and "d_status d = Responded \<and> b \<or> dispute_window w \<le> e_timestamp E - d_opened_at d"
    and "d_status d = Open \<or> b"
    and "e_auth E a" and "config_value cf_admin (v_admin w) = Some a"
    and "su_sub (v_subs w) (d_subscription_id d) = Some x"
    and "e_transfer E (s_token x) (e_self E) (d_subscriber d) (d_amount d) (v_ledger w) = Some l"
  shows "\<exists>t. do_resolve_dispute E a n b w = (Ok (), t) \<and> v_ledger t = l \<and>
    dp_dispute (v_dispute t) n = Some (d\<lparr>d_status := ResolvedToSubscriber\<rparr>) \<and>
    dp_by_subscription (v_dispute t) (d_subscription_id d) = None"
proof -
  from assms(2,3) have "dispute_books self K tk (free_money self K s tk) s" for tk by (simp add: dispute_books_def)
  from run_books [OF assms(1) this assms(4)] assms(5) have sound: "disputes_sound w" by (simp add: dispute_books_def)
  from soundD(4) [OF sound, of n] assms(6,7)
  have esc: "dp_escrow (v_dispute w) n = Some \<lparr>de_original_amount = d_amount d, de_total_disbursed = 0\<rparr>"
    by (simp add: escrow_due_def)
  from soundD(2) [OF sound assms(6)] have pos: "0 < d_amount d" .
  from assms(9,10) have res: "resolution_of d (window_elapsed E d (dispute_window w)) b = ResolvedToSubscriber"
      "\<not> (d_status d = Open \<and> \<not> window_elapsed E d (dispute_window w))"
    by (auto simp: resolution_of_def window_elapsed_def)
  show ?thesis
    using assms(6,7,8,11-14) esc pos res
    by (auto simp: do_resolve_dispute_def pay_resolution_def close_dispute_def sub_total_accounted_def Let_def act_ok)
qed

lemma paid_open: "\<exists>w. do_open_dispute fund_env (Addr 2) 7 300 None paid_vault = (Ok 0, w)"
  by (simp add: do_open_dispute_def record_dispute_def set_merchant_balance_def checked_sub_i128_def int_bounds act_ok)

theorem dispute_can_be_settled_witness:
  "\<exists>w t. run_disputes [(fund_env, D_Open (Addr 2) 7 300 None)] paid_vault = w \<and>
     do_resolve_dispute late_env (Addr 3) 0 False w = (Ok (), t) \<and> v_ledger t (Addr 9) (Addr 2) = 1000"
proof -
  obtain w where w: "do_open_dispute fund_env (Addr 2) 7 300 None paid_vault = (Ok 0, w)" using paid_open ..
  have run: "run_disputes [(fund_env, D_Open (Addr 2) 7 300 None)] paid_vault = w"
    by (simp add: w tx_def thn_def bnd_def ret_def)
  from w have state: "dp_dispute (v_dispute w) 0 = Some (new_dispute fund_env 0 7 (Addr 2) (Addr 5) 300 None)"
    "su_sub (v_subs w) 7 = Some stored_sub" "v_ledger w = v_ledger fund_vault" "v_admin w = v_admin fund_vault"
    by (auto simp: do_open_dispute_def record_dispute_def set_merchant_balance_def act_ok split: if_split_asm)
  moreover have "dispute_window w = 1209600"
    using fund_admin(3) by (simp add: dispute_window_def state)
  moreover obtain l where l: "sep41_transfer (Addr 9) (Addr 0) (Addr 2) 300 (v_ledger w) = Some l" "l (Addr 9) (Addr 2) = 1000"
    by (simp add: state sep41_transfer_def)
  ultimately have "\<exists>t. do_resolve_dispute late_env (Addr 3) 0 False w = (Ok (), t) \<and> v_ledger t = l \<and>
      dp_dispute (v_dispute t) 0 = Some ((new_dispute fund_env 0 7 (Addr 2) (Addr 5) 300 None)\<lparr>d_status := ResolvedToSubscriber\<rparr>) \<and>
      dp_by_subscription (v_dispute t) (d_subscription_id (new_dispute fund_env 0 7 (Addr 2) (Addr 5) 300 None)) = None"
    by (intro dispute_can_be_settled [where x = stored_sub, OF _ paid_sound _ run])
      (use fund_host fund_admin(1) in \<open>simp_all add: resolved_def int_bounds, simp add: new_dispute_def\<close>)
  with run l(2) show ?thesis by blast
qed

end
