(* ===== verification/Governance.thy ===== *)
theory Governance
  imports Oracle Nonces
begin

text \<open>
  Governance (\<^verbatim>\<open>src/governance.rs\<close>): weighted guardians, proposals with a timelock, voting, execution and
  cancellation, and the multi-signature checks of \<^verbatim>\<open>admin.rs\<close> that rest on them. A Soroban \<open>Map\<close> is a list
  of entries in key order; addresses are numbered in the order of the host.
\<close>

section \<open>Ordered maps\<close>

fun map_set :: "'k::linorder \<Rightarrow> 'v \<Rightarrow> ('k \<times> 'v) list \<Rightarrow> ('k \<times> 'v) list" where
  "map_set k v [] = [(k, v)]"
| "map_set k v ((k', v') # m) =
     (if k < k' then (k, v) # (k', v') # m
      else if k = k' then (k, v) # m
      else (k', v') # map_set k v m)"

definition map_remove :: "'k \<Rightarrow> ('k \<times> 'v) list \<Rightarrow> ('k \<times> 'v) list" where
  "map_remove k m = filter (\<lambda>p. fst p \<noteq> k) m"

lemma map_of_map_set [simp]: "map_of (map_set k v m) = (map_of m)(k \<mapsto> v)"
  by (induction k v m rule: map_set.induct) (auto simp: fun_eq_iff)

lemma keys_map_set [simp]: "fst ` set (map_set k v m) = insert k (fst ` set m)"
  by (induction k v m rule: map_set.induct) auto

lemma sorted_map_set: "sorted_wrt (<) (map fst m) \<Longrightarrow> sorted_wrt (<) (map fst (map_set k v m))"
proof (induction k v m rule: map_set.induct)
  case (2 k v k' v' m)
  from 2(2) have m: "sorted_wrt (<) (map fst m)" "\<forall>x \<in> fst ` set m. k' < x" by simp_all
  consider "k < k'" | "k = k'" | "k' < k" by fastforce
  then show ?case
  proof cases
    case 1
    with m show ?thesis by fastforce
  next
    case 2
    with m show ?thesis by simp
  next
    case 3
    with 2(1) m have "sorted_wrt (<) (map fst (map_set k v m))" by fastforce
    moreover have "\<forall>x \<in> fst ` set (map_set k v m). k' < x"
      unfolding keys_map_set using m(2) 3 by simp
    moreover from 3 have "\<not> k < k'" "k \<noteq> k'" by auto
    ultimately show ?thesis by simp
  qed
qed simp

section \<open>Guardians\<close>

definition mod_gov :: "(governance_store \<Rightarrow> governance_store) \<Rightarrow> unit vm" where
  "mod_gov f = modify (\<lambda>v. v\<lparr>v_gov := f (v_gov v)\<rparr>)"

definition read_guardians :: "((address \<times> nat) list) vm" where
  "read_guardians = gets (\<lambda>v. g_guardians (v_gov v))"

definition write_guardians :: "(address \<times> nat) list \<Rightarrow> unit vm" where
  "write_guardians m = mod_gov (\<lambda>g. g\<lparr>g_guardians := m\<rparr>)"

definition add_guardian :: "address \<Rightarrow> nat \<Rightarrow> unit vm" where
  "add_guardian guardian weight =
     (if weight = 0 then fail E_InvalidInput
      else bnd read_guardians (\<lambda>m. write_guardians (map_set guardian weight m)))"

definition remove_guardian :: "address \<Rightarrow> unit vm" where
  "remove_guardian guardian = bnd read_guardians (\<lambda>m. write_guardians (map_remove guardian m))"

definition weight_of :: "vault \<Rightarrow> address \<Rightarrow> nat" where
  "weight_of v guardian = (case map_of (g_guardians (v_gov v)) guardian of Some w \<Rightarrow> w | None \<Rightarrow> 0)"

definition get_guardian_weight :: "address \<Rightarrow> nat vm" where
  "get_guardian_weight guardian = gets (\<lambda>v. weight_of v guardian)"

definition list_guardians :: "((address \<times> nat) list) vm" where
  "list_guardians = read_guardians"

text \<open>Weights are added with \<open>checked_add(..).unwrap_or(u32::MAX)\<close>.\<close>

definition total_weight :: "vault \<Rightarrow> nat" where
  "total_weight v = foldl sat_add_u32 0 (map snd (g_guardians (v_gov v)))"

definition calculate_total_weight :: "nat vm" where
  "calculate_total_weight = gets total_weight"

definition tally :: "vault \<Rightarrow> bool \<Rightarrow> (address \<times> bool) list \<Rightarrow> nat" where
  "tally v side votes =
     foldl sat_add_u32 0 (List.map_filter (\<lambda>(guardian, yes). if yes = side then map_of (g_guardians (v_gov v)) guardian else None) votes)"

definition calculate_quorum :: "proposal \<Rightarrow> (nat \<times> nat) vm" where
  "calculate_quorum p = gets (\<lambda>v. (tally v True (pr_votes p), tally v False (pr_votes p)))"

section \<open>Proposals\<close>

definition MIN_TIMELOCK_DELAY :: nat where "MIN_TIMELOCK_DELAY = 2 * 24 * 60 * 60"
definition MIN_QUORUM_BPS :: nat where "MIN_QUORUM_BPS = 6700"
definition MAX_PROTOCOL_FEE_BIPS :: nat where "MAX_PROTOCOL_FEE_BIPS = 500"

definition current_proposal_id :: "vault \<Rightarrow> nat" where
  "current_proposal_id v = (case g_next_id (v_gov v) of Some n \<Rightarrow> n | None \<Rightarrow> 0)"

definition get_current_proposal_id :: "nat vm" where
  "get_current_proposal_id = gets current_proposal_id"

definition get_next_proposal_id :: "nat vm" where
  "get_next_proposal_id =
     bnd get_current_proposal_id (\<lambda>n.
     thn (mod_gov (\<lambda>g. g\<lparr>g_next_id := Some ((n + 1) mod 2 ^ 64)\<rparr>))
     (ret n))"

definition read_proposal :: "nat \<Rightarrow> proposal vm" where
  "read_proposal n = bnd (gets (\<lambda>v. g_proposal (v_gov v) n)) (\<lambda>x. ok_or x E_NotFound)"

definition write_proposal :: "nat \<Rightarrow> proposal \<Rightarrow> unit vm" where
  "write_proposal n p = mod_gov (\<lambda>g. g\<lparr>g_proposal := (g_proposal g)(n \<mapsto> p)\<rparr>)"

definition get_proposal :: "nat \<Rightarrow> (proposal option) vm" where
  "get_proposal n = gets (\<lambda>v. g_proposal (v_gov v) n)"

definition invalidate_pending_proposals :: "unit vm" where
  "invalidate_pending_proposals =
     bnd get_current_proposal_id (\<lambda>cutoff. mod_gov (\<lambda>g. g\<lparr>g_invalidation_cutoff := Some cutoff\<rparr>))"

definition invalidation_cutoff :: "vault \<Rightarrow> nat" where
  "invalidation_cutoff v = (case g_invalidation_cutoff (v_gov v) of Some n \<Rightarrow> n | None \<Rightarrow> 0)"

definition ensure_proposal_not_invalidated :: "nat \<Rightarrow> unit vm" where
  "ensure_proposal_not_invalidated n =
     bnd (gets invalidation_cutoff) (\<lambda>cutoff. check (\<not> n < cutoff) E_ProposalInvalidated)"

definition validate_set_protocol_fee_proposal :: "nat \<Rightarrow> address option \<Rightarrow> unit res" where
  "validate_set_protocol_fee_proposal fee_bps treasury =
     (if fee_bps > MAX_PROTOCOL_FEE_BIPS then Err E_ProtocolFeeTooHigh
      else if treasury = None then Err E_InvalidInput
      else Ok ())"

definition validate_set_dispute_window_proposal :: "nat \<Rightarrow> unit res" where
  "validate_set_dispute_window_proposal window_secs =
     (if window_secs = 0 \<or> window_secs = u32_max then Err E_InvalidInput else Ok ())"

definition validate_proposal_config :: "proposal_kind \<Rightarrow> address option \<Rightarrow> nat \<Rightarrow> unit res" where
  "validate_proposal_config kind target2 target3 =
     (case kind of
        SetProtocolFee \<Rightarrow> validate_set_protocol_fee_proposal target3 target2
      | SetDisputeWindow \<Rightarrow> validate_set_dispute_window_proposal target3
      | _ \<Rightarrow> Ok ())"

definition new_proposal ::
  "env \<Rightarrow> nat \<Rightarrow> proposal_kind \<Rightarrow> address \<Rightarrow> address option \<Rightarrow> nat \<Rightarrow> nat \<Rightarrow> nat \<Rightarrow> proposal" where
  "new_proposal E n kind target target2 target3 quorum_bps eta =
     \<lparr>pr_id = n, pr_kind = kind, pr_target = target, pr_target2 = target2, pr_target3 = target3,
       pr_quorum_bps = quorum_bps, pr_votes = [], pr_eta = eta, pr_submitted_at = e_timestamp E,
       pr_executed = False\<rparr>"

definition do_submit_proposal ::
  "env \<Rightarrow> proposal_kind \<Rightarrow> address \<Rightarrow> address option \<Rightarrow> nat \<Rightarrow> nat \<Rightarrow> nat \<Rightarrow> nat vm" where
  "do_submit_proposal E kind target target2 target3 quorum_bps eta =
     (if quorum_bps > 10000 then fail E_InvalidInput
      else if kind = SetDisputeWindow \<and> target3 = 0 then fail E_InvalidInput
      else
        thn (lift (validate_proposal_config kind target2 target3))
        (bnd (ok_or (checked_add_u64 (e_timestamp E) MIN_TIMELOCK_DELAY) E_Overflow) (\<lambda>min_eta.
        if eta < min_eta then fail E_InvalidInput
        else
          bnd get_next_proposal_id (\<lambda>n.
          thn (write_proposal n (new_proposal E n kind target target2 target3 quorum_bps eta))
          (thn (publish (GovEv (Ev_proposal_submitted n kind target quorum_bps eta (e_timestamp E))))
          (ret n))))))"

definition do_vote_proposal :: "env \<Rightarrow> nat \<Rightarrow> bool \<Rightarrow> nat \<Rightarrow> unit vm" where
  "do_vote_proposal E n voted_yes nonce =
     bnd (require_stored_admin_auth E) (\<lambda>guardian.
     bnd (get_guardian_weight guardian) (\<lambda>weight.
     if weight = 0 then fail E_Unauthorized
     else
       bnd (read_proposal n) (\<lambda>p.
       thn (ensure_proposal_not_invalidated n)
       (if pr_executed p then fail E_InvalidInput
        else if e_timestamp E \<ge> pr_eta p then
          thn (publish (GovEv (Ev_vote_locked n guardian (pr_eta p) (e_timestamp E))))
          (fail E_InvalidInput)
        else
          thn (check_and_advance E guardian GovernanceVote nonce)
          (thn (write_proposal n (p\<lparr>pr_votes := map_set guardian voted_yes (pr_votes p)\<rparr>))
          (publish (GovEv (Ev_proposal_voted n guardian voted_yes weight (e_timestamp E)))))))))"

definition required_votes :: "nat \<Rightarrow> nat \<Rightarrow> nat" where
  "required_votes weight quorum_bps = (weight * max quorum_bps MIN_QUORUM_BPS div 10000) mod 2 ^ 32"

definition execution_gates :: "env \<Rightarrow> nat \<Rightarrow> proposal \<Rightarrow> (nat \<times> nat \<times> nat) vm" where
  "execution_gates E n p =
     thn (ensure_proposal_not_invalidated n)
     (if pr_executed p then fail E_InvalidInput
      else
        bnd (ok_or (checked_add_u64 (pr_submitted_at p) MIN_TIMELOCK_DELAY) E_Overflow) (\<lambda>min_execution_time.
        if e_timestamp E < min_execution_time then fail E_InvalidInput
        else if e_timestamp E < pr_eta p then fail E_InvalidInput
        else
          bnd (calculate_quorum p) (\<lambda>(votes_for, votes_against).
          bnd calculate_total_weight (\<lambda>weight.
          if votes_for < required_votes weight (pr_quorum_bps p) then fail E_InvalidInput
          else ret (votes_for, votes_against, weight)))))"

definition apply_proposal :: "env \<Rightarrow> proposal \<Rightarrow> unit vm" where
  "apply_proposal E p =
     (case pr_kind p of
        RotateAdmin \<Rightarrow> thn (write_config cf_admin_update (pr_target p)) invalidate_pending_proposals
      | SetProtocolFee \<Rightarrow>
          thn (write_config cf_fee_bps_update (pr_target3 p))
          (case pr_target2 p of Some treasury \<Rightarrow> write_config cf_treasury_update treasury | None \<Rightarrow> ret ())
      | UpgradeContract \<Rightarrow> fail E_InvalidInput
      | EmergencyStop \<Rightarrow> write_config cf_emergency_stop_update (pr_target3 p \<noteq> 0)
      | SetDisputeWindow \<Rightarrow> apply_dispute_window_secs E (pr_target3 p)
      | SetOracleConfig \<Rightarrow> set_oracle_address E (pr_target p)
      | _ \<Rightarrow> ret ())"

definition do_execute_proposal :: "env \<Rightarrow> nat \<Rightarrow> unit vm" where
  "do_execute_proposal E n =
     bnd (read_proposal n) (\<lambda>p.
     bnd (execution_gates E n p) (\<lambda>(votes_for, votes_against, weight).
     thn (apply_proposal E p)
     (thn (write_proposal n (p\<lparr>pr_executed := True\<rparr>))
     (publish (GovEv (Ev_proposal_executed n (pr_kind p) votes_for votes_against weight (e_timestamp E)))))))"

definition do_cancel_proposal :: "env \<Rightarrow> nat \<Rightarrow> unit vm" where
  "do_cancel_proposal E n =
     bnd (require_stored_admin_auth E) (\<lambda>admin.
     bnd (read_proposal n) (\<lambda>p.
     if pr_executed p then fail E_InvalidInput
     else
       thn (write_proposal n (p\<lparr>pr_executed := True\<rparr>))
       (publish (GovEv (Ev_proposal_cancelled n (e_timestamp E))))))"

section \<open>Multi-signature approval of admin operations\<close>

text \<open>
  The code names the second component of \<open>calculate_quorum\<close>, the weight of the votes against,
  \<open>total_weight\<close>.
\<close>

definition matches_request :: "proposal_kind \<Rightarrow> address \<Rightarrow> address option \<Rightarrow> nat \<Rightarrow> proposal \<Rightarrow> bool" where
  "matches_request kind target target2 target3 p \<longleftrightarrow>
     pr_kind p = kind \<and> pr_target p = target \<and> pr_target2 p = target2 \<and> pr_target3 p = target3 \<and> \<not> pr_executed p"

primrec find_approval ::
  "env \<Rightarrow> proposal_kind \<Rightarrow> address \<Rightarrow> address option \<Rightarrow> nat \<Rightarrow> nat list \<Rightarrow> nat vm" where
  "find_approval E kind target target2 target3 [] = fail E_MultiSigProposalNotFound"
| "find_approval E kind target target2 target3 (n # ns) =
     bnd (get_proposal n) (\<lambda>x.
     case x of
       Some p \<Rightarrow>
         if matches_request kind target target2 target3 p then
           if e_timestamp E < pr_eta p then fail E_MultiSigProposalExpired
           else
             bnd (calculate_quorum p) (\<lambda>(yes_weight, weight).
             if yes_weight \<ge> weight * pr_quorum_bps p div 10000 then ret n
             else fail E_MultiSigQuorumNotReached)
         else find_approval E kind target target2 target3 ns
     | None \<Rightarrow> find_approval E kind target target2 target3 ns)"

definition require_multisig_approval ::
  "env \<Rightarrow> proposal_kind \<Rightarrow> address \<Rightarrow> address option \<Rightarrow> nat \<Rightarrow> nat vm" where
  "require_multisig_approval E kind target target2 target3 =
     bnd list_guardians (\<lambda>guardians.
     if guardians = [] then ret 0
     else
       bnd get_current_proposal_id (\<lambda>current.
       find_approval E kind target target2 target3 (map (\<lambda>i. current - i) (filter (\<lambda>i. i \<le> current) [0..<10]))))"

definition consume_multisig_proposal :: "env \<Rightarrow> nat \<Rightarrow> unit vm" where
  "consume_multisig_proposal E n = (if n = 0 then ret () else do_execute_proposal E n)"

definition is_multisig_enabled :: "bool vm" where
  "is_multisig_enabled = bnd list_guardians (\<lambda>m. ret (m \<noteq> []))"

section \<open>What the operations do when they succeed\<close>

lemma gov_ok [act_ok]:
  "mod_gov f s = (Ok u, t) \<longleftrightarrow> t = s\<lparr>v_gov := f (v_gov s)\<rparr>"
  "read_guardians s = (Ok m, t) \<longleftrightarrow> m = g_guardians (v_gov s) \<and> t = s"
  "write_guardians m s = (Ok u, t) \<longleftrightarrow> t = s\<lparr>v_gov := (v_gov s)\<lparr>g_guardians := m\<rparr>\<rparr>"
  "get_guardian_weight a s = (Ok w, t) \<longleftrightarrow> w = weight_of s a \<and> t = s"
  "calculate_total_weight s = (Ok w, t) \<longleftrightarrow> w = total_weight s \<and> t = s"
  "calculate_quorum p s = (Ok q, t) \<longleftrightarrow> q = (tally s True (pr_votes p), tally s False (pr_votes p)) \<and> t = s"
  "get_current_proposal_id s = (Ok n, t) \<longleftrightarrow> n = current_proposal_id s \<and> t = s"
  "get_next_proposal_id s = (Ok n, t) \<longleftrightarrow> n = current_proposal_id s \<and>
     t = s\<lparr>v_gov := (v_gov s)\<lparr>g_next_id := Some ((n + 1) mod 2 ^ 64)\<rparr>\<rparr>"
  "read_proposal n s = (Ok p, t) \<longleftrightarrow> g_proposal (v_gov s) n = Some p \<and> t = s"
  "write_proposal n p s = (Ok u, t) \<longleftrightarrow> t = s\<lparr>v_gov := (v_gov s)\<lparr>g_proposal := (g_proposal (v_gov s))(n \<mapsto> p)\<rparr>\<rparr>"
  "get_proposal n s = (Ok x, t) \<longleftrightarrow> x = g_proposal (v_gov s) n \<and> t = s"
  "invalidate_pending_proposals s = (Ok u, t) \<longleftrightarrow>
     t = s\<lparr>v_gov := (v_gov s)\<lparr>g_invalidation_cutoff := Some (current_proposal_id s)\<rparr>\<rparr>"
  "ensure_proposal_not_invalidated n s = (Ok u, t) \<longleftrightarrow> invalidation_cutoff s \<le> n \<and> t = s"
  by (auto simp: mod_gov_def read_guardians_def write_guardians_def get_guardian_weight_def calculate_total_weight_def
      calculate_quorum_def get_current_proposal_id_def get_next_proposal_id_def read_proposal_def write_proposal_def
      get_proposal_def invalidate_pending_proposals_def ensure_proposal_not_invalidated_def act_ok)

section \<open>Runs of governance operations\<close>

datatype gov_step =
    G_Submit proposal_kind address "address option" nat nat nat
  | G_Vote nat bool nat
  | G_Execute nat
  | G_Cancel nat
  | G_AddGuardian address address nat
  | G_RemoveGuardian address address

text \<open>The entry points of \<^verbatim>\<open>lib.rs\<close>: only those for guardians check the admin first.\<close>

definition entry_add_guardian :: "env \<Rightarrow> address \<Rightarrow> address \<Rightarrow> nat \<Rightarrow> unit vm" where
  "entry_add_guardian E admin guardian weight = thn (require_admin_auth E admin) (add_guardian guardian weight)"

definition entry_remove_guardian :: "env \<Rightarrow> address \<Rightarrow> address \<Rightarrow> unit vm" where
  "entry_remove_guardian E admin guardian = thn (require_admin_auth E admin) (remove_guardian guardian)"

fun gov_run :: "env \<Rightarrow> gov_step \<Rightarrow> unit vm" where
  "gov_run E (G_Submit kind t1 t2 t3 q eta) = thn (do_submit_proposal E kind t1 t2 t3 q eta) (ret ())"
| "gov_run E (G_Vote n yes nonce) = do_vote_proposal E n yes nonce"
| "gov_run E (G_Execute n) = do_execute_proposal E n"
| "gov_run E (G_Cancel n) = do_cancel_proposal E n"
| "gov_run E (G_AddGuardian admin a w) = entry_add_guardian E admin a w"
| "gov_run E (G_RemoveGuardian admin a) = entry_remove_guardian E admin a"

definition run_gov :: "(env \<times> gov_step) list \<Rightarrow> vault \<Rightarrow> vault" where
  "run_gov ops s = foldl (\<lambda>v (E, op). snd (tx (gov_run E op) v)) s ops"

lemma run_gov_simps [simp]:
  "run_gov [] s = s"
  "run_gov ((E, op) # ops) s = run_gov ops (snd (tx (gov_run E op) s))"
  by (simp_all add: run_gov_def)

definition stored_admin :: "vault \<Rightarrow> address option" where
  "stored_admin v = config_value cf_admin (v_admin v)"

interpretation window_admin: other_key cf_dispute_window_secs cf_dispute_window_secs_update cf_admin
  by unfold_locales simp_all

interpretation oracle_admin: other_key cf_oracle cf_oracle_update cf_admin
  by unfold_locales simp_all

lemma execution_gates_ok:
  assumes "execution_gates E n p s = (Ok (f, g, w), t)"
  shows "t = s \<and> invalidation_cutoff s \<le> n \<and> \<not> pr_executed p \<and> pr_submitted_at p + MIN_TIMELOCK_DELAY \<le> e_timestamp E \<and>
    pr_eta p \<le> e_timestamp E \<and> f = tally s True (pr_votes p) \<and> required_votes (total_weight s) (pr_quorum_bps p) \<le> f"
  using assms
  by (auto simp: execution_gates_def checked_add_u64_def act_ok split: if_split_asm prod.split_asm)

lemma apply_proposal_ok:
  assumes "apply_proposal E p s = (Ok (), t)"
  shows "g_proposal (v_gov t) = g_proposal (v_gov s) \<and> g_guardians (v_gov t) = g_guardians (v_gov s) \<and>
    current_proposal_id t = current_proposal_id s \<and>
    (invalidation_cutoff t = current_proposal_id s \<or> invalidation_cutoff t = invalidation_cutoff s \<and> stored_admin t = stored_admin s)"
  using assms
  by (cases "pr_kind p")
    (auto simp: apply_proposal_def apply_dispute_window_secs_def get_dispute_window_secs_def set_oracle_address_def Let_def act_ok stored_admin_def
      current_proposal_id_def invalidation_cutoff_def fee_admin.other_after_put treasury_admin.other_after_put stop_admin.other_after_put
      window_admin.other_after_put oracle_admin.other_after_put split: option.split_asm if_split_asm)

lemma execute_effect:
  assumes "do_execute_proposal E n s = (Ok (), t)"
  obtains p where "g_proposal (v_gov s) n = Some p" "invalidation_cutoff s \<le> n" "\<not> pr_executed p"
    "pr_submitted_at p + MIN_TIMELOCK_DELAY \<le> e_timestamp E" "pr_eta p \<le> e_timestamp E"
    "required_votes (total_weight s) (pr_quorum_bps p) \<le> tally s True (pr_votes p)"
    "g_proposal (v_gov t) = (g_proposal (v_gov s))(n \<mapsto> p\<lparr>pr_executed := True\<rparr>)"
    "g_guardians (v_gov t) = g_guardians (v_gov s)" "current_proposal_id t = current_proposal_id s"
    "invalidation_cutoff t = current_proposal_id s \<or> invalidation_cutoff t = invalidation_cutoff s \<and> stored_admin t = stored_admin s"
proof -
  from assms obtain p q u where p: "g_proposal (v_gov s) n = Some p" and gates: "execution_gates E n p s = (Ok q, u)"
    and rest: "(case q of (f, g, w) \<Rightarrow> thn (apply_proposal E p) (thn (write_proposal n (p\<lparr>pr_executed := True\<rparr>))
       (publish (GovEv (Ev_proposal_executed n (pr_kind p) f g w (e_timestamp E)))))) u = (Ok (), t)"
    unfolding do_execute_proposal_def bnd_ok gov_ok by blast
  obtain f g w where q: "q = (f, g, w)" by (cases q)
  note g = execution_gates_ok [OF gates [unfolded q]]
  with rest q obtain v where v: "apply_proposal E p s = (Ok (), v)"
    and t: "t = v\<lparr>v_gov := (v_gov v)\<lparr>g_proposal := (g_proposal (v_gov v))(n \<mapsto> p\<lparr>pr_executed := True\<rparr>)\<rparr>,
      v_events := v_events v @ [GovEv (Ev_proposal_executed n (pr_kind p) f g w (e_timestamp E))]\<rparr>"
    by (auto simp: act_ok)
  show thesis
    by (rule that [of p]) (use p g apply_proposal_ok [OF v] in
      \<open>auto simp: t current_proposal_id_def invalidation_cutoff_def stored_admin_def\<close>)
qed

lemma new_proposal_sel [simp]:
  "pr_votes (new_proposal E n k t1 t2 t3 q eta) = []" "\<not> pr_executed (new_proposal E n k t1 t2 t3 q eta)"
  "pr_submitted_at (new_proposal E n k t1 t2 t3 q eta) = e_timestamp E" "pr_eta (new_proposal E n k t1 t2 t3 q eta) = eta"
  "pr_kind (new_proposal E n k t1 t2 t3 q eta) = k" "pr_target (new_proposal E n k t1 t2 t3 q eta) = t1"
  "pr_quorum_bps (new_proposal E n k t1 t2 t3 q eta) = q"
  "pr_target2 (new_proposal E n k t1 t2 t3 q eta) = t2" "pr_target3 (new_proposal E n k t1 t2 t3 q eta) = t3"
  by (simp_all add: new_proposal_def)

lemma submit_effect:
  assumes "do_submit_proposal E kind t1 t2 t3 q eta s = (Ok n, t)"
  shows "n = current_proposal_id s \<and> e_timestamp E + MIN_TIMELOCK_DELAY \<le> eta \<and> v_admin t = v_admin s \<and>
    v_gov t = (v_gov s)\<lparr>g_next_id := Some ((n + 1) mod 2 ^ 64),
      g_proposal := (g_proposal (v_gov s))(n \<mapsto> new_proposal E n kind t1 t2 t3 q eta)\<rparr>"
  using assms
  by (auto simp: do_submit_proposal_def checked_add_u64_def act_ok split: if_split_asm)

lemma vote_effect:
  assumes "do_vote_proposal E n yes nonce s = (Ok (), t)"
  obtains p a where "stored_admin s = Some a" "e_auth E a" "g_proposal (v_gov s) n = Some p" "\<not> pr_executed p"
    "e_timestamp E < pr_eta p" "v_admin t = v_admin s" "invalidation_cutoff s \<le> n"
    "v_gov t = (v_gov s)\<lparr>g_proposal := (g_proposal (v_gov s))(n \<mapsto> p\<lparr>pr_votes := map_set a yes (pr_votes p)\<rparr>)\<rparr>"
  using assms
  by (auto simp: do_vote_proposal_def act_ok stored_admin_def split: if_split_asm)

lemma cancel_effect:
  assumes "do_cancel_proposal E n s = (Ok (), t)"
  obtains p a where "stored_admin s = Some a" "e_auth E a" "g_proposal (v_gov s) n = Some p" "\<not> pr_executed p" "v_admin t = v_admin s"
    "v_gov t = (v_gov s)\<lparr>g_proposal := (g_proposal (v_gov s))(n \<mapsto> p\<lparr>pr_executed := True\<rparr>)\<rparr>"
  using assms
  by (auto simp: do_cancel_proposal_def act_ok stored_admin_def split: if_split_asm)

text \<open>
  Only the admin can vote, and a rotation invalidates what was voted before: on every proposal that can still be
  executed at most the current admin has voted.
\<close>

definition votes_sound :: "vault \<Rightarrow> bool" where
  "votes_sound v \<longleftrightarrow> (\<forall>n p. g_proposal (v_gov v) n = Some p \<longrightarrow>
     n < current_proposal_id v \<and> sorted_wrt (<) (map fst (pr_votes p)) \<and>
     (invalidation_cutoff v \<le> n \<longrightarrow> fst ` set (pr_votes p) \<subseteq> set_option (stored_admin v))) \<and>
     invalidation_cutoff v \<le> current_proposal_id v"

lemma votes_soundD:
  assumes "votes_sound v"
  shows "g_proposal (v_gov v) n = Some p \<Longrightarrow> n < current_proposal_id v"
    and "g_proposal (v_gov v) n = Some p \<Longrightarrow> sorted_wrt (<) (map fst (pr_votes p))"
    and "g_proposal (v_gov v) n = Some p \<Longrightarrow> invalidation_cutoff v \<le> n \<Longrightarrow> fst ` set (pr_votes p) \<subseteq> set_option (stored_admin v)"
    and "invalidation_cutoff v \<le> current_proposal_id v"
  using assms unfolding votes_sound_def by blast+

lemma votes_sound_changed:
  assumes "votes_sound s" and "g_proposal (v_gov s) n = Some p" and "g_proposal (v_gov t) = (g_proposal (v_gov s))(n \<mapsto> q)"
    and "current_proposal_id t = current_proposal_id s"
    and "invalidation_cutoff t = current_proposal_id s \<or> invalidation_cutoff t = invalidation_cutoff s \<and> stored_admin t = stored_admin s"
    and "sorted_wrt (<) (map fst (pr_votes q))"
    and "invalidation_cutoff s \<le> n \<Longrightarrow> fst ` set (pr_votes q) \<subseteq> set_option (stored_admin s)"
  shows "votes_sound t"
  unfolding votes_sound_def
proof (intro conjI allI impI)
  note sd = votes_soundD [OF assms(1)]
  fix k r
  assume r: "g_proposal (v_gov t) k = Some r"
  show k: "k < current_proposal_id t"
    using r sd(1) [of k r] sd(1) [OF assms(2)] by (auto simp: assms(3,4) split: if_split_asm)
  show "sorted_wrt (<) (map fst (pr_votes r))"
    using r sd(2) [of k r] assms(6) by (auto simp: assms(3) split: if_split_asm)
  assume "invalidation_cutoff t \<le> k"
  with k assms(4,5) have "invalidation_cutoff s \<le> k" "stored_admin t = stored_admin s" by auto
  with r sd(3) [of k r] assms(7) show "fst ` set (pr_votes r) \<subseteq> set_option (stored_admin t)"
    by (auto simp: assms(3) split: if_split_asm)
next
  show "invalidation_cutoff t \<le> current_proposal_id t"
    using assms(4,5) votes_soundD(4) [OF assms(1)] by auto
qed

lemma votes_sound_frame:
  "v_admin t = v_admin s \<Longrightarrow> v_gov t = (v_gov s)\<lparr>g_guardians := m\<rparr> \<Longrightarrow> votes_sound s \<Longrightarrow>
     votes_sound t \<and> current_proposal_id t = current_proposal_id s"
  by (simp add: votes_sound_def current_proposal_id_def invalidation_cutoff_def stored_admin_def)

lemma gov_step_sound:
  assumes "gov_run E op s = (Ok (), t)" and "votes_sound s" and "current_proposal_id s < u64_max"
  shows "votes_sound t \<and> current_proposal_id t \<le> Suc (current_proposal_id s)"
proof (cases op)
  case (G_Submit kind t1 t2 t3 q eta)
  with assms(1) obtain n where "do_submit_proposal E kind t1 t2 t3 q eta s = (Ok n, t)" by (auto simp: act_ok)
  note sub = submit_effect [OF this]
  with assms(3) have counter: "current_proposal_id t = Suc (current_proposal_id s)" and frame: "invalidation_cutoff t = invalidation_cutoff s"
      "stored_admin t = stored_admin s"
    by (simp_all add: current_proposal_id_def [of t] invalidation_cutoff_def stored_admin_def u64_max_def)
  from sub have new: "g_proposal (v_gov t) = (g_proposal (v_gov s))(current_proposal_id s \<mapsto>
      new_proposal E (current_proposal_id s) kind t1 t2 t3 q eta)" by simp
  from assms(2) show ?thesis
    unfolding votes_sound_def counter frame new by (auto simp: less_Suc_eq split: if_split_asm)
next
  case (G_Vote n yes nonce)
  with assms(1) have "do_vote_proposal E n yes nonce s = (Ok (), t)" by simp
  then obtain p a where v: "stored_admin s = Some a" "g_proposal (v_gov s) n = Some p" "v_admin t = v_admin s"
      "v_gov t = (v_gov s)\<lparr>g_proposal := (g_proposal (v_gov s))(n \<mapsto> p\<lparr>pr_votes := map_set a yes (pr_votes p)\<rparr>)\<rparr>"
    by (rule vote_effect)
  have "votes_sound t"
    by (rule votes_sound_changed [OF assms(2) v(2), of t "p\<lparr>pr_votes := map_set a yes (pr_votes p)\<rparr>"])
      (use v votes_soundD(2,3) [OF assms(2) v(2)] in \<open>auto simp: current_proposal_id_def invalidation_cutoff_def stored_admin_def sorted_map_set\<close>)
  with v(4) show ?thesis by (simp add: current_proposal_id_def)
next
  case (G_Execute n)
  with assms(1) have "do_execute_proposal E n s = (Ok (), t)" by simp
  then obtain p where x: "g_proposal (v_gov s) n = Some p"
      "g_proposal (v_gov t) = (g_proposal (v_gov s))(n \<mapsto> p\<lparr>pr_executed := True\<rparr>)" "current_proposal_id t = current_proposal_id s"
      "invalidation_cutoff t = current_proposal_id s \<or> invalidation_cutoff t = invalidation_cutoff s \<and> stored_admin t = stored_admin s"
    by (rule execute_effect)
  with votes_sound_changed [OF assms(2) x] votes_soundD(2,3) [OF assms(2) x(1)] show ?thesis by simp
next
  case (G_Cancel n)
  with assms(1) have "do_cancel_proposal E n s = (Ok (), t)" by simp
  then obtain p where v: "g_proposal (v_gov s) n = Some p" "v_admin t = v_admin s"
      "v_gov t = (v_gov s)\<lparr>g_proposal := (g_proposal (v_gov s))(n \<mapsto> p\<lparr>pr_executed := True\<rparr>)\<rparr>"
    by (rule cancel_effect)
  have "votes_sound t"
    by (rule votes_sound_changed [OF assms(2) v(1), of t "p\<lparr>pr_executed := True\<rparr>"])
      (use v votes_soundD(2,3) [OF assms(2) v(1)] in \<open>auto simp: current_proposal_id_def invalidation_cutoff_def stored_admin_def\<close>)
  with v(3) show ?thesis by (simp add: current_proposal_id_def)
next
  case (G_AddGuardian a g w)
  with assms(1) have "\<exists>m. v_gov t = (v_gov s)\<lparr>g_guardians := m\<rparr>" "v_admin t = v_admin s"
    by (auto simp: entry_add_guardian_def add_guardian_def act_ok split: if_split_asm)
  with assms(2) show ?thesis by (auto dest: votes_sound_frame)
next
  case (G_RemoveGuardian a g)
  with assms(1) have "\<exists>m. v_gov t = (v_gov s)\<lparr>g_guardians := m\<rparr>" "v_admin t = v_admin s"
    by (auto simp: entry_remove_guardian_def remove_guardian_def act_ok)
  with assms(2) show ?thesis by (auto dest: votes_sound_frame)
qed

lemma gov_tx_sound:
  assumes "votes_sound s" and "current_proposal_id s < u64_max"
  shows "votes_sound (snd (tx (gov_run E op) s)) \<and> current_proposal_id (snd (tx (gov_run E op) s)) \<le> Suc (current_proposal_id s)"
proof (cases rule: tx_cases [of "gov_run E op" s])
  case 1
  with assms show ?thesis by simp
next
  case (2 a)
  with assms show ?thesis by (intro gov_step_sound [of E op s]) simp_all
qed

lemma run_gov_sound:
  "votes_sound s \<Longrightarrow> current_proposal_id s + length ops \<le> u64_max \<Longrightarrow>
     votes_sound (run_gov ops s) \<and> current_proposal_id (run_gov ops s) \<le> current_proposal_id s + length ops"
proof (induction ops arbitrary: s)
  case (Cons op ops)
  obtain E x where op: "op = (E, x)" by (cases op)
  from Cons.prems gov_tx_sound [of s E x] Cons.IH [of "snd (tx (gov_run E x) s)"] op show ?case by simp
qed simp

lemma foldl_sat_mono: "a \<le> foldl sat_add_u32 a ws" if "a \<le> u32_max"
  using that
proof (induction ws arbitrary: a)
  case (Cons w ws)
  have "a \<le> sat_add_u32 a w" "sat_add_u32 a w \<le> u32_max" using Cons.prems by (simp_all add: sat_add_u32_def)
  with Cons.IH [of "sat_add_u32 a w"] show ?case by simp
qed simp

text \<open>The votes of a proposal only the admin voted on weigh no more than the admin.\<close>

lemma tally_single:
  assumes "fst ` set votes \<subseteq> set_option a" and "sorted_wrt (<) (map fst votes)"
  shows "tally v side votes \<le> (case a of Some x \<Rightarrow> weight_of v x | None \<Rightarrow> 0)"
proof (cases votes)
  case Nil
  then show ?thesis by (simp add: tally_def List.map_filter_def)
next
  case (Cons p ps)
  with assms(1) obtain x where x: "a = Some x" "fst p = x" by (cases a) auto
  have "ps = []"
  proof (rule ccontr)
    assume "ps \<noteq> []"
    then obtain q where "q \<in> set ps" by (cases ps) auto
    with Cons assms x show False by fastforce
  qed
  with Cons x show ?thesis
    by (cases p) (auto simp: tally_def List.map_filter_def weight_of_def sat_add_u32_def split: option.split)
qed

definition execution_witness :: "env \<Rightarrow> vault \<Rightarrow> proposal \<Rightarrow> bool" where
  "execution_witness E v p \<longleftrightarrow> \<not> pr_executed p \<and> pr_submitted_at p + MIN_TIMELOCK_DELAY \<le> e_timestamp E \<and>
     pr_eta p \<le> e_timestamp E \<and> required_votes (total_weight v) (pr_quorum_bps p) \<le> tally v True (pr_votes p)"

lemma gov_step_keeps_executed:
  assumes "gov_run E op s = (Ok (), t)" and "votes_sound s" and "g_proposal (v_gov s) n = Some p" and "pr_executed p"
  shows "g_proposal (v_gov t) n = Some p"
proof (cases op)
  case (G_Submit kind t1 t2 t3 q eta)
  with assms(1) obtain k where "do_submit_proposal E kind t1 t2 t3 q eta s = (Ok k, t)" by (auto simp: act_ok)
  note sub = submit_effect [OF this]
  from votes_soundD(1) [OF assms(2,3)] have "n \<noteq> current_proposal_id s" by simp
  with sub assms(3) show ?thesis by simp
next
  case (G_Vote k yes nonce)
  with assms(1) have "do_vote_proposal E k yes nonce s = (Ok (), t)" by simp
  then show ?thesis by (rule vote_effect) (use assms(3,4) in auto)
next
  case (G_Execute k)
  with assms(1) have "do_execute_proposal E k s = (Ok (), t)" by simp
  then show ?thesis by (rule execute_effect) (use assms(3,4) in auto)
next
  case (G_Cancel k)
  with assms(1) have "do_cancel_proposal E k s = (Ok (), t)" by simp
  then show ?thesis by (rule cancel_effect) (use assms(3,4) in auto)
next
  case (G_AddGuardian a g w)
  with assms(1,3) show ?thesis by (auto simp: entry_add_guardian_def add_guardian_def act_ok split: if_split_asm)
next
  case (G_RemoveGuardian a g)
  with assms(1,3) show ?thesis by (auto simp: entry_remove_guardian_def remove_guardian_def act_ok)
qed

lemma run_gov_keeps_executed:
  "votes_sound s \<Longrightarrow> current_proposal_id s + length ops \<le> u64_max \<Longrightarrow> g_proposal (v_gov s) n = Some p \<Longrightarrow> pr_executed p \<Longrightarrow>
     g_proposal (v_gov (run_gov ops s)) n = Some p"
proof (induction ops arbitrary: s)
  case (Cons op ops)
  obtain E x where op: "op = (E, x)" by (cases op)
  let ?t = "snd (tx (gov_run E x) s)"
  have "g_proposal (v_gov ?t) n = Some p"
  proof (cases rule: tx_cases [of "gov_run E x" s])
    case 1
    with Cons.prems show ?thesis by simp
  next
    case (2 a)
    with Cons.prems gov_step_keeps_executed [of E x s ?t n p] show ?thesis by simp
  qed
  with Cons gov_tx_sound [of s E x] op show ?case by simp
qed simp

lemma execute_again_refused:
  assumes "g_proposal (v_gov s) n = Some p" and "pr_executed p"
  shows "fst (do_execute_proposal E n s) \<noteq> Ok ()"
  using assms by (cases "do_execute_proposal E n s") (auto elim: execute_effect)

section \<open>A fee proposal\<close>

definition gov_vault :: vault where
  "gov_vault = empty_vault\<lparr>
     v_admin := (v_admin empty_vault)\<lparr>ad_persistent := empty_config\<lparr>cf_admin := Some (Addr 3)\<rparr>, ad_schema_persistent := Some 3\<rparr>,
     v_gov := \<lparr>g_guardians = [(Addr 3, 70), (Addr 4, 30)], g_proposal = Map.empty, g_next_id = None, g_invalidation_cutoff = None\<rparr>\<rparr>"

definition gov_late :: env where "gov_late = test_env\<lparr>e_timestamp := 1500000\<rparr>"

definition gov_ops :: "(env \<times> gov_step) list" where
  "gov_ops = [(test_env, G_Submit SetProtocolFee (Addr 6) (Some (Addr 6)) 200 5000 1400000), (test_env, G_Vote 0 True 0)]"

definition fee_proposal :: proposal where
  "fee_proposal = (new_proposal test_env 0 SetProtocolFee (Addr 6) (Some (Addr 6)) 200 5000 1400000)\<lparr>pr_votes := [(Addr 3, True)]\<rparr>"

definition voted_vault :: vault where
  "voted_vault = gov_vault\<lparr>v_nonce := (\<lambda>_. Map.empty)(Addr 3 := [10 \<mapsto> 1]),
     v_gov := \<lparr>g_guardians = [(Addr 3, 70), (Addr 4, 30)], g_proposal = [0 \<mapsto> fee_proposal], g_next_id = Some 1, g_invalidation_cutoff = None\<rparr>,
     v_events := [GovEv (Ev_proposal_submitted 0 SetProtocolFee (Addr 6) 5000 1400000 1000000),
       AdminEv (Ev_nonce_consumed (Addr 3) 10 0 1000000), GovEv (Ev_proposal_voted 0 (Addr 3) True 70 1000000)]\<rparr>"

lemma gov_vault_sel [simp]:
  "v_gov gov_vault = \<lparr>g_guardians = [(Addr 3, 70), (Addr 4, 30)], g_proposal = Map.empty, g_next_id = None, g_invalidation_cutoff = None\<rparr>"
  "v_admin gov_vault = (v_admin empty_vault)\<lparr>ad_persistent := empty_config\<lparr>cf_admin := Some (Addr 3)\<rparr>, ad_schema_persistent := Some 3\<rparr>"
  "v_nonce gov_vault = (\<lambda>_. Map.empty)" "v_events gov_vault = []"
  by (simp_all add: gov_vault_def empty_vault_def)

lemma gov_run_voted: "run_gov gov_ops gov_vault = voted_vault"
  by (simp add: gov_ops_def do_submit_proposal_def do_vote_proposal_def act_run validate_proposal_config_def
      validate_set_protocol_fee_proposal_def MAX_PROTOCOL_FEE_BIPS_def checked_add_u64_def MIN_TIMELOCK_DELAY_def u64_max_def
      get_next_proposal_id_def get_current_proposal_id_def current_proposal_id_def mod_gov_def write_proposal_def
      get_guardian_weight_def weight_of_def read_proposal_def ensure_proposal_not_invalidated_def invalidation_cutoff_def
      check_and_advance_def stored_nonce_def compute_next_nonce_def config_value_def Let_def voted_vault_def fee_proposal_def)

lemma voted_execute: "\<exists>u. do_execute_proposal gov_late 0 voted_vault = (Ok (), u)"
  by (simp add: do_execute_proposal_def execution_gates_def act_ok voted_vault_def invalidation_cutoff_def fee_proposal_def
      gov_late_def checked_add_u64_def MIN_TIMELOCK_DELAY_def u64_max_def tally_def List.map_filter_def total_weight_def
      required_votes_def MIN_QUORUM_BPS_def sat_add_u32_def u32_max_def apply_proposal_def)

text \<open>
  C23. The timelock and the quorum hold, and a proposal is executed at most once. Start without proposals and take
  any sequence of governance operations. A proposal that is executed then was submitted at least two days
  before, has reached its execution time, was not invalidated and carries the required weight of yes votes; after any further
  governance operations executing it again is refused.
\<close>

theorem proposal_executed_once:
  assumes "g_proposal (v_gov s) = Map.empty" and "invalidation_cutoff s \<le> current_proposal_id s"
    and "current_proposal_id s + length ops + length later \<le> u64_max" and "run_gov ops s = t"
    and "do_execute_proposal E n t = (Ok (), u)"
  shows "\<exists>p. g_proposal (v_gov t) n = Some p \<and> execution_witness E t p \<and> invalidation_cutoff t \<le> n \<and>
    fst (do_execute_proposal E' n (run_gov later u)) \<noteq> Ok ()"
proof -
  from assms(1,2) have "votes_sound s" by (simp add: votes_sound_def)
  from run_gov_sound [OF this, of ops] assms(3,4)
  have sound: "votes_sound t" and count: "current_proposal_id t + length later \<le> u64_max" by auto
  from assms(5) show ?thesis
  proof (rule execute_effect)
    fix p :: proposal
    assume p: "g_proposal (v_gov t) n = Some p" "invalidation_cutoff t \<le> n" "\<not> pr_executed p"
        "pr_submitted_at p + MIN_TIMELOCK_DELAY \<le> e_timestamp E" "pr_eta p \<le> e_timestamp E"
        "required_votes (total_weight t) (pr_quorum_bps p) \<le> tally t True (pr_votes p)"
      and u: "g_proposal (v_gov u) = (g_proposal (v_gov t))(n \<mapsto> p\<lparr>pr_executed := True\<rparr>)" "current_proposal_id u = current_proposal_id t"
        "invalidation_cutoff u = current_proposal_id t \<or> invalidation_cutoff u = invalidation_cutoff t \<and> stored_admin u = stored_admin t"
    have "votes_sound u"
      by (rule votes_sound_changed [OF sound p(1) u]) (use votes_soundD(2,3) [OF sound p(1)] in simp_all)
    from run_gov_keeps_executed [OF this, of later n "p\<lparr>pr_executed := True\<rparr>"] u count
    have "fst (do_execute_proposal E' n (run_gov later u)) \<noteq> Ok ()"
      by (intro execute_again_refused [of _ n "p\<lparr>pr_executed := True\<rparr>"]) simp_all
    with p show ?thesis by (auto simp: execution_witness_def)
  qed
qed

theorem proposal_executed_once_witness:
  "\<exists>u. run_gov gov_ops gov_vault = voted_vault \<and> do_execute_proposal gov_late 0 voted_vault = (Ok (), u) \<and>
     fst (do_execute_proposal gov_late 0 (run_gov [(gov_late, G_Cancel 0)] u)) \<noteq> Ok ()"
proof -
  obtain u where "do_execute_proposal gov_late 0 voted_vault = (Ok (), u)" using voted_execute ..
  with proposal_executed_once [OF _ _ _ gov_run_voted this, of "[(gov_late, G_Cancel 0)]"] gov_run_voted show ?thesis
    by (auto simp: invalidation_cutoff_def current_proposal_id_def u64_max_def gov_ops_def)
qed

text \<open>
  C26. Guardians other than the admin have no say. Start without proposals and take any sequence of
  governance operations, the rotation of the admin included. Whatever proposal is executed then, the weight of
  the current admin alone reaches the required quorum: without it, nothing can be executed however the
  guardians feel, and with it the admin needs nobody else.
\<close>

theorem only_admin_can_pass:
  assumes "g_proposal (v_gov s) = Map.empty" and "invalidation_cutoff s \<le> current_proposal_id s"
    and "current_proposal_id s + length ops \<le> u64_max" and "run_gov ops s = t"
    and "do_execute_proposal E n t = (Ok (), u)"
  shows "\<exists>p. g_proposal (v_gov t) n = Some p \<and>
    required_votes (total_weight t) (pr_quorum_bps p) \<le> (case stored_admin t of Some a \<Rightarrow> weight_of t a | None \<Rightarrow> 0)"
proof -
  from assms(1,2) have "votes_sound s" by (simp add: votes_sound_def)
  from run_gov_sound [OF this, of ops] assms(3,4) have sound: "votes_sound t" by simp
  from assms(5) obtain p where p: "g_proposal (v_gov t) n = Some p" "invalidation_cutoff t \<le> n"
      "required_votes (total_weight t) (pr_quorum_bps p) \<le> tally t True (pr_votes p)"
    by (rule execute_effect)
  from tally_single [OF votes_soundD(3,2) [OF sound], OF p(1,2) p(1), of t True] p show ?thesis by auto
qed

theorem only_admin_can_pass_witness:
  "\<exists>u. run_gov gov_ops gov_vault = voted_vault \<and> do_execute_proposal gov_late 0 voted_vault = (Ok (), u) \<and>
     required_votes (total_weight voted_vault) 5000 \<le> 70"
proof -
  obtain u where "do_execute_proposal gov_late 0 voted_vault = (Ok (), u)" using voted_execute ..
  moreover from only_admin_can_pass [OF _ _ _ gov_run_voted this] have "required_votes (total_weight voted_vault) 5000 \<le> 70"
    by (auto simp: invalidation_cutoff_def current_proposal_id_def u64_max_def gov_ops_def voted_vault_def fee_proposal_def
        new_proposal_def stored_admin_def config_value_def weight_of_def)
  ultimately show ?thesis using gov_run_voted by blast
qed

end
