(* ===== verification/Metadata.thy ===== *)
theory Metadata
  imports Governance Subscription_Claims Idempotency
begin

text \<open>
  Subscription metadata (\<^verbatim>\<open>src/metadata.rs\<close>): a bounded set of key-value pairs per subscription, written by
  a party of the subscription or through a message signed off chain. Strings are byte lists.
\<close>

section \<open>Checking strings\<close>

definition MAX_METADATA_KEYS :: nat where "MAX_METADATA_KEYS = 10"
definition MAX_METADATA_KEY_LENGTH :: nat where "MAX_METADATA_KEY_LENGTH = 32"
definition MAX_METADATA_VALUE_LENGTH :: nat where "MAX_METADATA_VALUE_LENGTH = 256"

text \<open>\<open>core::str::from_utf8\<close>: the well-formed byte sequences of the Unicode standard.\<close>

definition within :: "8 word \<Rightarrow> 8 word \<Rightarrow> 8 word \<Rightarrow> bool" where
  "within b lo hi \<longleftrightarrow> lo \<le> b \<and> b \<le> hi"

definition utf8_tail :: "8 word \<Rightarrow> bool" where
  "utf8_tail b \<longleftrightarrow> within b 128 191"

text \<open>What follows the first character, if there is a well-formed one.\<close>

fun utf8_char :: "bytes \<Rightarrow> bytes option" where
  "utf8_char [] = None"
| "utf8_char (b # s) =
     (if b < 128 then Some s
      else if within b 194 223 then
        (case s of c # r \<Rightarrow> if utf8_tail c then Some r else None | _ \<Rightarrow> None)
      else if within b 224 239 then
        (case s of c # d # r \<Rightarrow>
           if (if b = 224 then within c 160 191 else if b = 237 then within c 128 159 else utf8_tail c) \<and> utf8_tail d
           then Some r else None
         | _ \<Rightarrow> None)
      else if within b 240 244 then
        (case s of c # d # e # r \<Rightarrow>
           if (if b = 240 then within c 144 191 else if b = 244 then within c 128 143 else utf8_tail c) \<and>
             utf8_tail d \<and> utf8_tail e
           then Some r else None
         | _ \<Rightarrow> None)
      else None)"

lemma utf8_char_shorter: "utf8_char s = Some r \<Longrightarrow> length r < length s"
  by (cases s) (auto split: if_split_asm list.split_asm)

function utf8_valid :: "bytes \<Rightarrow> bool" where
  "utf8_valid s = (s = [] \<or> (case utf8_char s of Some r \<Rightarrow> utf8_valid r | None \<Rightarrow> False))"
  by auto
termination
  by (relation "measure length") (auto dest: utf8_char_shorter)

declare utf8_valid.simps [simp del]

text \<open>The loop over the bytes: \<open>None\<close> if a control character is rejected.\<close>

primrec printable_scan :: "bool \<Rightarrow> bytes \<Rightarrow> bool option" where
  "printable_scan seen [] = Some seen"
| "printable_scan seen (b # s) =
     (if b < 32 \<and> b \<noteq> 9 \<and> b \<noteq> 10 \<and> b \<noteq> 13 then None
      else printable_scan (seen \<or> b \<ge> 32) s)"

definition validate_utf8_string :: "bytes \<Rightarrow> unit res" where
  "validate_utf8_string s =
     (if length s = 0 then Err E_InvalidInput
      else if \<not> utf8_valid s then Err E_InvalidInput
      else if 0 \<in> set s then Err E_InvalidInput
      else case printable_scan False s of
        None \<Rightarrow> Err E_InvalidInput
      | Some has_non_control_char \<Rightarrow> if \<not> has_non_control_char then Err E_InvalidInput else Ok ())"

section \<open>What the check of strings accepts\<close>

text \<open>
  The Unicode side, independent of the code: scalar values (code points without the surrogates), their UTF-8 encoding, and texts as
  the bytes of a sequence of characters.
\<close>

definition scalar_value :: "nat \<Rightarrow> bool" where
  "scalar_value c \<longleftrightarrow> c < 0xD800 \<or> 0xE000 \<le> c \<and> c \<le> 0x10FFFF"

definition byte :: "nat \<Rightarrow> 8 word" where
  "byte n = word_of_nat n"

definition encode_char :: "nat \<Rightarrow> bytes" where
  "encode_char c =
     (if c < 0x80 then [byte c]
      else if c < 0x800 then [byte (0xC0 + c div 64), byte (0x80 + c mod 64)]
      else if c < 0x10000 then [byte (0xE0 + c div 4096), byte (0x80 + c div 64 mod 64), byte (0x80 + c mod 64)]
      else [byte (0xF0 + c div 262144), byte (0x80 + c div 4096 mod 64), byte (0x80 + c div 64 mod 64), byte (0x80 + c mod 64)])"

definition encode_text :: "nat list \<Rightarrow> bytes" where
  "encode_text cs = concat (map encode_char cs)"

text \<open>No control characters but tab, line feed and carriage return, so no NUL, and some character that is not one of these.\<close>

definition metadata_text :: "bytes \<Rightarrow> bool" where
  "metadata_text s \<longleftrightarrow> (\<exists>cs. s = encode_text cs \<and> (\<forall>c \<in> set cs. scalar_value c \<and> (0x20 \<le> c \<or> c \<in> {0x09, 0x0A, 0x0D})) \<and>
     (\<exists>c \<in> set cs. 0x20 \<le> c))"

lemma byte_bounds:
  "(b :: 8 word) < 128 \<longleftrightarrow> unat b < 128" "b < 32 \<longleftrightarrow> unat b < 32" "32 \<le> b \<longleftrightarrow> 32 \<le> unat b"
  by (simp_all add: word_less_nat_alt word_le_nat_alt)

lemma within_nat: "within b lo hi \<longleftrightarrow> unat lo \<le> unat b \<and> unat b \<le> unat hi"
  by (simp add: within_def word_le_nat_alt)

lemma unat_byte [simp]: "n < 256 \<Longrightarrow> unat (byte n) = n"
  by (simp add: byte_def unat_of_nat)

lemma byte_unat [simp]: "byte (unat b) = b"
  by (simp add: byte_def)

lemma word_literals:
  "(b :: 8 word) = 224 \<longleftrightarrow> unat b = 224" "b = 237 \<longleftrightarrow> unat b = 237" "b = 240 \<longleftrightarrow> unat b = 240" "b = 244 \<longleftrightarrow> unat b = 244"
  by (simp_all add: word_unat_eq_iff)

lemma byte_eq: "n < 256 \<Longrightarrow> byte n = b \<longleftrightarrow> n = unat b"
  by (auto simp: word_unat_eq_iff)

lemma digits64:
  fixes x y z w :: nat
  assumes "y < 64" "z < 64" "w < 64"
  shows "(x * 4096 + y * 64 + z) div 4096 = x" "(x * 4096 + y * 64 + z) div 64 mod 64 = y" "(x * 4096 + y * 64 + z) mod 64 = z"
    and "(x * 262144 + y * 4096 + z * 64 + w) div 262144 = x" "(x * 262144 + y * 4096 + z * 64 + w) div 4096 mod 64 = y"
      "(x * 262144 + y * 4096 + z * 64 + w) div 64 mod 64 = z" "(x * 262144 + y * 4096 + z * 64 + w) mod 64 = w"
proof -
  show "(x * 4096 + y * 64 + z) div 4096 = x" using assms by (intro div_nat_eqI) auto
  have "(x * 4096 + y * 64 + z) div 64 = x * 64 + y" using assms by (intro div_nat_eqI) auto
  then show "(x * 4096 + y * 64 + z) div 64 mod 64 = y" using assms by simp
  have "x * 4096 + y * 64 + z = (x * 64 + y) * 64 + z" by simp
  then show "(x * 4096 + y * 64 + z) mod 64 = z" using assms by (simp only: mod_mult_self3 mod_less)
  show "(x * 262144 + y * 4096 + z * 64 + w) div 262144 = x" using assms by (intro div_nat_eqI) auto
  have "(x * 262144 + y * 4096 + z * 64 + w) div 4096 = x * 64 + y" using assms by (intro div_nat_eqI) auto
  then show "(x * 262144 + y * 4096 + z * 64 + w) div 4096 mod 64 = y" using assms by simp
  have "(x * 262144 + y * 4096 + z * 64 + w) div 64 = (x * 64 + y) * 64 + z" using assms by (intro div_nat_eqI) auto
  then show "(x * 262144 + y * 4096 + z * 64 + w) div 64 mod 64 = z" using assms by (simp only: mod_mult_self3 mod_less)
  have "x * 262144 + y * 4096 + z * 64 + w = ((x * 64 + y) * 64 + z) * 64 + w" by simp
  then show "(x * 262144 + y * 4096 + z * 64 + w) mod 64 = w" using assms by (simp only: mod_mult_self3 mod_less)
qed

text \<open>One character: the decoder takes exactly the encodings of scalar values.\<close>

lemma utf8_char_encodes:
  assumes "utf8_char s = Some r"
  shows "\<exists>c. scalar_value c \<and> s = encode_char c @ r"
proof (cases s)
  case Nil
  with assms show ?thesis by simp
next
  case (Cons b s')
  consider "unat b < 128" | "194 \<le> unat b" "unat b \<le> 223" | "224 \<le> unat b" "unat b \<le> 239" | "240 \<le> unat b" "unat b \<le> 244"
    using assms Cons by (auto simp: byte_bounds within_nat split: if_split_asm)
  then show ?thesis
  proof cases
    case 1
    then show ?thesis
      using assms Cons by (intro exI [of _ "unat b"]) (auto simp: byte_bounds scalar_value_def encode_char_def)
  next
    case 2
    then obtain c where s': "s' = c # r" and c: "128 \<le> unat c" "unat c \<le> 191"
      using assms Cons by (auto simp: byte_bounds within_nat utf8_tail_def split: if_split_asm list.split_asm)
    from 2 c obtain x y where xy: "unat b = 192 + x" "unat c = 128 + y" "x < 32" "y < 64" "2 \<le> x"
      by (auto simp: le_iff_add)
    then have "(x * 64 + y) div 64 = x" "(x * 64 + y) mod 64 = y" "x * 64 + y < 2048" "128 \<le> x * 64 + y" by auto
    then show ?thesis
      using xy Cons s' by (intro exI [of _ "x * 64 + y"])
        (auto simp: scalar_value_def encode_char_def byte_eq eq_commute [of _ "byte _"])
  next
    case 3
    then obtain c d where s': "s' = c # d # r"
      using assms Cons by (auto simp: byte_bounds within_nat split: if_split_asm list.split_asm)
    have "(if unat b = 224 then within c 160 191 else if unat b = 237 then within c 128 159 else utf8_tail c) \<and> utf8_tail d"
      using assms Cons s' 3 by (simp add: byte_bounds within_nat word_literals split: if_split_asm)
    then have c: "128 \<le> unat c" "unat c \<le> 191" "unat b = 224 \<Longrightarrow> 160 \<le> unat c" "unat b = 237 \<Longrightarrow> unat c \<le> 159"
      and d: "128 \<le> unat d" "unat d \<le> 191"
      by (auto simp: within_nat utf8_tail_def split: if_split_asm)
    obtain x y z where xyz: "unat b = 224 + x" "unat c = 128 + y" "unat d = 128 + z" "x < 16" "y < 64" "z < 64"
        "x = 0 \<Longrightarrow> 32 \<le> y" "x = 13 \<Longrightarrow> y < 32"
      using 3 c d by (intro that [of "unat b - 224" "unat c - 128" "unat d - 128"]) (simp_all, linarith+)
    define n where "n = x * 4096 + y * 64 + z"
    have "2048 \<le> n" "n < 65536" "n < 55296 \<or> 57344 \<le> n"
      using xyz unfolding n_def by (cases "x = 0"; cases "x < 13"; cases "x = 13"; simp)+
    moreover have "n div 4096 = x" "n div 64 mod 64 = y" "n mod 64 = z"
      unfolding n_def using xyz(5,6) by (rule digits64 [where w = 0]; simp)+
    ultimately have "scalar_value n" "encode_char n = [b, c, d]"
      using xyz by (simp_all add: scalar_value_def encode_char_def byte_eq)
    then show ?thesis using Cons s' by (intro exI [of _ n]) simp
  next
    case 4
    then obtain c d e where s': "s' = c # d # e # r"
      using assms Cons by (auto simp: byte_bounds within_nat split: if_split_asm list.split_asm)
    have "(if unat b = 240 then within c 144 191 else if unat b = 244 then within c 128 143 else utf8_tail c) \<and> utf8_tail d \<and> utf8_tail e"
      using assms Cons s' 4 by (simp add: byte_bounds within_nat word_literals split: if_split_asm)
    then have c: "128 \<le> unat c" "unat c \<le> 191" "unat b = 240 \<Longrightarrow> 144 \<le> unat c" "unat b = 244 \<Longrightarrow> unat c \<le> 143"
      and d: "128 \<le> unat d" "unat d \<le> 191" and e: "128 \<le> unat e" "unat e \<le> 191"
      by (auto simp: within_nat utf8_tail_def split: if_split_asm)
    obtain x y z w where xyz: "unat b = 240 + x" "unat c = 128 + y" "unat d = 128 + z" "unat e = 128 + w"
        "x \<le> 4" "y < 64" "z < 64" "w < 64" "x = 0 \<Longrightarrow> 16 \<le> y" "x = 4 \<Longrightarrow> y < 16"
      using 4 c d e by (intro that [of "unat b - 240" "unat c - 128" "unat d - 128" "unat e - 128"]) (simp_all, linarith+)
    define n where "n = x * 262144 + y * 4096 + z * 64 + w"
    from xyz have "x = 0 \<and> 16 \<le> y \<or> 1 \<le> x" "x = 4 \<and> y < 16 \<or> x \<le> 3" by (cases "x = 0"; cases "x = 4"; simp)+
    then have "16 \<le> x * 64 + y" "x * 64 + y \<le> 271" using \<open>y < 64\<close> by (elim disjE; simp)+
    then have "65536 \<le> n" "n \<le> 1114111" using \<open>z < 64\<close> \<open>w < 64\<close> unfolding n_def by linarith+
    moreover have "n div 262144 = x" "n div 4096 mod 64 = y" "n div 64 mod 64 = z" "n mod 64 = w"
      unfolding n_def using xyz(6-8) by (rule digits64; assumption)+
    ultimately have "scalar_value n" "encode_char n = [b, c, d, e]"
      using xyz by (simp_all add: scalar_value_def encode_char_def byte_eq)
    then show ?thesis using Cons s' by (intro exI [of _ n]) simp
  qed
qed

lemma utf8_char_decodes:
  assumes "scalar_value c"
  shows "utf8_char (encode_char c @ r) = Some r"
proof -
  consider "c < 128" | "128 \<le> c" "c < 2048" | "2048 \<le> c" "c < 65536" | "65536 \<le> c" "c \<le> 1114111"
    using assms by (force simp: scalar_value_def)
  then show ?thesis
  proof cases
    case 1
    then show ?thesis by (simp add: encode_char_def byte_bounds)
  next
    case 2
    then have "2 \<le> c div 64" "c div 64 < 32" by auto
    with 2 show ?thesis by (auto simp: encode_char_def byte_bounds byte_eq within_nat utf8_tail_def)
  next
    case 3
    then have "c div 4096 < 16" "c div 4096 = 0 \<Longrightarrow> 32 \<le> c div 64 mod 64" by auto
    moreover have "c div 64 mod 64 < 32" if "c div 4096 = 13"
    proof -
      from that have "c < 57344" by auto
      with assms have "c div 64 < 864" by (auto simp: scalar_value_def)
      moreover have "c div 64 div 64 = 13" using that by (simp add: div_mult2_eq [symmetric])
      ultimately show ?thesis using mult_div_mod_eq [of 64 "c div 64"] by linarith
    qed
    ultimately show ?thesis using 3 by (auto simp: encode_char_def byte_bounds byte_eq within_nat utf8_tail_def word_literals)
  next
    case 4
    have parts: "c div 4096 div 64 = c div 262144" by (simp add: div_mult2_eq [symmetric])
    from 4 have "c div 262144 \<le> 4" "16 \<le> c div 4096" "c div 4096 < 272" by auto
    moreover from this have "16 \<le> c div 4096 mod 64" if "c div 262144 = 0"
      using mult_div_mod_eq [of 64 "c div 4096"] parts that by linarith
    moreover from \<open>c div 4096 < 272\<close> have "c div 4096 mod 64 < 16" if "c div 262144 = 4"
      using mult_div_mod_eq [of 64 "c div 4096"] parts that by linarith
    ultimately show ?thesis using 4 by (auto simp: encode_char_def byte_bounds byte_eq within_nat utf8_tail_def word_literals)
  qed
qed

text \<open>The decoder accepts exactly the texts.\<close>

lemma utf8_valid_iff: "utf8_valid s \<longleftrightarrow> (\<exists>cs. s = encode_text cs \<and> (\<forall>c \<in> set cs. scalar_value c))"
proof
  show "utf8_valid s \<Longrightarrow> \<exists>cs. s = encode_text cs \<and> (\<forall>c \<in> set cs. scalar_value c)"
  proof (induction s rule: utf8_valid.induct)
    case (1 s)
    show ?case
    proof (cases "utf8_char s")
      case None
      with 1 have "s = []" by (simp add: utf8_valid.simps [of s])
      then show ?thesis by (intro exI [of _ "[]"]) (simp add: encode_text_def)
    next
      case (Some r)
      with 1 have "s \<noteq> []" "utf8_valid r" by (auto simp: utf8_valid.simps [of s])
      with 1(1) [of r] Some obtain cs where "r = encode_text cs" "\<forall>c \<in> set cs. scalar_value c" by blast
      moreover from utf8_char_encodes [OF Some] obtain c where "scalar_value c" "s = encode_char c @ r" by blast
      ultimately show ?thesis by (intro exI [of _ "c # cs"]) (simp add: encode_text_def)
    qed
  qed
  have "utf8_valid (encode_text cs)" if "\<forall>c \<in> set cs. scalar_value c" for cs
    using that
  proof (induction cs)
    case Nil
    then show ?case by (simp add: encode_text_def utf8_valid.simps)
  next
    case (Cons c cs)
    then show ?case
      using utf8_char_decodes [of c "encode_text cs"] by (simp add: encode_text_def utf8_valid.simps [of "encode_char c @ concat (map encode_char cs)"])
  qed
  then show "\<exists>cs. s = encode_text cs \<and> (\<forall>c \<in> set cs. scalar_value c) \<Longrightarrow> utf8_valid s" by blast
qed

lemma printable_scan_eq:
  "printable_scan seen s =
     (if \<exists>b \<in> set s. b < 32 \<and> b \<notin> {9, 10, 13} then None else Some (seen \<or> (\<exists>b \<in> set s. 32 \<le> b)))"
  by (induction s arbitrary: seen) auto

text \<open>Below 128 a character is its own byte, and every byte of another one is at least 128.\<close>

lemma encode_char_bytes:
  assumes "scalar_value c"
  shows "(\<exists>b \<in> set (encode_char c). b < 32 \<and> b \<notin> {9, 10, 13}) \<longleftrightarrow> c < 32 \<and> c \<notin> {9, 10, 13}"
    and "(\<exists>b \<in> set (encode_char c). 32 \<le> b) \<longleftrightarrow> 32 \<le> c"
proof -
  have high: "128 \<le> unat b" if "b \<in> set (encode_char c)" "128 \<le> c" for b
    using that assms by (auto simp: encode_char_def scalar_value_def split: if_split_asm)
  have "(\<exists>b \<in> set (encode_char c). b < 32 \<and> b \<notin> {9, 10, 13}) \<longleftrightarrow> c < 32 \<and> c \<notin> {9, 10, 13}" if "c < 128"
    using that by (auto simp: encode_char_def byte_bounds byte_eq)
  moreover have "\<not> (\<exists>b \<in> set (encode_char c). b < 32 \<and> b \<notin> {9, 10, 13})" if "128 \<le> c"
    using high [OF _ that] by (fastforce simp: byte_bounds)
  ultimately show "(\<exists>b \<in> set (encode_char c). b < 32 \<and> b \<notin> {9, 10, 13}) \<longleftrightarrow> c < 32 \<and> c \<notin> {9, 10, 13}"
    by (cases "c < 128") auto
  have "\<exists>b \<in> set (encode_char c). 32 \<le> b" if "128 \<le> c"
    using high [OF _ that] by (cases "encode_char c") (fastforce simp: byte_bounds encode_char_def split: if_split_asm)+
  then show "(\<exists>b \<in> set (encode_char c). 32 \<le> b) \<longleftrightarrow> 32 \<le> c"
    by (cases "c < 128") (auto simp: encode_char_def byte_bounds)
qed

lemma validate_utf8_string_iff: "validate_utf8_string s = Ok () \<longleftrightarrow> metadata_text s"
proof -
  have bytes: "(\<exists>b \<in> set (encode_text cs). Q b) \<longleftrightarrow> (\<exists>c \<in> set cs. \<exists>b \<in> set (encode_char c). Q b)" for cs Q
    by (auto simp: encode_text_def)
  have "validate_utf8_string s = Ok () \<longleftrightarrow> s \<noteq> [] \<and> utf8_valid s \<and>
      \<not> (\<exists>b \<in> set s. b < 32 \<and> b \<notin> {9, 10, 13}) \<and> (\<exists>b \<in> set s. 32 \<le> b)"
    by (fastforce simp: validate_utf8_string_def printable_scan_eq split: if_split_asm)
  also have "\<dots> \<longleftrightarrow> (\<exists>cs. s = encode_text cs \<and> (\<forall>c \<in> set cs. scalar_value c) \<and>
      \<not> (\<exists>b \<in> set s. b < 32 \<and> b \<notin> {9, 10, 13}) \<and> (\<exists>b \<in> set s. 32 \<le> b))"
    unfolding utf8_valid_iff by (auto simp: encode_text_def)
  also have "\<dots> \<longleftrightarrow> metadata_text s"
    unfolding metadata_text_def
  proof (intro iff_exI conj_cong [OF refl])
    fix cs
    assume s: "s = encode_text cs"
    show "(\<forall>c \<in> set cs. scalar_value c) \<and> \<not> (\<exists>b \<in> set s. b < 32 \<and> b \<notin> {9, 10, 13}) \<and> (\<exists>b \<in> set s. 32 \<le> b) \<longleftrightarrow>
      (\<forall>c \<in> set cs. scalar_value c \<and> (0x20 \<le> c \<or> c \<in> {0x09, 0x0A, 0x0D})) \<and> (\<exists>c \<in> set cs. 0x20 \<le> c)"
    proof (cases "\<forall>c \<in> set cs. scalar_value c")
      case True
      then have eqs: "(\<exists>c \<in> set cs. \<exists>b \<in> set (encode_char c). b < 32 \<and> b \<notin> {9, 10, 13}) \<longleftrightarrow> (\<exists>c \<in> set cs. c < 32 \<and> c \<notin> {9, 10, 13})"
          "(\<exists>c \<in> set cs. \<exists>b \<in> set (encode_char c). 32 \<le> b) \<longleftrightarrow> (\<exists>c \<in> set cs. 32 \<le> c)"
        by (intro bex_cong refl encode_char_bytes, simp)+
      from True show ?thesis unfolding s bytes eqs by (meson not_less)
    qed auto
  qed
  finally show ?thesis .
qed

section \<open>Storage\<close>

definition mod_meta :: "(metadata_store \<Rightarrow> metadata_store) \<Rightarrow> unit vm" where
  "mod_meta f = modify (\<lambda>v. v\<lparr>v_meta := f (v_meta v)\<rparr>)"

definition metadata_keys :: "vault \<Rightarrow> nat \<Rightarrow> bytes list" where
  "metadata_keys v i = (case md_keys (v_meta v) i of Some ks \<Rightarrow> ks | None \<Rightarrow> [])"

definition validate_metadata_input :: "nat \<Rightarrow> bytes \<Rightarrow> bytes \<Rightarrow> unit vm" where
  "validate_metadata_input i key val =
     (if length key > MAX_METADATA_KEY_LENGTH then fail E_MetadataKeyTooLong
      else if length val > MAX_METADATA_VALUE_LENGTH then fail E_MetadataValueTooLong
      else
        thn (lift (validate_utf8_string key))
        (thn (lift (validate_utf8_string val))
        (bnd (gets (\<lambda>v. metadata_keys v i)) (\<lambda>keys.
        check (\<not> (key \<notin> set keys \<and> length keys \<ge> MAX_METADATA_KEYS)) E_MetadataKeyLimitReached))))"

definition apply_metadata_storage :: "nat \<Rightarrow> bytes \<Rightarrow> bytes \<Rightarrow> unit vm" where
  "apply_metadata_storage i key val =
     bnd (gets (\<lambda>v. metadata_keys v i)) (\<lambda>keys.
     thn (if key \<in> set keys then ret () else mod_meta (\<lambda>m. m\<lparr>md_keys := (md_keys m)(i \<mapsto> keys @ [key])\<rparr>))
     (mod_meta (\<lambda>m. m\<lparr>md_value := (md_value m)(i := (md_value m i)(key \<mapsto> val))\<rparr>)))"

definition apply_metadata_value :: "nat \<Rightarrow> bytes \<Rightarrow> bytes \<Rightarrow> unit vm" where
  "apply_metadata_value i key val =
     thn (validate_metadata_input i key val)
     (apply_metadata_storage i key val)"

section \<open>Operations\<close>

definition set_metadata :: "env \<Rightarrow> nat \<Rightarrow> address \<Rightarrow> bytes \<Rightarrow> bytes \<Rightarrow> unit vm" where
  "set_metadata E i caller key val =
     thn (require_auth E caller)
     (bnd (get_subscription E i) (\<lambda>sub.
     if caller \<noteq> s_subscriber sub \<and> caller \<noteq> s_merchant sub then fail E_Forbidden
     else
       thn (apply_metadata_value i key val)
       (publish (MetaEv (Ev_metadata_set i key caller)))))"

definition do_set_metadata :: "env \<Rightarrow> address \<Rightarrow> nat \<Rightarrow> bytes \<Rightarrow> bytes \<Rightarrow> unit vm" where
  "do_set_metadata E authorizer i key val = set_metadata E i authorizer key val"

definition get_metadata :: "env \<Rightarrow> nat \<Rightarrow> bytes \<Rightarrow> bytes vm" where
  "get_metadata E i key =
     bnd (get_subscription E i) (\<lambda>_.
     bnd (gets (\<lambda>v. md_value (v_meta v) i key)) (\<lambda>x. ok_or x E_NotFound))"

definition delete_metadata :: "env \<Rightarrow> nat \<Rightarrow> address \<Rightarrow> bytes \<Rightarrow> unit vm" where
  "delete_metadata E i caller key =
     thn (require_auth E caller)
     (bnd (get_subscription E i) (\<lambda>sub.
     if caller \<noteq> s_subscriber sub \<and> caller \<noteq> s_merchant sub then fail E_Forbidden
     else
       bnd (gets (\<lambda>v. metadata_keys v i)) (\<lambda>keys.
       if key \<in> set keys then
         thn (mod_meta (\<lambda>m. m\<lparr>md_keys := (md_keys m)(i \<mapsto> remove1 key keys)\<rparr>))
         (thn (mod_meta (\<lambda>m. m\<lparr>md_value := (md_value m)(i := (md_value m i)(key := None))\<rparr>))
         (publish (MetaEv (Ev_metadata_deleted i key caller))))
       else ret ())))"

definition do_delete_metadata :: "env \<Rightarrow> address \<Rightarrow> nat \<Rightarrow> bytes \<Rightarrow> unit vm" where
  "do_delete_metadata E authorizer i key = delete_metadata E i authorizer key"

definition list_metadata_keys :: "env \<Rightarrow> nat \<Rightarrow> (bytes list) vm" where
  "list_metadata_keys E i =
     bnd (get_subscription E i) (\<lambda>_. gets (\<lambda>v. metadata_keys v i))"

section \<open>Signed updates\<close>

record signed_metadata_payload =
  sm_subscription_id :: nat
  sm_key :: bytes
  sm_value :: bytes
  sm_nonce :: nat
  sm_expires_at :: nat

text \<open>
  The host's cryptography: \<open>sg_verify public_key message signature\<close> is Ed25519 verification (a trap when it
  fails), \<open>sg_account\<close> the account address of a public key, \<open>sg_network\<close> the network id.
\<close>

record signing =
  sg_verify :: "bytes \<Rightarrow> bytes \<Rightarrow> bytes \<Rightarrow> bool"
  sg_account :: "bytes \<Rightarrow> address option"
  sg_network :: bytes

text \<open>\<open>SBL_META_SIGNED_v1\<close>, padded to 32 bytes.\<close>

definition SIGNED_MSG_DOMAIN_TAG :: bytes where
  "SIGNED_MSG_DOMAIN_TAG =
     [83, 66, 76, 95, 77, 69, 84, 65, 95, 83, 73, 71, 78, 69, 68, 95, 118, 49,
      0, 0, 0, 0, 0, 0, 0, 0, 0, 0, 0, 0, 0, 0]"

definition build_metadata_signed_message :: "signed_metadata_payload \<Rightarrow> bytes \<Rightarrow> bytes" where
  "build_metadata_signed_message payload network_id =
     SIGNED_MSG_DOMAIN_TAG @ be_bytes4 (sm_subscription_id payload) @
     be_bytes4 (length (sm_key payload)) @ sm_key payload @
     be_bytes4 (length (sm_value payload)) @ sm_value payload @
     be_bytes8 (sm_nonce payload) @
     be_bytes4 32 @ network_id @
     be_bytes8 (sm_expires_at payload)"

definition do_set_metadata_signed ::
  "env \<Rightarrow> signing \<Rightarrow> bytes \<Rightarrow> signed_metadata_payload \<Rightarrow> bytes \<Rightarrow> unit vm" where
  "do_set_metadata_signed E S signer_pubkey payload signature =
     bnd (get_subscription E (sm_subscription_id payload)) (\<lambda>sub.
     thn (validate_metadata_input (sm_subscription_id payload) (sm_key payload) (sm_value payload))
     (thn (if sg_verify S signer_pubkey (build_metadata_signed_message payload (sg_network S)) signature
           then ret () else panic)
     (bnd (ok_or (sg_account S signer_pubkey) E_Overflow) (\<lambda>signer.
     if signer \<noteq> s_subscriber sub \<and> signer \<noteq> s_merchant sub then fail E_Forbidden
     else if e_timestamp E \<ge> sm_expires_at payload then fail E_InvalidInput
     else
       thn (check_and_advance E signer MetadataSigned (sm_nonce payload))
       (thn (apply_metadata_storage (sm_subscription_id payload) (sm_key payload) (sm_value payload))
       (publish (MetaEv (Ev_metadata_set_signed (sm_subscription_id payload) (sm_key payload) signer
          (sm_nonce payload) (e_timestamp E)))))))))"

definition get_metadata_signed_nonce :: "address \<Rightarrow> nat vm" where
  "get_metadata_signed_nonce signer = get_nonce signer MetadataSigned"

section \<open>What the operations do when they succeed\<close>

definition usable :: "bytes \<Rightarrow> bytes \<Rightarrow> bool" where
  "usable key val \<longleftrightarrow> length key \<le> MAX_METADATA_KEY_LENGTH \<and> length val \<le> MAX_METADATA_VALUE_LENGTH \<and>
     metadata_text key \<and> metadata_text val"

lemma mod_meta_ok [act_ok]: "mod_meta f s = (Ok u, t) \<longleftrightarrow> t = s\<lparr>v_meta := f (v_meta s)\<rparr>"
  by (simp add: mod_meta_def act_ok)

lemma validate_metadata_input_ok [act_ok]:
  "validate_metadata_input i key val s = (Ok u, t) \<longleftrightarrow>
     t = s \<and> usable key val \<and> (key \<in> set (metadata_keys s i) \<or> length (metadata_keys s i) < MAX_METADATA_KEYS)"
  by (auto simp: validate_metadata_input_def usable_def validate_utf8_string_iff [symmetric] act_ok)

definition with_entry :: "metadata_store \<Rightarrow> nat \<Rightarrow> bytes list \<Rightarrow> bytes \<Rightarrow> bytes \<Rightarrow> metadata_store" where
  "with_entry m i keys key val =
     (if key \<in> set keys then m else m\<lparr>md_keys := (md_keys m)(i \<mapsto> keys @ [key])\<rparr>)
       \<lparr>md_value := (md_value m)(i := (md_value m i)(key \<mapsto> val))\<rparr>"

lemma apply_metadata_storage_ok [act_ok]:
  "apply_metadata_storage i key val s = (Ok u, t) \<longleftrightarrow>
     t = s\<lparr>v_meta := with_entry (v_meta s) i (metadata_keys s i) key val\<rparr>"
  by (auto simp: apply_metadata_storage_def with_entry_def act_ok)

lemma set_metadata_effect:
  assumes "set_metadata E i a key val s = (Ok (), t)"
  shows "e_auth E a \<and> usable key val \<and> (\<exists>x. su_sub (v_subs s) i = Some x \<and> is_party a x) \<and>
    (key \<in> set (metadata_keys s i) \<or> length (metadata_keys s i) < MAX_METADATA_KEYS) \<and>
    v_meta t = with_entry (v_meta s) i (metadata_keys s i) key val \<and> v_nonce t = v_nonce s"
  using assms by (auto simp: set_metadata_def apply_metadata_value_def act_ok is_party_def split: if_split_asm)

lemma delete_metadata_effect:
  assumes "delete_metadata E i a key s = (Ok (), t)"
  shows "e_auth E a \<and> (\<exists>x. su_sub (v_subs s) i = Some x \<and> is_party a x) \<and> v_nonce t = v_nonce s \<and>
    (if key \<in> set (metadata_keys s i)
     then v_meta t = (v_meta s)\<lparr>md_keys := (md_keys (v_meta s))(i \<mapsto> remove1 key (metadata_keys s i)),
       md_value := (md_value (v_meta s))(i := (md_value (v_meta s) i)(key := None))\<rparr>
     else v_meta t = v_meta s)"
  using assms by (auto simp: delete_metadata_def act_ok is_party_def split: if_split_asm)

lemma signed_effect:
  assumes "do_set_metadata_signed E S pk p sig s = (Ok (), t)"
  obtains x a where "su_sub (v_subs s) (sm_subscription_id p) = Some x" "sg_account S pk = Some a" "is_party a x"
    "sg_verify S pk (build_metadata_signed_message p (sg_network S)) sig" "e_timestamp E < sm_expires_at p"
    "sm_nonce p = stored_nonce s a (as_u32 MetadataSigned)" "usable (sm_key p) (sm_value p)"
    "sm_key p \<in> set (metadata_keys s (sm_subscription_id p)) \<or> length (metadata_keys s (sm_subscription_id p)) < MAX_METADATA_KEYS"
    "v_meta t = with_entry (v_meta s) (sm_subscription_id p) (metadata_keys s (sm_subscription_id p)) (sm_key p) (sm_value p)"
    "v_nonce t = (v_nonce s)(a := (v_nonce s a)(as_u32 MetadataSigned \<mapsto> Suc (sm_nonce p)))"
  using assms
  by (auto simp: do_set_metadata_signed_def act_ok is_party_def metadata_keys_def split: if_split_asm)

section \<open>The index of keys\<close>

text \<open>
  At most ten distinct keys are listed for a subscription, exactly those with a stored value, and every
  stored pair passed the checks.
\<close>

definition metadata_sound :: "vault \<Rightarrow> bool" where
  "metadata_sound v \<longleftrightarrow> (\<forall>i. distinct (metadata_keys v i) \<and> length (metadata_keys v i) \<le> MAX_METADATA_KEYS \<and>
     set (metadata_keys v i) = dom (md_value (v_meta v) i) \<and>
     (\<forall>k x. md_value (v_meta v) i k = Some x \<longrightarrow> usable k x))"

lemma metadata_keys_cong: "v_meta t = v_meta s \<Longrightarrow> metadata_keys t = metadata_keys s"
  by (simp add: metadata_keys_def fun_eq_iff)

lemma entry_sound:
  assumes "metadata_sound s" and "usable key val"
    and "key \<in> set (metadata_keys s i) \<or> length (metadata_keys s i) < MAX_METADATA_KEYS"
    and "v_meta t = with_entry (v_meta s) i (metadata_keys s i) key val"
  shows "metadata_sound t"
proof -
  have keys: "metadata_keys t j = (if j = i \<and> key \<notin> set (metadata_keys s i) then metadata_keys s i @ [key] else metadata_keys s j)" for j
    using assms(4) by (auto simp: metadata_keys_def with_entry_def)
  have vals: "md_value (v_meta t) = (md_value (v_meta s))(i := (md_value (v_meta s) i)(key \<mapsto> val))"
    using assms(4) by (simp add: with_entry_def)
  show ?thesis
    unfolding metadata_sound_def keys vals
  proof (intro allI conjI impI)
    fix j
    note ms = assms(1) [unfolded metadata_sound_def, rule_format, of j]
    from ms show "distinct (if j = i \<and> key \<notin> set (metadata_keys s i) then metadata_keys s i @ [key] else metadata_keys s j)"
      by auto
    from ms assms(3) show "length (if j = i \<and> key \<notin> set (metadata_keys s i) then metadata_keys s i @ [key] else metadata_keys s j) \<le> MAX_METADATA_KEYS"
      by auto
    from ms show "set (if j = i \<and> key \<notin> set (metadata_keys s i) then metadata_keys s i @ [key] else metadata_keys s j) =
        dom (((md_value (v_meta s))(i := (md_value (v_meta s) i)(key \<mapsto> val))) j)"
      by auto
    fix k x
    assume "((md_value (v_meta s))(i := (md_value (v_meta s) i)(key \<mapsto> val))) j k = Some x"
    with ms assms(2) show "usable k x" by (auto split: if_split_asm)
  qed
qed

lemma removal_sound:
  assumes "metadata_sound s"
    and "v_meta t = (v_meta s)\<lparr>md_keys := (md_keys (v_meta s))(i \<mapsto> remove1 key (metadata_keys s i)),
       md_value := (md_value (v_meta s))(i := (md_value (v_meta s) i)(key := None))\<rparr>"
  shows "metadata_sound t"
proof -
  have keys: "metadata_keys t j = (if j = i then remove1 key (metadata_keys s i) else metadata_keys s j)" for j
    using assms(2) by (simp add: metadata_keys_def)
  have vals: "md_value (v_meta t) = (md_value (v_meta s))(i := (md_value (v_meta s) i)(key := None))"
    using assms(2) by simp
  show ?thesis
    unfolding metadata_sound_def keys vals
  proof (intro allI)
    fix j
    note ms = assms(1) [unfolded metadata_sound_def, rule_format, of j]
    have "length (remove1 key (metadata_keys s j)) \<le> length (metadata_keys s j)" by (simp add: length_remove1)
    with ms show "distinct (if j = i then remove1 key (metadata_keys s i) else metadata_keys s j) \<and>
        length (if j = i then remove1 key (metadata_keys s i) else metadata_keys s j) \<le> MAX_METADATA_KEYS \<and>
        set (if j = i then remove1 key (metadata_keys s i) else metadata_keys s j) =
          dom (((md_value (v_meta s))(i := (md_value (v_meta s) i)(key := None))) j) \<and>
        (\<forall>k x. ((md_value (v_meta s))(i := (md_value (v_meta s) i)(key := None))) j k = Some x \<longrightarrow> usable k x)"
      by (cases "j = i") auto
  qed
qed

section \<open>Any sequence of metadata operations\<close>

datatype meta_step =
    M_Set address nat bytes bytes
  | M_Delete address nat bytes
  | M_Signed signing bytes signed_metadata_payload bytes

fun meta_run :: "env \<Rightarrow> meta_step \<Rightarrow> unit vm" where
  "meta_run E (M_Set a i k x) = do_set_metadata E a i k x"
| "meta_run E (M_Delete a i k) = do_delete_metadata E a i k"
| "meta_run E (M_Signed S pk p sig) = do_set_metadata_signed E S pk p sig"

definition run_meta :: "(env \<times> meta_step) list \<Rightarrow> vault \<Rightarrow> vault" where
  "run_meta ops s = foldl (\<lambda>v (E, op). snd (tx (meta_run E op) v)) s ops"

lemma run_meta_simps [simp]:
  "run_meta [] s = s"
  "run_meta ((E, op) # ops) s = run_meta ops (snd (tx (meta_run E op) s))"
  by (simp_all add: run_meta_def)

lemma meta_step_sound:
  assumes "meta_run E op s = (Ok (), t)" and "metadata_sound s"
  shows "metadata_sound t"
proof (cases op)
  case (M_Set a i k x)
  with assms(1) have "set_metadata E i a k x s = (Ok (), t)" by (simp add: do_set_metadata_def)
  from set_metadata_effect [OF this] entry_sound [OF assms(2), of k x i t] show ?thesis by blast
next
  case (M_Delete a i k)
  with assms(1) have "delete_metadata E i a k s = (Ok (), t)" by (simp add: do_delete_metadata_def)
  from delete_metadata_effect [OF this] removal_sound [OF assms(2), of t i k] assms(2) show ?thesis
    by (auto simp: metadata_sound_def metadata_keys_cong [of t s] split: if_split_asm)
next
  case (M_Signed S pk p sig)
  with assms(1) have "do_set_metadata_signed E S pk p sig s = (Ok (), t)" by simp
  then show ?thesis by (rule signed_effect) (rule entry_sound [OF assms(2)])
qed

lemma meta_step_nonce:
  assumes "meta_run E op s = (Ok (), t)"
  shows "stored_nonce s a d \<le> stored_nonce t a d"
proof (cases op)
  case (M_Set b i k x)
  with assms have "set_metadata E i b k x s = (Ok (), t)" by (simp add: do_set_metadata_def)
  from set_metadata_effect [OF this] show ?thesis by (simp add: stored_nonce_def)
next
  case (M_Delete b i k)
  with assms have "delete_metadata E i b k s = (Ok (), t)" by (simp add: do_delete_metadata_def)
  from delete_metadata_effect [OF this] show ?thesis by (simp add: stored_nonce_def)
next
  case (M_Signed S pk p sig)
  with assms have "do_set_metadata_signed E S pk p sig s = (Ok (), t)" by simp
  then show ?thesis by (rule signed_effect) (auto simp: stored_nonce_def)
qed

lemma run_meta_sound: "metadata_sound s \<Longrightarrow> metadata_sound (run_meta ops s)"
proof (induction ops arbitrary: s)
  case (Cons op ops)
  obtain E x where op: "op = (E, x)" by (cases op)
  have "metadata_sound (snd (tx (meta_run E x) s))"
    by (rule tx_invariant [where P = metadata_sound]) (use Cons.prems in \<open>auto dest: meta_step_sound\<close>)
  with Cons.IH op show ?case by simp
qed simp

lemma run_meta_nonce: "n \<le> stored_nonce s a d \<Longrightarrow> n \<le> stored_nonce (run_meta ops s) a d"
proof (induction ops arbitrary: s)
  case (Cons op ops)
  obtain E x where op: "op = (E, x)" by (cases op)
  have "n \<le> stored_nonce (snd (tx (meta_run E x) s)) a d"
    by (rule tx_invariant [where P = "\<lambda>v. n \<le> stored_nonce v a d"])
      (use Cons.prems meta_step_nonce in \<open>fastforce dest: le_trans\<close>)+
  with Cons.IH op show ?case by simp
qed simp

section \<open>A signed update of a stored subscription\<close>

definition toy_signing :: signing where
  "toy_signing = \<lparr>sg_verify = (\<lambda>pk msg sig. sig = pk @ msg), sg_account = (\<lambda>pk. Some (Addr 2)), sg_network = replicate 32 7\<rparr>"

definition plan_note :: signed_metadata_payload where
  "plan_note = \<lparr>sm_subscription_id = 7, sm_key = [107], sm_value = [118, 49], sm_nonce = 0, sm_expires_at = 2000000\<rparr>"

lemma plan_note_usable: "usable (sm_key plan_note) (sm_value plan_note)"
proof -
  have "utf8_valid [107]" "utf8_valid [118, 49]"
    by (subst utf8_valid.simps, simp add: utf8_valid.simps)+
  then show ?thesis
    by (simp add: usable_def validate_utf8_string_iff [symmetric] plan_note_def validate_utf8_string_def MAX_METADATA_KEY_LENGTH_def
      MAX_METADATA_VALUE_LENGTH_def)
qed

lemma fund_meta [simp]: "metadata_keys fund_vault i = []" "stored_nonce fund_vault a d = 0" "md_value (v_meta fund_vault) i = Map.empty"
  by (simp_all add: metadata_keys_def stored_nonce_def fund_vault_def empty_vault_def)

lemma plan_note_signed:
  "\<exists>t. do_set_metadata_signed fund_env toy_signing [1] plan_note ([1] @ build_metadata_signed_message plan_note (replicate 32 7)) fund_vault = (Ok (), t)"
  using plan_note_usable
  by (simp add: do_set_metadata_signed_def act_ok toy_signing_def MAX_METADATA_KEYS_def) (simp add: plan_note_def u64_max_def)

text \<open>
  C29. The metadata index stays sound through any sequence of setting, deleting and signed updates: at most ten
  distinct keys, exactly those with a stored value. Every stored key has at most 32 bytes, every stored value at most 256, and each is the
  UTF-8 encoding of a sequence of Unicode characters with no control character below 0x20 but tab, line feed and carriage return, and
  with at least one character from 0x20 on. A space is such a character, so a value of spaces alone is stored.
\<close>

theorem metadata_stays_sound:
  assumes "metadata_sound s" and "run_meta ops s = t"
  shows "distinct (metadata_keys t i) \<and> length (metadata_keys t i) \<le> 10 \<and>
    set (metadata_keys t i) = dom (md_value (v_meta t) i) \<and>
    (md_value (v_meta t) i k = Some x \<longrightarrow> length k \<le> 32 \<and> length x \<le> 256 \<and> metadata_text k \<and> metadata_text x)"
  using run_meta_sound [OF assms(1), of ops] assms(2)
  by (simp add: metadata_sound_def usable_def MAX_METADATA_KEYS_def MAX_METADATA_KEY_LENGTH_def MAX_METADATA_VALUE_LENGTH_def)

theorem metadata_stays_sound_witness:
  "length (metadata_keys (run_meta [(fund_env, M_Set (Addr 2) 7 [107] [118, 49]), (fund_env, M_Delete (Addr 5) 7 [107])] fund_vault) 7) \<le> 10"
  using metadata_stays_sound [of fund_vault "[(fund_env, M_Set (Addr 2) 7 [107] [118, 49]), (fund_env, M_Delete (Addr 5) 7 [107])]", OF _ refl]
  by (simp add: metadata_sound_def)

text \<open>
  C27. A signed update needs a party's signature and works once. When it succeeds, the signature of exactly this
  payload for this network verifies under a key whose account is the subscriber or the merchant, the
  payload has not expired and carries the account's next nonce, and the value is stored; after any further metadata
  operations the same payload, signed with any key of the same account, is refused whatever its signature. Nonces are kept per account and
  the payload does not name its signer, so the other party of the subscription can still sign the same payload under a nonce of its own.
\<close>

theorem signed_update_once:
  assumes "do_set_metadata_signed E S pk p sig s = (Ok (), t)" and "run_meta ops t = w"
    and "sg_account S' pk' = sg_account S pk"
  shows "\<exists>x a. su_sub (v_subs s) (sm_subscription_id p) = Some x \<and> sg_account S pk = Some a \<and> is_party a x \<and>
    sg_verify S pk (build_metadata_signed_message p (sg_network S)) sig \<and> e_timestamp E < sm_expires_at p \<and>
    sm_nonce p = stored_nonce s a (as_u32 MetadataSigned) \<and>
    md_value (v_meta t) (sm_subscription_id p) (sm_key p) = Some (sm_value p) \<and>
    fst (do_set_metadata_signed E' S' pk' p sig' w) \<noteq> Ok ()"
  using assms(1)
proof (rule signed_effect)
  fix x :: subscription and a
  assume x: "su_sub (v_subs s) (sm_subscription_id p) = Some x" and a: "sg_account S pk = Some a" "is_party a x"
    and ver: "sg_verify S pk (build_metadata_signed_message p (sg_network S)) sig" "e_timestamp E < sm_expires_at p"
    and n: "sm_nonce p = stored_nonce s a (as_u32 MetadataSigned)"
    and t: "v_meta t = with_entry (v_meta s) (sm_subscription_id p) (metadata_keys s (sm_subscription_id p)) (sm_key p) (sm_value p)"
      "v_nonce t = (v_nonce s)(a := (v_nonce s a)(as_u32 MetadataSigned \<mapsto> Suc (sm_nonce p)))"
  from t(2) have "Suc (sm_nonce p) \<le> stored_nonce t a (as_u32 MetadataSigned)" by (simp add: stored_nonce_def)
  from run_meta_nonce [OF this, of ops] assms(2) have "sm_nonce p < stored_nonce w a (as_u32 MetadataSigned)" by simp
  moreover have "sm_nonce p = stored_nonce w a (as_u32 MetadataSigned)" if "do_set_metadata_signed E' S' pk' p sig' w = (Ok (), u)" for u
    using that by (rule signed_effect) (use assms(3) a in simp)
  ultimately have "fst (do_set_metadata_signed E' S' pk' p sig' w) \<noteq> Ok ()"
    by (cases "do_set_metadata_signed E' S' pk' p sig' w") auto
  moreover have "md_value (v_meta t) (sm_subscription_id p) (sm_key p) = Some (sm_value p)"
    by (simp add: t(1) with_entry_def)
  ultimately show ?thesis using x a ver n by blast
qed

theorem signed_update_once_witness:
  "\<exists>t. do_set_metadata_signed fund_env toy_signing [1] plan_note ([1] @ build_metadata_signed_message plan_note (replicate 32 7)) fund_vault = (Ok (), t) \<and>
     md_value (v_meta t) 7 [107] = Some [118, 49] \<and>
     fst (do_set_metadata_signed fund_env toy_signing [1] plan_note ([1] @ build_metadata_signed_message plan_note (replicate 32 7))
       (run_meta [(fund_env, M_Delete (Addr 2) 7 [107])] t)) \<noteq> Ok ()"
proof -
  obtain t where "do_set_metadata_signed fund_env toy_signing [1] plan_note ([1] @ build_metadata_signed_message plan_note (replicate 32 7)) fund_vault = (Ok (), t)"
    using plan_note_signed ..
  with signed_update_once [OF this refl refl, of _ _ "[(fund_env, M_Delete (Addr 2) 7 [107])]"] show ?thesis
    by (auto simp: plan_note_def)
qed

section \<open>Reading back a signed message\<close>

definition be_value :: "bytes \<Rightarrow> nat" where
  "be_value bs = foldl (\<lambda>a b. a * 256 + unat b) 0 bs"

lemma be_digits:
  "foldl (\<lambda>a b. a * 256 + unat b) (n div 256 ^ m) (map (\<lambda>k. word_of_nat (n div 256 ^ k) :: 8 word) (rev [0..<m])) = n"
proof (induction m)
  case (Suc m)
  have "n div 256 ^ Suc m * 256 + n div 256 ^ m mod 256 = n div 256 ^ m"
    by (simp only: power_Suc2 div_mult2_eq div_mult_mod_eq)
  then have "n div 256 ^ Suc m * 256 + unat (word_of_nat (n div 256 ^ m) :: 8 word) = n div 256 ^ m"
    by (simp add: unat_of_nat)
  with Suc show ?case by (simp del: power_Suc)
qed simp

lemma be_value_digits:
  "n < 256 ^ m \<Longrightarrow> be_value (map (\<lambda>k. word_of_nat (n div 256 ^ k)) (rev [0..<m])) = n"
  using be_digits [of n m] by (simp add: be_value_def)

lemma be_value_bytes:
  "n \<le> u32_max \<Longrightarrow> be_value (be_bytes4 n) = n" "n \<le> u64_max \<Longrightarrow> be_value (be_bytes8 n) = n"
  using be_value_digits [of n 4] be_value_digits [of n 8]
  by (simp_all add: be_bytes4_def be_bytes8_def u32_max_def u64_max_def upt_rec)

lemma be_bytes_length [simp]: "length (be_bytes4 n) = 4" "length (be_bytes8 n) = 8"
  by (simp_all add: be_bytes4_def be_bytes8_def)

lemma be_bytes_inject:
  "n \<le> u32_max \<Longrightarrow> m \<le> u32_max \<Longrightarrow> be_bytes4 n = be_bytes4 m \<Longrightarrow> n = m"
  "n \<le> u64_max \<Longrightarrow> m \<le> u64_max \<Longrightarrow> be_bytes8 n = be_bytes8 m \<Longrightarrow> n = m"
  using be_value_bytes by metis+

definition payload_in_range :: "signed_metadata_payload \<Rightarrow> bool" where
  "payload_in_range p \<longleftrightarrow> sm_subscription_id p \<le> u32_max \<and> length (sm_key p) \<le> u32_max \<and>
     length (sm_value p) \<le> u32_max \<and> sm_nonce p \<le> u64_max \<and> sm_expires_at p \<le> u64_max"

text \<open>
  C28. A signature covers one payload only: the message determines the subscription, key, value,
  nonce, expiry and network, so a signature can never be moved to another update or another network.
\<close>

theorem signed_message_injective:
  assumes "payload_in_range p" and "payload_in_range q" and "length n = 32" and "length m = 32"
  shows "build_metadata_signed_message p n = build_metadata_signed_message q m \<longleftrightarrow> p = q \<and> n = m"
proof (intro iffI)
  assume same: "build_metadata_signed_message p n = build_metadata_signed_message q m"
  note range = assms(1,2) [unfolded payload_in_range_def]
  from same have ids: "be_bytes4 (sm_subscription_id p) = be_bytes4 (sm_subscription_id q)"
    and keys: "be_bytes4 (length (sm_key p)) = be_bytes4 (length (sm_key q))"
    and r1: "sm_key p @ be_bytes4 (length (sm_value p)) @ sm_value p @ be_bytes8 (sm_nonce p) @ be_bytes4 32 @ n @ be_bytes8 (sm_expires_at p) =
      sm_key q @ be_bytes4 (length (sm_value q)) @ sm_value q @ be_bytes8 (sm_nonce q) @ be_bytes4 32 @ m @ be_bytes8 (sm_expires_at q)"
    by (simp_all add: build_metadata_signed_message_def)
  from keys range have "length (sm_key p) = length (sm_key q)" by (auto dest: be_bytes_inject(1) [rotated 2])
  with r1 have key: "sm_key p = sm_key q" and vals: "be_bytes4 (length (sm_value p)) = be_bytes4 (length (sm_value q))"
    and r2: "sm_value p @ be_bytes8 (sm_nonce p) @ be_bytes4 32 @ n @ be_bytes8 (sm_expires_at p) =
      sm_value q @ be_bytes8 (sm_nonce q) @ be_bytes4 32 @ m @ be_bytes8 (sm_expires_at q)"
    by simp_all
  from vals range have "length (sm_value p) = length (sm_value q)" by (auto dest: be_bytes_inject(1) [rotated 2])
  with r2 assms(3,4) have "sm_value p = sm_value q" "be_bytes8 (sm_nonce p) = be_bytes8 (sm_nonce q)" "n = m"
      "be_bytes8 (sm_expires_at p) = be_bytes8 (sm_expires_at q)"
    by simp_all
  with key ids range show "p = q \<and> n = m"
    by (auto intro!: signed_metadata_payload.equality dest: be_bytes_inject(1) [rotated 2] be_bytes_inject(2) [rotated 2])
qed simp

theorem signed_message_injective_witness:
  "build_metadata_signed_message plan_note (replicate 32 7) \<noteq>
     build_metadata_signed_message (plan_note\<lparr>sm_key := [107, 118], sm_value := [49]\<rparr>) (replicate 32 7)"
  using signed_message_injective [of plan_note "plan_note\<lparr>sm_key := [107, 118], sm_value := [49]\<rparr>" "replicate 32 7" "replicate 32 7"]
  by (simp add: payload_in_range_def plan_note_def int_bounds)

end
