(* ===== verification/Batch_Charge.thy ===== *)
theory Batch_Charge
  imports Charge_Claims Subscription_Status
begin

text \<open>
  Batches of interval charges (\<^verbatim>\<open>src/admin.rs\<close>): the loop with its cached configuration and merchant
  flags, the checks before it, and the proof that the caches are transparent.
\<close>

section \<open>Batches\<close>

record batch_charge_result =
  br_subscription_id :: nat
  br_success :: bool
  br_error_code :: nat

record batch_charge_response =
  bc_results :: "batch_charge_result list"
  bc_duplicate_id :: "nat option"

definition batch_outcome :: "nat \<Rightarrow> error + charge_execution_result \<Rightarrow> batch_charge_result" where
  "batch_outcome i r =
     (let outcome = (\<lambda>ok code. \<lparr>br_subscription_id = i, br_success = ok, br_error_code = code\<rparr>) in
      case r of
        Inl e \<Rightarrow> outcome False (to_code e)
      | Inr c \<Rightarrow> (case c of
            CER_Charged \<Rightarrow> outcome True 0
          | CER_InsufficientBalance \<Rightarrow> outcome False (to_code E_InsufficientBalance)
          | CER_LifetimeCapReached \<Rightarrow> outcome False (to_code E_LifetimeCapReached)
          | CER_ScheduledCancellation \<Rightarrow> outcome True 0
          | CER_Skipped \<Rightarrow> outcome True 0))"

definition key_at :: "(bytes list) option \<Rightarrow> nat \<Rightarrow> bytes option" where
  "key_at keys idx = (case keys of None \<Rightarrow> None | Some ks \<Rightarrow> if idx < length ks then Some (ks ! idx) else None)"

primrec batch_loop ::
  "(nat \<Rightarrow> nat \<Rightarrow> bytes vm) \<Rightarrow> env \<Rightarrow> nat \<Rightarrow> (bytes list) option \<Rightarrow> cached_admin_config option \<Rightarrow> nat \<Rightarrow> merchant_cache \<Rightarrow>
   nat list \<Rightarrow> (batch_charge_result list) vm" where
  "batch_loop mk_salt E now keys cfg idx cache [] = ret []"
| "batch_loop mk_salt E now keys cfg idx cache (i # ids) =
     bnd (charge_one_cached mk_salt E i now (key_at keys idx) cfg cache) (\<lambda>(r, cache').
     bnd (batch_loop mk_salt E now keys cfg (Suc idx) cache' ids) (\<lambda>rs.
     ret (batch_outcome i r # rs)))"

definition execute_batch_charge_with ::
  "(nat \<Rightarrow> nat \<Rightarrow> bytes vm) \<Rightarrow> env \<Rightarrow> nat list \<Rightarrow> (bytes list) option \<Rightarrow> (batch_charge_result list) vm" where
  "execute_batch_charge_with mk_salt E ids keys =
     bnd (attempt read_cached_admin_config) (\<lambda>cached_admin.
     batch_loop mk_salt E (e_timestamp E) keys (case cached_admin of Inr cfg \<Rightarrow> Some cfg | Inl e \<Rightarrow> None) 0
       (Some Map.empty) ids)"

definition execute_batch_charge :: "env \<Rightarrow> nat list \<Rightarrow> (bytes list) option \<Rightarrow> (batch_charge_result list) vm" where
  "execute_batch_charge E = execute_batch_charge_with (charge_salt E) E"

text \<open>The first id that occurs twice.\<close>

primrec first_duplicate :: "nat list \<Rightarrow> nat list \<Rightarrow> nat option" where
  "first_duplicate seen [] = None"
| "first_duplicate seen (i # ids) = (if i \<in> set seen then Some i else first_duplicate (seen @ [i]) ids)"

definition do_batch_charge_detailed_with ::
  "(nat \<Rightarrow> nat \<Rightarrow> bytes vm) \<Rightarrow> env \<Rightarrow> nat list \<Rightarrow> (bytes list) option \<Rightarrow> nat \<Rightarrow> batch_charge_response vm" where
  "do_batch_charge_detailed_with mk_salt E ids keys nonce =
     bnd (require_stored_admin_auth E) (\<lambda>admin.
     if length ids > BATCH_MAX_SIZE then fail E_InvalidInput
     else if length ids = 0 then ret \<lparr>bc_results = [], bc_duplicate_id = None\<rparr>
     else if (case keys of Some ks \<Rightarrow> length ks \<noteq> length ids | None \<Rightarrow> False) then fail E_InvalidInput
     else
       case first_duplicate [] ids of
         Some i \<Rightarrow> ret \<lparr>bc_results = [], bc_duplicate_id = Some i\<rparr>
       | None \<Rightarrow>
           thn (validate_nonce admin BatchCharge nonce)
           (thn (mod_admin (\<lambda>a. a\<lparr>ad_batch_nonce := Some nonce\<rparr>))
           (bnd (execute_batch_charge_with mk_salt E ids keys) (\<lambda>results.
           bnd (if \<exists>r \<in> set results. br_success r then attempt (check_and_advance E admin BatchCharge nonce) else ret (Inr ())) (\<lambda>advanced.
           thn (mod_admin (\<lambda>a. a\<lparr>ad_batch_nonce := None\<rparr>))
           (case advanced of
              Inl e \<Rightarrow> fail e
            | Inr _ \<Rightarrow> ret \<lparr>bc_results = results, bc_duplicate_id = None\<rparr>))))))"

definition do_batch_charge_detailed :: "env \<Rightarrow> nat list \<Rightarrow> (bytes list) option \<Rightarrow> nat \<Rightarrow> batch_charge_response vm" where
  "do_batch_charge_detailed E = do_batch_charge_detailed_with (charge_salt E) E"

definition do_batch_charge :: "env \<Rightarrow> nat list \<Rightarrow> (bytes list) option \<Rightarrow> nat \<Rightarrow> (batch_charge_result list) vm" where
  "do_batch_charge E ids keys nonce =
     bnd (do_batch_charge_detailed E ids keys nonce) (\<lambda>response.
     if bc_duplicate_id response \<noteq> None then fail E_InvalidInput else ret (bc_results response))"

section \<open>The caches of a batch are transparent\<close>

text \<open>What a batch caches depends on this part of the state, and charging leaves it unchanged.\<close>

definition cached_view ::
  "vault \<Rightarrow> admin_store \<times> (address \<Rightarrow> merchant_config option) \<times> (address \<Rightarrow> bool option) \<times> (address \<Rightarrow> merchant_vacation option)" where
  "cached_view v = (v_admin v, m_config (v_merchant v), m_paused (v_merchant v), m_vacation (v_merchant v))"

lemma cached_view_sel:
  assumes "cached_view t = cached_view s"
  shows "v_admin t = v_admin s" "m_config (v_merchant t) = m_config (v_merchant s)"
    "m_paused (v_merchant t) = m_paused (v_merchant s)" "m_vacation (v_merchant t) = m_vacation (v_merchant s)"
  using assms by (simp_all add: cached_view_def)

lemma cached_view_update [simp]:
  "cached_view (s\<lparr>v_events := ev\<rparr>) = cached_view s" "cached_view (s\<lparr>v_subs := su\<rparr>) = cached_view s"
  "cached_view (s\<lparr>v_ledger := le\<rparr>) = cached_view s" "cached_view (s\<lparr>v_charge := ch\<rparr>) = cached_view s"
  "cached_view (s\<lparr>v_idem := im\<rparr>) = cached_view s" "cached_view (s\<lparr>v_stmt := st\<rparr>) = cached_view s"
  "cached_view (s\<lparr>v_snap := sn\<rparr>) = cached_view s"
  by (simp_all add: cached_view_def)

lemma keeps_view_credit [keeps_intro]: "keeps cached_view (credit_merchant_balance_for_token m tk a kind)"
  by (auto simp: credit_merchant_balance_for_token_def get_merchant_balance_by_token_def set_merchant_balance_def
      get_merchant_token_earnings_def set_merchant_token_earnings_def add_merchant_token_def accrue_def mod_merchant_def
      add_total_accounted_def Let_def cached_view_def intro!: keeps_intro keeps_modify split: billing_charge_kind.splits)

lemma keeps_view_credit_others [keeps_intro]: "keeps cached_view (credit_others tk net kind entries acc)"
  by (induction entries arbitrary: acc)
    (auto simp: Let_def intro!: keeps_basic keeps_bnd keeps_thn keeps_if keeps_view_credit)

lemmas keeps_view = keeps_basic keeps_bnd keeps_thn keeps_if keeps_prod keeps_option keeps_sum keeps_attempt keeps_host
  keeps_publish keeps_view_credit keeps_view_credit_others

lemma keeps_view_payees [keeps_intro]: "keeps cached_view (credit_charge_payees E i sub net kind)"
  by (auto simp: credit_charge_payees_def get_split_payees_def Let_def intro!: keeps_view split: list.splits)

lemma keeps_view_route [keeps_intro]: "keeps cached_view (route_to_sub_account sub a)"
  by (auto simp: route_to_sub_account_def credit_sub_account_def require_sub_account_exists_def mod_merchant_def
      set_sub_account_def get_merchant_balance_by_token_def set_merchant_balance_def Let_def cached_view_def
      intro!: keeps_intro keeps_modify)

lemma keeps_view_fee [keeps_intro]: "keeps cached_view (credit_fee E sub fee tr kind)"
  by (auto simp: credit_fee_def Let_def intro!: keeps_intro split: sum.splits option.splits)

lemma keeps_view_settle [keeps_intro]: "keeps cached_view (settle_charge E i now key cfg period salt a nxt sub)"
  by (auto simp: settle_charge_def record_settlement_def settled_subscription_def clear_failures_def remember_key_def
      publish_cap_reached_def publish_fee_def write_subscription_def Let_def intro!: keeps_intro split: prod.split option.split)

lemma keeps_view_underfunded [keeps_intro]: "keeps cached_view (fail_underfunded E i now cfg a sub)"
  by (auto simp: fail_underfunded_def underfunded_subscription_def auto_pause_def write_subscription_def Let_def
      intro!: keeps_intro split: option.split sum.split outcome.split)

lemma keeps_view_cap_remaining [keeps_intro]: "keeps cached_view (cap_remaining_gate i now a sub)"
  by (auto simp: cap_remaining_gate_def write_subscription_def Let_def intro!: keeps_intro split: option.split)

lemma keeps_view_after_salt [keeps_intro]:
  "keeps cached_view (charge_after_salt E i now key cfg period salt a sub)"
  by (auto simp: charge_after_salt_def intro!: keeps_intro split: option.split outcome.split)

lemma keeps_view_charge:
  assumes "\<And>i l. keeps cached_view (mk_salt i l)"
  shows "keeps cached_view (charge_with_flags mk_salt E i now key cfg flags sub)"
  by (auto simp: charge_with_flags_def intro!: keeps_intro assms split: option.split)

text \<open>Two actions that agree once the state is what the first part of both leaves.\<close>

lemma bnd_same:
  assumes "keeps g m" and "\<And>a t. g t = g s \<Longrightarrow> f a t = f' a t"
  shows "bnd m f s = bnd m f' s"
  using keepsD [OF assms(1)] by (auto simp: bnd_def intro: assms(2) split: prod.split outcome.split)

lemma thn_same:
  "keeps g m \<Longrightarrow> (\<And>t. g t = g s \<Longrightarrow> n t = n' t) \<Longrightarrow> thn m n s = thn m n' s"
  unfolding thn_def by (rule bnd_same)

lemma option_same:
  "m s = m' s \<Longrightarrow> (\<And>a. f a s = f' a s) \<Longrightarrow>
   (case x of None \<Rightarrow> m | Some a \<Rightarrow> f a) s = (case x of None \<Rightarrow> m' | Some a \<Rightarrow> f' a) s"
  by (cases x) simp_all

lemma if_same: "m s = m' s \<Longrightarrow> n s = n' s \<Longrightarrow> (if c then m else n) s = (if c then m' else n') s"
  by simp

definition config_fresh :: "cached_admin_config option \<Rightarrow> vault \<Rightarrow> bool" where
  "config_fresh cfg v \<longleftrightarrow> (\<forall>c. cfg = Some c \<longrightarrow> read_cached_admin_config v = (Ok c, v))"

lemma config_fresh_reads:
  assumes "config_fresh cfg s"
  shows "fee_config cfg s = fee_config None s"
    "(case cfg of Some c \<Rightarrow> ret (ca_grace_duration c) | None \<Rightarrow> get_grace_period) s = get_grace_period s"
    "(case cfg of Some c \<Rightarrow> ret (ca_auto_pause_threshold c) | None \<Rightarrow> get_auto_pause_threshold) s =
     get_auto_pause_threshold s"
proof -
  have "read_cached_admin_config s = (Ok c, s)" if "cfg = Some c" for c
    using assms that by (simp add: config_fresh_def)
  then show "fee_config cfg s = fee_config None s"
    "(case cfg of Some c \<Rightarrow> ret (ca_grace_duration c) | None \<Rightarrow> get_grace_period) s = get_grace_period s"
    "(case cfg of Some c \<Rightarrow> ret (ca_auto_pause_threshold c) | None \<Rightarrow> get_auto_pause_threshold) s =
     get_auto_pause_threshold s"
    by (cases cfg; force simp: read_cached_admin_config_def fee_config_def get_protocol_fee_bps_def get_treasury_def
        get_grace_period_def get_auto_pause_threshold_def act_run ok_or_def split: option.splits prod.splits outcome.splits)+
qed

lemma config_fresh_view: "config_fresh cfg s \<Longrightarrow> cached_view t = cached_view s \<Longrightarrow> config_fresh cfg t"
  using cached_view_sel(1) [of t s]
  by (auto simp: config_fresh_def read_cached_admin_config_def get_protocol_fee_bps_def get_treasury_def
      get_grace_period_def get_auto_pause_threshold_def act_run ok_or_def split: option.splits)

lemma settle_cached:
  "config_fresh cfg s \<Longrightarrow> settle_charge E i now key cfg period salt a nxt sub s = settle_charge E i now key None period salt a nxt sub s"
  by (simp add: settle_charge_def bnd_run config_fresh_reads(1))

lemma underfunded_cached:
  assumes "config_fresh cfg s"
  shows "fail_underfunded E i now cfg a sub s = fail_underfunded E i now None a sub s"
proof -
  note fresh = config_fresh_view [OF assms]
  have reads: "(case cfg of Some c \<Rightarrow> ret (ca_auto_pause_threshold c) | None \<Rightarrow> get_auto_pause_threshold) t =
      get_auto_pause_threshold t" if "cached_view t = cached_view s" for t
    using fresh [OF that] by (rule config_fresh_reads)
  have start: "bnd (case cfg of Some c \<Rightarrow> ret (ca_grace_duration c) | None \<Rightarrow> get_grace_period) f s = bnd get_grace_period f s"
    for f :: "nat \<Rightarrow> charge_execution_result vm"
    by (simp add: bnd_run config_fresh_reads(2) [OF assms])
  have finish: "bnd (case cfg of Some c \<Rightarrow> ret (ca_auto_pause_threshold c) | None \<Rightarrow> get_auto_pause_threshold) f t =
      bnd get_auto_pause_threshold f t" if "cached_view t = cached_view s" for f :: "nat \<Rightarrow> charge_execution_result vm" and t
    by (simp add: bnd_run reads [OF that])
  show ?thesis
    unfolding fail_underfunded_def start option.case Let_def
    by (intro bnd_same [where g = cached_view] thn_same [where g = cached_view])
      (auto simp: finish write_subscription_def underfunded_subscription_def Let_def intro!: keeps_intro split: option.split)
qed

lemma after_salt_cached:
  assumes "config_fresh cfg s"
  shows "charge_after_salt E i now key cfg period salt a sub s = charge_after_salt E i now key None period salt a sub s"
  unfolding charge_after_salt_def
  by (intro bnd_same [where g = cached_view] thn_same [where g = cached_view] option_same refl)
    (auto intro!: keeps_intro settle_cached underfunded_cached config_fresh_view [OF assms] split: outcome.split)

lemma with_flags_cached:
  assumes "config_fresh cfg s" and "\<And>i l. keeps cached_view (mk_salt i l)"
  shows "charge_with_flags mk_salt E i now key cfg flags sub s = charge_with_flags mk_salt E i now key None flags sub s"
  unfolding charge_with_flags_def
  by (intro bnd_same [where g = cached_view] thn_same [where g = cached_view] option_same refl)
    (auto intro!: keeps_intro assms(2) after_salt_cached config_fresh_view [OF assms(1)])

text \<open>The merchant cache holds what a look-up would find.\<close>

definition merchant_status :: "vault \<Rightarrow> nat \<Rightarrow> address \<Rightarrow> bool \<times> bool" where
  "merchant_status v now m =
     ((case m_config (v_merchant v) m of Some c \<Rightarrow> mc_is_paused c | None \<Rightarrow> False) \<or>
        schema_version (v_admin v) < 3 \<and> m_paused (v_merchant v) m = Some True,
      case m_vacation (v_merchant v) m of Some w \<Rightarrow> mv_start_ts w \<le> now \<and> now < mv_end_ts w | None \<Rightarrow> False)"

definition cache_fresh :: "(address \<Rightarrow> (bool \<times> bool) option) \<Rightarrow> vault \<Rightarrow> nat \<Rightarrow> bool" where
  "cache_fresh c v now \<longleftrightarrow> (\<forall>m st. c m = Some st \<longrightarrow> st = merchant_status v now m)"

lemma merchant_flags_fresh: "merchant_flags sub now None s = (Ok (merchant_status s now (s_merchant sub), None), s)"
  by (auto simp: merchant_flags_def merchant_status_def get_merchant_paused_def is_merchant_in_vacation_def
      get_merchant_config_def get_merchant_vacation_def act_run split: option.splits)

lemma merchant_flags_cached:
  assumes "cache_fresh c s now"
  shows "\<exists>c'. merchant_flags sub now (Some c) s = (Ok (merchant_status s now (s_merchant sub), Some c'), s) \<and> cache_fresh c' s now"
proof (cases "c (s_merchant sub)")
  case None
  have "merchant_flags sub now (Some c) s =
      (Ok (merchant_status s now (s_merchant sub), Some (c(s_merchant sub \<mapsto> merchant_status s now (s_merchant sub)))), s)"
    using None merchant_flags_fresh [of sub now s] by (auto simp: merchant_flags_def Let_def act_run split: prod.splits outcome.splits)
  with assms show ?thesis by (auto simp: cache_fresh_def)
next
  case (Some st)
  with assms show ?thesis by (cases st) (auto simp: merchant_flags_def cache_fresh_def Let_def act_run)
qed

lemma cache_fresh_view: "cache_fresh c s now \<Longrightarrow> cached_view t = cached_view s \<Longrightarrow> cache_fresh c t now"
  using cached_view_sel [of t s] by (simp add: cache_fresh_def merchant_status_def)

text \<open>A charge with the caches ends as a charge without them and leaves them fresh.\<close>

lemma charge_one_cached_same:
  assumes "config_fresh cfg s" and "cache_fresh c s now" and "\<And>i l. keeps cached_view (mk_salt i l)"
  obtains x t c' where
    "attempt (charge_one_with mk_salt E i now key None) s = (x, t)"
    "charge_one_cached mk_salt E i now key cfg (Some c) s =
       ((case x of Ok r \<Rightarrow> Ok (r, Some c') | Err e \<Rightarrow> Err e | Panic \<Rightarrow> Panic), t)"
    "cache_fresh c' t now" "config_fresh cfg t" "\<nexists>e. x = Err e"
proof -
  have open_view: "keeps cached_view (attempt (charge_open E i now))" by (auto intro!: keeps_intro)
  obtain r u where o: "attempt (charge_open E i now) s = (r, u)" by (cases "attempt (charge_open E i now) s")
  from keepsD [OF open_view this] have u: "cached_view u = cached_view s" .
  note fresh = config_fresh_view [OF assms(1) u] cache_fresh_view [OF assms(2) u]
  show thesis
  proof (cases r)
    case (Ok y)
    show thesis
    proof (cases y)
      case (Inl e)
      with o Ok fresh that [of "Ok (Inl e)" u c] show thesis
        by (simp add: charge_one_with_def charge_one_cached_def bnd_run attempt_def run_simps)
    next
      case (Inr sub)
      obtain c' where c': "merchant_flags sub now (Some c) u = (Ok (merchant_status u now (s_merchant sub), Some c'), u)"
          "cache_fresh c' u now"
        using merchant_flags_cached [OF fresh(2)] by blast
      let ?charge = "\<lambda>cfg. charge_with_flags mk_salt E i now key cfg (merchant_status u now (s_merchant sub)) sub"
      have same: "attempt (?charge cfg) u = attempt (?charge None) u"
        unfolding attempt_def by (simp only: with_flags_cached [OF fresh(1) assms(3)])
      obtain x t where x: "attempt (?charge None) u = (x, t)" by (cases "attempt (?charge None) u")
      have "keeps cached_view (attempt (?charge None))" by (intro keeps_attempt keeps_view_charge assms(3))
      from keepsD [OF this x] have t: "cached_view t = cached_view u" .
      have no_err: "\<nexists>e. x = Err e" using x by (auto simp: attempt_def split: prod.splits outcome.splits)
      show thesis
      proof (rule that [of x t c'])
        show "attempt (charge_one_with mk_salt E i now key None) s = (x, t)"
          using o Ok Inr x no_err
          by (auto simp: charge_one_with_def charge_one_cached_def bnd_run merchant_flags_fresh attempt_def run_simps
              split: outcome.splits sum.splits prod.splits)
        show "charge_one_cached mk_salt E i now key cfg (Some c) s =
            ((case x of Ok r \<Rightarrow> Ok (r, Some c') | Err e \<Rightarrow> Err e | Panic \<Rightarrow> Panic), t)"
          using o Ok Inr x same c'(1)
          by (auto simp: charge_one_cached_def bnd_run run_simps split: outcome.splits)
      qed (use config_fresh_view [OF fresh(1) t] cache_fresh_view [OF c'(2) t] no_err in simp_all)
    qed
  next
    case (Err e)
    with o show thesis by (auto simp: attempt_def split: prod.splits outcome.splits)
  next
    case Panic
    with o fresh that [of Panic u c] show thesis
      by (auto simp: charge_one_with_def charge_one_cached_def bnd_run attempt_def run_simps split: prod.splits outcome.splits)
  qed
qed

section \<open>A batch is a sequence of single charges\<close>

primrec charge_each ::
  "(nat \<Rightarrow> nat \<Rightarrow> bytes vm) \<Rightarrow> env \<Rightarrow> nat \<Rightarrow> (bytes list) option \<Rightarrow> nat \<Rightarrow> nat list \<Rightarrow> (batch_charge_result list) vm" where
  "charge_each mk_salt E now keys idx [] = ret []"
| "charge_each mk_salt E now keys idx (i # ids) =
     bnd (attempt (charge_one_with mk_salt E i now (key_at keys idx) None)) (\<lambda>r.
     bnd (charge_each mk_salt E now keys (Suc idx) ids) (\<lambda>rs.
     ret (batch_outcome i r # rs)))"

lemma batch_loop_each:
  assumes "\<And>i l. keeps cached_view (mk_salt i l)" and "config_fresh cfg s" and "cache_fresh c s now"
  shows "batch_loop mk_salt E now keys cfg idx (Some c) ids s = charge_each mk_salt E now keys idx ids s"
  using assms(2,3)
proof (induction ids arbitrary: s c idx)
  case (Cons i ids)
  show ?case
  proof (rule charge_one_cached_same [OF Cons.prems assms(1), where E = E and i = i and key = "key_at keys idx"])
    fix x t c'
    assume "attempt (charge_one_with mk_salt E i now (key_at keys idx) None) s = (x, t)"
      and "charge_one_cached mk_salt E i now (key_at keys idx) cfg (Some c) s =
        ((case x of Ok r \<Rightarrow> Ok (r, Some c') | Err e \<Rightarrow> Err e | Panic \<Rightarrow> Panic), t)"
      and "cache_fresh c' t now" "config_fresh cfg t" "\<nexists>e. x = Err e"
    with Cons.IH [of t c' "Suc idx"] show ?thesis
      by (cases x) (simp_all add: bnd_run)
  qed
qed simp

text \<open>
  C16. The caches of a batch change nothing: charging a batch, which reads the fee, the treasury, the grace
  period and the pause threshold once and the pause and vacation of each merchant once, ends for every state,
  every list of subscriptions and every key exactly as charging them one after the other, each
  charge reading everything afresh, and reports the same results. The salt is any function that leaves
  configuration and merchants alone, the code's own among them.
\<close>

theorem batch_is_single_charges:
  assumes "\<And>i l. keeps cached_view (mk_salt i l)"
  shows "execute_batch_charge_with mk_salt E ids keys s = charge_each mk_salt E (e_timestamp E) keys 0 ids s"
proof -
  have "\<exists>r. attempt read_cached_admin_config s = (Ok r, s) \<and> (\<forall>c. r = Inr c \<longrightarrow> config_fresh (Some c) s)"
    by (auto simp: config_fresh_def read_cached_admin_config_def get_protocol_fee_bps_def get_treasury_def
        get_grace_period_def get_auto_pause_threshold_def act_run ok_or_def split: option.splits)
  then obtain r where r: "attempt read_cached_admin_config s = (Ok r, s)" "\<And>c. r = Inr c \<Longrightarrow> config_fresh (Some c) s"
    by auto
  then have "config_fresh (case r of Inr cfg \<Rightarrow> Some cfg | Inl e \<Rightarrow> None) s"
    by (auto simp: config_fresh_def split: sum.split)
  with r(1) show ?thesis
    by (simp add: execute_batch_charge_with_def bnd_run batch_loop_each [OF assms] cache_fresh_def)
qed

theorem batch_is_single_charges_witness:
  "execute_batch_charge test_env [7, 8] None billing_vault = charge_each (charge_salt test_env) test_env 1000000 None 0 [7, 8] billing_vault"
  using batch_is_single_charges [of "charge_salt test_env" test_env "[7, 8]" None billing_vault]
  by (simp add: execute_batch_charge_def charge_salt_def keeps_intro)

end
