(* ===== verification/Admin_Ops.thy ===== *)
theory Admin_Ops
  imports Governance Batch_Charge Usage_Charge Subscription_Status
begin

text \<open>
  Administration (\<^verbatim>\<open>src/admin.rs\<close> and the inline module \<open>operator\<close> of \<^verbatim>\<open>src/lib.rs\<close>): initialisation,
  accepted tokens, batch charging, rotation and recovery, the treasury change queue, the two-step admin
  hand-over and the operator.
\<close>

section \<open>Initialisation and accepted tokens\<close>

definition STORAGE_VERSION :: "nat" where "STORAGE_VERSION = 5"

definition do_init :: "env \<Rightarrow> address \<Rightarrow> nat \<Rightarrow> address \<Rightarrow> int \<Rightarrow> nat \<Rightarrow> unit vm" where
  "do_init E token token_decimals admin min_topup grace_period =
     bnd (has_config cf_token) (\<lambda>has_token.
     bnd (has_config cf_admin) (\<lambda>has_admin.
     if has_token \<or> has_admin then fail E_AlreadyInitialized
     else if min_topup \<le> 0 then fail E_InvalidAmount
     else if token_decimals > 19 then fail E_InvalidTokenDecimals
     else if token = e_self E then fail E_InvalidToken
     else
       thn (mod_admin (\<lambda>a. a\<lparr>ad_schema_persistent := Some STORAGE_VERSION\<rparr>))
       (thn (write_config cf_token_update token)
       (thn (mod_admin (\<lambda>a. a\<lparr>ad_accepted_decimals := (ad_accepted_decimals a)(token \<mapsto> token_decimals),
                             ad_accepted_tokens := Some [token]\<rparr>))
       (thn (write_config cf_admin_update admin)
       (thn (write_config cf_min_topup_update min_topup)
       (thn (write_config cf_grace_period_update grace_period)
       (publish (AdminEv (Ev_initialized token admin min_topup grace_period))))))))))"

definition accepted_tokens :: "vault \<Rightarrow> address list" where
  "accepted_tokens v = (case ad_accepted_tokens (v_admin v) of Some l \<Rightarrow> l | None \<Rightarrow> [])"

definition add_accepted_token :: "env \<Rightarrow> address \<Rightarrow> address \<Rightarrow> nat \<Rightarrow> unit vm" where
  "add_accepted_token E admin token decimals =
     thn (require_admin_auth E admin)
     (bnd (require_multisig_approval E AddAcceptedToken token None decimals) (\<lambda>proposal_id.
     bnd (is_token_accepted token) (\<lambda>known.
     thn (if \<not> known then
            thn (enforce_config_cooldown E ''AcceptedTokens'')
            (bnd (gets accepted_tokens) (\<lambda>tokens.
            mod_admin (\<lambda>a. a\<lparr>ad_accepted_tokens := Some (tokens @ [token])\<rparr>)))
          else ret ())
     (thn (mod_admin (\<lambda>a. a\<lparr>ad_accepted_decimals := (ad_accepted_decimals a)(token \<mapsto> decimals)\<rparr>))
     (consume_multisig_proposal E proposal_id)))))"

text \<open>A subscription that is charged keeps its token accepted.\<close>

primrec reject_charged_subs :: "nat list \<Rightarrow> unit vm" where
  "reject_charged_subs [] = ret ()"
| "reject_charged_subs (i # ids) =
     bnd (gets (\<lambda>v. su_sub (v_subs v) i)) (\<lambda>x.
     case x of
       Some sub \<Rightarrow>
         if s_status sub = Active \<or> s_status sub = GracePeriod then fail E_InvalidStatusTransition
         else reject_charged_subs ids
     | None \<Rightarrow> reject_charged_subs ids)"

definition remove_accepted_token :: "env \<Rightarrow> address \<Rightarrow> address \<Rightarrow> unit vm" where
  "remove_accepted_token E admin token =
     thn (require_admin_auth E admin)
     (bnd get_token (\<lambda>default_token.
     if token = default_token then fail E_InvalidInput
     else
       bnd (gets (\<lambda>v. id_list (lf_token_subs (v_life v) token))) (\<lambda>token_ids.
       thn (reject_charged_subs token_ids)
       (bnd (require_multisig_approval E RemoveAcceptedToken token None 0) (\<lambda>proposal_id.
       thn (enforce_config_cooldown E ''AcceptedTokens'')
       (thn (mod_admin (\<lambda>a. a\<lparr>ad_accepted_decimals := (ad_accepted_decimals a)(token := None)\<rparr>))
       (bnd (gets accepted_tokens) (\<lambda>tokens.
       thn (mod_admin (\<lambda>a. a\<lparr>ad_accepted_tokens := Some (filter (\<lambda>t. t \<noteq> token) tokens)\<rparr>))
       (consume_multisig_proposal E proposal_id)))))))))"

definition list_accepted_tokens :: "vault \<Rightarrow> (address \<times> nat) list" where
  "list_accepted_tokens v =
     List.map_filter (\<lambda>token. map_option (Pair token) (ad_accepted_decimals (v_admin v) token)) (accepted_tokens v)"

section \<open>Charging on behalf of the admin and the operator\<close>

definition do_charge_subscription :: "env \<Rightarrow> nat \<Rightarrow> charge_execution_result vm" where
  "do_charge_subscription E i =
     bnd (require_stored_admin_auth E) (\<lambda>_. charge_one E i (e_timestamp E) None None)"

definition do_charge_usage :: "env \<Rightarrow> nat \<Rightarrow> int \<Rightarrow> bytes \<Rightarrow> unit vm" where
  "do_charge_usage E i usage_amount reference =
     bnd (require_stored_admin_auth E) (\<lambda>_.
     thn (charge_usage_one E i usage_amount reference) (ret ()))"

definition require_operator_auth :: "env \<Rightarrow> address \<Rightarrow> address vm" where
  "require_operator_auth E op =
     thn (require_auth E op)
     (bnd get_operator (\<lambda>x.
     bnd (ok_or x E_Unauthorized) (\<lambda>stored_op.
     if op \<noteq> stored_op then fail E_Unauthorized else ret stored_op)))"

definition do_set_operator :: "env \<Rightarrow> address \<Rightarrow> address \<Rightarrow> unit vm" where
  "do_set_operator E admin op =
     thn (require_admin_auth E admin)
     (if op = e_self E then fail E_InvalidInput
      else
        thn (enforce_config_cooldown E ''Operator'')
        (thn (write_config cf_operator_update op)
        (publish (AdminEv (Ev_operator_set admin op (e_timestamp E))))))"

definition do_remove_operator :: "env \<Rightarrow> address \<Rightarrow> unit vm" where
  "do_remove_operator E admin =
     thn (require_admin_auth E admin)
     (thn (enforce_config_cooldown E ''Operator'')
     (thn (remove_config cf_operator_update)
     (publish (AdminEv (Ev_operator_removed admin (e_timestamp E))))))"

definition do_operator_batch_charge :: "env \<Rightarrow> address \<Rightarrow> nat list \<Rightarrow> nat \<Rightarrow> (batch_charge_result list) vm" where
  "do_operator_batch_charge E op ids nonce = ret []"

definition do_operator_charge_subscription :: "env \<Rightarrow> address \<Rightarrow> nat \<Rightarrow> charge_execution_result vm" where
  "do_operator_charge_subscription E op i =
     bnd (require_operator_auth E op) (\<lambda>_. charge_one E i (e_timestamp E) None None)"

definition do_operator_charge_usage_with_reference :: "env \<Rightarrow> address \<Rightarrow> nat \<Rightarrow> int \<Rightarrow> bytes \<Rightarrow> usage_charge_result vm" where
  "do_operator_charge_usage_with_reference E op i usage_amount reference =
     bnd (require_operator_auth E op) (\<lambda>_. charge_usage_one E i usage_amount reference)"

definition do_operator_charge_usage :: "env \<Rightarrow> address \<Rightarrow> nat \<Rightarrow> int \<Rightarrow> usage_charge_result vm" where
  "do_operator_charge_usage E op i usage_amount =
     bnd (require_operator_auth E op) (\<lambda>_. charge_usage_one E i usage_amount [])"

section \<open>Rotation and recovery\<close>

definition do_rotate_admin :: "env \<Rightarrow> address \<Rightarrow> address \<Rightarrow> nat \<Rightarrow> unit vm" where
  "do_rotate_admin E current_admin new_admin nonce =
     thn (require_admin_auth E current_admin)
     (thn (check_and_advance E current_admin AdminRotation nonce)
     (if new_admin = current_admin then fail E_SelfRotation
      else if new_admin = e_self E then fail E_InvalidNewAdmin
      else
        bnd (require_multisig_approval E RotateAdmin new_admin None 0) (\<lambda>proposal_id.
        thn (enforce_config_cooldown E ''Admin'')
        (thn (write_config cf_admin_update new_admin)
        (thn invalidate_pending_proposals
        (thn (consume_multisig_proposal E proposal_id)
        (publish (AdminEv (Ev_admin_rotated current_admin new_admin (e_timestamp E))))))))))"

definition do_recover_stranded_funds :: "env \<Rightarrow> address \<Rightarrow> address \<Rightarrow> address \<Rightarrow> int \<Rightarrow> bytes \<Rightarrow> unit vm" where
  "do_recover_stranded_funds E admin token recipient amount recovery_id =
     thn (require_admin_auth E admin)
     (if amount \<le> 0 then fail E_InvalidRecoveryAmount
      else
        let amount_u32 = (if amount > int u32_max then u32_max else nat amount) in
        bnd (require_multisig_approval E RecoverStrandedFunds recipient (Some token) amount_u32) (\<lambda>proposal_id.
        bnd (gets (\<lambda>v. ad_recoveries (v_admin v) recovery_id)) (\<lambda>used.
        if used then fail E_Replay
        else
          bnd (token_balance token (e_self E)) (\<lambda>contract_balance.
          bnd (ok_or (checked_sub_i128 contract_balance (get_total_accounted token)) E_Underflow) (\<lambda>recoverable.
          if amount > recoverable then fail E_InsufficientBalance
          else
            thn (mod_admin (\<lambda>a. a\<lparr>ad_recoveries := (ad_recoveries a)(recovery_id := True)\<rparr>))
            (thn (consume_multisig_proposal E proposal_id)
            (thn (publish (AdminEv (Ev_recovery admin recipient token amount (e_timestamp E))))
            (token_transfer E token (e_self E) recipient amount))))))))"

section \<open>The treasury\<close>

definition TREASURY_CHANGE_DELAY_SECS :: "nat" where "TREASURY_CHANGE_DELAY_SECS = 48 * 24 * 60 * 60"

definition queue_treasury_change :: "env \<Rightarrow> address \<Rightarrow> address \<Rightarrow> nat \<Rightarrow> unit vm" where
  "queue_treasury_change E admin treasury fee_bps =
     thn (require_admin_auth E admin)
     (if fee_bps > MAX_PROTOCOL_FEE_BIPS then fail E_ProtocolFeeTooHigh
      else
        bnd (gets (\<lambda>v. ad_pending_treasury (v_admin v))) (\<lambda>pending.
        if pending \<noteq> None then fail E_InvalidInput
        else
          bnd (require_multisig_approval E SetProtocolFee treasury None fee_bps) (\<lambda>proposal_id.
          let effective_at = sat_add_u64 (e_timestamp E) TREASURY_CHANGE_DELAY_SECS in
          thn (mod_admin (\<lambda>a. a\<lparr>ad_pending_treasury := Some
                 \<lparr>pt_new_treasury = treasury, pt_new_fee_bps = fee_bps, pt_effective_at = effective_at\<rparr>\<rparr>))
          (thn (enforce_config_cooldown E ''ProtocolFee'')
          (thn (write_config cf_fee_bps_update fee_bps)
          (thn (write_config cf_treasury_update treasury)
          (thn (consume_multisig_proposal E proposal_id)
          (publish (AdminEv (Ev_treasury_change_queued admin treasury fee_bps effective_at (e_timestamp E)))))))))))"

definition execute_treasury_change :: "env \<Rightarrow> address \<Rightarrow> unit vm" where
  "execute_treasury_change E admin =
     thn (require_admin_auth E admin)
     (bnd (gets (\<lambda>v. ad_pending_treasury (v_admin v))) (\<lambda>x.
     bnd (ok_or x E_NotFound) (\<lambda>pending.
     if e_timestamp E < pt_effective_at pending then fail E_TimelockNotElapsed
     else
       thn (write_config cf_fee_bps_update (pt_new_fee_bps pending))
       (thn (write_config cf_treasury_update (pt_new_treasury pending))
       (thn (mod_admin (\<lambda>a. a\<lparr>ad_pending_treasury := None\<rparr>))
       (publish (AdminEv (Ev_treasury_change_executed admin (pt_new_treasury pending) (pt_new_fee_bps pending)
          (pt_effective_at pending) (e_timestamp E)))))))))"

definition cancel_treasury_change :: "env \<Rightarrow> address \<Rightarrow> unit vm" where
  "cancel_treasury_change E admin =
     thn (require_admin_auth E admin)
     (bnd (gets (\<lambda>v. ad_pending_treasury (v_admin v))) (\<lambda>x.
     if x = None then fail E_NotFound
     else mod_admin (\<lambda>a. a\<lparr>ad_pending_treasury := None\<rparr>)))"

definition set_protocol_fee :: "env \<Rightarrow> address \<Rightarrow> address \<Rightarrow> nat \<Rightarrow> unit vm" where
  "set_protocol_fee E admin treasury fee_bps = queue_treasury_change E admin treasury fee_bps"

section \<open>The two-step hand-over of the admin role\<close>

definition PROPOSAL_WINDOW_SECS :: "nat" where "PROPOSAL_WINDOW_SECS = 7 * 24 * 60 * 60"
definition ADMIN_PROPOSAL_COOLDOWN_SECS :: "nat" where "ADMIN_PROPOSAL_COOLDOWN_SECS = 24 * 60 * 60"

definition set_admin_proposal :: "admin_proposal option \<Rightarrow> unit vm" where
  "set_admin_proposal x = mod_admin (\<lambda>a. a\<lparr>ad_admin_proposal := x\<rparr>)"

definition get_admin_proposal :: "(admin_proposal option) vm" where
  "get_admin_proposal = gets (\<lambda>v. ad_admin_proposal (v_admin v))"

definition do_propose_admin :: "env \<Rightarrow> address \<Rightarrow> address \<Rightarrow> unit vm" where
  "do_propose_admin E current_admin new_admin =
     thn (require_auth E current_admin)
     (bnd require_admin (\<lambda>stored.
     if current_admin \<noteq> stored then fail E_Unauthorized
     else if new_admin = e_self E then fail E_InvalidNewAdmin
     else
       bnd get_admin_proposal (\<lambda>x.
       if (case x of Some pending \<Rightarrow> e_timestamp E \<le> ap_expires_at pending | None \<Rightarrow> False) then fail E_ProposalAlreadyExists
       else
         let expires_at = sat_add_u64 (e_timestamp E) PROPOSAL_WINDOW_SECS in
         thn (set_admin_proposal (Some \<lparr>ap_new_admin = new_admin, ap_proposed_at = e_timestamp E, ap_expires_at = expires_at\<rparr>))
         (publish (AdminEv (Ev_admin_proposal_created current_admin new_admin expires_at (e_timestamp E)))))))"

definition do_claim_admin_role :: "env \<Rightarrow> address \<Rightarrow> unit vm" where
  "do_claim_admin_role E claimant =
     thn (require_auth E claimant)
     (bnd get_admin_proposal (\<lambda>x.
     bnd (ok_or x E_ProposalNotFound) (\<lambda>p.
     if claimant \<noteq> ap_new_admin p then fail E_InvalidClaimant
     else if e_timestamp E < sat_add_u64 (ap_proposed_at p) ADMIN_PROPOSAL_COOLDOWN_SECS then fail E_ProposalCooldownActive
     else if e_timestamp E > ap_expires_at p then thn (set_admin_proposal None) (fail E_ProposalExpired)
     else
       bnd require_admin (\<lambda>old_admin.
       thn (set_admin_proposal None)
       (thn (write_config cf_admin_update claimant)
       (thn invalidate_pending_proposals
       (publish (AdminEv (Ev_admin_proposal_claimed old_admin claimant (e_timestamp E))))))))))"

definition do_cancel_admin_proposal :: "env \<Rightarrow> address \<Rightarrow> unit vm" where
  "do_cancel_admin_proposal E admin =
     thn (require_auth E admin)
     (bnd require_admin (\<lambda>stored.
     if admin \<noteq> stored then fail E_Unauthorized
     else
       bnd get_admin_proposal (\<lambda>x.
       if x = None then fail E_NoActiveProposal
       else
         thn (set_admin_proposal None)
         (publish (AdminEv (Ev_admin_proposal_cancelled admin (e_timestamp E)))))))"

section \<open>The two steps of a hand-over\<close>

abbreviation pending_handover :: "vault \<Rightarrow> admin_proposal option" where
  "pending_handover v \<equiv> ad_admin_proposal (v_admin v)"

lemma set_admin_proposal_ok [act_ok]:
  "set_admin_proposal x s = (Ok u, t) \<longleftrightarrow> t = s\<lparr>v_admin := (v_admin s)\<lparr>ad_admin_proposal := x\<rparr>\<rparr>"
  "get_admin_proposal s = (Ok y, t) \<longleftrightarrow> y = pending_handover s \<and> t = s"
  by (auto simp: set_admin_proposal_def get_admin_proposal_def act_ok)

lemma propose_effect:
  assumes "do_propose_admin E current new s = (Ok u, t)"
  shows "e_auth E current \<and> stored_admin s = Some current \<and> stored_admin t = stored_admin s \<and>
    pending_handover t = Some \<lparr>ap_new_admin = new, ap_proposed_at = e_timestamp E,
      ap_expires_at = sat_add_u64 (e_timestamp E) PROPOSAL_WINDOW_SECS\<rparr>"
  using assms by (auto simp: do_propose_admin_def act_ok stored_admin_def Let_def split: if_split_asm)

lemma claim_role_effect:
  assumes "do_claim_admin_role E claimant s = (Ok u, t)"
  obtains p where "e_auth E claimant" "pending_handover s = Some p" "ap_new_admin p = claimant"
    "sat_add_u64 (ap_proposed_at p) ADMIN_PROPOSAL_COOLDOWN_SECS \<le> e_timestamp E" "e_timestamp E \<le> ap_expires_at p"
    "stored_admin s \<noteq> None" "pending_handover t = None"
    "v_admin t = config_put cf_admin_update claimant ((v_admin s)\<lparr>ad_admin_proposal := None\<rparr>)"
  using assms that
  by (auto simp: do_claim_admin_role_def act_ok stored_admin_def not_less split: if_split_asm)

section \<open>Rotation by guardians\<close>

lemma find_approval_ok:
  assumes "find_approval E kind a b c ns s = (Ok n, t)"
  shows "t = s \<and> n \<in> set ns \<and> (\<exists>p. g_proposal (v_gov s) n = Some p \<and> matches_request kind a b c p)"
  using assms by (induction ns) (auto simp: act_ok split: if_split_asm option.split_asm)

lemma require_multisig_approval_ok: "require_multisig_approval E kind a b c s = (Ok n, t) \<Longrightarrow> t = s"
  by (auto simp: require_multisig_approval_def list_guardians_def act_ok split: if_split_asm dest: find_approval_ok)

lemma rotate_effect:
  assumes "do_rotate_admin E current new nonce s = (Ok u, t)"
  obtains n w x y where "e_auth E current" "stored_admin s = Some current"
    "require_multisig_approval E RotateAdmin new None 0 w = (Ok n, w)" "v_gov w = v_gov s"
    "v_gov x = (v_gov s)\<lparr>g_invalidation_cutoff := Some (current_proposal_id s)\<rparr>"
    "consume_multisig_proposal E n x = (Ok (), y)" "v_gov t = v_gov y"
proof -
  from assms obtain w n v c x y where run: "e_auth E current" "stored_admin s = Some current"
      "check_and_advance E current AdminRotation nonce s = (Ok (), w)"
      "require_multisig_approval E RotateAdmin new None 0 w = (Ok n, v)" "enforce_config_cooldown E ''Admin'' v = (Ok c, x)"
      "consume_multisig_proposal E n (x\<lparr>v_admin := config_put cf_admin_update new (v_admin x),
         v_gov := (v_gov x)\<lparr>g_invalidation_cutoff := Some (current_proposal_id (x\<lparr>v_admin := config_put cf_admin_update new (v_admin x)\<rparr>))\<rparr>\<rparr>) = (Ok (), y)"
      "v_gov t = v_gov y"
    by (auto simp: do_rotate_admin_def bnd_ok thn_ok basic_ok require_admin_auth_ok stored_admin_def write_config_ok gov_ok
        publish_ok split: if_split_asm)
  have v: "v = w" using require_multisig_approval_ok [OF run(4)] .
  have w: "v_gov w = v_gov s" using run(3) by (simp add: act_ok)
  have x: "v_gov x = v_gov s" using run(5) v w by (simp add: enforce_config_cooldown_ok)
  show thesis
    by (rule that [OF run(1,2) run(4) [unfolded v] w _ run(6,7)]) (simp add: x current_proposal_id_def)
qed

text \<open>
  Guardians can approve a rotation of the admin only by the very first proposal, and that approval is never used up. In a
  vault with guardians whose proposals all have ids below the next one, a rotation that succeeds was approved by
  proposal 0, which afterwards is stored as before, not executed: the rotation invalidates every pending proposal before it
  executes the one that approved it, which then is refused, unless its id is 0, which stands for no proposal.
\<close>

theorem rotation_needs_first_proposal:
  assumes "\<And>n p. g_proposal (v_gov s) n = Some p \<Longrightarrow> n < current_proposal_id s" and "g_guardians (v_gov s) \<noteq> []"
    and "do_rotate_admin E current new nonce s = (Ok u, t)"
  shows "\<exists>p. g_proposal (v_gov s) 0 = Some p \<and> matches_request RotateAdmin new None 0 p \<and>
    g_proposal (v_gov t) 0 = Some p \<and> stored_admin s = Some current \<and> e_auth E current"
proof -
  from assms(3) obtain n w x y where rot: "e_auth E current" "stored_admin s = Some current"
      "require_multisig_approval E RotateAdmin new None 0 w = (Ok n, w)" "v_gov w = v_gov s"
      "v_gov x = (v_gov s)\<lparr>g_invalidation_cutoff := Some (current_proposal_id s)\<rparr>"
      "consume_multisig_proposal E n x = (Ok (), y)" "v_gov t = v_gov y"
    by (rule rotate_effect)
  from rot(3,4) assms(2) obtain p where p: "g_proposal (v_gov s) n = Some p" "matches_request RotateAdmin new None 0 p"
    by (auto simp: require_multisig_approval_def list_guardians_def act_ok dest!: find_approval_ok)
  have "n = 0"
  proof (rule ccontr)
    assume "n \<noteq> 0"
    with rot(6) have "invalidation_cutoff x \<le> n"
      by (auto simp: consume_multisig_proposal_def do_execute_proposal_def act_ok dest!: execution_gates_ok)
    with rot(5) assms(1) [OF p(1)] show False by (simp add: invalidation_cutoff_def)
  qed
  with p rot show ?thesis by (auto simp: consume_multisig_proposal_def act_ok)
qed

definition rotation_proposal :: proposal where
  "rotation_proposal = (new_proposal test_env 0 RotateAdmin (Addr 4) None 0 7000 1400000)\<lparr>pr_votes := [(Addr 3, True)]\<rparr>"

definition rotation_vault :: vault where
  "rotation_vault = gov_vault\<lparr>v_gov := \<lparr>g_guardians = [(Addr 3, 70), (Addr 4, 30)], g_proposal = [0 \<mapsto> rotation_proposal],
     g_next_id = Some 1, g_invalidation_cutoff = None\<rparr>\<rparr>"

lemma gov_late_sel [simp]: "e_timestamp gov_late = 1500000" "e_auth gov_late a" "e_self gov_late = Addr 0"
  by (simp_all add: gov_late_def)

lemma rotation_approved:
  assumes "v_gov v = v_gov rotation_vault"
  shows "require_multisig_approval gov_late RotateAdmin (Addr 4) None 0 v = (Ok 0, v)"
proof -
  have "map (\<lambda>i. Suc 0 - i) (filter (\<lambda>i. i \<le> Suc 0) [0..<10]) = [1, 0]" by (simp add: upt_rec)
  with assms show ?thesis
    by (simp add: require_multisig_approval_def list_guardians_def read_guardians_def get_current_proposal_id_def
        current_proposal_id_def act_run get_proposal_def rotation_vault_def rotation_proposal_def matches_request_def
        calculate_quorum_def tally_def List.map_filter_def weight_of_def sat_add_u32_def u32_max_def)
qed

theorem rotation_needs_first_proposal_witness:
  "\<exists>t. do_rotate_admin gov_late (Addr 3) (Addr 4) 0 rotation_vault = (Ok (), t) \<and>
     g_proposal (v_gov t) 0 = Some rotation_proposal \<and> \<not> pr_executed rotation_proposal"
proof -
  have "config_value cf_admin (v_admin rotation_vault) = Some (Addr 3)" "v_nonce rotation_vault = (\<lambda>_. Map.empty)"
      "ad_config_changed_at (v_admin rotation_vault) = Map.empty"
    by (simp_all add: rotation_vault_def config_value_def empty_vault_def)
  then have "\<exists>t. do_rotate_admin gov_late (Addr 3) (Addr 4) 0 rotation_vault = (Ok (), t)"
    by (simp add: do_rotate_admin_def act_ok rotation_approved stored_nonce_def u64_max_def enforce_config_cooldown_ok
        gov_ok consume_multisig_proposal_def)
  then obtain t where t: "do_rotate_admin gov_late (Addr 3) (Addr 4) 0 rotation_vault = (Ok (), t)" ..
  have only: "g_proposal (v_gov rotation_vault) n = (if n = 0 then Some rotation_proposal else None)"
    and guards: "g_guardians (v_gov rotation_vault) \<noteq> []" "current_proposal_id rotation_vault = 1"
    and unused: "\<not> pr_executed rotation_proposal" for n
    by (simp_all add: rotation_vault_def current_proposal_id_def rotation_proposal_def)
  have below: "n < current_proposal_id rotation_vault" if "g_proposal (v_gov rotation_vault) n = Some p" for n p
    using that unfolding only guards(2) by (simp split: if_split_asm)
  from rotation_needs_first_proposal [OF below guards(1) t] only [of 0] have "g_proposal (v_gov t) 0 = Some rotation_proposal"
    by auto
  with t unused show ?thesis by blast
qed

section \<open>Recovery\<close>

text \<open>
  C24. The recovery of stranded funds can take the money of subscribers and merchants: without guardians the admin can
  recover any positive amount up to the whole token balance of the vault, because the accounting the limit rests on reports zero.
  The books stay as they are, so the vault then owes more than it holds; a recovery id works only once.
\<close>

theorem recovery_takes_deposits:
  assumes "e_auth E admin" and "stored_admin s = Some admin" and "g_guardians (v_gov s) = []"
    and "\<not> ad_recoveries (v_admin s) rid" and "0 < amount" and "amount \<le> v_ledger s token (e_self E)"
    and "fits_i128 (v_ledger s token (e_self E))"
    and "e_transfer E token (e_self E) recipient amount (v_ledger s) = Some l"
  shows "\<exists>t. do_recover_stranded_funds E admin token recipient amount rid s = (Ok (), t) \<and> v_ledger t = l \<and>
    v_subs t = v_subs s \<and> v_merchant t = v_merchant s \<and> v_dispute t = v_dispute s \<and>
    fst (do_recover_stranded_funds E' admin' token' recipient' amount' rid t) \<noteq> Ok ()"
proof -
  let ?a = "(v_admin s)\<lparr>ad_recoveries := (ad_recoveries (v_admin s))(rid := True)\<rparr>"
  let ?t = "s\<lparr>v_admin := ?a, v_events := v_events s @ [AdminEv (Ev_recovery admin recipient token amount (e_timestamp E))],
    v_ledger := l\<rparr>"
  have "do_recover_stranded_funds E admin token recipient amount rid s = (Ok (), ?t)"
    using assms
    by (simp add: do_recover_stranded_funds_def act_ok require_multisig_approval_def list_guardians_def Let_def stored_admin_def
        checked_sub_i128_def get_total_accounted_def consume_multisig_proposal_def)
  moreover have "fst (do_recover_stranded_funds E' admin' token' recipient' amount' rid ?t) \<noteq> Ok ()"
  proof
    assume "fst (do_recover_stranded_funds E' admin' token' recipient' amount' rid ?t) = Ok ()"
    then obtain u where "do_recover_stranded_funds E' admin' token' recipient' amount' rid ?t = (Ok (), u)"
      by (metis prod.collapse)
    then show False
      by (auto simp: do_recover_stranded_funds_def bnd_ok thn_ok basic_ok require_admin_auth_ok Let_def split: if_split_asm
          dest!: require_multisig_approval_ok)
  qed
  ultimately show ?thesis by (intro exI [of _ ?t]) simp
qed

theorem recovery_takes_deposits_witness:
  "\<exists>t. do_recover_stranded_funds fund_env (Addr 3) (Addr 9) (Addr 6) 6000 [1] fund_vault = (Ok (), t) \<and>
     v_ledger t (Addr 9) (Addr 0) = 0 \<and> su_sub (v_subs t) 7 = Some stored_sub"
proof -
  obtain l where l: "e_transfer fund_env (Addr 9) (Addr 0) (Addr 6) 6000 (v_ledger fund_vault) = Some l" "l (Addr 9) (Addr 0) = 0"
    by (simp add: sep41_transfer_def)
  have "stored_admin fund_vault = Some (Addr 3)" "g_guardians (v_gov fund_vault) = []" "\<not> ad_recoveries (v_admin fund_vault) [1]"
    by (simp_all add: fund_vault_def stored_admin_def config_value_def empty_vault_def)
  from recovery_takes_deposits [OF _ this, of fund_env 6000 "Addr 9" "Addr 6" l] l show ?thesis
    by (fastforce simp: fits_small)
qed

section \<open>The treasury\<close>

text \<open>
  The delay of a queued treasury change is not enforced: the new fee and treasury are in force as soon as the change is
  queued.
\<close>

interpretation treasury_key: config_key cf_treasury cf_treasury_update
  by unfold_locales simp

interpretation fee_key: config_key cf_fee_bps cf_fee_bps_update
  by unfold_locales simp

lemma treasury_change_not_delayed:
  assumes "queue_treasury_change E admin treasury fee_bps s = (Ok u, t)" and "3 \<le> schema_version (v_admin s)"
    and "g_guardians (v_gov s) = []"
  shows "config_value cf_fee_bps (v_admin t) = Some fee_bps \<and> config_value cf_treasury (v_admin t) = Some treasury"
  using assms
  by (auto simp: queue_treasury_change_def act_ok require_multisig_approval_def list_guardians_def Let_def consume_multisig_proposal_def
      enforce_config_cooldown_ok config_value_def config_put_def split: if_split_asm)

end
