(* ===== verification/Migration.thy ===== *)
theory Migration
  imports Admin_Ops
begin

text \<open>
  Migration of the storage layout (\<^verbatim>\<open>src/admin.rs\<close>): configuration keys move from the instance tier to the
  persistent tier at version 3, and every stored subscription is rewritten at versions 4 and 5.
\<close>

section \<open>Rewriting subscriptions\<close>

definition stored_next_id :: "nat vm" where
  "stored_next_id = bnd (read_config cf_next_id) (\<lambda>x. ret (case x of Some n \<Rightarrow> n | None \<Rightarrow> 0))"

primrec rewrite_subs :: "nat list \<Rightarrow> nat \<Rightarrow> nat vm" where
  "rewrite_subs [] touched = ret touched"
| "rewrite_subs (i # ids) touched =
     bnd (gets (\<lambda>v. su_sub (v_subs v) i)) (\<lambda>x.
     case x of
       Some sub \<Rightarrow> thn (write_subscription i sub) (rewrite_subs ids (sat_add_u32 touched 1))
     | None \<Rightarrow> rewrite_subs ids touched)"

definition rewrite_subscriptions_for_ledger_expiration :: "nat vm" where
  "rewrite_subscriptions_for_ledger_expiration = bnd stored_next_id (\<lambda>next_id. rewrite_subs [0..<next_id] 0)"

definition rewrite_subscriptions_for_sub_account_label :: "nat vm" where
  "rewrite_subscriptions_for_sub_account_label = bnd stored_next_id (\<lambda>next_id. rewrite_subs [0..<next_id] 0)"

definition count_legacy_config_keys :: "vault \<Rightarrow> nat" where
  "count_legacy_config_keys v =
     (let t = ad_instance (v_admin v) in
      length (filter id
        [cf_token t \<noteq> None, cf_admin t \<noteq> None, cf_min_topup t \<noteq> None, cf_grace_period t \<noteq> None,
         cf_dispute_window_secs t \<noteq> None, cf_next_id t \<noteq> None, cf_emergency_stop t \<noteq> None, cf_treasury t \<noteq> None,
         cf_fee_bps t \<noteq> None, cf_operator t \<noteq> None, ad_schema_instance (v_admin v) \<noteq> None]))"

definition count_rewriteable_subscriptions :: "nat vm" where
  "count_rewriteable_subscriptions =
     bnd stored_next_id (\<lambda>next_id.
     gets (\<lambda>v. fold (\<lambda>i n. if su_sub (v_subs v) i \<noteq> None then sat_add_u32 n 1 else n) [0..<next_id] 0))"

record schema_migration_summary =
  sm_from_version :: nat
  sm_to_version :: nat
  sm_config_keys_to_migrate :: nat
  sm_subs_for_ledger_expiry :: nat
  sm_subs_for_sub_account_label :: nat
  sm_dry_run :: bool
  sm_would_change :: bool

definition plan_schema_migration :: "nat \<Rightarrow> nat \<Rightarrow> bool \<Rightarrow> schema_migration_summary vm" where
  "plan_schema_migration stored_version binary_version dry_run =
     (let needs_config_migration = stored_version \<le> 2 \<and> binary_version \<ge> 3;
          needs_ledger_expiration_rewrite = stored_version \<le> 3 \<and> binary_version \<ge> 4;
          needs_sub_account_label_rewrite = stored_version \<le> 4 \<and> binary_version \<ge> 5 in
      bnd (if dry_run \<and> (needs_ledger_expiration_rewrite \<or> needs_sub_account_label_rewrite)
           then count_rewriteable_subscriptions else ret 0) (\<lambda>subscription_count.
      bnd (if needs_config_migration then gets count_legacy_config_keys else ret 0) (\<lambda>config_keys.
      ret \<lparr>sm_from_version = stored_version, sm_to_version = binary_version, sm_config_keys_to_migrate = config_keys,
        sm_subs_for_ledger_expiry = (if needs_ledger_expiration_rewrite then subscription_count else 0),
        sm_subs_for_sub_account_label = (if needs_sub_account_label_rewrite then subscription_count else 0),
        sm_dry_run = dry_run, sm_would_change = (stored_version \<noteq> binary_version)\<rparr>)))"

section \<open>Configuration\<close>

definition move_key ::
  "(config_tier \<Rightarrow> 'a option) \<Rightarrow> (('a option \<Rightarrow> 'a option) \<Rightarrow> config_tier \<Rightarrow> config_tier) \<Rightarrow> admin_store \<Rightarrow> admin_store" where
  "move_key key put a =
     (case key (ad_instance a) of
        Some x \<Rightarrow> a\<lparr>ad_persistent := put (\<lambda>_. Some x) (ad_persistent a), ad_instance := put (\<lambda>_. None) (ad_instance a)\<rparr>
      | None \<Rightarrow> a)"

definition do_migrate_config_to_persistent_internal :: "unit vm" where
  "do_migrate_config_to_persistent_internal =
     thn (mod_admin (move_key cf_token cf_token_update))
     (thn (mod_admin (move_key cf_admin cf_admin_update))
     (thn (mod_admin (move_key cf_min_topup cf_min_topup_update))
     (thn (mod_admin (move_key cf_grace_period cf_grace_period_update))
     (thn (mod_admin (move_key cf_dispute_window_secs cf_dispute_window_secs_update))
     (thn (mod_admin (move_key cf_next_id cf_next_id_update))
     (thn (mod_admin (move_key cf_emergency_stop cf_emergency_stop_update))
     (thn (mod_admin (move_key cf_treasury cf_treasury_update))
     (thn (mod_admin (move_key cf_fee_bps cf_fee_bps_update))
     (thn (mod_admin (move_key cf_operator cf_operator_update))
     (mod_admin (\<lambda>a. a\<lparr>ad_schema_persistent := Some 3, ad_schema_instance := None\<rparr>)))))))))))"

definition has_legacy_config :: "config_tier \<Rightarrow> bool" where
  "has_legacy_config t \<longleftrightarrow>
     cf_token t \<noteq> None \<or> cf_admin t \<noteq> None \<or> cf_min_topup t \<noteq> None \<or> cf_grace_period t \<noteq> None \<or> cf_next_id t \<noteq> None \<or>
     cf_emergency_stop t \<noteq> None \<or> cf_treasury t \<noteq> None \<or> cf_fee_bps t \<noteq> None \<or> cf_operator t \<noteq> None"

definition sub_corrupt :: "subscription \<Rightarrow> bool" where
  "sub_corrupt sub \<longleftrightarrow>
     s_amount sub \<le> 0 \<or> s_interval_seconds sub = 0 \<or> s_prepaid_balance sub < 0 \<or> s_lifetime_charged sub < 0"

primrec spot_check :: "nat list \<Rightarrow> unit vm" where
  "spot_check [] = ret ()"
| "spot_check (i # ids) =
     bnd (gets (\<lambda>v. su_sub (v_subs v) i)) (\<lambda>x.
     if (case x of Some sub \<Rightarrow> sub_corrupt sub | None \<Rightarrow> False) then fail E_SchemaMigrationVerificationFailed
     else spot_check ids)"

definition verify_migration :: "nat \<Rightarrow> unit vm" where
  "verify_migration expected_version =
     bnd (gets v_admin) (\<lambda>a.
     let schema_is_persistent = (ad_schema_persistent a = Some expected_version);
         schema_is_instance = (ad_schema_instance a = Some expected_version) in
     if schema_version a \<noteq> expected_version
        \<or> (expected_version \<ge> 3 \<and> (\<not> schema_is_persistent \<or> schema_is_instance))
        \<or> (expected_version < 3 \<and> (\<not> schema_is_instance \<or> schema_is_persistent))
     then fail E_SchemaMigrationVerificationFailed
     else if expected_version \<ge> 3 then
       if has_legacy_config (ad_instance a) then fail E_SchemaMigrationVerificationFailed
       else
         bnd stored_next_id (\<lambda>next_id.
         if next_id > 0 then spot_check [0, next_id div 2, next_id - 1] else ret ())
     else ret ())"

definition migrate_config_to_persistent :: "env \<Rightarrow> address \<Rightarrow> unit vm" where
  "migrate_config_to_persistent E admin =
     thn (require_admin_auth E admin)
     (bnd get_schema_version (\<lambda>stored_version.
     if stored_version > 3 then fail E_SchemaMigrationDowngrade
     else
       thn do_migrate_config_to_persistent_internal
       (thn (verify_migration 3)
       (publish (AdminEv (Ev_schema_migrated admin stored_version 3 (e_timestamp E)))))))"

section \<open>The migration loop\<close>

function (sequential) migrate_loop ::
  "nat \<Rightarrow> nat \<Rightarrow> schema_migration_summary \<Rightarrow> schema_migration_summary vm" where
  "migrate_loop current binary_version summary =
     (if current < binary_version then
        if current < 2 then migrate_loop 2 binary_version summary
        else if current = 2 then thn do_migrate_config_to_persistent_internal (migrate_loop 3 binary_version summary)
        else if current = 3 then
          bnd rewrite_subscriptions_for_ledger_expiration (\<lambda>n.
          migrate_loop 4 binary_version (summary\<lparr>sm_subs_for_ledger_expiry := n\<rparr>))
        else if current = 4 then
          bnd rewrite_subscriptions_for_sub_account_label (\<lambda>n.
          migrate_loop 5 binary_version (summary\<lparr>sm_subs_for_sub_account_label := n\<rparr>))
        else migrate_loop (current + 1) binary_version summary
      else ret summary)"
  by pat_completeness auto
termination by (relation "measure (\<lambda>(current, binary_version, summary). binary_version - current)") auto

declare migrate_loop.simps [simp del]

definition do_migrate :: "env \<Rightarrow> address \<Rightarrow> nat \<Rightarrow> bool \<Rightarrow> schema_migration_summary vm" where
  "do_migrate E admin binary_version dry_run =
     thn (require_admin_auth E admin)
     (bnd get_schema_version (\<lambda>stored_version.
     if stored_version > binary_version then fail E_SchemaVersionMismatch
     else
       bnd (plan_schema_migration stored_version binary_version dry_run) (\<lambda>summary0.
       if dry_run then ret summary0
       else if stored_version = binary_version then ret summary0
       else
         bnd (migrate_loop stored_version binary_version summary0) (\<lambda>summary.
         thn (if binary_version \<ge> 3 then
                mod_admin (\<lambda>a. a\<lparr>ad_schema_persistent := Some binary_version, ad_schema_instance := None\<rparr>)
              else mod_admin (\<lambda>a. a\<lparr>ad_schema_instance := Some binary_version\<rparr>))
         (thn (verify_migration binary_version)
         (thn (publish (AdminEv (Ev_schema_migrated admin stored_version binary_version (e_timestamp E))))
         (ret summary)))))))"

section \<open>What the migration does\<close>

definition merge :: "'a option \<Rightarrow> 'a option \<Rightarrow> 'a option" where
  "merge x y = (case x of Some a \<Rightarrow> Some a | None \<Rightarrow> y)"

lemma merge_simps [simp]: "merge (Some a) y = Some a" "merge None y = y" "merge x None = x"
  by (simp_all add: merge_def split: option.split)

lemma move_key_merge:
  fixes key :: "config_tier \<Rightarrow> 'k option"
  assumes "\<And>t. put (\<lambda>p. p) t = t" and "\<And>t. key t = None \<Longrightarrow> put (\<lambda>_. None) t = t"
    and "\<And>x t. put (\<lambda>p. Some x) t = put (merge (Some x)) t"
  shows "move_key key put a = a\<lparr>ad_persistent := put (merge (key (ad_instance a))) (ad_persistent a),
    ad_instance := put (\<lambda>_. None) (ad_instance a)\<rparr>"
proof (cases "key (ad_instance a)")
  case None
  have "merge None = (\<lambda>p :: 'k option. p)" by (simp add: fun_eq_iff)
  with assms(1) have "put (merge None) t = t" for t by simp
  with None assms(2) show ?thesis by (simp add: move_key_def)
next
  case (Some x)
  with assms(3) show ?thesis by (simp add: move_key_def)
qed

lemma merge_Some: "merge (Some x) = (\<lambda>_. Some x)"
  by (simp add: fun_eq_iff)

definition migrated_admin :: "admin_store \<Rightarrow> admin_store" where
  "migrated_admin a =
     (let t = ad_instance a in
      a\<lparr>ad_persistent := (ad_persistent a)
          \<lparr>cf_token := merge (cf_token t) (cf_token (ad_persistent a)),
            cf_admin := merge (cf_admin t) (cf_admin (ad_persistent a)),
            cf_min_topup := merge (cf_min_topup t) (cf_min_topup (ad_persistent a)),
            cf_grace_period := merge (cf_grace_period t) (cf_grace_period (ad_persistent a)),
            cf_dispute_window_secs := merge (cf_dispute_window_secs t) (cf_dispute_window_secs (ad_persistent a)),
            cf_next_id := merge (cf_next_id t) (cf_next_id (ad_persistent a)),
            cf_emergency_stop := merge (cf_emergency_stop t) (cf_emergency_stop (ad_persistent a)),
            cf_treasury := merge (cf_treasury t) (cf_treasury (ad_persistent a)),
            cf_fee_bps := merge (cf_fee_bps t) (cf_fee_bps (ad_persistent a)),
            cf_operator := merge (cf_operator t) (cf_operator (ad_persistent a))\<rparr>,
        ad_instance := t\<lparr>cf_token := None, cf_admin := None, cf_min_topup := None, cf_grace_period := None,
            cf_dispute_window_secs := None, cf_next_id := None, cf_emergency_stop := None, cf_treasury := None,
            cf_fee_bps := None, cf_operator := None\<rparr>,
        ad_schema_persistent := Some 3, ad_schema_instance := None\<rparr>)"

lemma migrate_config_run [act_run]:
  "do_migrate_config_to_persistent_internal s = (Ok (), s\<lparr>v_admin := migrated_admin (v_admin s)\<rparr>)"
  by (simp add: do_migrate_config_to_persistent_internal_def thn_def bnd_run mod_admin_run move_key_merge merge_Some
      migrated_admin_def Let_def)

lemma rewrite_subs_run [act_run]:
  "\<exists>n. rewrite_subs ids touched s = (Ok n, s)"
proof (induction ids arbitrary: touched)
  case (Cons i ids)
  have "s\<lparr>v_subs := (v_subs s)\<lparr>su_sub := (su_sub (v_subs s))(i \<mapsto> sub)\<rparr>\<rparr> = s" if "su_sub (v_subs s) i = Some sub" for sub
    using that by (simp add: fun_upd_idem)
  with Cons show ?case by (auto simp: act_run write_subscription_run split: option.split)
qed (simp add: run_simps)

lemma rewrite_run:
  "\<exists>n. rewrite_subscriptions_for_ledger_expiration s = (Ok n, s)"
  "\<exists>n. rewrite_subscriptions_for_sub_account_label s = (Ok n, s)"
  by (auto simp: rewrite_subscriptions_for_ledger_expiration_def rewrite_subscriptions_for_sub_account_label_def
      stored_next_id_def act_run intro: rewrite_subs_run)

lemma plan_run: "\<exists>sm. plan_schema_migration a b d s = (Ok sm, s)"
  by (auto simp: plan_schema_migration_def count_rewriteable_subscriptions_def stored_next_id_def act_run Let_def)

text \<open>The loop returns for every pair of versions, and only a start at version 2 or below moves configuration.\<close>

lemma migrate_loop_run:
  "\<exists>sm'. migrate_loop current binary_version sm s =
     (Ok sm', if current \<le> 2 \<and> 3 \<le> binary_version then s\<lparr>v_admin := migrated_admin (v_admin s)\<rparr> else s)"
proof (induction current binary_version sm arbitrary: s rule: migrate_loop.induct)
  case (1 current binary_version sm)
  obtain n where n: "rewrite_subscriptions_for_ledger_expiration s = (Ok n, s)" using rewrite_run(1) by blast
  obtain m where m: "rewrite_subscriptions_for_sub_account_label s = (Ok m, s)" using rewrite_run(2) by blast
  consider "binary_version \<le> current" | "current < binary_version" "current < 2" | "current < binary_version" "current = 2"
    | "current < binary_version" "current = 3" | "current < binary_version" "current = 4" | "current < binary_version" "5 \<le> current"
    by linarith
  then show ?case
  proof cases
    case 1
    then show ?thesis by (subst migrate_loop.simps) (auto simp: run_simps)
  next
    case 2
    with "1.IH"(1) show ?thesis by (subst migrate_loop.simps) simp
  next
    case 3
    with "1.IH"(2) [of "s\<lparr>v_admin := migrated_admin (v_admin s)\<rparr>"] show ?thesis
      by (subst migrate_loop.simps) (simp add: act_run)
  next
    case 4
    with "1.IH"(3) [of n s] n show ?thesis by (subst migrate_loop.simps) (simp add: act_run)
  next
    case 5
    with "1.IH"(4) [of m s] m show ?thesis by (subst migrate_loop.simps) (simp add: act_run)
  next
    case 6
    with "1.IH"(5) show ?thesis by (subst migrate_loop.simps) simp
  qed
qed

definition sane_subs :: "vault \<Rightarrow> bool" where
  "sane_subs v \<longleftrightarrow> (\<forall>i sub. su_sub (v_subs v) i = Some sub \<longrightarrow> \<not> sub_corrupt sub)"

lemma spot_check_run: "sane_subs s \<Longrightarrow> spot_check ids s = (Ok (), s)"
  by (induction ids) (auto simp: act_run sane_subs_def split: option.split)

lemma verify_run:
  assumes "ad_schema_persistent (v_admin s) = Some n" and "ad_schema_instance (v_admin s) = None" and "3 \<le> n"
    and "\<not> has_legacy_config (ad_instance (v_admin s))" and "sane_subs s"
  shows "verify_migration n s = (Ok (), s)"
  using assms
  by (auto simp: verify_migration_def act_run Let_def schema_version_def stored_next_id_def spot_check_run
      simp del: spot_check.simps)

text \<open>The settings the vault reads, as one value: the ten keys the migration names.\<close>

definition settings ::
  "admin_store \<Rightarrow> (address option \<times> address option \<times> int option \<times> nat option \<times> nat option \<times> nat option) \<times>
     bool option \<times> address option \<times> nat option \<times> address option" where
  "settings a =
     ((config_value cf_token a, config_value cf_admin a, config_value cf_min_topup a, config_value cf_grace_period a,
       config_value cf_dispute_window_secs a, config_value cf_next_id a),
      config_value cf_emergency_stop a, config_value cf_treasury a, config_value cf_fee_bps a, config_value cf_operator a)"

lemma settings_migrated:
  assumes "ad_persistent a = empty_config" and "schema_version a \<le> 2"
  shows "settings ((migrated_admin a)\<lparr>ad_schema_persistent := Some 5, ad_schema_instance := None\<rparr>) = settings a"
  using assms
  by (simp add: settings_def config_value_def migrated_admin_def Let_def schema_version_def empty_config_def split: option.split)

lemma do_migrate_legacy:
  assumes "e_auth E admin" and "stored_admin s = Some admin" and "schema_version (v_admin s) \<le> 2" and "sane_subs s"
  obtains sm ev where "do_migrate E admin 5 False s =
    (Ok sm, s\<lparr>v_admin := (migrated_admin (v_admin s))\<lparr>ad_schema_persistent := Some 5, ad_schema_instance := None\<rparr>, v_events := ev\<rparr>)"
proof -
  let ?m = "(migrated_admin (v_admin s))\<lparr>ad_schema_persistent := Some 5, ad_schema_instance := None\<rparr>"
  obtain sm where sm: "plan_schema_migration (schema_version (v_admin s)) 5 False s = (Ok sm, s)" using plan_run by blast
  obtain sm' where sm': "migrate_loop (schema_version (v_admin s)) 5 sm s = (Ok sm', s\<lparr>v_admin := migrated_admin (v_admin s)\<rparr>)"
    using migrate_loop_run [of "schema_version (v_admin s)" 5 sm s] assms(3) by auto
  have "sane_subs (s\<lparr>v_admin := ?m\<rparr>)" using assms(4) by (simp add: sane_subs_def)
  then have "verify_migration 5 (s\<lparr>v_admin := ?m\<rparr>) = (Ok (), s\<lparr>v_admin := ?m\<rparr>)"
    by (intro verify_run) (simp_all add: has_legacy_config_def migrated_admin_def Let_def)
  with assms(1-3) sm sm' show thesis
    by (intro that [of sm']) (simp add: do_migrate_def act_run stored_admin_def)
qed

text \<open>
  C18. The migration always comes to an end and loses none of the keys it names. A vault whose configuration is
  still in the instance tier (version 2 or older) and whose stored subscriptions are sane is migrated by its admin to version
  5: the call returns, the ten settings read the same before and after, no subscription changes, and migrating again changes
  nothing.
\<close>

theorem migration_completes:
  assumes "e_auth E admin" and "stored_admin s = Some admin" and "schema_version (v_admin s) \<le> 2" and "sane_subs s"
    and "ad_persistent (v_admin s) = empty_config"
  shows "\<exists>sm t. do_migrate E admin 5 False s = (Ok sm, t) \<and> schema_version (v_admin t) = 5 \<and>
    settings (v_admin t) = settings (v_admin s) \<and> v_subs t = v_subs s \<and> v_merchant t = v_merchant s \<and> v_ledger t = v_ledger s \<and>
    snd (do_migrate E admin 5 False t) = t"
proof -
  obtain sm ev where run: "do_migrate E admin 5 False s =
      (Ok sm, s\<lparr>v_admin := (migrated_admin (v_admin s))\<lparr>ad_schema_persistent := Some 5, ad_schema_instance := None\<rparr>, v_events := ev\<rparr>)"
    (is "_ = (_, ?t)") using do_migrate_legacy [OF assms(1-4)] by blast
  have version: "schema_version (v_admin ?t) = 5" by (simp add: schema_version_def)
  have same: "settings (v_admin ?t) = settings (v_admin s)" using settings_migrated [OF assms(5,3)] by simp
  obtain sm' where "plan_schema_migration 5 5 False ?t = (Ok sm', ?t)" using plan_run by blast
  with version same assms(1,2) have "snd (do_migrate E admin 5 False ?t) = ?t"
    by (simp add: do_migrate_def act_run stored_admin_def settings_def)
  with run version same show ?thesis by (intro exI [of _ sm] exI [of _ ?t]) simp
qed

text \<open>
  The migration forgets three settings: the fee token, the oracle configuration and the limit on subscriptions a subscriber
  may create are not among the keys it moves, and from version 3 on the instance tier is no longer read, so after a migration from
  version 2 or older they read as never set, whatever they were.
\<close>

theorem migration_forgets_settings:
  assumes "do_migrate E admin 5 False s = (Ok sm, t)" and "schema_version (v_admin s) \<le> 2" and "sane_subs s"
    and "ad_persistent (v_admin s) = empty_config"
  shows "config_value cf_fee_token (v_admin t) = None \<and> config_value cf_oracle (v_admin t) = None \<and>
    config_value cf_subscriber_create_cap (v_admin t) = None"
proof -
  from assms(1) have "e_auth E admin" "stored_admin s = Some admin"
    by (auto simp: do_migrate_def thn_ok require_admin_auth_ok stored_admin_def)
  then obtain sm' ev where "do_migrate E admin 5 False s =
      (Ok sm', s\<lparr>v_admin := (migrated_admin (v_admin s))\<lparr>ad_schema_persistent := Some 5, ad_schema_instance := None\<rparr>, v_events := ev\<rparr>)"
    using do_migrate_legacy assms(2,3) by blast
  with assms(1,4) show ?thesis
    by (auto simp: config_value_def migrated_admin_def Let_def schema_version_def empty_config_def)
qed

definition legacy_vault :: vault where
  "legacy_vault = empty_vault\<lparr>
     v_admin := (v_admin empty_vault)\<lparr>ad_instance := empty_config\<lparr>cf_admin := Some (Addr 3), cf_token := Some (Addr 9),
       cf_fee_bps := Some 250, cf_fee_token := Some (Addr 8), cf_subscriber_create_cap := Some 3, cf_next_id := Some 8\<rparr>,
       ad_schema_instance := Some 2\<rparr>,
     v_subs := (v_subs empty_vault)\<lparr>su_sub := [7 \<mapsto> stored_sub]\<rparr>\<rparr>"

lemma legacy_vault_ok:
  "stored_admin legacy_vault = Some (Addr 3)" "schema_version (v_admin legacy_vault) = 2" "sane_subs legacy_vault"
  "ad_persistent (v_admin legacy_vault) = empty_config" "config_value cf_fee_bps (v_admin legacy_vault) = Some 250"
  "config_value cf_fee_token (v_admin legacy_vault) = Some (Addr 8)"
  by (auto simp: legacy_vault_def stored_admin_def config_value_def schema_version_def empty_vault_def sane_subs_def
      sub_corrupt_def stored_sub_def empty_config_def split: if_split_asm)

theorem migration_completes_witness:
  "\<exists>sm t. do_migrate test_env (Addr 3) 5 False legacy_vault = (Ok sm, t) \<and> schema_version (v_admin t) = 5 \<and>
     config_value cf_fee_bps (v_admin t) = Some 250"
  using migration_completes [of test_env "Addr 3" legacy_vault] legacy_vault_ok by (auto simp: settings_def)

theorem migration_forgets_settings_witness:
  "\<exists>sm t. do_migrate test_env (Addr 3) 5 False legacy_vault = (Ok sm, t) \<and>
     config_value cf_fee_token (v_admin legacy_vault) = Some (Addr 8) \<and> config_value cf_fee_token (v_admin t) = None"
proof -
  obtain sm ev where "do_migrate test_env (Addr 3) 5 False legacy_vault = (Ok sm, legacy_vault\<lparr>v_admin :=
      (migrated_admin (v_admin legacy_vault))\<lparr>ad_schema_persistent := Some 5, ad_schema_instance := None\<rparr>, v_events := ev\<rparr>)"
    using do_migrate_legacy [of test_env "Addr 3" legacy_vault] legacy_vault_ok by auto
  from migration_forgets_settings [OF this] this legacy_vault_ok show ?thesis by auto
qed

end
