(* ===== verification/Merchant_Admin.thy ===== *)
theory Merchant_Admin
  imports Migration Plans
begin

text \<open>
  Operations on merchants (\<^verbatim>\<open>src/merchant.rs\<close>) beyond their ledger: discovery tags, configuration, the earnings
  view with sub-accounts, moving a merchant to a new address, balance snapshots and registered plans.
\<close>

unbundle bit_operations_syntax

section \<open>Active subscriptions of a merchant\<close>

definition MAX_MERCHANT_ACTIVE_SCAN :: "nat" where "MAX_MERCHANT_ACTIVE_SCAN = 5000"

definition merchant_sub_ids :: "vault \<Rightarrow> address \<Rightarrow> nat list" where
  "merchant_sub_ids v merchant = id_list (su_merchant_subs (v_subs v) merchant)"

definition count_active_subscriptions :: "address \<Rightarrow> nat vm" where
  "count_active_subscriptions merchant =
     bnd (gets (\<lambda>v. merchant_sub_ids v merchant)) (\<lambda>ids.
     if length ids > MAX_MERCHANT_ACTIVE_SCAN then fail E_InvalidInput
     else
       gets (\<lambda>v. fold (\<lambda>i n. case su_sub (v_subs v) i of
                          Some sub \<Rightarrow> if s_status sub = Active then sat_add_u32 n 1 else n
                        | None \<Rightarrow> n) ids 0))"

definition reject_protected_field_change :: "address \<Rightarrow> int option \<Rightarrow> int option \<Rightarrow> unit vm" where
  "reject_protected_field_change merchant fee_bips allowed_operations =
     (if fee_bips = None \<and> allowed_operations = None then ret ()
      else
        bnd (count_active_subscriptions merchant) (\<lambda>n.
        if n = 0 then ret () else fail E_InvalidStatusTransition))"

definition require_whitelist_approval :: "address \<Rightarrow> unit vm" where
  "require_whitelist_approval merchant =
     bnd get_whitelist_mode (\<lambda>mode.
     bnd (is_merchant_approved merchant) (\<lambda>approved.
     if mode \<and> \<not> approved then fail E_MerchantNotApproved else ret ()))"

section \<open>Tags\<close>

definition MAX_MERCHANT_TAGS :: "nat" where "MAX_MERCHANT_TAGS = 8"

definition get_tag_allowlist :: "(symbol list) vm" where
  "get_tag_allowlist = gets (\<lambda>v. case m_tag_allowlist (v_merchant v) of Some l \<Rightarrow> l | None \<Rightarrow> [])"

primrec unique_tags :: "symbol list \<Rightarrow> symbol list \<Rightarrow> unit vm" where
  "unique_tags seen [] = ret ()"
| "unique_tags seen (tag # tags) =
     (if tag \<in> set seen then fail E_DuplicateMerchantTag else unique_tags (seen @ [tag]) tags)"

definition set_tag_allowlist :: "env \<Rightarrow> address \<Rightarrow> symbol list \<Rightarrow> unit vm" where
  "set_tag_allowlist E admin tags =
     thn (require_admin_auth E admin)
     (thn (unique_tags [] tags)
     (thn (mod_merchant (\<lambda>m. m\<lparr>m_tag_allowlist := Some tags\<rparr>))
     (publish (MerchantEv (Ev_tag_allowlist_updated admin tags (e_timestamp E))))))"

definition merchant_tags :: "vault \<Rightarrow> address \<Rightarrow> symbol list" where
  "merchant_tags v merchant = (case m_tags (v_merchant v) merchant of Some l \<Rightarrow> l | None \<Rightarrow> [])"

definition get_merchant_tags :: "address \<Rightarrow> (symbol list) vm" where
  "get_merchant_tags merchant = gets (\<lambda>v. merchant_tags v merchant)"

primrec allowed_tags :: "symbol list \<Rightarrow> symbol list \<Rightarrow> symbol list \<Rightarrow> unit vm" where
  "allowed_tags allowlist seen [] = ret ()"
| "allowed_tags allowlist seen (tag # tags) =
     (if tag \<in> set seen then fail E_DuplicateMerchantTag
      else if tag \<notin> set allowlist then fail E_UnknownMerchantTag
      else allowed_tags allowlist (seen @ [tag]) tags)"

definition set_merchant_tags :: "env \<Rightarrow> address \<Rightarrow> address \<Rightarrow> symbol list \<Rightarrow> unit vm" where
  "set_merchant_tags E admin merchant tags =
     thn (require_admin_auth E admin)
     (if length tags > MAX_MERCHANT_TAGS then fail E_MerchantTagLimitExceeded
      else
        bnd get_tag_allowlist (\<lambda>allowlist.
        thn (allowed_tags allowlist [] tags)
        (thn (mod_merchant (\<lambda>m. m\<lparr>m_tags := (m_tags m)(merchant \<mapsto> tags)\<rparr>))
        (publish (MerchantEv (Ev_merchant_tags_updated merchant admin tags (e_timestamp E)))))))"

section \<open>Configuration\<close>

definition OP_CHARGE :: "int" where "OP_CHARGE = 1"
definition OP_WITHDRAW :: "int" where "OP_WITHDRAW = 2"
definition OP_REFUND :: "int" where "OP_REFUND = 4"
definition OP_BILLING_PAUSE :: "int" where "OP_BILLING_PAUSE = 8"
definition OP_AUTO_RENEWAL :: "int" where "OP_AUTO_RENEWAL = 16"

definition is_valid_allowed_operations :: "int \<Rightarrow> bool" where
  "is_valid_allowed_operations ops =
     (let all_ops = OP_CHARGE OR OP_WITHDRAW OR OP_REFUND OR OP_BILLING_PAUSE OR OP_AUTO_RENEWAL in
      (ops AND NOT all_ops) = 0)"

definition validate_merchant_config_input :: "int \<Rightarrow> int \<Rightarrow> unit vm" where
  "validate_merchant_config_input fee_bips allowed_operations =
     (if fee_bips > MAX_FEE_BIPS then fail E_InvalidFeeBips
      else if \<not> is_valid_allowed_operations allowed_operations then fail E_InvalidOperations
      else if allowed_operations AND OP_CHARGE = 0 then fail E_MustAllowChargeOperation
      else ret ())"

definition store_config :: "address \<Rightarrow> merchant_config \<Rightarrow> unit vm" where
  "store_config merchant c = mod_merchant (\<lambda>m. m\<lparr>m_config := (m_config m)(merchant \<mapsto> c)\<rparr>)"

definition initialize_merchant_config ::
  "env \<Rightarrow> address \<Rightarrow> address \<Rightarrow> int \<Rightarrow> int \<Rightarrow> address option \<Rightarrow> string \<Rightarrow> merchant_config vm" where
  "initialize_merchant_config E merchant payout_address fee_bips allowed_operations fee_address redirect_url =
     thn (require_auth E merchant)
     (thn (require_whitelist_approval merchant)
     (thn (validate_merchant_config_input fee_bips allowed_operations)
     (let config = \<lparr>mc_version = 1, mc_payout_address = payout_address, mc_fee_bips = fee_bips,
        mc_allowed_operations = allowed_operations, mc_is_active = True, mc_fee_address = fee_address,
        mc_redirect_url = redirect_url, mc_is_paused = False, mc_last_updated = e_timestamp E\<rparr> in
     thn (store_config merchant config)
     (thn (publish (MerchantEv (Ev_merchant_config_initialized merchant payout_address fee_bips allowed_operations (e_timestamp E))))
     (ret config)))))"

definition set_merchant_config :: "env \<Rightarrow> address \<Rightarrow> merchant_config \<Rightarrow> unit vm" where
  "set_merchant_config E merchant config =
     thn (require_auth E merchant)
     (thn (validate_merchant_config_input (mc_fee_bips config) (mc_allowed_operations config))
     (thn (store_config merchant (config\<lparr>mc_last_updated := e_timestamp E\<rparr>))
     (publish (MerchantEv (Ev_merchant_config_set merchant (mc_payout_address config) (mc_fee_bips config)
        (mc_allowed_operations config) (e_timestamp E))))))"

definition given :: "'a option \<Rightarrow> ('a \<Rightarrow> merchant_config \<Rightarrow> merchant_config) \<Rightarrow> merchant_config \<Rightarrow> merchant_config" where
  "given x f c = (case x of Some a \<Rightarrow> f a c | None \<Rightarrow> c)"

definition update_merchant_config ::
  "env \<Rightarrow> address \<Rightarrow> address option \<Rightarrow> int option \<Rightarrow> int option \<Rightarrow> bool option \<Rightarrow> (address option) option \<Rightarrow>
   string option \<Rightarrow> bool option \<Rightarrow> merchant_config vm" where
  "update_merchant_config E merchant new_payout_address new_fee_bips new_allowed_operations new_is_active new_fee_address
     new_redirect_url new_is_paused =
     thn (require_auth E merchant)
     (bnd (get_merchant_config merchant) (\<lambda>x.
     bnd (ok_or x E_NotFound) (\<lambda>config0.
     thn (reject_protected_field_change merchant new_fee_bips new_allowed_operations)
     (thn (case new_fee_bips of Some bips \<Rightarrow> check (bips \<le> MAX_FEE_BIPS) E_InvalidFeeBips | None \<Rightarrow> ret ())
     (thn (case new_allowed_operations of
             Some ops \<Rightarrow>
               if \<not> is_valid_allowed_operations ops then fail E_InvalidOperations
               else if ops AND OP_CHARGE = 0 then fail E_MustAllowChargeOperation
               else ret ()
           | None \<Rightarrow> ret ())
     (let config1 = given new_payout_address (\<lambda>p c. c\<lparr>mc_payout_address := p\<rparr>) config0;
          config2 = given new_fee_bips (\<lambda>b c. c\<lparr>mc_fee_bips := b\<rparr>) config1;
          config3 = given new_allowed_operations (\<lambda>b c. c\<lparr>mc_allowed_operations := b\<rparr>) config2;
          config4 = given new_is_active (\<lambda>b c. c\<lparr>mc_is_active := b\<rparr>) config3;
          config5 = given new_fee_address (\<lambda>b c. c\<lparr>mc_fee_address := b\<rparr>) config4;
          config6 = given new_redirect_url (\<lambda>b c. c\<lparr>mc_redirect_url := b\<rparr>) config5;
          config7 = given new_is_paused (\<lambda>b c. c\<lparr>mc_is_paused := b\<rparr>) config6;
          config = config7\<lparr>mc_last_updated := e_timestamp E\<rparr> in
     thn (store_config merchant config)
     (thn (publish (MerchantEv (Ev_merchant_config_updated merchant (mc_payout_address config) (mc_fee_bips config)
        (mc_allowed_operations config) (e_timestamp E))))
     (ret config))))))))"

section \<open>Earnings with sub-accounts\<close>

record merchant_token_earnings_with_sub_accounts =
  es_token :: address
  es_primary_earnings :: token_earnings
  es_primary_balance :: int
  es_sub_account_balances :: "(symbol \<times> int) list"
  es_total_balance :: int

definition get_sub_account_list :: "vault \<Rightarrow> address \<Rightarrow> symbol list" where
  "get_sub_account_list v merchant = m_sub_account_list (v_merchant v) merchant"

definition positive_sub_accounts :: "vault \<Rightarrow> address \<Rightarrow> (symbol \<times> int) list" where
  "positive_sub_accounts v merchant =
     filter (\<lambda>(label, b). b > 0) (map (\<lambda>label. (label, sub_account_balance v merchant label)) (get_sub_account_list v merchant))"

definition get_merchant_token_earnings_with_sub_accounts ::
  "vault \<Rightarrow> address \<Rightarrow> address \<Rightarrow> merchant_token_earnings_with_sub_accounts" where
  "get_merchant_token_earnings_with_sub_accounts v merchant token =
     (let primary_balance = merchant_balance v merchant token;
          subs = positive_sub_accounts v merchant;
          total_sub_balance = fold (\<lambda>(label, b) acc. sat_i128 (acc + b)) subs 0 in
      \<lparr>es_token = token, es_primary_earnings = token_earnings_of v merchant token, es_primary_balance = primary_balance,
        es_sub_account_balances = subs, es_total_balance = sat_i128 (primary_balance + total_sub_balance)\<rparr>)"

definition get_merchant_total_earnings_with_sub_accounts ::
  "vault \<Rightarrow> address \<Rightarrow> merchant_token_earnings_with_sub_accounts list" where
  "get_merchant_total_earnings_with_sub_accounts v merchant =
     map (get_merchant_token_earnings_with_sub_accounts v merchant) (m_tokens (v_merchant v) merchant)"

definition get_merchant_balance_aggregated :: "vault \<Rightarrow> address \<Rightarrow> address \<Rightarrow> int" where
  "get_merchant_balance_aggregated v merchant token =
     es_total_balance (get_merchant_token_earnings_with_sub_accounts v merchant token)"

section \<open>Moving a merchant to a new address\<close>

definition move_token :: "address \<Rightarrow> address \<Rightarrow> address \<Rightarrow> unit vm" where
  "move_token old new token =
     bnd (gets (\<lambda>v. merchant_balance v old token)) (\<lambda>bal.
     thn (if bal \<noteq> 0 then
            bnd (gets (\<lambda>v. merchant_balance v new token)) (\<lambda>existing.
            set_merchant_balance new token (wrap_i128 (existing + bal)))
          else ret ())
     (thn (mod_merchant (\<lambda>m. m\<lparr>m_balance := (m_balance m)(old := (m_balance m old)(token := None))\<rparr>))
     (bnd (gets (\<lambda>v. m_earnings (v_merchant v) old token)) (\<lambda>x.
     case x of
       Some earnings \<Rightarrow>
         thn (set_merchant_token_earnings new token earnings)
         (mod_merchant (\<lambda>m. m\<lparr>m_earnings := (m_earnings m)(old := (m_earnings m old)(token := None))\<rparr>))
     | None \<Rightarrow> ret ()))))"

definition push_new :: "'x \<Rightarrow> 'x list \<Rightarrow> 'x list" where
  "push_new x xs = (if x \<in> set xs then xs else xs @ [x])"

definition move_token_list :: "address \<Rightarrow> address \<Rightarrow> address list \<Rightarrow> unit vm" where
  "move_token_list old new tokens =
     thn (if tokens \<noteq> [] then mod_merchant (\<lambda>m. m\<lparr>m_tokens := (m_tokens m)(new := fold push_new tokens (m_tokens m new))\<rparr>)
          else ret ())
     (mod_merchant (\<lambda>m. m\<lparr>m_tokens := (m_tokens m)(old := [])\<rparr>))"

definition move_entry :: "address \<Rightarrow> address \<Rightarrow> (address \<Rightarrow> 'x option) \<Rightarrow> address \<Rightarrow> 'x option" where
  "move_entry old new f = (case f old of Some x \<Rightarrow> (f(new \<mapsto> x))(old := None) | None \<Rightarrow> f)"

definition move_profile :: "address \<Rightarrow> address \<Rightarrow> unit vm" where
  "move_profile old new =
     thn (mod_merchant (\<lambda>m. m\<lparr>m_config := move_entry old new (m_config m)\<rparr>))
     (thn (mod_merchant (\<lambda>m. m\<lparr>m_paused := move_entry old new (m_paused m)\<rparr>))
     (mod_merchant (\<lambda>m. m\<lparr>m_vacation := move_entry old new (m_vacation m)\<rparr>)))"

primrec reassign_subs :: "address \<Rightarrow> address \<Rightarrow> nat list \<Rightarrow> nat \<Rightarrow> nat vm" where
  "reassign_subs old new [] n = ret n"
| "reassign_subs old new (i # ids) n =
     bnd (gets (\<lambda>v. su_sub (v_subs v) i)) (\<lambda>x.
     case x of
       Some sub \<Rightarrow>
         if s_merchant sub = old then
           thn (write_subscription i (sub\<lparr>s_merchant := new\<rparr>)) (reassign_subs old new ids ((n + 1) mod 2 ^ 32))
         else reassign_subs old new ids n
     | None \<Rightarrow> reassign_subs old new ids n)"

definition move_sub_list :: "address \<Rightarrow> address \<Rightarrow> nat list \<Rightarrow> unit vm" where
  "move_sub_list old new ids =
     thn (if ids \<noteq> [] then mod_subs (\<lambda>u. u\<lparr>su_merchant_subs := (su_merchant_subs u)
            (new \<mapsto> fold push_new ids (id_list (su_merchant_subs u new)))\<rparr>)
          else ret ())
     (mod_subs (\<lambda>u. u\<lparr>su_merchant_subs := (su_merchant_subs u)(old := None)\<rparr>))"

definition do_rotate_merchant_address :: "env \<Rightarrow> address \<Rightarrow> address \<Rightarrow> address \<Rightarrow> nat \<Rightarrow> unit vm" where
  "do_rotate_merchant_address E admin old_merchant new_merchant nonce =
     thn (require_admin_auth E admin)
     (thn (check_and_advance E admin MerchantRotation nonce)
     (bnd (gets (\<lambda>v. m_tokens (v_merchant v) old_merchant)) (\<lambda>tokens.
     thn (each (move_token old_merchant new_merchant) tokens)
     (thn (move_token_list old_merchant new_merchant tokens)
     (thn (move_profile old_merchant new_merchant)
     (bnd (gets (\<lambda>v. merchant_sub_ids v old_merchant)) (\<lambda>sub_ids.
     bnd (reassign_subs old_merchant new_merchant sub_ids 0) (\<lambda>subscriptions_updated.
     thn (move_sub_list old_merchant new_merchant sub_ids)
     (publish (MerchantEv (Ev_merchant_addr_rotated admin old_merchant new_merchant subscriptions_updated (e_timestamp E))))))))))))"

section \<open>Balance snapshots\<close>

record balance_snapshot =
  bs_merchant :: address
  bs_token :: address
  bs_balance :: int
  bs_accrued :: int
  bs_withdrawn :: int
  bs_refunded :: int
  bs_ledger_sequence :: nat
  bs_timestamp :: nat

definition balance_snapshot_of :: "env \<Rightarrow> vault \<Rightarrow> address \<Rightarrow> address \<Rightarrow> balance_snapshot" where
  "balance_snapshot_of E v merchant token =
     (let earnings = token_earnings_of v merchant token; acc = te_accruals earnings in
      \<lparr>bs_merchant = merchant, bs_token = token, bs_balance = merchant_balance v merchant token,
        bs_accrued = unwrap_or_0 (checked_add_i128 (unwrap_or_0 (checked_add_i128 (at_interval acc) (at_usage acc))) (at_one_off acc)),
        bs_withdrawn = te_withdrawals earnings, bs_refunded = te_refunds earnings,
        bs_ledger_sequence = e_sequence E, bs_timestamp = e_timestamp E\<rparr>)"

definition publish_snapshot :: "balance_snapshot \<Rightarrow> unit vm" where
  "publish_snapshot b =
     publish (MerchantEv (Ev_merchant_balance_snapshot (bs_merchant b) (bs_token b) (bs_balance b) (bs_accrued b)
       (bs_withdrawn b) (bs_refunded b) (bs_ledger_sequence b) (bs_timestamp b)))"

definition do_emit_merchant_balance_snapshot :: "env \<Rightarrow> address \<Rightarrow> address \<Rightarrow> address \<Rightarrow> unit vm" where
  "do_emit_merchant_balance_snapshot E admin merchant token =
     thn (require_admin_auth E admin)
     (bnd (gets (\<lambda>v. balance_snapshot_of E v merchant token)) publish_snapshot)"

primrec emit_snapshots ::
  "env \<Rightarrow> nat list \<Rightarrow> (address \<times> address) list \<Rightarrow> balance_snapshot list \<Rightarrow> (balance_snapshot list) vm" where
  "emit_snapshots E [] seen out = ret out"
| "emit_snapshots E (i # ids) seen out =
     bnd (gets (\<lambda>v. su_sub (v_subs v) i)) (\<lambda>x.
     case x of
       Some sub \<Rightarrow>
         (let pair = (s_merchant sub, s_token sub) in
          if pair \<in> set seen then emit_snapshots E ids seen out
          else
            bnd (gets (\<lambda>v. balance_snapshot_of E v (s_merchant sub) (s_token sub))) (\<lambda>ev.
            thn (publish_snapshot ev)
            (emit_snapshots E ids (seen @ [pair]) (out @ [ev]))))
     | None \<Rightarrow> emit_snapshots E ids seen out)"

definition do_emit_all_balances_snapshot :: "env \<Rightarrow> address \<Rightarrow> nat \<Rightarrow> nat \<Rightarrow> (balance_snapshot list) vm" where
  "do_emit_all_balances_snapshot E admin start_id end_id =
     thn (require_admin_auth E admin) (emit_snapshots E [start_id..<end_id] [] [])"

section \<open>Registered plans\<close>

definition do_register_plan ::
  "env \<Rightarrow> address \<Rightarrow> int \<Rightarrow> nat \<Rightarrow> nat \<Rightarrow> bool \<Rightarrow> int option \<Rightarrow> nat vm" where
  "do_register_plan E merchant amount interval_seconds trial_seconds usage_enabled lifetime_cap =
     thn (require_auth E merchant)
     (if amount \<le> 0 then fail E_InvalidAmount
      else
        thn (lift (validate_interval interval_seconds))
        (if (case lifetime_cap of Some cap \<Rightarrow> cap \<le> 0 | None \<Rightarrow> False) then fail E_InvalidAmount
         else
           bnd get_token (\<lambda>token.
           bnd next_plan_id (\<lambda>plan_id.
           thn (store_plan plan_id \<lparr>pl_merchant = merchant, pl_token = token, pl_amount = amount,
                  pl_interval_seconds = interval_seconds, pl_trial_seconds = trial_seconds,
                  pl_trial_period_seconds = (if trial_seconds > 0 then Some trial_seconds else None),
                  pl_usage_enabled = usage_enabled, pl_lifetime_cap = lifetime_cap, pl_template_key = plan_id,
                  pl_version = 1, pl_is_disabled = False\<rparr>)
           (thn (publish (PlanEv (Ev_plan_registered plan_id merchant token amount interval_seconds trial_seconds
                  usage_enabled lifetime_cap (e_timestamp E))))
           (ret plan_id))))))"

definition do_deprecate_plan :: "env \<Rightarrow> address \<Rightarrow> nat \<Rightarrow> unit vm" where
  "do_deprecate_plan E merchant plan_id =
     thn (require_auth E merchant)
     (bnd (get_plan_template plan_id) (\<lambda>plan.
     if pl_merchant plan \<noteq> merchant then fail E_Forbidden
     else if pl_is_disabled plan then ret ()
     else
       thn (store_plan plan_id (plan\<lparr>pl_is_disabled := True\<rparr>))
       (publish (PlanEv (Ev_plan_deprecated plan_id merchant (e_timestamp E))))))"

section \<open>What a move does\<close>

definition moved :: "int \<Rightarrow> int \<Rightarrow> int" where
  "moved existing bal = (if bal = 0 then existing else wrap_i128 (existing + bal))"

lemma moved_0 [simp]: "moved a 0 = a"
  by (simp add: moved_def)

lemma merchant_balance_upd [simp]:
  "merchant_balance (s\<lparr>v_subs := su\<rparr>) m tk = merchant_balance s m tk"
  "merchant_balance (s\<lparr>v_events := ev\<rparr>) m tk = merchant_balance s m tk"
  "merchant_balance (s\<lparr>v_nonce := no\<rparr>) m tk = merchant_balance s m tk"
  by (simp_all add: merchant_balance_def)

text \<open>Everything but the merchant store stays; in the store only balances and earnings change.\<close>

definition outside_books :: "vault \<Rightarrow> vault" where
  "outside_books v = v\<lparr>v_merchant := (v_merchant v)\<lparr>m_balance := (\<lambda>_. Map.empty), m_earnings := (\<lambda>_. Map.empty)\<rparr>\<rparr>"

lemma keeps_outside_books:
  "keeps outside_books (move_token old new tk)" "keeps outside_books (each (move_token old new) tks)"
proof -
  show one: "keeps outside_books (move_token old new tk)" for tk
    by (auto simp: move_token_def set_merchant_balance_def set_merchant_token_earnings_def mod_merchant_def outside_books_def
        intro!: keeps_basic keeps_bnd keeps_thn keeps_if keeps_option keeps_modify)
  show "keeps outside_books (each (move_token old new) tks)"
    by (induction tks) (auto intro: keeps_intro one)
qed

lemma outside_booksD:
  assumes "outside_books t = outside_books s"
  shows "v_subs t = v_subs s" "v_ledger t = v_ledger s" "v_admin t = v_admin s" "v_events t = v_events s" "v_nonce t = v_nonce s"
    "m_tokens (v_merchant t) = m_tokens (v_merchant s)" "m_config (v_merchant t) = m_config (v_merchant s)"
    "m_sub_account (v_merchant t) = m_sub_account (v_merchant s)"
proof -
  from assms have "f (outside_books t) = f (outside_books s)" for f :: "vault \<Rightarrow> 'z" by simp
  from this [of v_subs] this [of v_ledger] this [of v_admin] this [of v_events] this [of v_nonce]
    this [of "\<lambda>v. m_tokens (v_merchant v)"] this [of "\<lambda>v. m_config (v_merchant v)"] this [of "\<lambda>v. m_sub_account (v_merchant v)"]
  show "v_subs t = v_subs s" "v_ledger t = v_ledger s" "v_admin t = v_admin s" "v_events t = v_events s" "v_nonce t = v_nonce s"
    "m_tokens (v_merchant t) = m_tokens (v_merchant s)" "m_config (v_merchant t) = m_config (v_merchant s)"
    "m_sub_account (v_merchant t) = m_sub_account (v_merchant s)"
    by (simp_all add: outside_books_def)
qed

lemma move_token_balance:
  assumes "move_token old new tk s = (Ok u, t)"
  shows "merchant_balance t m tk' =
    (if tk' \<noteq> tk then merchant_balance s m tk'
     else if m = old then 0
     else if m = new then moved (merchant_balance s new tk) (merchant_balance s old tk)
     else merchant_balance s m tk')"
  using assms
  by (auto simp: move_token_def bnd_ok thn_ok basic_ok mod_merchant_ok set_merchant_balance_def set_merchant_token_earnings_def
      merchant_balance_def moved_def split: option.split_asm if_split_asm)

lemma move_tokens_balance:
  assumes "each (move_token old new) tks s = (Ok u, t)"
  shows "merchant_balance t m tk =
    (if tk \<notin> set tks then merchant_balance s m tk
     else if m = old then 0
     else if m = new then moved (merchant_balance s new tk) (merchant_balance s old tk)
     else merchant_balance s m tk)"
  using assms
proof (induction tks arbitrary: s)
  case (Cons tk' tks)
  then obtain v where v: "move_token old new tk' s = (Ok (), v)" "each (move_token old new) tks v = (Ok u, t)"
    by (auto simp: act_ok)
  show ?case
    unfolding Cons.IH [OF v(2)] move_token_balance [OF v(1)] by auto
qed (simp add: act_ok)

lemma reassign_subs_effect:
  assumes "reassign_subs old new ids n s = (Ok k, t)" and "old \<noteq> new"
  shows "v_merchant t = v_merchant s \<and> v_ledger t = v_ledger s \<and> v_admin t = v_admin s \<and> v_nonce t = v_nonce s \<and>
    su_merchant_subs (v_subs t) = su_merchant_subs (v_subs s) \<and>
    su_sub (v_subs t) i = map_option (\<lambda>sub. if i \<in> set ids \<and> s_merchant sub = old then sub\<lparr>s_merchant := new\<rparr> else sub)
      (su_sub (v_subs s) i)"
  using assms(1)
proof (induction ids arbitrary: n s)
  case (Cons j ids)
  show ?case
  proof (cases "\<exists>sub. su_sub (v_subs s) j = Some sub \<and> s_merchant sub = old")
    case True
    then obtain sub where sub: "su_sub (v_subs s) j = Some sub" "s_merchant sub = old" by blast
    with Cons.prems have "reassign_subs old new ids ((n + 1) mod 2 ^ 32)
        (s\<lparr>v_subs := (v_subs s)\<lparr>su_sub := (su_sub (v_subs s))(j \<mapsto> sub\<lparr>s_merchant := new\<rparr>)\<rparr>\<rparr>) = (Ok k, t)"
      by (simp add: act_run)
    from Cons.IH [OF this] sub assms(2) show ?thesis by (auto simp: option.map_comp)
  next
    case False
    with Cons.prems have "\<exists>n'. reassign_subs old new ids n' s = (Ok k, t)"
      by (auto simp: act_run split: option.split_asm if_split_asm)
    with Cons.IH False show ?thesis by (auto simp: map_option_case split: option.split)
  qed
qed (auto simp: act_ok map_option_case split: option.split)

lemma move_lists_balance:
  "move_token_list old new tks s = (Ok u, t) \<Longrightarrow> v_subs t = v_subs s \<and> v_ledger t = v_ledger s \<and> v_nonce t = v_nonce s \<and>
     merchant_balance t m tk = merchant_balance s m tk"
  "move_profile old new s = (Ok u, t) \<Longrightarrow> v_subs t = v_subs s \<and> v_ledger t = v_ledger s \<and> v_nonce t = v_nonce s \<and>
     merchant_balance t m tk = merchant_balance s m tk"
  "move_sub_list old new ids s = (Ok u, t) \<Longrightarrow> su_sub (v_subs t) = su_sub (v_subs s) \<and> v_ledger t = v_ledger s \<and>
     v_nonce t = v_nonce s \<and> merchant_balance t m tk = merchant_balance s m tk"
  by (auto simp: move_token_list_def move_profile_def move_sub_list_def mod_subs_def merchant_balance_def act_ok split: if_split_asm)

lemma keeps_reassign: "keeps (\<lambda>v. (v_merchant v, v_ledger v, v_nonce v, su_merchant_subs (v_subs v))) (reassign_subs old new ids n)"
  by (induction ids arbitrary: n) (auto simp: write_subscription_def intro!: keeps_basic keeps_bnd keeps_thn keeps_if keeps_option keeps_modify)

lemma rotate_merchant_chain:
  assumes "do_rotate_merchant_address E admin old new nonce s = (Ok u, t)"
  obtains v w x y k where "e_auth E admin" "stored_admin s = Some admin" "nonce = stored_nonce s admin (as_u32 MerchantRotation)"
    "v_nonce v admin (as_u32 MerchantRotation) = Some (Suc nonce)" "v_subs v = v_subs s" "v_ledger v = v_ledger s" "v_merchant v = v_merchant s"
    "each (move_token old new) (m_tokens (v_merchant s) old) v = (Ok (), w)"
    "v_subs x = v_subs w" "v_ledger x = v_ledger w" "v_nonce x = v_nonce w" "\<And>m tk. merchant_balance x m tk = merchant_balance w m tk"
    "reassign_subs old new (merchant_sub_ids s old) 0 x = (Ok k, y)"
    "su_sub (v_subs t) = su_sub (v_subs y)" "v_ledger t = v_ledger y" "v_nonce t = v_nonce y"
    "\<And>m tk. merchant_balance t m tk = merchant_balance y m tk"
proof -
  from assms obtain v w x1 x y z k e where run: "e_auth E admin" "stored_admin s = Some admin"
      "check_and_advance E admin MerchantRotation nonce s = (Ok (), v)"
      "each (move_token old new) (m_tokens (v_merchant v) old) v = (Ok (), w)"
      "move_token_list old new (m_tokens (v_merchant v) old) w = (Ok (), x1)" "move_profile old new x1 = (Ok (), x)"
      "reassign_subs old new (merchant_sub_ids x old) 0 x = (Ok k, y)" "move_sub_list old new (merchant_sub_ids x old) y = (Ok (), z)"
      "t = z\<lparr>v_events := e\<rparr>"
    unfolding do_rotate_merchant_address_def bnd_ok thn_ok basic_ok require_admin_auth_ok stored_admin_def publish_ok by auto
  have v: "v_subs v = v_subs s" "v_ledger v = v_ledger s" "v_merchant v = v_merchant s"
      "nonce = stored_nonce s admin (as_u32 MerchantRotation)" "v_nonce v admin (as_u32 MerchantRotation) = Some (Suc nonce)"
    using run(3) by (auto simp: act_ok)
  note w = outside_booksD [OF keepsD [OF keeps_outside_books(2) run(4)]]
  note parts = move_lists_balance(1) [OF run(5)] move_lists_balance(2) [OF run(6)] move_lists_balance(3) [OF run(8)]
  have ids: "merchant_sub_ids x old = merchant_sub_ids s old" using parts(1,2) w v by (simp add: merchant_sub_ids_def)
  show thesis
    by (rule that [of v w x k y]) (use run(1,2,4) run(7) [unfolded ids] v parts run(9) in auto)
qed

lemma rotate_merchant_balances:
  assumes "do_rotate_merchant_address E admin old new nonce s = (Ok u, t)"
  shows "merchant_balance t m tk =
    (if tk \<notin> set (m_tokens (v_merchant s) old) then merchant_balance s m tk
     else if m = old then 0
     else if m = new then moved (merchant_balance s new tk) (merchant_balance s old tk)
     else merchant_balance s m tk)"
  using assms
proof (rule rotate_merchant_chain)
  fix v w x y k
  assume v: "v_merchant v = v_merchant s" and w: "each (move_token old new) (m_tokens (v_merchant s) old) v = (Ok (), w)"
    and x: "\<And>m tk. merchant_balance x m tk = merchant_balance w m tk"
    and y: "reassign_subs old new (merchant_sub_ids s old) 0 x = (Ok k, y)" and t: "\<And>m tk. merchant_balance t m tk = merchant_balance y m tk"
  have "v_merchant y = v_merchant x" using keepsD [OF keeps_reassign y] by simp
  moreover have "merchant_balance v = merchant_balance s" using v by (simp add: merchant_balance_def fun_eq_iff)
  ultimately show ?thesis using t x move_tokens_balance [OF w, of m tk] by (simp add: merchant_balance_def)
qed

text \<open>
  C19. Moving a merchant to another address moves its money and its subscriptions and touches nobody else. It needs the admin
  and the next nonce, which is used up. In every token the merchant is listed with, the new address has its own balance plus
  the old one's, the old one has nothing left, and no third merchant is affected; every subscription in the merchant's index that
  belongs to the old address belongs to the new one and is otherwise unchanged, and no token moves.
\<close>

theorem merchant_rotation_moves:
  assumes "do_rotate_merchant_address E admin old new nonce s = (Ok u, t)" and "old \<noteq> new"
    and "\<And>tk. fits_i128 (merchant_balance s new tk + merchant_balance s old tk)"
  shows "e_auth E admin \<and> stored_admin s = Some admin \<and> nonce = stored_nonce s admin (as_u32 MerchantRotation) \<and>
    stored_nonce t admin (as_u32 MerchantRotation) = Suc nonce \<and> v_ledger t = v_ledger s \<and>
    (\<forall>tk m. merchant_balance t m tk =
      (if tk \<in> set (m_tokens (v_merchant s) old) \<and> m = old then 0
       else if tk \<in> set (m_tokens (v_merchant s) old) \<and> m = new then merchant_balance s new tk + merchant_balance s old tk
       else merchant_balance s m tk)) \<and>
    (\<forall>i. su_sub (v_subs t) i = map_option
      (\<lambda>sub. if i \<in> set (merchant_sub_ids s old) \<and> s_merchant sub = old then sub\<lparr>s_merchant := new\<rparr> else sub) (su_sub (v_subs s) i))"
  using assms(1)
proof (rule rotate_merchant_chain)
  fix v w x y k
  assume run: "e_auth E admin" "stored_admin s = Some admin" "nonce = stored_nonce s admin (as_u32 MerchantRotation)"
    "v_nonce v admin (as_u32 MerchantRotation) = Some (Suc nonce)" "v_subs v = v_subs s" "v_ledger v = v_ledger s"
    "each (move_token old new) (m_tokens (v_merchant s) old) v = (Ok (), w)" "v_subs x = v_subs w" "v_ledger x = v_ledger w"
    "v_nonce x = v_nonce w" "reassign_subs old new (merchant_sub_ids s old) 0 x = (Ok k, y)"
    "su_sub (v_subs t) = su_sub (v_subs y)" "v_ledger t = v_ledger y" "v_nonce t = v_nonce y"
  note w = outside_booksD [OF keepsD [OF keeps_outside_books(2) run(7)]]
  have subs: "su_sub (v_subs t) i = map_option
      (\<lambda>sub. if i \<in> set (merchant_sub_ids s old) \<and> s_merchant sub = old then sub\<lparr>s_merchant := new\<rparr> else sub) (su_sub (v_subs s) i)" for i
    using reassign_subs_effect [OF run(11) assms(2), of i] run(5,8,12) w by simp
  have y: "v_ledger y = v_ledger x" "v_nonce y = v_nonce x" using keepsD [OF keeps_reassign run(11)] by simp_all
  have "moved (merchant_balance s new tk) (merchant_balance s old tk) = merchant_balance s new tk + merchant_balance s old tk" for tk
    using assms(3) [of tk] by (simp add: moved_def)
  then have "merchant_balance t m tk =
      (if tk \<in> set (m_tokens (v_merchant s) old) \<and> m = old then 0
       else if tk \<in> set (m_tokens (v_merchant s) old) \<and> m = new then merchant_balance s new tk + merchant_balance s old tk
       else merchant_balance s m tk)" for tk m
    using rotate_merchant_balances [OF assms(1), of m tk] by simp
  with run w y subs show ?thesis by (simp add: stored_nonce_def)
qed

text \<open>
  Moving a merchant to its own address erases its money: nothing checks that the two addresses differ, and the balance the
  loop has just added is the one it removes. Afterwards every balance of the merchant in its listed tokens is zero, while the
  tokens are still in the vault and nobody is owed them.
\<close>

theorem self_rotation_erases:
  assumes "do_rotate_merchant_address E admin merchant merchant nonce s = (Ok u, t)"
    and "tk \<in> set (m_tokens (v_merchant s) merchant)"
  shows "merchant_balance t merchant tk = 0 \<and> v_ledger t = v_ledger s \<and>
    (\<forall>m tk'. m \<noteq> merchant \<longrightarrow> merchant_balance t m tk' = merchant_balance s m tk')"
proof -
  have "v_ledger t = v_ledger s"
    using assms(1)
  proof (rule rotate_merchant_chain)
    fix v w x y k
    assume run: "v_ledger v = v_ledger s" "each (move_token merchant merchant) (m_tokens (v_merchant s) merchant) v = (Ok (), w)"
      "v_ledger x = v_ledger w" "reassign_subs merchant merchant (merchant_sub_ids s merchant) 0 x = (Ok k, y)" "v_ledger t = v_ledger y"
    have "v_ledger w = v_ledger v" using outside_booksD [OF keepsD [OF keeps_outside_books(2) run(2)]] by simp
    moreover have "v_ledger y = v_ledger x" using keepsD [OF keeps_reassign run(4)] by simp
    ultimately show ?thesis using run by simp
  qed
  with rotate_merchant_balances [OF assms(1)] assms(2) show ?thesis by simp
qed

definition market_vault :: vault where
  "market_vault = shop_vault\<lparr>
     v_admin := (v_admin shop_vault)\<lparr>ad_schema_persistent := Some 3, ad_persistent := empty_config\<lparr>cf_admin := Some (Addr 3)\<rparr>\<rparr>,
     v_subs := (v_subs empty_vault)\<lparr>su_sub := [7 \<mapsto> stored_sub], su_merchant_subs := [Addr 5 \<mapsto> [7]]\<rparr>\<rparr>"

lemma market_vault_sel [simp]:
  "v_merchant market_vault = v_merchant shop_vault" "su_sub (v_subs market_vault) = [7 \<mapsto> stored_sub]"
  "merchant_sub_ids market_vault (Addr 5) = [7]" "config_value cf_admin (v_admin market_vault) = Some (Addr 3)"
  "v_nonce market_vault = (\<lambda>_. Map.empty)" "m_tokens (v_merchant shop_vault) (Addr 5) = [Addr 9]"
  "merchant_balance market_vault m tk = merchant_balance shop_vault m tk"
  by (simp_all add: market_vault_def merchant_sub_ids_def id_list_def config_value_def shop_vault_def empty_vault_def merchant_balance_def)

lemma market_rotation: "\<exists>t. do_rotate_merchant_address test_env (Addr 3) (Addr 5) new 0 market_vault = (Ok (), t)"
proof -
  have each_ok: "\<exists>w. each (move_token old new) tks v = (Ok (), w)" for old tks v
    by (induction tks arbitrary: v) (auto simp: move_token_def act_ok act_run set_merchant_balance_def set_merchant_token_earnings_def
        split: option.split)
  have reassign_ok: "\<exists>k w. reassign_subs old new ids n v = (Ok k, w)" for old ids n v
    by (induction ids arbitrary: n v) (auto simp: act_run split: option.split)
  have lists_ok: "\<exists>w. move_token_list old new tks v = (Ok (), w)" "\<exists>w. move_profile old new v = (Ok (), w)"
      "\<exists>w. move_sub_list old new ids v = (Ok (), w)" for old tks ids v
    by (auto simp: move_token_list_def move_profile_def move_sub_list_def mod_subs_def act_ok act_run)
  obtain v where v: "check_and_advance test_env (Addr 3) MerchantRotation 0 market_vault = (Ok (), v)"
    by (simp add: act_ok stored_nonce_def u64_max_def)
  obtain w where w: "each (move_token (Addr 5) new) (m_tokens (v_merchant v) (Addr 5)) v = (Ok (), w)" using each_ok by blast
  obtain x1 where x1: "move_token_list (Addr 5) new (m_tokens (v_merchant v) (Addr 5)) w = (Ok (), x1)" using lists_ok(1) by blast
  obtain x where x: "move_profile (Addr 5) new x1 = (Ok (), x)" using lists_ok(2) by blast
  obtain k y where y: "reassign_subs (Addr 5) new (merchant_sub_ids x (Addr 5)) 0 x = (Ok k, y)" using reassign_ok by blast
  obtain z where z: "move_sub_list (Addr 5) new (merchant_sub_ids x (Addr 5)) y = (Ok (), z)" using lists_ok(3) by blast
  show ?thesis
    using v w x1 x y z by (simp add: do_rotate_merchant_address_def thn_def bnd_run require_admin_auth_def require_auth_def
      require_admin_def read_config_run run_simps publish_run)
qed

theorem merchant_rotation_moves_witness:
  "\<exists>t. do_rotate_merchant_address test_env (Addr 3) (Addr 5) (Addr 6) 0 market_vault = (Ok (), t) \<and>
     merchant_balance t (Addr 6) (Addr 9) = 700 \<and> merchant_balance t (Addr 5) (Addr 9) = 0 \<and>
     su_sub (v_subs t) 7 = Some (stored_sub\<lparr>s_merchant := Addr 6\<rparr>)"
proof -
  obtain t where t: "do_rotate_merchant_address test_env (Addr 3) (Addr 5) (Addr 6) 0 market_vault = (Ok (), t)"
    using market_rotation by blast
  have "merchant_balance shop_vault (Addr 6) tk = 0" "merchant_balance shop_vault (Addr 5) tk = (if tk = Addr 9 then 700 else 0)" for tk
    by (simp_all add: shop_vault_def merchant_balance_def)
  with merchant_rotation_moves [OF t] t show ?thesis by (simp add: fits_small stored_sub_def)
qed

theorem self_rotation_erases_witness:
  "\<exists>t. do_rotate_merchant_address test_env (Addr 3) (Addr 5) (Addr 5) 0 market_vault = (Ok (), t) \<and>
     merchant_balance market_vault (Addr 5) (Addr 9) = 700 \<and> merchant_balance t (Addr 5) (Addr 9) = 0"
proof -
  obtain t where "do_rotate_merchant_address test_env (Addr 3) (Addr 5) (Addr 5) 0 market_vault = (Ok (), t)"
    using market_rotation by blast
  with self_rotation_erases [OF this, of "Addr 9"] show ?thesis by simp
qed

section \<open>Tags\<close>

lemma unique_tags_ok: "unique_tags seen tags s = (Ok u, t) \<longleftrightarrow> distinct tags \<and> set tags \<inter> set seen = {} \<and> t = s"
  by (induction tags arbitrary: seen) (auto simp: act_ok)

lemma allowed_tags_ok:
  "allowed_tags allowlist seen tags s = (Ok u, t) \<longleftrightarrow>
     distinct tags \<and> set tags \<inter> set seen = {} \<and> set tags \<subseteq> set allowlist \<and> t = s"
  by (induction tags arbitrary: seen) (auto simp: act_ok)

text \<open>Tags that are set are distinct, at most eight, and allowed when they are set.\<close>

lemma set_merchant_tags_effect:
  assumes "set_merchant_tags E admin merchant tags s = (Ok u, t)"
  shows "e_auth E admin \<and> length tags \<le> MAX_MERCHANT_TAGS \<and> distinct tags \<and>
    set tags \<subseteq> set (case m_tag_allowlist (v_merchant s) of Some l \<Rightarrow> l | None \<Rightarrow> []) \<and> merchant_tags t merchant = tags"
  using assms by (auto simp: set_merchant_tags_def get_tag_allowlist_def allowed_tags_ok merchant_tags_def act_ok split: if_split_asm)

end
