(* ===== verification/Queries.thy ===== *)
theory Queries
  imports Merchant_Admin
begin

text \<open>
  Read-only queries (\<^verbatim>\<open>src/queries.rs\<close>): estimates, pages of subscriptions, recoverable balances and token
  reconciliation. Queries that cannot fail and read only the storage are functions of the vault.
\<close>

definition MAX_SUBSCRIPTION_LIST_PAGE :: "nat" where "MAX_SUBSCRIPTION_LIST_PAGE = 100"
definition MAX_MERCHANT_CURSOR_DEPTH :: "nat" where "MAX_MERCHANT_CURSOR_DEPTH = 1000"
definition MAX_QUERY_RESULTS :: "nat" where "MAX_QUERY_RESULTS = 100"
definition MAX_SCAN_DEPTH :: "nat" where "MAX_SCAN_DEPTH = 1000"

definition next_id_of :: "vault \<Rightarrow> nat" where
  "next_id_of v = (case config_value cf_next_id (v_admin v) of Some n \<Rightarrow> n | None \<Rightarrow> 0)"

section \<open>One subscription\<close>

definition estimate_topup_for_intervals :: "env \<Rightarrow> nat \<Rightarrow> nat \<Rightarrow> int vm" where
  "estimate_topup_for_intervals E i num_intervals =
     bnd (get_subscription E i) (\<lambda>sub.
     if num_intervals = 0 then ret 0
     else
       bnd (lift (safe_mul (s_amount sub) (int num_intervals))) (\<lambda>required.
       if required \<le> s_prepaid_balance sub then ret 0
       else lift (safe_sub required (s_prepaid_balance sub))))"

record next_charge_info =
  nc_next_charge_timestamp :: nat
  nc_is_charge_expected :: bool
  nc_status :: subscription_status
  nc_reason :: symbol
  nc_amount :: int
  nc_token :: address
  nc_grace_deadline :: "nat option"

definition charge_reason :: "subscription_status \<Rightarrow> symbol" where
  "charge_reason st =
     (case st of
        Active \<Rightarrow> ''active'' | GracePeriod \<Rightarrow> ''grace'' | InsufficientBalance \<Rightarrow> ''insuf_bal'' | Paused \<Rightarrow> ''paused''
      | Cancelled \<Rightarrow> ''cancelled'' | Expired \<Rightarrow> ''expired'' | Archived \<Rightarrow> ''archived'')"

definition compute_next_charge_info :: "vault \<Rightarrow> subscription \<Rightarrow> next_charge_info" where
  "compute_next_charge_info v sub =
     \<lparr>nc_next_charge_timestamp = sat_add_u64 (s_last_payment_timestamp sub) (s_interval_seconds sub),
       nc_is_charge_expected = (s_status sub = Active \<or> s_status sub = GracePeriod), nc_status = s_status sub,
       nc_reason = charge_reason (s_status sub), nc_amount = s_amount sub, nc_token = s_token sub,
       nc_grace_deadline = map_option (\<lambda>start. sat_add_u64 start (grace_duration v)) (s_grace_start_timestamp sub)\<rparr>"

definition get_next_charge_info :: "env \<Rightarrow> nat \<Rightarrow> next_charge_info vm" where
  "get_next_charge_info E i = bnd (get_subscription E i) (\<lambda>sub. gets (\<lambda>v. compute_next_charge_info v sub))"

record cap_info =
  ci_lifetime_cap :: "int option"
  ci_lifetime_charged :: int
  ci_remaining_cap :: "int option"
  ci_cap_reached :: bool

definition get_cap_info :: "env \<Rightarrow> nat \<Rightarrow> cap_info vm" where
  "get_cap_info E i =
     bnd (get_subscription E i) (\<lambda>sub.
     ret (let (remaining, reached) = (case s_lifetime_cap sub of
            Some cap \<Rightarrow> (Some (lifetime_cap_remaining cap (s_lifetime_charged sub)), lifetime_cap_reached cap (s_lifetime_charged sub))
          | None \<Rightarrow> (None, False)) in
        \<lparr>ci_lifetime_cap = s_lifetime_cap sub, ci_lifetime_charged = s_lifetime_charged sub, ci_remaining_cap = remaining,
          ci_cap_reached = reached\<rparr>))"

section \<open>Pages of subscriptions\<close>

definition stored_subs :: "vault \<Rightarrow> nat list \<Rightarrow> subscription list" where
  "stored_subs v ids = List.map_filter (su_sub (v_subs v)) ids"

definition read_merchant_page :: "vault \<Rightarrow> nat list \<Rightarrow> nat \<Rightarrow> nat \<Rightarrow> bool \<Rightarrow> subscription list" where
  "read_merchant_page v ids start limit reverse =
     (let len = length ids; end_pos = min (sat_add_u32 start limit) len in
      stored_subs v (map (\<lambda>position. ids ! (if reverse then len - 1 - position else position)) [start..<end_pos]))"

definition get_subscriptions_by_merchant :: "vault \<Rightarrow> address \<Rightarrow> nat \<Rightarrow> nat \<Rightarrow> bool \<Rightarrow> (subscription list) res" where
  "get_subscriptions_by_merchant v merchant start limit reverse =
     (if limit = 0 \<or> limit > MAX_SUBSCRIPTION_LIST_PAGE then Err E_InvalidInput
      else
        let ids = merchant_sub_ids v merchant in
        if start \<ge> length ids then Ok [] else Ok (read_merchant_page v ids start limit reverse))"

record subscriptions_page =
  pg_subscriptions :: "subscription list"
  pg_next_cursor :: "nat option"
  pg_length :: nat

definition get_subscriptions_by_merchant_paginated ::
  "vault \<Rightarrow> address \<Rightarrow> nat option \<Rightarrow> nat \<Rightarrow> bool \<Rightarrow> subscriptions_page res" where
  "get_subscriptions_by_merchant_paginated v merchant cursor limit reverse =
     (if limit = 0 \<or> limit > MAX_SUBSCRIPTION_LIST_PAGE then Err E_InvalidInput
      else
        let ids = merchant_sub_ids v merchant; len = length ids; start = (case cursor of Some c \<Rightarrow> c | None \<Rightarrow> 0) in
        if start \<ge> len \<or> start \<ge> MAX_MERCHANT_CURSOR_DEPTH
        then Ok \<lparr>pg_subscriptions = [], pg_next_cursor = None, pg_length = len\<rparr>
        else
          let end_pos = min (min (sat_add_u32 start limit) len) MAX_MERCHANT_CURSOR_DEPTH in
          Ok \<lparr>pg_subscriptions = read_merchant_page v ids start (end_pos - start) reverse,
            pg_next_cursor = (if end_pos < len \<and> end_pos < MAX_MERCHANT_CURSOR_DEPTH then Some end_pos else None),
            pg_length = len\<rparr>)"

definition token_sub_ids :: "vault \<Rightarrow> address \<Rightarrow> nat list" where
  "token_sub_ids v token = id_list (lf_token_subs (v_life v) token)"

definition get_token_subscription_count :: "vault \<Rightarrow> address \<Rightarrow> nat" where
  "get_token_subscription_count v token = length (token_sub_ids v token)"

definition get_subscriptions_by_token :: "vault \<Rightarrow> address \<Rightarrow> nat \<Rightarrow> nat \<Rightarrow> (subscription list) res" where
  "get_subscriptions_by_token v token start limit =
     (if limit = 0 \<or> limit > MAX_SUBSCRIPTION_LIST_PAGE then Err E_InvalidInput
      else
        let ids = token_sub_ids v token; len = length ids; stop = (start + limit) mod 2 ^ 32 in
        if start \<ge> len then Ok []
        else
          let end_pos = (if stop > len then len else stop) in
          Ok (stored_subs v (take ((end_pos + 2 ^ 32 - start) mod 2 ^ 32) (drop start ids))))"

definition list_subscriptions_by_token :: "vault \<Rightarrow> address \<Rightarrow> nat option \<Rightarrow> nat \<Rightarrow> subscriptions_page res" where
  "list_subscriptions_by_token v token cursor limit =
     (if limit = 0 \<or> limit > MAX_SUBSCRIPTION_LIST_PAGE then Err E_InvalidInput
      else
        let ids = token_sub_ids v token; len = length ids; start = (case cursor of Some c \<Rightarrow> c | None \<Rightarrow> 0) in
        if start \<ge> len then Ok \<lparr>pg_subscriptions = [], pg_next_cursor = None, pg_length = len\<rparr>
        else
          let end_pos = min (sat_add_u32 start limit) len in
          Ok \<lparr>pg_subscriptions = stored_subs v (take (end_pos - start) (drop start ids)),
            pg_next_cursor = (if end_pos < len then Some end_pos else None), pg_length = len\<rparr>)"

definition get_plan_max_active_subs :: "vault \<Rightarrow> nat \<Rightarrow> nat" where
  "get_plan_max_active_subs v plan_template_id = (case lf_plan_max_active (v_life v) plan_template_id of Some n \<Rightarrow> n | None \<Rightarrow> 0)"

text \<open>The loop over the index of a subscriber: the ids of the page and the id to go on with.\<close>

primrec subscriber_page :: "nat \<Rightarrow> nat \<Rightarrow> nat list \<Rightarrow> nat \<Rightarrow> nat list \<Rightarrow> nat list \<times> nat option" where
  "subscriber_page start_from_id limit [] scanned out = (out, None)"
| "subscriber_page start_from_id limit (i # ids) scanned out =
     (if i < start_from_id then subscriber_page start_from_id limit ids scanned out
      else if scanned \<ge> MAX_SCAN_DEPTH then (out, Some i)
      else if length out < limit then subscriber_page start_from_id limit ids (scanned + 1) (out @ [i])
      else (out, Some i))"

definition list_subscriptions_by_subscriber ::
  "vault \<Rightarrow> address \<Rightarrow> nat \<Rightarrow> nat \<Rightarrow> (nat list \<times> nat option) res" where
  "list_subscriptions_by_subscriber v subscriber start_from_id limit =
     (if limit = 0 \<or> limit > MAX_QUERY_RESULTS then Err E_InvalidExportLimit
      else
        let next_id = next_id_of v in
        if (next_id = 0 \<and> start_from_id > 0) \<or> (next_id > 0 \<and> start_from_id \<ge> next_id) then Err E_InvalidInput
        else Ok (subscriber_page start_from_id limit (id_list (su_subscriber_subs (v_subs v) subscriber)) 0 []))"

section \<open>Recoverable balances\<close>

record recoverable_subscription =
  rc_subscription_id :: nat
  rc_subscriber :: address
  rc_merchant :: address
  rc_token :: address
  rc_prepaid_balance :: int

definition recoverable_at :: "vault \<Rightarrow> nat \<Rightarrow> recoverable_subscription option" where
  "recoverable_at v i =
     (case su_sub (v_subs v) i of
        Some sub \<Rightarrow>
          if s_status sub = Cancelled \<and> s_prepaid_balance sub > 0 then
            Some \<lparr>rc_subscription_id = i, rc_subscriber = s_subscriber sub, rc_merchant = s_merchant sub, rc_token = s_token sub,
              rc_prepaid_balance = s_prepaid_balance sub\<rparr>
          else None
      | None \<Rightarrow> None)"

text \<open>The scan over the ids from the cursor on: what was found and the id to go on with.\<close>

primrec recoverable_scan ::
  "vault \<Rightarrow> nat \<Rightarrow> nat list \<Rightarrow> nat \<Rightarrow> recoverable_subscription list \<Rightarrow> recoverable_subscription list \<times> nat option" where
  "recoverable_scan v limit [] scanned out = (out, None)"
| "recoverable_scan v limit (i # ids) scanned out =
     (if scanned \<ge> MAX_SCAN_DEPTH then (out, Some i)
      else case recoverable_at v i of
        Some r \<Rightarrow>
          if length out < limit then recoverable_scan v limit ids (scanned + 1) (out @ [r])
          else (out, Some i)
      | None \<Rightarrow> recoverable_scan v limit ids (scanned + 1) out)"

definition list_recoverable_subscriptions ::
  "vault \<Rightarrow> nat option \<Rightarrow> nat \<Rightarrow> (recoverable_subscription list \<times> nat option) res" where
  "list_recoverable_subscriptions v cursor limit =
     (if limit = 0 \<or> limit > MAX_QUERY_RESULTS then Err E_InvalidExportLimit
      else
        let next_id = next_id_of v; start = (case cursor of Some c \<Rightarrow> c | None \<Rightarrow> 0) in
        if next_id = 0 \<or> start \<ge> next_id then Ok ([], None)
        else Ok (recoverable_scan v limit [start..<next_id] 0 []))"

section \<open>Reconciliation\<close>

definition MAX_PREPAID_SCAN_DEPTH :: "nat" where "MAX_PREPAID_SCAN_DEPTH = 500"
definition MAX_TOKEN_SUMMARIES_PER_PAGE :: "nat" where "MAX_TOKEN_SUMMARIES_PER_PAGE = 50"
definition RECONCILIATION_DECIMALS :: "nat" where "RECONCILIATION_DECIMALS = 9"

definition checked_pow10 :: "nat \<Rightarrow> int option" where
  "checked_pow10 n = (if fits_i128 (10 ^ n) then Some (10 ^ n) else None)"

definition normalize_amount :: "vault \<Rightarrow> address \<Rightarrow> int \<Rightarrow> int res" where
  "normalize_amount v token raw =
     (case ad_accepted_decimals (v_admin v) token of
        None \<Rightarrow> Err E_InvalidToken
      | Some decimals \<Rightarrow>
          if decimals = 0 then Err E_InvalidTokenDecimals
          else if decimals \<le> RECONCILIATION_DECIMALS then
            (case checked_pow10 (RECONCILIATION_DECIMALS - decimals) of
               None \<Rightarrow> Err E_Overflow
             | Some scale \<Rightarrow> (case checked_mul_i128 raw scale of Some x \<Rightarrow> Ok x | None \<Rightarrow> Err E_Overflow))
          else
            (case checked_pow10 (decimals - RECONCILIATION_DECIMALS) of
               None \<Rightarrow> Err E_Overflow
             | Some scale \<Rightarrow> if tmod raw scale \<noteq> 0 then Err E_InvalidInput else Ok (tdiv raw scale)))"

definition normalized :: "vault \<Rightarrow> address \<Rightarrow> int \<Rightarrow> int" where
  "normalized v token raw = (case normalize_amount v token raw of Ok x \<Rightarrow> x | _ \<Rightarrow> 0)"

definition compute_total_prepaid :: "vault \<Rightarrow> address \<Rightarrow> int" where
  "compute_total_prepaid v token =
     fold (\<lambda>i acc. case su_sub (v_subs v) i of
             Some sub \<Rightarrow> if s_token sub = token then sat_i128 (acc + s_prepaid_balance sub) else acc
           | None \<Rightarrow> acc) [0..<next_id_of v] 0"

definition count_prepaid :: "vault \<Rightarrow> address \<Rightarrow> nat list \<Rightarrow> int \<times> nat" where
  "count_prepaid v token ids =
     fold (\<lambda>i (sum, n). case su_sub (v_subs v) i of
             Some sub \<Rightarrow>
               if s_token sub = token \<and> s_prepaid_balance sub > 0
               then (sat_i128 (sum + s_prepaid_balance sub), sat_add_u32 n 1) else (sum, n)
           | None \<Rightarrow> (sum, n)) ids (0, 0)"

definition compute_total_prepaid_with_count :: "vault \<Rightarrow> address \<Rightarrow> int \<times> nat" where
  "compute_total_prepaid_with_count v token = count_prepaid v token [0..<next_id_of v]"

definition compute_total_merchant_liabilities :: "address \<Rightarrow> int \<Rightarrow> int" where
  "compute_total_merchant_liabilities token prepaid = max (sat_i128 (get_total_accounted token - prepaid)) 0"

definition compute_total_merchant_liabilities_with_count :: "address \<Rightarrow> int \<Rightarrow> int \<times> nat" where
  "compute_total_merchant_liabilities_with_count token prepaid =
     (let sum = max (sat_i128 (get_total_accounted token - prepaid)) 0 in (sum, if sum > 0 then 1 else 0))"

record token_liabilities =
  tl_token :: address
  tl_total_prepaid :: int
  tl_total_merchant_liabilities :: int
  tl_recoverable_amount :: int
  tl_contract_balance :: int
  tl_computed_total :: int
  tl_is_balanced :: bool
  tl_normalized_prepaid :: int
  tl_normalized_merchant_liab :: int
  tl_normalized_recoverable :: int
  tl_normalized_contract_balance :: int
  tl_normalized_computed_total :: int

definition get_token_reconciliation :: "env \<Rightarrow> vault \<Rightarrow> address \<Rightarrow> token_liabilities" where
  "get_token_reconciliation E v token =
     (let contract_balance = v_ledger v token (e_self E);
          prepaid = compute_total_prepaid v token;
          liabilities = compute_total_merchant_liabilities token prepaid;
          accounted = unwrap_or_0 (checked_add_i128 prepaid liabilities);
          recoverable_amount = max (sat_i128 (contract_balance - accounted)) 0;
          computed_total = unwrap_or_0 (checked_add_i128 accounted recoverable_amount) in
      \<lparr>tl_token = token, tl_total_prepaid = prepaid, tl_total_merchant_liabilities = liabilities,
        tl_recoverable_amount = recoverable_amount, tl_contract_balance = contract_balance, tl_computed_total = computed_total,
        tl_is_balanced = (contract_balance = computed_total), tl_normalized_prepaid = normalized v token prepaid,
        tl_normalized_merchant_liab = normalized v token liabilities,
        tl_normalized_recoverable = normalized v token recoverable_amount,
        tl_normalized_contract_balance = normalized v token contract_balance,
        tl_normalized_computed_total = normalized v token computed_total\<rparr>)"

definition get_contract_reconciliation_summary ::
  "env \<Rightarrow> vault \<Rightarrow> nat \<Rightarrow> nat \<Rightarrow> token_liabilities list \<times> nat option" where
  "get_contract_reconciliation_summary E v start_token_index limit0 =
     (let limit = min limit0 MAX_TOKEN_SUMMARIES_PER_PAGE; tokens = accepted_tokens v; n = length tokens in
      if start_token_index \<ge> n then ([], None)
      else
        let end_index = min ((start_token_index + limit) mod 2 ^ 32) n in
        (map (get_token_reconciliation E v) (take ((end_index + 2 ^ 32 - start_token_index) mod 2 ^ 32) (drop start_token_index tokens)),
         if end_index < n then Some end_index else None))"

record reconciliation_proof =
  rp_timestamp :: nat
  rp_ledger_sequence :: nat
  rp_token :: address
  rp_contract_balance :: int
  rp_total_prepaid :: int
  rp_total_merchant_liabilities :: int
  rp_computed_recoverable :: int
  rp_subscription_count :: nat
  rp_merchant_count :: nat
  rp_is_valid :: bool

definition generate_reconciliation_proof :: "env \<Rightarrow> vault \<Rightarrow> address \<Rightarrow> reconciliation_proof" where
  "generate_reconciliation_proof E v token =
     (let contract_balance = v_ledger v token (e_self E);
          (prepaid, sub_count) = compute_total_prepaid_with_count v token;
          (liabilities, merchant_count) = compute_total_merchant_liabilities_with_count token prepaid;
          accounted = unwrap_or_0 (checked_add_i128 prepaid liabilities);
          recoverable = max (sat_i128 (contract_balance - accounted)) 0;
          computed_total = unwrap_or_0 (checked_add_i128 accounted recoverable) in
      \<lparr>rp_timestamp = e_timestamp E, rp_ledger_sequence = e_sequence E, rp_token = token, rp_contract_balance = contract_balance,
        rp_total_prepaid = prepaid, rp_total_merchant_liabilities = liabilities, rp_computed_recoverable = recoverable,
        rp_subscription_count = sub_count, rp_merchant_count = merchant_count,
        rp_is_valid = (contract_balance = computed_total)\<rparr>)"

record prepaid_query_result =
  pq_token :: address
  pq_partial_total :: int
  pq_subscriptions_count :: nat
  pq_next_start_id :: "nat option"
  pq_has_more :: bool

definition query_prepaid_balances_paginated :: "vault \<Rightarrow> address \<Rightarrow> nat \<Rightarrow> nat \<Rightarrow> prepaid_query_result" where
  "query_prepaid_balances_paginated v token start_subscription_id scan_limit0 =
     (let scan_limit = min scan_limit0 MAX_PREPAID_SCAN_DEPTH; next_id = next_id_of v in
      if next_id = 0 \<or> start_subscription_id \<ge> next_id then
        \<lparr>pq_token = token, pq_partial_total = 0, pq_subscriptions_count = 0, pq_next_start_id = None, pq_has_more = False\<rparr>
      else
        let scan_end = min ((start_subscription_id + scan_limit) mod 2 ^ 32) next_id;
            (sum, n) = count_prepaid v token [start_subscription_id..<scan_end];
            has_more = scan_end < next_id in
        \<lparr>pq_token = token, pq_partial_total = sum, pq_subscriptions_count = n,
          pq_next_start_id = (if has_more then Some scan_end else None), pq_has_more = has_more\<rparr>)"

section \<open>Following the cursor\<close>

text \<open>What a client collects that asks for page after page until there is no cursor.\<close>

primrec collect_recoverable :: "vault \<Rightarrow> nat \<Rightarrow> nat \<Rightarrow> nat option \<Rightarrow> recoverable_subscription list" where
  "collect_recoverable v limit 0 cursor = []"
| "collect_recoverable v limit (Suc fuel) cursor =
     (case list_recoverable_subscriptions v cursor limit of
        Ok (page, next_cursor) \<Rightarrow>
          page @ (if next_cursor = None then [] else collect_recoverable v limit fuel next_cursor)
      | _ \<Rightarrow> [])"

lemma recoverable_scan_prefix:
  obtains k where "k \<le> length ids"
    "fst (recoverable_scan v limit ids scanned out) = out @ List.map_filter (recoverable_at v) (take k ids)"
    "snd (recoverable_scan v limit ids scanned out) = (if k < length ids then Some (ids ! k) else None)"
    "ids \<noteq> [] \<Longrightarrow> scanned < MAX_SCAN_DEPTH \<Longrightarrow> length out < limit \<Longrightarrow> 0 < k"
proof (induction ids arbitrary: scanned out thesis)
  case Nil
  then show ?case by (simp add: List.map_filter_simps)
next
  case (Cons i ids)
  consider "scanned \<ge> MAX_SCAN_DEPTH \<or> (recoverable_at v i \<noteq> None \<and> limit \<le> length out)"
    | "scanned < MAX_SCAN_DEPTH" "recoverable_at v i = None"
    | r where "scanned < MAX_SCAN_DEPTH" "recoverable_at v i = Some r" "length out < limit"
    by fastforce
  then show ?case
  proof cases
    case 1
    then show ?thesis by (intro Cons.prems [of 0]) (auto simp: List.map_filter_simps)
  next
    case 2
    obtain k where "k \<le> length ids"
      "fst (recoverable_scan v limit ids (scanned + 1) out) = out @ List.map_filter (recoverable_at v) (take k ids)"
      "snd (recoverable_scan v limit ids (scanned + 1) out) = (if k < length ids then Some (ids ! k) else None)"
      by (rule Cons.IH)
    with 2 show ?thesis by (intro Cons.prems [of "Suc k"]) (auto simp: List.map_filter_simps)
  next
    case (3 r)
    obtain k where "k \<le> length ids"
      "fst (recoverable_scan v limit ids (scanned + 1) (out @ [r])) = (out @ [r]) @ List.map_filter (recoverable_at v) (take k ids)"
      "snd (recoverable_scan v limit ids (scanned + 1) (out @ [r])) = (if k < length ids then Some (ids ! k) else None)"
      by (rule Cons.IH)
    with 3 show ?thesis by (intro Cons.prems [of "Suc k"]) (auto simp: List.map_filter_simps)
  qed
qed

lemma collect_from:
  assumes "0 < limit" and "limit \<le> MAX_QUERY_RESULTS"
  shows "start < next_id_of v \<Longrightarrow> next_id_of v \<le> start + fuel \<Longrightarrow>
    collect_recoverable v limit fuel (Some start) = List.map_filter (recoverable_at v) [start..<next_id_of v]"
proof (induction fuel arbitrary: start)
  case (Suc fuel)
  let ?n = "next_id_of v" and ?scan = "recoverable_scan v limit [start..<next_id_of v] 0 []"
  obtain k where k: "k \<le> ?n - start" "fst ?scan = List.map_filter (recoverable_at v) (take k [start..<?n])"
    "snd ?scan = (if k < ?n - start then Some (start + k) else None)" "0 < k"
    by (rule recoverable_scan_prefix [where ids = "[start..<?n]" and v = v and limit = limit and scanned = 0 and out = "[]"])
      (use Suc.prems assms in \<open>auto simp: MAX_SCAN_DEPTH_def\<close>)
  have split: "[start..<?n] = [start..<start + k] @ [start + k..<?n]" "take k [start..<?n] = [start..<start + k]"
    using k(1) upt_add_eq_append [of start "start + k" "?n - start - k"] Suc.prems by (simp_all add: min_def)
  have step: "collect_recoverable v limit (Suc fuel) (Some start) =
      fst ?scan @ (if snd ?scan = None then [] else collect_recoverable v limit fuel (snd ?scan))"
    using Suc.prems assms by (simp add: list_recoverable_subscriptions_def Let_def split: prod.split)
  show ?case
  proof (cases "k < ?n - start")
    case True
    then have "collect_recoverable v limit fuel (Some (start + k)) = List.map_filter (recoverable_at v) [start + k..<?n]"
      using Suc.prems k(4) by (intro Suc.IH) auto
    with step k(2,3) True split show ?thesis by (simp add: map_filter_append)
  next
    case False
    with k(1) Suc.prems have "start + k = ?n" by simp
    with step k(2,3) False split(2) show ?thesis by simp
  qed
qed simp

text \<open>
  C25. A client that follows the cursor of the recoverable balances gets all of them. For every page size the query accepts,
  asking from the start and then with the cursor of each answer ends after at most as many pages as there are ids, and the pages
  together hold every cancelled subscription with money left, exactly once and in the order of the ids, although a single call looks at no
  more than a thousand ids.
\<close>

theorem recoverable_pages_complete:
  assumes "0 < limit" and "limit \<le> 100" and "next_id_of v \<le> fuel"
  shows "collect_recoverable v limit fuel None = List.map_filter (recoverable_at v) [0..<next_id_of v] \<and>
    distinct (map rc_subscription_id (collect_recoverable v limit fuel None))"
proof (cases "next_id_of v = 0")
  case True
  then show ?thesis using assms by (cases fuel) (simp_all add: list_recoverable_subscriptions_def Let_def List.map_filter_simps)
next
  case False
  have "collect_recoverable v limit fuel None = collect_recoverable v limit fuel (Some 0)"
    by (cases fuel) (simp_all add: list_recoverable_subscriptions_def)
  also have "\<dots> = List.map_filter (recoverable_at v) [0..<next_id_of v]"
    using False assms by (intro collect_from) (simp_all add: MAX_QUERY_RESULTS_def)
  finally have all: "collect_recoverable v limit fuel None = List.map_filter (recoverable_at v) [0..<next_id_of v]" .
  have "map rc_subscription_id (List.map_filter (recoverable_at v) ids) = filter (\<lambda>i. recoverable_at v i \<noteq> None) ids" for ids
    by (induction ids) (auto simp: List.map_filter_simps recoverable_at_def split: option.splits)
  with all show ?thesis by simp
qed

theorem recoverable_pages_complete_witness:
  "\<exists>v. next_id_of v = 2500 \<and> collect_recoverable v 1 2500 None = List.map_filter (recoverable_at v) [0..<2500]"
proof -
  let ?v = "fund_vault\<lparr>v_admin := (v_admin fund_vault)\<lparr>ad_persistent := empty_config\<lparr>cf_next_id := Some 2500\<rparr>\<rparr>\<rparr>"
  have "next_id_of ?v = 2500" by (simp add: next_id_of_def config_value_def)
  then show ?thesis
    by (intro exI [of _ ?v] conjI recoverable_pages_complete [of 1 ?v 2500, THEN conjunct1, simplified \<open>next_id_of ?v = 2500\<close>])
      (simp_all only: order_refl one_le_numeral zero_less_one)
qed

section \<open>Reconciliation does not see merchants\<close>

lemma prepaid_bounds:
  assumes "\<And>i sub. su_sub (v_subs v) i = Some sub \<Longrightarrow> 0 \<le> s_prepaid_balance sub"
  shows "0 \<le> compute_total_prepaid v token \<and> compute_total_prepaid v token \<le> i128_max"
proof -
  let ?f = "\<lambda>i acc. case su_sub (v_subs v) i of
      Some sub \<Rightarrow> if s_token sub = token then sat_i128 (acc + s_prepaid_balance sub) else acc | None \<Rightarrow> acc"
  have "0 \<le> fold ?f ids a \<and> fold ?f ids a \<le> i128_max" if "0 \<le> a" "a \<le> i128_max" for ids a
    using that
  proof (induction ids arbitrary: a)
    case (Cons i ids)
    have "0 \<le> ?f i a \<and> ?f i a \<le> i128_max"
      using Cons.prems assms [of i] by (auto simp: sat_i128_def i128_max_def i128_min_def split: option.split)
    with Cons.IH show ?case by simp
  qed simp
  then show ?thesis by (simp add: compute_total_prepaid_def i128_max_def)
qed

text \<open>
  The reconciliation of a token does not see what merchants are owed. While no prepaid balance is negative, the reported
  liabilities to merchants are zero, whatever the merchants' balances are: the report is the same for every content of the
  merchants' books. What the vault holds beyond the prepaid balances is all reported as recoverable, and the
  token counts as balanced exactly when the vault holds at least the prepaid balances.
\<close>

theorem reconciliation_ignores_merchants:
  assumes "\<And>i sub. su_sub (v_subs v) i = Some sub \<Longrightarrow> 0 \<le> s_prepaid_balance sub"
    and "fits_i128 (v_ledger v token (e_self E))" and "0 \<le> v_ledger v token (e_self E)"
    and "get_token_reconciliation E v token = r"
  shows "tl_total_merchant_liabilities r = 0 \<and>
    tl_recoverable_amount r = max (v_ledger v token (e_self E) - tl_total_prepaid r) 0 \<and>
    (tl_is_balanced r \<longleftrightarrow> tl_total_prepaid r \<le> v_ledger v token (e_self E)) \<and>
    get_token_reconciliation E (v\<lparr>v_merchant := books\<rparr>) token = r"
proof -
  have prepaid: "0 \<le> compute_total_prepaid v token" "compute_total_prepaid v token \<le> i128_max"
    using prepaid_bounds [OF assms(1)] by simp_all
  then have none: "compute_total_merchant_liabilities token (compute_total_prepaid v token) = 0"
    by (simp add: compute_total_merchant_liabilities_def get_total_accounted_def sat_i128_def i128_max_def i128_min_def)
  have fits: "fits_i128 (compute_total_prepaid v token)" "fits_i128 (v_ledger v token (e_self E) - compute_total_prepaid v token)"
    using prepaid assms(2,3) by (simp_all add: fits_i128_def i128_min_def i128_max_def)
  have "get_token_reconciliation E (v\<lparr>v_merchant := books\<rparr>) token = r"
    using assms(4) by (simp add: get_token_reconciliation_def Let_def compute_total_prepaid_def next_id_of_def normalized_def
        normalize_amount_def cong: option.case_cong)
  with assms(2,4) none fits show ?thesis
    by (auto simp: get_token_reconciliation_def Let_def checked_add_i128_def unwrap_or_0_def max_def)
qed

theorem reconciliation_ignores_merchants_witness:
  "\<exists>r. get_token_reconciliation fund_env fund_vault (Addr 9) = r \<and> tl_total_merchant_liabilities r = 0 \<and>
     get_token_reconciliation fund_env (fund_vault\<lparr>v_merchant := v_merchant shop_vault\<rparr>) (Addr 9) = r \<and>
     merchant_balance (fund_vault\<lparr>v_merchant := v_merchant shop_vault\<rparr>) (Addr 5) (Addr 9) = 700"
proof -
  have "0 \<le> s_prepaid_balance sub" if "su_sub (v_subs fund_vault) i = Some sub" for i sub
    using that by (auto simp: stored_sub_def split: if_split_asm)
  then have "tl_total_merchant_liabilities (get_token_reconciliation fund_env fund_vault (Addr 9)) = 0 \<and>
      get_token_reconciliation fund_env (fund_vault\<lparr>v_merchant := v_merchant shop_vault\<rparr>) (Addr 9) =
      get_token_reconciliation fund_env fund_vault (Addr 9)"
    using reconciliation_ignores_merchants [of fund_vault "Addr 9" fund_env] by (simp add: fits_small)
  then show ?thesis by (simp add: shop_vault_def merchant_balance_def)
qed

end
