(* ===== verification/Entry_Points.thy ===== *)
theory Entry_Points
  imports Queries Transfers Direct_Charges Coupons Oracle Disputes Metadata
begin

text \<open>
  The entry points of the contract (\<^verbatim>\<open>src/lib.rs\<close>) that do more than call one operation: emergency stop,
  reentrancy locks (\<^verbatim>\<open>src/reentrancy.rs\<close>), the events they add, payee splits, and the export and restoration of
  snapshots. Those that only pass their arguments on are in \<open>Entry_Delegates\<close> and \<open>Entry_Views\<close>.
\<close>

section \<open>Emergency stop and locks\<close>

definition emergency_stopped :: "vault \<Rightarrow> bool" where
  "emergency_stopped v = (case config_value cf_emergency_stop (v_admin v) of Some b \<Rightarrow> b | None \<Rightarrow> False)"

definition get_emergency_stop :: "bool vm" where
  "get_emergency_stop = gets emergency_stopped"

definition require_not_emergency_stop :: "unit vm" where
  "require_not_emergency_stop = bnd get_emergency_stop (\<lambda>b. if b then fail E_EmergencyStopActive else ret ())"

definition lock :: "symbol \<Rightarrow> unit vm" where
  "lock entrypoint =
     bnd (gets (\<lambda>v. v_locks v entrypoint)) (\<lambda>held.
     if held then fail E_Reentrancy
     else modify (\<lambda>v. v\<lparr>v_locks := (v_locks v)(entrypoint := True)\<rparr>))"

definition release :: "symbol \<Rightarrow> vault \<Rightarrow> vault" where
  "release entrypoint v = v\<lparr>v_locks := (v_locks v)(entrypoint := False)\<rparr>"

text \<open>The guard is dropped when the entry point returns, with a value or an error; a panic does not unwind.\<close>

definition with_lock :: "symbol \<Rightarrow> 'a vm \<Rightarrow> 'a vm" where
  "with_lock entrypoint m =
     thn (lock entrypoint)
     (\<lambda>s. case m s of
        (Ok a, t) \<Rightarrow> (Ok a, release entrypoint t)
      | (Err e, t) \<Rightarrow> (Err e, release entrypoint t)
      | (Panic, t) \<Rightarrow> (Panic, t))"

definition unless_stopped :: "'a vm \<Rightarrow> 'a vm" where
  "unless_stopped m = thn require_not_emergency_stop m"

definition set_emergency_stop :: "env \<Rightarrow> address \<Rightarrow> bool \<Rightarrow> unit vm" where
  "set_emergency_stop E admin on =
     thn (require_admin_auth E admin)
     (bnd get_emergency_stop (\<lambda>b.
     if b = on then ret ()
     else
       bnd (require_multisig_approval E EmergencyStop admin None (if on then 1 else 0)) (\<lambda>proposal_id.
       thn (enforce_config_cooldown E ''EmergencyStop'')
       (thn (write_config cf_emergency_stop_update on)
       (thn (consume_multisig_proposal E proposal_id)
       (publish (AdminEv (Ev_emergency_stop admin on (e_timestamp E)))))))))"

definition enable_emergency_stop :: "env \<Rightarrow> address \<Rightarrow> unit vm" where
  "enable_emergency_stop E admin = set_emergency_stop E admin True"

definition disable_emergency_stop :: "env \<Rightarrow> address \<Rightarrow> unit vm" where
  "disable_emergency_stop E admin = set_emergency_stop E admin False"

section \<open>Charging\<close>

definition entry_operator_batch_charge :: "env \<Rightarrow> address \<Rightarrow> nat list \<Rightarrow> nat \<Rightarrow> (batch_charge_result list) vm" where
  "entry_operator_batch_charge E op ids nonce = unless_stopped (do_operator_batch_charge E op ids nonce)"

definition entry_operator_charge_subscription :: "env \<Rightarrow> address \<Rightarrow> nat \<Rightarrow> charge_execution_result vm" where
  "entry_operator_charge_subscription E op i =
     unless_stopped (with_lock ''operator_charge_subscription'' (do_operator_charge_subscription E op i))"

definition entry_operator_charge_usage :: "env \<Rightarrow> address \<Rightarrow> nat \<Rightarrow> int \<Rightarrow> usage_charge_result vm" where
  "entry_operator_charge_usage E op i usage_amount =
     unless_stopped (with_lock ''operator_charge_usage'' (do_operator_charge_usage E op i usage_amount))"

definition entry_operator_charge_usage_with_ref ::
  "env \<Rightarrow> address \<Rightarrow> nat \<Rightarrow> int \<Rightarrow> bytes \<Rightarrow> usage_charge_result vm" where
  "entry_operator_charge_usage_with_ref E op i usage_amount reference =
     unless_stopped (with_lock ''operator_charge_usage_with_ref''
       (do_operator_charge_usage_with_reference E op i usage_amount reference))"

definition entry_batch_charge :: "env \<Rightarrow> nat list \<Rightarrow> (bytes list) option \<Rightarrow> nat \<Rightarrow> (batch_charge_result list) vm" where
  "entry_batch_charge E ids keys nonce = with_lock ''batch_charge'' (unless_stopped (do_batch_charge E ids keys nonce))"

definition entry_batch_charge_detailed :: "env \<Rightarrow> nat list \<Rightarrow> (bytes list) option \<Rightarrow> nat \<Rightarrow> batch_charge_response vm" where
  "entry_batch_charge_detailed E ids keys nonce =
     with_lock ''batch_charge'' (unless_stopped (do_batch_charge_detailed E ids keys nonce))"

definition entry_charge_subscription :: "env \<Rightarrow> nat \<Rightarrow> bytes option \<Rightarrow> charge_execution_result vm" where
  "entry_charge_subscription E i idem_key =
     unless_stopped (with_lock ''charge_subscription'' (charge_one E i (e_timestamp E) idem_key None))"

definition entry_charge_usage :: "env \<Rightarrow> nat \<Rightarrow> int \<Rightarrow> usage_charge_result vm" where
  "entry_charge_usage E i usage_amount =
     unless_stopped (with_lock ''charge_usage'' (charge_usage_one E i usage_amount (label_bytes ''usage'')))"

definition entry_charge_usage_with_reference :: "env \<Rightarrow> nat \<Rightarrow> int \<Rightarrow> bytes \<Rightarrow> usage_charge_result vm" where
  "entry_charge_usage_with_reference E i usage_amount reference =
     unless_stopped (with_lock ''charge_usage_with_reference'' (charge_usage_one E i usage_amount reference))"

definition entry_charge_one_off :: "env \<Rightarrow> nat \<Rightarrow> address \<Rightarrow> int \<Rightarrow> bytes option \<Rightarrow> unit vm" where
  "entry_charge_one_off E i merchant amount idem_key =
     unless_stopped (with_lock ''charge_one_off'' (do_charge_one_off E i merchant amount idem_key))"

section \<open>Administration\<close>

definition entry_rotate_admin :: "env \<Rightarrow> address \<Rightarrow> address \<Rightarrow> nat \<Rightarrow> unit vm" where
  "entry_rotate_admin E current_admin new_admin nonce = unless_stopped (do_rotate_admin E current_admin new_admin nonce)"

definition entry_propose_admin :: "env \<Rightarrow> address \<Rightarrow> address \<Rightarrow> unit vm" where
  "entry_propose_admin E current_admin new_admin = unless_stopped (do_propose_admin E current_admin new_admin)"

definition entry_claim_admin_role :: "env \<Rightarrow> address \<Rightarrow> unit vm" where
  "entry_claim_admin_role E claimant = unless_stopped (do_claim_admin_role E claimant)"

definition entry_set_oracle_config ::
  "env \<Rightarrow> address \<Rightarrow> bool \<Rightarrow> address option \<Rightarrow> nat \<Rightarrow> oracle_kind \<Rightarrow> nat \<Rightarrow> nat \<Rightarrow> nat \<Rightarrow> unit vm" where
  "entry_set_oracle_config E admin enabled oracle_addr max_age kind window_secs fixed_numerator fixed_denominator =
     thn (require_admin_auth E admin)
     (bnd get_oracle_config (\<lambda>current.
     if oc_oracle current \<noteq> oracle_addr then fail E_GovernanceRequired
     else set_oracle_config_except_address E enabled oracle_addr max_age kind window_secs fixed_numerator fixed_denominator))"

definition entry_migrate :: "env \<Rightarrow> address \<Rightarrow> bool \<Rightarrow> schema_migration_summary vm" where
  "entry_migrate E admin dry_run = do_migrate E admin STORAGE_VERSION dry_run"

definition entry_add_accepted_token :: "env \<Rightarrow> address \<Rightarrow> address \<Rightarrow> nat \<Rightarrow> unit vm" where
  "entry_add_accepted_token E admin token decimals =
     thn (lift (reject_contract_self (e_self E) token)) (add_accepted_token E admin token decimals)"

definition entry_queue_treasury_change :: "env \<Rightarrow> address \<Rightarrow> address \<Rightarrow> nat \<Rightarrow> unit vm" where
  "entry_queue_treasury_change E admin treasury fee_bps =
     thn (lift (reject_contract_self (e_self E) treasury)) (queue_treasury_change E admin treasury fee_bps)"

definition entry_set_protocol_fee :: "env \<Rightarrow> address \<Rightarrow> address \<Rightarrow> nat \<Rightarrow> unit vm" where
  "entry_set_protocol_fee E admin treasury fee_bps =
     thn (lift (reject_contract_self (e_self E) treasury)) (set_protocol_fee E admin treasury fee_bps)"

definition entry_set_merchant_cap_default :: "env \<Rightarrow> address \<Rightarrow> int option \<Rightarrow> unit vm" where
  "entry_set_merchant_cap_default E merchant cap =
     thn (lift (reject_contract_self (e_self E) merchant)) (do_set_merchant_cap_default E merchant cap)"

definition set_idempotency_ttl :: "env \<Rightarrow> address \<Rightarrow> nat \<Rightarrow> unit vm" where
  "set_idempotency_ttl E admin ttl_secs =
     thn (require_admin_auth E admin)
     (thn (enforce_config_cooldown E ''IdempotencyTtl'')
     (zoom v_idem v_idem_update (set_ttl_secs ttl_secs)))"

definition set_billing_retention :: "env \<Rightarrow> address \<Rightarrow> nat \<Rightarrow> unit vm" where
  "set_billing_retention E admin keep_recent =
     thn (require_admin_auth E admin)
     (thn (enforce_config_cooldown E ''BillingRetention'')
     (zoom v_stmt v_stmt_update (set_retention_config keep_recent)))"

definition compact_billing_statements :: "env \<Rightarrow> address \<Rightarrow> nat \<Rightarrow> nat option \<Rightarrow> billing_compaction_summary vm" where
  "compact_billing_statements E admin i keep_recent_override =
     thn (require_admin_auth E admin)
     (bnd (zoom v_stmt v_stmt_update (compact_subscription_statements i keep_recent_override)) (\<lambda>summary.
     bnd (gets (\<lambda>v. get_compacted_aggregate (v_stmt v) i)) (\<lambda>aggregate.
     thn (publish (AdminEv (Ev_billing_compacted admin i (cs_pruned_count summary) (cs_kept_count summary)
            (cs_total_pruned_amount summary) (e_timestamp E) (ag_pruned_count aggregate) (ag_total_amount aggregate)
            (ag_oldest_period_start aggregate) (ag_newest_period_end aggregate))))
     (ret summary))))"

section \<open>Subscriptions\<close>

definition publish_created :: "env \<Rightarrow> nat \<Rightarrow> creation \<Rightarrow> address \<Rightarrow> unit vm" where
  "publish_created E i c token =
     publish (LifeEv (Ev_subscription_created i (cr_subscriber c) (cr_merchant c) token (cr_amount c) (cr_interval_seconds c)
       (cr_lifetime_cap c) (cr_expires_at c) (cr_expires_at_ledger c) (e_timestamp E)))"

definition entry_create_subscription :: "env \<Rightarrow> creation \<Rightarrow> nat vm" where
  "entry_create_subscription E c =
     unless_stopped
       (bnd (do_create_subscription E c) (\<lambda>i.
       bnd (read_config cf_token) (\<lambda>x.
       bnd (ok_or x E_NotFound) (\<lambda>token.
       thn (publish_created E i c token) (ret i)))))"

definition entry_create_subscription_with_token :: "env \<Rightarrow> creation \<Rightarrow> nat vm" where
  "entry_create_subscription_with_token E c =
     unless_stopped
       (bnd (do_create_subscription_with_token E (c\<lparr>cr_proration_enabled := False\<rparr>)) (\<lambda>i.
       thn (publish_created E i c (cr_token c)) (ret i)))"

text \<open>The loop over the payees: positive weights, no blocked payee, the sum of the weights.\<close>

primrec payee_weights :: "(address \<times> nat) list \<Rightarrow> nat \<Rightarrow> nat vm" where
  "payee_weights [] acc = ret acc"
| "payee_weights (entry # entries) acc =
     (case entry of (payee, weight) \<Rightarrow>
        if weight = 0 then fail E_InvalidInput
        else
          bnd (ok_or (checked_add_u32 acc weight) E_InvalidInput) (\<lambda>acc'.
          thn (require_not_blocklisted payee) (payee_weights entries acc')))"

definition check_payees :: "(address \<times> nat) list \<Rightarrow> unit vm" where
  "check_payees entries =
     (if entries = [] then fail E_InvalidInput
      else bnd (payee_weights entries 0) (\<lambda>acc. if acc \<noteq> 10000 then fail E_InvalidInput else ret ()))"

definition create_subscription_with_split :: "env \<Rightarrow> creation \<Rightarrow> (address \<times> nat) list \<Rightarrow> nat vm" where
  "create_subscription_with_split E c0 entries =
     (let c = c0\<lparr>cr_expires_at_ledger := None, cr_sub_account_label := None\<rparr> in
      unless_stopped
        (thn (check_payees entries)
        (bnd (do_create_subscription E c) (\<lambda>i.
        thn (write_split_payees i entries)
        (bnd (read_config cf_token) (\<lambda>x.
        bnd (ok_or x E_NotFound) (\<lambda>token.
        thn (publish_created E i c token) (ret i))))))))"

definition update_split_payees :: "env \<Rightarrow> address \<Rightarrow> nat \<Rightarrow> ((address \<times> nat) list) option \<Rightarrow> unit vm" where
  "update_split_payees E subscriber i entries =
     thn (require_auth E subscriber)
     (thn require_not_emergency_stop
     (bnd (get_subscription E i) (\<lambda>sub.
     if s_subscriber sub \<noteq> subscriber then fail E_Unauthorized
     else if s_status sub = Cancelled \<or> s_status sub = Expired then fail E_NotActive
     else
       thn (case entries of
              Some l \<Rightarrow> thn (check_payees l) (write_split_payees i l)
            | None \<Rightarrow> mod_subs (\<lambda>u. u\<lparr>su_split_payees := (su_split_payees u)(i := None)\<rparr>))
       (publish (PlanEv (Ev_split_payees_updated i (e_timestamp E)))))))"

definition entry_create_subscription_from_plan :: "env \<Rightarrow> address \<Rightarrow> nat \<Rightarrow> symbol option \<Rightarrow> nat vm" where
  "entry_create_subscription_from_plan E subscriber p label =
     unless_stopped (do_create_subscription_from_plan E subscriber p label)"

definition entry_register_plan :: "env \<Rightarrow> address \<Rightarrow> int \<Rightarrow> nat \<Rightarrow> nat \<Rightarrow> bool \<Rightarrow> int option \<Rightarrow> nat vm" where
  "entry_register_plan E merchant amount interval trial usage_enabled cap =
     unless_stopped (do_register_plan E merchant amount interval trial usage_enabled cap)"

definition entry_deposit_funds :: "env \<Rightarrow> nat \<Rightarrow> int \<Rightarrow> nat option \<Rightarrow> unit vm" where
  "entry_deposit_funds E i amount nonce = unless_stopped (with_lock ''deposit_funds'' (do_deposit_funds E i amount nonce))"

definition entry_grant_delegated_payer :: "env \<Rightarrow> address \<Rightarrow> address \<Rightarrow> nat \<Rightarrow> int \<Rightarrow> unit vm" where
  "entry_grant_delegated_payer E subscriber payer expires_at max_amount =
     unless_stopped (do_grant_delegated_payer E subscriber payer expires_at max_amount)"

definition entry_deposit_funds_on_behalf :: "env \<Rightarrow> nat \<Rightarrow> address \<Rightarrow> int \<Rightarrow> nat option \<Rightarrow> unit vm" where
  "entry_deposit_funds_on_behalf E i payer amount nonce =
     unless_stopped (with_lock ''deposit_funds_on_behalf'' (do_deposit_funds_on_behalf E i payer amount nonce))"

definition entry_grace_buyout :: "env \<Rightarrow> nat \<Rightarrow> address \<Rightarrow> int \<Rightarrow> bytes option \<Rightarrow> (int \<times> int) vm" where
  "entry_grace_buyout E i subscriber amount idem_key =
     unless_stopped (with_lock ''grace_buyout'' (do_grace_buyout E i subscriber amount idem_key))"

definition entry_bulk_deposit_funds :: "env \<Rightarrow> address \<Rightarrow> (nat \<times> int) list \<Rightarrow> nat \<Rightarrow> (bulk_deposit_result list) vm" where
  "entry_bulk_deposit_funds E caller entries nonce =
     unless_stopped (with_lock ''bulk_deposit_funds'' (do_bulk_deposit_funds E caller entries nonce))"

definition entry_bulk_cancel_subscriptions :: "env \<Rightarrow> address \<Rightarrow> nat list \<Rightarrow> nat \<Rightarrow> (bulk_subscription_result list) vm" where
  "entry_bulk_cancel_subscriptions E caller ids nonce =
     with_lock ''bulk_cancel_subscriptions'' (do_bulk_cancel_subscriptions E caller ids nonce)"

definition entry_cancel_subscription :: "env \<Rightarrow> nat \<Rightarrow> address \<Rightarrow> unit vm" where
  "entry_cancel_subscription E i authorizer =
     thn (do_cancel_subscription E i authorizer)
     (bnd (get_subscription E i) (\<lambda>sub.
     publish (LifeEv (Ev_cancelled i (s_subscriber sub) (s_merchant sub) (s_token sub) authorizer
       (s_prepaid_balance sub) (e_timestamp E)))))"

definition pause_role :: "subscription \<Rightarrow> address \<Rightarrow> pause_initiator_role" where
  "pause_role sub authorizer =
     (if authorizer = s_subscriber sub then BySubscriber
      else if authorizer = s_merchant sub then ByMerchant else ByAdmin)"

definition entry_pause_subscription :: "env \<Rightarrow> nat \<Rightarrow> address \<Rightarrow> unit vm" where
  "entry_pause_subscription E i authorizer =
     bnd (get_subscription E i) (\<lambda>sub_pre.
     thn (do_pause_subscription E i authorizer)
     (publish (LifeEv (Ev_sub_paused i authorizer (pause_role sub_pre authorizer) (e_timestamp E)))))"

definition entry_resume_subscription :: "env \<Rightarrow> nat \<Rightarrow> address \<Rightarrow> unit vm" where
  "entry_resume_subscription E i authorizer =
     bnd (get_subscription E i) (\<lambda>old_sub.
     thn (do_resume_subscription E i authorizer)
     (bnd (get_subscription E i) (\<lambda>sub.
     publish (LifeEv (Ev_sub_resumed i authorizer (s_status old_sub) (e_timestamp E))))))"

definition entry_finalize_emergency_withdraw :: "env \<Rightarrow> nat \<Rightarrow> address \<Rightarrow> unit vm" where
  "entry_finalize_emergency_withdraw E i subscriber =
     with_lock ''finalize_emergency_withdraw'' (do_finalize_emergency_withdraw E i subscriber)"

definition entry_withdraw_subscriber_funds :: "env \<Rightarrow> nat \<Rightarrow> address \<Rightarrow> unit vm" where
  "entry_withdraw_subscriber_funds E i subscriber =
     with_lock ''withdraw_subscriber_funds'' (do_withdraw_subscriber_funds E i subscriber)"

definition entry_partial_refund :: "env \<Rightarrow> address \<Rightarrow> nat \<Rightarrow> address \<Rightarrow> int \<Rightarrow> unit vm" where
  "entry_partial_refund E admin i subscriber amount =
     unless_stopped (with_lock ''partial_refund'' (do_partial_refund E admin i subscriber amount))"

definition entry_schedule_cancel :: "env \<Rightarrow> nat \<Rightarrow> address \<Rightarrow> nat \<Rightarrow> unit vm" where
  "entry_schedule_cancel E i authorizer cancel_at =
     with_lock ''schedule_cancel'' (do_schedule_cancel E i authorizer cancel_at)"

definition entry_unschedule_cancel :: "env \<Rightarrow> nat \<Rightarrow> address \<Rightarrow> unit vm" where
  "entry_unschedule_cancel E i authorizer = with_lock ''unschedule_cancel'' (do_unschedule_cancel E i authorizer)"

definition entry_initiate_transfer :: "env \<Rightarrow> nat \<Rightarrow> address \<Rightarrow> address \<Rightarrow> nat \<Rightarrow> unit vm" where
  "entry_initiate_transfer E i sender recipient expires_at =
     with_lock ''initiate_transfer'' (do_initiate_transfer E i sender recipient expires_at)"

definition entry_accept_transfer :: "env \<Rightarrow> nat \<Rightarrow> address \<Rightarrow> unit vm" where
  "entry_accept_transfer E i recipient = with_lock ''accept_transfer'' (do_accept_transfer E i recipient)"

definition entry_veto_transfer :: "env \<Rightarrow> nat \<Rightarrow> address \<Rightarrow> unit vm" where
  "entry_veto_transfer E i merchant = with_lock ''veto_transfer'' (do_veto_transfer E i merchant)"

section \<open>Merchants, coupons, disputes and metadata\<close>

definition entry_create_coupon :: "env \<Rightarrow> address \<Rightarrow> symbol \<Rightarrow> address \<Rightarrow> nat \<Rightarrow> int \<Rightarrow> nat \<Rightarrow> nat \<Rightarrow> unit vm" where
  "entry_create_coupon E merchant code token percent_off_bps fixed_off max_redemptions expires_at =
     unless_stopped (create_coupon E merchant code token percent_off_bps fixed_off max_redemptions expires_at)"

definition entry_revoke_coupon :: "env \<Rightarrow> address \<Rightarrow> symbol \<Rightarrow> unit vm" where
  "entry_revoke_coupon E merchant code = unless_stopped (revoke_coupon E merchant code)"

definition entry_apply_coupon :: "env \<Rightarrow> address \<Rightarrow> nat \<Rightarrow> symbol \<Rightarrow> unit vm" where
  "entry_apply_coupon E subscriber i code = unless_stopped (apply_coupon E subscriber i code)"

definition entry_withdraw_merchant_funds :: "env \<Rightarrow> address \<Rightarrow> int \<Rightarrow> unit vm" where
  "entry_withdraw_merchant_funds E merchant amount =
     unless_stopped (with_lock ''withdraw_merchant_funds''
       (thn (withdraw_merchant_funds E merchant amount)
       (bnd (get_merchant_balance merchant) (\<lambda>new_balance.
       bnd (read_config cf_token) (\<lambda>x.
       bnd (ok_or x E_NotFound) (\<lambda>token.
       publish (MerchantEv (Ev_withdrawn merchant token amount new_balance (e_timestamp E)))))))))"

definition entry_withdraw_merchant_token_funds :: "env \<Rightarrow> address \<Rightarrow> address \<Rightarrow> int \<Rightarrow> unit vm" where
  "entry_withdraw_merchant_token_funds E merchant token amount =
     unless_stopped (with_lock ''withdraw_merchant_token_funds'' (withdraw_merchant_funds_for_token E merchant token amount))"

definition entry_merchant_refund :: "env \<Rightarrow> address \<Rightarrow> address \<Rightarrow> address \<Rightarrow> int \<Rightarrow> unit vm" where
  "entry_merchant_refund E merchant subscriber token amount =
     with_lock ''merchant_refund'' (merchant_refund E merchant subscriber token amount)"

definition entry_flush_payouts :: "env \<Rightarrow> address \<Rightarrow> nat vm" where
  "entry_flush_payouts E merchant = unless_stopped (with_lock ''flush_payouts'' (do_flush_payouts E merchant (e_self E)))"

definition entry_withdraw_sub_account_funds :: "env \<Rightarrow> address \<Rightarrow> symbol \<Rightarrow> address \<Rightarrow> int \<Rightarrow> unit vm" where
  "entry_withdraw_sub_account_funds E merchant label token amount =
     with_lock ''withdraw_sub_account_funds'' (withdraw_sub_account_funds E merchant label token amount)"

definition entry_open_dispute :: "env \<Rightarrow> address \<Rightarrow> nat \<Rightarrow> int \<Rightarrow> bytes option \<Rightarrow> nat vm" where
  "entry_open_dispute E subscriber i amount evidence_hash =
     with_lock ''open_dispute'' (do_open_dispute E subscriber i amount evidence_hash)"

definition entry_respond_dispute :: "env \<Rightarrow> address \<Rightarrow> nat \<Rightarrow> bytes option \<Rightarrow> unit vm" where
  "entry_respond_dispute E admin dispute_id evidence_hash =
     with_lock ''respond_dispute'' (do_respond_dispute E admin dispute_id evidence_hash)"

definition entry_resolve_dispute :: "env \<Rightarrow> address \<Rightarrow> nat \<Rightarrow> bool \<Rightarrow> unit vm" where
  "entry_resolve_dispute E admin dispute_id resolve_to_subscriber =
     with_lock ''resolve_dispute'' (do_resolve_dispute E admin dispute_id resolve_to_subscriber)"

definition entry_claim_cancellation_escrow :: "env \<Rightarrow> address \<Rightarrow> nat \<Rightarrow> int vm" where
  "entry_claim_cancellation_escrow E subscriber i =
     with_lock ''claim_cancellation_escrow'' (do_claim_cancellation_escrow E subscriber i)"

definition entry_set_metadata :: "env \<Rightarrow> nat \<Rightarrow> address \<Rightarrow> bytes \<Rightarrow> bytes \<Rightarrow> unit vm" where
  "entry_set_metadata E i authorizer key val =
     thn (lift (reject_empty_string key)) (thn (lift (reject_empty_string val)) (set_metadata E i authorizer key val))"

definition entry_set_metadata_signed :: "env \<Rightarrow> signing \<Rightarrow> bytes \<Rightarrow> signed_metadata_payload \<Rightarrow> bytes \<Rightarrow> unit vm" where
  "entry_set_metadata_signed E S signer_pubkey payload signature =
     thn (lift (reject_empty_string (sm_key payload)))
     (thn (lift (reject_empty_string (sm_value payload)))
     (do_set_metadata_signed E S signer_pubkey payload signature))"

definition entry_delete_metadata :: "env \<Rightarrow> nat \<Rightarrow> address \<Rightarrow> bytes \<Rightarrow> unit vm" where
  "entry_delete_metadata E i authorizer key =
     thn (lift (reject_empty_string key)) (delete_metadata E i authorizer key)"

section \<open>Snapshots\<close>

definition MAX_EXPORT_LIMIT :: "nat" where "MAX_EXPORT_LIMIT = 100"

record contract_snapshot =
  xs_admin :: address
  xs_token :: address
  xs_min_topup :: int
  xs_next_id :: nat
  xs_storage_version :: nat
  xs_timestamp :: nat

record subscription_summary =
  xu_subscription_id :: nat
  xu_subscriber :: address
  xu_merchant :: address
  xu_token :: address
  xu_amount :: int
  xu_interval_seconds :: nat
  xu_last_payment_timestamp :: nat
  xu_status :: subscription_status
  xu_prepaid_balance :: int
  xu_usage_enabled :: bool
  xu_lifetime_cap :: "int option"
  xu_lifetime_charged :: int
  xu_start_time :: nat
  xu_expires_at :: "nat option"
  xu_expires_at_ledger :: "nat option"

definition summary_of :: "nat \<Rightarrow> subscription \<Rightarrow> subscription_summary" where
  "summary_of i sub =
     \<lparr>xu_subscription_id = i, xu_subscriber = s_subscriber sub, xu_merchant = s_merchant sub, xu_token = s_token sub,
       xu_amount = s_amount sub, xu_interval_seconds = s_interval_seconds sub,
       xu_last_payment_timestamp = s_last_payment_timestamp sub, xu_status = s_status sub,
       xu_prepaid_balance = s_prepaid_balance sub, xu_usage_enabled = s_usage_enabled sub,
       xu_lifetime_cap = s_lifetime_cap sub, xu_lifetime_charged = s_lifetime_charged sub,
       xu_start_time = s_start_time sub, xu_expires_at = s_expires_at sub, xu_expires_at_ledger = s_expires_at_ledger sub\<rparr>"

definition export_contract_snapshot :: "env \<Rightarrow> address \<Rightarrow> contract_snapshot vm" where
  "export_contract_snapshot E admin =
     thn (require_admin_auth E admin)
     (bnd (read_config cf_token) (\<lambda>x.
     bnd (ok_or x E_NotFound) (\<lambda>token.
     bnd get_min_topup (\<lambda>min_topup.
     bnd (gets next_id_of) (\<lambda>next_id.
     thn (publish (AdminEv (Ev_contract_snapshot admin (e_timestamp E))))
     (ret \<lparr>xs_admin = admin, xs_token = token, xs_min_topup = min_topup, xs_next_id = next_id,
        xs_storage_version = STORAGE_VERSION, xs_timestamp = e_timestamp E\<rparr>))))))"

definition export_subscription_summary :: "env \<Rightarrow> address \<Rightarrow> nat \<Rightarrow> subscription_summary vm" where
  "export_subscription_summary E admin i =
     thn (require_admin_auth E admin)
     (bnd (get_subscription E i) (\<lambda>sub.
     thn (publish (AdminEv (Ev_migration_export admin i 1 1 (e_timestamp E))))
     (ret (summary_of i sub))))"

definition summaries :: "vault \<Rightarrow> nat list \<Rightarrow> subscription_summary list" where
  "summaries v ids = List.map_filter (\<lambda>i. map_option (summary_of i) (su_sub (v_subs v) i)) ids"

definition export_subscription_summaries :: "env \<Rightarrow> address \<Rightarrow> nat \<Rightarrow> nat \<Rightarrow> (subscription_summary list) vm" where
  "export_subscription_summaries E admin start_id limit =
     thn (require_admin_auth E admin)
     (if limit > MAX_EXPORT_LIMIT then fail E_InvalidExportLimit
      else if limit = 0 then ret []
      else
        bnd (gets next_id_of) (\<lambda>next_id.
        if start_id \<ge> next_id then ret []
        else
          bnd (gets (\<lambda>v. summaries v [start_id..<min (sat_add_u32 start_id limit) next_id])) (\<lambda>out.
          thn (publish (AdminEv (Ev_migration_export admin start_id limit (length out) (e_timestamp E))))
          (ret out))))"

record merchant_balance_entry =
  be_merchant :: address
  be_token :: address
  be_amount :: int

record full_snapshot_page =
  fp_subscriptions :: "subscription_summary list"
  fp_balances :: "merchant_balance_entry list"
  fp_next_start_id :: "nat option"

definition balance_entries :: "vault \<Rightarrow> nat list \<Rightarrow> merchant_balance_entry list" where
  "balance_entries v ids =
     List.map_filter (\<lambda>i. map_option (\<lambda>sub. \<lparr>be_merchant = s_merchant sub, be_token = s_token sub,
       be_amount = merchant_balance v (s_merchant sub) (s_token sub)\<rparr>) (su_sub (v_subs v) i)) ids"

text \<open>The id counter is read from the instance tier, as the code does.\<close>

definition instance_next_id :: "vault \<Rightarrow> nat" where
  "instance_next_id v = (case cf_next_id (ad_instance (v_admin v)) of Some n \<Rightarrow> n | None \<Rightarrow> 0)"

definition get_subscription_count :: "vault \<Rightarrow> nat" where
  "get_subscription_count v = instance_next_id v"

definition export_full_snapshot_page :: "env \<Rightarrow> address \<Rightarrow> nat \<Rightarrow> nat \<Rightarrow> full_snapshot_page vm" where
  "export_full_snapshot_page E admin start_id size0 =
     thn (require_admin_auth E admin)
     (if size0 = 0 then ret \<lparr>fp_subscriptions = [], fp_balances = [], fp_next_start_id = None\<rparr>
      else
        let size = min size0 MAX_EXPORT_LIMIT in
        bnd (gets instance_next_id) (\<lambda>next_id.
        if start_id \<ge> next_id then ret \<lparr>fp_subscriptions = [], fp_balances = [], fp_next_start_id = None\<rparr>
        else
          let end_id = min (sat_add_u32 start_id size) next_id in
          bnd (gets (\<lambda>v. (summaries v [start_id..<end_id], balance_entries v [start_id..<end_id]))) (\<lambda>(subs, balances).
          thn (publish (AdminEv (Ev_snapshot_exported admin start_id (length subs) (e_timestamp E))))
          (ret \<lparr>fp_subscriptions = subs, fp_balances = balances,
             fp_next_start_id = (if end_id < next_id then Some end_id else None)\<rparr>))))"

definition restored_sub :: "subscription_summary \<Rightarrow> subscription" where
  "restored_sub x =
     \<lparr>s_subscriber = xu_subscriber x, s_merchant = xu_merchant x, s_token = xu_token x, s_amount = xu_amount x,
       s_interval_seconds = xu_interval_seconds x, s_last_payment_timestamp = xu_last_payment_timestamp x,
       s_status = xu_status x, s_prepaid_balance = xu_prepaid_balance x, s_usage_enabled = xu_usage_enabled x,
       s_lifetime_cap = xu_lifetime_cap x, s_lifetime_charged = xu_lifetime_charged x, s_start_time = xu_start_time x,
       s_expires_at = xu_expires_at x, s_grace_start_timestamp = None, s_cancel_at = None, s_auto_renew = True,
       s_auto_renew_disabled_at = None, s_expires_at_ledger = xu_expires_at_ledger x, s_sub_account_label = None,
       s_proration_enabled = False, s_auto_pause_threshold = 0\<rparr>"

definition restore_one :: "subscription_summary \<Rightarrow> unit vm" where
  "restore_one x = write_subscription (xu_subscription_id x) (restored_sub x)"

definition restore_balance :: "merchant_balance_entry \<Rightarrow> unit vm" where
  "restore_balance b = set_merchant_balance (be_merchant b) (be_token b) (be_amount b)"

definition restore_snapshot_page ::
  "env \<Rightarrow> address \<Rightarrow> nat \<Rightarrow> subscription_summary list \<Rightarrow> merchant_balance_entry list \<Rightarrow> unit vm" where
  "restore_snapshot_page E admin start_id subs balances =
     thn (require_admin_auth E admin)
     (bnd get_emergency_stop (\<lambda>stopped.
     if \<not> stopped then fail E_RecoveryNotAllowed
     else
       bnd (gets instance_next_id) (\<lambda>next0.
       let max_next = fold (\<lambda>x n. max n (sat_add_u32 (xu_subscription_id x) 1)) subs next0 in
       thn (each restore_one subs)
       (thn (each restore_balance balances)
       (thn (if max_next > next0 then
               mod_admin (\<lambda>a. a\<lparr>ad_instance := (ad_instance a)\<lparr>cf_next_id := Some max_next\<rparr>\<rparr>)
             else ret ())
       (publish (AdminEv (Ev_snapshot_restored admin start_id (min u32_max (length subs)) (e_timestamp E)))))))))"

end
