(* ===== verification/Entry_Delegates.thy ===== *)
theory Entry_Delegates
  imports Entry_Points
begin

text \<open>
  The writing entry points of \<^verbatim>\<open>src/lib.rs\<close> that only pass their arguments on, one definition each: none of them is behind the
  emergency stop or takes a lock.
\<close>

section \<open>The administration of the vault\<close>

definition entry_init ::
  "env \<Rightarrow> address \<Rightarrow> nat \<Rightarrow> address \<Rightarrow> int \<Rightarrow> nat \<Rightarrow>
     unit vm" where
  "entry_init E token token_decimals admin min_topup grace_period =
     do_init E token token_decimals admin min_topup grace_period"

definition entry_set_min_topup :: "env \<Rightarrow> address \<Rightarrow> int \<Rightarrow> unit vm" where
  "entry_set_min_topup E admin min_topup = do_set_min_topup E admin min_topup"

definition entry_set_grace_period :: "env \<Rightarrow> address \<Rightarrow> nat \<Rightarrow> unit vm" where
  "entry_set_grace_period E admin grace_period = do_set_grace_period E admin grace_period"

definition entry_set_operator :: "env \<Rightarrow> address \<Rightarrow> address \<Rightarrow> unit vm" where
  "entry_set_operator E admin op = do_set_operator E admin op"

definition entry_remove_operator :: "env \<Rightarrow> address \<Rightarrow> unit vm" where
  "entry_remove_operator E admin = do_remove_operator E admin"

definition entry_cancel_admin_proposal :: "env \<Rightarrow> address \<Rightarrow> unit vm" where
  "entry_cancel_admin_proposal E admin = do_cancel_admin_proposal E admin"

definition entry_rotate_merchant_address ::
  "env \<Rightarrow> address \<Rightarrow> address \<Rightarrow> address \<Rightarrow> nat \<Rightarrow> unit vm" where
  "entry_rotate_merchant_address E admin old_merchant new_merchant nonce =
     do_rotate_merchant_address E admin old_merchant new_merchant nonce"

definition entry_recover_stranded_funds ::
  "env \<Rightarrow> address \<Rightarrow> address \<Rightarrow> address \<Rightarrow> int \<Rightarrow> bytes
     \<Rightarrow> unit vm" where
  "entry_recover_stranded_funds E admin token recipient amount recovery_id =
     do_recover_stranded_funds E admin token recipient amount recovery_id"

definition entry_migrate_config_to_persistent :: "env \<Rightarrow> address \<Rightarrow> unit vm" where
  "entry_migrate_config_to_persistent E admin = migrate_config_to_persistent E admin"

definition entry_set_dispute_window_secs :: "env \<Rightarrow> address \<Rightarrow> nat \<Rightarrow> unit vm" where
  "entry_set_dispute_window_secs E admin window_secs = do_set_dispute_window_secs E admin window_secs"

definition entry_remove_accepted_token :: "env \<Rightarrow> address \<Rightarrow> address \<Rightarrow> unit vm" where
  "entry_remove_accepted_token E admin token = remove_accepted_token E admin token"

definition entry_execute_treasury_change :: "env \<Rightarrow> address \<Rightarrow> unit vm" where
  "entry_execute_treasury_change E admin = execute_treasury_change E admin"

definition entry_cancel_treasury_change :: "env \<Rightarrow> address \<Rightarrow> unit vm" where
  "entry_cancel_treasury_change E admin = cancel_treasury_change E admin"

definition entry_emit_oracle_liveness :: "env \<Rightarrow> oracle_liveness vm" where
  "entry_emit_oracle_liveness E = emit_oracle_liveness E"

section \<open>Limits, the blocklist and snapshots\<close>

definition entry_set_subscriber_credit_limit ::
  "env \<Rightarrow> address \<Rightarrow> address \<Rightarrow> address \<Rightarrow> int \<Rightarrow> unit vm" where
  "entry_set_subscriber_credit_limit E admin subscriber token limit =
     do_set_subscriber_credit_limit E admin subscriber token limit"

definition entry_set_subscriber_active_cap ::
  "env \<Rightarrow> address \<Rightarrow> address \<Rightarrow> nat option \<Rightarrow> unit vm" where
  "entry_set_subscriber_active_cap E admin subscriber cap = do_set_subscriber_active_cap E admin subscriber cap"

definition entry_set_subscriber_create_cap :: "env \<Rightarrow> address \<Rightarrow> nat \<Rightarrow> unit vm" where
  "entry_set_subscriber_create_cap E admin cap = do_set_subscriber_create_cap E admin cap"

definition entry_set_merchant_max_subs ::
  "env \<Rightarrow> address \<Rightarrow> address \<Rightarrow> nat \<Rightarrow> unit vm" where
  "entry_set_merchant_max_subs E admin merchant max_subs = do_set_merchant_max_subs E admin merchant max_subs"

definition entry_set_global_cap_default :: "env \<Rightarrow> address \<Rightarrow> int option \<Rightarrow> unit vm" where
  "entry_set_global_cap_default E admin cap = do_set_global_cap_default E admin cap"

definition entry_update_subscription_cap ::
  "env \<Rightarrow> address \<Rightarrow> nat \<Rightarrow> int option \<Rightarrow> unit vm" where
  "entry_update_subscription_cap E admin i new_cap = do_update_subscription_cap E admin i new_cap"

definition entry_add_to_blocklist ::
  "env \<Rightarrow> address \<Rightarrow> address \<Rightarrow> bytes option \<Rightarrow> unit vm" where
  "entry_add_to_blocklist E authorizer subscriber reason = do_add_to_blocklist E authorizer subscriber reason"

definition entry_remove_from_blocklist :: "env \<Rightarrow> address \<Rightarrow> address \<Rightarrow> unit vm" where
  "entry_remove_from_blocklist E admin subscriber = do_remove_from_blocklist E admin subscriber"

section \<open>Governance\<close>

definition entry_submit_proposal ::
  "env \<Rightarrow> proposal_kind \<Rightarrow> address \<Rightarrow> address option \<Rightarrow> nat \<Rightarrow> nat
     \<Rightarrow> nat \<Rightarrow> nat vm" where
  "entry_submit_proposal E kind target target2 target3 quorum_bps eta =
     do_submit_proposal E kind target target2 target3 quorum_bps eta"

definition entry_vote_proposal :: "env \<Rightarrow> nat \<Rightarrow> bool \<Rightarrow> nat \<Rightarrow> unit vm" where
  "entry_vote_proposal E n voted_yes nonce = do_vote_proposal E n voted_yes nonce"

definition entry_execute_proposal :: "env \<Rightarrow> nat \<Rightarrow> unit vm" where
  "entry_execute_proposal E n = do_execute_proposal E n"

definition entry_cancel_proposal :: "env \<Rightarrow> nat \<Rightarrow> unit vm" where
  "entry_cancel_proposal E n = do_cancel_proposal E n"

section \<open>What subscribers and merchants do to a subscription\<close>

definition entry_bulk_pause_subscriptions ::
  "env \<Rightarrow> address \<Rightarrow> nat list \<Rightarrow> nat \<Rightarrow> bulk_subscription_result list vm" where
  "entry_bulk_pause_subscriptions E caller ids nonce = do_bulk_pause_subscriptions E caller ids nonce"

definition entry_set_auto_renew ::
  "env \<Rightarrow> nat \<Rightarrow> address \<Rightarrow> bool \<Rightarrow> unit vm" where
  "entry_set_auto_renew E i authorizer enabled = do_set_auto_renew E i authorizer enabled"

definition entry_set_subscription_expiry_ledger ::
  "env \<Rightarrow> nat \<Rightarrow> address \<Rightarrow> nat option \<Rightarrow> unit vm" where
  "entry_set_subscription_expiry_ledger E i authorizer expires_at_ledger =
     do_set_subscription_expiration_ledger E i authorizer expires_at_ledger"

definition entry_request_emergency_withdraw :: "env \<Rightarrow> nat \<Rightarrow> address \<Rightarrow> unit vm" where
  "entry_request_emergency_withdraw E i subscriber = do_request_emergency_withdraw E i subscriber"

definition entry_cleanup_subscription :: "env \<Rightarrow> nat \<Rightarrow> address \<Rightarrow> unit vm" where
  "entry_cleanup_subscription E i authorizer = do_cleanup_subscription E i authorizer"

definition entry_configure_usage_limits ::
  "env \<Rightarrow> address \<Rightarrow> nat \<Rightarrow> nat option \<Rightarrow> nat \<Rightarrow> nat \<Rightarrow>
     int option \<Rightarrow> unit vm" where
  "entry_configure_usage_limits E merchant i max_calls window_secs burst_secs cap_units =
     do_configure_usage_limits E merchant i max_calls window_secs burst_secs cap_units"

definition entry_migrate_subscription_to_plan ::
  "env \<Rightarrow> address \<Rightarrow> nat \<Rightarrow> nat \<Rightarrow> unit vm" where
  "entry_migrate_subscription_to_plan E subscriber i new_p = do_migrate_subscription_to_plan E subscriber i new_p"

definition entry_revoke_delegated_payer :: "env \<Rightarrow> address \<Rightarrow> address \<Rightarrow> unit vm" where
  "entry_revoke_delegated_payer E subscriber payer = do_revoke_delegated_payer E subscriber payer"

section \<open>Plans\<close>

definition entry_create_plan_template ::
  "env \<Rightarrow> address \<Rightarrow> int \<Rightarrow> nat \<Rightarrow> bool \<Rightarrow> int option
     \<Rightarrow> nat vm" where
  "entry_create_plan_template E merchant amount interval_seconds usage_enabled lifetime_cap =
     do_create_plan_template E merchant amount interval_seconds usage_enabled lifetime_cap"

definition entry_create_plan_template_with_token ::
  "env \<Rightarrow> address \<Rightarrow> address \<Rightarrow> int \<Rightarrow> nat \<Rightarrow> bool \<Rightarrow>
     int option \<Rightarrow> nat vm" where
  "entry_create_plan_template_with_token E merchant token amount interval_seconds usage_enabled lifetime_cap =
     do_create_plan_template_with_token E merchant token amount interval_seconds usage_enabled lifetime_cap"

definition entry_update_plan_template ::
  "env \<Rightarrow> address \<Rightarrow> nat \<Rightarrow> int \<Rightarrow> nat \<Rightarrow> bool \<Rightarrow> int
     option \<Rightarrow> nat vm" where
  "entry_update_plan_template E merchant p amount interval_seconds usage_enabled lifetime_cap =
     do_update_plan_template E merchant p amount interval_seconds usage_enabled lifetime_cap"

definition entry_set_plan_max_active_subs ::
  "env \<Rightarrow> address \<Rightarrow> nat \<Rightarrow> nat \<Rightarrow> unit vm" where
  "entry_set_plan_max_active_subs E merchant p max_active = do_set_plan_max_active_subs E merchant p max_active"

definition entry_deprecate_plan :: "env \<Rightarrow> address \<Rightarrow> nat \<Rightarrow> unit vm" where
  "entry_deprecate_plan E merchant plan_id = do_deprecate_plan E merchant plan_id"

section \<open>Merchants\<close>

definition entry_pause_merchant :: "env \<Rightarrow> address \<Rightarrow> unit vm" where
  "entry_pause_merchant E merchant = pause_merchant E merchant"

definition entry_unpause_merchant :: "env \<Rightarrow> address \<Rightarrow> unit vm" where
  "entry_unpause_merchant E merchant = unpause_merchant E merchant"

definition entry_set_tag_allowlist :: "env \<Rightarrow> address \<Rightarrow> symbol list \<Rightarrow> unit vm" where
  "entry_set_tag_allowlist E admin tags = set_tag_allowlist E admin tags"

definition entry_set_merchant_tags ::
  "env \<Rightarrow> address \<Rightarrow> address \<Rightarrow> symbol list \<Rightarrow> unit vm" where
  "entry_set_merchant_tags E admin merchant tags = set_merchant_tags E admin merchant tags"

definition entry_set_merchant_vacation ::
  "env \<Rightarrow> address \<Rightarrow> nat \<Rightarrow> nat \<Rightarrow> unit vm" where
  "entry_set_merchant_vacation E merchant start_ts end_ts = set_merchant_vacation E merchant start_ts end_ts"

definition entry_clear_merchant_vacation :: "env \<Rightarrow> address \<Rightarrow> unit vm" where
  "entry_clear_merchant_vacation E merchant = clear_merchant_vacation E merchant"

definition entry_set_payout_schedule ::
  "env \<Rightarrow> address \<Rightarrow> nat \<Rightarrow> int \<Rightarrow> payout_schedule vm" where
  "entry_set_payout_schedule E merchant cadence_seconds min_payout =
     do_set_payout_schedule E merchant cadence_seconds min_payout"

definition entry_register_sub_account :: "env \<Rightarrow> address \<Rightarrow> symbol \<Rightarrow> unit vm" where
  "entry_register_sub_account E merchant label = register_sub_account E merchant label"

definition entry_initialize_merchant_config ::
  "env \<Rightarrow> address \<Rightarrow> address \<Rightarrow> int \<Rightarrow> int \<Rightarrow> address option
     \<Rightarrow> string \<Rightarrow> merchant_config vm" where
  "entry_initialize_merchant_config E merchant payout_address fee_bips allowed_operations fee_address redirect_url =
     initialize_merchant_config E merchant payout_address fee_bips allowed_operations fee_address redirect_url"

definition entry_set_merchant_config :: "env \<Rightarrow> address \<Rightarrow> merchant_config \<Rightarrow> unit vm" where
  "entry_set_merchant_config E merchant config = set_merchant_config E merchant config"

definition entry_update_merchant_config ::
  "env \<Rightarrow> address \<Rightarrow> address option \<Rightarrow> int option \<Rightarrow> int option \<Rightarrow>
     bool option \<Rightarrow> (address option) option \<Rightarrow> string option \<Rightarrow> bool option
     \<Rightarrow> merchant_config vm" where
  "entry_update_merchant_config E merchant new_payout_address new_fee_bips new_allowed_operations new_is_active
     new_fee_address new_redirect_url new_is_paused =
     update_merchant_config E merchant new_payout_address new_fee_bips new_allowed_operations new_is_active
     new_fee_address new_redirect_url new_is_paused"

section \<open>Disputes and metadata\<close>

definition entry_lodge_escrow_dispute :: "env \<Rightarrow> address \<Rightarrow> nat \<Rightarrow> nat vm" where
  "entry_lodge_escrow_dispute E merchant i = do_lodge_escrow_dispute E merchant i"

lemmas delegate_defs =
  entry_init_def entry_set_min_topup_def entry_set_grace_period_def entry_set_operator_def entry_remove_operator_def
  entry_cancel_admin_proposal_def entry_rotate_merchant_address_def entry_recover_stranded_funds_def
  entry_migrate_config_to_persistent_def entry_set_dispute_window_secs_def entry_remove_accepted_token_def
  entry_execute_treasury_change_def entry_cancel_treasury_change_def entry_emit_oracle_liveness_def
  entry_set_subscriber_credit_limit_def entry_set_subscriber_active_cap_def entry_set_subscriber_create_cap_def
  entry_set_merchant_max_subs_def entry_set_global_cap_default_def entry_update_subscription_cap_def
  entry_add_to_blocklist_def entry_remove_from_blocklist_def entry_submit_proposal_def entry_vote_proposal_def
  entry_execute_proposal_def entry_cancel_proposal_def entry_bulk_pause_subscriptions_def entry_set_auto_renew_def
  entry_set_subscription_expiry_ledger_def entry_request_emergency_withdraw_def entry_cleanup_subscription_def
  entry_configure_usage_limits_def entry_migrate_subscription_to_plan_def entry_revoke_delegated_payer_def
  entry_create_plan_template_def entry_create_plan_template_with_token_def entry_update_plan_template_def
  entry_set_plan_max_active_subs_def entry_deprecate_plan_def entry_pause_merchant_def entry_unpause_merchant_def
  entry_set_tag_allowlist_def entry_set_merchant_tags_def entry_set_merchant_vacation_def entry_clear_merchant_vacation_def
  entry_set_payout_schedule_def entry_register_sub_account_def entry_initialize_merchant_config_def
  entry_set_merchant_config_def entry_update_merchant_config_def entry_lodge_escrow_dispute_def

end
