(* ===== verification/Entry_Views.thy ===== *)
theory Entry_Views
  imports Entry_Points
begin

text \<open>
  The reading entry points of \<^verbatim>\<open>src/lib.rs\<close>, one definition each: a component's read in the whole state. None of them writes,
  publishes an event, checks an authorisation or looks at the emergency stop.
\<close>

section \<open>The views\<close>

definition view_get_min_topup :: "int vm" where
  "view_get_min_topup = get_min_topup"

definition view_get_grace_period :: "nat vm" where
  "view_get_grace_period = get_grace_period"

definition view_get_admin :: "address vm" where
  "view_get_admin = do_get_admin"

definition view_get_operator :: "(address option) vm" where
  "view_get_operator = get_operator"

definition view_get_admin_proposal :: "(admin_proposal option) vm" where
  "view_get_admin_proposal = get_admin_proposal"

definition view_get_split_payees :: "nat \<Rightarrow> (((address \<times> nat) list) option) vm" where
  "view_get_split_payees i = get_split_payees i"

definition view_get_plan_template :: "nat \<Rightarrow> plan_template vm" where
  "view_get_plan_template p = get_plan_template p"

definition view_get_plan_max_active_subs :: "nat \<Rightarrow> nat vm" where
  "view_get_plan_max_active_subs p = gets (\<lambda>v. get_plan_max_active_subs v p)"

definition view_get_subscriber_credit_limit :: "address \<Rightarrow> address \<Rightarrow> int vm" where
  "view_get_subscriber_credit_limit subscriber token = get_subscriber_credit_limit subscriber token"

definition view_get_subscriber_active_cap :: "address \<Rightarrow> nat vm" where
  "view_get_subscriber_active_cap subscriber = get_subscriber_active_cap subscriber"

definition view_get_subscriber_active_count :: "address \<Rightarrow> nat vm" where
  "view_get_subscriber_active_count subscriber = get_subscriber_active_count subscriber"

definition view_get_subscriber_create_cap :: "nat vm" where
  "view_get_subscriber_create_cap = get_subscriber_create_cap"

definition view_get_merchant_max_subs :: "address \<Rightarrow> nat vm" where
  "view_get_merchant_max_subs merchant = get_merchant_max_subs merchant"

definition view_get_merchant_balance :: "address \<Rightarrow> int vm" where
  "view_get_merchant_balance merchant = get_merchant_balance merchant"

definition view_get_merchant_balance_by_token :: "address \<Rightarrow> address \<Rightarrow> int vm" where
  "view_get_merchant_balance_by_token merchant token = get_merchant_balance_by_token merchant token"

definition view_get_merchant_token_earnings :: "address \<Rightarrow> address \<Rightarrow> token_earnings vm" where
  "view_get_merchant_token_earnings merchant token = get_merchant_token_earnings merchant token"

definition view_get_merchant_token_earnings_with_sub_accounts ::
  "address \<Rightarrow> address \<Rightarrow> merchant_token_earnings_with_sub_accounts vm" where
  "view_get_merchant_token_earnings_with_sub_accounts merchant token =
     gets (\<lambda>v. get_merchant_token_earnings_with_sub_accounts v merchant token)"

definition view_get_merchant_total_earnings_with_sub_accounts ::
  "address \<Rightarrow> (merchant_token_earnings_with_sub_accounts list) vm" where
  "view_get_merchant_total_earnings_with_sub_accounts merchant =
     gets (\<lambda>v. get_merchant_total_earnings_with_sub_accounts v merchant)"

definition view_get_merchant_balance_aggregated :: "address \<Rightarrow> address \<Rightarrow> int vm" where
  "view_get_merchant_balance_aggregated merchant token =
     gets (\<lambda>v. get_merchant_balance_aggregated v merchant token)"

definition view_get_merchant_paused :: "address \<Rightarrow> bool vm" where
  "view_get_merchant_paused merchant = get_merchant_paused merchant"

definition view_get_tag_allowlist :: "(symbol list) vm" where
  "view_get_tag_allowlist = get_tag_allowlist"

definition view_get_merchant_tags :: "address \<Rightarrow> (symbol list) vm" where
  "view_get_merchant_tags merchant = get_merchant_tags merchant"

definition view_get_merchant_vacation :: "address \<Rightarrow> (merchant_vacation option) vm" where
  "view_get_merchant_vacation merchant = get_merchant_vacation merchant"

definition view_is_merchant_in_vacation :: "address \<Rightarrow> nat \<Rightarrow> bool vm" where
  "view_is_merchant_in_vacation merchant now = is_merchant_in_vacation merchant now"

definition view_get_reconciliation_snapshot :: "address \<Rightarrow> (token_reconciliation_snapshot list) vm" where
  "view_get_reconciliation_snapshot merchant = gets (\<lambda>v. get_reconciliation_snapshot v merchant)"

definition view_get_merchant_total_earnings :: "address \<Rightarrow> ((address \<times> token_earnings) list) vm" where
  "view_get_merchant_total_earnings merchant = gets (\<lambda>v. get_merchant_total_earnings v merchant)"

definition view_get_payout_schedule :: "address \<Rightarrow> payout_schedule vm" where
  "view_get_payout_schedule merchant = get_payout_schedule merchant"

definition view_get_sub_account_list :: "address \<Rightarrow> (symbol list) vm" where
  "view_get_sub_account_list merchant = gets (\<lambda>v. get_sub_account_list v merchant)"

definition view_get_dispute_window_secs :: "nat vm" where
  "view_get_dispute_window_secs = get_dispute_window_secs"

definition view_get_dispute :: "nat \<Rightarrow> dispute vm" where
  "view_get_dispute dispute_id = do_get_dispute dispute_id"

definition view_get_subscription_dispute :: "nat \<Rightarrow> (nat option) vm" where
  "view_get_subscription_dispute i = do_get_subscription_dispute i"

definition view_get_cancellation_escrow :: "nat \<Rightarrow> cancellation_escrow vm" where
  "view_get_cancellation_escrow i = do_get_cancellation_escrow i"

definition view_get_subscription :: "env \<Rightarrow> nat \<Rightarrow> subscription vm" where
  "view_get_subscription E i = get_subscription E i"

definition view_estimate_topup_for_intervals :: "env \<Rightarrow> nat \<Rightarrow> nat \<Rightarrow> int vm" where
  "view_estimate_topup_for_intervals E i num_intervals = estimate_topup_for_intervals E i num_intervals"

definition view_get_next_charge_info :: "env \<Rightarrow> nat \<Rightarrow> next_charge_info vm" where
  "view_get_next_charge_info E i = get_next_charge_info E i"

definition view_get_token_subscription_count :: "address \<Rightarrow> nat vm" where
  "view_get_token_subscription_count token = gets (\<lambda>v. get_token_subscription_count v token)"

definition view_get_merchant_subscription_count :: "address \<Rightarrow> nat vm" where
  "view_get_merchant_subscription_count merchant = get_merchant_subscription_count merchant"

definition view_list_subscriptions_by_subscriber ::
  "address \<Rightarrow> nat \<Rightarrow> nat \<Rightarrow> (nat list \<times> nat option) vm" where
  "view_list_subscriptions_by_subscriber subscriber start_from_id limit =
     bnd (gets (\<lambda>v. list_subscriptions_by_subscriber v subscriber start_from_id limit)) lift"

definition view_list_recoverable_subscriptions ::
  "nat option \<Rightarrow> nat \<Rightarrow> (recoverable_subscription list \<times> nat option) vm" where
  "view_list_recoverable_subscriptions cursor limit =
     bnd (gets (\<lambda>v. list_recoverable_subscriptions v cursor limit)) lift"

definition view_get_cap_info :: "env \<Rightarrow> nat \<Rightarrow> cap_info vm" where
  "view_get_cap_info E i = get_cap_info E i"

definition view_get_global_cap_default :: "(int option) vm" where
  "view_get_global_cap_default = get_global_cap_default"

definition view_get_merchant_cap_default :: "address \<Rightarrow> (int option) vm" where
  "view_get_merchant_cap_default merchant = get_merchant_cap_default merchant"

definition view_get_sub_statements_offset ::
  "nat \<Rightarrow> nat \<Rightarrow> nat \<Rightarrow> bool \<Rightarrow> billing_statements_page vm" where
  "view_get_sub_statements_offset i off limit newest_first =
     bnd (gets (\<lambda>v. get_statements_by_subscription_offset (v_stmt v) i off limit newest_first)) lift"

definition view_get_sub_statements_cursor ::
  "nat \<Rightarrow> nat option \<Rightarrow> nat \<Rightarrow> bool \<Rightarrow> billing_statements_page vm" where
  "view_get_sub_statements_cursor i cursor limit newest_first =
     bnd (gets (\<lambda>v. get_statements_by_subscription_cursor (v_stmt v) i cursor limit newest_first)) lift"

definition view_get_period_snapshot :: "nat \<Rightarrow> nat \<Rightarrow> (billing_period_snapshot option) vm" where
  "view_get_period_snapshot i period_index = gets (\<lambda>v. get_period_snapshot (v_snap v) i period_index)"

definition view_list_period_snapshots :: "nat \<Rightarrow> nat \<Rightarrow> (billing_period_snapshot list) vm" where
  "view_list_period_snapshots i limit = gets (\<lambda>v. list_period_snapshots (v_snap v) i limit)"

definition view_list_accepted_tokens :: "((address \<times> nat) list) vm" where
  "view_list_accepted_tokens = gets (\<lambda>v. list_accepted_tokens v)"

definition view_get_subscriptions_by_merchant ::
  "address \<Rightarrow> nat \<Rightarrow> nat \<Rightarrow> bool \<Rightarrow> (subscription list) vm" where
  "view_get_subscriptions_by_merchant merchant start limit newest_first =
     bnd (gets (\<lambda>v. get_subscriptions_by_merchant v merchant start limit newest_first)) lift"

definition view_list_subscriptions_by_merchant ::
  "address \<Rightarrow> nat option \<Rightarrow> nat \<Rightarrow> bool \<Rightarrow> subscriptions_page vm" where
  "view_list_subscriptions_by_merchant merchant cursor limit newest_first =
     bnd (gets (\<lambda>v. get_subscriptions_by_merchant_paginated v merchant cursor limit newest_first)) lift"

definition view_get_subscriptions_by_token ::
  "address \<Rightarrow> nat \<Rightarrow> nat \<Rightarrow> (subscription list) vm" where
  "view_get_subscriptions_by_token token start limit =
     bnd (gets (\<lambda>v. get_subscriptions_by_token v token start limit)) lift"

definition view_list_subscriptions_by_token ::
  "address \<Rightarrow> nat option \<Rightarrow> nat \<Rightarrow> subscriptions_page vm" where
  "view_list_subscriptions_by_token token cursor limit =
     bnd (gets (\<lambda>v. list_subscriptions_by_token v token cursor limit)) lift"

definition view_get_token_reconciliation :: "env \<Rightarrow> address \<Rightarrow> token_liabilities vm" where
  "view_get_token_reconciliation E token = gets (\<lambda>v. get_token_reconciliation E v token)"

definition view_get_recon_summary ::
  "env \<Rightarrow> nat \<Rightarrow> nat \<Rightarrow> (token_liabilities list \<times> nat option) vm" where
  "view_get_recon_summary E start_token_index limit =
     gets (\<lambda>v. get_contract_reconciliation_summary E v start_token_index limit)"

definition view_generate_reconciliation_proof :: "env \<Rightarrow> address \<Rightarrow> reconciliation_proof vm" where
  "view_generate_reconciliation_proof E token = gets (\<lambda>v. generate_reconciliation_proof E v token)"

definition view_query_prepaid_balances_paginated ::
  "address \<Rightarrow> nat \<Rightarrow> nat \<Rightarrow> prepaid_query_result vm" where
  "view_query_prepaid_balances_paginated token start_index limit = gets (\<lambda>v. query_prepaid_balances_paginated v token start_index limit)"

definition view_get_idempotency_ttl :: "nat vm" where
  "view_get_idempotency_ttl = gets (\<lambda>v. get_ttl_secs (v_idem v))"

definition view_get_billing_retention :: "nat vm" where
  "view_get_billing_retention = gets (\<lambda>v. get_retention_config (v_stmt v))"

definition view_get_stmt_compacted_aggregate :: "nat \<Rightarrow> billing_statement_aggregate vm" where
  "view_get_stmt_compacted_aggregate i = gets (\<lambda>v. get_compacted_aggregate (v_stmt v) i)"

definition view_get_oracle_config :: "oracle_config vm" where
  "view_get_oracle_config = get_oracle_config"

definition view_get_metadata :: "env \<Rightarrow> nat \<Rightarrow> bytes \<Rightarrow> bytes vm" where
  "view_get_metadata E i key = get_metadata E i key"

definition view_list_metadata_keys :: "env \<Rightarrow> nat \<Rightarrow> (bytes list) vm" where
  "view_list_metadata_keys E i = list_metadata_keys E i"

definition view_get_protocol_fee_bps :: "nat vm" where
  "view_get_protocol_fee_bps = get_protocol_fee_bps"

definition view_get_guardian_weight :: "address \<Rightarrow> nat vm" where
  "view_get_guardian_weight guardian = get_guardian_weight guardian"

definition view_get_current_proposal_id :: "nat vm" where
  "view_get_current_proposal_id = get_current_proposal_id"

definition view_get_proposal :: "nat \<Rightarrow> (proposal option) vm" where
  "view_get_proposal proposal_id = get_proposal proposal_id"

definition view_list_guardians :: "((address \<times> nat) list) vm" where
  "view_list_guardians = list_guardians"

definition view_get_blocklist_entry :: "address \<Rightarrow> bytes vm" where
  "view_get_blocklist_entry subscriber = get_blocklist_entry subscriber"

definition view_is_blocklisted :: "address \<Rightarrow> bool vm" where
  "view_is_blocklisted subscriber = gets (\<lambda>v. is_blocklisted v subscriber)"

definition view_get_merchant_config :: "address \<Rightarrow> (merchant_config option) vm" where
  "view_get_merchant_config merchant = get_merchant_config merchant"

definition view_get_admin_nonce :: "address \<Rightarrow> nat \<Rightarrow> nat vm" where
  "view_get_admin_nonce signer domain = (case domain_try_from domain of Some d \<Rightarrow> get_nonce signer d | None \<Rightarrow> ret 0)"

definition view_get_operator_nonce :: "address \<Rightarrow> nat vm" where
  "view_get_operator_nonce op = get_nonce op OperatorBatchCharge"

definition view_get_metadata_signed_nonce :: "address \<Rightarrow> nat vm" where
  "view_get_metadata_signed_nonce signer = get_nonce signer MetadataSigned"

definition view_get_emergency_stop_status :: "bool vm" where
  "view_get_emergency_stop_status = get_emergency_stop"

definition view_get_subscriber_exposure :: "address \<Rightarrow> address \<Rightarrow> int vm" where
  "view_get_subscriber_exposure subscriber token = compute_subscriber_exposure subscriber token"

definition view_get_coupon :: "symbol \<Rightarrow> (coupon option) vm" where
  "view_get_coupon code = read_coupon code"

definition view_get_sub_account_balance :: "address \<Rightarrow> symbol \<Rightarrow> int vm" where
  "view_get_sub_account_balance merchant label = gets (\<lambda>v. sub_account_balance v merchant label)"

definition view_get_subscription_count :: "nat vm" where
  "view_get_subscription_count = gets get_subscription_count"

definition view_version :: "nat vm" where
  "view_version = ret STORAGE_VERSION"

section \<open>They only read\<close>

lemmas view_delegates =
  do_get_admin_def get_admin_proposal_def get_plan_template_def get_subscriber_create_cap_def
  get_merchant_balance_def get_merchant_balance_by_token_def get_merchant_token_earnings_def get_tag_allowlist_def
  get_merchant_tags_def get_merchant_vacation_def get_payout_schedule_def do_get_dispute_def
  do_get_subscription_dispute_def do_get_cancellation_escrow_def estimate_topup_for_intervals_def
  get_next_charge_info_def get_cap_info_def get_metadata_def list_metadata_keys_def get_guardian_weight_def
  get_current_proposal_id_def get_proposal_def list_guardians_def get_blocklist_entry_def get_emergency_stop_def
  read_dispute_def read_guardians_def

lemma views_only_read_1:
  "keeps id view_get_min_topup"
  "keeps id view_get_grace_period"
  "keeps id view_get_admin"
  "keeps id view_get_operator"
  "keeps id view_get_admin_proposal"
  "keeps id (view_get_split_payees i)"
  "keeps id (view_get_plan_template p)"
  "keeps id (view_get_plan_max_active_subs p)"
  "keeps id (view_get_subscriber_credit_limit subscriber token)"
  "keeps id (view_get_subscriber_active_cap subscriber)"
  "keeps id (view_get_subscriber_active_count subscriber)"
  "keeps id view_get_subscriber_create_cap"
  "keeps id (view_get_merchant_max_subs merchant)"
  "keeps id (view_get_merchant_balance merchant)"
  "keeps id (view_get_merchant_balance_by_token merchant token)"
  "keeps id (view_get_merchant_token_earnings merchant token)"
  "keeps id (view_get_merchant_token_earnings_with_sub_accounts merchant token)"
  "keeps id (view_get_merchant_total_earnings_with_sub_accounts merchant)"
  "keeps id (view_get_merchant_balance_aggregated merchant token)"
  "keeps id (view_get_merchant_paused merchant)"
  by (auto simp:
      view_get_min_topup_def view_get_grace_period_def view_get_admin_def view_get_operator_def
      view_get_admin_proposal_def view_get_split_payees_def view_get_plan_template_def
      view_get_plan_max_active_subs_def view_get_subscriber_credit_limit_def view_get_subscriber_active_cap_def
      view_get_subscriber_active_count_def view_get_subscriber_create_cap_def view_get_merchant_max_subs_def
      view_get_merchant_balance_def view_get_merchant_balance_by_token_def view_get_merchant_token_earnings_def
      view_get_merchant_token_earnings_with_sub_accounts_def view_get_merchant_total_earnings_with_sub_accounts_def
      view_get_merchant_balance_aggregated_def view_get_merchant_paused_def view_delegates
    intro!: keeps_intro split: option.splits sum.splits prod.splits)

lemma views_only_read_2:
  "keeps id view_get_tag_allowlist"
  "keeps id (view_get_merchant_tags merchant)"
  "keeps id (view_get_merchant_vacation merchant)"
  "keeps id (view_is_merchant_in_vacation merchant now)"
  "keeps id (view_get_reconciliation_snapshot merchant)"
  "keeps id (view_get_merchant_total_earnings merchant)"
  "keeps id (view_get_payout_schedule merchant)"
  "keeps id (view_get_sub_account_list merchant)"
  "keeps id view_get_dispute_window_secs"
  "keeps id (view_get_dispute dispute_id)"
  "keeps id (view_get_subscription_dispute i)"
  "keeps id (view_get_cancellation_escrow i)"
  "keeps id (view_get_subscription E i)"
  "keeps id (view_estimate_topup_for_intervals E i num_intervals)"
  "keeps id (view_get_next_charge_info E i)"
  "keeps id (view_get_token_subscription_count token)"
  "keeps id (view_get_merchant_subscription_count merchant)"
  "keeps id (view_list_subscriptions_by_subscriber subscriber start_from_id limit)"
  "keeps id (view_list_recoverable_subscriptions cursor limit)"
  "keeps id (view_get_cap_info E i)"
  by (auto simp:
      view_get_tag_allowlist_def view_get_merchant_tags_def view_get_merchant_vacation_def
      view_is_merchant_in_vacation_def view_get_reconciliation_snapshot_def view_get_merchant_total_earnings_def
      view_get_payout_schedule_def view_get_sub_account_list_def view_get_dispute_window_secs_def
      view_get_dispute_def view_get_subscription_dispute_def view_get_cancellation_escrow_def
      view_get_subscription_def view_estimate_topup_for_intervals_def view_get_next_charge_info_def
      view_get_token_subscription_count_def view_get_merchant_subscription_count_def
      view_list_subscriptions_by_subscriber_def view_list_recoverable_subscriptions_def view_get_cap_info_def
      view_delegates
    intro!: keeps_intro split: option.splits sum.splits prod.splits)

lemma views_only_read_3:
  "keeps id view_get_global_cap_default"
  "keeps id (view_get_merchant_cap_default merchant)"
  "keeps id (view_get_sub_statements_offset i off limit newest_first)"
  "keeps id (view_get_sub_statements_cursor i cursor limit newest_first)"
  "keeps id (view_get_period_snapshot i period_index)"
  "keeps id (view_list_period_snapshots i limit)"
  "keeps id view_list_accepted_tokens"
  "keeps id (view_get_subscriptions_by_merchant merchant start limit newest_first)"
  "keeps id (view_list_subscriptions_by_merchant merchant cursor limit newest_first)"
  "keeps id (view_get_subscriptions_by_token token start limit)"
  "keeps id (view_list_subscriptions_by_token token cursor limit)"
  "keeps id (view_get_token_reconciliation E token)"
  "keeps id (view_get_recon_summary E start_token_index limit)"
  "keeps id (view_generate_reconciliation_proof E token)"
  "keeps id (view_query_prepaid_balances_paginated token start_index limit)"
  "keeps id view_get_idempotency_ttl"
  "keeps id view_get_billing_retention"
  "keeps id (view_get_stmt_compacted_aggregate i)"
  "keeps id view_get_oracle_config"
  "keeps id (view_get_metadata E i key)"
  by (auto simp:
      view_get_global_cap_default_def view_get_merchant_cap_default_def view_get_sub_statements_offset_def
      view_get_sub_statements_cursor_def view_get_period_snapshot_def view_list_period_snapshots_def
      view_list_accepted_tokens_def view_get_subscriptions_by_merchant_def view_list_subscriptions_by_merchant_def
      view_get_subscriptions_by_token_def view_list_subscriptions_by_token_def view_get_token_reconciliation_def
      view_get_recon_summary_def view_generate_reconciliation_proof_def view_query_prepaid_balances_paginated_def
      view_get_idempotency_ttl_def view_get_billing_retention_def view_get_stmt_compacted_aggregate_def
      view_get_oracle_config_def view_get_metadata_def view_delegates
    intro!: keeps_intro split: option.splits sum.splits prod.splits)

lemma views_only_read_4:
  "keeps id (view_list_metadata_keys E i)"
  "keeps id view_get_protocol_fee_bps"
  "keeps id (view_get_guardian_weight guardian)"
  "keeps id view_get_current_proposal_id"
  "keeps id (view_get_proposal proposal_id)"
  "keeps id view_list_guardians"
  "keeps id (view_get_blocklist_entry subscriber)"
  "keeps id (view_is_blocklisted subscriber)"
  "keeps id (view_get_merchant_config merchant)"
  "keeps id (view_get_admin_nonce signer domain)"
  "keeps id (view_get_operator_nonce op)"
  "keeps id (view_get_metadata_signed_nonce signer)"
  "keeps id view_get_emergency_stop_status"
  "keeps id (view_get_subscriber_exposure subscriber token)"
  "keeps id (view_get_coupon code)"
  "keeps id (view_get_sub_account_balance merchant label)"
  "keeps id view_get_subscription_count"
  "keeps id view_version"
  by (auto simp:
      view_list_metadata_keys_def view_get_protocol_fee_bps_def view_get_guardian_weight_def
      view_get_current_proposal_id_def view_get_proposal_def view_list_guardians_def view_get_blocklist_entry_def
      view_is_blocklisted_def view_get_merchant_config_def view_get_admin_nonce_def view_get_operator_nonce_def
      view_get_metadata_signed_nonce_def view_get_emergency_stop_status_def view_get_subscriber_exposure_def
      view_get_coupon_def view_get_sub_account_balance_def view_get_subscription_count_def view_version_def
      view_delegates
    intro!: keeps_intro split: option.splits sum.splits prod.splits)

end
