(* ===== verification/Entry_Claims.thy ===== *)
theory Entry_Claims
  imports Entry_Points
begin

text \<open>
  What the entry points guarantee: the emergency stop, the locks, who may charge, the payee splits, and what a
  restored snapshot brings back.
\<close>

section \<open>The emergency stop\<close>

text \<open>The entry points behind the stop, grouped by what they do; \<open>drop\<close> forgets the result.\<close>

definition drop_result :: "'a vm \<Rightarrow> unit vm" where
  "drop_result m = bnd m (\<lambda>_. ret ())"

datatype (plugins only: code) charge_call =
    C_OperatorBatch address "nat list" nat
  | C_OperatorCharge address nat
  | C_OperatorUsage address nat int
  | C_OperatorUsageRef address nat int bytes
  | C_Batch "nat list" "(bytes list) option" nat
  | C_BatchDetailed "nat list" "(bytes list) option" nat
  | C_Charge nat "bytes option"
  | C_Usage nat int
  | C_UsageRef nat int bytes
  | C_OneOff nat address int "bytes option"

datatype (plugins only: code) open_call =
    C_RotateAdmin address address nat
  | C_ProposeAdmin address address
  | C_ClaimAdmin address
  | C_Create creation
  | C_CreateWithToken creation
  | C_CreateWithSplit creation "(address \<times> nat) list"
  | C_UpdateSplit address nat "((address \<times> nat) list) option"
  | C_FromPlan address nat "symbol option"
  | C_RegisterPlan address int nat nat bool "int option"
  | C_CreateCoupon address symbol address nat int nat nat
  | C_RevokeCoupon address symbol
  | C_ApplyCoupon address nat symbol

datatype (plugins only: code) money_call =
    C_Deposit nat int "nat option"
  | C_GrantPayer address address nat int
  | C_DepositOnBehalf nat address int "nat option"
  | C_GraceBuyout nat address int "bytes option"
  | C_BulkDeposit address "(nat \<times> int) list" nat
  | C_PartialRefund address nat address int
  | C_WithdrawMerchant address int
  | C_WithdrawMerchantToken address address int
  | C_FlushPayouts address

primrec run_charge :: "env \<Rightarrow> charge_call \<Rightarrow> unit vm" where
  "run_charge E (C_OperatorBatch a ids n) = drop_result (entry_operator_batch_charge E a ids n)"
| "run_charge E (C_OperatorCharge a i) = drop_result (entry_operator_charge_subscription E a i)"
| "run_charge E (C_OperatorUsage a i x) = drop_result (entry_operator_charge_usage E a i x)"
| "run_charge E (C_OperatorUsageRef a i x r) = drop_result (entry_operator_charge_usage_with_ref E a i x r)"
| "run_charge E (C_Batch ids ks n) = drop_result (entry_batch_charge E ids ks n)"
| "run_charge E (C_BatchDetailed ids ks n) = drop_result (entry_batch_charge_detailed E ids ks n)"
| "run_charge E (C_Charge i k) = drop_result (entry_charge_subscription E i k)"
| "run_charge E (C_Usage i x) = drop_result (entry_charge_usage E i x)"
| "run_charge E (C_UsageRef i x r) = drop_result (entry_charge_usage_with_reference E i x r)"
| "run_charge E (C_OneOff i m x k) = entry_charge_one_off E i m x k"

primrec run_open :: "env \<Rightarrow> open_call \<Rightarrow> unit vm" where
  "run_open E (C_RotateAdmin a b n) = entry_rotate_admin E a b n"
| "run_open E (C_ProposeAdmin a b) = entry_propose_admin E a b"
| "run_open E (C_ClaimAdmin a) = entry_claim_admin_role E a"
| "run_open E (C_Create c) = drop_result (entry_create_subscription E c)"
| "run_open E (C_CreateWithToken c) = drop_result (entry_create_subscription_with_token E c)"
| "run_open E (C_CreateWithSplit c l) = drop_result (create_subscription_with_split E c l)"
| "run_open E (C_UpdateSplit a i l) = update_split_payees E a i l"
| "run_open E (C_FromPlan a p l) = drop_result (entry_create_subscription_from_plan E a p l)"
| "run_open E (C_RegisterPlan a x i t u c) = drop_result (entry_register_plan E a x i t u c)"
| "run_open E (C_CreateCoupon a c tk p f m e) = entry_create_coupon E a c tk p f m e"
| "run_open E (C_RevokeCoupon a c) = entry_revoke_coupon E a c"
| "run_open E (C_ApplyCoupon a i c) = entry_apply_coupon E a i c"

primrec run_money :: "env \<Rightarrow> money_call \<Rightarrow> unit vm" where
  "run_money E (C_Deposit i x n) = entry_deposit_funds E i x n"
| "run_money E (C_GrantPayer a b e x) = entry_grant_delegated_payer E a b e x"
| "run_money E (C_DepositOnBehalf i a x n) = entry_deposit_funds_on_behalf E i a x n"
| "run_money E (C_GraceBuyout i a x k) = drop_result (entry_grace_buyout E i a x k)"
| "run_money E (C_BulkDeposit a l n) = drop_result (entry_bulk_deposit_funds E a l n)"
| "run_money E (C_PartialRefund a i b x) = entry_partial_refund E a i b x"
| "run_money E (C_WithdrawMerchant m x) = entry_withdraw_merchant_funds E m x"
| "run_money E (C_WithdrawMerchantToken m tk x) = entry_withdraw_merchant_token_funds E m tk x"
| "run_money E (C_FlushPayouts m) = drop_result (entry_flush_payouts E m)"

datatype (plugins only: code) stopped_call = Charging charge_call | Opening open_call | Moving money_call

primrec run_stopped :: "env \<Rightarrow> stopped_call \<Rightarrow> unit vm" where
  "run_stopped E (Charging c) = run_charge E c"
| "run_stopped E (Opening c) = run_open E c"
| "run_stopped E (Moving c) = run_money E c"

lemma unless_stopped_run:
  "emergency_stopped s \<Longrightarrow> unless_stopped m s = (Err E_EmergencyStopActive, s)"
  by (simp add: unless_stopped_def require_not_emergency_stop_def get_emergency_stop_def act_run)

lemma stop_entries:
  assumes "emergency_stopped s"
  shows "run_charge E c s \<noteq> (Ok u, t)" "run_open E c' s \<noteq> (Ok u, t)" "run_money E c'' s \<noteq> (Ok u, t)"
proof -
  note run = unless_stopped_run [OF assms]
  have locked: "emergency_stopped (s\<lparr>v_locks := l\<rparr>)" for l using assms by (simp add: emergency_stopped_def)
  have guarded: "with_lock n (unless_stopped m) s \<noteq> (Ok a, v)" for n and m :: "'b vm" and a v
    by (auto simp: with_lock_def lock_def act_run unless_stopped_run [OF locked])
  show "run_charge E c s \<noteq> (Ok u, t)"
    by (cases c) (auto simp: drop_result_def bnd_ok run guarded entry_operator_batch_charge_def entry_operator_charge_subscription_def
        entry_operator_charge_usage_def entry_operator_charge_usage_with_ref_def entry_batch_charge_def entry_batch_charge_detailed_def
        entry_charge_subscription_def entry_charge_usage_def entry_charge_usage_with_reference_def entry_charge_one_off_def)
  show "run_open E c' s \<noteq> (Ok u, t)"
    using assms
    by (cases c') (auto simp: drop_result_def bnd_ok thn_ok run entry_rotate_admin_def entry_propose_admin_def
        entry_claim_admin_role_def entry_create_subscription_def entry_create_subscription_with_token_def
        create_subscription_with_split_def update_split_payees_def entry_create_subscription_from_plan_def entry_register_plan_def
        entry_create_coupon_def entry_revoke_coupon_def entry_apply_coupon_def require_auth_ok require_not_emergency_stop_def
        get_emergency_stop_def basic_ok Let_def)
  show "run_money E c'' s \<noteq> (Ok u, t)"
    by (cases c'') (auto simp: drop_result_def bnd_ok run entry_deposit_funds_def entry_grant_delegated_payer_def
        entry_deposit_funds_on_behalf_def entry_grace_buyout_def entry_bulk_deposit_funds_def entry_partial_refund_def
        entry_withdraw_merchant_funds_def entry_withdraw_merchant_token_funds_def entry_flush_payouts_def)
qed


definition stopped_vault :: vault where
  "stopped_vault = fund_vault\<lparr>v_admin := (v_admin fund_vault)\<lparr>ad_persistent := empty_config\<lparr>cf_next_id := Some 8,
     cf_min_topup := Some 100, cf_admin := Some (Addr 3), cf_emergency_stop := Some True\<rparr>\<rparr>\<rparr>"

lemma stopped_vault_stopped: "emergency_stopped stopped_vault"
  by (simp add: emergency_stopped_def stopped_vault_def config_value_def)


section \<open>Who may charge\<close>

lemma auth_free_env:
  "e_timestamp (E\<lparr>e_auth := A\<rparr>) = e_timestamp E" "e_sequence (E\<lparr>e_auth := A\<rparr>) = e_sequence E"
  "e_latest_price (E\<lparr>e_auth := A\<rparr>) = e_latest_price E" "e_observations (E\<lparr>e_auth := A\<rparr>) = e_observations E"
  "e_self (E\<lparr>e_auth := A\<rparr>) = e_self E" "e_sha256 (E\<lparr>e_auth := A\<rparr>) = e_sha256 E"
  "e_transfer (E\<lparr>e_auth := A\<rparr>) = e_transfer E"
  by simp_all

lemma auth_free_reads:
  "get_subscription (E\<lparr>e_auth := A\<rparr>) = get_subscription E" "convert_fee (E\<lparr>e_auth := A\<rparr>) = convert_fee E"
  "expiry_gate (E\<lparr>e_auth := A\<rparr>) = expiry_gate E" "credit_charge_payees (E\<lparr>e_auth := A\<rparr>) = credit_charge_payees E"
  "remember_key (E\<lparr>e_auth := A\<rparr>) = remember_key E" "idem_gate (E\<lparr>e_auth := A\<rparr>) = idem_gate E"
  "cancel_gate (E\<lparr>e_auth := A\<rparr>) = cancel_gate E" "auto_pause (E\<lparr>e_auth := A\<rparr>) = auto_pause E"
  "charge_salt (E\<lparr>e_auth := A\<rparr>) = charge_salt E"
  unfolding get_subscription_def convert_fee_def dispatch_price_def spot_quote_def twap_quote_def validate_price_def usable_prices_def expiry_gate_def
      credit_charge_payees_def remember_key_def idem_gate_def hash_idem_key_def token_transfer_def cancel_gate_def auto_pause_def charge_salt_def auth_free_env
  by (rule refl)+

lemma auth_free_settlement:
  "credit_fee (E\<lparr>e_auth := A\<rparr>) = credit_fee E" "charge_open (E\<lparr>e_auth := A\<rparr>) = charge_open E"
  "usage_gates (E\<lparr>e_auth := A\<rparr>) = usage_gates E" "fail_underfunded (E\<lparr>e_auth := A\<rparr>) = fail_underfunded E"
  "settle_charge (E\<lparr>e_auth := A\<rparr>) = settle_charge E"
  unfolding credit_fee_def charge_open_def usage_gates_def fail_underfunded_def settle_charge_def
      record_settlement_def auth_free_reads auth_free_env
  by (rule refl)+

lemma auth_free_charges:
  "charge_usage_one (E\<lparr>e_auth := A\<rparr>) = charge_usage_one E" "charge_after_salt (E\<lparr>e_auth := A\<rparr>) = charge_after_salt E"
  unfolding charge_usage_one_def charge_usage_now_def settle_usage_def charge_after_salt_def auth_free_reads
      auth_free_settlement auth_free_env
  by (rule refl)+

lemma auth_free_intervals: "charge_one (E\<lparr>e_auth := A\<rparr>) = charge_one E"
  by (intro ext, unfold charge_one_def charge_one_with_def charge_one_cached_def charge_with_flags_def auth_free_reads
      auth_free_settlement auth_free_charges auth_free_env, rule refl)

text \<open>
  C35. The three public charging entry points ask for nobody's authorisation: what they do does not depend on who has signed the
  call, so whoever submits a transaction can charge any subscription and, for metered ones, choose the amount. A usage charge of
  300 units that nobody authorised succeeds on a subscription with usage enabled.
\<close>

theorem charging_needs_no_consent:
  "entry_charge_subscription (E\<lparr>e_auth := A\<rparr>) i key = entry_charge_subscription E i key \<and>
   entry_charge_usage (E\<lparr>e_auth := A\<rparr>) i amount = entry_charge_usage E i amount \<and>
   entry_charge_usage_with_reference (E\<lparr>e_auth := A\<rparr>) i amount reference = entry_charge_usage_with_reference E i amount reference \<and>
   fst (charge_usage_one (fund_env\<lparr>e_auth := \<lambda>_. False\<rparr>) 7 300 [1] meter_vault) = Ok UCR_Charged"
proof -
  have "fst (charge_usage_one fund_env 7 300 [1] meter_vault) = Ok UCR_Charged" using meter_charge by auto
  then show ?thesis
    by (simp add: entry_charge_subscription_def entry_charge_usage_def entry_charge_usage_with_reference_def auth_free_charges
        auth_free_intervals)
qed

section \<open>Payee splits\<close>

lemma payee_weights_ok:
  "payee_weights l acc s = (Ok n, t) \<Longrightarrow>
     t = s \<and> n = acc + sum_list (map snd l) \<and> (\<forall>(p, w) \<in> set l. 0 < w \<and> v_blocklist s p = None)"
proof (induction l arbitrary: acc)
  case Nil
  then show ?case by (simp add: basic_ok)
next
  case (Cons x l)
  obtain p w where x: "x = (p, w)" by (cases x)
  with Cons.prems obtain acc' where step: "w \<noteq> 0" "checked_add_u32 acc w = Some acc'" "v_blocklist s p = None"
      "payee_weights l acc' s = (Ok n, t)"
    by (auto simp: bnd_ok thn_ok basic_ok require_not_blocklisted_ok is_blocklisted_def split: if_splits)
  from step(2) have "acc' = acc + w" by (auto simp: checked_add_u32_def split: if_splits)
  with Cons.IH [OF step(4)] step x show ?case by auto
qed

lemma check_payees_ok:
  "check_payees l s = (Ok u, t) \<Longrightarrow>
     t = s \<and> l \<noteq> [] \<and> sum_list (map snd l) = 10000 \<and> (\<forall>(p, w) \<in> set l. 0 < w \<and> v_blocklist s p = None)"
  by (auto simp: check_payees_def bnd_ok basic_ok split: if_splits dest!: payee_weights_ok)

section \<open>Snapshots\<close>

lemma restored_summary:
  "restored_sub (summary_of i sub) = sub\<lparr>s_grace_start_timestamp := None, s_cancel_at := None, s_auto_renew := True,
     s_auto_renew_disabled_at := None, s_sub_account_label := None, s_proration_enabled := False, s_auto_pause_threshold := 0\<rparr>"
  by (simp add: restored_sub_def summary_of_def)

lemma restore_one_ok:
  "restore_one (summary_of i sub) s = (Ok u, t) \<longleftrightarrow>
     t = s\<lparr>v_subs := (v_subs s)\<lparr>su_sub := (su_sub (v_subs s))(i \<mapsto> restored_sub (summary_of i sub))\<rparr>\<rparr>"
proof -
  have "xu_subscription_id (summary_of i sub) = i" by (simp add: summary_of_def)
  then show ?thesis by (simp add: restore_one_def write_subscription_def basic_ok)
qed

lemma restore_subs_effect:
  "each restore_one (summaries v ids) s = (Ok u, t) \<Longrightarrow>
     (\<exists>m. t = s\<lparr>v_subs := (v_subs s)\<lparr>su_sub := m\<rparr>\<rparr>) \<and>
     (\<forall>i. su_sub (v_subs t) i = (if i \<in> set ids \<and> su_sub (v_subs v) i \<noteq> None
        then map_option (\<lambda>sub. restored_sub (summary_of i sub)) (su_sub (v_subs v) i) else su_sub (v_subs s) i))"
proof (induction ids arbitrary: s)
  case Nil
  then show ?case by (auto simp: summaries_def List.map_filter_simps basic_ok intro: exI [of _ "su_sub (v_subs s)"])
next
  case (Cons i ids)
  show ?case
  proof (cases "su_sub (v_subs v) i")
    case None
    with Cons show ?thesis by (auto simp: summaries_def List.map_filter_simps)
  next
    case (Some sub)
    let ?s = "s\<lparr>v_subs := (v_subs s)\<lparr>su_sub := (su_sub (v_subs s))(i \<mapsto> restored_sub (summary_of i sub))\<rparr>\<rparr>"
    from Some have "summaries v (i # ids) = summary_of i sub # summaries v ids" by (simp add: summaries_def List.map_filter_simps)
    with Cons.prems have "each restore_one (summaries v ids) ?s = (Ok u, t)" by (simp add: thn_ok restore_one_ok)
    from Cons.IH [OF this] Some show ?thesis by auto
  qed
qed

lemma restore_balance_ok:
  "restore_balance \<lparr>be_merchant = m, be_token = tk, be_amount = a\<rparr> = set_merchant_balance m tk a"
  by (simp add: restore_balance_def)

lemma restore_balances_effect:
  "each restore_balance (balance_entries v ids) s = (Ok u, t) \<Longrightarrow>
     (\<exists>b. t = s\<lparr>v_merchant := (v_merchant s)\<lparr>m_balance := b\<rparr>\<rparr>) \<and>
     (\<forall>m tk. merchant_balance t m tk =
        (if \<exists>i \<in> set ids. \<exists>sub. su_sub (v_subs v) i = Some sub \<and> s_merchant sub = m \<and> s_token sub = tk
         then merchant_balance v m tk else merchant_balance s m tk))"
proof (induction ids arbitrary: s)
  case Nil
  then show ?case by (auto simp: balance_entries_def List.map_filter_simps basic_ok intro: exI [of _ "m_balance (v_merchant s)"])
next
  case (Cons i ids)
  show ?case
  proof (cases "su_sub (v_subs v) i")
    case None
    with Cons show ?thesis by (auto simp: balance_entries_def List.map_filter_simps)
  next
    case (Some sub)
    then have entries: "balance_entries v (i # ids) = \<lparr>be_merchant = s_merchant sub, be_token = s_token sub,
        be_amount = merchant_balance v (s_merchant sub) (s_token sub)\<rparr> # balance_entries v ids"
      by (simp add: balance_entries_def List.map_filter_simps)
    obtain w where w: "set_merchant_balance (s_merchant sub) (s_token sub) (merchant_balance v (s_merchant sub) (s_token sub)) s = (Ok (), w)"
        "each restore_balance (balance_entries v ids) w = (Ok u, t)"
      using Cons.prems entries by (auto simp: thn_ok restore_balance_ok)
    from w(1) have "\<exists>b. w = s\<lparr>v_merchant := (v_merchant s)\<lparr>m_balance := b\<rparr>\<rparr>"
      "merchant_balance w m tk = (if m = s_merchant sub \<and> tk = s_token sub then merchant_balance v m tk else merchant_balance s m tk)"
      for m tk
      by (auto simp: set_merchant_balance_def mod_merchant_def basic_ok merchant_balance_def)
    with Cons.IH [OF w(2)] Some show ?thesis by auto
  qed
qed

lemma export_page_ok:
  assumes "export_full_snapshot_page E admin start limit s = (Ok page, s')"
  shows "\<exists>ids. set ids = {i. start \<le> i \<and> i < min (sat_add_u32 start (min limit 100)) (instance_next_id s)} \<and> distinct ids \<and>
    fp_subscriptions page = summaries s ids \<and> fp_balances page = balance_entries s ids"
proof (cases "limit = 0 \<or> instance_next_id s \<le> start")
  case True
  with assms have "fp_subscriptions page = []" "fp_balances page = []"
    by (auto simp: export_full_snapshot_page_def act_ok Let_def split: if_splits)
  with True show ?thesis
    by (intro exI [of _ "[]"]) (auto simp: summaries_def balance_entries_def List.map_filter_simps sat_add_u32_def)
next
  case False
  let ?ids = "[start..<min (sat_add_u32 start (min limit MAX_EXPORT_LIMIT)) (instance_next_id s)]"
  from False assms have "fp_subscriptions page = summaries s ?ids" "fp_balances page = balance_entries s ?ids"
    by (auto simp: export_full_snapshot_page_def act_ok Let_def)
  then show ?thesis by (intro exI [of _ ?ids]) (auto simp: MAX_EXPORT_LIMIT_def)
qed

lemma snapshot_counts:
  assumes "distinct ids"
  shows "length (summaries s ids) = card {i \<in> set ids. su_sub (v_subs s) i \<noteq> None}"
    and "fold (\<lambda>x n. max n (sat_add_u32 (xu_subscription_id x) 1)) (summaries s ids) n =
      Max (insert n ((\<lambda>i. sat_add_u32 i 1) ` {i \<in> set ids. su_sub (v_subs s) i \<noteq> None}))"
proof -
  let ?present = "\<lambda>i. su_sub (v_subs s) i \<noteq> None"
  have some: "summaries s ids = map (\<lambda>i. summary_of i (the (su_sub (v_subs s) i))) (filter ?present ids)"
    by (induction ids) (auto simp: summaries_def List.map_filter_simps)
  have present: "set (filter ?present ids) = {i \<in> set ids. ?present i}" by auto
  show "length (summaries s ids) = card {i \<in> set ids. ?present i}"
    unfolding some present [symmetric] using assms by (simp add: distinct_card del: set_filter)
  have "fold (\<lambda>x n. max n (f x)) xs n = Max (insert n (f ` set xs))" for f :: "nat \<Rightarrow> nat" and xs n
  proof (induction xs arbitrary: n)
    case (Cons x xs)
    then show ?case by (cases "xs = []") (simp_all add: max.assoc)
  qed simp
  from this [of "\<lambda>i. sat_add_u32 i 1" "filter ?present ids"]
  show "fold (\<lambda>x n. max n (sat_add_u32 (xu_subscription_id x) 1)) (summaries s ids) n =
      Max (insert n ((\<lambda>i. sat_add_u32 i 1) ` {i \<in> set ids. ?present i}))"
    unfolding some present by (simp add: fold_map comp_def summary_of_def)
qed

text \<open>
  C34. What a snapshot page brings back. Export a page of one vault and restore it into another, or into the same one later: every
  exported subscription is stored under its id again with its parties, token, price, balance, status, cap and
  times as they were exported, but with the start of its grace period, its scheduled cancellation, its sub-account label, its proration and its
  pause threshold gone and with renewal switched on; the merchants of exported subscriptions have their exported balances; the counter of ids in
  instance storage is raised past every restored id and never lowered; one event is appended to the log. Nothing else of the vault changes: every other
  subscription and balance, the tokens, indexes, limits, nonces and settings stay as they were. Only the admin can restore, and only while the
  emergency stop is on.
\<close>

theorem snapshot_roundtrip:
  assumes "export_full_snapshot_page E admin start limit s = (Ok page, s')"
    and "restore_snapshot_page E' admin' start' (fp_subscriptions page) (fp_balances page) v = (Ok u, t)"
    and "page_ids = {i. start \<le> i \<and> i < min (sat_add_u32 start (min limit 100)) (instance_next_id s) \<and> su_sub (v_subs s) i \<noteq> None}"
  shows "e_auth E' admin' \<and> stored_admin v = Some admin' \<and> emergency_stopped v \<and>
    (\<forall>i. su_sub (v_subs t) i = (if i \<in> page_ids
       then map_option (\<lambda>sub. sub\<lparr>s_grace_start_timestamp := None, s_cancel_at := None, s_auto_renew := True,
         s_auto_renew_disabled_at := None, s_sub_account_label := None, s_proration_enabled := False, s_auto_pause_threshold := 0\<rparr>)
         (su_sub (v_subs s) i)
       else su_sub (v_subs v) i)) \<and>
    (\<forall>m tk. merchant_balance t m tk =
       (if \<exists>i \<in> page_ids. \<exists>sub. su_sub (v_subs s) i = Some sub \<and> s_merchant sub = m \<and> s_token sub = tk
        then merchant_balance s m tk else merchant_balance v m tk)) \<and>
    instance_next_id t = Max (insert (instance_next_id v) ((\<lambda>i. sat_add_u32 i 1) ` page_ids)) \<and>
    (\<exists>subs balances ids. t = v\<lparr>v_subs := (v_subs v)\<lparr>su_sub := subs\<rparr>, v_merchant := (v_merchant v)\<lparr>m_balance := balances\<rparr>,
       v_admin := (v_admin v)\<lparr>ad_instance := (ad_instance (v_admin v))\<lparr>cf_next_id := ids\<rparr>\<rparr>,
       v_events := v_events v @ [AdminEv (Ev_snapshot_restored admin' start' (min u32_max (card page_ids)) (e_timestamp E'))]\<rparr>)"
proof -
  from export_page_ok [OF assms(1)] obtain ids where
    ids: "set ids = {i. start \<le> i \<and> i < min (sat_add_u32 start (min limit 100)) (instance_next_id s)}" "distinct ids"
    and page: "fp_subscriptions page = summaries s ids" "fp_balances page = balance_entries s ids" by blast
  have page_ids: "page_ids = {i \<in> set ids. su_sub (v_subs s) i \<noteq> None}" using ids(1) by (auto simp: assms(3))
  let ?next = "Max (insert (instance_next_id v) ((\<lambda>i. sat_add_u32 i 1) ` page_ids))"
  let ?bump = "\<lambda>n. if instance_next_id v < n then mod_admin (\<lambda>a. a\<lparr>ad_instance := (ad_instance a)\<lparr>cf_next_id := Some n\<rparr>\<rparr>) else ret ()"
  let ?restored = "\<lambda>n. AdminEv (Ev_snapshot_restored admin' start' (min u32_max n) (e_timestamp E'))"
  from assms(2) obtain x y z where restored: "e_auth E' admin'" "stored_admin v = Some admin'" "emergency_stopped v"
      "each restore_one (fp_subscriptions page) v = (Ok (), x)" "each restore_balance (fp_balances page) x = (Ok (), y)"
      "?bump (fold (\<lambda>x n. max n (sat_add_u32 (xu_subscription_id x) 1)) (fp_subscriptions page) (instance_next_id v)) y = (Ok (), z)"
      "t = z\<lparr>v_events := v_events z @ [?restored (length (fp_subscriptions page))]\<rparr>"
    unfolding restore_snapshot_page_def thn_ok bnd_ok basic_ok require_admin_auth_ok get_emergency_stop_def publish_def Let_def stored_admin_def
    by (simp split: if_split_asm add: thn_ok bnd_ok basic_ok) blast+
  note run = restored(1-3) restored(4-7) [unfolded page snapshot_counts [OF ids(2), of s, folded page_ids]]
  from restore_subs_effect [OF run(4)] obtain sm where x: "x = v\<lparr>v_subs := (v_subs v)\<lparr>su_sub := sm\<rparr>\<rparr>"
    and subs: "\<forall>i. su_sub (v_subs x) i = (if i \<in> set ids \<and> su_sub (v_subs s) i \<noteq> None
        then map_option (\<lambda>sub. restored_sub (summary_of i sub)) (su_sub (v_subs s) i) else su_sub (v_subs v) i)" by blast
  from restore_balances_effect [OF run(5)] obtain bm where y: "y = x\<lparr>v_merchant := (v_merchant x)\<lparr>m_balance := bm\<rparr>\<rparr>"
    and balances: "\<forall>m tk. merchant_balance y m tk =
        (if \<exists>i \<in> set ids. \<exists>sub. su_sub (v_subs s) i = Some sub \<and> s_merchant sub = m \<and> s_token sub = tk
         then merchant_balance s m tk else merchant_balance x m tk)" by blast
  let ?counted = "\<lambda>c. y\<lparr>v_admin := (v_admin y)\<lparr>ad_instance := (ad_instance (v_admin y))\<lparr>cf_next_id := c\<rparr>\<rparr>\<rparr>"
  have "z = y \<or> z = ?counted (Some ?next)"
    using run(6) by (cases "instance_next_id v < ?next") (simp_all add: mod_admin_def basic_ok)
  moreover have "?counted (cf_next_id (ad_instance (v_admin y))) = y" by simp
  ultimately obtain c where z: "z = ?counted c" by metis
  have "instance_next_id v \<le> ?next" using assms(3) by (intro Max_ge) auto
  moreover have "instance_next_id y = instance_next_id v" by (simp add: instance_next_id_def x y)
  moreover have "instance_next_id (y\<lparr>v_admin := (v_admin y)\<lparr>ad_instance := (ad_instance (v_admin y))\<lparr>cf_next_id := Some n\<rparr>\<rparr>\<rparr>) = n" for n
    by (simp add: instance_next_id_def)
  ultimately have "instance_next_id z = ?next"
    using run(6) by (cases "instance_next_id v < ?next") (auto simp: mod_admin_def basic_ok)
  then have "instance_next_id t = ?next" by (simp add: run(7) instance_next_id_def)
  moreover have "merchant_balance t = merchant_balance y" "merchant_balance x = merchant_balance v" "v_subs t = v_subs x"
    by (simp_all add: run(7) merchant_balance_def fun_eq_iff x y z)
  moreover have "\<exists>subs balances ids. t = v\<lparr>v_subs := (v_subs v)\<lparr>su_sub := subs\<rparr>, v_merchant := (v_merchant v)\<lparr>m_balance := balances\<rparr>,
       v_admin := (v_admin v)\<lparr>ad_instance := (ad_instance (v_admin v))\<lparr>cf_next_id := ids\<rparr>\<rparr>,
       v_events := v_events v @ [AdminEv (Ev_snapshot_restored admin' start' (min u32_max (card page_ids)) (e_timestamp E'))]\<rparr>"
    by (intro exI [of _ sm] exI [of _ bm] exI [of _ c]) (simp add: run(7) x y z)
  moreover have "i \<in> page_ids \<longleftrightarrow> i \<in> set ids \<and> su_sub (v_subs s) i \<noteq> None" for i by (simp add: page_ids)
  ultimately show ?thesis using run(1-3) subs balances by (auto simp: restored_summary)
qed

definition snapshot_vault :: vault where
  "snapshot_vault = fund_vault\<lparr>v_admin := (v_admin fund_vault)\<lparr>ad_instance := empty_config\<lparr>cf_next_id := Some 8\<rparr>,
     ad_persistent := empty_config\<lparr>cf_admin := Some (Addr 3), cf_emergency_stop := Some True\<rparr>\<rparr>\<rparr>"

lemma snapshot_vault_facts:
  "stored_admin snapshot_vault = Some (Addr 3)" "emergency_stopped snapshot_vault" "instance_next_id snapshot_vault = 8"
  "su_sub (v_subs snapshot_vault) = [7 \<mapsto> stored_sub]" "e_auth fund_env (Addr 3)"
  by (simp_all add: snapshot_vault_def emergency_stopped_def config_value_def stored_admin_def instance_next_id_def fund_vault_def
      fund_env_def)

lemma restore_runs: "\<exists>t. each restore_one xs s = (Ok (), t)" "\<exists>t. each restore_balance bs s = (Ok (), t)"
proof -
  show "\<exists>t. each restore_one xs s = (Ok (), t)"
    by (induction xs arbitrary: s) (auto simp: thn_ok basic_ok restore_one_def write_subscription_def)
  show "\<exists>t. each restore_balance bs s = (Ok (), t)"
    by (induction bs arbitrary: s) (auto simp: thn_ok basic_ok restore_balance_def set_merchant_balance_def mod_merchant_def)
qed

theorem snapshot_roundtrip_witness:
  "\<exists>page t. fst (export_full_snapshot_page fund_env (Addr 3) 7 50 snapshot_vault) = Ok page \<and>
     restore_snapshot_page fund_env (Addr 3) 7 (fp_subscriptions page) (fp_balances page) snapshot_vault = (Ok (), t) \<and>
     (\<exists>sub. su_sub (v_subs t) 7 = Some sub \<and> s_prepaid_balance sub = s_prepaid_balance stored_sub)"
proof -
  obtain page s' where exported: "export_full_snapshot_page fund_env (Addr 3) 7 50 snapshot_vault = (Ok page, s')"
    by (auto simp: export_full_snapshot_page_def act_ok snapshot_vault_facts stored_admin_def [symmetric] Let_def MAX_EXPORT_LIMIT_def)
  obtain x where x: "each restore_one (fp_subscriptions page) snapshot_vault = (Ok (), x)" using restore_runs by blast
  obtain y where y: "each restore_balance (fp_balances page) x = (Ok (), y)" using restore_runs by blast
  have bump: "\<exists>z. (if c then mod_admin f else ret ()) y = (Ok (), z)" for c f by (simp add: mod_admin_def basic_ok)
  have "\<exists>t. restore_snapshot_page fund_env (Addr 3) 7 (fp_subscriptions page) (fp_balances page) snapshot_vault = (Ok (), t)"
    using bump x y
    by (simp add: restore_snapshot_page_def act_ok get_emergency_stop_def snapshot_vault_facts stored_admin_def [symmetric] Let_def)
  then obtain t where restored:
    "restore_snapshot_page fund_env (Addr 3) 7 (fp_subscriptions page) (fp_balances page) snapshot_vault = (Ok (), t)" ..
  from snapshot_roundtrip [OF exported restored refl] exported restored show ?thesis
    by (simp add: snapshot_vault_facts sat_add_u32_def u32_max_def)
qed

end
