(* ===== verification/History.thy ===== *)
theory History
  imports Entry_Claims Entry_Delegates
begin

text \<open>
  What no call of the contract ever takes back: a relation between the vaults before and after, kept by every operation.
\<close>

named_theorems grow_intro \<open>an action moves the state along a relation\<close>

definition grows :: "('s \<Rightarrow> 's \<Rightarrow> bool) \<Rightarrow> ('s, 'e, 'a) act \<Rightarrow> bool" where
  "grows R m \<longleftrightarrow> (\<forall>s. fst (m s) \<noteq> Panic \<longrightarrow> R s (snd (m s)))"

lemma growsD: "grows R m \<Longrightarrow> m s = (r, t) \<Longrightarrow> r \<noteq> Panic \<Longrightarrow> R s t"
  by (metis grows_def fst_conv snd_conv)

locale history =
  fixes R :: "'s \<Rightarrow> 's \<Rightarrow> bool"
  assumes stays: "R s s" and follows: "R s t \<Longrightarrow> R t u \<Longrightarrow> R s u"
begin

lemma grows_basic [grow_intro]:
  "grows R (ret a)" "grows R (fail e)" "grows R panic" "grows R (gets h)" "grows R (lift r)" "grows R (check c e)" "grows R (ok_or x e)"
  by (auto simp: grows_def run_simps check_def ok_or_def stays split: option.splits)

lemma grows_bnd [grow_intro]:
  assumes "grows R m" and "\<And>a. grows R (f a)"
  shows "grows R (bnd m f)"
  unfolding grows_def
proof (intro allI impI)
  fix s
  assume ok: "fst (bnd m f s) \<noteq> Panic"
  obtain r t where run: "m s = (r, t)" by (cases "m s")
  with ok have "r \<noteq> Panic" by (auto simp: bnd_def)
  with assms(1) run have "R s t" by (metis grows_def fst_conv snd_conv)
  with ok run assms(2) show "R s (snd (bnd m f s))"
    by (cases r) (auto simp: bnd_def grows_def intro: follows)
qed

lemma grows_thn [grow_intro]: "grows R m \<Longrightarrow> grows R n \<Longrightarrow> grows R (thn m n)"
  unfolding thn_def by (rule grows_bnd)

lemma grows_modify: "(\<And>s. R s (h s)) \<Longrightarrow> grows R (modify h)"
  by (simp add: grows_def run_simps)

lemma grows_if [grow_intro]: "grows R m \<Longrightarrow> grows R n \<Longrightarrow> grows R (if c then m else n)"
  by simp

lemma grows_case [grow_intro]:
  "grows R m \<Longrightarrow> (\<And>a. grows R (f a)) \<Longrightarrow> grows R (case x of None \<Rightarrow> m | Some a \<Rightarrow> f a)"
  "(\<And>a. grows R (g a)) \<Longrightarrow> (\<And>b. grows R (h b)) \<Longrightarrow> grows R (case y of Inl a \<Rightarrow> g a | Inr b \<Rightarrow> h b)"
  "(\<And>a b. grows R (k a b)) \<Longrightarrow> grows R (case z of (a, b) \<Rightarrow> k a b)"
  "grows R m \<Longrightarrow> (\<And>x xs. grows R (l x xs)) \<Longrightarrow> grows R (case w of [] \<Rightarrow> m | x # xs \<Rightarrow> l x xs)"
  "(\<And>a. grows R (p a)) \<Longrightarrow> (\<And>e. grows R (q e)) \<Longrightarrow> grows R n \<Longrightarrow> grows R (case r of Ok a \<Rightarrow> p a | Err e \<Rightarrow> q e | Panic \<Rightarrow> n)"
  by (simp_all split: option.split sum.split prod.split list.split outcome.split)

lemma grows_attempt [grow_intro]: "grows R m \<Longrightarrow> grows R (attempt m)"
  unfolding grows_def [of R "attempt m"]
  by (auto simp: attempt_def split: prod.splits outcome.splits intro: growsD)

lemma grows_each [grow_intro]: "(\<And>x. grows R (f x)) \<Longrightarrow> grows R (each f xs)"
  by (induction xs) (auto intro: grow_intro)

lemma grows_zoom [grow_intro]: "(\<And>s v. R s (u (\<lambda>_. v) s)) \<Longrightarrow> grows R (zoom g u m)"
  by (auto simp: grows_def zoom_def split: prod.splits)

lemma grows_let [grow_intro]: "(\<And>x. grows R (f x)) \<Longrightarrow> grows R (Let a f)"
  by simp

lemma tx_grows: "grows R m \<Longrightarrow> R s (snd (tx m s))"
  by (cases rule: tx_cases [of m s]) (auto simp: stays dest: growsD)

end

section \<open>What only grows\<close>

definition split_sound :: "(address \<times> nat) list \<Rightarrow> bool" where
  "split_sound l \<longleftrightarrow> l \<noteq> [] \<and> sum_list (map snd l) = 10000 \<and> (\<forall>(p, w) \<in> set l. 0 < w)"

definition splits_sound :: "vault \<Rightarrow> bool" where
  "splits_sound v \<longleftrightarrow> (\<forall>i l. su_split_payees (v_subs v) i = Some l \<longrightarrow> split_sound l)"

text \<open>
  What the contract never takes back: the locks are as before, nonces only rise, the event log is only extended, and used
  recovery ids, charged usage references and stored subscriptions stay; payee splits stay well formed.
\<close>

definition remembers :: "vault \<Rightarrow> vault \<Rightarrow> bool" where
  "remembers s t \<longleftrightarrow> v_locks t = v_locks s \<and> (\<forall>a d. stored_nonce s a d \<le> stored_nonce t a d) \<and>
     (\<exists>l. v_events t = v_events s @ l) \<and> (\<forall>r. ad_recoveries (v_admin s) r \<longrightarrow> ad_recoveries (v_admin t) r) \<and>
     (\<forall>i r. ch_usage_ref (v_charge s) i r \<longrightarrow> ch_usage_ref (v_charge t) i r) \<and> (splits_sound s \<longrightarrow> splits_sound t) \<and>
     (\<forall>i. su_sub (v_subs t) i = None \<longrightarrow> su_sub (v_subs s) i = None)"

text \<open>
  The rest belongs to a few calls: only one shortens the life of an idempotency key, only one proposes an admin, only one names the recipient of
  a subscription.
\<close>

datatype (plugins only: code) power = Sets_Ttl | Names_Admin | Names_Owner

definition keys_kept :: "nat \<Rightarrow> idem_store \<Rightarrow> idem_store \<Rightarrow> bool" where
  "keys_kept now s t \<longleftrightarrow> get_ttl_secs t = get_ttl_secs s \<and>
     (\<forall>i e. e \<in> set (ib_entries (load_buffer s i)) \<longrightarrow> now - snd e < get_ttl_secs s \<longrightarrow> e \<in> set (ib_entries (load_buffer t i)))"

definition kept_or_gone :: "('a \<Rightarrow> 'b option) \<Rightarrow> ('a \<Rightarrow> 'b option) \<Rightarrow> bool" where
  "kept_or_gone f g \<longleftrightarrow> (\<forall>i. g i = f i \<or> g i = None)"

lemma kept_or_gone [simp]: "kept_or_gone f f" "kept_or_gone f (f(i := None))"
  by (simp_all add: kept_or_gone_def)

lemma kept_or_gone_trans: "kept_or_gone f g \<Longrightarrow> kept_or_gone g h \<Longrightarrow> kept_or_gone f h"
  unfolding kept_or_gone_def by metis

lemma keys_kept_refl [simp]: "keys_kept now s s"
  by (simp add: keys_kept_def)

lemma keys_kept_trans: "keys_kept now s t \<Longrightarrow> keys_kept now t u \<Longrightarrow> keys_kept now s u"
  unfolding keys_kept_def by simp

definition withholds :: "power set \<Rightarrow> env \<Rightarrow> vault \<Rightarrow> vault \<Rightarrow> bool" where
  "withholds P E s t \<longleftrightarrow> (Sets_Ttl \<notin> P \<longrightarrow> keys_kept (e_timestamp E) (v_idem s) (v_idem t)) \<and>
     (Names_Admin \<notin> P \<longrightarrow> pending_handover t = pending_handover s \<or> pending_handover t = None) \<and>
     (Names_Owner \<notin> P \<longrightarrow> kept_or_gone (lf_transfer_intent (v_life s)) (lf_transfer_intent (v_life t)))"

text \<open>And, with a token that follows the standard, a call takes tokens from nobody who did not authorise it.\<close>

definition evolves :: "power set \<Rightarrow> env \<Rightarrow> vault \<Rightarrow> vault \<Rightarrow> bool" where
  "evolves P E s t \<longleftrightarrow> remembers s t \<and> withholds P E s t \<and>
     (sep41 E \<longrightarrow> (\<forall>tk a. a \<noteq> e_self E \<longrightarrow> \<not> e_auth E a \<longrightarrow> v_ledger s tk a \<le> v_ledger t tk a))"

lemma withholds_refl [simp]: "withholds P E s s"
  by (simp add: withholds_def)

lemma withholds_trans: "withholds P E s t \<Longrightarrow> withholds P E t u \<Longrightarrow> withholds P E s u"
  unfolding withholds_def by (metis keys_kept_trans kept_or_gone_trans)

lemma withholds_same:
  "v_idem t = v_idem s \<Longrightarrow> pending_handover t = pending_handover s \<Longrightarrow> v_life t = v_life s \<Longrightarrow> withholds P E s t"
  by (simp add: withholds_def)

lemma evolves_refl: "evolves P E s s"
  by (simp add: evolves_def remembers_def)

lemma evolves_trans: "evolves P E s t \<Longrightarrow> evolves P E t u \<Longrightarrow> evolves P E s u"
  unfolding evolves_def remembers_def by (metis append.assoc order_trans withholds_trans)

interpretation hist: history "evolves P E" for P E
  by unfold_locales (rule evolves_refl, rule evolves_trans)

text \<open>What a plain write has to leave alone: it removes no recovery id, usage reference or subscription and adds no split.\<close>

definition tame :: "power set \<Rightarrow> vault \<Rightarrow> vault \<Rightarrow> bool" where
  "tame P s t \<longleftrightarrow> v_idem t = v_idem s \<and> (Names_Admin \<in> P \<or> pending_handover t = pending_handover s \<or> pending_handover t = None) \<and>
     (Names_Owner \<in> P \<or> kept_or_gone (lf_transfer_intent (v_life s)) (lf_transfer_intent (v_life t))) \<and>
     v_locks t = v_locks s \<and> v_nonce t = v_nonce s \<and> v_events t = v_events s \<and> v_ledger t = v_ledger s \<and>
     (\<forall>r. ad_recoveries (v_admin s) r \<longrightarrow> ad_recoveries (v_admin t) r) \<and>
     (\<forall>i r. ch_usage_ref (v_charge s) i r \<longrightarrow> ch_usage_ref (v_charge t) i r) \<and>
     (\<forall>i l. su_split_payees (v_subs t) i = Some l \<longrightarrow> su_split_payees (v_subs s) i = Some l) \<and>
     (\<forall>i. su_sub (v_subs t) i = None \<longrightarrow> su_sub (v_subs s) i = None)"

lemma tame_evolves:
  assumes "tame P s t"
  shows "evolves P E s t"
proof -
  from assms have "splits_sound s \<Longrightarrow> splits_sound t" unfolding tame_def splits_sound_def by blast
  then show ?thesis using assms by (auto simp: tame_def evolves_def withholds_def remembers_def stored_nonce_def)
qed

lemma grows_tame: "(\<And>s. tame P s (h s)) \<Longrightarrow> grows (evolves P E) (modify h)"
  by (intro hist.grows_modify tame_evolves)

lemma grows_mod_admin [grow_intro]:
  "(\<And>a r. ad_recoveries a r \<Longrightarrow> ad_recoveries (g a) r) \<Longrightarrow>
   (\<And>a. Names_Admin \<in> P \<or> ad_admin_proposal (g a) = ad_admin_proposal a \<or> ad_admin_proposal (g a) = None) \<Longrightarrow>
   grows (evolves P E) (mod_admin g)"
  unfolding mod_admin_def by (rule grows_tame) (simp add: tame_def)

lemma grows_mod_charge [grow_intro]:
  "(\<And>c i r. ch_usage_ref c i r \<Longrightarrow> ch_usage_ref (h c) i r) \<Longrightarrow> grows (evolves P E) (mod_charge h)"
  unfolding mod_charge_def by (rule grows_tame) (simp add: tame_def)

lemma grows_mod_subs [grow_intro]:
  assumes "\<And>u i l. su_split_payees (f u) i = Some l \<Longrightarrow> su_split_payees u i = Some l"
    and "\<And>u i. su_sub (f u) i = None \<Longrightarrow> su_sub u i = None"
  shows "grows (evolves P E) (mod_subs f)"
  unfolding mod_subs_def
proof (rule grows_tame)
  show "tame P s (s\<lparr>v_subs := f (v_subs s)\<rparr>)" for s
    using assms(1) [of "v_subs s"] assms(2) [of "v_subs s"] by (simp add: tame_def)
qed

lemma grows_free_stores [grow_intro]:
  "grows (evolves P E) (mod_merchant m)" "grows (evolves P E) (mod_gov k)" "grows (evolves P E) (mod_coupon n)"
  "grows (evolves P E) (mod_dispute q)" "grows (evolves P E) (mod_meta p)" "grows (evolves P E) (write_subscription i sub)"
  "grows (evolves P E) (modify (\<lambda>v. v\<lparr>v_blocklist := b v\<rparr>))"
  by (auto simp: mod_merchant_def mod_gov_def write_subscription_def mod_coupon_def mod_dispute_def mod_meta_def tame_def
      intro!: grows_tame split: if_splits)

lemma grows_mod_life [grow_intro]:
  "(\<And>x. Names_Owner \<in> P \<or> kept_or_gone (lf_transfer_intent x) (lf_transfer_intent (f x))) \<Longrightarrow> grows (evolves P E) (mod_life f)"
  unfolding mod_life_def by (rule grows_tame) (simp add: tame_def)

lemma grows_idem_zoom:
  assumes "\<And>s r t. m s = (r, t) \<Longrightarrow> Sets_Ttl \<in> P \<or> keys_kept (e_timestamp E) s t"
  shows "grows (evolves P E) (zoom v_idem v_idem_update m)"
proof -
  have "evolves P E s (snd (zoom v_idem v_idem_update m s))" for s
    using assms [of "v_idem s" "fst (m (v_idem s))" "snd (m (v_idem s))"]
    by (auto simp: zoom_def evolves_def remembers_def withholds_def stored_nonce_def splits_sound_def split: prod.split)
  then show ?thesis by (simp add: grows_def)
qed

lemma grows_push_key [grow_intro]:
  assumes "now \<le> e_timestamp E"
  shows "grows (evolves P E) (zoom v_idem v_idem_update (push_key i h now))"
proof (rule grows_idem_zoom, rule disjI2)
  fix s r t
  assume "push_key i h now s = (r, t)"
  then have "t = s \<or> push_key i h now s = (Ok (), t)"
    by (cases r) (auto simp: push_key_def save_buffer_def act_run Let_def split: if_split_asm)
  then show "keys_kept (e_timestamp E) s t"
  proof
    assume "push_key i h now s = (Ok (), t)"
    then have t: "get_ttl_secs t = get_ttl_secs s" "load_buffer t j = (if j = i then
        \<lparr>ib_entries = prune_expired (get_ttl_secs s) now (load_buffer s i) @ [(h, now)], ib_cursor = 0\<rparr> else load_buffer s j)" for j
      by (auto simp: push_key_ok get_ttl_secs_def load_buffer_def)
    show ?thesis using assms by (auto simp: keys_kept_def t set_prune_expired)
  qed simp
qed

lemma grows_zooms [grow_intro]:
  "Sets_Ttl \<in> P \<Longrightarrow> grows (evolves P E) (zoom v_idem v_idem_update (set_ttl_secs n))" "grows (evolves P E) (zoom v_stmt v_stmt_update q)" "grows (evolves P E) (zoom v_snap v_snap_update p)"
  by (auto intro: grows_idem_zoom) (auto intro!: hist.grows_zoom tame_evolves simp: tame_def)

lemma grows_publish [grow_intro]: "grows (evolves P E) (publish e)"
  by (auto simp: publish_def evolves_def withholds_def remembers_def stored_nonce_def splits_sound_def intro!: hist.grows_modify)

lemma grows_auth [grow_intro]:
  "grows (evolves P E) (require_auth E a)" "(e_auth E a \<Longrightarrow> grows (evolves P E) m) \<Longrightarrow> grows (evolves P E) (thn (require_auth E a) m)"
  by (auto simp: require_auth_def thn_def grow_intro)

text \<open>A token moves out of the vault, or out of the hands of someone who authorised the call.\<close>

lemma grows_transfer [grow_intro]:
  assumes "x = e_self E \<or> e_auth E x"
  shows "grows (evolves P E) (token_transfer E tk x y n)"
proof -
  have "evolves P E s t" if "token_transfer E tk x y n s = (r, t)" "r \<noteq> Panic" for s r t
  proof -
    from that obtain l where l: "e_transfer E tk x y n (v_ledger s) = Some l" "t = s\<lparr>v_ledger := l\<rparr>"
      by (auto simp: token_transfer_def act_run split: option.splits)
    have "v_ledger s tk' a \<le> l tk' a" if "sep41 E" "a \<noteq> e_self E" "\<not> e_auth E a" for tk' a
    proof -
      from that(1) l(1) have "0 \<le> n" "l = (v_ledger s)(tk := ((v_ledger s tk)(x := v_ledger s tk x - n))
          (y := ((v_ledger s tk)(x := v_ledger s tk x - n)) y + n))"
        unfolding sep41_def by blast+
      with that assms show ?thesis by auto
    qed
    with l(2) show ?thesis by (simp add: evolves_def withholds_def remembers_def stored_nonce_def splits_sound_def)
  qed
  then show ?thesis by (simp add: grows_def) (metis prod.collapse)
qed

lemma grows_nonce [grow_intro]: "grows (evolves P E) (check_and_advance E' a d n)"
proof -
  have "evolves P E s t" if "check_and_advance E' a d n s = (r, t)" "r \<noteq> Panic" for s r t
  proof (cases "compute_next_nonce (stored_nonce s a (as_u32 d)) n")
    case (Ok m)
    with that have "t = s\<lparr>v_nonce := (v_nonce s)(a := (v_nonce s a)(as_u32 d \<mapsto> m)),
        v_events := v_events s @ [AdminEv (Ev_nonce_consumed a (as_u32 d) (stored_nonce s a (as_u32 d)) (e_timestamp E'))]\<rparr>"
      by (auto simp: check_and_advance_def act_run Let_def publish_def)
    with Ok show ?thesis by (auto simp: evolves_def withholds_def remembers_def stored_nonce_def splits_sound_def)
  qed (use that in \<open>auto simp: check_and_advance_def act_run Let_def evolves_refl\<close>)
  then show ?thesis by (simp add: grows_def) (metis prod.collapse)
qed

section \<open>Guards, locks and splits\<close>

text \<open>A guard that returned tells something about what runs after it.\<close>

lemma grows_after:
  assumes "grows (evolves P E) m" and "\<And>s a t. m s = (Ok a, t) \<Longrightarrow> Q" and "\<And>a. Q \<Longrightarrow> grows (evolves P E) (f a)"
  shows "grows (evolves P E) (bnd m f)"
proof (cases Q)
  case True
  then show ?thesis using assms by (intro hist.grows_bnd)
next
  case False
  then have "fst (m s) \<noteq> Ok a" for s a using assms(2) [of s a] by (cases "m s") auto
  then have "fst (bnd m f s) \<noteq> Panic \<Longrightarrow> fst (m s) \<noteq> Panic \<and> snd (bnd m f s) = snd (m s)" for s
    by (auto simp: bnd_def split: prod.split outcome.split) (metis fst_conv)+
  with assms(1) show ?thesis by (simp add: grows_def)
qed

lemma grows_lock [grow_intro]:
  assumes "grows (evolves P E) m"
  shows "grows (evolves P E) (with_lock n m)"
proof -
  have "evolves P E s t" if run: "with_lock n m s = (r, t)" "r \<noteq> Panic" for s r t
  proof (cases "v_locks s n")
    case True
    with run show ?thesis by (simp add: with_lock_def lock_def act_run evolves_refl)
  next
    case False
    let ?s = "s\<lparr>v_locks := (v_locks s)(n := True)\<rparr>"
    obtain q u where m: "m ?s = (q, u)" by (cases "m ?s")
    with False run have q: "q \<noteq> Panic" and t: "t = release n u"
      by (auto simp: with_lock_def lock_def act_run split: outcome.splits)
    from growsD [OF assms m q] have "evolves P E ?s u" .
    moreover from this have "(v_locks u)(n := False) = v_locks s" using False by (auto simp: evolves_def remembers_def fun_eq_iff)
    ultimately show ?thesis by (simp add: t release_def evolves_def withholds_def remembers_def stored_nonce_def splits_sound_def)
  qed
  then show ?thesis by (simp add: grows_def) (metis prod.collapse)
qed

end
