(* ===== verification/Contract_History.thy ===== *)
theory Contract_History
  imports History_Ops
begin

text \<open>
  The contract as a whole: one constructor per entry point of \<^verbatim>\<open>src/lib.rs\<close> that can write, the transaction that calls
  it, and what no sequence of transactions takes back. Of the entry points that write only the storage time-to-live setting is left out.
\<close>

section \<open>The calls\<close>

datatype (plugins only: code) admin_call =
    X_Init address nat address int nat
  | X_SetMinTopup address int
  | X_SetGracePeriod address nat
  | X_SetOperator address address
  | X_RemoveOperator address
  | X_CancelAdminProposal address
  | X_RotateMerchantAddress address address address nat
  | X_SetOracleConfig address bool "address option" nat oracle_kind nat nat nat
  | X_RecoverStrandedFunds address address address int bytes
  | X_EnableEmergencyStop address
  | X_DisableEmergencyStop address
  | X_Migrate address bool
  | X_MigrateConfigToPersistent address
  | X_SetDisputeWindowSecs address nat
  | X_AddAcceptedToken address address nat
  | X_RemoveAcceptedToken address address
  | X_QueueTreasuryChange address address nat
  | X_ExecuteTreasuryChange address
  | X_CancelTreasuryChange address
  | X_SetProtocolFee address address nat
  | X_SetIdempotencyTtl address nat
  | X_SetBillingRetention address nat
  | X_CompactBillingStatements address nat "nat option"
  | X_EmitOracleLiveness

datatype (plugins only: code) limit_call =
    X_SetSubscriberCreditLimit address address address int
  | X_SetSubscriberActiveCap address address "nat option"
  | X_SetSubscriberCreateCap address nat
  | X_SetMerchantMaxSubs address address nat
  | X_SetGlobalCapDefault address "int option"
  | X_SetMerchantCapDefault address "int option"
  | X_UpdateSubscriptionCap address nat "int option"
  | X_AddToBlocklist address address "bytes option"
  | X_RemoveFromBlocklist address address
  | X_ExportContractSnapshot address
  | X_ExportSubscriptionSummary address nat
  | X_ExportSubscriptionSummaries address nat nat
  | X_ExportFullSnapshotPage address nat nat
  | X_RestoreSnapshotPage address nat "subscription_summary list" "merchant_balance_entry list"

datatype (plugins only: code) vote_call =
    X_SubmitProposal proposal_kind address "address option" nat nat nat
  | X_VoteProposal nat bool nat
  | X_ExecuteProposal nat
  | X_CancelProposal nat
  | X_AddGuardian address address nat
  | X_RemoveGuardian address address

datatype (plugins only: code) status_call =
    X_BulkCancelSubscriptions address "nat list" nat
  | X_BulkPauseSubscriptions address "nat list" nat
  | X_CancelSubscription nat address
  | X_PauseSubscription nat address
  | X_ResumeSubscription nat address
  | X_SetAutoRenew nat address bool
  | X_ScheduleCancel nat address nat
  | X_UnscheduleCancel nat address
  | X_SetSubscriptionExpirationLedger nat address "nat option"
  | X_RequestEmergencyWithdraw nat address
  | X_FinalizeEmergencyWithdraw nat address
  | X_WithdrawSubscriberFunds nat address
  | X_CleanupSubscription nat address
  | X_InitiateTransfer nat address address nat
  | X_AcceptTransfer nat address
  | X_VetoTransfer nat address
  | X_ConfigureUsageLimits address nat "nat option" nat nat "int option"
  | X_MigrateSubscriptionToPlan address nat nat
  | X_RevokeDelegatedPayer address address

datatype (plugins only: code) plan_call =
    X_CreatePlanTemplate address int nat bool "int option"
  | X_CreatePlanTemplateWithToken address address int nat bool "int option"
  | X_UpdatePlanTemplate address nat int nat bool "int option"
  | X_SetPlanMaxActiveSubs address nat nat
  | X_DeprecatePlan address nat

datatype (plugins only: code) merchant_call =
    X_MerchantRefund address address address int
  | X_PauseMerchant address
  | X_UnpauseMerchant address
  | X_SetTagAllowlist address "symbol list"
  | X_SetMerchantTags address address "symbol list"
  | X_SetMerchantVacation address nat nat
  | X_ClearMerchantVacation address
  | X_SetPayoutSchedule address nat int
  | X_RegisterSubAccount address symbol
  | X_WithdrawSubAccountFunds address symbol address int
  | X_InitializeMerchantConfig address address int int "address option" string
  | X_SetMerchantConfig address merchant_config
  | X_UpdateMerchantConfig address "address option" "int option" "int option" "bool option" "(address option) option" "string option" "bool option"

datatype (plugins only: code) case_call =
    X_OpenDispute address nat int "bytes option"
  | X_RespondDispute address nat "bytes option"
  | X_ResolveDispute address nat bool
  | X_ClaimCancellationEscrow address nat
  | X_LodgeEscrowDispute address nat
  | X_SetMetadata nat address bytes bytes
  | X_SetMetadataSigned signing bytes signed_metadata_payload bytes
  | X_DeleteMetadata nat address bytes

primrec run_admin_call :: "env \<Rightarrow> admin_call \<Rightarrow> unit vm" where
  "run_admin_call E (X_Init token token_decimals admin min_topup grace_period) =
     drop_result (entry_init E token token_decimals admin min_topup grace_period)"
| "run_admin_call E (X_SetMinTopup admin min_topup) = drop_result (entry_set_min_topup E admin min_topup)"
| "run_admin_call E (X_SetGracePeriod admin grace_period) = drop_result (entry_set_grace_period E admin grace_period)"
| "run_admin_call E (X_SetOperator admin op) = drop_result (entry_set_operator E admin op)"
| "run_admin_call E (X_RemoveOperator admin) = drop_result (entry_remove_operator E admin)"
| "run_admin_call E (X_CancelAdminProposal admin) = drop_result (entry_cancel_admin_proposal E admin)"
| "run_admin_call E (X_RotateMerchantAddress admin old_merchant new_merchant nonce) =
     drop_result (entry_rotate_merchant_address E admin old_merchant new_merchant nonce)"
| "run_admin_call E (X_SetOracleConfig admin enabled oracle_addr max_age kind window_secs fixed_numerator fixed_denominator) =
     drop_result (entry_set_oracle_config E admin enabled oracle_addr max_age kind window_secs fixed_numerator fixed_denominator)"
| "run_admin_call E (X_RecoverStrandedFunds admin token recipient amount recovery_id) =
     drop_result (entry_recover_stranded_funds E admin token recipient amount recovery_id)"
| "run_admin_call E (X_EnableEmergencyStop admin) = drop_result (enable_emergency_stop E admin)"
| "run_admin_call E (X_DisableEmergencyStop admin) = drop_result (disable_emergency_stop E admin)"
| "run_admin_call E (X_Migrate admin dry_run) = drop_result (entry_migrate E admin dry_run)"
| "run_admin_call E (X_MigrateConfigToPersistent admin) = drop_result (entry_migrate_config_to_persistent E admin)"
| "run_admin_call E (X_SetDisputeWindowSecs admin window_secs) =
     drop_result (entry_set_dispute_window_secs E admin window_secs)"
| "run_admin_call E (X_AddAcceptedToken admin token decimals) =
     drop_result (entry_add_accepted_token E admin token decimals)"
| "run_admin_call E (X_RemoveAcceptedToken admin token) = drop_result (entry_remove_accepted_token E admin token)"
| "run_admin_call E (X_QueueTreasuryChange admin treasury fee_bps) =
     drop_result (entry_queue_treasury_change E admin treasury fee_bps)"
| "run_admin_call E (X_ExecuteTreasuryChange admin) = drop_result (entry_execute_treasury_change E admin)"
| "run_admin_call E (X_CancelTreasuryChange admin) = drop_result (entry_cancel_treasury_change E admin)"
| "run_admin_call E (X_SetProtocolFee admin treasury fee_bps) =
     drop_result (entry_set_protocol_fee E admin treasury fee_bps)"
| "run_admin_call E (X_SetIdempotencyTtl admin ttl_secs) = drop_result (set_idempotency_ttl E admin ttl_secs)"
| "run_admin_call E (X_SetBillingRetention admin keep_recent) = drop_result (set_billing_retention E admin keep_recent)"
| "run_admin_call E (X_CompactBillingStatements admin i keep_recent_override) =
     drop_result (compact_billing_statements E admin i keep_recent_override)"
| "run_admin_call E X_EmitOracleLiveness = drop_result (entry_emit_oracle_liveness E)"

primrec run_limit_call :: "env \<Rightarrow> limit_call \<Rightarrow> unit vm" where
  "run_limit_call E (X_SetSubscriberCreditLimit admin subscriber token limit) =
     drop_result (entry_set_subscriber_credit_limit E admin subscriber token limit)"
| "run_limit_call E (X_SetSubscriberActiveCap admin subscriber cap) =
     drop_result (entry_set_subscriber_active_cap E admin subscriber cap)"
| "run_limit_call E (X_SetSubscriberCreateCap admin cap) = drop_result (entry_set_subscriber_create_cap E admin cap)"
| "run_limit_call E (X_SetMerchantMaxSubs admin merchant max_subs) =
     drop_result (entry_set_merchant_max_subs E admin merchant max_subs)"
| "run_limit_call E (X_SetGlobalCapDefault admin cap) = drop_result (entry_set_global_cap_default E admin cap)"
| "run_limit_call E (X_SetMerchantCapDefault merchant cap) = drop_result (entry_set_merchant_cap_default E merchant cap)"
| "run_limit_call E (X_UpdateSubscriptionCap admin i new_cap) =
     drop_result (entry_update_subscription_cap E admin i new_cap)"
| "run_limit_call E (X_AddToBlocklist authorizer subscriber reason) =
     drop_result (entry_add_to_blocklist E authorizer subscriber reason)"
| "run_limit_call E (X_RemoveFromBlocklist admin subscriber) = drop_result (entry_remove_from_blocklist E admin subscriber)"
| "run_limit_call E (X_ExportContractSnapshot admin) = drop_result (export_contract_snapshot E admin)"
| "run_limit_call E (X_ExportSubscriptionSummary admin i) = drop_result (export_subscription_summary E admin i)"
| "run_limit_call E (X_ExportSubscriptionSummaries admin start_id limit) =
     drop_result (export_subscription_summaries E admin start_id limit)"
| "run_limit_call E (X_ExportFullSnapshotPage admin start_id size0) =
     drop_result (export_full_snapshot_page E admin start_id size0)"
| "run_limit_call E (X_RestoreSnapshotPage admin start_id subs balances) =
     drop_result (restore_snapshot_page E admin start_id subs balances)"

primrec run_vote_call :: "env \<Rightarrow> vote_call \<Rightarrow> unit vm" where
  "run_vote_call E (X_SubmitProposal kind target target2 target3 quorum_bps eta) =
     drop_result (entry_submit_proposal E kind target target2 target3 quorum_bps eta)"
| "run_vote_call E (X_VoteProposal n voted_yes nonce) = drop_result (entry_vote_proposal E n voted_yes nonce)"
| "run_vote_call E (X_ExecuteProposal n) = drop_result (entry_execute_proposal E n)"
| "run_vote_call E (X_CancelProposal n) = drop_result (entry_cancel_proposal E n)"
| "run_vote_call E (X_AddGuardian admin guardian weight) = drop_result (entry_add_guardian E admin guardian weight)"
| "run_vote_call E (X_RemoveGuardian admin guardian) = drop_result (entry_remove_guardian E admin guardian)"

primrec run_status_call :: "env \<Rightarrow> status_call \<Rightarrow> unit vm" where
  "run_status_call E (X_BulkCancelSubscriptions caller ids nonce) =
     drop_result (entry_bulk_cancel_subscriptions E caller ids nonce)"
| "run_status_call E (X_BulkPauseSubscriptions caller ids nonce) =
     drop_result (entry_bulk_pause_subscriptions E caller ids nonce)"
| "run_status_call E (X_CancelSubscription i authorizer) = drop_result (entry_cancel_subscription E i authorizer)"
| "run_status_call E (X_PauseSubscription i authorizer) = drop_result (entry_pause_subscription E i authorizer)"
| "run_status_call E (X_ResumeSubscription i authorizer) = drop_result (entry_resume_subscription E i authorizer)"
| "run_status_call E (X_SetAutoRenew i authorizer enabled) = drop_result (entry_set_auto_renew E i authorizer enabled)"
| "run_status_call E (X_ScheduleCancel i authorizer cancel_at) =
     drop_result (entry_schedule_cancel E i authorizer cancel_at)"
| "run_status_call E (X_UnscheduleCancel i authorizer) = drop_result (entry_unschedule_cancel E i authorizer)"
| "run_status_call E (X_SetSubscriptionExpirationLedger i authorizer expires_at_ledger) =
     drop_result (entry_set_subscription_expiry_ledger E i authorizer expires_at_ledger)"
| "run_status_call E (X_RequestEmergencyWithdraw i subscriber) =
     drop_result (entry_request_emergency_withdraw E i subscriber)"
| "run_status_call E (X_FinalizeEmergencyWithdraw i subscriber) =
     drop_result (entry_finalize_emergency_withdraw E i subscriber)"
| "run_status_call E (X_WithdrawSubscriberFunds i subscriber) =
     drop_result (entry_withdraw_subscriber_funds E i subscriber)"
| "run_status_call E (X_CleanupSubscription i authorizer) = drop_result (entry_cleanup_subscription E i authorizer)"
| "run_status_call E (X_InitiateTransfer i sender recipient expires_at) =
     drop_result (entry_initiate_transfer E i sender recipient expires_at)"
| "run_status_call E (X_AcceptTransfer i recipient) = drop_result (entry_accept_transfer E i recipient)"
| "run_status_call E (X_VetoTransfer i merchant) = drop_result (entry_veto_transfer E i merchant)"
| "run_status_call E (X_ConfigureUsageLimits merchant i max_calls window_secs burst_secs cap_units) =
     drop_result (entry_configure_usage_limits E merchant i max_calls window_secs burst_secs cap_units)"
| "run_status_call E (X_MigrateSubscriptionToPlan subscriber i new_p) =
     drop_result (entry_migrate_subscription_to_plan E subscriber i new_p)"
| "run_status_call E (X_RevokeDelegatedPayer subscriber payer) =
     drop_result (entry_revoke_delegated_payer E subscriber payer)"

primrec run_plan_call :: "env \<Rightarrow> plan_call \<Rightarrow> unit vm" where
  "run_plan_call E (X_CreatePlanTemplate merchant amount interval_seconds usage_enabled lifetime_cap) =
     drop_result (entry_create_plan_template E merchant amount interval_seconds usage_enabled lifetime_cap)"
| "run_plan_call E (X_CreatePlanTemplateWithToken merchant token amount interval_seconds usage_enabled lifetime_cap) =
     drop_result (entry_create_plan_template_with_token E merchant token amount interval_seconds usage_enabled lifetime_cap)"
| "run_plan_call E (X_UpdatePlanTemplate merchant p amount interval_seconds usage_enabled lifetime_cap) =
     drop_result (entry_update_plan_template E merchant p amount interval_seconds usage_enabled lifetime_cap)"
| "run_plan_call E (X_SetPlanMaxActiveSubs merchant p max_active) =
     drop_result (entry_set_plan_max_active_subs E merchant p max_active)"
| "run_plan_call E (X_DeprecatePlan merchant plan_id) = drop_result (entry_deprecate_plan E merchant plan_id)"

primrec run_merchant_call :: "env \<Rightarrow> merchant_call \<Rightarrow> unit vm" where
  "run_merchant_call E (X_MerchantRefund merchant subscriber token amount) =
     drop_result (entry_merchant_refund E merchant subscriber token amount)"
| "run_merchant_call E (X_PauseMerchant merchant) = drop_result (entry_pause_merchant E merchant)"
| "run_merchant_call E (X_UnpauseMerchant merchant) = drop_result (entry_unpause_merchant E merchant)"
| "run_merchant_call E (X_SetTagAllowlist admin tags) = drop_result (entry_set_tag_allowlist E admin tags)"
| "run_merchant_call E (X_SetMerchantTags admin merchant tags) = drop_result (entry_set_merchant_tags E admin merchant tags)"
| "run_merchant_call E (X_SetMerchantVacation merchant start_ts end_ts) =
     drop_result (entry_set_merchant_vacation E merchant start_ts end_ts)"
| "run_merchant_call E (X_ClearMerchantVacation merchant) = drop_result (entry_clear_merchant_vacation E merchant)"
| "run_merchant_call E (X_SetPayoutSchedule merchant cadence_seconds min_payout) =
     drop_result (entry_set_payout_schedule E merchant cadence_seconds min_payout)"
| "run_merchant_call E (X_RegisterSubAccount merchant label) = drop_result (entry_register_sub_account E merchant label)"
| "run_merchant_call E (X_WithdrawSubAccountFunds merchant label token amount) =
     drop_result (entry_withdraw_sub_account_funds E merchant label token amount)"
| "run_merchant_call E (X_InitializeMerchantConfig merchant payout_address fee_bips allowed_operations fee_address redirect_url) =
     drop_result (entry_initialize_merchant_config E merchant payout_address fee_bips allowed_operations fee_address redirect_url)"
| "run_merchant_call E (X_SetMerchantConfig merchant config) = drop_result (entry_set_merchant_config E merchant config)"
| "run_merchant_call E (X_UpdateMerchantConfig merchant new_payout_address new_fee_bips new_allowed_operations new_is_active new_fee_address new_redirect_url new_is_paused) =
     drop_result (entry_update_merchant_config E merchant new_payout_address new_fee_bips new_allowed_operations new_is_active new_fee_address new_redirect_url new_is_paused)"

primrec run_case_call :: "env \<Rightarrow> case_call \<Rightarrow> unit vm" where
  "run_case_call E (X_OpenDispute subscriber i amount evidence_hash) =
     drop_result (entry_open_dispute E subscriber i amount evidence_hash)"
| "run_case_call E (X_RespondDispute admin dispute_id evidence_hash) =
     drop_result (entry_respond_dispute E admin dispute_id evidence_hash)"
| "run_case_call E (X_ResolveDispute admin dispute_id resolve_to_subscriber) =
     drop_result (entry_resolve_dispute E admin dispute_id resolve_to_subscriber)"
| "run_case_call E (X_ClaimCancellationEscrow subscriber i) =
     drop_result (entry_claim_cancellation_escrow E subscriber i)"
| "run_case_call E (X_LodgeEscrowDispute merchant i) = drop_result (entry_lodge_escrow_dispute E merchant i)"
| "run_case_call E (X_SetMetadata i authorizer key val) = drop_result (entry_set_metadata E i authorizer key val)"
| "run_case_call E (X_SetMetadataSigned S signer_pubkey payload signature) =
     drop_result (entry_set_metadata_signed E S signer_pubkey payload signature)"
| "run_case_call E (X_DeleteMetadata i authorizer key) = drop_result (entry_delete_metadata E i authorizer key)"
datatype (plugins only: code) contract_call =
    Behind_Stop stopped_call
  | Administer admin_call
  | Limit limit_call
  | Govern vote_call
  | Manage status_call
  | Template plan_call
  | Trade merchant_call
  | Dispute case_call

primrec run_contract :: "env \<Rightarrow> contract_call \<Rightarrow> unit vm" where
  "run_contract E (Behind_Stop c) = run_stopped E c"
| "run_contract E (Administer c) = run_admin_call E c"
| "run_contract E (Limit c) = run_limit_call E c"
| "run_contract E (Govern c) = run_vote_call E c"
| "run_contract E (Manage c) = run_status_call E c"
| "run_contract E (Template c) = run_plan_call E c"
| "run_contract E (Trade c) = run_merchant_call E c"
| "run_contract E (Dispute c) = run_case_call E c"

text \<open>A transaction is a call in an environment; a failed or trapped call is rolled back.\<close>

definition submit :: "env \<times> contract_call \<Rightarrow> vault \<Rightarrow> vault" where
  "submit x v = snd (tx (run_contract (fst x) (snd x)) v)"

definition ledger_after :: "(env \<times> contract_call) list \<Rightarrow> vault \<Rightarrow> vault" where
  "ledger_after txs v = fold submit txs v"

section \<open>Every call evolves the vault\<close>

lemma grows_drop_result [grow_intro]: "grows (evolves P E) m \<Longrightarrow> grows (evolves P E) (drop_result m)"
  by (auto simp: drop_result_def intro: grow_intro)

lemma grows_guardians [grow_intro]:
  "grows (evolves P E) (entry_add_guardian E admin guardian weight)" "grows (evolves P E) (entry_remove_guardian E admin guardian)"
  by (auto simp: entry_add_guardian_def entry_remove_guardian_def intro!: grow_intro)

text \<open>The three calls with a power of their own.\<close>

fun powers :: "contract_call \<Rightarrow> power set" where
  "powers (Administer (X_SetIdempotencyTtl admin ttl_secs)) = {Sets_Ttl}"
| "powers (Behind_Stop (Opening (C_ProposeAdmin current_admin new_admin))) = {Names_Admin}"
| "powers (Manage (X_InitiateTransfer i sender recipient expires_at)) = {Names_Owner}"
| "powers _ = {}"

lemma grows_run_charge [grow_intro]: "grows (evolves P E) (run_charge E c)"
  by (cases c) (auto simp: delegate_defs intro!: grow_intro)

lemma grows_run_open [grow_intro]: "powers (Behind_Stop (Opening c)) \<subseteq> P \<Longrightarrow> grows (evolves P E) (run_open E c)"
  by (cases c) (auto simp: delegate_defs intro!: grow_intro)

lemma grows_run_money [grow_intro]: "grows (evolves P E) (run_money E c)"
  by (cases c) (auto simp: delegate_defs intro!: grow_intro)

lemma grows_run_stopped [grow_intro]: "powers (Behind_Stop c) \<subseteq> P \<Longrightarrow> grows (evolves P E) (run_stopped E c)"
  by (cases c) (auto simp: delegate_defs intro!: grow_intro)

lemma grows_run_admin [grow_intro]: "powers (Administer c) \<subseteq> P \<Longrightarrow> grows (evolves P E) (run_admin_call E c)"
  by (cases c) (auto simp: delegate_defs intro!: grow_intro)

lemma grows_run_limit [grow_intro]: "grows (evolves P E) (run_limit_call E c)"
  by (cases c) (auto simp: delegate_defs intro!: grow_intro)

lemma grows_run_vote [grow_intro]: "grows (evolves P E) (run_vote_call E c)"
  by (cases c) (auto simp: delegate_defs intro!: grow_intro)

lemma grows_run_status [grow_intro]: "powers (Manage c) \<subseteq> P \<Longrightarrow> grows (evolves P E) (run_status_call E c)"
  by (cases c) (auto simp: delegate_defs intro!: grow_intro)

lemma grows_run_plan [grow_intro]: "grows (evolves P E) (run_plan_call E c)"
  by (cases c) (auto simp: delegate_defs intro!: grow_intro)

lemma grows_run_merchant [grow_intro]: "grows (evolves P E) (run_merchant_call E c)"
  by (cases c) (auto simp: delegate_defs intro!: grow_intro)

lemma grows_run_case [grow_intro]: "grows (evolves P E) (run_case_call E c)"
  by (cases c) (auto simp: delegate_defs intro!: grow_intro)

lemma grows_contract: "powers c \<subseteq> P \<Longrightarrow> grows (evolves P E) (run_contract E c)"
  by (cases c) (auto intro!: grow_intro)

lemma submit_evolves: "evolves (powers (snd x)) (fst x) v (submit x v)"
  unfolding submit_def by (rule hist.tx_grows [OF grows_contract]) simp

lemma remembers_after: "remembers s (ledger_after txs s)"
proof (induction txs arbitrary: s)
  case Nil
  then show ?case by (simp add: ledger_after_def remembers_def)
next
  case (Cons x txs)
  have "remembers s (submit x s)" using submit_evolves [of x s] by (simp add: evolves_def)
  moreover have "remembers (submit x s) (ledger_after (x # txs) s)" using Cons [of "submit x s"] by (simp add: ledger_after_def)
  ultimately show ?case unfolding remembers_def by (metis append.assoc order_trans)
qed

section \<open>What no sequence of transactions takes back\<close>

text \<open>
  C7. The memory of the contract. Take any sequence of transactions, each in its own environment and each calling any entry point
  with any arguments. Afterwards every reentrancy lock is as it was before, no nonce of any signer and domain is smaller, the event log has
  only been extended, no recovery id and no charged usage reference has become free again, no subscription
  record has disappeared, and payee splits that were well formed (non-empty, positive weights, 10000 in total) still are.
\<close>

theorem contract_history:
  assumes "ledger_after txs s = t"
  shows "v_locks t = v_locks s \<and> (\<forall>a d. stored_nonce s a d \<le> stored_nonce t a d) \<and> (\<exists>l. v_events t = v_events s @ l) \<and>
    (\<forall>r. ad_recoveries (v_admin s) r \<longrightarrow> ad_recoveries (v_admin t) r) \<and>
    (\<forall>i r. ch_usage_ref (v_charge s) i r \<longrightarrow> ch_usage_ref (v_charge t) i r) \<and>
    (\<forall>i. su_sub (v_subs s) i \<noteq> None \<longrightarrow> su_sub (v_subs t) i \<noteq> None) \<and> (splits_sound s \<longrightarrow> splits_sound t)"
  using remembers_after [of s txs] assms by (auto simp: remembers_def)

theorem contract_history_witness:
  "su_sub (v_subs (ledger_after [(fund_env, Behind_Stop (Moving (C_Deposit 7 500 None))),
     (fund_env, Manage (X_CleanupSubscription 7 (Addr 2)))] fund_vault)) 7 \<noteq> None"
  using contract_history [of "[(fund_env, Behind_Stop (Moving (C_Deposit 7 500 None))),
     (fund_env, Manage (X_CleanupSubscription 7 (Addr 2)))]" fund_vault, OF refl] by simp

text \<open>
  C5. Nobody pays without consent. Whatever entry point a transaction calls with whatever arguments, when the token contracts follow
  the token standard, no address other than the vault itself holds less of any token afterwards unless it authorised the call:
  the vault pulls tokens only from the address whose authorisation it has checked before.
\<close>

theorem no_tokens_without_consent:
  assumes "sep41 E" and "a \<noteq> e_self E" and "\<not> e_auth E a"
  shows "v_ledger s tk a \<le> v_ledger (submit (E, c) s) tk a"
  using submit_evolves [of "(E, c)" s] assms by (simp add: evolves_def)

theorem no_tokens_without_consent_witness:
  "v_ledger fund_vault (Addr 9) (Addr 2) \<le>
     v_ledger (submit (fund_env\<lparr>e_auth := \<lambda>a. a = Addr 3\<rparr>, Behind_Stop (Moving (C_Deposit 7 500 None))) fund_vault) (Addr 9) (Addr 2)"
proof (rule no_tokens_without_consent)
  show "sep41 (fund_env\<lparr>e_auth := \<lambda>a. a = Addr 3\<rparr>)" using fund_host by (simp add: host_ok_def sep41_def)
qed simp_all

text \<open>
  C8. A nonce works once in the life of the contract. After a request with a nonce has been accepted for a signer and a domain, the same
  nonce is refused as already used, whatever transactions of whatever kind came in between.
\<close>

theorem nonce_refused_forever:
  assumes "check_and_advance E a d n s = (Ok u, t)" and "v = ledger_after txs t"
  shows "check_and_advance E' a d n v = (Err E_NonceAlreadyUsed, v)"
proof -
  from assms(1) have "stored_nonce t a (as_u32 d) = Suc n" by (simp add: check_and_advance_ok stored_nonce_def)
  moreover have "stored_nonce t a (as_u32 d) \<le> stored_nonce v a (as_u32 d)"
    using remembers_after [of t txs] assms(2) by (simp add: remembers_def)
  ultimately show ?thesis by (simp add: check_and_advance_def compute_next_nonce_def act_run Let_def)
qed

theorem nonce_refused_forever_witness:
  "\<exists>t. check_and_advance fund_env (Addr 3) MerchantRotation 0 fund_vault = (Ok (), t) \<and>
     fst (check_and_advance fund_env (Addr 3) MerchantRotation 0
       (ledger_after [(fund_env, Administer (X_RotateMerchantAddress (Addr 3) (Addr 5) (Addr 6) 1))] t)) = Err E_NonceAlreadyUsed"
proof -
  have "stored_nonce fund_vault (Addr 3) (as_u32 MerchantRotation) = 0" by (simp add: stored_nonce_def fund_vault_def empty_vault_def)
  then obtain t where t: "check_and_advance fund_env (Addr 3) MerchantRotation 0 fund_vault = (Ok (), t)"
    by (auto simp: check_and_advance_ok u64_max_def)
  then show ?thesis using nonce_refused_forever [OF t refl] by auto
qed

end
