(* ===== verification/Authority.thy ===== *)
theory Authority
  imports Contract_History
begin

text \<open>
  Who decides about the settings of the vault: what the stored admin alone may change, and the relation between the vaults before and after a
  call that says that nobody else did.
\<close>

section \<open>The settings\<close>

text \<open>
  Everything in the admin store but the counter of subscription ids, the guardians, the blocklist, the limits the admin sets for
  subscribers and merchants, the tags, what the admin alone sets for merchants (signers, fee overrides, approvals), the life of
  idempotency keys and the retention of billing statements.
\<close>

definition without_counter :: "admin_store \<Rightarrow> admin_store" where
  "without_counter a = a\<lparr>ad_persistent := (ad_persistent a)\<lparr>cf_next_id := None\<rparr>, ad_instance := (ad_instance a)\<lparr>cf_next_id := None\<rparr>\<rparr>"

record settings_view =
  sv_admin :: admin_store
  sv_guardians :: "(address \<times> nat) list"
  sv_blocklist :: "address \<Rightarrow> bytes option"
  sv_credit_limit :: "address \<Rightarrow> address \<Rightarrow> int option"
  sv_active_cap :: "address \<Rightarrow> nat option"
  sv_cap_default :: "int option"
  sv_merchant_max_subs :: "address \<Rightarrow> nat option"
  sv_tag_allowlist :: "(symbol list) option"
  sv_tags :: "address \<Rightarrow> (symbol list) option"
  sv_multisig :: "address \<Rightarrow> merchant_multisig_config option"
  sv_fee_bps :: "address \<Rightarrow> nat option"
  sv_whitelist_mode :: "bool option"
  sv_approved :: "address \<Rightarrow> bool option"
  sv_ttl_secs :: "nat option"
  sv_keep_recent :: "nat option"

definition settings_view_of :: "vault \<Rightarrow> settings_view" where
  "settings_view_of v = \<lparr>sv_admin = without_counter (v_admin v), sv_guardians = g_guardians (v_gov v), sv_blocklist = v_blocklist v,
     sv_credit_limit = lf_credit_limit (v_life v), sv_active_cap = lf_active_cap (v_life v), sv_cap_default = lf_cap_default (v_life v),
     sv_merchant_max_subs = lf_merchant_max_subs (v_life v), sv_tag_allowlist = m_tag_allowlist (v_merchant v),
     sv_tags = m_tags (v_merchant v), sv_multisig = m_multisig (v_merchant v), sv_fee_bps = m_fee_bps (v_merchant v),
     sv_whitelist_mode = m_whitelist_mode (v_merchant v), sv_approved = m_approved (v_merchant v),
     sv_ttl_secs = i_ttl_secs (v_idem v), sv_keep_recent = st_keep_recent (v_stmt v)\<rparr>"

definition governed :: "env \<Rightarrow> vault \<Rightarrow> vault \<Rightarrow> bool" where
  "governed E s t \<longleftrightarrow>
     (\<forall>admin. stored_admin s = Some admin \<longrightarrow> \<not> e_auth E admin \<longrightarrow> settings_view_of t = settings_view_of s)"

lemma stored_admin_without_counter: "config_value cf_admin (without_counter a) = config_value cf_admin a"
  by (simp add: config_value_def without_counter_def schema_version_def cong: option.case_cong)

lemma same_admin: "settings_view_of t = settings_view_of s \<Longrightarrow> stored_admin t = stored_admin s"
  by (metis stored_admin_def stored_admin_without_counter settings_view_of_def settings_view.ext_inject)

lemma governed_refl: "governed E s s"
  by (simp add: governed_def)

interpretation gov: history "governed E" for E
proof
  show "governed E s s" for s by (rule governed_refl)
  show "governed E s u" if "governed E s t" "governed E t u" for s t u
    using that same_admin [of t s] unfolding governed_def by metis
qed

lemma governed_same: "settings_view_of t = settings_view_of s \<Longrightarrow> governed E s t"
  by (simp add: governed_def)

section \<open>Steps\<close>

lemma governed_free [grow_intro]:
  "grows (governed E) (publish e)" "grows (governed E) (require_auth E' a)" "grows (governed E) (token_transfer E' tk x y n)"
  "grows (governed E) (write_subscription i sub)" "grows (governed E) (mod_subs f1)" "grows (governed E) (mod_charge f2)"
  "grows (governed E) (mod_coupon f3)" "grows (governed E) (mod_dispute f4)" "grows (governed E) (mod_meta f5)"
  "grows (governed E) (zoom v_snap v_snap_update m3)"
  by (auto simp: publish_def require_auth_def token_transfer_def write_subscription_def mod_subs_def mod_charge_def mod_coupon_def
      mod_dispute_def mod_meta_def settings_view_of_def intro!: gov.grows_modify gov.grows_zoom governed_same grow_intro)

lemma governed_stores [grow_intro]:
  "grows (governed E) (zoom v_idem v_idem_update (push_key i h now))"
  "grows (governed E) (zoom v_stmt v_stmt_update (append_statement i a m tk kind p q))"
proof -
  have "i_ttl_secs (snd (push_key i h now s)) = i_ttl_secs s" for s
    by (auto simp: push_key_def save_buffer_def act_run Let_def)
  then show "grows (governed E) (zoom v_idem v_idem_update (push_key i h now))"
    by (auto simp: grows_def zoom_def settings_view_of_def intro!: governed_same split: prod.split) (metis snd_conv)
  have "st_keep_recent (snd (append_statement i a m tk kind p q s)) = st_keep_recent s" for s
    by (auto simp: append_statement_def act_run Let_def split: option.split)
  then show "grows (governed E) (zoom v_stmt v_stmt_update (append_statement i a m tk kind p q))"
    by (auto simp: grows_def zoom_def settings_view_of_def intro!: governed_same split: prod.split) (metis snd_conv)
qed

lemma governed_mod_life [grow_intro]:
  "(\<And>x. lf_credit_limit (f x) = lf_credit_limit x \<and> lf_active_cap (f x) = lf_active_cap x \<and> lf_cap_default (f x) = lf_cap_default x \<and>
     lf_merchant_max_subs (f x) = lf_merchant_max_subs x) \<Longrightarrow> grows (governed E) (mod_life f)"
  by (auto simp: mod_life_def settings_view_of_def intro!: gov.grows_modify governed_same)

lemma governed_mod_merchant [grow_intro]:
  "(\<And>x. m_tag_allowlist (f x) = m_tag_allowlist x \<and> m_tags (f x) = m_tags x \<and> m_multisig (f x) = m_multisig x \<and>
     m_fee_bps (f x) = m_fee_bps x \<and> m_whitelist_mode (f x) = m_whitelist_mode x \<and> m_approved (f x) = m_approved x) \<Longrightarrow> grows (governed E) (mod_merchant f)"
  by (auto simp: mod_merchant_def settings_view_of_def intro!: gov.grows_modify governed_same)

lemma governed_mod_gov [grow_intro]: "(\<And>x. g_guardians (f x) = g_guardians x) \<Longrightarrow> grows (governed E) (mod_gov f)"
  by (auto simp: mod_gov_def settings_view_of_def intro!: gov.grows_modify governed_same)

lemma governed_mod_admin [grow_intro]: "(\<And>x. without_counter (f x) = without_counter x) \<Longrightarrow> grows (governed E) (mod_admin f)"
  by (auto simp: mod_admin_def settings_view_of_def intro!: gov.grows_modify governed_same)

lemma governed_counter [grow_intro]: "grows (governed E) (write_config cf_next_id_update n)"
  by (auto simp: write_config_def config_put_def without_counter_def intro!: grow_intro)

lemma governed_nonce [grow_intro]: "grows (governed E) (check_and_advance E' a d n)"
  by (auto simp: check_and_advance_def Let_def settings_view_of_def intro!: grow_intro gov.grows_modify governed_same)

lemma governed_lock [grow_intro]:
  assumes "grows (governed E) m"
  shows "grows (governed E) (with_lock n m)"
proof -
  have locks: "settings_view_of (s\<lparr>v_locks := l\<rparr>) = settings_view_of s" for s l by (simp add: settings_view_of_def)
  have "grows (governed E) (lock n)"
    by (auto simp: lock_def locks intro!: grow_intro gov.grows_modify governed_same)
  moreover have "grows (governed E) (\<lambda>s. case m s of (Ok a, t) \<Rightarrow> (Ok a, release n t) | (Err e, t) \<Rightarrow> (Err e, release n t)
      | (Panic, t) \<Rightarrow> (Panic, t))"
    using assms by (auto simp: grows_def release_def governed_def locks split: prod.split outcome.split) (metis fst_conv snd_conv outcome.distinct(3,5))+
  ultimately show ?thesis unfolding with_lock_def by (intro gov.grows_thn)
qed

text \<open>Behind a check of the admin's authorisation anything is allowed.\<close>

lemma governed_guard:
  assumes "\<And>s a t. m s = (Ok a, t) \<Longrightarrow> t = s \<and> (\<forall>admin. stored_admin s = Some admin \<longrightarrow> e_auth E admin)" and "grows (governed E) m"
  shows "grows (governed E) (bnd m f)"
  unfolding grows_def
proof (intro allI impI)
  fix s
  assume "fst (bnd m f s) \<noteq> Panic"
  obtain r t where run: "m s = (r, t)" by (cases "m s")
  show "governed E s (snd (bnd m f s))"
  proof (cases r)
    case (Ok a)
    with run assms(1) show ?thesis by (force simp: governed_def)
  next
    case (Err e)
    with run growsD [OF assms(2) run] show ?thesis by (simp add: bnd_def)
  next
    case Panic
    with run \<open>fst (bnd m f s) \<noteq> Panic\<close> show ?thesis by (simp add: bnd_def)
  qed
qed

lemma governed_admin [grow_intro]:
  "grows (governed E) (thn (require_admin_auth E a) m)" "grows (governed E) (bnd (require_stored_admin_auth E) f)"
proof -
  have "grows (governed E) require_admin"
    by (auto simp: require_admin_def read_config_def get_schema_version_def intro!: grow_intro)
  then have guards: "grows (governed E) (require_admin_auth E a)" "grows (governed E) (require_stored_admin_auth E)"
    by (auto simp: require_admin_auth_def require_stored_admin_auth_def intro!: grow_intro)
  show "grows (governed E) (thn (require_admin_auth E a) m)"
    unfolding thn_def using guards(1) by (intro governed_guard) (auto simp: act_ok stored_admin_def)
  show "grows (governed E) (bnd (require_stored_admin_auth E) f)"
    using guards(2) by (intro governed_guard) (auto simp: act_ok stored_admin_def)
qed

text \<open>The same check written out: the caller must have authorised the call and be the stored admin.\<close>

lemma governed_named [grow_intro]:
  "grows (governed E) (thn (require_auth E c) (bnd require_admin (\<lambda>stored. if c \<noteq> stored then fail e else m stored)))"
proof -
  have "require_admin s = (case stored_admin s of Some a \<Rightarrow> Ok a | None \<Rightarrow> Err E_NotInitialized, s)" for s
    by (auto simp: require_admin_def read_config_def get_schema_version_def stored_admin_def config_value_def act_run split: option.split)
  then show ?thesis
    by (auto simp: grows_def governed_def thn_def bnd_run require_auth_def run_simps)
qed

end
