(* ===== verification/Authority_Ops.thy ===== *)
theory Authority_Ops
  imports Authority
begin

text \<open>
  Every operation but the execution of a proposal and the claim of the admin role is \<open>governed\<close>: one group of facts per theory and
  depth of calls. Operations that write settings appear behind the check of the admin, where nothing is left to show.
\<close>

section \<open>\<open>Vault_State\<close>\<close>

lemma gov_vault_state_1 [grow_intro]:
  "grows (governed E) (token_balance token holder)" "grows (governed E) (get_split_payees i)"
  by (auto simp: Let_def token_balance_def get_split_payees_def
      intro!: grow_intro)

section \<open>\<open>Nonces\<close>\<close>

lemma gov_nonces_1 [grow_intro]:
  "grows (governed E) (get_nonce signer d)" "grows (governed E) (validate_nonce signer d expected)"
  by (auto simp: Let_def get_nonce_def validate_nonce_def
      intro!: grow_intro)

section \<open>\<open>Admin_Config\<close>\<close>

lemma gov_admin_config_1 [grow_intro]:
  "grows (governed E) get_schema_version" "grows (governed E) (read_config k)" "grows (governed E) (has_config k)"
  by (auto simp: Let_def get_schema_version_def read_config_def has_config_def
      intro!: grow_intro)

lemma gov_admin_config_2 [grow_intro]:
  "grows (governed E) require_admin" "grows (governed E) get_operator"
  by (auto simp: Let_def require_admin_def get_operator_def
      intro!: grow_intro)

lemma gov_admin_config_3 [grow_intro]:
  "grows (governed E) (require_admin_auth E admin)" "grows (governed E) (require_stored_admin_auth E)"
  "grows (governed E) (require_admin_or_operator_auth E caller)"
  by (auto simp: Let_def require_admin_auth_def require_stored_admin_auth_def require_admin_or_operator_auth_def
      intro!: grow_intro)

section \<open>\<open>Admin_Settings\<close>\<close>

lemma gov_admin_settings_1 [grow_intro]:
  "grows (governed E) get_min_topup" "grows (governed E) get_grace_period" "grows (governed E) get_dispute_window_secs"
  "grows (governed E) get_subscriber_create_cap" "grows (governed E) get_token"
  "grows (governed E) (get_token_decimals token)" "grows (governed E) (is_token_accepted token)"
  "grows (governed E) get_protocol_fee_bps" "grows (governed E) get_treasury" "grows (governed E) get_fee_token"
  "grows (governed E) get_auto_pause_threshold" "grows (governed E) do_get_admin" "grows (governed E) current_batch_nonce"
  "grows (governed E) (do_set_grace_period E admin grace_period)"
  "grows (governed E) (do_set_dispute_window_secs E admin window_secs)"
  "grows (governed E) (do_set_subscriber_create_cap E admin cap)"
  "grows (governed E) (do_set_auto_pause_threshold E admin threshold)" "grows (governed E) (require_not_blocklisted addr)"
  "grows (governed E) (get_blocklist_entry addr)" "grows (governed E) (do_add_to_blocklist E authorizer subscriber reason)"
  by (auto simp: Let_def get_min_topup_def get_grace_period_def get_dispute_window_secs_def get_subscriber_create_cap_def get_token_def
      get_token_decimals_def is_token_accepted_def get_protocol_fee_bps_def get_treasury_def get_fee_token_def
      get_auto_pause_threshold_def do_get_admin_def current_batch_nonce_def do_set_grace_period_def
      do_set_dispute_window_secs_def do_set_subscriber_create_cap_def do_set_auto_pause_threshold_def
      require_not_blocklisted_def get_blocklist_entry_def do_add_to_blocklist_def
      intro!: grow_intro)

lemma gov_admin_settings_2 [grow_intro]:
  "grows (governed E) read_cached_admin_config" "grows (governed E) (do_set_min_topup E admin min_topup)"
  by (auto simp: Let_def read_cached_admin_config_def do_set_min_topup_def
      intro!: grow_intro)

section \<open>\<open>Subscription_Reads\<close>\<close>

lemma gov_subscription_reads_1 [grow_intro]:
  "grows (governed E) (get_subscription E i)"
  by (auto simp: Let_def get_subscription_def
      intro!: grow_intro)

section \<open>\<open>Merchant_Profile\<close>\<close>

lemma gov_merchant_profile_1 [grow_intro]:
  "grows (governed E) (get_merchant_config merchant)" "grows (governed E) (get_merchant_multisig_config merchant)"
  "grows (governed E) (set_merchant_multisig E admin merchant signers threshold)"
  "grows (governed E) (set_merchant_paused merchant paused)" "grows (governed E) (get_merchant_vacation merchant)"
  "grows (governed E) (set_merchant_vacation E merchant start_ts end_ts)"
  "grows (governed E) (get_merchant_fee_override_bps merchant)"
  "grows (governed E) (set_merchant_fee_override E admin merchant fee_bps)"
  "grows (governed E) (clear_merchant_fee_override E admin merchant)" "grows (governed E) get_whitelist_mode"
  "grows (governed E) (set_whitelist_mode E admin enabled)" "grows (governed E) (is_merchant_approved merchant)"
  "grows (governed E) (approve_merchant E admin merchant)" "grows (governed E) (revoke_merchant E admin merchant)"
  by (auto simp: Let_def get_merchant_config_def get_merchant_multisig_config_def set_merchant_multisig_def set_merchant_paused_def
      get_merchant_vacation_def set_merchant_vacation_def get_merchant_fee_override_bps_def set_merchant_fee_override_def
      clear_merchant_fee_override_def get_whitelist_mode_def set_whitelist_mode_def is_merchant_approved_def
      approve_merchant_def revoke_merchant_def
      intro!: grow_intro)

lemma gov_merchant_profile_2 [grow_intro]:
  "grows (governed E) (get_merchant_paused merchant)" "grows (governed E) (is_merchant_in_vacation merchant now)"
  "grows (governed E) (clear_merchant_vacation E merchant)" "grows (governed E) (require_merchant_approved merchant)"
  by (auto simp: Let_def get_merchant_paused_def is_merchant_in_vacation_def clear_merchant_vacation_def require_merchant_approved_def
      intro!: grow_intro)

lemma gov_merchant_profile_3 [grow_intro]:
  "grows (governed E) (pause_merchant E merchant)" "grows (governed E) (unpause_merchant E merchant)"
  by (auto simp: Let_def pause_merchant_def unpause_merchant_def
      intro!: grow_intro)

section \<open>\<open>Merchant_Ledger\<close>\<close>

lemma gov_merchant_ledger_1 [grow_intro]:
  "grows (governed E) (get_merchant_balance_by_token merchant token)"
  "grows (governed E) (set_merchant_balance merchant token balance)"
  "grows (governed E) (get_merchant_token_earnings merchant token)"
  "grows (governed E) (set_merchant_token_earnings merchant token earnings)"
  "grows (governed E) (add_merchant_token merchant token)" "grows (governed E) (add_total_accounted token amount)"
  "grows (governed E) (sub_total_accounted token amount)" "grows (governed E) (require_signers E config)"
  "grows (governed E) (get_payout_schedule merchant)" "grows (governed E) (set_payout_schedule merchant schedule)"
  "grows (governed E) (require_sub_account_exists merchant label)" "grows (governed E) (set_sub_account merchant label b)"
  by (auto simp: Let_def get_merchant_balance_by_token_def set_merchant_balance_def get_merchant_token_earnings_def
      set_merchant_token_earnings_def add_merchant_token_def add_total_accounted_def sub_total_accounted_def
      require_signers_def get_payout_schedule_def set_payout_schedule_def require_sub_account_exists_def set_sub_account_def
      intro!: grow_intro)

lemma gov_accrue [grow_intro]: "grows (governed E) (accrue kind amount earnings)"
  by (auto simp: accrue_def Let_def intro!: grow_intro split: billing_charge_kind.split)

lemma gov_merchant_ledger_2 [grow_intro]:
  "grows (governed E) (credit_merchant_balance_for_token merchant token_addr amount kind)"
  "grows (governed E) (get_merchant_balance merchant)" "grows (governed E) (add_withdrawal merchant token amount)"
  "grows (governed E) (add_refund merchant token amount)"
  "grows (governed E) (do_set_payout_schedule E merchant cadence_seconds min_payout)"
  "grows (governed E) (register_sub_account E merchant label)"
  "grows (governed E) (credit_sub_account merchant label token amount)"
  by (auto simp: Let_def credit_merchant_balance_for_token_def get_merchant_balance_def add_withdrawal_def add_refund_def
      do_set_payout_schedule_def register_sub_account_def credit_sub_account_def
      intro!: grow_intro)

lemma gov_merchant_ledger_3 [grow_intro]:
  "grows (governed E) (credit_merchant_balance merchant amount kind)"
  "grows (governed E) (withdraw_merchant_funds_for_token E merchant token_addr amount)"
  "grows (governed E) (merchant_refund E merchant subscriber token_addr amount)"
  "grows (governed E) (flush_merchant_token E merchant token min_payout)"
  "grows (governed E) (withdraw_sub_account_funds E merchant label token_addr amount)"
  by (auto simp: Let_def credit_merchant_balance_def withdraw_merchant_funds_for_token_def merchant_refund_def flush_merchant_token_def
      withdraw_sub_account_funds_def
      intro!: grow_intro)

lemma gov_merchant_ledger_4 [grow_intro]:
  "grows (governed E) (withdraw_merchant_funds E merchant amount)"
  by (auto simp: Let_def withdraw_merchant_funds_def
      intro!: grow_intro)

lemma gov_flush_tokens [grow_intro]: "grows (governed E) (flush_tokens E merchant min_payout x1 tokens_paid)"
  by (induction x1 arbitrary: merchant min_payout tokens_paid) (auto simp: Let_def intro!: grow_intro)

lemma gov_merchant_ledger_5 [grow_intro]:
  "grows (governed E) (do_flush_payouts E merchant caller)"
  by (auto simp: Let_def do_flush_payouts_def
      intro!: grow_intro)

section \<open>\<open>Coupons\<close>\<close>

lemma gov_coupons_1 [grow_intro]:
  "grows (governed E) (write_coupon c)" "grows (governed E) (read_coupon code)" "grows (governed E) (read_redemptions code)"
  "grows (governed E) (write_redemptions code n)" "grows (governed E) (is_coupon_redeemed i code)"
  "grows (governed E) (mark_coupon_redeemed i code)" "grows (governed E) (resolve_coupon_for_charge i)"
  by (auto simp: Let_def write_coupon_def read_coupon_def read_redemptions_def write_redemptions_def is_coupon_redeemed_def
      mark_coupon_redeemed_def resolve_coupon_for_charge_def
      intro!: grow_intro)

lemma gov_coupons_2 [grow_intro]:
  "grows (governed E) (create_coupon E merchant code token percent_off_bps fixed_off max_redemptions expires_at)"
  "grows (governed E) (revoke_coupon E merchant code)" "grows (governed E) (increment_redemptions code)"
  "grows (governed E) (cas_increment_redemptions code expected max_redemptions)"
  "grows (governed E) (apply_discount_at_charge i now sub_token gross)"
  by (auto simp: Let_def create_coupon_def revoke_coupon_def increment_redemptions_def cas_increment_redemptions_def
      apply_discount_at_charge_def
      intro!: grow_intro)

lemma gov_coupons_3 [grow_intro]:
  "grows (governed E) (apply_coupon E subscriber i code)"
  by (auto simp: Let_def apply_coupon_def
      intro!: grow_intro)

section \<open>\<open>Oracle\<close>\<close>

lemma gov_oracle_1 [grow_intro]:
  "grows (governed E) get_oracle_config" "grows (governed E) (validate_price E price config)"
  "grows (governed E) (twap_quote E config)" "grows (governed E) (fixed_quote config)"
  by (auto simp: Let_def get_oracle_config_def validate_price_def twap_quote_def fixed_quote_def
      intro!: grow_intro)

lemma gov_oracle_2 [grow_intro]:
  "grows (governed E) (resolve_charge_amount i sub)" "grows (governed E) (emit_oracle_liveness E)"
  "grows (governed E) (spot_quote E config)"
  by (auto simp: Let_def resolve_charge_amount_def emit_oracle_liveness_def spot_quote_def
      intro!: grow_intro)

lemma gov_dispatch_price [grow_intro]: "grows (governed E) (dispatch_price E config base quote)"
  by (auto simp: dispatch_price_def Let_def intro!: grow_intro split: oracle_kind.split)

section \<open>\<open>Charge_Core\<close>\<close>

lemma gov_charge_core_1 [grow_intro]:
  "grows (governed E) (charge_fail i err attempted_amount now)" "grows (governed E) (route_fee_bps merchant)"
  "grows (governed E) (convert_fee E merchant source_token fee_amount price_cache)"
  "grows (governed E) (route_to_sub_account sub merchant_amount)" "grows (governed E) (publish_fee i now should_emit)"
  "grows (governed E) (merchant_flags sub now cache)" "grows (governed E) (cap_gate i now sub)"
  "grows (governed E) (cancel_gate E i now sub)" "grows (governed E) (auto_renew_gate now sub)"
  "grows (governed E) (charge_period now sub)" "grows (governed E) (charge_salt E i last_payment_timestamp)"
  "grows (governed E) (idem_gate E i idempotency_key)" "grows (governed E) (cap_remaining_gate i now charge_amount sub)"
  "grows (governed E) (fee_config admin_config)" "grows (governed E) (clear_failures i)"
  "grows (governed E) (remember_key E i now idempotency_key)"
  "grows (governed E) (publish_cap_reached i now sub cap_reached)"
  "grows (governed E) (auto_pause E i now threshold status)"
  "grows (governed E) (underfunded_subscription now grace_secs sub)"
  by (auto simp: Let_def charge_fail_def route_fee_bps_def convert_fee_def route_to_sub_account_def publish_fee_def merchant_flags_def
      cap_gate_def cancel_gate_def auto_renew_gate_def charge_period_def charge_salt_def idem_gate_def
      cap_remaining_gate_def fee_config_def clear_failures_def remember_key_def publish_cap_reached_def auto_pause_def
      underfunded_subscription_def
      intro!: grow_intro)

lemma gov_credit_others [grow_intro]: "grows (governed E) (credit_others token net kind x1 acc)"
  by (induction x1 arbitrary: token net kind acc) (auto simp: Let_def intro!: grow_intro)

lemma gov_charge_core_2 [grow_intro]:
  "grows (governed E) (credit_charge_payees E i sub net_merchant_amount charge_kind)"
  "grows (governed E) (credit_fee E sub fee_amount treasury_opt kind)" "grows (governed E) (expiry_gate E i now sub)"
  "grows (governed E) (status_gate i now charge_amount sub)" "grows (governed E) (salt_gate i now charge_amount salt)"
  "grows (governed E) (period_gate i now charge_amount period_index sub)"
  "grows (governed E) (settled_subscription i now charge_amount sub0)"
  "grows (governed E) (record_settlement E i now idempotency_key period salt charge_amount next_allowed merchant_amount should_emit settled)"
  "grows (governed E) (fail_underfunded E i now admin_config charge_amount sub0)"
  by (auto simp: Let_def credit_charge_payees_def credit_fee_def expiry_gate_def status_gate_def salt_gate_def period_gate_def
      settled_subscription_def record_settlement_def fail_underfunded_def
      intro!: grow_intro)

lemma gov_or_charge_fail [grow_intro]: "grows (governed E) (m) \<Longrightarrow> grows (governed E) (or_charge_fail i attempted_amount now m)"
  by (auto simp: or_charge_fail_def Let_def intro!: grow_intro)

lemma gov_charge_core_3 [grow_intro]:
  "grows (governed E) (payee_gate i now entry)" "grows (governed E) (charge_amount_stage i now sub)"
  "grows (governed E) (settle_charge E i now idempotency_key admin_config period salt charge_amount next_allowed sub0)"
  "grows (governed E) (charge_open E i now)"
  by (auto simp: Let_def payee_gate_def charge_amount_stage_def settle_charge_def charge_open_def
      intro!: grow_intro)

lemma gov_charge_core_4 [grow_intro]:
  "grows (governed E) (party_gates i now sub flags)"
  "grows (governed E) (charge_after_salt E i now idempotency_key admin_config period salt charge_amount sub)"
  by (auto simp: Let_def party_gates_def charge_after_salt_def
      intro!: grow_intro)

lemma gov_charge_with_flags [grow_intro]: "(\<And>y1 y2. grows (governed E) (mk_salt y1 y2)) \<Longrightarrow> grows (governed E) (charge_with_flags mk_salt E i now idempotency_key admin_config flags sub)"
  by (auto simp: charge_with_flags_def Let_def intro!: grow_intro)

lemma gov_charge_one_cached [grow_intro]: "(\<And>y1 y2. grows (governed E) (mk_salt y1 y2)) \<Longrightarrow> grows (governed E) (charge_one_cached mk_salt E i now idempotency_key admin_config cache)"
  by (auto simp: charge_one_cached_def Let_def intro!: grow_intro)

lemma gov_charge_one_with [grow_intro]: "(\<And>y1 y2. grows (governed E) (mk_salt y1 y2)) \<Longrightarrow> grows (governed E) (charge_one_with mk_salt E i now idempotency_key admin_config)"
  by (auto simp: charge_one_with_def Let_def intro!: grow_intro)

lemma gov_charge_core_8 [grow_intro]:
  "grows (governed E) (charge_one E x1 x2 x3 x4)"
  by (auto simp: Let_def charge_one_def
      intro!: grow_intro)

section \<open>\<open>Charge_Facts\<close>\<close>

lemma gov_charge_facts_1 [grow_intro]:
  "grows (governed E) (credit_all kind x1)"
  by (auto simp: Let_def credit_all_def
      intro!: grow_intro)

section \<open>\<open>Subscription_Limits\<close>\<close>

lemma gov_subscription_limits_1 [grow_intro]:
  "grows (governed E) read_next_id" "grows (governed E) (reject_expired E i sub)"
  "grows (governed E) (get_subscriber_active_count subscriber)" "grows (governed E) (get_subscriber_active_cap subscriber)"
  "grows (governed E) (do_set_subscriber_active_cap E admin subscriber cap)"
  "grows (governed E) (get_merchant_subscription_count merchant)" "grows (governed E) (get_merchant_max_subs merchant)"
  "grows (governed E) (do_set_merchant_max_subs E admin merchant max_subs)"
  "grows (governed E) (emit_rate_limit_tripped E subscriber)" "grows (governed E) get_global_cap_default"
  "grows (governed E) (get_merchant_cap_default merchant)" "grows (governed E) (positive_cap cap2)"
  "grows (governed E) (get_subscriber_credit_limit subscriber token)"
  "grows (governed E) (do_set_subscriber_credit_limit E admin subscriber token limit)"
  by (auto simp: Let_def read_next_id_def reject_expired_def get_subscriber_active_count_def get_subscriber_active_cap_def
      do_set_subscriber_active_cap_def get_merchant_subscription_count_def get_merchant_max_subs_def
      do_set_merchant_max_subs_def emit_rate_limit_tripped_def get_global_cap_default_def get_merchant_cap_default_def
      positive_cap_def get_subscriber_credit_limit_def do_set_subscriber_credit_limit_def
      intro!: grow_intro)

lemma gov_exposure_loop [grow_intro]: "grows (governed E) (exposure_loop subscriber token x1 exposure0)"
  by (induction x1 arbitrary: subscriber token exposure0) (auto simp: Let_def intro!: grow_intro)

lemma gov_subscription_limits_2 [grow_intro]:
  "grows (governed E) (increment_subscriber_active_count subscriber)"
  "grows (governed E) (decrement_subscriber_active_count subscriber)"
  "grows (governed E) (enforce_creation_rate_limit E subscriber)" "grows (governed E) (resolve_cap merchant explicit_cap)"
  "grows (governed E) (do_set_global_cap_default E admin cap)"
  "grows (governed E) (do_set_merchant_cap_default E merchant cap)"
  "grows (governed E) (do_update_subscription_cap E admin i new_cap)"
  "grows (governed E) (compute_subscriber_exposure subscriber token)"
  by (auto simp: Let_def increment_subscriber_active_count_def decrement_subscriber_active_count_def enforce_creation_rate_limit_def
      resolve_cap_def do_set_global_cap_default_def do_set_merchant_cap_default_def do_update_subscription_cap_def
      compute_subscriber_exposure_def
      intro!: grow_intro)

lemma gov_subscription_limits_3 [grow_intro]:
  "grows (governed E) (enforce_credit_limit_for_delta subscriber token additional_liability)"
  by (auto simp: Let_def enforce_credit_limit_for_delta_def
      intro!: grow_intro)

section \<open>\<open>Subscription_Create\<close>\<close>

lemma gov_subscription_create_1 [grow_intro]:
  "grows (governed E) (concurrency_gate E subscriber merchant)" "grows (governed E) (cap_covers_amount cap amount)"
  "grows (governed E) (usage_limits_gate usage_enabled i merchant)" "grows (governed E) (index_subscription i sub)"
  "grows (governed E) (issue_credential E i)"
  by (auto simp: Let_def concurrency_gate_def cap_covers_amount_def usage_limits_gate_def index_subscription_def issue_credential_def
      intro!: grow_intro)

lemma gov_subscription_create_2 [grow_intro]:
  "grows (governed E) (store_new_subscription E c cap)"
  by (auto simp: Let_def store_new_subscription_def
      intro!: grow_intro)

lemma gov_subscription_create_3 [grow_intro]:
  "grows (governed E) (do_create_subscription_with_token E c)"
  by (auto simp: Let_def do_create_subscription_with_token_def
      intro!: grow_intro)

lemma gov_subscription_create_4 [grow_intro]:
  "grows (governed E) (do_create_subscription E c)"
  by (auto simp: Let_def do_create_subscription_def
      intro!: grow_intro)

section \<open>\<open>Subscription_Funds\<close>\<close>

lemma gov_subscription_funds_1 [grow_intro]:
  "grows (governed E) (accept_topup amount)" "grows (governed E) (merchant_not_paused merchant)"
  "grows (governed E) (merchant_not_in_vacation E merchant)" "grows (governed E) (publish_recovery_ready E i sub)"
  "grows (governed E) (optional_nonce E signer domain nonce)"
  "grows (governed E) (do_grant_delegated_payer E subscriber payer expires_at max_amount)"
  "grows (governed E) (remove_grant subscriber payer)" "grows (governed E) (unindex_subscription i sub)"
  "grows (governed E) (revoke_credential E i)" "grows (governed E) (do_request_emergency_withdraw E i subscriber)"
  "grows (governed E) (do_finalize_emergency_withdraw E i subscriber)"
  "grows (governed E) (do_cleanup_subscription E i authorizer)" "grows (governed E) (withdrawal_source E i subscriber sub)"
  "grows (governed E) (do_partial_refund E admin i subscriber amount)"
  by (auto simp: Let_def accept_topup_def merchant_not_paused_def merchant_not_in_vacation_def publish_recovery_ready_def optional_nonce_def
      do_grant_delegated_payer_def remove_grant_def unindex_subscription_def revoke_credential_def
      do_request_emergency_withdraw_def do_finalize_emergency_withdraw_def do_cleanup_subscription_def withdrawal_source_def
      do_partial_refund_def
      intro!: grow_intro)

lemma gov_subscription_funds_2 [grow_intro]:
  "grows (governed E) (do_deposit_funds E i amount nonce)"
  "grows (governed E) (do_revoke_delegated_payer E subscriber payer)"
  "grows (governed E) (do_deposit_funds_on_behalf E i payer amount nonce)"
  "grows (governed E) (apply_cancellation E i sub0 authorizer)"
  "grows (governed E) (do_withdraw_subscriber_funds E i subscriber)"
  by (auto simp: Let_def do_deposit_funds_def do_revoke_delegated_payer_def do_deposit_funds_on_behalf_def apply_cancellation_def
      do_withdraw_subscriber_funds_def
      intro!: grow_intro)

lemma gov_subscription_funds_3 [grow_intro]:
  "grows (governed E) (do_cancel_subscription E i authorizer)"
  by (auto simp: Let_def do_cancel_subscription_def
      intro!: grow_intro)

section \<open>\<open>Subscription_Status\<close>\<close>

lemma gov_subscription_status_1 [grow_intro]:
  "grows (governed E) (require_party authorizer sub)" "grows (governed E) (not_cancelled sub)"
  "grows (governed E) (apply_pause E i sub authorizer initiator_role)" "grows (governed E) (activate E i sub authorizer)"
  "grows (governed E) (bulk_precheck E caller ids nonce)" "grows (governed E) (bulk_deposit_checks E i amount)"
  by (auto simp: Let_def require_party_def not_cancelled_def apply_pause_def activate_def bulk_precheck_def bulk_deposit_checks_def
      intro!: grow_intro)

lemma gov_bulk_outcome [grow_intro]: "grows (governed E) (m) \<Longrightarrow> grows (governed E) (bulk_outcome i m)"
  by (auto simp: bulk_outcome_def Let_def intro!: grow_intro)

lemma gov_collect [grow_intro]: "(\<And>y1. grows (governed E) (f y1)) \<Longrightarrow> grows (governed E) (collect f x1)"
  by (induction x1) (auto simp: Let_def intro!: grow_intro)

lemma gov_subscription_status_2 [grow_intro]:
  "grows (governed E) (do_schedule_cancel E i authorizer cancel_at)"
  "grows (governed E) (do_unschedule_cancel E i authorizer)"
  "grows (governed E) (do_set_subscription_expiration_ledger E i authorizer expires_at_ledger)"
  "grows (governed E) (do_set_auto_renew E i authorizer enabled)"
  "grows (governed E) (do_pause_subscription E i authorizer)" "grows (governed E) (do_resume_subscription E i authorizer)"
  "grows (governed E) (resume_after_blocklist_removal E i authorizer)"
  "grows (governed E) (bulk_deposit_one E caller entry)"
  by (auto simp: Let_def do_schedule_cancel_def do_unschedule_cancel_def do_set_subscription_expiration_ledger_def do_set_auto_renew_def
      do_pause_subscription_def do_resume_subscription_def resume_after_blocklist_removal_def bulk_deposit_one_def
      intro!: grow_intro)

lemma gov_bulk_one [grow_intro]: "(\<And>y1. grows (governed E) (change y1)) \<Longrightarrow> grows (governed E) (bulk_one E i already change)"
  by (auto simp: bulk_one_def Let_def intro!: grow_intro)

lemma gov_subscription_status_3 [grow_intro]:
  "grows (governed E) (resume_if_paused E admin i)" "grows (governed E) (bulk_pause_one E caller i)"
  "grows (governed E) (bulk_cancel_one E caller i)" "grows (governed E) (do_bulk_deposit_funds E caller entries nonce)"
  by (auto simp: Let_def resume_if_paused_def bulk_pause_one_def bulk_cancel_one_def do_bulk_deposit_funds_def
      intro!: grow_intro)

lemma gov_subscription_status_4 [grow_intro]:
  "grows (governed E) (do_remove_from_blocklist E admin subscriber)"
  "grows (governed E) (do_bulk_pause_subscriptions E caller ids nonce)"
  "grows (governed E) (do_bulk_cancel_subscriptions E caller ids nonce)"
  by (auto simp: Let_def do_remove_from_blocklist_def do_bulk_pause_subscriptions_def do_bulk_cancel_subscriptions_def
      intro!: grow_intro)

section \<open>\<open>Direct_Charges\<close>\<close>

lemma gov_direct_charges_1 [grow_intro]:
  "grows (governed E) (payee_open E entry)" "grows (governed E) (one_off_replayed E i idem_key)"
  "grows (governed E) (cancel_on_cap E i cap sub)" "grows (governed E) (one_off_fee sub fee_amount treasury_opt)"
  "grows (governed E) (one_off_cap_now_reached E i sub)" "grows (governed E) (remember_one_off E i idem_key)"
  "grows (governed E) get_buyout_premium_bps" "grows (governed E) (buyout_premium charge_amount premium_bps)"
  by (auto simp: Let_def payee_open_def one_off_replayed_def cancel_on_cap_def one_off_fee_def one_off_cap_now_reached_def remember_one_off_def
      get_buyout_premium_bps_def buyout_premium_def
      intro!: grow_intro)

lemma gov_direct_charges_2 [grow_intro]:
  "grows (governed E) (one_off_parties E i sub)" "grows (governed E) (one_off_cap_used_up E i sub)"
  "grows (governed E) (one_off_amount_gates E i amount sub)" "grows (governed E) (settle_one_off E i amount idem_key sub1)"
  "grows (governed E) (do_grace_buyout E i subscriber amount idem_key)"
  by (auto simp: Let_def one_off_parties_def one_off_cap_used_up_def one_off_amount_gates_def settle_one_off_def do_grace_buyout_def
      intro!: grow_intro)

lemma gov_direct_charges_3 [grow_intro]:
  "grows (governed E) (do_charge_one_off E i merchant amount idem_key)"
  by (auto simp: Let_def do_charge_one_off_def
      intro!: grow_intro)

section \<open>\<open>Plans\<close>\<close>

lemma gov_plans_1 [grow_intro]:
  "grows (governed E) next_plan_id" "grows (governed E) (get_plan_template p)" "grows (governed E) (store_plan p plan)"
  "grows (governed E) (get_plan_max_active p)"
  by (auto simp: Let_def next_plan_id_def get_plan_template_def store_plan_def get_plan_max_active_def
      intro!: grow_intro)

lemma gov_plan_count_loop [grow_intro]: "grows (governed E) (plan_count_loop subscriber p x1 n)"
  by (induction x1 arbitrary: subscriber p n) (auto simp: Let_def intro!: grow_intro)

lemma gov_plans_2 [grow_intro]:
  "grows (governed E) (add_plan E merchant token amount interval_seconds usage_enabled lifetime_cap)"
  "grows (governed E) (do_update_plan_template E merchant p amount interval_seconds usage_enabled lifetime_cap)"
  "grows (governed E) (do_disable_plan_template E merchant p)"
  "grows (governed E) (do_set_plan_max_active_subs E merchant p max_active)"
  "grows (governed E) (count_active_subscriptions_for_plan subscriber p)"
  "grows (governed E) (do_migrate_subscription_to_plan E subscriber i new_p)"
  by (auto simp: Let_def add_plan_def do_update_plan_template_def do_disable_plan_template_def do_set_plan_max_active_subs_def
      count_active_subscriptions_for_plan_def do_migrate_subscription_to_plan_def
      intro!: grow_intro)

lemma gov_plans_3 [grow_intro]:
  "grows (governed E) (do_create_plan_template E merchant amount interval_seconds usage_enabled lifetime_cap)"
  "grows (governed E) (do_create_plan_template_with_token E merchant token amount interval_seconds usage_enabled lifetime_cap)"
  "grows (governed E) (enforce_plan_concurrency_limit subscriber p)"
  by (auto simp: Let_def do_create_plan_template_def do_create_plan_template_with_token_def enforce_plan_concurrency_limit_def
      intro!: grow_intro)

lemma gov_plans_4 [grow_intro]:
  "grows (governed E) (do_create_subscription_from_plan E subscriber p label)"
  by (auto simp: Let_def do_create_subscription_from_plan_def
      intro!: grow_intro)

section \<open>\<open>Transfers\<close>\<close>

lemma gov_transfers_1 [grow_intro]:
  "grows (governed E) (may_limit_usage E merchant i)"
  "grows (governed E) (do_initiate_transfer E i sender recipient expires_at)" "grows (governed E) (drop_intent i)"
  "grows (governed E) (active_cap_gate E recipient)" "grows (governed E) (move_in_index i old recipient)"
  "grows (governed E) (write_split_payees i entries)"
  by (auto simp: Let_def may_limit_usage_def do_initiate_transfer_def drop_intent_def active_cap_gate_def move_in_index_def
      write_split_payees_def
      intro!: grow_intro)

lemma gov_transfers_2 [grow_intro]:
  "grows (governed E) (do_configure_usage_limits E merchant i max_calls window_secs burst_secs cap_units)"
  "grows (governed E) (hand_over E i sender recipient sub)" "grows (governed E) (do_veto_transfer E i merchant)"
  by (auto simp: Let_def do_configure_usage_limits_def hand_over_def do_veto_transfer_def
      intro!: grow_intro)

lemma gov_transfers_3 [grow_intro]:
  "grows (governed E) (complete_transfer E i recipient intent)"
  by (auto simp: Let_def complete_transfer_def
      intro!: grow_intro)

lemma gov_transfers_4 [grow_intro]:
  "grows (governed E) (do_accept_transfer E i recipient)"
  by (auto simp: Let_def do_accept_transfer_def
      intro!: grow_intro)

section \<open>\<open>Usage_Charge\<close>\<close>

lemma gov_usage_charge_1 [grow_intro]:
  "grows (governed E) (usage_cap_used_up i now usage_amount sub)"
  "grows (governed E) (usage_renewal_gate i now usage_amount sub)"
  "grows (governed E) (reject_usage i now usage_amount reference r)" "grows (governed E) (usage_state_of i now sub)"
  "grows (governed E) (store_usage_state i st)" "grows (governed E) (used_subscription pending sub0)"
  "grows (governed E) (usage_period_start now sub)" "grows (governed E) (usage_underfunded i now usage_amount sub)"
  by (auto simp: Let_def usage_cap_used_up_def usage_renewal_gate_def reject_usage_def usage_state_of_def store_usage_state_def
      used_subscription_def usage_period_start_def usage_underfunded_def
      intro!: grow_intro)

lemma gov_usage_charge_2 [grow_intro]:
  "grows (governed E) (usage_gates E i now usage_amount sub)" "grows (governed E) (roll_usage_period i now sub limits st)"
  "grows (governed E) (record_usage i now usage_amount reference should_emit settled)"
  by (auto simp: Let_def usage_gates_def roll_usage_period_def record_usage_def
      intro!: grow_intro)

lemma gov_usage_charge_3 [grow_intro]:
  "grows (governed E) (apply_usage_limits i now usage_amount reference sub limits st0)"
  "grows (governed E) (settle_usage E i now usage_amount reference pending sub0)"
  by (auto simp: Let_def apply_usage_limits_def settle_usage_def
      intro!: grow_intro)

lemma gov_usage_charge_4 [grow_intro]:
  "grows (governed E) (usage_limits_stage i now usage_amount reference sub)"
  "grows (governed E) (charge_usage_now E i now usage_amount reference sub)"
  by (auto simp: Let_def usage_limits_stage_def charge_usage_now_def
      intro!: grow_intro)

lemma gov_usage_charge_5 [grow_intro]:
  "grows (governed E) (usage_refusals i now usage_amount reference sub)"
  by (auto simp: Let_def usage_refusals_def
      intro!: grow_intro)

lemma gov_usage_charge_6 [grow_intro]:
  "grows (governed E) (charge_usage_one E i usage_amount reference)"
  by (auto simp: Let_def charge_usage_one_def
      intro!: grow_intro)

section \<open>\<open>Disputes\<close>\<close>

lemma gov_disputes_1 [grow_intro]:
  "grows (governed E) next_dispute_id" "grows (governed E) (read_dispute dispute_id)"
  "grows (governed E) (write_dispute dispute_id d)" "grows (governed E) (set_dispute_escrow dispute_id x)"
  "grows (governed E) (set_subscription_dispute i x2)" "grows (governed E) (do_get_subscription_dispute i)"
  "grows (governed E) (do_get_cancellation_escrow i)" "grows (governed E) (disbursement dispute_id)"
  "grows (governed E) (pay_resolution E d token resolution remaining)" "grows (governed E) (read_escrow i)"
  "grows (governed E) (drop_escrow i)"
  by (auto simp: Let_def next_dispute_id_def read_dispute_def write_dispute_def set_dispute_escrow_def set_subscription_dispute_def
      do_get_subscription_dispute_def do_get_cancellation_escrow_def disbursement_def pay_resolution_def read_escrow_def
      drop_escrow_def
      intro!: grow_intro)

lemma gov_disputes_2 [grow_intro]:
  "grows (governed E) (do_get_dispute dispute_id)" "grows (governed E) (no_open_dispute i)"
  "grows (governed E) (record_dispute E dispute_id i subscriber merchant amount evidence_hash)"
  "grows (governed E) (do_respond_dispute E admin dispute_id evidence_hash)"
  "grows (governed E) (close_dispute E dispute_id d resolution token)"
  by (auto simp: Let_def do_get_dispute_def no_open_dispute_def record_dispute_def do_respond_dispute_def close_dispute_def
      intro!: grow_intro)

lemma gov_disputes_3 [grow_intro]:
  "grows (governed E) (do_open_dispute E subscriber i amount evidence_hash)"
  "grows (governed E) (do_resolve_dispute E admin dispute_id resolve_to_subscriber)"
  "grows (governed E) (do_claim_cancellation_escrow E subscriber i)"
  "grows (governed E) (do_lodge_escrow_dispute E merchant i)"
  by (auto simp: Let_def do_open_dispute_def do_resolve_dispute_def do_claim_cancellation_escrow_def do_lodge_escrow_dispute_def
      intro!: grow_intro)

section \<open>\<open>Governance\<close>\<close>

lemma gov_governance_1 [grow_intro]:
  "grows (governed E) read_guardians" "grows (governed E) (get_guardian_weight guardian)"
  "grows (governed E) calculate_total_weight" "grows (governed E) (calculate_quorum p)"
  "grows (governed E) get_current_proposal_id" "grows (governed E) (read_proposal n)"
  "grows (governed E) (write_proposal n p)" "grows (governed E) (get_proposal n)"
  "grows (governed E) (ensure_proposal_not_invalidated n)" "grows (governed E) (entry_add_guardian E admin guardian weight)"
  "grows (governed E) (entry_remove_guardian E admin guardian)"
  by (auto simp: Let_def read_guardians_def get_guardian_weight_def calculate_total_weight_def calculate_quorum_def get_current_proposal_id_def
      read_proposal_def write_proposal_def get_proposal_def ensure_proposal_not_invalidated_def entry_add_guardian_def
      entry_remove_guardian_def
      intro!: grow_intro)

lemma gov_governance_2 [grow_intro]:
  "grows (governed E) list_guardians" "grows (governed E) get_next_proposal_id"
  "grows (governed E) invalidate_pending_proposals" "grows (governed E) (do_vote_proposal E n voted_yes nonce)"
  "grows (governed E) (execution_gates E n p)" "grows (governed E) (do_cancel_proposal E n)"
  by (auto simp: Let_def list_guardians_def get_next_proposal_id_def invalidate_pending_proposals_def do_vote_proposal_def execution_gates_def
      do_cancel_proposal_def
      intro!: grow_intro)

lemma gov_find_approval [grow_intro]: "grows (governed E) (find_approval E kind target target2 target3 x1)"
  by (induction x1 arbitrary: kind target target2 target3) (auto simp: Let_def intro!: grow_intro)

lemma gov_governance_3 [grow_intro]:
  "grows (governed E) (do_submit_proposal E kind target target2 target3 quorum_bps eta)"
  "grows (governed E) (require_multisig_approval E kind target target2 target3)" "grows (governed E) is_multisig_enabled"
  by (auto simp: Let_def do_submit_proposal_def require_multisig_approval_def is_multisig_enabled_def
      intro!: grow_intro)

section \<open>\<open>Metadata\<close>\<close>

lemma gov_metadata_1 [grow_intro]:
  "grows (governed E) (validate_metadata_input i key val)" "grows (governed E) (apply_metadata_storage i key val)"
  "grows (governed E) (get_metadata E i key)" "grows (governed E) (delete_metadata E i caller key)"
  "grows (governed E) (list_metadata_keys E i)" "grows (governed E) (get_metadata_signed_nonce signer)"
  by (auto simp: Let_def validate_metadata_input_def apply_metadata_storage_def get_metadata_def delete_metadata_def list_metadata_keys_def
      get_metadata_signed_nonce_def
      intro!: grow_intro)

lemma gov_metadata_2 [grow_intro]:
  "grows (governed E) (apply_metadata_value i key val)" "grows (governed E) (do_delete_metadata E authorizer i key)"
  "grows (governed E) (do_set_metadata_signed E S signer_pubkey payload signature)"
  by (auto simp: Let_def apply_metadata_value_def do_delete_metadata_def do_set_metadata_signed_def
      intro!: grow_intro)

lemma gov_metadata_3 [grow_intro]:
  "grows (governed E) (set_metadata E i caller key val)"
  by (auto simp: Let_def set_metadata_def
      intro!: grow_intro)

lemma gov_metadata_4 [grow_intro]:
  "grows (governed E) (do_set_metadata E authorizer i key val)"
  by (auto simp: Let_def do_set_metadata_def
      intro!: grow_intro)

section \<open>\<open>Batch_Charge\<close>\<close>

lemma gov_batch_loop [grow_intro]: "(\<And>y1 y2. grows (governed E) (mk_salt y1 y2)) \<Longrightarrow> grows (governed E) (batch_loop mk_salt E now keys cfg idx cache x1)"
  by (induction x1 arbitrary: now keys cfg idx cache) (auto simp: Let_def intro!: grow_intro)

lemma gov_charge_each [grow_intro]: "(\<And>y1 y2. grows (governed E) (mk_salt y1 y2)) \<Longrightarrow> grows (governed E) (charge_each mk_salt E now keys idx x1)"
  by (induction x1 arbitrary: now keys idx) (auto simp: Let_def intro!: grow_intro)

lemma gov_execute_batch_charge_with [grow_intro]: "(\<And>y1 y2. grows (governed E) (mk_salt y1 y2)) \<Longrightarrow> grows (governed E) (execute_batch_charge_with mk_salt E ids keys)"
  by (auto simp: execute_batch_charge_with_def Let_def intro!: grow_intro)

lemma gov_batch_charge_3 [grow_intro]:
  "grows (governed E) (execute_batch_charge E x1 x2)"
  by (auto simp: Let_def execute_batch_charge_def
      intro!: grow_intro)

lemma gov_do_batch_charge_detailed_with [grow_intro]: "(\<And>y1 y2. grows (governed E) (mk_salt y1 y2)) \<Longrightarrow> grows (governed E) (do_batch_charge_detailed_with mk_salt E ids keys nonce)"
  by (auto simp: do_batch_charge_detailed_with_def Let_def intro!: grow_intro)

lemma gov_batch_charge_4 [grow_intro]:
  "grows (governed E) (do_batch_charge_detailed E x1 x2 x3)"
  by (auto simp: Let_def do_batch_charge_detailed_def
      intro!: grow_intro)

lemma gov_batch_charge_5 [grow_intro]:
  "grows (governed E) (do_batch_charge E ids keys nonce)"
  by (auto simp: Let_def do_batch_charge_def
      intro!: grow_intro)

section \<open>\<open>Admin_Ops\<close>\<close>

lemma gov_admin_ops_1 [grow_intro]:
  "grows (governed E) (add_accepted_token E admin token decimals)" "grows (governed E) (do_charge_subscription E i)"
  "grows (governed E) (do_charge_usage E i usage_amount reference)" "grows (governed E) (require_operator_auth E op)"
  "grows (governed E) (do_set_operator E admin op)" "grows (governed E) (do_remove_operator E admin)"
  "grows (governed E) (do_operator_batch_charge E op ids nonce)"
  "grows (governed E) (do_rotate_admin E current_admin new_admin nonce)"
  "grows (governed E) (do_recover_stranded_funds E admin token recipient amount recovery_id)"
  "grows (governed E) (queue_treasury_change E admin treasury fee_bps)"
  "grows (governed E) (execute_treasury_change E admin)" "grows (governed E) (cancel_treasury_change E admin)"
  "grows (governed E) get_admin_proposal"
  by (auto simp: Let_def add_accepted_token_def do_charge_subscription_def do_charge_usage_def require_operator_auth_def do_set_operator_def
      do_remove_operator_def do_operator_batch_charge_def do_rotate_admin_def do_recover_stranded_funds_def
      queue_treasury_change_def execute_treasury_change_def cancel_treasury_change_def get_admin_proposal_def
      intro!: grow_intro)

lemma gov_reject_charged_subs [grow_intro]: "grows (governed E) (reject_charged_subs x1)"
  by (induction x1) (auto simp: Let_def intro!: grow_intro)

lemma gov_admin_ops_2 [grow_intro]:
  "grows (governed E) (remove_accepted_token E admin token)" "grows (governed E) (do_operator_charge_subscription E op i)"
  "grows (governed E) (do_operator_charge_usage_with_reference E op i usage_amount reference)"
  "grows (governed E) (do_operator_charge_usage E op i usage_amount)"
  "grows (governed E) (set_protocol_fee E admin treasury fee_bps)"
  by (auto simp: Let_def remove_accepted_token_def do_operator_charge_subscription_def do_operator_charge_usage_with_reference_def
      do_operator_charge_usage_def set_protocol_fee_def
      intro!: grow_intro)

section \<open>\<open>Migration\<close>\<close>

lemma gov_migration_1 [grow_intro]:
  "grows (governed E) stored_next_id"
  by (auto simp: Let_def stored_next_id_def
      intro!: grow_intro)

lemma gov_rewrite_subs [grow_intro]: "grows (governed E) (rewrite_subs x1 touched)"
  by (induction x1 arbitrary: touched) (auto simp: Let_def intro!: grow_intro)

lemma gov_spot_check [grow_intro]: "grows (governed E) (spot_check x1)"
  by (induction x1) (auto simp: Let_def intro!: grow_intro)

lemma gov_migration_2 [grow_intro]:
  "grows (governed E) rewrite_subscriptions_for_ledger_expiration"
  "grows (governed E) rewrite_subscriptions_for_sub_account_label" "grows (governed E) count_rewriteable_subscriptions"
  "grows (governed E) (verify_migration expected_version)"
  by (auto simp: Let_def rewrite_subscriptions_for_ledger_expiration_def rewrite_subscriptions_for_sub_account_label_def
      count_rewriteable_subscriptions_def verify_migration_def
      intro!: grow_intro)

lemma gov_migration_3 [grow_intro]:
  "grows (governed E) (plan_schema_migration stored_version binary_version dry_run)"
  "grows (governed E) (migrate_config_to_persistent E admin)"
  by (auto simp: Let_def plan_schema_migration_def migrate_config_to_persistent_def
      intro!: grow_intro)

lemma gov_migration_4 [grow_intro]:
  "grows (governed E) (do_migrate E admin binary_version dry_run)"
  by (auto simp: Let_def do_migrate_def
      intro!: grow_intro)

section \<open>\<open>Merchant_Admin\<close>\<close>

lemma gov_merchant_admin_1 [grow_intro]:
  "grows (governed E) (count_active_subscriptions merchant)" "grows (governed E) (require_whitelist_approval merchant)"
  "grows (governed E) get_tag_allowlist" "grows (governed E) (get_merchant_tags merchant)"
  "grows (governed E) (validate_merchant_config_input fee_bips allowed_operations)"
  "grows (governed E) (store_config merchant c)" "grows (governed E) (move_token old new token)"
  "grows (governed E) (move_token_list old new tokens)" "grows (governed E) (move_profile old new)"
  "grows (governed E) (move_sub_list old new ids)" "grows (governed E) (publish_snapshot b)"
  "grows (governed E) (do_register_plan E merchant amount interval_seconds trial_seconds usage_enabled lifetime_cap)"
  "grows (governed E) (do_deprecate_plan E merchant plan_id)"
  by (auto simp: Let_def count_active_subscriptions_def require_whitelist_approval_def get_tag_allowlist_def get_merchant_tags_def
      validate_merchant_config_input_def store_config_def move_token_def move_token_list_def move_profile_def
      move_sub_list_def publish_snapshot_def do_register_plan_def do_deprecate_plan_def
      intro!: grow_intro)

lemma gov_unique_tags [grow_intro]: "grows (governed E) (unique_tags seen x1)"
  by (induction x1 arbitrary: seen) (auto simp: Let_def intro!: grow_intro)

lemma gov_allowed_tags [grow_intro]: "grows (governed E) (allowed_tags allowlist seen x1)"
  by (induction x1 arbitrary: allowlist seen) (auto simp: Let_def intro!: grow_intro)

lemma gov_reassign_subs [grow_intro]: "grows (governed E) (reassign_subs old new x1 n)"
  by (induction x1 arbitrary: old new n) (auto simp: Let_def intro!: grow_intro)

lemma gov_merchant_admin_2 [grow_intro]:
  "grows (governed E) (reject_protected_field_change merchant fee_bips allowed_operations)"
  "grows (governed E) (set_tag_allowlist E admin tags)" "grows (governed E) (set_merchant_tags E admin merchant tags)"
  "grows (governed E) (initialize_merchant_config E merchant payout_address fee_bips2 allowed_operations2 fee_address redirect_url)"
  "grows (governed E) (set_merchant_config E merchant config)"
  "grows (governed E) (do_rotate_merchant_address E admin old_merchant new_merchant nonce)"
  "grows (governed E) (do_emit_merchant_balance_snapshot E admin merchant token)"
  by (auto simp: Let_def reject_protected_field_change_def set_tag_allowlist_def set_merchant_tags_def initialize_merchant_config_def
      set_merchant_config_def do_rotate_merchant_address_def do_emit_merchant_balance_snapshot_def
      intro!: grow_intro)

lemma gov_emit_snapshots [grow_intro]: "grows (governed E) (emit_snapshots E x1 seen out)"
  by (induction x1 arbitrary: seen out) (auto simp: Let_def intro!: grow_intro)

lemma gov_merchant_admin_3 [grow_intro]:
  "grows (governed E) (update_merchant_config E merchant new_payout_address new_fee_bips new_allowed_operations new_is_active new_fee_address new_redirect_url new_is_paused)"
  "grows (governed E) (do_emit_all_balances_snapshot E admin start_id end_id)"
  by (auto simp: Let_def update_merchant_config_def do_emit_all_balances_snapshot_def
      intro!: grow_intro)

section \<open>\<open>Queries\<close>\<close>

lemma gov_queries_1 [grow_intro]:
  "grows (governed E) (estimate_topup_for_intervals E i num_intervals)" "grows (governed E) (get_next_charge_info E i)"
  "grows (governed E) (get_cap_info E i)"
  by (auto simp: Let_def estimate_topup_for_intervals_def get_next_charge_info_def get_cap_info_def
      intro!: grow_intro)

section \<open>\<open>Entry_Points\<close>\<close>

lemma gov_entry_points_1 [grow_intro]:
  "grows (governed E) get_emergency_stop"
  "grows (governed E) (entry_set_oracle_config E admin enabled oracle_addr max_age kind window_secs fixed_numerator fixed_denominator)"
  "grows (governed E) (entry_migrate E admin dry_run)"
  "grows (governed E) (entry_add_accepted_token E admin token decimals)"
  "grows (governed E) (entry_queue_treasury_change E admin treasury fee_bps)"
  "grows (governed E) (entry_set_protocol_fee E admin treasury fee_bps)"
  "grows (governed E) (entry_set_merchant_cap_default E merchant cap)"
  "grows (governed E) (set_idempotency_ttl E admin ttl_secs)"
  "grows (governed E) (set_billing_retention E admin keep_recent)"
  "grows (governed E) (compact_billing_statements E admin i keep_recent_override)"
  "grows (governed E) (publish_created E i c token)"
  "grows (governed E) (entry_bulk_cancel_subscriptions E caller ids nonce)"
  "grows (governed E) (entry_cancel_subscription E i authorizer)"
  "grows (governed E) (entry_pause_subscription E i authorizer)"
  "grows (governed E) (entry_resume_subscription E i authorizer)"
  "grows (governed E) (entry_finalize_emergency_withdraw E i subscriber)"
  "grows (governed E) (entry_withdraw_subscriber_funds E i subscriber)"
  "grows (governed E) (entry_schedule_cancel E i authorizer cancel_at)"
  "grows (governed E) (entry_unschedule_cancel E i authorizer)"
  "grows (governed E) (entry_initiate_transfer E i sender recipient expires_at)"
  "grows (governed E) (entry_accept_transfer E i recipient)" "grows (governed E) (entry_veto_transfer E i merchant)"
  "grows (governed E) (entry_merchant_refund E merchant subscriber token amount)"
  "grows (governed E) (entry_withdraw_sub_account_funds E merchant label token amount)"
  "grows (governed E) (entry_open_dispute E subscriber i amount evidence_hash)"
  "grows (governed E) (entry_respond_dispute E admin dispute_id evidence_hash)"
  "grows (governed E) (entry_resolve_dispute E admin dispute_id resolve_to_subscriber)"
  "grows (governed E) (entry_claim_cancellation_escrow E subscriber i)"
  "grows (governed E) (entry_set_metadata E i authorizer key val)"
  "grows (governed E) (entry_set_metadata_signed E S signer_pubkey payload signature)"
  "grows (governed E) (entry_delete_metadata E i authorizer key)" "grows (governed E) (export_contract_snapshot E admin)"
  "grows (governed E) (export_subscription_summary E admin i)"
  "grows (governed E) (export_subscription_summaries E admin start_id limit)"
  "grows (governed E) (export_full_snapshot_page E admin start_id size0)" "grows (governed E) (restore_one x)"
  "grows (governed E) (restore_balance b)"
  by (auto simp: Let_def get_emergency_stop_def entry_set_oracle_config_def entry_migrate_def entry_add_accepted_token_def
      entry_queue_treasury_change_def entry_set_protocol_fee_def entry_set_merchant_cap_default_def set_idempotency_ttl_def
      set_billing_retention_def compact_billing_statements_def publish_created_def entry_bulk_cancel_subscriptions_def
      entry_cancel_subscription_def entry_pause_subscription_def entry_resume_subscription_def
      entry_finalize_emergency_withdraw_def entry_withdraw_subscriber_funds_def entry_schedule_cancel_def
      entry_unschedule_cancel_def entry_initiate_transfer_def entry_accept_transfer_def entry_veto_transfer_def
      entry_merchant_refund_def entry_withdraw_sub_account_funds_def entry_open_dispute_def entry_respond_dispute_def
      entry_resolve_dispute_def entry_claim_cancellation_escrow_def entry_set_metadata_def entry_set_metadata_signed_def
      entry_delete_metadata_def export_contract_snapshot_def export_subscription_summary_def
      export_subscription_summaries_def export_full_snapshot_page_def restore_one_def restore_balance_def
      intro!: grow_intro)

lemma gov_payee_weights [grow_intro]: "grows (governed E) (payee_weights x1 acc)"
  by (induction x1 arbitrary: acc) (auto simp: Let_def intro!: grow_intro)

lemma gov_entry_points_2 [grow_intro]:
  "grows (governed E) require_not_emergency_stop" "grows (governed E) (set_emergency_stop E admin on)"
  "grows (governed E) (check_payees entries)" "grows (governed E) (restore_snapshot_page E admin start_id subs balances)"
  by (auto simp: Let_def require_not_emergency_stop_def set_emergency_stop_def check_payees_def restore_snapshot_page_def
      intro!: grow_intro)

lemma gov_entry_points_3 [grow_intro]:
  "grows (governed E) (enable_emergency_stop E admin)" "grows (governed E) (disable_emergency_stop E admin)"
  by (auto simp: Let_def enable_emergency_stop_def disable_emergency_stop_def
      intro!: grow_intro)

lemma gov_unless_stopped [grow_intro]: "grows (governed E) (m) \<Longrightarrow> grows (governed E) (unless_stopped m)"
  by (auto simp: unless_stopped_def Let_def intro!: grow_intro)

lemma gov_update_split_payees [grow_intro]: "grows (governed E) (update_split_payees E subscriber i entries)"
  by (auto simp: update_split_payees_def intro!: grow_intro split: if_splits)

lemma gov_entry_points_4 [grow_intro]:
  "grows (governed E) (entry_operator_batch_charge E op ids nonce)"
  "grows (governed E) (entry_operator_charge_subscription E op i)"
  "grows (governed E) (entry_operator_charge_usage E op i usage_amount)"
  "grows (governed E) (entry_operator_charge_usage_with_ref E op i usage_amount reference)"
  "grows (governed E) (entry_batch_charge E ids keys nonce)"
  "grows (governed E) (entry_batch_charge_detailed E ids keys nonce)"
  "grows (governed E) (entry_charge_subscription E i idem_key)" "grows (governed E) (entry_charge_usage E i usage_amount)"
  "grows (governed E) (entry_charge_usage_with_reference E i usage_amount reference)"
  "grows (governed E) (entry_charge_one_off E i merchant amount idem_key)"
  "grows (governed E) (entry_rotate_admin E current_admin new_admin nonce)"
  "grows (governed E) (entry_create_subscription E c)" "grows (governed E) (entry_create_subscription_with_token E c)"
  "grows (governed E) (entry_create_subscription_from_plan E subscriber p label)"
  "grows (governed E) (entry_register_plan E merchant amount interval trial usage_enabled cap)"
  "grows (governed E) (entry_deposit_funds E i amount nonce2)"
  "grows (governed E) (entry_grant_delegated_payer E subscriber payer expires_at max_amount)"
  "grows (governed E) (entry_deposit_funds_on_behalf E i payer amount nonce2)"
  "grows (governed E) (entry_grace_buyout E i subscriber amount idem_key)"
  "grows (governed E) (entry_bulk_deposit_funds E caller entries nonce)"
  "grows (governed E) (entry_partial_refund E admin i subscriber amount)"
  "grows (governed E) (entry_create_coupon E merchant code token percent_off_bps fixed_off max_redemptions expires_at)"
  "grows (governed E) (entry_revoke_coupon E merchant code)" "grows (governed E) (entry_apply_coupon E subscriber i code)"
  "grows (governed E) (entry_withdraw_merchant_funds E merchant amount)"
  "grows (governed E) (entry_withdraw_merchant_token_funds E merchant token amount)"
  "grows (governed E) (entry_flush_payouts E merchant)"
  by (auto simp: Let_def entry_operator_batch_charge_def entry_operator_charge_subscription_def entry_operator_charge_usage_def
      entry_operator_charge_usage_with_ref_def entry_batch_charge_def entry_batch_charge_detailed_def
      entry_charge_subscription_def entry_charge_usage_def entry_charge_usage_with_reference_def entry_charge_one_off_def
      entry_rotate_admin_def entry_create_subscription_def entry_create_subscription_with_token_def
      entry_create_subscription_from_plan_def entry_register_plan_def entry_deposit_funds_def
      entry_grant_delegated_payer_def entry_deposit_funds_on_behalf_def entry_grace_buyout_def entry_bulk_deposit_funds_def
      entry_partial_refund_def entry_create_coupon_def entry_revoke_coupon_def entry_apply_coupon_def
      entry_withdraw_merchant_funds_def entry_withdraw_merchant_token_funds_def entry_flush_payouts_def
      intro!: grow_intro)

lemma gov_create_subscription_with_split [grow_intro]: "grows (governed E) (create_subscription_with_split E c0 entries)"
  by (auto simp: create_subscription_with_split_def Let_def intro!: grow_intro)


section \<open>The calls\<close>

lemma gov_init [grow_intro]: "grows (governed E) (do_init E token token_decimals admin min_topup grace_period)"
proof -
  have "fst (do_init E token token_decimals admin min_topup grace_period s) = Err E_AlreadyInitialized \<and>
      snd (do_init E token token_decimals admin min_topup grace_period s) = s" if "stored_admin s = Some a" for s a
  proof -
    from that have "has_config cf_admin s = (Ok True, s)"
      by (auto simp: has_config_def stored_admin_def config_value_def run_simps split: option.splits if_splits)
    moreover have "\<exists>b. has_config cf_token s = (Ok b, s)" by (simp add: has_config_def run_simps)
    ultimately show ?thesis by (auto simp: do_init_def bnd_run run_simps)
  qed
  then show ?thesis by (auto simp: grows_def governed_def)
qed

lemma gov_handover [grow_intro]:
  "grows (governed E) (entry_propose_admin E current new)" "grows (governed E) (do_cancel_admin_proposal E admin)"
  by (auto simp: entry_propose_admin_def do_propose_admin_def do_cancel_admin_proposal_def intro!: grow_intro)

lemma gov_guardians [grow_intro]:
  "grows (governed E) (entry_add_guardian E admin guardian weight)" "grows (governed E) (entry_remove_guardian E admin guardian)"
  by (auto simp: entry_add_guardian_def entry_remove_guardian_def intro!: grow_intro)

lemma gov_drop_result [grow_intro]: "grows (governed E) m \<Longrightarrow> grows (governed E) (drop_result m)"
  by (auto simp: drop_result_def intro: grow_intro)

text \<open>The two calls that carry out what the admin or the guardians decided before.\<close>

fun by_office :: "contract_call \<Rightarrow> bool" where
  "by_office (Behind_Stop (Opening (C_ClaimAdmin a))) = True"
| "by_office (Govern (X_ExecuteProposal n)) = True"
| "by_office _ = False"

lemma gov_run_charge [grow_intro]: "grows (governed E) (run_charge E c)"
  by (cases c) (auto simp: delegate_defs intro!: grow_intro)

lemma gov_run_money [grow_intro]: "grows (governed E) (run_money E c)"
  by (cases c) (auto simp: delegate_defs intro!: grow_intro)

lemma gov_run_admin [grow_intro]: "grows (governed E) (run_admin_call E c)"
  by (cases c) (auto simp: delegate_defs intro!: grow_intro)

lemma gov_run_limit [grow_intro]: "grows (governed E) (run_limit_call E c)"
  by (cases c) (auto simp: delegate_defs intro!: grow_intro)

lemma gov_run_status [grow_intro]: "grows (governed E) (run_status_call E c)"
  by (cases c) (auto simp: delegate_defs intro!: grow_intro)

lemma gov_run_plan [grow_intro]: "grows (governed E) (run_plan_call E c)"
  by (cases c) (auto simp: delegate_defs intro!: grow_intro)

lemma gov_run_merchant [grow_intro]: "grows (governed E) (run_merchant_call E c)"
  by (cases c) (auto simp: delegate_defs intro!: grow_intro)

lemma gov_run_case [grow_intro]: "grows (governed E) (run_case_call E c)"
  by (cases c) (auto simp: delegate_defs intro!: grow_intro)

lemma gov_run_open: "\<not> by_office (Behind_Stop (Opening c)) \<Longrightarrow> grows (governed E) (run_open E c)"
  by (cases c) (auto simp: delegate_defs intro!: grow_intro)

lemma gov_run_vote: "\<not> by_office (Govern c) \<Longrightarrow> grows (governed E) (run_vote_call E c)"
  by (cases c) (auto simp: delegate_defs intro!: grow_intro)

lemma gov_contract:
  assumes "\<not> by_office c"
  shows "grows (governed E) (run_contract E c)"
proof (cases c)
  case (Behind_Stop x)
  with assms show ?thesis by (cases x) (auto intro: grow_intro gov_run_open)
qed (use assms in \<open>auto intro: grow_intro gov_run_vote\<close>)

text \<open>
  C6. The settings are the admin's. In any sequence of transactions that the stored admin did not authorise, none of them executing
  a proposal or claiming a pending handover, nothing of what the admin decides changes: not the admin itself, the token, the fee and
  its treasury, the oracle, the operator, the emergency stop, the schema and its tiers, accepted tokens, recoveries, guardians, the
  blocklist, credit and subscription limits, the tags, the signature rules, fee overrides and whitelist of merchants, the time to live of
  idempotency keys and the retention of billing statements; only the counter of subscription ids moves. (The documentation also lets merchants
  add to the blocklist; the code accepts the stored admin alone.)
\<close>

theorem settings_need_admin:
  assumes "stored_admin s = Some admin" and "\<And>E c. (E, c) \<in> set txs \<Longrightarrow> \<not> e_auth E admin \<and> \<not> by_office c"
  shows "settings_view_of (ledger_after txs s) = settings_view_of s"
  using assms
proof (induction txs arbitrary: s)
  case Nil
  then show ?case by (simp add: ledger_after_def)
next
  case (Cons x txs)
  have "governed (fst x) s (submit x s)"
    unfolding submit_def using Cons.prems(2) [of "fst x" "snd x"] by (intro gov.tx_grows gov_contract) simp
  with Cons.prems(1) Cons.prems(2) [of "fst x" "snd x"] have same: "settings_view_of (submit x s) = settings_view_of s"
    by (simp add: governed_def)
  with Cons.prems(1) have "stored_admin (submit x s) = Some admin" using same_admin by metis
  then have "settings_view_of (ledger_after txs (submit x s)) = settings_view_of (submit x s)"
    by (rule Cons.IH) (rule Cons.prems(2), simp)
  with same show ?case by (simp add: ledger_after_def)
qed

theorem settings_need_admin_witness:
  "settings_view_of (ledger_after [(fund_env\<lparr>e_auth := \<lambda>a. a = Addr 2\<rparr>, Administer (X_SetMinTopup (Addr 3) 5)),
     (fund_env\<lparr>e_auth := \<lambda>a. a = Addr 2\<rparr>, Behind_Stop (Moving (C_Deposit 7 500 None)))] fund_vault) = settings_view_of fund_vault"
proof (rule settings_need_admin)
  show "stored_admin fund_vault = Some (Addr 3)"
    by (simp add: stored_admin_def config_value_def fund_vault_def empty_vault_def)
qed auto

end
