(* ===== verification/Contract_Claims.thy ===== *)
theory Contract_Claims
  imports Authority_Ops
begin

text \<open>
  What an operation of one component means in the life of the whole contract: an idempotency key, a proposed admin and a named recipient,
  with any transactions of any kind in between.
\<close>

section \<open>Transactions one at a time\<close>

lemma ledger_after_simps [simp]:
  "ledger_after [] s = s" "ledger_after (txs @ [x]) s = submit x (ledger_after txs s)"
  by (simp_all add: ledger_after_def)

lemma submit_cases:
  obtains "submit x s = s" | u where "run_contract (fst x) (snd x) s = (Ok u, submit x s)"
  using tx_cases [of "run_contract (fst x) (snd x)" s] by (auto simp: submit_def)

lemma submit_withholds: "withholds (powers (snd x)) (fst x) s (submit x s)"
  using submit_evolves [of x s] by (simp add: evolves_def)

lemma powers_iff:
  "Sets_Ttl \<in> powers c \<longleftrightarrow> (\<exists>admin n. c = Administer (X_SetIdempotencyTtl admin n))"
  "Names_Admin \<in> powers c \<longleftrightarrow> (\<exists>a b. c = Behind_Stop (Opening (C_ProposeAdmin a b)))"
  "Names_Owner \<in> powers c \<longleftrightarrow> (\<exists>i a b n. c = Manage (X_InitiateTransfer i a b n))"
  by (cases c rule: powers.cases; simp)+

lemma with_lock_ok:
  "with_lock n m s = (Ok a, t) \<longleftrightarrow> \<not> v_locks s n \<and> (\<exists>u. m (s\<lparr>v_locks := (v_locks s)(n := True)\<rparr>) = (Ok a, u) \<and> t = release n u)"
  by (auto simp: with_lock_def lock_def act_run split: outcome.splits prod.splits)

lemma release_sel [simp]:
  "v_life (release n s) = v_life s" "v_subs (release n s) = v_subs s" "v_ledger (release n s) = v_ledger s"
  by (simp_all add: release_def)

lemma unless_stopped_ok: "unless_stopped m s = (Ok a, t) \<longleftrightarrow> \<not> emergency_stopped s \<and> m s = (Ok a, t)"
  by (auto simp: unless_stopped_def require_not_emergency_stop_def get_emergency_stop_def act_ok)

lemma drop_result_ok: "drop_result m s = (Ok u, t) \<longleftrightarrow> (\<exists>a. m s = (Ok a, t))"
  by (auto simp: drop_result_def act_ok)

section \<open>Idempotency keys\<close>

lemma key_lives:
  assumes "e \<in> set (ib_entries (load_buffer (v_idem s) i))" and "now - snd e < get_ttl_secs (v_idem s)"
    and "\<forall>x \<in> set txs. e_timestamp (fst x) \<le> now \<and> Sets_Ttl \<notin> powers (snd x)"
  shows "e \<in> set (ib_entries (load_buffer (v_idem (ledger_after txs s)) i)) \<and>
    get_ttl_secs (v_idem (ledger_after txs s)) = get_ttl_secs (v_idem s)"
  using assms(3)
proof (induction txs rule: rev_induct)
  case (snoc x txs)
  let ?v = "ledger_after txs s"
  from snoc.prems have x: "e_timestamp (fst x) \<le> now" "Sets_Ttl \<notin> powers (snd x)" by simp_all
  then have "keys_kept (e_timestamp (fst x)) (v_idem ?v) (v_idem (submit x ?v))"
    using submit_withholds [of x ?v] by (simp add: withholds_def)
  moreover from snoc have "e \<in> set (ib_entries (load_buffer (v_idem ?v) i))" "get_ttl_secs (v_idem ?v) = get_ttl_secs (v_idem s)"
    by simp_all
  moreover have "e_timestamp (fst x) - snd e < get_ttl_secs (v_idem s)" using x(1) assms(2) by simp
  ultimately show ?case unfolding keys_kept_def by (cases e) simp
qed (use assms(1) in simp)

text \<open>A remembered key is answered before anything is done.\<close>

lemma remembered_key:
  assumes "check_key_at (v_idem v) i (hash_idem_key E (as_u32 DOMAIN_CHARGE_INTERVAL) i k) (e_timestamp E)"
  shows "snd (tx (charge_after_salt E i now (Some k) cfg period salt a sub) v) = v \<and>
    (ch_salt (v_charge v) i \<noteq> Some salt \<longrightarrow> charge_after_salt E i now (Some k) cfg period salt a sub v = (Ok CER_Charged, v))"
proof (cases "ch_salt (v_charge v) i = Some salt")
  case True
  then have "\<exists>u. salt_gate i now a salt v = (Err E_Replay, u)" by (simp add: salt_gate_def charge_fail_def act_run)
  then have "\<exists>u. charge_after_salt E i now (Some k) cfg period salt a sub v = (Err E_Replay, u)"
    by (auto simp: charge_after_salt_def thn_def bnd_def)
  with True show ?thesis by (auto simp: tx_def)
next
  case False
  with assms have "charge_after_salt E i now (Some k) cfg period salt a sub v = (Ok CER_Charged, v)"
    by (simp add: charge_after_salt_def salt_gate_def idem_gate_def act_run)
  with False show ?thesis by (simp add: tx_def)
qed



section \<open>The admin role\<close>

definition handover_proposed :: "(env \<times> contract_call) list \<Rightarrow> vault \<Rightarrow> admin_proposal \<Rightarrow> bool" where
  "handover_proposed txs s p \<longleftrightarrow> (\<exists>before E current rest.
     txs = before @ (E, Behind_Stop (Opening (C_ProposeAdmin current (ap_new_admin p)))) # rest \<and> e_auth E current \<and>
     stored_admin (ledger_after before s) = Some current \<and> ap_proposed_at p = e_timestamp E \<and>
     ap_expires_at p = sat_add_u64 (e_timestamp E) PROPOSAL_WINDOW_SECS)"

lemma handover_proposed_snoc: "handover_proposed txs s p \<Longrightarrow> handover_proposed (txs @ [x]) s p"
  unfolding handover_proposed_def by (elim exE conjE) (intro exI conjI, auto)

lemma pending_was_proposed:
  "pending_handover s = None \<Longrightarrow> pending_handover (ledger_after txs s) = Some p \<Longrightarrow> handover_proposed txs s p"
proof (induction txs arbitrary: p rule: rev_induct)
  case (snoc x txs)
  let ?v = "ledger_after txs s"
  obtain E c where x: "x = (E, c)" by (cases x)
  show ?case
  proof (cases "pending_handover ?v = Some p")
    case True
    then show ?thesis using snoc by (blast intro: handover_proposed_snoc)
  next
    case False
    with snoc.prems have "\<not> (pending_handover (submit x ?v) = pending_handover ?v \<or> pending_handover (submit x ?v) = None)"
      by simp
    with submit_withholds [of x ?v] x obtain a b where c: "c = Behind_Stop (Opening (C_ProposeAdmin a b))"
      by (auto simp: withholds_def powers_iff)
    have "submit x ?v \<noteq> ?v" using False snoc.prems(2) by auto
    then have "run_contract E c ?v = (Ok (), submit x ?v)" using x by (cases rule: submit_cases [of x ?v]) simp_all
    then have "do_propose_admin E a b ?v = (Ok (), submit x ?v)" by (simp add: c entry_propose_admin_def unless_stopped_ok)
    from propose_effect [OF this] snoc.prems show ?thesis
      unfolding handover_proposed_def x c by (intro exI [of _ txs] exI [of _ E] exI [of _ a] exI [of _ "[]"]) auto
  qed
qed simp

lemma persistent_value: "cf_admin (ad_persistent a) = Some x \<Longrightarrow> config_value cf_admin a = Some x"
  by (simp add: config_value_def split: option.split)

lemma execute_rotates:
  assumes "do_execute_proposal E n s = (Ok (), t)" and "stored_admin t \<noteq> stored_admin s"
  shows "\<exists>p. g_proposal (v_gov s) n = Some p \<and> pr_kind p = RotateAdmin \<and> stored_admin t = Some (pr_target p)"
proof -
  from assms obtain p v where p: "g_proposal (v_gov s) n = Some p" and v: "apply_proposal E p s = (Ok (), v)" "stored_admin t = stored_admin v"
    by (auto simp: do_execute_proposal_def act_ok stored_admin_def dest!: execution_gates_ok split: prod.split_asm)
  from v assms(2) have "pr_kind p = RotateAdmin \<and> stored_admin v = Some (pr_target p)"
    by (cases "pr_kind p")
      (auto simp: apply_proposal_def apply_dispute_window_secs_def get_dispute_window_secs_def set_oracle_address_def Let_def act_ok
        stored_admin_def admin_token.value_after_put fee_admin.other_after_put treasury_admin.other_after_put stop_admin.other_after_put
        window_admin.other_after_put oracle_admin.other_after_put persistent_value split: option.split_asm if_split_asm)
  with p v(2) show ?thesis by auto
qed

text \<open>
  C17. The admin role changes hands in three ways only. Start without a pending proposal and let any transactions of any kind follow; if a further
  transaction, calling any entry point, changes the stored admin, then it was authorised by the admin who leaves (the rotation in one step and the
  migrations are such calls); or it is the claim of the new admin itself, authorised by it, and one of the earlier transactions was the proposal naming it,
  made and authorised by the admin of that moment at least one day and at most seven days before; or it executes a governance proposal
  to rotate the admin to exactly the new one, past its timelock and with the required weight of yes votes.
\<close>

theorem admin_changes_hands:
  assumes "pending_handover s = None" and "v = ledger_after txs s" and "w = submit (E, c) v"
    and "stored_admin v = Some old" and "stored_admin w \<noteq> Some old"
  shows "e_auth E old \<or>
    (\<exists>claimant p. c = Behind_Stop (Opening (C_ClaimAdmin claimant)) \<and> e_auth E claimant \<and> stored_admin w = Some claimant \<and>
       ap_new_admin p = claimant \<and> handover_proposed txs s p \<and>
       min u64_max (ap_proposed_at p + 86400) \<le> e_timestamp E \<and> e_timestamp E \<le> ap_proposed_at p + 7 * 86400) \<or>
    (\<exists>n p. c = Govern (X_ExecuteProposal n) \<and> g_proposal (v_gov v) n = Some p \<and> pr_kind p = RotateAdmin \<and>
       stored_admin w = Some (pr_target p) \<and> pr_submitted_at p + MIN_TIMELOCK_DELAY \<le> e_timestamp E \<and>
       required_votes (total_weight v) (pr_quorum_bps p) \<le> tally v True (pr_votes p))"
proof (cases "e_auth E old \<or> \<not> by_office c")
  case True
  then show ?thesis
  proof
    assume "\<not> by_office c"
    then have "governed E v w" unfolding assms(3) submit_def by (intro gov.tx_grows) (simp add: gov_contract)
    with assms(4,5) same_admin [of w v] show ?thesis by (auto simp: governed_def)
  qed simp
next
  case False
  from assms(3-5) have ran: "run_contract E c v = (Ok (), w)"
    by (cases rule: submit_cases [of "(E, c)" v]) auto
  from False consider claimant where "c = Behind_Stop (Opening (C_ClaimAdmin claimant))" | n where "c = Govern (X_ExecuteProposal n)"
    by (cases c rule: by_office.cases) auto
  then show ?thesis
  proof cases
    case (1 claimant)
    with ran have "do_claim_admin_role E claimant v = (Ok (), w)" by (simp add: entry_claim_admin_role_def unless_stopped_ok)
    then show ?thesis
    proof (rule claim_role_effect)
      fix p :: admin_proposal
      assume p: "e_auth E claimant" "pending_handover v = Some p" "ap_new_admin p = claimant"
        "sat_add_u64 (ap_proposed_at p) ADMIN_PROPOSAL_COOLDOWN_SECS \<le> e_timestamp E" "e_timestamp E \<le> ap_expires_at p"
        "v_admin w = config_put cf_admin_update claimant ((v_admin v)\<lparr>ad_admin_proposal := None\<rparr>)"
      from pending_was_proposed [OF assms(1), of txs p] p(2) assms(2) have by_admin: "handover_proposed txs s p" by simp
      then have "ap_expires_at p = sat_add_u64 (ap_proposed_at p) PROPOSAL_WINDOW_SECS" by (auto simp: handover_proposed_def)
      with p by_admin admin_token.value_after_put [of claimant "(v_admin v)\<lparr>ad_admin_proposal := None\<rparr>"] 1 show ?thesis
        using assms(4,5) by (intro disjI2 disjI1) (auto simp: stored_admin_def persistent_value sat_add_u64_def PROPOSAL_WINDOW_SECS_def ADMIN_PROPOSAL_COOLDOWN_SECS_def
            split: if_split_asm)
    qed
  next
    case (2 n)
    with ran have run: "do_execute_proposal E n v = (Ok (), w)" by (simp add: drop_result_ok entry_execute_proposal_def)
    from execute_rotates [OF this] assms(4,5) obtain p where p: "g_proposal (v_gov v) n = Some p" "pr_kind p = RotateAdmin"
        "stored_admin w = Some (pr_target p)" by auto
    from run have "pr_submitted_at p + MIN_TIMELOCK_DELAY \<le> e_timestamp E \<and>
        required_votes (total_weight v) (pr_quorum_bps p) \<le> tally v True (pr_votes p)"
      by (rule execute_effect) (use p in simp)
    with p 2 show ?thesis by blast
  qed
qed

definition handover_txs :: "(env \<times> contract_call) list" where
  "handover_txs = [(test_env, Behind_Stop (Opening (C_ProposeAdmin (Addr 3) (Addr 4))))]"

theorem admin_changes_hands_witness:
  "stored_admin (submit (gov_late\<lparr>e_auth := \<lambda>a. a = Addr 4\<rparr>, Behind_Stop (Opening (C_ClaimAdmin (Addr 4)))) (ledger_after handover_txs gov_vault)) =
     Some (Addr 4) \<and> (\<exists>p. handover_proposed handover_txs gov_vault p)"
proof -
  let ?v = "ledger_after handover_txs gov_vault" and ?E = "gov_late\<lparr>e_auth := \<lambda>a. a = Addr 4\<rparr>"
  let ?w = "submit (?E, Behind_Stop (Opening (C_ClaimAdmin (Addr 4)))) ?v"
  have "emergency_stopped gov_vault = False" by (simp add: emergency_stopped_def config_value_def gov_vault_def empty_vault_def empty_config_def)
  then have v: "?v = snd (tx (do_propose_admin test_env (Addr 3) (Addr 4)) gov_vault)"
    by (simp add: handover_txs_def ledger_after_def submit_def entry_propose_admin_def unless_stopped_def require_not_emergency_stop_def
        get_emergency_stop_def act_run tx_def)
  have before: "stored_admin ?v = Some (Addr 3)" "emergency_stopped ?v = False"
    by (simp_all add: v do_propose_admin_def set_admin_proposal_def get_admin_proposal_def act_run Let_def
        stored_admin_def config_value_def empty_vault_def emergency_stopped_def empty_config_def)
  then have w: "?w = snd (tx (do_claim_admin_role ?E (Addr 4)) ?v)"
    by (simp add: submit_def entry_claim_admin_role_def unless_stopped_def require_not_emergency_stop_def get_emergency_stop_def act_run tx_def)
  have after: "stored_admin ?w = Some (Addr 4)"
    by (simp add: w) (simp add: v do_propose_admin_def do_claim_admin_role_def set_admin_proposal_def get_admin_proposal_def
        act_run Let_def stored_admin_def config_value_def config_put_def empty_vault_def sat_add_u64_def u64_max_def PROPOSAL_WINDOW_SECS_def
        ADMIN_PROPOSAL_COOLDOWN_SECS_def gov_late_def invalidate_pending_proposals_def get_current_proposal_id_def
        current_proposal_id_def mod_gov_def schema_version_def)
  have "pending_handover gov_vault = None" by (simp add: empty_vault_def)
  from admin_changes_hands [OF this refl refl before(1), of ?E "Behind_Stop (Opening (C_ClaimAdmin (Addr 4)))"] after show ?thesis
    by auto
qed

section \<open>Handing over a subscription\<close>

text \<open>The intent that stands at the end of a run: who named the recipient, and that nothing has replaced or removed it since.\<close>

definition recipient_named :: "(env \<times> contract_call) list \<Rightarrow> vault \<Rightarrow> nat \<Rightarrow> transfer_intent \<Rightarrow> bool" where
  "recipient_named txs s i it \<longleftrightarrow> (\<exists>before E rest x.
     txs = before @ (E, Manage (X_InitiateTransfer i (ti_from it) (ti_to it) (ti_expires_at it))) # rest \<and> e_auth E (ti_from it) \<and>
     su_sub (v_subs (ledger_after before s)) i = Some x \<and> s_subscriber x = ti_from it \<and>
     (\<forall>m > length before. lf_transfer_intent (v_life (ledger_after (take m txs) s)) i = Some it))"

lemma recipient_named_snoc:
  assumes "recipient_named txs s i it" and "lf_transfer_intent (v_life (ledger_after (txs @ [y]) s)) i = Some it"
  shows "recipient_named (txs @ [y]) s i it"
proof -
  from assms(1) obtain before E rest x where
    txs: "txs = before @ (E, Manage (X_InitiateTransfer i (ti_from it) (ti_to it) (ti_expires_at it))) # rest" and
    rest: "e_auth E (ti_from it)" "su_sub (v_subs (ledger_after before s)) i = Some x" "s_subscriber x = ti_from it"
      "\<forall>m > length before. lf_transfer_intent (v_life (ledger_after (take m txs) s)) i = Some it"
    unfolding recipient_named_def by blast
  have "lf_transfer_intent (v_life (ledger_after (take m (txs @ [y])) s)) i = Some it" if "m > length before" for m
    using that rest(4) assms(2) by (cases "m \<le> length txs") (simp_all del: ledger_after_simps)
  with txs rest show ?thesis
    unfolding recipient_named_def by (intro exI [of _ before] exI [of _ E] exI [of _ "rest @ [y]"] exI [of _ x]) simp
qed

lemma standing_intent:
  "lf_transfer_intent (v_life s) = Map.empty \<Longrightarrow> lf_transfer_intent (v_life (ledger_after txs s)) i = Some it \<Longrightarrow>
     recipient_named txs s i it"
proof (induction txs arbitrary: it rule: rev_induct)
  case (snoc x txs)
  let ?v = "ledger_after txs s"
  obtain E c where x: "x = (E, c)" by (cases x)
  show ?case
  proof (cases "lf_transfer_intent (v_life ?v) i = Some it")
    case True
    then show ?thesis using snoc by (blast intro: recipient_named_snoc)
  next
    case False
    with snoc.prems have "\<not> kept_or_gone (lf_transfer_intent (v_life ?v)) (lf_transfer_intent (v_life (submit x ?v)))"
      unfolding kept_or_gone_def by (metis ledger_after_simps(2) option.distinct(1))
    with submit_withholds [of x ?v] x obtain j a b n where c: "c = Manage (X_InitiateTransfer j a b n)"
      by (auto simp: withholds_def powers_iff)
    have "submit x ?v \<noteq> ?v" using False snoc.prems(2) by auto
    then have "run_contract E c ?v = (Ok (), submit x ?v)" using x by (cases rule: submit_cases [of x ?v]) simp_all
    then obtain u where
      u: "do_initiate_transfer E j a b n (?v\<lparr>v_locks := (v_locks ?v)(''initiate_transfer'' := True)\<rparr>) = (Ok (), u)"
        "submit x ?v = release ''initiate_transfer'' u"
      by (auto simp: c drop_result_ok entry_initiate_transfer_def with_lock_ok)
    from initiate_effect [OF u(1)] u(2) False snoc.prems have it: "j = i"
        "it = \<lparr>ti_subscription_id = i, ti_from = a, ti_to = b, ti_expires_at = n\<rparr>" "e_auth E a"
        "\<exists>y. su_sub (v_subs ?v) i = Some y \<and> s_subscriber y = a"
      by (auto split: if_split_asm)
    have "\<forall>m > length txs. lf_transfer_intent (v_life (ledger_after (take m (txs @ [x])) s)) i = Some it"
      using snoc.prems(2) by (simp del: ledger_after_simps)
    with it show ?thesis
      unfolding recipient_named_def x c by (intro exI [of _ txs] exI [of _ E] exI [of _ "[]"]) auto
  qed
qed simp

lemma effective_locks [simp]: "effective E (v\<lparr>v_locks := l\<rparr>) x = effective E v x"
proof -
  have same: "grace_duration (v\<lparr>v_locks := l\<rparr>) = grace_duration v" by (simp add: grace_duration_def)
  show ?thesis unfolding effective_def grace_over_def same ..
qed

text \<open>
  C39. A transfer needs both parties. Start without pending transfers and let any transactions of any kind follow. When a transaction then accepts
  the transfer of a subscription, an earlier one was the owner of that moment, who authorised it, naming exactly the accepting address with a deadline not yet
  reached, and this offer has stood ever since: no call replaced it, vetoed it or used it up. The accepting address authorises too, and all that changes in the
  stored subscriptions is the owner of this one (and its status, where a grace period ran out); no token moves.
\<close>

theorem transfer_needs_both:
  assumes "lf_transfer_intent (v_life s) = Map.empty" and "v = ledger_after txs s"
    and "run_contract E (Manage (X_AcceptTransfer i to)) v = (Ok (), w)"
  shows "\<exists>before E0 it rest x0 x.
    txs = before @ (E0, Manage (X_InitiateTransfer i (ti_from it) to (ti_expires_at it))) # rest \<and> e_auth E0 (ti_from it) \<and>
    su_sub (v_subs (ledger_after before s)) i = Some x0 \<and> s_subscriber x0 = ti_from it \<and> ti_to it = to \<and>
    (\<forall>m > length before. lf_transfer_intent (v_life (ledger_after (take m txs) s)) i = Some it) \<and>
    e_auth E to \<and> e_timestamp E < ti_expires_at it \<and> su_sub (v_subs v) i = Some x \<and>
    su_sub (v_subs w) = (su_sub (v_subs v))(i \<mapsto> (effective E v x)\<lparr>s_subscriber := to\<rparr>) \<and> v_ledger w = v_ledger v"
proof -
  from assms(3) obtain u where u: "do_accept_transfer E i to (v\<lparr>v_locks := (v_locks v)(''accept_transfer'' := True)\<rparr>) = (Ok (), u)"
      and w: "w = release ''accept_transfer'' u"
    by (auto simp: drop_result_ok entry_accept_transfer_def with_lock_ok)
  from u obtain x it where acc: "su_sub (v_subs v) i = Some x" "lf_transfer_intent (v_life v) i = Some it" "ti_to it = to" "e_auth E to"
      "e_timestamp E < ti_expires_at it" "su_sub (v_subs u) = (su_sub (v_subs v))(i \<mapsto> (effective E v x)\<lparr>s_subscriber := to\<rparr>)"
      "v_ledger u = v_ledger v"
    by (rule accept_transfer_effect) simp
  from standing_intent [OF assms(1), of txs i it] acc(2) assms(2) have "recipient_named txs s i it" by simp
  then obtain before E0 rest x0 where
    named: "txs = before @ (E0, Manage (X_InitiateTransfer i (ti_from it) to (ti_expires_at it))) # rest" "e_auth E0 (ti_from it)"
      "su_sub (v_subs (ledger_after before s)) i = Some x0" "s_subscriber x0 = ti_from it"
      "\<forall>m > length before. lf_transfer_intent (v_life (ledger_after (take m txs) s)) i = Some it"
    unfolding recipient_named_def acc(3) by blast
  have "su_sub (v_subs w) = (su_sub (v_subs v))(i \<mapsto> (effective E v x)\<lparr>s_subscriber := to\<rparr>)" "v_ledger w = v_ledger v"
    using acc w by simp_all
  with named acc show ?thesis
    by (intro exI [of _ before] exI [of _ E0] exI [of _ it] exI [of _ rest] exI [of _ x0] exI [of _ x] conjI)
qed

definition handing_over :: "(env \<times> contract_call) list" where
  "handing_over = [(fund_env, Manage (X_InitiateTransfer 7 (Addr 2) (Addr 4) 2000000))]"

lemma handing_over_facts:
  defines "v \<equiv> ledger_after handing_over fund_vault"
  shows "v_subs v = v_subs fund_vault" "v_admin v = v_admin fund_vault" "v_blocklist v = v_blocklist fund_vault" "v_locks v = v_locks fund_vault"
    "v_life v = (v_life fund_vault)\<lparr>lf_transfer_intent := [7 \<mapsto>
        \<lparr>ti_subscription_id = 7, ti_from = Addr 2, ti_to = Addr 4, ti_expires_at = 2000000\<rparr>]\<rparr>"
proof -
  let ?s = "fund_vault\<lparr>v_locks := (v_locks fund_vault)(''initiate_transfer'' := True)\<rparr>"
  have none: "lf_transfer_intent (v_life fund_vault) = Map.empty" "v_locks fund_vault = (\<lambda>_. False)"
    by (simp_all add: fund_vault_def empty_vault_def)
  have "\<exists>u. do_initiate_transfer fund_env 7 (Addr 2) (Addr 4) 2000000 ?s = (Ok (), u)"
    by (simp add: do_initiate_transfer_def act_ok)
  then obtain u where u: "do_initiate_transfer fund_env 7 (Addr 2) (Addr 4) 2000000 ?s = (Ok (), u)" ..
  then have "run_contract fund_env (Manage (X_InitiateTransfer 7 (Addr 2) (Addr 4) 2000000)) fund_vault = (Ok (), release ''initiate_transfer'' u)"
    by (auto simp: drop_result_ok entry_initiate_transfer_def with_lock_ok none)
  then have "v = release ''initiate_transfer'' u" by (simp add: v_def handing_over_def ledger_after_def submit_def tx_def)
  with u show "v_subs v = v_subs fund_vault" "v_admin v = v_admin fund_vault" "v_blocklist v = v_blocklist fund_vault"
      "v_locks v = v_locks fund_vault" "v_life v = (v_life fund_vault)\<lparr>lf_transfer_intent := [7 \<mapsto>
        \<lparr>ti_subscription_id = 7, ti_from = Addr 2, ti_to = Addr 4, ti_expires_at = 2000000\<rparr>]\<rparr>"
    by (auto simp: do_initiate_transfer_def act_ok release_def none split: if_split_asm)
qed

theorem transfer_needs_both_witness:
  "\<exists>w. run_contract fund_env (Manage (X_AcceptTransfer 7 (Addr 4))) (ledger_after handing_over fund_vault) = (Ok (), w) \<and>
     su_sub (v_subs w) 7 = Some (stored_sub\<lparr>s_subscriber := Addr 4\<rparr>)"
proof -
  let ?v = "ledger_after handing_over fund_vault"
  let ?s = "?v\<lparr>v_locks := (v_locks ?v)(''accept_transfer'' := True)\<rparr>"
  note facts = handing_over_facts
  have none: "lf_credit_limit (v_life fund_vault) (Addr 4) = Map.empty" "lf_transfer_intent (v_life fund_vault) = Map.empty"
      "lf_active_cap (v_life fund_vault) = Map.empty" "v_locks fund_vault = (\<lambda>_. False)"
    by (simp_all add: fund_vault_def empty_vault_def)
  have credit: "enforce_credit_limit_for_delta (Addr 4) (Addr 9) 6000 v = (Ok (), v)"
    if "lf_credit_limit (v_life v) (Addr 4) (Addr 9) = None" for v
    using that by (simp add: enforce_credit_limit_for_delta_def get_subscriber_credit_limit_def credit_limit_of_def act_run)
  have "\<exists>u. do_accept_transfer fund_env 7 (Addr 4) ?s = (Ok (), u)"
    by (simp add: do_accept_transfer_def complete_transfer_def hand_over_def act_ok credit none facts safe_add_def checked_add_i128_def fund_fits
        active_count_def active_cap_def DEFAULT_SUBSCRIBER_ACTIVE_CAP_def)
  then obtain w where run: "run_contract fund_env (Manage (X_AcceptTransfer 7 (Addr 4))) ?v = (Ok (), w)"
    by (auto simp: drop_result_ok entry_accept_transfer_def with_lock_ok facts none)
  from transfer_needs_both [OF none(2) refl run] run facts show ?thesis by auto
qed

end
