(* ===== verification/Spec2Isabelle.thy ===== *)
theory Spec2Isabelle
  imports
    Vault_Prelude Vault_Types Safe_Math Validation Status_Machine Vault_State Vault_Interfaces
    Nonces Admin_Config Idempotency Statements Period_Snapshots Admin_Settings Subscription_Reads
    Merchant_Profile Merchant_Ledger Coupons Oracle Proration Charge_Core Charge_Facts
    Charge_Invariant Charge_Claims
    Subscription_Limits Subscription_Create Subscription_Funds Subscription_Custody Subscription_Status
    Subscription_Claims Direct_Charges Plans Transfers
    Usage_Charge Disputes Governance Metadata
    Batch_Charge Admin_Ops Migration Merchant_Admin Queries Entry_Points Entry_Delegates Entry_Views Entry_Claims
    History History_Ops Contract_History Authority Authority_Ops Contract_Claims
begin

text \<open>
  A verification development for the prepaid subscription vault, a Soroban smart contract
  (\<^verbatim>\<open>contracts/subscription_vault/src\<close>, crate \<^verbatim>\<open>subscription_vault\<close>).
  Subscribers deposit tokens into the vault, merchants charge intervals, usage and one-off amounts
  against the deposits and withdraw what they earned, an admin configures the vault.

  \<^bold>\<open>The model.\<close> The ledger storage of the contract is the record \<open>vault\<close> of \<open>Vault_State\<close>: one store
  per component, one field per storage key of \<open>DataKey\<close>, a map from the key's arguments to the stored
  value. A contract function is a computation of type \<open>'a vm\<close>, a function from the vault to a result
  and the vault afterwards; results are \<open>Ok\<close>, \<open>Err\<close> with one of the contract's error codes
  (\<open>Vault_Types\<close>), or \<open>Panic\<close>. As in the host, the caller of an entry point discards all writes of a
  call that ends in an error or a panic (\<open>tx\<close>); inside a call they stay, and this is what
  \<open>attempt\<close> models for the places where the code goes on after an error. \<open>i128\<close> values are integers
  with explicit range checks (\<open>fits_i128\<close>) or with the wrap-around of the release profile
  (\<open>wrap_i128\<close>); \<open>u32\<close> and \<open>u64\<close> values are natural numbers with saturation and checks where the code
  has them. The environment record \<open>env\<close> holds what is not under the contract's control: ledger time
  and sequence, who has authorised the call, the hash function, the token contract and the price
  oracle. Its functions are parameters of every statement; the ones a property relies on are named in
  its hypotheses.

  \<^bold>\<open>Theories.\<close>
  \<^item> \<open>Vault_Prelude\<close>: results, the computation combinators and their evaluation (\<open>act_run\<close>), inversion
    (\<open>act_ok\<close>), frame (\<open>keeps_intro\<close>) and invariant preservation (\<open>pres_intro\<close>) rules.
  \<^item> \<open>Vault_Types\<close>, \<open>Vault_State\<close>: \<^verbatim>\<open>types.rs\<close>, the error codes, records and storage.
  \<^item> \<open>Safe_Math\<close>, \<open>Validation\<close>, \<open>Status_Machine\<close>: \<^verbatim>\<open>safe_math.rs\<close>, \<^verbatim>\<open>validation.rs\<close>,
    \<^verbatim>\<open>state_machine.rs\<close>; the arithmetic is exact inside its range, the status relation has no way
    back from a closed status.
  \<^item> \<open>Vault_Interfaces\<close>: the locales \<open>replay_counter\<close> (a counter that only accepts its next value) and
    \<open>balance_book\<close> (a credited and debited balance) that the components below interpret.
  \<^item> \<open>Nonces\<close>, \<open>Idempotency\<close>, \<open>Statements\<close>, \<open>Period_Snapshots\<close>: \<^verbatim>\<open>nonce.rs\<close>,
    \<^verbatim>\<open>idempotency.rs\<close>, the inline module \<open>statements\<close> of \<^verbatim>\<open>lib.rs\<close>, \<^verbatim>\<open>period_snapshots.rs\<close>;
    replay protection, the exact time window of a key, conservation under compaction, the index
    invariant of the snapshots.
  \<^item> \<open>Admin_Config\<close>, \<open>Admin_Settings\<close>: the two-tier configuration of \<^verbatim>\<open>admin.rs\<close>, authorisation,
    the change cooldown, settings, \<^verbatim>\<open>blocklist.rs\<close>.
  \<^item> \<open>Subscription_Reads\<close>: \<open>get_subscription\<close> of \<^verbatim>\<open>queries.rs\<close> with the effective status.
  \<^item> \<open>Merchant_Profile\<close>, \<open>Merchant_Ledger\<close>: \<^verbatim>\<open>merchant.rs\<close>; the books of every merchant stay balanced
    under credits, refunds and payouts, withdrawals settle exactly.
  \<^item> \<open>Coupons\<close>: \<^verbatim>\<open>coupon.rs\<close>; redemption limits and the discount formula.
  \<^item> \<open>Oracle\<close>: \<^verbatim>\<open>oracle_adapter.rs\<close> and the inline module \<open>oracle\<close> of \<^verbatim>\<open>lib.rs\<close>.
  \<^item> \<open>Proration\<close>, \<open>Charge_Core\<close>, \<open>Charge_Facts\<close>, \<open>Charge_Invariant\<close>, \<open>Charge_Claims\<close>:
    \<^verbatim>\<open>charge_core.rs\<close>. \<open>Charge_Core\<close> cuts \<open>charge_one\<close> into its gates and stages in the order of
    the code; since the salt the code computes panics, the properties of what follows are stated for
    \<open>charge_one_with\<close>, which takes the salt computation as an argument, and \<open>charge_one\<close> is its instance
    with the code's own salt.

  \<^item> \<open>Subscription_Limits\<close>, \<open>Subscription_Create\<close>, \<open>Subscription_Funds\<close>, \<open>Subscription_Status\<close>:
    \<^verbatim>\<open>subscription.rs\<close>, creation with its gates, deposits and withdrawals, scheduling, pausing and the
    bulk operations. \<open>Subscription_Custody\<close> and \<open>Subscription_Claims\<close>: the vault holds what it owes the
    subscribers, limits hold, and six operations on schedule and status belong to the parties and move no money.
  \<^item> \<open>Direct_Charges\<close>: one-off charges and the grace buyout; \<open>Plans\<close>: plan templates and migration;
    \<open>Transfers\<close>: transfers of ownership and usage limits; \<open>Usage_Charge\<close>: metered charges of \<^verbatim>\<open>charge_core.rs\<close>.
  \<^item> \<open>Disputes\<close>: \<^verbatim>\<open>dispute.rs\<close>, disputed merchant money in escrow, its conservation and settlement.
  \<^item> \<open>Governance\<close>: \<^verbatim>\<open>governance.rs\<close> and the multi-signature checks of \<^verbatim>\<open>admin.rs\<close>; timelock and quorum
    hold and a proposal is executed once, but only the admin can vote.
  \<^item> \<open>Metadata\<close>: \<^verbatim>\<open>metadata.rs\<close>, the bounded index of keys and updates signed off chain. What the check of strings accepts is
    characterised independently of the code, as the UTF-8 encodings of sequences of Unicode scalar values (\<open>validate_utf8_string_iff\<close>).

  \<^item> \<open>Batch_Charge\<close>, \<open>Admin_Ops\<close>, \<open>Migration\<close>: \<^verbatim>\<open>admin.rs\<close> and the inline module \<open>operator\<close> of \<^verbatim>\<open>lib.rs\<close>; a batch
    with its caches equals single charges, what proposing and claiming the admin role do, the schema migration ends and keeps the settings it names.
  \<^item> \<open>Merchant_Admin\<close>: configuration, tags and the rotation of a merchant address; \<open>Queries\<close>: the paged views and the
    reconciliation of \<^verbatim>\<open>queries.rs\<close>, paging is complete.
  \<^item> \<open>Entry_Points\<close>, \<open>Entry_Claims\<close>: what the entry points of \<^verbatim>\<open>lib.rs\<close> add to the operations, emergency stop, the locks of
    \<^verbatim>\<open>reentrancy.rs\<close>, events, payee splits, export and restoration of snapshots. \<open>Entry_Delegates\<close> and
    \<open>Entry_Views\<close>: the entry points that only pass their arguments on, the writing ones and the reads, which write nothing.
  \<^item> \<open>History\<close>, \<open>History_Ops\<close>, \<open>Contract_History\<close>: the locale \<open>history\<close> of relations that every operation moves along,
    with one rule per combinator; its first interpretation \<open>evolves\<close> says what is never taken back and from whom tokens may be taken. Its parameter of type
    \<open>power\<close> names the three things few calls do (set the time to live of keys, propose an admin, offer a subscription);
    the relation keeps live idempotency keys, the pending proposal and the standing offers along every call without the power to change them.
    \<open>Contract_History\<close> has one constructor per writing entry point and the transactions that call them.
  \<^item> \<open>Authority\<close>, \<open>Authority_Ops\<close>: the second interpretation, \<open>governed\<close>; settings change only with the admin's authorisation.
  \<^item> \<open>Contract_Claims\<close>: what an idempotency key, a proposed admin and a named recipient mean with any transactions of any kind in between;
    these properties follow from the two interpretations and the effect of the one operation concerned.

  \<^bold>\<open>Bounds and termination.\<close> Loops of the code run over stored lists and are structural recursion here,
  so no fuel is needed; the migration loop is a recursive function whose measure is the number of versions left, and
  the client that follows a query's cursor takes as fuel the number of ids, which is enough because each page moves the cursor on. Amounts are bounded by \<open>MAX_SUBSCRIPTION_AMOUNT\<close> where a product could wrap.

  \<^bold>\<open>Not modelled.\<close> Storage time-to-live extensions and their setting (no effect on values), the encoding of keys and
  events in XDR, \<^verbatim>\<open>accounting.rs\<close> and \<^verbatim>\<open>oracle.rs\<close> (shadowed by inline modules of \<^verbatim>\<open>lib.rs\<close> and not
  compiled), \<^verbatim>\<open>invariants.rs\<close>, tests, benches and scripts.
\<close>

end
